(* ===== verification/Prelude.thy ===== *)
theory Prelude
  imports Complex_Main "HOL-Library.Word" "HOL-Library.Sublist"
begin

text \<open>
  What every component shares: the types that name the program's data, the string functions of
  Go's \<open>strings\<close> package the program calls, the collections that carry the component proofs,
  and the generic lemmas on sums, options, maps and lists.

  Conventions. A Go function that returns \<open>(T, error)\<close> is a function into \<open>err + T\<close>, with
  \<open>Inl\<close> for the error; a function that also changes state takes the state last and returns it
  beside the result, on the error paths too. Strings are byte lists; case folding follows ASCII,
  so a model or provider name outside ASCII is compared byte by byte. A time is a number of
  nanoseconds since the epoch, a clock is a function that gives the successive readings of one
  call, a UUID is its 128 bits.
\<close>

type_synonym uuid = "128 word"
type_synonym u64 = "64 word"
type_synonym u32 = "32 word"
type_synonym u8 = "8 word"
type_synonym time = int
type_synonym duration = int
type_synonym clock = "nat \<Rightarrow> time"

named_theorems op_defs \<open>definitions of the operations of a component\<close>
named_theorems wf_rules \<open>preservation of the well-formedness invariants\<close>

abbreviation second :: duration where "second \<equiv> 1000000000"
abbreviation minute :: duration where "minute \<equiv> 60000000000"
abbreviation hour :: duration where "hour \<equiv> 3600000000000"

section \<open>Strings\<close>

definition lower_char :: "char \<Rightarrow> char" where
  "lower_char c = (if of_char c \<in> {65::nat..90} then char_of (of_char c + 32::nat) else c)"

definition to_lower :: "string \<Rightarrow> string" where
  "to_lower s = map lower_char s"

definition is_space :: "char \<Rightarrow> bool" where
  "is_space c \<longleftrightarrow> of_char c \<in> {9::nat, 10, 11, 12, 13, 32}"

definition trim_space :: "string \<Rightarrow> string" where
  "trim_space s = rev (dropWhile is_space (rev (dropWhile is_space s)))"

fun str_contains :: "string \<Rightarrow> string \<Rightarrow> bool" where
  "str_contains [] p \<longleftrightarrow> p = []"
| "str_contains (c # s) p \<longleftrightarrow> prefix p (c # s) \<or> str_contains s p"

definition equal_fold :: "string \<Rightarrow> string \<Rightarrow> bool" where
  "equal_fold a b \<longleftrightarrow> to_lower a = to_lower b"

lemma str_contains_iff: "str_contains s p \<longleftrightarrow> sublist p s"
  by (induction s) (auto simp: sublist_Cons_right)

lemma str_contains_empty [simp]: "str_contains s []"
  by (cases s) auto

lemma str_contains_refl [simp]: "str_contains s s"
  by (simp add: str_contains_iff)

lemma equal_fold_refl [simp]: "equal_fold a a"
  by (simp add: equal_fold_def)

lemma equal_fold_sym: "equal_fold a b \<longleftrightarrow> equal_fold b a"
  by (auto simp: equal_fold_def)

lemma equal_fold_trans: "equal_fold a b \<Longrightarrow> equal_fold b c \<Longrightarrow> equal_fold a c"
  by (simp add: equal_fold_def)

lemma lower_char_idem [simp]: "lower_char (lower_char c) = lower_char c"
proof (cases "of_char c \<in> {65::nat..90}")
  case True
  then have "(of_char c + 32 :: nat) mod 256 = of_char c + 32"
    by auto
  then have "of_char (char_of (of_char c + 32 :: nat)) = (of_char c + 32 :: nat)"
    by (simp only: of_char_of)
  with True show ?thesis by (auto simp: lower_char_def)
next
  case False
  then have "lower_char c = c" by (auto simp: lower_char_def)
  then show ?thesis by simp
qed

lemma to_lower_idem [simp]: "to_lower (to_lower s) = to_lower s"
  by (simp add: to_lower_def)

lemma equal_fold_lower [simp]: "equal_fold (to_lower a) b \<longleftrightarrow> equal_fold a b"
  by (simp add: equal_fold_def)

section \<open>Results\<close>

definition is_ok :: "'e + 'a \<Rightarrow> bool" where
  "is_ok r \<longleftrightarrow> (case r of Inl _ \<Rightarrow> False | Inr _ \<Rightarrow> True)"

lemma is_ok_simps [simp]: "is_ok (Inr x)" "\<not> is_ok (Inl e)"
  by (simp_all add: is_ok_def)

lemma is_ok_iff: "is_ok r \<longleftrightarrow> (\<exists>x. r = Inr x)"
  by (cases r) auto

section \<open>Lists\<close>

lemma filter_find_first:
  "find P xs = Some x \<longleftrightarrow> (\<exists>ys zs. xs = ys @ x # zs \<and> P x \<and> (\<forall>y \<in> set ys. \<not> P y))"
proof (induction xs)
  case Nil
  then show ?case by simp
next
  case (Cons a xs)
  show ?case
  proof (cases "P a")
    case True
    then show ?thesis
      by (auto simp: Cons_eq_append_conv)
  next
    case False
    then have "find P (a # xs) = Some x \<longleftrightarrow> find P xs = Some x" by simp
    also have "\<dots> \<longleftrightarrow> (\<exists>ys zs. xs = ys @ x # zs \<and> P x \<and> (\<forall>y \<in> set ys. \<not> P y))"
      by (rule Cons.IH)
    also have "\<dots> \<longleftrightarrow> (\<exists>ys zs. a # xs = ys @ x # zs \<and> P x \<and> (\<forall>y \<in> set ys. \<not> P y))"
    proof
      assume "\<exists>ys zs. xs = ys @ x # zs \<and> P x \<and> (\<forall>y \<in> set ys. \<not> P y)"
      then obtain ys zs where "xs = ys @ x # zs" "P x" "\<forall>y \<in> set ys. \<not> P y" by blast
      with False have "a # xs = (a # ys) @ x # zs \<and> P x \<and> (\<forall>y \<in> set (a # ys). \<not> P y)" by simp
      then show "\<exists>ys zs. a # xs = ys @ x # zs \<and> P x \<and> (\<forall>y \<in> set ys. \<not> P y)" by blast
    qed (use False in \<open>auto simp: Cons_eq_append_conv\<close>)
    finally show ?thesis .
  qed
qed

lemma find_None_all: "find P xs = None \<longleftrightarrow> (\<forall>x \<in> set xs. \<not> P x)"
  by (auto simp: find_None_iff)

lemma find_SomeD: "find P xs = Some x \<Longrightarrow> P x \<and> x \<in> set xs"
  by (auto simp: find_Some_iff)

section \<open>Words\<close>

text \<open>
  \<open>int64(v)\<close> of a \<open>uint64\<close> keeps the bits: below \<open>2^63\<close> it is the value itself, above it
  is negative.
\<close>

lemma sint_u64_small:
  assumes "unat (v::u64) < 2 ^ 63"
  shows "sint v = int (unat v)"
proof -
  have "sint v = signed_take_bit 63 (uint v)" by (simp only: sint_uint) simp
  also have "\<dots> = uint v"
  proof (rule signed_take_bit_int_eq_self)
    show "- (2 ^ 63) \<le> uint v" by (rule order_trans [OF _ uint_ge_0]) simp
    from assms have "int (unat v) < int (2 ^ 63)" by (simp only: of_nat_less_iff)
    then have "int (unat v) < 2 ^ 63" by (simp only: of_nat_power of_nat_numeral)
    then show "uint v < 2 ^ 63" by (simp only: uint_nat)
  qed
  finally show ?thesis by (simp only: uint_nat)
qed

lemma rat_of_u64: "unat (v::u64) < 2 ^ 63 \<Longrightarrow> (of_int (sint v) :: rat) = of_nat (unat v)"
  by (simp only: sint_u64_small of_int_of_nat_eq)

lemma rat_of_u64_bounds:
  assumes "(v::u64) \<le> w" "unat w < 2 ^ 63"
  shows "0 \<le> (of_int (sint v) :: rat)" "(of_int (sint v) :: rat) \<le> of_int (sint w)"
proof -
  have le: "unat v \<le> unat w" using assms(1) by (simp only: word_le_nat_alt)
  have v: "unat v < 2 ^ 63" using le assms(2) by (rule le_less_trans)
  show "0 \<le> (of_int (sint v) :: rat)" by (simp only: rat_of_u64 [OF v] of_nat_0_le_iff)
  show "(of_int (sint v) :: rat) \<le> of_int (sint w)"
    by (simp only: rat_of_u64 [OF v] rat_of_u64 [OF assms(2)] of_nat_le_iff le)
qed

lemma rat_of_u64_pos: "(v::u64) \<noteq> 0 \<Longrightarrow> unat v < 2 ^ 63 \<Longrightarrow> 0 < (of_int (sint v) :: rat)"
  by (simp only: rat_of_u64 of_nat_0_less_iff unat_gt_0 simp_thms)

lemma unsigned_rat_nonneg [simp]: "0 \<le> (unsigned (w :: 'a::len word) :: rat)"
  using of_nat_0_le_iff [where 'a = rat, of "unat w"] by (simp only: of_nat_unat)

lemma unsigned_rat_mono: "v \<le> w \<Longrightarrow> (unsigned (v :: 'a::len word) :: rat) \<le> unsigned w"
  using of_nat_le_iff [where 'a = rat, of "unat v" "unat w"]
  by (simp only: of_nat_unat word_le_nat_alt)

lemma unat_gt_0_u64: "(v::u64) \<noteq> 0 \<Longrightarrow> 0 < unat v"
  by (simp add: unat_gt_0)

end
