(* ===== verification/Decimal.thy ===== *)
theory Decimal
  imports Prelude
begin

text \<open>
  Money. A \<open>decimal.Decimal\<close> of shopspring/decimal is modelled by the rational number it denotes:
  the library documents \<open>Add\<close>, \<open>Sub\<close>, \<open>Mul\<close> and the comparisons as exact on it.
  \<open>Div\<close> is not exact, and the library is not part of the repository, so the quotient is a parameter
  \<open>dv\<close> of every definition that divides. What the library documents about it is the locale
  \<open>decimal_division\<close>: the result is a multiple of \<open>10^-16\<close> (\<open>DivisionPrecision\<close>) nearest to the
  true quotient. Division by zero panics; the models test for it before they call \<open>dv\<close>.

  A PostgreSQL column of type \<open>DECIMAL(20,9)\<close> stores a value rounded to nine digits or refuses it.
  The database is not part of the repository either: the coercion is a parameter \<open>col\<close>, and its
  documented laws are the locale \<open>numeric_column\<close>.
\<close>

type_synonym decimal = rat

section \<open>Numbers with a fixed number of digits\<close>

definition on_grid :: "nat \<Rightarrow> rat \<Rightarrow> bool" where
  "on_grid s x \<longleftrightarrow> of_int \<lfloor>x * 10 ^ s\<rfloor> = x * 10 ^ s"

definition nearest :: "nat \<Rightarrow> rat \<Rightarrow> rat \<Rightarrow> bool" where
  "nearest s x y \<longleftrightarrow> on_grid s y \<and> \<bar>y - x\<bar> * (2 * 10 ^ s) \<le> 1"

lemma on_gridE:
  assumes "on_grid s x"
  obtains k :: int where "x * 10 ^ s = of_int k"
  using assms unfolding on_grid_def by metis

lemma on_gridI: "x * 10 ^ s = of_int k \<Longrightarrow> on_grid s x"
  by (simp add: on_grid_def)

lemma on_grid_int [simp]: "on_grid s (of_int k)"
  by (rule on_gridI [of _ _ "k * 10 ^ s"]) simp

lemma on_grid_0 [simp]: "on_grid s 0"
  using on_grid_int [of s 0] by simp

lemma on_grid_minus [simp]: "on_grid s (- x) \<longleftrightarrow> on_grid s x"
proof -
  have "on_grid s (- y)" if "on_grid s y" for y :: rat
  proof -
    from that obtain k :: int where "y * 10 ^ s = of_int k" by (rule on_gridE)
    then have "- y * 10 ^ s = of_int (- k)" by simp
    then show ?thesis by (rule on_gridI)
  qed
  from this [of x] this [of "- x"] show ?thesis by auto
qed

lemma on_grid_add: "on_grid s x \<Longrightarrow> on_grid s y \<Longrightarrow> on_grid s (x + y)"
proof -
  assume "on_grid s x" "on_grid s y"
  then obtain k l :: int where "x * 10 ^ s = of_int k" "y * 10 ^ s = of_int l"
    by (elim on_gridE)
  then have "(x + y) * 10 ^ s = of_int (k + l)" by (simp add: distrib_right)
  then show ?thesis by (rule on_gridI)
qed

lemma on_grid_diff: "on_grid s x \<Longrightarrow> on_grid s y \<Longrightarrow> on_grid s (x - y)"
  using on_grid_add [of s x "- y"] by simp

lemma nearest_le:
  assumes n: "nearest s x y" and g: "on_grid s z" and le: "x \<le> z"
  shows "y \<le> z"
proof (rule ccontr)
  assume "\<not> y \<le> z"
  have N: "(0 :: rat) < 10 ^ s" by simp
  from n obtain k :: int where k: "y * 10 ^ s = of_int k"
    unfolding nearest_def by (auto elim: on_gridE)
  from g obtain l :: int where l: "z * 10 ^ s = of_int l" by (rule on_gridE)
  from \<open>\<not> y \<le> z\<close> N have "z * 10 ^ s < y * 10 ^ s" by simp
  with k l have "l + 1 \<le> k" by simp
  then have "of_int (l + 1) \<le> (of_int k :: rat)" by (simp only: of_int_le_iff)
  with k l have a: "z * 10 ^ s + 1 \<le> y * 10 ^ s" by simp
  have "(y - x) * (2 * 10 ^ s) \<le> \<bar>y - x\<bar> * (2 * 10 ^ s)"
    by (rule mult_right_mono) auto
  with n have "(y - x) * (2 * 10 ^ s) \<le> 1" unfolding nearest_def by linarith
  then have b: "2 * (y * 10 ^ s) - 2 * (x * 10 ^ s) \<le> 1" by (simp add: algebra_simps)
  from le N have "x * 10 ^ s \<le> z * 10 ^ s" by simp
  with a b show False by linarith
qed

lemma nearest_minus: "nearest s x y \<Longrightarrow> nearest s (- x) (- y)"
  by (simp add: nearest_def abs_minus_commute)

lemma nearest_ge: "nearest s x y \<Longrightarrow> on_grid s z \<Longrightarrow> z \<le> x \<Longrightarrow> z \<le> y"
  using nearest_le [OF nearest_minus, of s x y "- z"] by simp

lemma nearest_exact: "nearest s x y \<Longrightarrow> on_grid s x \<Longrightarrow> y = x"
  using nearest_le [of s x y x] nearest_ge [of s x y x] by simp

lemma nearest_mono:
  assumes n: "nearest s x y" "nearest s x' y'" and lt: "x < x'"
  shows "y \<le> y'"
proof (rule ccontr)
  assume "\<not> y \<le> y'"
  have N: "(0 :: rat) < 10 ^ s" by simp
  from n obtain k l :: int where k: "y * 10 ^ s = of_int k" and l: "y' * 10 ^ s = of_int l"
    unfolding nearest_def by (auto elim!: on_gridE)
  from \<open>\<not> y \<le> y'\<close> N have "y' * 10 ^ s < y * 10 ^ s" by simp
  with k l have "l + 1 \<le> k" by simp
  then have "of_int (l + 1) \<le> (of_int k :: rat)" by (simp only: of_int_le_iff)
  with k l have a: "y' * 10 ^ s + 1 \<le> y * 10 ^ s" by simp
  have "(y - x) * (2 * 10 ^ s) \<le> \<bar>y - x\<bar> * (2 * 10 ^ s)" "(x' - y') * (2 * 10 ^ s) \<le> \<bar>y' - x'\<bar> * (2 * 10 ^ s)"
    by (auto intro!: mult_right_mono)
  with n have "(y - x) * (2 * 10 ^ s) \<le> 1" "(x' - y') * (2 * 10 ^ s) \<le> 1"
    unfolding nearest_def by linarith+
  then have b: "2 * (y * 10 ^ s) - 2 * (x * 10 ^ s) \<le> 1" "2 * (x' * 10 ^ s) - 2 * (y' * 10 ^ s) \<le> 1"
    by (simp_all add: algebra_simps)
  from lt N have "x * 10 ^ s < x' * 10 ^ s" by simp
  with a b show False by linarith
qed

section \<open>Division to sixteen digits\<close>

locale decimal_division =
  fixes dv :: "decimal \<Rightarrow> decimal \<Rightarrow> decimal"
  assumes dv_nearest: "b \<noteq> 0 \<Longrightarrow> nearest 16 (a / b) (dv a b)"
begin

lemma dv_exact: "b \<noteq> 0 \<Longrightarrow> on_grid 16 (a / b) \<Longrightarrow> dv a b = a / b"
  using dv_nearest nearest_exact by blast

lemma dv_grid: "b \<noteq> 0 \<Longrightarrow> on_grid 16 (dv a b)"
  using dv_nearest [of b a] by (simp add: nearest_def)

lemma dv_0 [simp]: "b \<noteq> 0 \<Longrightarrow> dv 0 b = 0"
  by (simp add: dv_exact)

lemma dv_self [simp]: "b \<noteq> 0 \<Longrightarrow> dv b b = 1"
  using dv_exact [of b b] on_grid_int [of 16 1] by simp

lemma dv_mono: "0 < b \<Longrightarrow> a \<le> a' \<Longrightarrow> dv a b \<le> dv a' b"
  using nearest_mono [OF dv_nearest dv_nearest, of b b a a']
  by (cases "a = a'") (auto simp: divide_strict_right_mono)

lemma dv_nonneg: "0 < b \<Longrightarrow> 0 \<le> a \<Longrightarrow> 0 \<le> dv a b"
  using dv_mono [of b 0 a] by simp

lemma dv_neg: "0 < b \<Longrightarrow> a \<le> 0 \<Longrightarrow> dv a b \<le> 0"
  using dv_mono [of b a 0] by simp

lemma dv_le_grid: "0 < b \<Longrightarrow> on_grid 16 z \<Longrightarrow> a / b \<le> z \<Longrightarrow> dv a b \<le> z"
  by (rule nearest_le [OF dv_nearest]) auto

lemma dv_ge_grid: "0 < b \<Longrightarrow> on_grid 16 z \<Longrightarrow> z \<le> a / b \<Longrightarrow> z \<le> dv a b"
  by (rule nearest_ge [OF dv_nearest]) auto

end

text \<open>Rounding half away from zero at a given scale: the documented behaviour, computed.\<close>

definition round_at :: "nat \<Rightarrow> rat \<Rightarrow> rat" where
  "round_at s x =
     (if 0 \<le> x then of_int \<lfloor>x * 10 ^ s + 1 / 2\<rfloor> / 10 ^ s
      else - (of_int \<lfloor>- x * 10 ^ s + 1 / 2\<rfloor> / 10 ^ s))"

definition div16 :: "decimal \<Rightarrow> decimal \<Rightarrow> decimal" where
  "div16 a b = round_at 16 (a / b)"

lemma nearest_round_at: "nearest s x (round_at s x)"
proof -
  have N: "(10 :: rat) ^ s \<noteq> 0" by simp
  have key: "nearest s y (of_int \<lfloor>y * 10 ^ s + 1 / 2\<rfloor> / 10 ^ s)" for y :: rat
  proof -
    define f where "f = \<lfloor>y * 10 ^ s + 1 / 2\<rfloor>"
    have "of_int f \<le> y * 10 ^ s + 1 / 2" "y * 10 ^ s + 1 / 2 < of_int f + 1"
      unfolding f_def by (rule of_int_floor_le, rule floor_correct [THEN conjunct2, unfolded of_int_add of_int_1])
    then have "\<bar>of_int f - y * 10 ^ s\<bar> * 2 \<le> 1" by (simp add: abs_le_iff abs_if)
    moreover have "\<bar>of_int f / 10 ^ s - y\<bar> * (2 * 10 ^ s) = \<bar>of_int f - y * 10 ^ s\<bar> * 2"
    proof -
      have "\<bar>of_int f / 10 ^ s - y\<bar> * (2 * 10 ^ s) = \<bar>(of_int f / 10 ^ s - y) * 10 ^ s\<bar> * 2"
        by (simp add: abs_mult)
      also have "(of_int f / 10 ^ s - y) * 10 ^ s = of_int f - y * 10 ^ s"
        using N by (simp add: left_diff_distrib)
      finally show ?thesis .
    qed
    ultimately show ?thesis
      using N by (auto simp: nearest_def f_def [symmetric] intro: on_gridI [of _ _ f])
  qed
  show ?thesis
    using key [of x] nearest_minus [OF key [of "- x"]] by (auto simp: round_at_def)
qed

interpretation d16: decimal_division div16
  by unfold_locales (simp add: div16_def nearest_round_at)

section \<open>Stored columns\<close>

text \<open>A column \<open>DECIMAL(p,s)\<close> has \<open>s\<close> digits after the point and \<open>p - s\<close> before it.\<close>

locale numeric_column =
  fixes p s :: nat and col :: "decimal \<Rightarrow> decimal option"
  assumes scale_less: "s < p"
    and col_nearest: "col x = Some y \<Longrightarrow> nearest s x y"
    and col_small: "\<bar>x\<bar> \<le> 10 ^ (p - s - 1) \<Longrightarrow> \<exists>y. col x = Some y"
    and col_idem: "col x = Some y \<Longrightarrow> col y = Some y"
begin

lemma col_exact: "col x = Some y \<Longrightarrow> on_grid s x \<Longrightarrow> y = x"
  using col_nearest nearest_exact by blast

lemma col_grid: "col x = Some y \<Longrightarrow> on_grid s y"
  using col_nearest [of x y] by (simp add: nearest_def)

lemma col_mono: "col x = Some y \<Longrightarrow> col x' = Some y' \<Longrightarrow> x \<le> x' \<Longrightarrow> y \<le> y'"
  using nearest_mono [OF col_nearest col_nearest, of x y x' y'] by (cases "x = x'") auto

lemma col_nonneg: "col x = Some y \<Longrightarrow> 0 \<le> x \<Longrightarrow> 0 \<le> y"
  using nearest_ge [OF col_nearest, of x y 0] by simp

lemma col_nonpos: "col x = Some y \<Longrightarrow> x \<le> 0 \<Longrightarrow> y \<le> 0"
  using nearest_le [OF col_nearest, of x y 0] by simp

lemma col_0 [simp]: "col 0 = Some 0"
  using col_small [of 0] col_exact [of 0] by auto

lemma col_stored: "on_grid s x \<Longrightarrow> \<bar>x\<bar> \<le> 10 ^ (p - s - 1) \<Longrightarrow> col x = Some x"
  using col_small [of x] col_exact [of x] by auto

end

definition numeric :: "nat \<Rightarrow> nat \<Rightarrow> decimal \<Rightarrow> decimal option" where
  "numeric p s x = (let y = round_at s x in if \<bar>y\<bar> < 10 ^ (p - s) then Some y else None)"

lemma round_at_bound:
  assumes "\<bar>x\<bar> \<le> of_int k"
  shows "\<bar>round_at s x\<bar> \<le> of_int k"
proof -
  have "round_at s x \<le> of_int k"
    using assms by (intro nearest_le [OF nearest_round_at]) auto
  moreover have "of_int (- k) \<le> round_at s x"
    using assms by (intro nearest_ge [OF nearest_round_at]) auto
  ultimately show ?thesis by simp
qed

lemma numeric_columnI: "s < p \<Longrightarrow> numeric_column p s (numeric p s)"
proof unfold_locales
  show "numeric p s x = Some y \<Longrightarrow> nearest s x y" for x y
    by (auto simp: numeric_def Let_def nearest_round_at split: if_splits)
  show "\<exists>y. numeric p s x = Some y" if "s < p" "\<bar>x\<bar> \<le> 10 ^ (p - s - 1)" for x
  proof -
    have "\<bar>round_at s x\<bar> \<le> 10 ^ (p - s - 1)"
      using round_at_bound [of x "10 ^ (p - s - 1)" s] that by simp
    also have "\<dots> < (10 :: rat) ^ (p - s)"
      using that(1) by (intro power_strict_increasing) auto
    finally show ?thesis by (simp add: numeric_def Let_def)
  qed
  show "numeric p s y = Some y" if "numeric p s x = Some y" for x y
  proof -
    have y: "y = round_at s x" "\<bar>y\<bar> < 10 ^ (p - s)" using that by (auto simp: numeric_def Let_def split: if_splits)
    have "round_at s y = y"
      using nearest_exact [OF nearest_round_at] nearest_round_at [of s x] by (simp add: y(1) nearest_def)
    with y(2) show ?thesis by (simp add: numeric_def Let_def)
  qed
qed

interpretation pg20_9: numeric_column 20 9 "numeric 20 9"
  by (rule numeric_columnI) simp

interpretation pg5_2: numeric_column 5 2 "numeric 5 2"
  by (rule numeric_columnI) simp

end
