(* ===== verification/Pricing.thy ===== *)
theory Pricing
  imports Decimal
begin

text \<open>
  The pricing engine of the billing service (\<open>internal/pricing/engine.go\<close>): the base-rate lookup
  with its exact, partial, family and default stages, the validation of a request, and the
  calculation of the rates and costs of a rental.

  Go enumerates a map in an unspecified order. The partial-match stage returns the first entry it
  meets, so the enumeration is an argument of the lookup; \<open>enumerates\<close> says which lists are one.
\<close>

section \<open>Data\<close>

record pricing_config =
  vram_rate_per_gb :: decimal
  power_multiplier :: decimal
  platform_fee_percent :: decimal
  minimum_session_minutes :: int
  maximum_session_hours :: int

record pricing_engine =
  engine_config :: pricing_config
  base_rates :: "string \<rightharpoonup> decimal"

record pricing_request =
  pr_gpu_model :: string
  pr_requested_vram :: u64
  pr_total_vram :: u64
  pr_estimated_power_w :: u32
  pr_duration_hours :: decimal

record pricing_response =
  base_hourly_rate :: decimal
  vram_hourly_rate :: decimal
  power_hourly_rate :: decimal
  total_hourly_rate :: decimal
  base_cost :: decimal
  vram_cost :: decimal
  power_cost :: decimal
  subtotal_cost :: decimal
  platform_fee :: decimal
  total_cost :: decimal
  provider_earnings :: decimal
  demand_multiplier :: decimal
  supply_bonus :: decimal
  vram_percentage :: decimal
  allocated_vram_gb :: decimal
  calculated_at :: time
  valid_until :: time

datatype pricing_error =
    NoPricingFor string
  | ModelRequired
  | RequestedVramZero
  | TotalVramZero
  | VramExceedsTotal
  | PowerZero
  | DurationNotPositive
  | DurationBelowMinimum int
  | DurationAboveMaximum int
  | DivisionByZeroPanic

definition enumerates :: "(string \<rightharpoonup> 'a) \<Rightarrow> (string \<times> 'a) list \<Rightarrow> bool" where
  "enumerates m xs \<longleftrightarrow> distinct (map fst xs) \<and> map_of xs = m"

section \<open>Construction\<close>

text \<open>
  \<open>decimal.NewFromFloat\<close> is the parameter \<open>from_float\<close>. Two configured models that differ only in
  case share a key; the one enumerated last wins.
\<close>

definition new_engine :: "('f \<Rightarrow> decimal) \<Rightarrow> pricing_config \<Rightarrow> (string \<times> 'f) list \<Rightarrow> pricing_engine" where
  "new_engine from_float cfg rates =
     \<lparr>engine_config = cfg,
      base_rates = foldl (\<lambda>m (model, rate). m(to_lower model \<mapsto> from_float rate)) Map.empty rates\<rparr>"

section \<open>Base rate\<close>

text \<open>Indexing a Go map with an absent key gives the zero decimal.\<close>

definition rate_or_zero :: "pricing_engine \<Rightarrow> string \<Rightarrow> decimal" where
  "rate_or_zero e k = (case base_rates e k of Some r \<Rightarrow> r | None \<Rightarrow> 0)"

definition family_rtx40 :: "pricing_engine \<Rightarrow> string \<Rightarrow> decimal option" where
  "family_rtx40 e g =
     (if str_contains g ''rtx-40'' \<or> str_contains g ''rtx 40'' then
        if str_contains g ''4090'' then Some (rate_or_zero e ''nvidia-geforce-rtx-4090'')
        else if str_contains g ''4080'' then Some (rate_or_zero e ''nvidia-geforce-rtx-4080'')
        else if str_contains g ''4070'' then Some (rate_or_zero e ''nvidia-geforce-rtx-4070'')
        else None
      else None)"

definition family_rtx30 :: "pricing_engine \<Rightarrow> string \<Rightarrow> decimal option" where
  "family_rtx30 e g =
     (if str_contains g ''rtx-30'' \<or> str_contains g ''rtx 30'' then
        if str_contains g ''3090'' then Some (rate_or_zero e ''nvidia-geforce-rtx-3090'')
        else if str_contains g ''3080'' then Some (rate_or_zero e ''nvidia-geforce-rtx-3080'')
        else None
      else None)"

definition family_tesla :: "pricing_engine \<Rightarrow> string \<Rightarrow> decimal option" where
  "family_tesla e g =
     (if str_contains g ''tesla'' \<or> str_contains g ''a100'' \<or> str_contains g ''h100'' then
        if str_contains g ''h100'' then Some (rate_or_zero e ''nvidia-tesla-h100'')
        else if str_contains g ''a100'' then Some (rate_or_zero e ''nvidia-tesla-a100'')
        else if str_contains g ''v100'' then Some (rate_or_zero e ''nvidia-tesla-v100'')
        else None
      else None)"

definition family_apple :: "pricing_engine \<Rightarrow> string \<Rightarrow> decimal option" where
  "family_apple e g =
     (if str_contains g ''apple'' \<or> str_contains g ''m1'' \<or> str_contains g ''m2'' \<or> str_contains g ''m3'' then
        if str_contains g ''m3'' then
          if str_contains g ''ultra'' then Some (rate_or_zero e ''apple-m3-ultra'')
          else if str_contains g ''max'' then Some (rate_or_zero e ''apple-m3-max'')
          else None
        else if str_contains g ''m2'' then
          if str_contains g ''ultra'' then Some (rate_or_zero e ''apple-m2-ultra'')
          else if str_contains g ''max'' then Some (rate_or_zero e ''apple-m2-max'')
          else None
        else if str_contains g ''m1'' then
          if str_contains g ''ultra'' then Some (rate_or_zero e ''apple-m1-ultra'')
          else if str_contains g ''max'' then Some (rate_or_zero e ''apple-m1-max'')
          else None
        else None
      else None)"

definition family_amd :: "pricing_engine \<Rightarrow> string \<Rightarrow> decimal option" where
  "family_amd e g =
     (if str_contains g ''amd'' \<or> str_contains g ''radeon'' then
        if str_contains g ''7900'' then Some (rate_or_zero e ''amd-radeon-rx-7900-xtx'')
        else if str_contains g ''6900'' then Some (rate_or_zero e ''amd-radeon-rx-6900-xt'')
        else None
      else None)"

text \<open>The families are tried in turn; a family that matches without a known model falls through.\<close>

definition get_gpu_family_rate :: "pricing_engine \<Rightarrow> string \<Rightarrow> decimal" where
  "get_gpu_family_rate e g =
     (case family_rtx40 e g of Some r \<Rightarrow> r | None \<Rightarrow>
     (case family_rtx30 e g of Some r \<Rightarrow> r | None \<Rightarrow>
     (case family_tesla e g of Some r \<Rightarrow> r | None \<Rightarrow>
     (case family_apple e g of Some r \<Rightarrow> r | None \<Rightarrow>
     (case family_amd e g of Some r \<Rightarrow> r | None \<Rightarrow> 0)))))"

definition partial_match :: "string \<Rightarrow> string \<times> decimal \<Rightarrow> bool" where
  "partial_match n entry \<longleftrightarrow> str_contains n (fst entry) \<or> str_contains (fst entry) n"

definition get_base_rate ::
    "pricing_engine \<Rightarrow> (string \<times> decimal) list \<Rightarrow> string \<Rightarrow> pricing_error + decimal" where
  "get_base_rate e order gpu_model =
     (let n = to_lower (trim_space gpu_model) in
      case base_rates e n of Some r \<Rightarrow> Inr r | None \<Rightarrow>
      (case find (partial_match n) order of Some (_, r) \<Rightarrow> Inr r | None \<Rightarrow>
      (if get_gpu_family_rate e n \<noteq> 0 then Inr (get_gpu_family_rate e n)
       else (case base_rates e ''default'' of Some d \<Rightarrow> Inr d
             | None \<Rightarrow> Inl (NoPricingFor gpu_model)))))"

section \<open>Validation and calculation\<close>

definition validate_pricing_request ::
    "(decimal \<Rightarrow> decimal \<Rightarrow> decimal) \<Rightarrow> pricing_engine \<Rightarrow> pricing_request \<Rightarrow> pricing_error + unit" where
  "validate_pricing_request dv e req =
     (if pr_gpu_model req = [] then Inl ModelRequired
      else if pr_requested_vram req = 0 then Inl RequestedVramZero
      else if pr_total_vram req = 0 then Inl TotalVramZero
      else if pr_requested_vram req > pr_total_vram req then Inl VramExceedsTotal
      else if pr_estimated_power_w req = 0 then Inl PowerZero
      else if pr_duration_hours req \<le> 0 then Inl DurationNotPositive
      else if pr_duration_hours req < dv (of_int (minimum_session_minutes (engine_config e))) 60
        then Inl (DurationBelowMinimum (minimum_session_minutes (engine_config e)))
      else if pr_duration_hours req > of_int (maximum_session_hours (engine_config e))
        then Inl (DurationAboveMaximum (maximum_session_hours (engine_config e)))
      else Inr ())"

text \<open>The demand and supply analysis is not implemented in the source: the factors are constant.\<close>

definition get_dynamic_pricing_factors :: "pricing_request \<Rightarrow> pricing_error + decimal \<times> decimal" where
  "get_dynamic_pricing_factors req = Inr (1, 0)"

definition adjusted_base_rate :: "decimal \<Rightarrow> decimal \<Rightarrow> decimal \<Rightarrow> decimal" where
  "adjusted_base_rate base demand supply =
     (let a = base * demand - base * supply in if a < base * (1 / 2) then base * (1 / 2) else a)"

definition calculate_pricing ::
    "(decimal \<Rightarrow> decimal \<Rightarrow> decimal) \<Rightarrow> pricing_engine \<Rightarrow> (string \<times> decimal) list \<Rightarrow> time
     \<Rightarrow> pricing_request \<Rightarrow> pricing_error + pricing_response" where
  "calculate_pricing dv e order now req =
     (case get_base_rate e order (pr_gpu_model req) of Inl err \<Rightarrow> Inl err | Inr base \<Rightarrow>
      if sint (pr_total_vram req) = 0 then Inl DivisionByZeroPanic else
      (let cfg = engine_config e;
           hours = pr_duration_hours req;
           requested = of_int (sint (pr_requested_vram req));
           pct = dv requested (of_int (sint (pr_total_vram req)));
           gb = dv requested 1024;
           vram_hourly = vram_rate_per_gb cfg * gb;
           kw = dv (of_nat (unat (pr_estimated_power_w req))) 1000;
           power_hourly = power_multiplier cfg * kw;
           factors = (case get_dynamic_pricing_factors req of Inl _ \<Rightarrow> (1, 0) | Inr f \<Rightarrow> f);
           adjusted = adjusted_base_rate base (fst factors) (snd factors);
           total_hourly = adjusted + vram_hourly + power_hourly;
           bcost = adjusted * hours;
           vcost = vram_hourly * hours;
           pcost = power_hourly * hours;
           subtotal = bcost + vcost + pcost;
           fee = dv (subtotal * platform_fee_percent cfg) 100
       in Inr \<lparr>base_hourly_rate = adjusted, vram_hourly_rate = vram_hourly,
               power_hourly_rate = power_hourly, total_hourly_rate = total_hourly,
               base_cost = bcost, vram_cost = vcost, power_cost = pcost, subtotal_cost = subtotal,
               platform_fee = fee, total_cost = subtotal + fee, provider_earnings = subtotal - fee,
               demand_multiplier = fst factors, supply_bonus = snd factors, vram_percentage = pct,
               allocated_vram_gb = gb, calculated_at = now, valid_until = now + 5 * minute\<rparr>))"

definition get_supported_gpu_models :: "pricing_engine \<Rightarrow> (string \<rightharpoonup> decimal)" where
  "get_supported_gpu_models e = (\<lambda>m. if m \<noteq> ''default'' then base_rates e m else None)"

section \<open>Properties of the base rate\<close>

definition config_ok :: "pricing_config \<Rightarrow> bool" where
  "config_ok cfg \<longleftrightarrow> 0 \<le> vram_rate_per_gb cfg \<and> 0 \<le> power_multiplier cfg
     \<and> 0 \<le> platform_fee_percent cfg \<and> platform_fee_percent cfg \<le> 100"

definition rates_ok :: "pricing_engine \<Rightarrow> bool" where
  "rates_ok e \<longleftrightarrow> (\<forall>m r. base_rates e m = Some r \<longrightarrow> 0 \<le> r)"

lemma enumerates_entry: "enumerates m xs \<Longrightarrow> (k, r) \<in> set xs \<Longrightarrow> m k = Some r"
  by (auto simp: enumerates_def)

lemma rate_or_zero_known: "rate_or_zero e k \<noteq> 0 \<Longrightarrow> \<exists>m. base_rates e m = Some (rate_or_zero e k)"
  by (auto simp: rate_or_zero_def split: option.splits)

lemma family_some_lookup:
  "family_rtx40 e g = Some r \<Longrightarrow> \<exists>k. r = rate_or_zero e k"
  "family_rtx30 e g = Some r \<Longrightarrow> \<exists>k. r = rate_or_zero e k"
  "family_tesla e g = Some r \<Longrightarrow> \<exists>k. r = rate_or_zero e k"
  "family_apple e g = Some r \<Longrightarrow> \<exists>k. r = rate_or_zero e k"
  "family_amd e g = Some r \<Longrightarrow> \<exists>k. r = rate_or_zero e k"
  unfolding family_rtx40_def family_rtx30_def family_tesla_def family_apple_def family_amd_def
  by (simp only: split: if_splits; blast)+

lemma family_rate_lookup: "get_gpu_family_rate e g \<noteq> 0 \<Longrightarrow> \<exists>k. get_gpu_family_rate e g = rate_or_zero e k"
  unfolding get_gpu_family_rate_def by (auto dest: family_some_lookup split: option.splits)

lemma family_rate_known:
  "get_gpu_family_rate e g \<noteq> 0 \<Longrightarrow> \<exists>m. base_rates e m = Some (get_gpu_family_rate e g)"
  using family_rate_lookup [of e g] rate_or_zero_known [of e] by metis

lemma get_base_rate_known:
  assumes "enumerates (base_rates e) order" "get_base_rate e order g = Inr r"
  shows "\<exists>m. base_rates e m = Some r"
  using assms(2) family_rate_known [of e]
  by (auto simp: get_base_rate_def Let_def dest!: find_SomeD dest: enumerates_entry [OF assms(1)]
      split: option.splits if_splits)

lemma get_base_rate_total:
  "base_rates e ''default'' = Some d \<Longrightarrow> \<exists>r. get_base_rate e order g = Inr r"
  by (auto simp: get_base_rate_def Let_def split: option.split)

lemma get_base_rate_nonneg:
  "enumerates (base_rates e) order \<Longrightarrow> rates_ok e \<Longrightarrow> get_base_rate e order g = Inr r \<Longrightarrow> 0 \<le> r"
  using get_base_rate_known by (fastforce simp: rates_ok_def)

text \<open>With a default rate configured the lookup always quotes a price, and whatever it quotes is one
  of the configured rates: no model name leads to an error or to an invented price.\<close>

theorem base_rate_total_and_known:
  assumes "enumerates (base_rates e) order" "base_rates e ''default'' = Some d"
  shows "\<exists>m r. get_base_rate e order g = Inr r \<and> base_rates e m = Some r"
proof -
  obtain r where "get_base_rate e order g = Inr r" using get_base_rate_total [OF assms(2)] by blast
  then show ?thesis using get_base_rate_known [OF assms(1)] by blast
qed

theorem base_rate_total_and_known_witness:
  "\<exists>m r. get_base_rate \<lparr>engine_config = \<lparr>vram_rate_per_gb = 0, power_multiplier = 0, platform_fee_percent = 5,
        minimum_session_minutes = 1, maximum_session_hours = 24\<rparr>, base_rates = [''default'' \<mapsto> 1 / 2]\<rparr>
      [(''default'', 1 / 2)] ''gtx'' = Inr r
    \<and> [''default'' \<mapsto> (1 / 2 :: rat)] m = Some r"
proof -
  let ?e = "\<lparr>engine_config = \<lparr>vram_rate_per_gb = 0, power_multiplier = 0, platform_fee_percent = 5,
        minimum_session_minutes = 1, maximum_session_hours = 24\<rparr>, base_rates = [''default'' \<mapsto> 1 / 2]\<rparr>"
  have "enumerates (base_rates ?e) [(''default'', 1 / 2)]" by (simp add: enumerates_def)
  from base_rate_total_and_known [OF this, of "1 / 2" "''gtx''"]
  show ?thesis by (simp only: pricing_engine.simps fun_upd_same simp_thms)
qed

lemma find_same:
  assumes set: "set xs = set ys"
    and same: "\<And>x y. x \<in> set xs \<Longrightarrow> y \<in> set xs \<Longrightarrow> P x \<Longrightarrow> P y \<Longrightarrow> f x = f y"
  shows "map_option f (find P xs) = map_option f (find P ys)"
proof (cases "find P xs")
  case None
  then have "find P ys = None" using set by (simp add: find_None_all)
  with None show ?thesis by simp
next
  case (Some x)
  then have x: "P x" "x \<in> set xs" by (auto dest: find_SomeD)
  then have "find P ys \<noteq> None" using set by (auto simp: find_None_all)
  then obtain y where y: "find P ys = Some y" by blast
  then have "P y" "y \<in> set xs" using set by (auto dest: find_SomeD)
  with x have "f x = f y" using same by blast
  with Some y show ?thesis by simp
qed

lemma enumerates_set: "enumerates m xs \<Longrightarrow> enumerates m ys \<Longrightarrow> set xs = set ys"
  by (auto simp: enumerates_def) (metis map_of_eq_Some_iff)+

text \<open>The quote does not depend on the order in which the map is enumerated as long as all entries
  that partially match the requested model carry the same rate.\<close>

theorem base_rate_order_independent:
  assumes "enumerates (base_rates e) order" "enumerates (base_rates e) order'"
    and same: "\<And>k r k' r'. base_rates e k = Some r \<Longrightarrow> base_rates e k' = Some r' \<Longrightarrow>
      partial_match (to_lower (trim_space g)) (k, r) \<Longrightarrow> partial_match (to_lower (trim_space g)) (k', r') \<Longrightarrow> r = r'"
  shows "get_base_rate e order g = get_base_rate e order' g"
proof -
  let ?P = "partial_match (to_lower (trim_space g))"
  have "map_option snd (find ?P order) = map_option snd (find ?P order')"
  proof (rule find_same [OF enumerates_set [OF assms(1,2)]])
    fix x y assume "x \<in> set order" "y \<in> set order" "?P x" "?P y"
    then show "snd x = snd y"
      using same [of "fst x" "snd x" "fst y" "snd y"] enumerates_entry [OF assms(1)] by simp
  qed
  then show ?thesis
    by (auto simp: get_base_rate_def Let_def split: option.splits)
qed

definition two_rate_engine :: pricing_engine where
  "two_rate_engine = \<lparr>engine_config = \<lparr>vram_rate_per_gb = 0, power_multiplier = 0, platform_fee_percent = 5,
     minimum_session_minutes = 1, maximum_session_hours = 24\<rparr>,
     base_rates = [''4090'' \<mapsto> 1 / 2, ''a100'' \<mapsto> 2]\<rparr>"

definition two_rate_order :: "(string \<times> decimal) list" where
  "two_rate_order = [(''4090'', 1 / 2), (''a100'', 2)]"

lemma two_rate_enumerates:
  "enumerates (base_rates two_rate_engine) two_rate_order"
  "enumerates (base_rates two_rate_engine) (rev two_rate_order)"
  by (auto simp: enumerates_def two_rate_engine_def two_rate_order_def)

lemma name_eval: "to_lower (trim_space ''RTX 4090'') = ''rtx 4090''" "to_lower (trim_space ''4090 a100'') = ''4090 a100''"
  by code_simp+

theorem base_rate_order_independent_witness:
  "get_base_rate two_rate_engine two_rate_order ''RTX 4090''
     = get_base_rate two_rate_engine (rev two_rate_order) ''RTX 4090''"
proof (rule base_rate_order_independent [OF two_rate_enumerates])
  fix k r k' r'
  assume "base_rates two_rate_engine k = Some r" "base_rates two_rate_engine k' = Some r'"
    and "partial_match (to_lower (trim_space ''RTX 4090'')) (k, r)" "partial_match (to_lower (trim_space ''RTX 4090'')) (k', r')"
  then show "r = r'"
    by (auto simp: two_rate_engine_def partial_match_def name_eval split: if_splits)
qed

text \<open>Without that proviso the price is not determined: the same engine quotes two different rates
  for the same model under two enumerations of its rate table.\<close>

theorem base_rate_depends_on_order:
  "\<exists>e order order' g r r'. enumerates (base_rates e) order \<and> enumerates (base_rates e) order'
     \<and> get_base_rate e order g = Inr r \<and> get_base_rate e order' g = Inr r' \<and> r \<noteq> r'"
proof (intro exI conjI)
  show "get_base_rate two_rate_engine two_rate_order ''4090 a100'' = Inr (1 / 2)"
    "get_base_rate two_rate_engine (rev two_rate_order) ''4090 a100'' = Inr 2"
    by (simp_all add: get_base_rate_def Let_def two_rate_engine_def two_rate_order_def name_eval partial_match_def)
qed (simp_all add: two_rate_enumerates)

section \<open>Properties of validation and calculation\<close>

text \<open>A request passes validation exactly when every documented bound holds: a model, a VRAM slice
  within the card, a power figure, and a duration inside the configured session limits.\<close>

theorem validate_exact:
  "validate_pricing_request dv e req = Inr () \<longleftrightarrow>
     pr_gpu_model req \<noteq> [] \<and> pr_requested_vram req \<noteq> 0
     \<and> pr_requested_vram req \<le> pr_total_vram req \<and> pr_estimated_power_w req \<noteq> 0
     \<and> 0 < pr_duration_hours req
     \<and> dv (of_int (minimum_session_minutes (engine_config e))) 60 \<le> pr_duration_hours req
     \<and> pr_duration_hours req \<le> of_int (maximum_session_hours (engine_config e))"
proof -
  have "pr_requested_vram req \<noteq> 0 \<Longrightarrow> pr_requested_vram req \<le> pr_total_vram req \<Longrightarrow> pr_total_vram req \<noteq> 0"
    by (auto simp: word_le_0_iff)
  then show ?thesis
    by (auto simp: validate_pricing_request_def not_less not_le)
qed

lemma calculate_pricing_cases:
  "calculate_pricing dv e order now req = Inl err \<longleftrightarrow>
     get_base_rate e order (pr_gpu_model req) = Inl err
     \<or> (is_ok (get_base_rate e order (pr_gpu_model req)) \<and> pr_total_vram req = 0 \<and> err = DivisionByZeroPanic)"
  by (auto simp: calculate_pricing_def Let_def signed_eq_0_iff is_ok_def split: sum.split)

text \<open>Which requests are priced. With a default rate the calculation panics, by a division by zero,
  exactly on a total VRAM of zero, and succeeds on every other request; a validated request is
  therefore always priced.\<close>

theorem calculate_pricing_total:
  assumes "enumerates (base_rates e) order" "base_rates e ''default'' = Some d"
  shows "(calculate_pricing dv e order now req = Inl DivisionByZeroPanic \<longleftrightarrow> pr_total_vram req = 0)
    \<and> (is_ok (calculate_pricing dv e order now req) \<longleftrightarrow> pr_total_vram req \<noteq> 0)"
proof -
  obtain r where "get_base_rate e order (pr_gpu_model req) = Inr r"
    using get_base_rate_total [OF assms(2)] by blast
  then show ?thesis
    by (simp add: calculate_pricing_cases) (simp add: calculate_pricing_def Let_def signed_eq_0_iff)
qed

lemma adjusted_base_rate_neutral [simp]: "0 \<le> base \<Longrightarrow> adjusted_base_rate base 1 0 = base"
  by (simp add: adjusted_base_rate_def)

lemma adjusted_base_rate_floor: "base * (1 / 2) \<le> adjusted_base_rate base demand supply"
  by (simp add: adjusted_base_rate_def Let_def)

text \<open>The arithmetic of a quote: the hourly rate is the sum of its three parts, the subtotal is the
  hourly rate for the duration, and the fee is charged on both sides, so what the renter pays
  and what the provider earns differ by twice the recorded platform fee.\<close>

theorem pricing_accounts:
  assumes "calculate_pricing dv e order now req = Inr r"
  shows "total_hourly_rate r = base_hourly_rate r + vram_hourly_rate r + power_hourly_rate r
    \<and> subtotal_cost r = total_hourly_rate r * pr_duration_hours req
    \<and> subtotal_cost r = base_cost r + vram_cost r + power_cost r
    \<and> total_cost r = subtotal_cost r + platform_fee r
    \<and> total_cost r - provider_earnings r = 2 * platform_fee r"
  using assms by (auto simp: calculate_pricing_def Let_def algebra_simps split: sum.splits if_splits)

text \<open>Every component of a validated quote is non-negative, the share of the card lies between 0 and
  1, the fee is within half a unit of the sixteenth digit of the configured percentage, and the
  provider never earns more than the renter pays (for VRAM figures below \<open>2^63\<close>, which
  \<open>int64\<close> represents).\<close>

theorem pricing_bounds:
  assumes div: "decimal_division dv"
    and en: "enumerates (base_rates e) order" and rates: "rates_ok e" and cfg: "config_ok (engine_config e)"
    and valid: "validate_pricing_request dv e req = Inr ()"
    and vram: "unat (pr_total_vram req) < 2 ^ 63"
    and res: "calculate_pricing dv e order now req = Inr r"
  shows "0 \<le> base_hourly_rate r \<and> 0 \<le> vram_hourly_rate r \<and> 0 \<le> power_hourly_rate r
    \<and> 0 \<le> subtotal_cost r \<and> 0 \<le> platform_fee r
    \<and> 0 \<le> vram_percentage r \<and> vram_percentage r \<le> 1
    \<and> \<bar>platform_fee r - subtotal_cost r * platform_fee_percent (engine_config e) / 100\<bar> * (2 * 10 ^ 16) \<le> 1
    \<and> provider_earnings r \<le> total_cost r"
proof -
  note dv_nonneg = decimal_division.dv_nonneg [OF div]
  obtain base where base: "get_base_rate e order (pr_gpu_model req) = Inr base"
    using res by (auto simp: calculate_pricing_def split: sum.splits)
  have b0: "0 \<le> base" using get_base_rate_nonneg [OF en rates base] .
  have le: "pr_requested_vram req \<le> pr_total_vram req" and h0: "0 < pr_duration_hours req"
    and rq: "pr_requested_vram req \<noteq> 0"
    using valid by (auto simp: validate_exact)
  then have t0: "pr_total_vram req \<noteq> 0" by (auto simp: word_le_0_iff)
  define R T :: rat where "R = of_int (sint (pr_requested_vram req))" and "T = of_int (sint (pr_total_vram req))"
  have RT: "0 \<le> R" "R \<le> T" "0 < T"
    unfolding R_def T_def by (rule rat_of_u64_bounds [OF le vram] rat_of_u64_pos [OF t0 vram])+
  have gb: "0 \<le> dv R 1024" and pct: "0 \<le> dv R T"
    and kw: "0 \<le> dv (of_nat (unat (pr_estimated_power_w req))) 1000"
    using RT by (auto intro!: dv_nonneg)
  have pct1: "dv R T \<le> 1"
    using RT decimal_division.dv_le_grid [OF div, of T 1 R] on_grid_int [of 16 1] by (simp add: divide_le_eq_1)
  have sub: "0 \<le> subtotal_cost r" "0 \<le> vram_hourly_rate r" "0 \<le> power_hourly_rate r" "base_hourly_rate r = base"
    and fee: "platform_fee r = dv (subtotal_cost r * platform_fee_percent (engine_config e)) 100"
    and pr: "vram_percentage r = dv R T"
    and te: "provider_earnings r = subtotal_cost r - platform_fee r" "total_cost r = subtotal_cost r + platform_fee r"
    using res base b0 cfg gb kw h0 t0
    by (auto simp: calculate_pricing_def Let_def get_dynamic_pricing_factors_def config_ok_def
        signed_eq_0_iff R_def T_def split: if_splits intro!: add_nonneg_nonneg mult_nonneg_nonneg)
  have "0 \<le> platform_fee r"
    using sub(1) cfg unfolding fee by (intro dv_nonneg) (auto simp: config_ok_def)
  moreover have "\<bar>platform_fee r - subtotal_cost r * platform_fee_percent (engine_config e) / 100\<bar> * (2 * 10 ^ 16) \<le> 1"
    using decimal_division.dv_nearest [OF div, of 100 "subtotal_cost r * platform_fee_percent (engine_config e)"]
    unfolding fee nearest_def by simp
  ultimately show ?thesis using sub b0 pr pct pct1 te by simp
qed

text \<open>A configured engine and a request that the witnesses evaluate.\<close>

definition demo_engine :: pricing_engine where
  "demo_engine = new_engine (\<lambda>x. x) \<lparr>vram_rate_per_gb = 1 / 50, power_multiplier = 1 / 10, platform_fee_percent = 5,
     minimum_session_minutes = 15, maximum_session_hours = 24\<rparr> [(''RTX-4090'', 1 / 2), (''default'', 1 / 5)]"

definition demo_order :: "(string \<times> decimal) list" where
  "demo_order = [(''rtx-4090'', 1 / 2), (''default'', 1 / 5)]"

definition demo_request :: pricing_request where
  "demo_request = \<lparr>pr_gpu_model = ''RTX-4090'', pr_requested_vram = 8192, pr_total_vram = 24576,
     pr_estimated_power_w = 450, pr_duration_hours = 2\<rparr>"

lemma demo_rates: "base_rates demo_engine = [''rtx-4090'' \<mapsto> 1 / 2, ''default'' \<mapsto> 1 / 5]"
proof -
  have lo: "to_lower ''RTX-4090'' = ''rtx-4090''" "to_lower ''default'' = ''default''" by code_simp+
  show ?thesis by (simp add: demo_engine_def new_engine_def lo)
qed

lemma demo_engine_ok:
  "enumerates (base_rates demo_engine) demo_order" "rates_ok demo_engine"
  "config_ok (engine_config demo_engine)" "base_rates demo_engine ''default'' = Some (1 / 5)"
  subgoal by (auto simp: demo_rates enumerates_def demo_order_def)
  subgoal by (auto simp: demo_rates rates_ok_def)
  subgoal by (simp add: config_ok_def demo_engine_def new_engine_def)
  subgoal by (simp add: demo_rates)
  done

lemma demo_valid: "validate_pricing_request div16 demo_engine demo_request = Inr ()"
proof -
  have "div16 15 60 = 1 / 4"
    using d16.dv_exact [of 60 15] by (simp add: on_grid_def)
  then show ?thesis
    by (simp add: validate_exact demo_request_def demo_engine_def new_engine_def)
qed

lemma demo_priced: "\<exists>r. calculate_pricing div16 demo_engine demo_order 0 demo_request = Inr r"
  using calculate_pricing_cases [of div16 demo_engine demo_order 0 demo_request]
    get_base_rate_total [OF demo_engine_ok(4), of demo_order "pr_gpu_model demo_request"]
  by (cases "calculate_pricing div16 demo_engine demo_order 0 demo_request") (auto simp: demo_request_def)

theorem pricing_bounds_witness:
  "\<exists>r. calculate_pricing div16 demo_engine demo_order 0 demo_request = Inr r
     \<and> 0 \<le> subtotal_cost r \<and> vram_percentage r \<le> 1 \<and> provider_earnings r \<le> total_cost r"
proof -
  obtain r where r: "calculate_pricing div16 demo_engine demo_order 0 demo_request = Inr r"
    using demo_priced by blast
  have small: "unat (pr_total_vram demo_request) < 2 ^ 63" by (simp add: demo_request_def)
  show ?thesis
    using r pricing_bounds [OF d16.decimal_division_axioms demo_engine_ok(1-3) demo_valid small r] by blast
qed

theorem calculate_pricing_total_witness:
  "is_ok (calculate_pricing div16 demo_engine demo_order 0 demo_request)
   \<and> calculate_pricing div16 demo_engine demo_order 0 (demo_request\<lparr>pr_total_vram := 0\<rparr>) = Inl DivisionByZeroPanic"
  using calculate_pricing_total [OF demo_engine_ok(1,4)] by (simp add: demo_request_def)

theorem pricing_accounts_witness:
  "\<exists>r. calculate_pricing div16 demo_engine demo_order 0 demo_request = Inr r
     \<and> total_cost r - provider_earnings r = 2 * platform_fee r"
proof -
  obtain r where r: "calculate_pricing div16 demo_engine demo_order 0 demo_request = Inr r"
    using demo_priced by blast
  show ?thesis using r pricing_accounts [OF r] by blast
qed

text \<open>Asking for more never costs less: with the same model and the same card, more VRAM, more power
  or more hours give an hourly rate and a subtotal at least as large.\<close>

theorem pricing_monotone:
  assumes div: "decimal_division dv"
    and en: "enumerates (base_rates e) order" and rates: "rates_ok e" and cfg: "config_ok (engine_config e)"
    and valid: "validate_pricing_request dv e req = Inr ()"
    and vram: "unat (pr_requested_vram req') < 2 ^ 63"
    and more: "pr_gpu_model req' = pr_gpu_model req" "pr_total_vram req' = pr_total_vram req"
      "pr_requested_vram req \<le> pr_requested_vram req'" "pr_estimated_power_w req \<le> pr_estimated_power_w req'"
      "pr_duration_hours req \<le> pr_duration_hours req'"
    and res: "calculate_pricing dv e order now req = Inr r" "calculate_pricing dv e order now' req' = Inr r'"
  shows "total_hourly_rate r \<le> total_hourly_rate r' \<and> subtotal_cost r \<le> subtotal_cost r'"
proof -
  let ?gb = "\<lambda>q. dv (of_int (sint (pr_requested_vram q))) 1024"
  let ?kw = "\<lambda>q. dv (of_nat (unat (pr_estimated_power_w q))) 1000"
  have gb: "0 \<le> ?gb req" "?gb req \<le> ?gb req'"
    using rat_of_u64_bounds [OF more(3) vram] by (auto intro!: decimal_division.dv_nonneg [OF div] decimal_division.dv_mono [OF div])
  have kw: "0 \<le> ?kw req" "?kw req \<le> ?kw req'"
    using unsigned_rat_mono [OF more(4)]
    by (auto intro!: decimal_division.dv_nonneg [OF div] decimal_division.dv_mono [OF div])
  obtain base where base: "get_base_rate e order (pr_gpu_model req) = Inr base"
    using res(1) by (auto simp: calculate_pricing_def split: sum.splits)
  have b0: "0 \<le> base" using get_base_rate_nonneg [OF en rates base] .
  have t: "total_hourly_rate r = base + vram_rate_per_gb (engine_config e) * ?gb req + power_multiplier (engine_config e) * ?kw req"
    "total_hourly_rate r' = base + vram_rate_per_gb (engine_config e) * ?gb req' + power_multiplier (engine_config e) * ?kw req'"
    using res base more(1) b0
    by (auto simp: calculate_pricing_def Let_def get_dynamic_pricing_factors_def split: if_splits)
  have hourly: "0 \<le> total_hourly_rate r" "total_hourly_rate r \<le> total_hourly_rate r'"
    using gb kw cfg b0 unfolding t config_ok_def by (auto intro!: add_mono mult_left_mono add_nonneg_nonneg)
  have "0 < pr_duration_hours req" using valid by (simp add: validate_exact)
  with hourly more(5) have "total_hourly_rate r * pr_duration_hours req \<le> total_hourly_rate r' * pr_duration_hours req'"
    by (intro mult_mono) auto
  with hourly pricing_accounts [OF res(1)] pricing_accounts [OF res(2)] show ?thesis by simp
qed

theorem pricing_monotone_witness:
  "\<exists>r r'. calculate_pricing div16 demo_engine demo_order 0 demo_request = Inr r
     \<and> calculate_pricing div16 demo_engine demo_order 0 (demo_request\<lparr>pr_requested_vram := 16384\<rparr>) = Inr r'
     \<and> subtotal_cost r \<le> subtotal_cost r'"
proof -
  let ?req = "demo_request\<lparr>pr_requested_vram := 16384\<rparr>"
  obtain r where r: "calculate_pricing div16 demo_engine demo_order 0 demo_request = Inr r"
    using demo_priced by blast
  obtain r' where r': "calculate_pricing div16 demo_engine demo_order 0 ?req = Inr r'"
    using get_base_rate_total [OF demo_engine_ok(4), of demo_order "pr_gpu_model ?req"]
      calculate_pricing_cases [of div16 demo_engine demo_order 0 ?req]
    by (cases "calculate_pricing div16 demo_engine demo_order 0 ?req") (auto simp: demo_request_def)
  have "subtotal_cost r \<le> subtotal_cost r'"
    using pricing_monotone [OF d16.decimal_division_axioms demo_engine_ok(1-3) demo_valid _ _ _ _ _ _ r r']
    by (simp add: demo_request_def)
  with r r' show ?thesis by blast
qed

end
