(* ===== verification/BillingErrors.thy ===== *)
theory BillingErrors
  imports Prelude
begin

text \<open>
  The error values of the billing service (\<open>internal/models/errors.go\<close>) and their HTTP status
  (\<open>getHTTPStatusFromBillingError\<close> of \<open>internal/handlers/wallet.go\<close>).

  A Go \<open>error\<close> of this service is a sentinel variable, a \<open>*BillingError\<close>, an \<open>fmt.Errorf\<close> wrapper, or
  an error of a library or of the database. \<open>Panicked\<close> is a run-time panic: the handler writes no
  response of its own.
\<close>

datatype (plugins only: code) sentinel =
    ErrWalletNotFound
  | ErrWalletAlreadyExists
  | ErrWalletInactive
  | ErrInsufficientFunds
  | ErrInvalidWalletType
  | ErrInvalidSolanaAddress
  | ErrTransactionNotFound
  | ErrTransactionFailed
  | ErrTransactionCancelled
  | ErrInvalidTransactionType
  | ErrInvalidAmount
  | ErrTransactionTimeout
  | ErrSessionNotFound
  | ErrSessionAlreadyActive
  | ErrSessionNotActive
  | ErrInvalidSessionStatus
  | ErrSessionExpired
  | ErrMaxSessionDuration
  | ErrProviderNotFound
  | ErrProviderNotAvailable
  | ErrInsufficientVRAM
  | ErrInvalidGPUModel
  | ErrInvalidPricing
  | ErrRateNotFound
  | ErrPricingCalculation
  | ErrSolanaConnection
  | ErrSolanaTransaction
  | ErrInvalidSignature
  | ErrTokenTransferFailed
  | ErrBillingCalculation
  | ErrBillingRecordNotFound
  | ErrUsageRecordNotFound
  | ErrPayoutNotFound
  | ErrPayoutFailed
  | ErrMinimumPayoutAmount
  | ErrPayoutAlreadyProcessed
  | ErrValidationFailed
  | ErrMissingRequiredField
  | ErrInvalidFieldValue
  | ErrDatabaseConnection
  | ErrDatabaseQuery
  | ErrDatabaseTransaction
  | ErrInvalidConfiguration
  | ErrMissingConfiguration
  | ErrRateLimitExceeded
  | ErrTooManyRequests
  | ErrUnauthorized
  | ErrForbidden
  | ErrInvalidAPIKey
  | ErrSecurityViolation

datatype (plugins only: code) err_code =
    ErrCodeWalletNotFound
  | ErrCodeWalletExists
  | ErrCodeWalletInactive
  | ErrCodeInsufficientFunds
  | ErrCodeInvalidWalletType
  | ErrCodeInvalidSolanaAddr
  | ErrCodeTransactionNotFound
  | ErrCodeTransactionFailed
  | ErrCodeTransactionCancelled
  | ErrCodeInvalidTxnType
  | ErrCodeInvalidAmount
  | ErrCodeTransactionTimeout
  | ErrCodeSessionNotFound
  | ErrCodeSessionActive
  | ErrCodeSessionNotActive
  | ErrCodeInvalidSessionStatus
  | ErrCodeSessionExpired
  | ErrCodeMaxSessionDuration
  | ErrCodeProviderNotFound
  | ErrCodeProviderUnavailable
  | ErrCodeInsufficientVRAM
  | ErrCodeInvalidGPUModel
  | ErrCodeInvalidPricing
  | ErrCodeRateNotFound
  | ErrCodePricingCalculation
  | ErrCodeSolanaConnection
  | ErrCodeSolanaTransaction
  | ErrCodeInvalidSignature
  | ErrCodeTokenTransferFailed
  | ErrCodeBillingCalculation
  | ErrCodeBillingNotFound
  | ErrCodeUsageNotFound
  | ErrCodePayoutNotFound
  | ErrCodePayoutFailed
  | ErrCodeMinimumPayout
  | ErrCodePayoutProcessed
  | ErrCodeValidationFailed
  | ErrCodeMissingField
  | ErrCodeInvalidField
  | ErrCodeDatabaseError
  | ErrCodeConfigError
  | ErrCodeRateLimited
  | ErrCodeUnauthorized
  | ErrCodeForbidden
  | ErrCodeSecurityViolation

datatype go_error =
    Sentinel sentinel
  | BillingError err_code string "(string \<times> string) list" "go_error option"
  | Wrapped string go_error
  | Opaque string
  | Panicked string

definition sentinel_text :: "sentinel \<Rightarrow> string" where
  "sentinel_text c = (case c of
     ErrWalletNotFound \<Rightarrow> ''wallet not found''
     | ErrWalletAlreadyExists \<Rightarrow> ''wallet already exists''
     | ErrWalletInactive \<Rightarrow> ''wallet is inactive''
     | ErrInsufficientFunds \<Rightarrow> ''insufficient funds''
     | ErrInvalidWalletType \<Rightarrow> ''invalid wallet type''
     | ErrInvalidSolanaAddress \<Rightarrow> ''invalid Solana address''
     | ErrTransactionNotFound \<Rightarrow> ''transaction not found''
     | ErrTransactionFailed \<Rightarrow> ''transaction failed''
     | ErrTransactionCancelled \<Rightarrow> ''transaction cancelled''
     | ErrInvalidTransactionType \<Rightarrow> ''invalid transaction type''
     | ErrInvalidAmount \<Rightarrow> ''invalid amount''
     | ErrTransactionTimeout \<Rightarrow> ''transaction timeout''
     | ErrSessionNotFound \<Rightarrow> ''session not found''
     | ErrSessionAlreadyActive \<Rightarrow> ''session already active''
     | ErrSessionNotActive \<Rightarrow> ''session not active''
     | ErrInvalidSessionStatus \<Rightarrow> ''invalid session status''
     | ErrSessionExpired \<Rightarrow> ''session expired''
     | ErrMaxSessionDuration \<Rightarrow> ''maximum session duration exceeded''
     | ErrProviderNotFound \<Rightarrow> ''provider not found''
     | ErrProviderNotAvailable \<Rightarrow> ''provider not available''
     | ErrInsufficientVRAM \<Rightarrow> ''insufficient VRAM available''
     | ErrInvalidGPUModel \<Rightarrow> ''invalid GPU model''
     | ErrInvalidPricing \<Rightarrow> ''invalid pricing configuration''
     | ErrRateNotFound \<Rightarrow> ''rate not found for GPU model''
     | ErrPricingCalculation \<Rightarrow> ''pricing calculation error''
     | ErrSolanaConnection \<Rightarrow> ''Solana connection error''
     | ErrSolanaTransaction \<Rightarrow> ''Solana transaction error''
     | ErrInvalidSignature \<Rightarrow> ''invalid transaction signature''
     | ErrTokenTransferFailed \<Rightarrow> ''token transfer failed''
     | ErrBillingCalculation \<Rightarrow> ''billing calculation error''
     | ErrBillingRecordNotFound \<Rightarrow> ''billing record not found''
     | ErrUsageRecordNotFound \<Rightarrow> ''usage record not found''
     | ErrPayoutNotFound \<Rightarrow> ''payout not found''
     | ErrPayoutFailed \<Rightarrow> ''payout failed''
     | ErrMinimumPayoutAmount \<Rightarrow> ''amount below minimum payout threshold''
     | ErrPayoutAlreadyProcessed \<Rightarrow> ''payout already processed''
     | ErrValidationFailed \<Rightarrow> ''validation failed''
     | ErrMissingRequiredField \<Rightarrow> ''missing required field''
     | ErrInvalidFieldValue \<Rightarrow> ''invalid field value''
     | ErrDatabaseConnection \<Rightarrow> ''database connection error''
     | ErrDatabaseQuery \<Rightarrow> ''database query error''
     | ErrDatabaseTransaction \<Rightarrow> ''database transaction error''
     | ErrInvalidConfiguration \<Rightarrow> ''invalid configuration''
     | ErrMissingConfiguration \<Rightarrow> ''missing configuration''
     | ErrRateLimitExceeded \<Rightarrow> ''rate limit exceeded''
     | ErrTooManyRequests \<Rightarrow> ''too many requests''
     | ErrUnauthorized \<Rightarrow> ''unauthorized''
     | ErrForbidden \<Rightarrow> ''forbidden''
     | ErrInvalidAPIKey \<Rightarrow> ''invalid API key''
     | ErrSecurityViolation \<Rightarrow> ''security violation'')"

definition err_code_text :: "err_code \<Rightarrow> string" where
  "err_code_text c = (case c of
     ErrCodeWalletNotFound \<Rightarrow> ''WALLET_NOT_FOUND''
     | ErrCodeWalletExists \<Rightarrow> ''WALLET_ALREADY_EXISTS''
     | ErrCodeWalletInactive \<Rightarrow> ''WALLET_INACTIVE''
     | ErrCodeInsufficientFunds \<Rightarrow> ''INSUFFICIENT_FUNDS''
     | ErrCodeInvalidWalletType \<Rightarrow> ''INVALID_WALLET_TYPE''
     | ErrCodeInvalidSolanaAddr \<Rightarrow> ''INVALID_SOLANA_ADDRESS''
     | ErrCodeTransactionNotFound \<Rightarrow> ''TRANSACTION_NOT_FOUND''
     | ErrCodeTransactionFailed \<Rightarrow> ''TRANSACTION_FAILED''
     | ErrCodeTransactionCancelled \<Rightarrow> ''TRANSACTION_CANCELLED''
     | ErrCodeInvalidTxnType \<Rightarrow> ''INVALID_TRANSACTION_TYPE''
     | ErrCodeInvalidAmount \<Rightarrow> ''INVALID_AMOUNT''
     | ErrCodeTransactionTimeout \<Rightarrow> ''TRANSACTION_TIMEOUT''
     | ErrCodeSessionNotFound \<Rightarrow> ''SESSION_NOT_FOUND''
     | ErrCodeSessionActive \<Rightarrow> ''SESSION_ALREADY_ACTIVE''
     | ErrCodeSessionNotActive \<Rightarrow> ''SESSION_NOT_ACTIVE''
     | ErrCodeInvalidSessionStatus \<Rightarrow> ''INVALID_SESSION_STATUS''
     | ErrCodeSessionExpired \<Rightarrow> ''SESSION_EXPIRED''
     | ErrCodeMaxSessionDuration \<Rightarrow> ''MAX_SESSION_DURATION''
     | ErrCodeProviderNotFound \<Rightarrow> ''PROVIDER_NOT_FOUND''
     | ErrCodeProviderUnavailable \<Rightarrow> ''PROVIDER_NOT_AVAILABLE''
     | ErrCodeInsufficientVRAM \<Rightarrow> ''INSUFFICIENT_VRAM''
     | ErrCodeInvalidGPUModel \<Rightarrow> ''INVALID_GPU_MODEL''
     | ErrCodeInvalidPricing \<Rightarrow> ''INVALID_PRICING''
     | ErrCodeRateNotFound \<Rightarrow> ''RATE_NOT_FOUND''
     | ErrCodePricingCalculation \<Rightarrow> ''PRICING_CALCULATION_ERROR''
     | ErrCodeSolanaConnection \<Rightarrow> ''SOLANA_CONNECTION_ERROR''
     | ErrCodeSolanaTransaction \<Rightarrow> ''SOLANA_TRANSACTION_ERROR''
     | ErrCodeInvalidSignature \<Rightarrow> ''INVALID_SIGNATURE''
     | ErrCodeTokenTransferFailed \<Rightarrow> ''TOKEN_TRANSFER_FAILED''
     | ErrCodeBillingCalculation \<Rightarrow> ''BILLING_CALCULATION_ERROR''
     | ErrCodeBillingNotFound \<Rightarrow> ''BILLING_RECORD_NOT_FOUND''
     | ErrCodeUsageNotFound \<Rightarrow> ''USAGE_RECORD_NOT_FOUND''
     | ErrCodePayoutNotFound \<Rightarrow> ''PAYOUT_NOT_FOUND''
     | ErrCodePayoutFailed \<Rightarrow> ''PAYOUT_FAILED''
     | ErrCodeMinimumPayout \<Rightarrow> ''MINIMUM_PAYOUT_AMOUNT''
     | ErrCodePayoutProcessed \<Rightarrow> ''PAYOUT_ALREADY_PROCESSED''
     | ErrCodeValidationFailed \<Rightarrow> ''VALIDATION_FAILED''
     | ErrCodeMissingField \<Rightarrow> ''MISSING_REQUIRED_FIELD''
     | ErrCodeInvalidField \<Rightarrow> ''INVALID_FIELD_VALUE''
     | ErrCodeDatabaseError \<Rightarrow> ''DATABASE_ERROR''
     | ErrCodeConfigError \<Rightarrow> ''CONFIGURATION_ERROR''
     | ErrCodeRateLimited \<Rightarrow> ''RATE_LIMITED''
     | ErrCodeUnauthorized \<Rightarrow> ''UNAUTHORIZED''
     | ErrCodeForbidden \<Rightarrow> ''FORBIDDEN''
     | ErrCodeSecurityViolation \<Rightarrow> ''SECURITY_VIOLATION'')"

section \<open>Construction and inspection\<close>

fun go_error_text :: "go_error \<Rightarrow> string" where
  "go_error_text (Sentinel s) = sentinel_text s"
| "go_error_text (BillingError code msg det cause) =
     (case cause of Some c \<Rightarrow> msg @ '': '' @ go_error_text c | None \<Rightarrow> msg)"
| "go_error_text (Wrapped msg e) = msg @ '': '' @ go_error_text e"
| "go_error_text (Opaque msg) = msg"
| "go_error_text (Panicked msg) = msg"

fun unwrap_error :: "go_error \<Rightarrow> go_error option" where
  "unwrap_error (BillingError code msg det cause) = cause"
| "unwrap_error (Wrapped msg e) = Some e"
| "unwrap_error _ = None"

definition new_billing_error :: "err_code \<Rightarrow> string \<Rightarrow> go_error \<Rightarrow> go_error" where
  "new_billing_error code message cause = BillingError code message [] (Some cause)"

text \<open>The details are a map: a later value for a key replaces the earlier one.\<close>

fun with_detail :: "string \<Rightarrow> string \<Rightarrow> go_error \<Rightarrow> go_error" where
  "with_detail k v (BillingError code msg det cause) =
     BillingError code msg ((k, v) # filter (\<lambda>d. fst d \<noteq> k) det) cause"
| "with_detail k v e = e"

text \<open>\<open>errors.Is\<close>: the target is somewhere on the chain of causes.\<close>

fun error_is :: "go_error \<Rightarrow> sentinel \<Rightarrow> bool" where
  "error_is (Sentinel s) t \<longleftrightarrow> s = t"
| "error_is (BillingError code msg det cause) t \<longleftrightarrow> (case cause of Some c \<Rightarrow> error_is c t | None \<Rightarrow> False)"
| "error_is (Wrapped msg e) t \<longleftrightarrow> error_is e t"
| "error_is (Opaque msg) t \<longleftrightarrow> False"
| "error_is (Panicked msg) t \<longleftrightarrow> False"

definition new_wallet_not_found_error :: "string \<Rightarrow> go_error" where
  "new_wallet_not_found_error walletID =
     with_detail ''wallet_id'' walletID
       (new_billing_error ErrCodeWalletNotFound ''Wallet not found'' (Sentinel ErrWalletNotFound))"

definition new_insufficient_funds_error :: "string \<Rightarrow> string \<Rightarrow> go_error" where
  "new_insufficient_funds_error required available =
     with_detail ''available'' available (with_detail ''required'' required
       (new_billing_error ErrCodeInsufficientFunds ''Insufficient funds'' (Sentinel ErrInsufficientFunds)))"

definition new_session_not_found_error :: "string \<Rightarrow> go_error" where
  "new_session_not_found_error sessionID =
     with_detail ''session_id'' sessionID
       (new_billing_error ErrCodeSessionNotFound ''Session not found'' (Sentinel ErrSessionNotFound))"

definition new_provider_not_available_error :: "string \<Rightarrow> go_error" where
  "new_provider_not_available_error providerID =
     with_detail ''provider_id'' providerID
       (new_billing_error ErrCodeProviderUnavailable ''Provider not available'' (Sentinel ErrProviderNotAvailable))"

definition new_transaction_failed_error :: "string \<Rightarrow> go_error \<Rightarrow> go_error" where
  "new_transaction_failed_error txnID cause =
     with_detail ''transaction_id'' txnID
       (new_billing_error ErrCodeTransactionFailed ''Transaction failed'' cause)"

definition new_validation_error :: "string \<Rightarrow> string \<Rightarrow> go_error" where
  "new_validation_error field message =
     with_detail ''message'' message (with_detail ''field'' field
       (new_billing_error ErrCodeValidationFailed ''Validation failed'' (Sentinel ErrValidationFailed)))"

definition new_solana_error :: "string \<Rightarrow> go_error \<Rightarrow> go_error" where
  "new_solana_error operation cause =
     with_detail ''operation'' operation
       (new_billing_error ErrCodeSolanaTransaction ''Solana operation failed'' cause)"

definition new_database_error :: "string \<Rightarrow> go_error \<Rightarrow> go_error" where
  "new_database_error operation cause =
     with_detail ''operation'' operation
       (new_billing_error ErrCodeDatabaseError ''Database operation failed'' cause)"

section \<open>HTTP status\<close>

definition http_status_of_code :: "err_code \<Rightarrow> nat" where
  "http_status_of_code c = (case c of
     ErrCodeWalletNotFound \<Rightarrow> 404
     | ErrCodeTransactionNotFound \<Rightarrow> 404
     | ErrCodeSessionNotFound \<Rightarrow> 404
     | ErrCodeWalletExists \<Rightarrow> 409
     | ErrCodeSessionActive \<Rightarrow> 409
     | ErrCodeInsufficientFunds \<Rightarrow> 400
     | ErrCodeInvalidAmount \<Rightarrow> 400
     | ErrCodeValidationFailed \<Rightarrow> 400
     | ErrCodeUnauthorized \<Rightarrow> 401
     | ErrCodeForbidden \<Rightarrow> 403
     | ErrCodeRateLimited \<Rightarrow> 429
     | ErrCodeSolanaConnection \<Rightarrow> 502
     | ErrCodeSolanaTransaction \<Rightarrow> 502
     | _ \<Rightarrow> 500)"

text \<open>
  Every handler that maps errors does it the same way: \<open>err.(*models.BillingError)\<close> looks at the
  outermost error only; anything else is a 500 with the handler's own message.
\<close>

fun handler_status :: "go_error \<Rightarrow> nat" where
  "handler_status (BillingError code msg det cause) = http_status_of_code code"
| "handler_status _ = 500"

fun handler_message :: "string \<Rightarrow> go_error \<Rightarrow> string" where
  "handler_message fallback (BillingError code msg det cause) = msg"
| "handler_message fallback _ = fallback"

lemma error_is_new [simp]:
  "error_is (new_billing_error code msg cause) t \<longleftrightarrow> error_is cause t"
  by (simp add: new_billing_error_def)

lemma error_is_detail [simp]: "error_is (with_detail k v e) t \<longleftrightarrow> error_is e t"
  by (cases e) auto

lemma handler_status_detail [simp]: "handler_status (with_detail k v e) = handler_status e"
  by (cases e) auto

lemma handler_status_new [simp]: "handler_status (new_billing_error code msg cause) = http_status_of_code code"
  by (simp add: new_billing_error_def)

lemmas constructor_defs =
  new_wallet_not_found_error_def new_insufficient_funds_error_def new_session_not_found_error_def
  new_provider_not_available_error_def new_transaction_failed_error_def new_validation_error_def
  new_solana_error_def new_database_error_def

lemma constructor_status [simp]:
  "handler_status (new_wallet_not_found_error w) = 404"
  "handler_status (new_insufficient_funds_error r a) = 400"
  "handler_status (new_session_not_found_error s) = 404"
  "handler_status (new_validation_error f m) = 400"
  "handler_status (new_solana_error op c) = 502"
  "handler_status (new_database_error op c) = 500"
  by (simp_all add: constructor_defs http_status_of_code_def)

lemma constructor_is [simp]:
  "error_is (new_insufficient_funds_error r a) t \<longleftrightarrow> t = ErrInsufficientFunds"
  "error_is (new_validation_error f m) t \<longleftrightarrow> t = ErrValidationFailed"
  "error_is (new_solana_error op c) t \<longleftrightarrow> error_is c t"
  by (auto simp: constructor_defs)

text \<open>A handler answers with one of eight codes, and with 404 only for an error built as a billing error.\<close>

lemma handler_status_range: "handler_status e \<in> {400, 401, 403, 404, 409, 429, 500, 502}"
proof (cases e)
  case (BillingError code msg det cause)
  then show ?thesis by (cases code) (simp_all add: http_status_of_code_def)
qed simp_all

end
