(* ===== verification/Wallet.thy ===== *)
theory Wallet
  imports Decimal BillingErrors
begin

text \<open>
  Wallets and transactions of the billing service (\<open>internal/models/wallet.go\<close>): the balance of
  a wallet, the part of it locked for running sessions, and the four operations that move money.

  The methods mutate the wallet behind a pointer and read the clock once; here the clock reading is
  an argument and the changed wallet is the result. A method that fails has changed nothing.
\<close>

section \<open>Data\<close>

text \<open>The wallet type is a string of the request; only the three known ones pass the table's CHECK.\<close>

datatype wallet_type = WalletTypeUser | WalletTypeProvider | WalletTypePlatform | OtherWalletType string

record wallet =
  w_id :: uuid
  w_user_id :: string
  w_type :: wallet_type
  w_solana_address :: string
  w_balance :: decimal
  w_locked :: decimal
  w_pending :: decimal
  w_active :: bool
  w_created_at :: time
  w_updated_at :: time
  w_last_activity_at :: "time option"

datatype transaction_type =
    TransactionTypeDeposit | TransactionTypeWithdrawal | TransactionTypePayment
  | TransactionTypePayout | TransactionTypeRefund | TransactionTypePlatformFee
  | TransactionTypeSessionStart | TransactionTypeSessionEnd | TransactionTypeSessionBilling

datatype transaction_status =
    TransactionStatusPending | TransactionStatusConfirmed | TransactionStatusFailed | TransactionStatusCancelled

type_synonym metadata = "(string \<rightharpoonup> string) option"

record transaction =
  t_id :: uuid
  t_from_wallet :: "uuid option"
  t_to_wallet :: "uuid option"
  t_type :: transaction_type
  t_status :: transaction_status
  t_amount :: decimal
  t_fee :: decimal
  t_description :: string
  t_solana_signature :: "string option"
  t_session_id :: "uuid option"
  t_job_id :: "string option"
  t_metadata :: metadata
  t_created_at :: time
  t_updated_at :: time
  t_confirmed_at :: "time option"

record wallet_create_request =
  wcr_user_id :: string
  wcr_wallet_type :: wallet_type
  wcr_solana_address :: string

record transaction_create_request =
  tcr_from_wallet :: "uuid option"
  tcr_to_wallet :: "uuid option"
  tcr_type :: transaction_type
  tcr_amount :: decimal
  tcr_description :: string
  tcr_session_id :: "uuid option"
  tcr_job_id :: "string option"
  tcr_metadata :: metadata

record balance_response =
  br_wallet_id :: uuid
  br_balance :: decimal
  br_locked :: decimal
  br_pending :: decimal
  br_available :: decimal
  br_total :: decimal
  br_last_updated :: time

record transaction_history_request =
  thr_wallet_id :: "uuid option"
  thr_type :: "transaction_type option"
  thr_status :: "transaction_status option"
  thr_start :: "time option"
  thr_end :: "time option"
  thr_limit :: int
  thr_offset :: int

record transaction_history_response =
  thp_transactions :: "transaction list"
  thp_total :: int
  thp_limit :: int
  thp_offset :: int

record deposit_request =
  dr_wallet_id :: uuid
  dr_amount :: decimal
  dr_signature :: string

record withdrawal_request =
  wr_wallet_id :: uuid
  wr_amount :: decimal
  wr_to_address :: string

section \<open>Operations\<close>

definition available_balance :: "wallet \<Rightarrow> decimal" where
  "available_balance w = w_balance w - w_locked w"

definition total_balance :: "wallet \<Rightarrow> decimal" where
  "total_balance w = w_balance w + w_pending w"

definition can_spend :: "wallet \<Rightarrow> decimal \<Rightarrow> bool" where
  "can_spend w amount \<longleftrightarrow> available_balance w \<ge> amount"

definition lock_funds :: "time \<Rightarrow> decimal \<Rightarrow> wallet \<Rightarrow> go_error + wallet" where
  "lock_funds now amount w =
     (if \<not> can_spend w amount then Inl (Sentinel ErrInsufficientFunds)
      else Inr (w\<lparr>w_locked := w_locked w + amount, w_updated_at := now\<rparr>))"

definition unlock_funds :: "time \<Rightarrow> decimal \<Rightarrow> wallet \<Rightarrow> wallet" where
  "unlock_funds now amount w =
     (let l = w_locked w - amount in w\<lparr>w_locked := if l < 0 then 0 else l, w_updated_at := now\<rparr>)"

definition deduct_funds :: "time \<Rightarrow> decimal \<Rightarrow> wallet \<Rightarrow> go_error + wallet" where
  "deduct_funds now amount w =
     (if w_balance w < amount then Inl (Sentinel ErrInsufficientFunds)
      else Inr (w\<lparr>w_balance := w_balance w - amount, w_updated_at := now\<rparr>))"

definition add_funds :: "time \<Rightarrow> decimal \<Rightarrow> wallet \<Rightarrow> wallet" where
  "add_funds now amount w = w\<lparr>w_balance := w_balance w + amount, w_updated_at := now\<rparr>"

section \<open>Invariant\<close>

text \<open>A solvent wallet: nothing is owed, and what is locked is covered by the balance.\<close>

definition wallet_ok :: "wallet \<Rightarrow> bool" where
  "wallet_ok w \<longleftrightarrow> 0 \<le> w_locked w \<and> w_locked w \<le> w_balance w"

lemma wallet_okD: "wallet_ok w \<Longrightarrow> 0 \<le> w_balance w \<and> 0 \<le> available_balance w"
  by (simp add: wallet_ok_def available_balance_def)

lemma lock_funds_Inr:
  "lock_funds now amount w = Inr w' \<longleftrightarrow>
   amount \<le> available_balance w \<and> w' = w\<lparr>w_locked := w_locked w + amount, w_updated_at := now\<rparr>"
  by (auto simp: lock_funds_def can_spend_def)

lemma deduct_funds_Inr:
  "deduct_funds now amount w = Inr w' \<longleftrightarrow>
   amount \<le> w_balance w \<and> w' = w\<lparr>w_balance := w_balance w - amount, w_updated_at := now\<rparr>"
  by (auto simp: deduct_funds_def)

lemma lock_funds_ok [wf_rules]:
  "wallet_ok w \<Longrightarrow> 0 \<le> amount \<Longrightarrow> lock_funds now amount w = Inr w' \<Longrightarrow> wallet_ok w'"
  by (auto simp: wallet_ok_def lock_funds_Inr available_balance_def)

lemma unlock_funds_ok [wf_rules]: "wallet_ok w \<Longrightarrow> 0 \<le> amount \<Longrightarrow> wallet_ok (unlock_funds now amount w)"
  by (auto simp: wallet_ok_def unlock_funds_def Let_def)

lemma add_funds_ok [wf_rules]: "wallet_ok w \<Longrightarrow> 0 \<le> amount \<Longrightarrow> wallet_ok (add_funds now amount w)"
  by (auto simp: wallet_ok_def add_funds_def)

lemma deduct_funds_ok [wf_rules]:
  "wallet_ok w \<Longrightarrow> amount \<le> available_balance w \<Longrightarrow> deduct_funds now amount w = Inr w' \<Longrightarrow> wallet_ok w'"
  by (auto simp: wallet_ok_def deduct_funds_Inr available_balance_def)

lemma unlock_all [simp]:
  "w_locked (unlock_funds now (w_locked w) w) = 0"
  "w_balance (unlock_funds now a w) = w_balance w"
  "w_id (unlock_funds now a w) = w_id w"
  by (simp_all add: unlock_funds_def Let_def)

text \<open>Locking never commits more than is available, keeps the wallet solvent, and is undone exactly by
  unlocking the same amount; when the funds do not suffice it is refused with the sentinel error and
  the refusal is exact.\<close>

theorem lock_unlock_roundtrip:
  assumes "wallet_ok w" "0 \<le> amount"
  shows "(case lock_funds now amount w of
      Inl e \<Rightarrow> e = Sentinel ErrInsufficientFunds \<and> available_balance w < amount
    | Inr w' \<Rightarrow> amount \<le> available_balance w \<and> wallet_ok w' \<and> w_balance w' = w_balance w
        \<and> available_balance w' = available_balance w - amount
        \<and> unlock_funds now' amount w' = w\<lparr>w_updated_at := now'\<rparr>)"
  using assms
  by (auto simp: lock_funds_def can_spend_def wallet_ok_def available_balance_def unlock_funds_def Let_def)

definition demo_wallet :: wallet where
  "demo_wallet = \<lparr>w_id = 1, w_user_id = ''alice'', w_type = WalletTypeUser,
     w_solana_address = ''9xQeWvG816bUx9EPjHmaT23yvVM2ZWbrrpZb9PusVFin'', w_balance = 10, w_locked = 2,
     w_pending = 0, w_active = True, w_created_at = 0, w_updated_at = 0, w_last_activity_at = None\<rparr>"

theorem lock_unlock_roundtrip_witness:
  "\<exists>w'. lock_funds 5 3 demo_wallet = Inr w' \<and> w_locked w' = 5 \<and> wallet_ok w'
     \<and> unlock_funds 6 3 w' = demo_wallet\<lparr>w_updated_at := 6\<rparr>"
proof -
  have ok: "wallet_ok demo_wallet" "(0 :: rat) \<le> 3" by (simp_all add: wallet_ok_def demo_wallet_def)
  obtain w' where w': "lock_funds 5 3 demo_wallet = Inr w'" "w_locked w' = 5"
    by (simp add: lock_funds_def can_spend_def available_balance_def demo_wallet_def)
  from lock_unlock_roundtrip [OF ok, where now = 5 and now' = 6] w' show ?thesis by auto
qed

end
