(* ===== verification/Session.thy ===== *)
theory Session
  imports Wallet
begin

text \<open>
  Rental sessions (\<open>internal/models/billing.go\<close>): the session record, its duration and the running
  cost, the usage and billing records, and the requests and responses of the session operations.

  \<open>time.Duration.Hours\<close> followed by \<open>decimal.NewFromFloat\<close> goes through a float64; the composite
  is the parameter \<open>hrs\<close>, and what is used of it is the locale \<open>duration_hours\<close>: it is monotone and
  exact on whole hours. \<open>time.Time.Sub\<close> saturates at the range of an int64.
\<close>

section \<open>Data\<close>

datatype session_status =
    SessionStatusActive | SessionStatusCompleted | SessionStatusCancelled
  | SessionStatusSuspended | SessionStatusTerminated

record rental_session =
  rs_id :: uuid
  rs_user_id :: string
  rs_provider_id :: uuid
  rs_job_id :: "string option"
  rs_status :: session_status
  rs_gpu_model :: string
  rs_allocated_vram :: u64
  rs_total_vram :: u64
  rs_vram_percentage :: decimal
  rs_hourly_rate :: decimal
  rs_vram_rate :: decimal
  rs_power_rate :: decimal
  rs_platform_fee_rate :: decimal
  rs_estimated_power_w :: u32
  rs_actual_power_w :: "u32 option"
  rs_started_at :: time
  rs_ended_at :: "time option"
  rs_last_billed_at :: time
  rs_total_cost :: decimal
  rs_platform_fee :: decimal
  rs_provider_earnings :: decimal
  rs_metadata :: metadata
  rs_created_at :: time
  rs_updated_at :: time

record usage_record =
  ur_id :: uuid
  ur_session_id :: uuid
  ur_recorded_at :: time
  ur_gpu_utilization :: u8
  ur_vram_utilization :: u8
  ur_power_draw :: u32
  ur_temperature :: u8
  ur_period_minutes :: int
  ur_period_cost :: decimal
  ur_created_at :: time

record billing_record =
  bl_id :: uuid
  bl_user_id :: string
  bl_provider_id :: uuid
  bl_session_id :: uuid
  bl_period_start :: time
  bl_period_end :: time
  bl_total_minutes :: int
  bl_avg_gpu_util :: decimal
  bl_avg_vram_util :: decimal
  bl_avg_power_draw :: decimal
  bl_base_cost :: decimal
  bl_vram_cost :: decimal
  bl_power_cost :: decimal
  bl_total_cost :: decimal
  bl_platform_fee :: decimal
  bl_provider_earnings :: decimal
  bl_transaction_id :: uuid
  bl_created_at :: time

record session_start_request =
  ssr_user_id :: string
  ssr_provider_id :: uuid
  ssr_job_id :: "string option"
  ssr_gpu_model :: string
  ssr_requested_vram :: u64
  ssr_estimated_power_w :: u32
  ssr_max_hourly_rate :: "decimal option"
  ssr_max_duration_hours :: "int option"

record session_end_request =
  ser_session_id :: uuid
  ser_reason :: string

record usage_update_request =
  uur_session_id :: uuid
  uur_gpu_utilization :: u8
  uur_vram_utilization :: u8
  uur_power_draw :: u32
  uur_temperature :: u8
  uur_timestamp :: time

record session_response =
  sr_session :: rental_session
  sr_current_cost :: decimal
  sr_estimated_hourly_cost :: decimal
  sr_remaining_balance :: decimal
  sr_estimated_runtime :: decimal

record billing_history_request =
  bhr_user_id :: "string option"
  bhr_provider_id :: "uuid option"
  bhr_start_date :: "time option"
  bhr_end_date :: "time option"
  bhr_limit :: int
  bhr_offset :: int

record billing_history_response =
  bhp_records :: "billing_record list"
  bhp_total :: int
  bhp_limit :: int
  bhp_offset :: int

record provider_earnings_request =
  per_provider_id :: uuid
  per_start_date :: "time option"
  per_end_date :: "time option"

record provider_earnings_response =
  pep_provider_id :: uuid
  pep_total_earnings :: decimal
  pep_pending_earnings :: decimal
  pep_paid_earnings :: decimal
  pep_total_sessions :: int
  pep_total_hours :: decimal
  pep_avg_hourly_rate :: decimal
  pep_period :: string

section \<open>Durations\<close>

locale duration_hours =
  fixes hrs :: "duration \<Rightarrow> decimal"
  assumes hrs_mono: "d \<le> d' \<Longrightarrow> hrs d \<le> hrs d'"
    and hrs_whole: "hrs (k * hour) = of_int k"
begin

lemma hrs_0 [simp]: "hrs 0 = 0"
  using hrs_whole [of 0] by simp

lemma hrs_nonneg: "0 \<le> d \<Longrightarrow> 0 \<le> hrs d"
  using hrs_mono [of 0 d] by simp

lemma hrs_at_least: "k * hour \<le> d \<Longrightarrow> of_int k \<le> hrs d"
  using hrs_mono [of "k * hour" d] hrs_whole [of k] by simp

end

definition exact_hours :: "duration \<Rightarrow> decimal" where
  "exact_hours d = of_int d / of_int hour"

interpretation hours: duration_hours exact_hours
  by unfold_locales (simp_all add: exact_hours_def divide_right_mono)

definition time_sub :: "time \<Rightarrow> time \<Rightarrow> duration" where
  "time_sub t u = max (- (2 ^ 63)) (min (2 ^ 63 - 1) (t - u))"

lemma time_sub_mono: "t \<le> t' \<Longrightarrow> time_sub t u \<le> time_sub t' u"
  by (auto simp: time_sub_def)

lemma time_sub_nonneg: "u \<le> t \<Longrightarrow> 0 \<le> time_sub t u"
  by (auto simp: time_sub_def)

section \<open>Cost of a session\<close>

definition session_duration :: "time \<Rightarrow> rental_session \<Rightarrow> duration" where
  "session_duration now rs =
     (case rs_ended_at rs of Some t \<Rightarrow> time_sub t (rs_started_at rs) | None \<Rightarrow> time_sub now (rs_started_at rs))"

definition duration_in_hours :: "(duration \<Rightarrow> decimal) \<Rightarrow> time \<Rightarrow> rental_session \<Rightarrow> decimal" where
  "duration_in_hours hrs now rs = hrs (session_duration now rs)"

definition calculate_current_cost ::
    "(decimal \<Rightarrow> decimal \<Rightarrow> decimal) \<Rightarrow> (duration \<Rightarrow> decimal) \<Rightarrow> time \<Rightarrow> rental_session \<Rightarrow> decimal" where
  "calculate_current_cost dv hrs now rs =
     (let hours = duration_in_hours hrs now rs;
          bcost = rs_hourly_rate rs * hours;
          vram_gb = dv (of_int (sint (rs_allocated_vram rs))) 1024;
          vcost = rs_vram_rate rs * vram_gb * hours;
          pcost = (case rs_actual_power_w rs of
              Some w \<Rightarrow> rs_power_rate rs * dv (of_nat (unat w)) 1000 * hours
            | None \<Rightarrow> rs_power_rate rs * dv (of_nat (unat (rs_estimated_power_w rs))) 1000 * hours)
      in bcost + vcost + pcost)"

text \<open>The rates a session is charged at: they do not change over its life.\<close>

definition metered_power :: "rental_session \<Rightarrow> u32" where
  "metered_power rs = (case rs_actual_power_w rs of Some w \<Rightarrow> w | None \<Rightarrow> rs_estimated_power_w rs)"

definition metered_rate :: "(decimal \<Rightarrow> decimal \<Rightarrow> decimal) \<Rightarrow> rental_session \<Rightarrow> decimal" where
  "metered_rate dv rs = rs_hourly_rate rs + rs_vram_rate rs * dv (of_int (sint (rs_allocated_vram rs))) 1024
     + rs_power_rate rs * dv (of_nat (unat (metered_power rs))) 1000"

definition session_rates_ok :: "rental_session \<Rightarrow> bool" where
  "session_rates_ok rs \<longleftrightarrow> 0 \<le> rs_hourly_rate rs \<and> 0 \<le> rs_vram_rate rs \<and> 0 \<le> rs_power_rate rs
     \<and> unat (rs_allocated_vram rs) < 2 ^ 63"

lemma current_cost_rate: "calculate_current_cost dv hrs now rs = metered_rate dv rs * duration_in_hours hrs now rs"
  by (simp add: calculate_current_cost_def metered_rate_def metered_power_def Let_def algebra_simps split: option.split)

lemma metered_rate_nonneg:
  assumes "decimal_division dv" "session_rates_ok rs"
  shows "rs_hourly_rate rs \<le> metered_rate dv rs" "0 \<le> metered_rate dv rs"
proof -
  have "0 \<le> dv (of_int (sint (rs_allocated_vram rs))) 1024" "0 \<le> dv (of_nat (unat (metered_power rs))) 1000"
    using assms(2) rat_of_u64_bounds(1) [of "rs_allocated_vram rs" "rs_allocated_vram rs"]
    by (auto intro!: decimal_division.dv_nonneg [OF assms(1)] simp: session_rates_ok_def)
  then show "rs_hourly_rate rs \<le> metered_rate dv rs" "0 \<le> metered_rate dv rs"
    using assms(2) by (simp_all add: metered_rate_def session_rates_ok_def)
qed

lemma running_duration_nonneg:
  assumes "duration_hours hrs" "rs_started_at rs \<le> now" "rs_ended_at rs = None"
  shows "0 \<le> duration_in_hours hrs now rs"
  using assms by (simp add: duration_in_hours_def session_duration_def duration_hours.hrs_nonneg time_sub_nonneg)

text \<open>The running cost of an open session is never negative and never falls while the clock advances,
  and once the session is ended it stands still: a session that is closed is charged the same
  whenever the cost is asked for.\<close>

theorem current_cost_monotone:
  assumes div: "decimal_division dv" and h: "duration_hours hrs"
    and rates: "session_rates_ok rs" and t: "rs_started_at rs \<le> t" "t \<le> t'" and running: "rs_ended_at rs = None"
  shows "0 \<le> calculate_current_cost dv hrs t rs
    \<and> calculate_current_cost dv hrs t rs \<le> calculate_current_cost dv hrs t' rs
    \<and> calculate_current_cost dv hrs t' (rs\<lparr>rs_ended_at := Some t\<rparr>) = calculate_current_cost dv hrs t rs"
proof -
  have m: "metered_rate dv (rs\<lparr>rs_ended_at := Some t\<rparr>) = metered_rate dv rs"
    by (simp add: metered_rate_def metered_power_def split: option.split)
  have le: "duration_in_hours hrs t rs \<le> duration_in_hours hrs t' rs"
    using t(2) running h by (simp add: duration_in_hours_def session_duration_def duration_hours.hrs_mono time_sub_mono)
  have ended: "duration_in_hours hrs t' (rs\<lparr>rs_ended_at := Some t\<rparr>) = duration_in_hours hrs t rs"
    using running by (simp add: duration_in_hours_def session_duration_def)
  have "0 \<le> duration_in_hours hrs t rs"
    using running_duration_nonneg [OF h t(1) running] .
  with le metered_rate_nonneg(2) [OF div rates] show ?thesis
    by (simp add: current_cost_rate m ended mult_left_mono)
qed

definition demo_session :: rental_session where
  "demo_session = \<lparr>rs_id = 7, rs_user_id = ''alice'', rs_provider_id = 9, rs_job_id = None,
     rs_status = SessionStatusActive, rs_gpu_model = ''RTX-4090'', rs_allocated_vram = 8192, rs_total_vram = 8192,
     rs_vram_percentage = 100, rs_hourly_rate = 1 / 2, rs_vram_rate = 4 / 25, rs_power_rate = 9 / 200,
     rs_platform_fee_rate = 5, rs_estimated_power_w = 450, rs_actual_power_w = None, rs_started_at = 0,
     rs_ended_at = None, rs_last_billed_at = 0, rs_total_cost = 0, rs_platform_fee = 0,
     rs_provider_earnings = 0, rs_metadata = None, rs_created_at = 0, rs_updated_at = 0\<rparr>"

theorem current_cost_monotone_witness:
  "0 \<le> calculate_current_cost div16 exact_hours hour demo_session
   \<and> calculate_current_cost div16 exact_hours hour demo_session
     \<le> calculate_current_cost div16 exact_hours (2 * hour) demo_session"
  using current_cost_monotone [OF d16.decimal_division_axioms hours.duration_hours_axioms,
      of demo_session hour "2 * hour"]
  by (simp add: session_rates_ok_def demo_session_def)

end
