(* ===== verification/Table.thy ===== *)
theory Table
  imports Prelude
begin

text \<open>
  Tables of the databases the services use: a table is the list of its rows in the order they were
  inserted. What PostgreSQL promises of a primary key is the locale \<open>keyed_table\<close>: a row is
  inserted only when its key is new. The lemmas proved in it (what a lookup returns after an
  insert, an update or a delete, and that keys stay distinct) are shared by all tables.
\<close>

definition select_by :: "('r \<Rightarrow> 'k) \<Rightarrow> 'k \<Rightarrow> 'r list \<Rightarrow> 'r option" where
  "select_by key k rs = find (\<lambda>r. key r = k) rs"

definition update_by :: "('r \<Rightarrow> 'k) \<Rightarrow> 'k \<Rightarrow> ('r \<Rightarrow> 'r) \<Rightarrow> 'r list \<Rightarrow> 'r list" where
  "update_by key k f rs = map (\<lambda>r. if key r = k then f r else r) rs"

definition delete_by :: "('r \<Rightarrow> 'k) \<Rightarrow> 'k \<Rightarrow> 'r list \<Rightarrow> 'r list" where
  "delete_by key k rs = filter (\<lambda>r. key r \<noteq> k) rs"

text \<open>\<open>ORDER BY k DESC\<close>; rows with the same key come in the order of insertion.\<close>

definition order_desc :: "('r \<Rightarrow> int) \<Rightarrow> 'r list \<Rightarrow> 'r list" where
  "order_desc k rs = sort_key (\<lambda>r. - k r) rs"

text \<open>The rows of a result that arrive before the connection breaks, if it does.\<close>

definition rows_read :: "nat option \<Rightarrow> 'a list \<Rightarrow> 'a list" where
  "rows_read k xs = (case k of None \<Rightarrow> xs | Some n \<Rightarrow> take n xs)"

lemma set_order_desc [simp]: "set (order_desc k rs) = set rs"
  by (simp add: order_desc_def)

lemma length_order_desc [simp]: "length (order_desc k rs) = length rs"
  by (simp add: order_desc_def)

lemma mset_order_desc [simp]: "distinct (order_desc k rs) = distinct rs"
  by (simp add: order_desc_def)

lemma sorted_order_desc: "sorted_wrt (\<lambda>a b. k b \<le> k a) (order_desc k rs)"
proof -
  have "sorted (map (\<lambda>r. - k r) (order_desc k rs))"
    by (simp add: order_desc_def)
  then show ?thesis by (simp add: sorted_map)
qed

lemma select_by_Nil [simp]: "select_by key k [] = None"
  by (simp add: select_by_def)

lemma select_by_Cons [simp]: "select_by key k (r # rs) = (if key r = k then Some r else select_by key k rs)"
  by (simp add: select_by_def)

lemma select_by_None: "select_by key k rs = None \<longleftrightarrow> k \<notin> key ` set rs"
  by (auto simp: select_by_def find_None_iff)

lemma select_by_SomeD: "select_by key k rs = Some r \<Longrightarrow> r \<in> set rs \<and> key r = k"
  by (auto simp: select_by_def dest: find_SomeD)

lemma select_by_append: "select_by key k (rs @ rs') = (case select_by key k rs of Some r \<Rightarrow> Some r | None \<Rightarrow> select_by key k rs')"
  by (induction rs) auto

lemma select_by_unique: "distinct (map key rs) \<Longrightarrow> r \<in> set rs \<Longrightarrow> select_by key (key r) rs = Some r"
  by (induction rs) auto

lemma select_update_same:
  "(\<And>r. key (f r) = key r) \<Longrightarrow> select_by key k (update_by key k f rs) = map_option f (select_by key k rs)"
  by (induction rs) (auto simp: update_by_def)

lemma select_update_other:
  "(\<And>r. key (f r) = key r) \<Longrightarrow> k \<noteq> k' \<Longrightarrow> select_by key k' (update_by key k f rs) = select_by key k' rs"
  by (induction rs) (auto simp: update_by_def)

lemma keys_update: "(\<And>r. key (f r) = key r) \<Longrightarrow> map key (update_by key k f rs) = map key rs"
  by (simp add: update_by_def)

lemma update_by_none: "k \<notin> key ` set rs \<Longrightarrow> update_by key k f rs = rs"
  by (induction rs) (auto simp: update_by_def)

lemma map_update_by: "(\<And>r. g (f r) = g r) \<Longrightarrow> map g (update_by key k f rs) = map g rs"
  by (simp add: update_by_def)

lemma keys_update_by:
  "(\<And>r. g (f r) = g r) \<Longrightarrow> g ` set (update_by key k f rs) = g ` set rs"
  by (metis map_update_by set_map)

lemma set_update_by: "x \<in> set (update_by key k f rs) \<Longrightarrow> x \<in> set rs \<or> (\<exists>r \<in> set rs. key r = k \<and> x = f r)"
  by (auto simp: update_by_def split: if_splits)

lemma length_update_by [simp]: "length (update_by key k f rs) = length rs"
  by (simp add: update_by_def)

lemma select_delete: "select_by key k' (delete_by key k rs) = (if k' = k then None else select_by key k' rs)"
  by (induction rs) (auto simp: delete_by_def)

lemma keys_delete: "distinct (map key rs) \<Longrightarrow> distinct (map key (delete_by key k rs))"
  by (simp add: delete_by_def distinct_map_filter)

locale keyed_table =
  fixes key :: "'r \<Rightarrow> 'k" and accepts :: "'r list \<Rightarrow> 'r \<Rightarrow> bool"
  assumes accepts_fresh: "accepts rs r \<Longrightarrow> key r \<notin> key ` set rs"
begin

lemma insert_lookup: "accepts rs r \<Longrightarrow> select_by key (key r) (rs @ [r]) = Some r"
  using accepts_fresh [of rs r] select_by_None [of key "key r" rs] by (simp add: select_by_append)

lemma insert_others: "accepts rs r \<Longrightarrow> k \<noteq> key r \<Longrightarrow> select_by key k (rs @ [r]) = select_by key k rs"
  by (simp add: select_by_append split: option.split)

lemma insert_keeps: "accepts rs r \<Longrightarrow> select_by key k rs = Some x \<Longrightarrow> select_by key k (rs @ [r]) = Some x"
  by (simp add: select_by_append)

lemma insert_distinct: "accepts rs r \<Longrightarrow> distinct (map key rs) \<Longrightarrow> distinct (map key (rs @ [r]))"
  using accepts_fresh [of rs r] by simp

end

end
