(* ===== verification/BillingStore.thy ===== *)
theory BillingStore
  imports Session Table
begin

text \<open>
  The PostgreSQL store of the billing service (\<open>internal/store/postgres.go\<close>) over the schema of
  \<open>internal/store/schema.go\<close>. The state \<open>billing_db\<close> holds the five tables the store uses as lists of
  rows; every method is one statement on them.

  The database is not part of the repository; what differs from one run to another is the record
  \<open>sql_env\<close>: which statements fail, how many rows of a result arrive before the connection breaks,
  and how a value is coerced to its column. The columns have laws, collected in \<open>sql_env_ok\<close>. The
  constraints of the schema are executable predicates on the row to be written. \<open>uuid.New()\<close> and the
  clock are arguments.
\<close>

section \<open>Environment and state\<close>

datatype sql_op =
    OpInsertWallet | OpSelectWallet | OpSelectUserWallet | OpUpdateWallet
  | OpInsertTransaction | OpUpdateTransaction | OpSelectTransaction
  | OpInsertSession | OpSelectSession | OpUpdateSession | OpSelectActive
  | OpInsertUsage | OpSelectUsage | OpInsertBilling | OpCountBilling | OpSelectBilling | OpEarnings

record sql_env =
  sql_fail :: "sql_op \<Rightarrow> bool"
  rows_delivered :: "sql_op \<Rightarrow> nat option"
  money_col :: "decimal \<Rightarrow> decimal option"
  percent_col :: "decimal \<Rightarrow> decimal option"
  watt_col :: "decimal \<Rightarrow> decimal option"
  time_col :: "time \<Rightarrow> time"

record billing_db =
  db_wallets :: "wallet list"
  db_transactions :: "transaction list"
  db_sessions :: "rental_session list"
  db_usage :: "usage_record list"
  db_billing :: "billing_record list"

definition sql_env_ok :: "sql_env \<Rightarrow> bool" where
  "sql_env_ok env \<longleftrightarrow> numeric_column 20 9 (money_col env) \<and> numeric_column 5 2 (percent_col env)
     \<and> numeric_column 8 2 (watt_col env) \<and> mono (time_col env)"

definition empty_db :: billing_db where
  "empty_db = \<lparr>db_wallets = [], db_transactions = [], db_sessions = [], db_usage = [], db_billing = []\<rparr>"

definition pg_env :: sql_env where
  "pg_env = \<lparr>sql_fail = (\<lambda>_. False), rows_delivered = (\<lambda>_. None), money_col = numeric 20 9,
     percent_col = numeric 5 2, watt_col = numeric 8 2, time_col = (\<lambda>t. t div 1000 * 1000)\<rparr>"

lemma pg_env_ok: "sql_env_ok pg_env"
  by (auto simp: sql_env_ok_def pg_env_def numeric_columnI intro!: monoI zdiv_mono1 mult_right_mono)

definition varchar :: "nat \<Rightarrow> string \<Rightarrow> bool" where
  "varchar n s \<longleftrightarrow> length s \<le> n"

definition db_error :: "string \<Rightarrow> go_error" where
  "db_error msg = Wrapped msg (Opaque ''database error'')"

definition delivered :: "sql_env \<Rightarrow> sql_op \<Rightarrow> 'r list \<Rightarrow> 'r list" where
  "delivered env op rs = (case rows_delivered env op of None \<Rightarrow> rs | Some n \<Rightarrow> take n rs)"

section \<open>Rows as they are stored, and the constraints of the schema\<close>

definition stored_wallet :: "sql_env \<Rightarrow> wallet \<Rightarrow> wallet option" where
  "stored_wallet env w =
     (case (money_col env (w_balance w), money_col env (w_locked w), money_col env (w_pending w)) of
        (Some b, Some l, Some p) \<Rightarrow>
          Some (w\<lparr>w_balance := b, w_locked := l, w_pending := p, w_created_at := time_col env (w_created_at w),
                  w_updated_at := time_col env (w_updated_at w)\<rparr>)
      | _ \<Rightarrow> None)"

definition known_wallet_type :: "wallet_type \<Rightarrow> bool" where
  "known_wallet_type t \<longleftrightarrow> t = WalletTypeUser \<or> t = WalletTypeProvider \<or> t = WalletTypePlatform"

definition accepts_wallet :: "wallet list \<Rightarrow> wallet \<Rightarrow> bool" where
  "accepts_wallet ws w \<longleftrightarrow> varchar 255 (w_user_id w) \<and> varchar 255 (w_solana_address w) \<and> known_wallet_type (w_type w)
     \<and> w_id w \<notin> set (map w_id ws)
     \<and> (w_user_id w, w_type w) \<notin> set (map (\<lambda>v. (w_user_id v, w_type v)) ws)
     \<and> w_solana_address w \<notin> set (map w_solana_address ws)"

definition references :: "('r \<Rightarrow> 'k) \<Rightarrow> 'r list \<Rightarrow> 'k option \<Rightarrow> bool" where
  "references key rs k \<longleftrightarrow> (case k of None \<Rightarrow> True | Some i \<Rightarrow> i \<in> set (map key rs))"

definition optional_varchar :: "nat \<Rightarrow> string option \<Rightarrow> bool" where
  "optional_varchar n s \<longleftrightarrow> (case s of None \<Rightarrow> True | Some v \<Rightarrow> varchar n v)"

definition stored_transaction :: "sql_env \<Rightarrow> transaction \<Rightarrow> transaction option" where
  "stored_transaction env t =
     (case (money_col env (t_amount t), money_col env (t_fee t)) of
        (Some a, Some f) \<Rightarrow>
          Some (t\<lparr>t_amount := a, t_fee := f, t_created_at := time_col env (t_created_at t),
                  t_updated_at := time_col env (t_updated_at t)\<rparr>)
      | _ \<Rightarrow> None)"

definition transaction_row_ok :: "wallet list \<Rightarrow> transaction \<Rightarrow> bool" where
  "transaction_row_ok ws t \<longleftrightarrow> references w_id ws (t_from_wallet t) \<and> references w_id ws (t_to_wallet t)
     \<and> 0 < t_amount t \<and> 0 \<le> t_fee t \<and> (t_from_wallet t \<noteq> None \<or> t_to_wallet t \<noteq> None)
     \<and> optional_varchar 255 (t_solana_signature t) \<and> optional_varchar 255 (t_job_id t)"

definition accepts_transaction :: "wallet list \<Rightarrow> transaction list \<Rightarrow> transaction \<Rightarrow> bool" where
  "accepts_transaction ws ts t \<longleftrightarrow> t_id t \<notin> set (map t_id ts) \<and> transaction_row_ok ws t"

definition stored_session :: "sql_env \<Rightarrow> rental_session \<Rightarrow> rental_session option" where
  "stored_session env s =
     (case (percent_col env (rs_vram_percentage s), percent_col env (rs_platform_fee_rate s)) of
        (Some pct, Some fee) \<Rightarrow>
     (case (money_col env (rs_hourly_rate s), money_col env (rs_vram_rate s), money_col env (rs_power_rate s)) of
        (Some hr, Some vr, Some pr) \<Rightarrow>
     (case (money_col env (rs_total_cost s), money_col env (rs_platform_fee s), money_col env (rs_provider_earnings s)) of
        (Some tc, Some pf, Some pe) \<Rightarrow>
          Some (s\<lparr>rs_vram_percentage := pct, rs_platform_fee_rate := fee, rs_hourly_rate := hr, rs_vram_rate := vr,
                  rs_power_rate := pr, rs_total_cost := tc, rs_platform_fee := pf, rs_provider_earnings := pe,
                  rs_started_at := time_col env (rs_started_at s), rs_ended_at := map_option (time_col env) (rs_ended_at s),
                  rs_last_billed_at := time_col env (rs_last_billed_at s),
                  rs_created_at := time_col env (rs_created_at s), rs_updated_at := time_col env (rs_updated_at s)\<rparr>)
      | _ \<Rightarrow> None) | _ \<Rightarrow> None) | _ \<Rightarrow> None)"

text \<open>BIGINT and INTEGER are signed: a larger unsigned value is refused by the driver.\<close>

definition session_row_ok :: "rental_session \<Rightarrow> bool" where
  "session_row_ok s \<longleftrightarrow> varchar 255 (rs_user_id s) \<and> optional_varchar 255 (rs_job_id s) \<and> varchar 255 (rs_gpu_model s)
     \<and> unat (rs_allocated_vram s) < 2 ^ 63 \<and> unat (rs_total_vram s) < 2 ^ 63
     \<and> 0 < rs_allocated_vram s \<and> 0 < rs_total_vram s \<and> rs_allocated_vram s \<le> rs_total_vram s
     \<and> 0 \<le> rs_vram_percentage s \<and> rs_vram_percentage s \<le> 100
     \<and> 0 \<le> rs_hourly_rate s \<and> 0 \<le> rs_vram_rate s \<and> 0 \<le> rs_power_rate s
     \<and> 0 \<le> rs_platform_fee_rate s \<and> rs_platform_fee_rate s \<le> 100
     \<and> 0 < rs_estimated_power_w s \<and> unat (rs_estimated_power_w s) < 2 ^ 31
     \<and> (case rs_actual_power_w s of None \<Rightarrow> True | Some w \<Rightarrow> unat w < 2 ^ 31)
     \<and> 0 \<le> rs_total_cost s \<and> 0 \<le> rs_platform_fee s \<and> 0 \<le> rs_provider_earnings s"

definition accepts_session :: "rental_session list \<Rightarrow> rental_session \<Rightarrow> bool" where
  "accepts_session ss s \<longleftrightarrow> rs_id s \<notin> set (map rs_id ss) \<and> session_row_ok s"

definition stored_usage :: "sql_env \<Rightarrow> usage_record \<Rightarrow> usage_record option" where
  "stored_usage env u =
     (case money_col env (ur_period_cost u) of
        Some c \<Rightarrow> Some (u\<lparr>ur_period_cost := c, ur_recorded_at := time_col env (ur_recorded_at u),
                          ur_created_at := time_col env (ur_created_at u)\<rparr>)
      | None \<Rightarrow> None)"

definition usage_row_ok :: "rental_session list \<Rightarrow> usage_record \<Rightarrow> bool" where
  "usage_row_ok ss u \<longleftrightarrow> references rs_id ss (Some (ur_session_id u))
     \<and> ur_gpu_utilization u \<le> 100 \<and> ur_vram_utilization u \<le> 100 \<and> unat (ur_power_draw u) < 2 ^ 31
     \<and> 0 < ur_period_minutes u \<and> ur_period_minutes u < 2 ^ 31 \<and> 0 \<le> ur_period_cost u"

definition accepts_usage :: "rental_session list \<Rightarrow> usage_record list \<Rightarrow> usage_record \<Rightarrow> bool" where
  "accepts_usage ss us u \<longleftrightarrow> ur_id u \<notin> set (map ur_id us) \<and> usage_row_ok ss u"

definition stored_billing :: "sql_env \<Rightarrow> billing_record \<Rightarrow> billing_record option" where
  "stored_billing env b =
     (case (percent_col env (bl_avg_gpu_util b), percent_col env (bl_avg_vram_util b), watt_col env (bl_avg_power_draw b)) of
        (Some g, Some v, Some w) \<Rightarrow>
     (case (money_col env (bl_base_cost b), money_col env (bl_vram_cost b), money_col env (bl_power_cost b)) of
        (Some bc, Some vc, Some pc) \<Rightarrow>
     (case (money_col env (bl_total_cost b), money_col env (bl_platform_fee b), money_col env (bl_provider_earnings b)) of
        (Some tc, Some pf, Some pe) \<Rightarrow>
          Some (b\<lparr>bl_avg_gpu_util := g, bl_avg_vram_util := v, bl_avg_power_draw := w, bl_base_cost := bc,
                  bl_vram_cost := vc, bl_power_cost := pc, bl_total_cost := tc, bl_platform_fee := pf,
                  bl_provider_earnings := pe, bl_period_start := time_col env (bl_period_start b),
                  bl_period_end := time_col env (bl_period_end b), bl_created_at := time_col env (bl_created_at b)\<rparr>)
      | _ \<Rightarrow> None) | _ \<Rightarrow> None) | _ \<Rightarrow> None)"

definition billing_row_ok :: "billing_db \<Rightarrow> billing_record \<Rightarrow> bool" where
  "billing_row_ok db b \<longleftrightarrow> varchar 255 (bl_user_id b)
     \<and> references rs_id (db_sessions db) (Some (bl_session_id b))
     \<and> references t_id (db_transactions db) (Some (bl_transaction_id b))
     \<and> bl_period_start b < bl_period_end b \<and> 0 < bl_total_minutes b \<and> bl_total_minutes b < 2 ^ 31
     \<and> 0 \<le> bl_avg_gpu_util b \<and> bl_avg_gpu_util b \<le> 100 \<and> 0 \<le> bl_avg_vram_util b \<and> bl_avg_vram_util b \<le> 100
     \<and> 0 \<le> bl_avg_power_draw b \<and> 0 \<le> bl_base_cost b \<and> 0 \<le> bl_vram_cost b \<and> 0 \<le> bl_power_cost b
     \<and> 0 \<le> bl_total_cost b \<and> 0 \<le> bl_platform_fee b \<and> 0 \<le> bl_provider_earnings b"

definition accepts_billing :: "billing_db \<Rightarrow> billing_record list \<Rightarrow> billing_record \<Rightarrow> bool" where
  "accepts_billing db bs b \<longleftrightarrow> bl_id b \<notin> set (map bl_id bs) \<and> billing_row_ok db b"

interpretation wallet_table: keyed_table w_id accepts_wallet
  by unfold_locales (auto simp: accepts_wallet_def)

interpretation transaction_table: keyed_table t_id "accepts_transaction ws" for ws
  by unfold_locales (auto simp: accepts_transaction_def)

interpretation session_table: keyed_table rs_id accepts_session
  by unfold_locales (auto simp: accepts_session_def)

interpretation usage_table: keyed_table ur_id "accepts_usage ss" for ss
  by unfold_locales (auto simp: accepts_usage_def)

interpretation billing_table: keyed_table bl_id "accepts_billing db" for db
  by unfold_locales (auto simp: accepts_billing_def)

end
