(* ===== verification/PostgresStore.thy ===== *)
theory PostgresStore
  imports BillingStore
begin

text \<open>
  The methods of the billing service's store (\<open>internal/store/postgres.go\<close>), each one SQL statement
  on the tables of \<open>BillingStore\<close>. A method that writes returns the new database beside its result;
  a statement that fails leaves the database as it was. The properties: a reader returns what a
  writer stored, each update touches one row and only its own columns, and every method keeps the
  constraints of the schema on all rows.
\<close>

section \<open>Wallets\<close>

definition create_wallet_row ::
    "sql_env \<Rightarrow> uuid \<Rightarrow> clock \<Rightarrow> wallet_create_request \<Rightarrow> billing_db \<Rightarrow> (go_error + wallet) \<times> billing_db" where
  "create_wallet_row env new_id clk req db =
     (let w = \<lparr>w_id = new_id, w_user_id = wcr_user_id req, w_type = wcr_wallet_type req,
               w_solana_address = wcr_solana_address req, w_balance = 0, w_locked = 0, w_pending = 0,
               w_active = True, w_created_at = clk 0, w_updated_at = clk 1, w_last_activity_at = None\<rparr>
      in if sql_fail env OpInsertWallet then (Inl (db_error ''failed to create wallet''), db)
         else case stored_wallet env w of
           None \<Rightarrow> (Inl (db_error ''failed to create wallet''), db)
         | Some row \<Rightarrow>
             if accepts_wallet (db_wallets db) row
             then (Inr w, db\<lparr>db_wallets := db_wallets db @ [row]\<rparr>)
             else (Inl (db_error ''failed to create wallet''), db))"

definition get_wallet :: "sql_env \<Rightarrow> uuid \<Rightarrow> billing_db \<Rightarrow> go_error + wallet" where
  "get_wallet env i db =
     (if sql_fail env OpSelectWallet then Inl (db_error ''failed to get wallet'')
      else case select_by w_id i (db_wallets db) of
        None \<Rightarrow> Inl (Sentinel ErrWalletNotFound)
      | Some w \<Rightarrow> Inr w)"

definition get_wallet_by_user_id :: "sql_env \<Rightarrow> string \<Rightarrow> wallet_type \<Rightarrow> billing_db \<Rightarrow> go_error + wallet" where
  "get_wallet_by_user_id env user typ db =
     (if sql_fail env OpSelectUserWallet then Inl (db_error ''failed to get wallet'')
      else case select_by (\<lambda>w. (w_user_id w, w_type w)) (user, typ) (db_wallets db) of
        None \<Rightarrow> Inl (Sentinel ErrWalletNotFound)
      | Some w \<Rightarrow> Inr w)"

definition set_money :: "decimal \<Rightarrow> decimal \<Rightarrow> time \<Rightarrow> wallet \<Rightarrow> wallet" where
  "set_money b l t w = w\<lparr>w_balance := b, w_locked := l, w_updated_at := t, w_last_activity_at := Some t\<rparr>"

definition update_wallet_balance ::
    "sql_env \<Rightarrow> time \<Rightarrow> uuid \<Rightarrow> decimal \<Rightarrow> decimal \<Rightarrow> billing_db \<Rightarrow> (go_error + unit) \<times> billing_db" where
  "update_wallet_balance env now i balance locked db =
     (if sql_fail env OpUpdateWallet then (Inl (db_error ''failed to update wallet balance''), db)
      else case (money_col env balance, money_col env locked) of
        (Some b, Some l) \<Rightarrow>
          if select_by w_id i (db_wallets db) = None then (Inl (Sentinel ErrWalletNotFound), db)
          else (Inr (), db\<lparr>db_wallets := update_by w_id i (set_money b l (time_col env now)) (db_wallets db)\<rparr>)
      | _ \<Rightarrow> (Inl (db_error ''failed to update wallet balance''), db))"

section \<open>Transactions\<close>

definition create_transaction ::
    "sql_env \<Rightarrow> uuid \<Rightarrow> clock \<Rightarrow> transaction_create_request \<Rightarrow> billing_db \<Rightarrow> (go_error + transaction) \<times> billing_db" where
  "create_transaction env new_id clk req db =
     (let t = \<lparr>t_id = new_id, t_from_wallet = tcr_from_wallet req, t_to_wallet = tcr_to_wallet req,
               t_type = tcr_type req, t_status = TransactionStatusPending, t_amount = tcr_amount req, t_fee = 0,
               t_description = tcr_description req, t_solana_signature = None, t_session_id = tcr_session_id req,
               t_job_id = tcr_job_id req, t_metadata = tcr_metadata req, t_created_at = clk 0, t_updated_at = clk 1,
               t_confirmed_at = None\<rparr>
      in if sql_fail env OpInsertTransaction then (Inl (db_error ''failed to create transaction''), db)
         else case stored_transaction env t of
           None \<Rightarrow> (Inl (db_error ''failed to create transaction''), db)
         | Some row \<Rightarrow>
             if accepts_transaction (db_wallets db) (db_transactions db) row
             then (Inr t, db\<lparr>db_transactions := db_transactions db @ [row]\<rparr>)
             else (Inl (db_error ''failed to create transaction''), db))"

definition set_status ::
    "transaction_status \<Rightarrow> string option \<Rightarrow> time option \<Rightarrow> time \<Rightarrow> transaction \<Rightarrow> transaction" where
  "set_status st sig confirmed t tr =
     tr\<lparr>t_status := st, t_solana_signature := sig, t_confirmed_at := confirmed, t_updated_at := t\<rparr>"

text \<open>The clock is read once more when the status is \<open>confirmed\<close>.\<close>

definition update_transaction_status ::
    "sql_env \<Rightarrow> clock \<Rightarrow> uuid \<Rightarrow> transaction_status \<Rightarrow> string option \<Rightarrow> billing_db \<Rightarrow> (go_error + unit) \<times> billing_db" where
  "update_transaction_status env clk i st sig db =
     (let confirmed = (if st = TransactionStatusConfirmed then Some (clk 0) else None);
          now = (if st = TransactionStatusConfirmed then clk 1 else clk 0)
      in if sql_fail env OpUpdateTransaction \<or> \<not> optional_varchar 255 sig
         then (Inl (db_error ''failed to update transaction status''), db)
         else if select_by t_id i (db_transactions db) = None then (Inl (Sentinel ErrTransactionNotFound), db)
         else (Inr (), db\<lparr>db_transactions := update_by t_id i
                (set_status st sig (map_option (time_col env) confirmed) (time_col env now)) (db_transactions db)\<rparr>))"

definition get_transaction :: "sql_env \<Rightarrow> uuid \<Rightarrow> billing_db \<Rightarrow> go_error + transaction" where
  "get_transaction env i db =
     (if sql_fail env OpSelectTransaction then Inl (db_error ''failed to get transaction'')
      else case select_by t_id i (db_transactions db) of
        None \<Rightarrow> Inl (Sentinel ErrTransactionNotFound)
      | Some t \<Rightarrow> Inr t)"

section \<open>Rental sessions\<close>

definition create_rental_session :: "sql_env \<Rightarrow> rental_session \<Rightarrow> billing_db \<Rightarrow> (go_error + unit) \<times> billing_db" where
  "create_rental_session env s db =
     (if sql_fail env OpInsertSession then (Inl (db_error ''failed to create rental session''), db)
      else case stored_session env s of
        None \<Rightarrow> (Inl (db_error ''failed to create rental session''), db)
      | Some row \<Rightarrow>
          if accepts_session (db_sessions db) row then (Inr (), db\<lparr>db_sessions := db_sessions db @ [row]\<rparr>)
          else (Inl (db_error ''failed to create rental session''), db))"

definition get_rental_session :: "sql_env \<Rightarrow> uuid \<Rightarrow> billing_db \<Rightarrow> go_error + rental_session" where
  "get_rental_session env i db =
     (if sql_fail env OpSelectSession then Inl (db_error ''failed to get rental session'')
      else case select_by rs_id i (db_sessions db) of
        None \<Rightarrow> Inl (Sentinel ErrSessionNotFound)
      | Some s \<Rightarrow> Inr s)"

text \<open>Only these nine columns are updated; the rates and the allocation of a session stay as created.\<close>

definition set_session :: "rental_session \<Rightarrow> decimal \<times> decimal \<times> decimal \<Rightarrow> (time \<Rightarrow> time) \<Rightarrow> time \<Rightarrow> rental_session \<Rightarrow> rental_session" where
  "set_session s money col now row =
     row\<lparr>rs_status := rs_status s, rs_actual_power_w := rs_actual_power_w s,
         rs_ended_at := map_option col (rs_ended_at s), rs_last_billed_at := col (rs_last_billed_at s),
         rs_total_cost := fst money, rs_platform_fee := fst (snd money), rs_provider_earnings := snd (snd money),
         rs_metadata := rs_metadata s, rs_updated_at := col now\<rparr>"

definition session_update_ok :: "rental_session \<Rightarrow> decimal \<times> decimal \<times> decimal \<Rightarrow> bool" where
  "session_update_ok s money \<longleftrightarrow>
     (case rs_actual_power_w s of None \<Rightarrow> True | Some w \<Rightarrow> unat w < 2 ^ 31)
     \<and> 0 \<le> fst money \<and> 0 \<le> fst (snd money) \<and> 0 \<le> snd (snd money)"

definition update_rental_session :: "sql_env \<Rightarrow> time \<Rightarrow> rental_session \<Rightarrow> billing_db \<Rightarrow> (go_error + unit) \<times> billing_db" where
  "update_rental_session env now s db =
     (if sql_fail env OpUpdateSession then (Inl (db_error ''failed to update rental session''), db)
      else case (money_col env (rs_total_cost s), money_col env (rs_platform_fee s), money_col env (rs_provider_earnings s)) of
        (Some tc, Some pf, Some pe) \<Rightarrow>
          if select_by rs_id (rs_id s) (db_sessions db) = None then (Inl (Sentinel ErrSessionNotFound), db)
          else if session_update_ok s (tc, pf, pe)
          then (Inr (), db\<lparr>db_sessions :=
                  update_by rs_id (rs_id s) (set_session s (tc, pf, pe) (time_col env) now) (db_sessions db)\<rparr>)
          else (Inl (db_error ''failed to update rental session''), db)
      | _ \<Rightarrow> (Inl (db_error ''failed to update rental session''), db))"

definition get_active_sessions_by_user :: "sql_env \<Rightarrow> string \<Rightarrow> billing_db \<Rightarrow> go_error + rental_session list" where
  "get_active_sessions_by_user env user db =
     (if sql_fail env OpSelectActive then Inl (db_error ''failed to query active sessions'')
      else Inr (delivered env OpSelectActive (order_desc rs_started_at
        (filter (\<lambda>s. rs_user_id s = user \<and> rs_status s = SessionStatusActive) (db_sessions db)))))"

section \<open>Usage records\<close>

definition create_usage_record :: "sql_env \<Rightarrow> usage_record \<Rightarrow> billing_db \<Rightarrow> (go_error + unit) \<times> billing_db" where
  "create_usage_record env u db =
     (if sql_fail env OpInsertUsage then (Inl (db_error ''failed to create usage record''), db)
      else case stored_usage env u of
        None \<Rightarrow> (Inl (db_error ''failed to create usage record''), db)
      | Some row \<Rightarrow>
          if accepts_usage (db_sessions db) (db_usage db) row then (Inr (), db\<lparr>db_usage := db_usage db @ [row]\<rparr>)
          else (Inl (db_error ''failed to create usage record''), db))"

text \<open>PostgreSQL refuses a negative LIMIT or OFFSET.\<close>

definition get_usage_records_by_session :: "sql_env \<Rightarrow> uuid \<Rightarrow> int \<Rightarrow> billing_db \<Rightarrow> go_error + usage_record list" where
  "get_usage_records_by_session env i limit db =
     (if sql_fail env OpSelectUsage \<or> limit < 0 then Inl (db_error ''failed to query usage records'')
      else Inr (delivered env OpSelectUsage (take (nat limit)
        (order_desc ur_recorded_at (filter (\<lambda>u. ur_session_id u = i) (db_usage db))))))"

section \<open>Billing records\<close>

definition create_billing_record :: "sql_env \<Rightarrow> billing_record \<Rightarrow> billing_db \<Rightarrow> (go_error + unit) \<times> billing_db" where
  "create_billing_record env b db =
     (if sql_fail env OpInsertBilling then (Inl (db_error ''failed to create billing record''), db)
      else case stored_billing env b of
        None \<Rightarrow> (Inl (db_error ''failed to create billing record''), db)
      | Some row \<Rightarrow>
          if accepts_billing db (db_billing db) row then (Inr (), db\<lparr>db_billing := db_billing db @ [row]\<rparr>)
          else (Inl (db_error ''failed to create billing record''), db))"

definition within_dates :: "time option \<Rightarrow> time option \<Rightarrow> billing_record \<Rightarrow> bool" where
  "within_dates start stop b \<longleftrightarrow> (case start of None \<Rightarrow> True | Some t \<Rightarrow> bl_period_start b \<ge> t)
     \<and> (case stop of None \<Rightarrow> True | Some t \<Rightarrow> bl_period_end b \<le> t)"

definition history_match :: "billing_history_request \<Rightarrow> billing_record \<Rightarrow> bool" where
  "history_match req b \<longleftrightarrow> (case bhr_user_id req of None \<Rightarrow> True | Some u \<Rightarrow> bl_user_id b = u)
     \<and> (case bhr_provider_id req of None \<Rightarrow> True | Some p \<Rightarrow> bl_provider_id b = p)
     \<and> within_dates (bhr_start_date req) (bhr_end_date req) b"

definition get_billing_history ::
    "sql_env \<Rightarrow> billing_history_request \<Rightarrow> billing_db \<Rightarrow> go_error + billing_history_response" where
  "get_billing_history env req db =
     (let hits = filter (history_match req) (db_billing db) in
      if sql_fail env OpCountBilling then Inl (db_error ''failed to count billing records'')
      else if sql_fail env OpSelectBilling \<or> bhr_limit req < 0 \<or> bhr_offset req < 0
        then Inl (db_error ''failed to query billing records'')
      else Inr \<lparr>bhp_records = delivered env OpSelectBilling
                  (take (nat (bhr_limit req)) (drop (nat (bhr_offset req)) (order_desc bl_period_start hits))),
                bhp_total = int (length hits), bhp_limit = bhr_limit req, bhp_offset = bhr_offset req\<rparr>)"

text \<open>
  The earnings query joins each billing record with its transaction. \<open>qdiv\<close> is the division of
  PostgreSQL's \<open>numeric\<close> (the average), \<open>fmt_day\<close> formats a date.
\<close>

definition earned_with :: "transaction_status \<Rightarrow> billing_db \<Rightarrow> billing_record \<Rightarrow> decimal" where
  "earned_with st db b =
     (case select_by t_id (bl_transaction_id b) (db_transactions db) of
        Some t \<Rightarrow> if t_status t = st then bl_provider_earnings b else 0
      | None \<Rightarrow> 0)"

definition average_rate :: "(decimal \<Rightarrow> decimal \<Rightarrow> decimal) \<Rightarrow> billing_record list \<Rightarrow> decimal" where
  "average_rate qdiv bs =
     (let rated = filter (\<lambda>b. bl_total_minutes b \<noteq> 0) bs in
      if rated = [] then 0
      else qdiv (sum_list (map (\<lambda>b. qdiv (bl_total_cost b) (of_int (bl_total_minutes b)) * 60) rated))
             (of_nat (length rated)))"

definition get_provider_earnings ::
    "(decimal \<Rightarrow> decimal \<Rightarrow> decimal) \<Rightarrow> (decimal \<Rightarrow> decimal \<Rightarrow> decimal) \<Rightarrow> (time \<Rightarrow> string) \<Rightarrow> sql_env
     \<Rightarrow> provider_earnings_request \<Rightarrow> billing_db \<Rightarrow> go_error + provider_earnings_response" where
  "get_provider_earnings dv qdiv fmt_day env req db =
     (let bs = filter (\<lambda>b. bl_provider_id b = per_provider_id req
                 \<and> within_dates (per_start_date req) (per_end_date req) b) (db_billing db)
      in if sql_fail env OpEarnings then Inl (db_error ''failed to calculate provider earnings'')
         else Inr \<lparr>pep_provider_id = per_provider_id req,
                   pep_total_earnings = sum_list (map bl_provider_earnings bs),
                   pep_pending_earnings = sum_list (map (earned_with TransactionStatusPending db) bs),
                   pep_paid_earnings = sum_list (map (earned_with TransactionStatusConfirmed db) bs),
                   pep_total_sessions = int (length bs),
                   pep_total_hours = dv (of_int (sum_list (map bl_total_minutes bs))) 60,
                   pep_avg_hourly_rate = average_rate qdiv bs,
                   pep_period = (case (per_start_date req, per_end_date req) of
                       (Some s, Some e) \<Rightarrow> fmt_day s @ '' to '' @ fmt_day e
                     | _ \<Rightarrow> ''all_time'')\<rparr>)"

section \<open>The schema as an invariant\<close>

definition wallets_ok :: "wallet list \<Rightarrow> bool" where
  "wallets_ok ws \<longleftrightarrow> distinct (map w_id ws) \<and> distinct (map (\<lambda>w. (w_user_id w, w_type w)) ws)
     \<and> distinct (map w_solana_address ws)
     \<and> (\<forall>w \<in> set ws. varchar 255 (w_user_id w) \<and> varchar 255 (w_solana_address w) \<and> known_wallet_type (w_type w))"

definition schema_ok :: "billing_db \<Rightarrow> bool" where
  "schema_ok db \<longleftrightarrow> wallets_ok (db_wallets db)
     \<and> distinct (map t_id (db_transactions db)) \<and> (\<forall>t \<in> set (db_transactions db). transaction_row_ok (db_wallets db) t)
     \<and> distinct (map rs_id (db_sessions db)) \<and> (\<forall>s \<in> set (db_sessions db). session_row_ok s)
     \<and> distinct (map ur_id (db_usage db)) \<and> (\<forall>u \<in> set (db_usage db). usage_row_ok (db_sessions db) u)
     \<and> distinct (map bl_id (db_billing db)) \<and> (\<forall>b \<in> set (db_billing db). billing_row_ok db b)"

lemma references_more: "references key rs k \<Longrightarrow> set (map key rs) \<subseteq> set (map key rs') \<Longrightarrow> references key rs' k"
  by (auto simp: references_def split: option.splits)

lemma references_keys: "map key rs' = map key rs \<Longrightarrow> references key rs' = references key rs"
  unfolding references_def by (simp only: option.case_eq_if)

lemma transaction_row_more:
  "transaction_row_ok ws t \<Longrightarrow> set (map w_id ws) \<subseteq> set (map w_id ws') \<Longrightarrow> transaction_row_ok ws' t"
  unfolding transaction_row_ok_def by (blast intro: references_more)

lemma set_money_keys [simp]:
  "w_id (set_money b l t w) = w_id w" "w_user_id (set_money b l t w) = w_user_id w"
  "w_type (set_money b l t w) = w_type w" "w_solana_address (set_money b l t w) = w_solana_address w"
  "w_balance (set_money b l t w) = b" "w_locked (set_money b l t w) = l" "w_pending (set_money b l t w) = w_pending w"
  by (simp_all add: set_money_def)

lemma set_status_keys [simp]:
  "t_id (set_status st sig c t tr) = t_id tr" "t_from_wallet (set_status st sig c t tr) = t_from_wallet tr"
  "t_to_wallet (set_status st sig c t tr) = t_to_wallet tr" "t_amount (set_status st sig c t tr) = t_amount tr"
  "t_fee (set_status st sig c t tr) = t_fee tr" "t_job_id (set_status st sig c t tr) = t_job_id tr"
  "t_solana_signature (set_status st sig c t tr) = sig" "t_status (set_status st sig c t tr) = st"
  by (simp_all add: set_status_def)

lemma set_session_keys [simp]:
  "rs_id (set_session s m c t row) = rs_id row" "rs_user_id (set_session s m c t row) = rs_user_id row"
  "rs_job_id (set_session s m c t row) = rs_job_id row" "rs_gpu_model (set_session s m c t row) = rs_gpu_model row"
  "rs_allocated_vram (set_session s m c t row) = rs_allocated_vram row"
  "rs_total_vram (set_session s m c t row) = rs_total_vram row"
  "rs_vram_percentage (set_session s m c t row) = rs_vram_percentage row"
  "rs_hourly_rate (set_session s m c t row) = rs_hourly_rate row"
  "rs_vram_rate (set_session s m c t row) = rs_vram_rate row"
  "rs_power_rate (set_session s m c t row) = rs_power_rate row"
  "rs_platform_fee_rate (set_session s m c t row) = rs_platform_fee_rate row"
  "rs_estimated_power_w (set_session s m c t row) = rs_estimated_power_w row"
  "rs_started_at (set_session s m c t row) = rs_started_at row"
  "rs_provider_id (set_session s m c t row) = rs_provider_id row"
  "rs_status (set_session s m c t row) = rs_status s"
  "rs_actual_power_w (set_session s m c t row) = rs_actual_power_w s"
  "rs_metadata (set_session s m c t row) = rs_metadata s"
  "rs_total_cost (set_session s m c t row) = fst m"
  "rs_platform_fee (set_session s m c t row) = fst (snd m)"
  "rs_provider_earnings (set_session s m c t row) = snd (snd m)"
  "rs_ended_at (set_session s m c t row) = map_option c (rs_ended_at s)"
  by (simp_all add: set_session_def)

lemma session_row_update: "session_row_ok row \<Longrightarrow> session_update_ok s m \<Longrightarrow> session_row_ok (set_session s m c t row)"
  by (simp add: session_row_ok_def session_update_ok_def)

text \<open>The writes of the store, as the state relation of a database that only the store's methods change.\<close>

inductive db_step :: "sql_env \<Rightarrow> billing_db \<Rightarrow> billing_db \<Rightarrow> bool" for env where
  create_wallet: "create_wallet_row env i clk wreq db = (r, db') \<Longrightarrow> db_step env db db'"
| update_wallet: "update_wallet_balance env now i b l db = (u, db') \<Longrightarrow> db_step env db db'"
| create_txn: "create_transaction env i clk treq db = (t, db') \<Longrightarrow> db_step env db db'"
| update_txn: "update_transaction_status env clk i st sig db = (u, db') \<Longrightarrow> db_step env db db'"
| create_session: "create_rental_session env s db = (u, db') \<Longrightarrow> db_step env db db'"
| update_session: "update_rental_session env now s db = (u, db') \<Longrightarrow> db_step env db db'"
| create_usage: "create_usage_record env ur db = (u, db') \<Longrightarrow> db_step env db db'"
| create_billing: "create_billing_record env br db = (u, db') \<Longrightarrow> db_step env db db'"

inductive_cases db_stepE: "db_step env db db'"

lemma create_wallet_row_db:
  "create_wallet_row env i clk req db = (r, db') \<Longrightarrow>
   db' = db \<or> (\<exists>row. accepts_wallet (db_wallets db) row \<and> db' = db\<lparr>db_wallets := db_wallets db @ [row]\<rparr>)"
  by (auto simp: create_wallet_row_def Let_def split: if_splits option.splits)

lemma update_wallet_balance_db:
  "update_wallet_balance env now i b l db = (r, db') \<Longrightarrow>
   db' = db \<or> (\<exists>b' l' t. db' = db\<lparr>db_wallets := update_by w_id i (set_money b' l' t) (db_wallets db)\<rparr>)"
  by (auto simp: update_wallet_balance_def split: if_splits option.splits)

lemma create_transaction_db:
  "create_transaction env i clk req db = (r, db') \<Longrightarrow>
   db' = db \<or> (\<exists>row. accepts_transaction (db_wallets db) (db_transactions db) row
     \<and> db' = db\<lparr>db_transactions := db_transactions db @ [row]\<rparr>)"
  by (auto simp: create_transaction_def Let_def split: if_splits option.splits)

lemma update_transaction_status_db:
  "update_transaction_status env clk i st sig db = (r, db') \<Longrightarrow>
   db' = db \<or> optional_varchar 255 sig \<and>
     (\<exists>c t. db' = db\<lparr>db_transactions := update_by t_id i (set_status st sig c t) (db_transactions db)\<rparr>)"
  by (auto simp: update_transaction_status_def Let_def split: if_splits)

lemma create_rental_session_db:
  "create_rental_session env s db = (r, db') \<Longrightarrow>
   db' = db \<or> (\<exists>row. accepts_session (db_sessions db) row \<and> db' = db\<lparr>db_sessions := db_sessions db @ [row]\<rparr>)"
  by (auto simp: create_rental_session_def split: if_splits option.splits)

lemma update_rental_session_db:
  "update_rental_session env now s db = (r, db') \<Longrightarrow>
   db' = db \<or> (\<exists>m. session_update_ok s m \<and>
     db' = db\<lparr>db_sessions := update_by rs_id (rs_id s) (set_session s m (time_col env) now) (db_sessions db)\<rparr>)"
  by (auto simp: update_rental_session_def split: if_splits option.splits)

lemma create_usage_record_db:
  "create_usage_record env u db = (r, db') \<Longrightarrow>
   db' = db \<or> (\<exists>row. accepts_usage (db_sessions db) (db_usage db) row \<and> db' = db\<lparr>db_usage := db_usage db @ [row]\<rparr>)"
  by (auto simp: create_usage_record_def split: if_splits option.splits)

lemma create_billing_record_db:
  "create_billing_record env b db = (r, db') \<Longrightarrow>
   db' = db \<or> (\<exists>row. accepts_billing db (db_billing db) row \<and> db' = db\<lparr>db_billing := db_billing db @ [row]\<rparr>)"
  by (auto simp: create_billing_record_def split: if_splits option.splits)

lemmas db_change =
  create_wallet_row_db update_wallet_balance_db create_transaction_db update_transaction_status_db
  create_rental_session_db update_rental_session_db create_usage_record_db create_billing_record_db

lemma wallets_ok_insert: "wallets_ok ws \<Longrightarrow> accepts_wallet ws w \<Longrightarrow> wallets_ok (ws @ [w])"
  by (auto simp: wallets_ok_def accepts_wallet_def)

lemma wallets_ok_update: "wallets_ok ws \<Longrightarrow> wallets_ok (update_by w_id i (set_money b l t) ws)"
  unfolding wallets_ok_def
  by (simp only: map_update_by set_money_keys) (auto dest: set_update_by)

lemma schema_ok_wallets:
  assumes ok: "schema_ok db" and ws: "wallets_ok ws" and more: "set (map w_id (db_wallets db)) \<subseteq> set (map w_id ws)"
  shows "schema_ok (db\<lparr>db_wallets := ws\<rparr>)"
  using ok ws transaction_row_more [OF _ more] by (simp add: schema_ok_def billing_row_ok_def)

lemma schema_ok_transactions:
  assumes ok: "schema_ok db" and ts: "distinct (map t_id ts)" "\<forall>t \<in> set ts. transaction_row_ok (db_wallets db) t"
    and more: "set (map t_id (db_transactions db)) \<subseteq> set (map t_id ts)"
  shows "schema_ok (db\<lparr>db_transactions := ts\<rparr>)"
  using ok ts references_more [OF _ more] unfolding schema_ok_def billing_row_ok_def by simp

lemma schema_ok_sessions:
  assumes ok: "schema_ok db" and ss: "distinct (map rs_id ss)" "\<forall>s \<in> set ss. session_row_ok s"
    and more: "set (map rs_id (db_sessions db)) \<subseteq> set (map rs_id ss)"
  shows "schema_ok (db\<lparr>db_sessions := ss\<rparr>)"
  using ok ss references_more [OF _ more] unfolding schema_ok_def billing_row_ok_def usage_row_ok_def by simp

lemma schema_ok_usage:
  "schema_ok db \<Longrightarrow> accepts_usage (db_sessions db) (db_usage db) u \<Longrightarrow> schema_ok (db\<lparr>db_usage := db_usage db @ [u]\<rparr>)"
  unfolding schema_ok_def billing_row_ok_def by (auto simp: accepts_usage_def)

lemma billing_row_ok_frame [simp]: "billing_row_ok (db\<lparr>db_billing := bs\<rparr>) = billing_row_ok db"
  by (simp add: billing_row_ok_def fun_eq_iff)

lemma schema_ok_billing:
  "schema_ok db \<Longrightarrow> accepts_billing db (db_billing db) b \<Longrightarrow> schema_ok (db\<lparr>db_billing := db_billing db @ [b]\<rparr>)"
  by (auto simp: schema_ok_def accepts_billing_def)

lemma transactions_updated:
  assumes "\<forall>t \<in> set ts. transaction_row_ok ws t" "optional_varchar 255 sig"
  shows "\<forall>t \<in> set (update_by t_id i (set_status st sig c n) ts). transaction_row_ok ws t"
  using assms by (auto dest!: set_update_by simp: transaction_row_ok_def)

lemma sessions_updated:
  assumes "\<forall>s \<in> set ss. session_row_ok s" "session_update_ok s m"
  shows "\<forall>s \<in> set (update_by rs_id i (set_session s m c n) ss). session_row_ok s"
  using assms by (auto dest!: set_update_by simp: session_row_update)

lemma schema_ok_writes [wf_rules]:
  assumes ok: "schema_ok db"
  shows "create_wallet_row env i clk wreq db = (r, db') \<Longrightarrow> schema_ok db'"
    and "update_wallet_balance env now i b l db = (u, db') \<Longrightarrow> schema_ok db'"
    and "create_transaction env i clk treq db = (t, db') \<Longrightarrow> schema_ok db'"
    and "update_transaction_status env clk i st sig db = (u, db') \<Longrightarrow> schema_ok db'"
    and "create_rental_session env s db = (u, db') \<Longrightarrow> schema_ok db'"
    and "update_rental_session env now s db = (u, db') \<Longrightarrow> schema_ok db'"
    and "create_usage_record env ur db = (u, db') \<Longrightarrow> schema_ok db'"
    and "create_billing_record env br db = (u, db') \<Longrightarrow> schema_ok db'"
proof -
  note parts = ok [unfolded schema_ok_def]
  show "schema_ok db'" if "create_wallet_row env i clk wreq db = (r, db')"
    using create_wallet_row_db [OF that]
  proof (elim disjE exE conjE)
    fix row assume "accepts_wallet (db_wallets db) row" "db' = db\<lparr>db_wallets := db_wallets db @ [row]\<rparr>"
    moreover have "set (map w_id (db_wallets db)) \<subseteq> set (map w_id (db_wallets db @ [row]))" by auto
    ultimately show ?thesis using parts schema_ok_wallets [OF ok wallets_ok_insert] by blast
  qed (simp add: ok)
  show "schema_ok db'" if "update_wallet_balance env now i b l db = (u, db')"
    using update_wallet_balance_db [OF that]
  proof (elim disjE exE conjE)
    fix b' l' t assume "db' = db\<lparr>db_wallets := update_by w_id i (set_money b' l' t) (db_wallets db)\<rparr>"
    then show ?thesis using schema_ok_wallets [OF ok wallets_ok_update] parts by (simp add: keys_update_by)
  qed (simp add: ok)
  show "schema_ok db'" if "create_transaction env i clk treq db = (t, db')"
    using create_transaction_db [OF that]
  proof (elim disjE exE conjE)
    fix row assume "accepts_transaction (db_wallets db) (db_transactions db) row"
      and db': "db' = db\<lparr>db_transactions := db_transactions db @ [row]\<rparr>"
    then show ?thesis unfolding db' using parts by (intro schema_ok_transactions [OF ok]) (auto simp: accepts_transaction_def)
  qed (simp add: ok)
  show "schema_ok db'" if "update_transaction_status env clk i st sig db = (u, db')"
    using update_transaction_status_db [OF that]
  proof (elim disjE exE conjE)
    fix c t assume sig: "optional_varchar 255 sig"
      and db': "db' = db\<lparr>db_transactions := update_by t_id i (set_status st sig c t) (db_transactions db)\<rparr>"
    show ?thesis unfolding db' using parts
      by (intro schema_ok_transactions [OF ok] transactions_updated [OF _ sig]) (simp_all add: map_update_by keys_update_by)
  qed (simp add: ok)
  show "schema_ok db'" if "create_rental_session env s db = (u, db')"
    using create_rental_session_db [OF that]
  proof (elim disjE exE conjE)
    fix row assume "accepts_session (db_sessions db) row"
      and db': "db' = db\<lparr>db_sessions := db_sessions db @ [row]\<rparr>"
    then show ?thesis unfolding db' using parts by (intro schema_ok_sessions [OF ok]) (auto simp: accepts_session_def)
  qed (simp add: ok)
  show "schema_ok db'" if "update_rental_session env now s db = (u, db')"
    using update_rental_session_db [OF that]
  proof (elim disjE exE conjE)
    fix m assume upd: "session_update_ok s m"
      and db': "db' = db\<lparr>db_sessions := update_by rs_id (rs_id s) (set_session s m (time_col env) now) (db_sessions db)\<rparr>"
    show ?thesis unfolding db' using parts
      by (intro schema_ok_sessions [OF ok] sessions_updated [OF _ upd]) (simp_all add: map_update_by keys_update_by)
  qed (simp add: ok)
  show "schema_ok db'" if "create_usage_record env ur db = (u, db')"
    using create_usage_record_db [OF that] ok by (auto intro: schema_ok_usage)
  show "schema_ok db'" if "create_billing_record env br db = (u, db')"
    using create_billing_record_db [OF that] ok by (auto intro: schema_ok_billing)
qed

text \<open>Whatever sequence of writes the service performs, with statements failing at any point, the database
  satisfies every constraint of the schema: keys, one wallet per user and type, addresses, lengths, references and
  CHECKs. PostgreSQL enforces them on each statement; this is what the proofs below take from it.\<close>

theorem store_keeps_schema:
  assumes "(db_step env)\<^sup>*\<^sup>* db db'" "schema_ok db"
  shows "schema_ok db'"
  using assms
proof (induction rule: rtranclp_induct)
  case (step y z)
  then show ?case by (auto elim!: db_stepE intro: wf_rules)
qed simp

lemma empty_db_ok [simp]: "schema_ok empty_db"
  by (simp add: schema_ok_def empty_db_def wallets_ok_def)

definition demo_wallet_request :: wallet_create_request where
  "demo_wallet_request = \<lparr>wcr_user_id = ''alice'', wcr_wallet_type = WalletTypeUser,
     wcr_solana_address = ''9xQeWvG816bUx9EPjHmaT23yvVM2ZWbrrpZb9PusVFin''\<rparr>"

theorem store_keeps_schema_witness:
  "schema_ok (snd (update_wallet_balance pg_env 9 1 10 2 (snd (create_wallet_row pg_env 1 (\<lambda>_. 5) demo_wallet_request empty_db))))"
proof (rule store_keeps_schema)
  show "(db_step pg_env)\<^sup>*\<^sup>* empty_db
      (snd (update_wallet_balance pg_env 9 1 10 2 (snd (create_wallet_row pg_env 1 (\<lambda>_. 5) demo_wallet_request empty_db))))"
    by (rule rtranclp.rtrancl_into_rtrancl [OF rtranclp.rtrancl_into_rtrancl [OF rtranclp.rtrancl_refl]];
        rule create_wallet update_wallet; rule surjective_pairing)
qed simp

section \<open>Reading back what was written\<close>

lemma money_col_0: "sql_env_ok env \<Longrightarrow> money_col env 0 = Some 0"
  using numeric_column.col_0 [of 20 9 "money_col env"] by (simp add: sql_env_ok_def)

lemma stored_zero_wallet:
  "sql_env_ok env \<Longrightarrow> w_balance w = 0 \<Longrightarrow> w_locked w = 0 \<Longrightarrow> w_pending w = 0 \<Longrightarrow>
   stored_wallet env w = Some (w\<lparr>w_created_at := time_col env (w_created_at w), w_updated_at := time_col env (w_updated_at w)\<rparr>)"
  by (simp add: stored_wallet_def money_col_0)

text \<open>A created wallet is found again by its id and by its user and type, with the requested identity and no
  money; and it stays the only one: a second wallet for the same user and type, or for the same
  address, is refused and changes nothing.\<close>

theorem create_wallet_roundtrip:
  assumes env: "sql_env_ok env" and res: "create_wallet_row env i clk req db = (Inr w, db')"
    and up: "\<not> sql_fail env OpSelectWallet" "\<not> sql_fail env OpSelectUserWallet"
  shows "\<exists>row. get_wallet env i db' = Inr row
      \<and> get_wallet_by_user_id env (wcr_user_id req) (wcr_wallet_type req) db' = Inr row
      \<and> w_solana_address row = wcr_solana_address req \<and> w_balance row = 0 \<and> w_locked row = 0 \<and> w_active row
      \<and> (\<forall>j clk' req'. (wcr_user_id req', wcr_wallet_type req') = (wcr_user_id req, wcr_wallet_type req)
            \<or> wcr_solana_address req' = wcr_solana_address req \<longrightarrow>
          create_wallet_row env j clk' req' db' = (Inl (db_error ''failed to create wallet''), db'))"
proof -
  let ?row = "w\<lparr>w_created_at := time_col env (w_created_at w), w_updated_at := time_col env (w_updated_at w)\<rparr>"
  have w: "w = \<lparr>w_id = i, w_user_id = wcr_user_id req, w_type = wcr_wallet_type req,
               w_solana_address = wcr_solana_address req, w_balance = 0, w_locked = 0, w_pending = 0,
               w_active = True, w_created_at = clk 0, w_updated_at = clk 1, w_last_activity_at = None\<rparr>"
    and acc: "accepts_wallet (db_wallets db) ?row"
    and db': "db_wallets db' = db_wallets db @ [?row]"
    using res by (auto simp: create_wallet_row_def Let_def stored_zero_wallet [OF env] split: if_splits)
  have fresh: "(wcr_user_id req, wcr_wallet_type req) \<notin> (\<lambda>v. (w_user_id v, w_type v)) ` set (db_wallets db)"
    using acc w by (auto simp: accepts_wallet_def)
  have byid: "get_wallet env i db' = Inr ?row"
    using wallet_table.insert_lookup [OF acc] w up by (simp add: get_wallet_def db')
  have none: "select_by (\<lambda>v. (w_user_id v, w_type v)) (wcr_user_id req, wcr_wallet_type req) (db_wallets db) = None"
    using fresh by (simp only: select_by_None not_False_eq_True)
  have byuser: "get_wallet_by_user_id env (wcr_user_id req) (wcr_wallet_type req) db' = Inr ?row"
    using up by (simp add: get_wallet_by_user_id_def db' select_by_append none) (simp add: w)
  have again: "create_wallet_row env j clk' req' db' = (Inl (db_error ''failed to create wallet''), db')"
    if "(wcr_user_id req', wcr_wallet_type req') = (wcr_user_id req, wcr_wallet_type req)
          \<or> wcr_solana_address req' = wcr_solana_address req" for j clk' req'
  proof -
    have "\<not> accepts_wallet (db_wallets db') v"
      if "w_user_id v = wcr_user_id req'" "w_type v = wcr_wallet_type req'" "w_solana_address v = wcr_solana_address req'" for v
      using that \<open>_ \<or> _\<close> by (auto simp: accepts_wallet_def db' w)
    then show ?thesis by (simp add: create_wallet_row_def Let_def stored_zero_wallet [OF env])
  qed
  show ?thesis using byid byuser again by (intro exI [of _ ?row]) (simp add: w)
qed

theorem create_wallet_roundtrip_witness:
  "\<exists>w db' row. create_wallet_row pg_env 1 (\<lambda>_. 5) demo_wallet_request empty_db = (Inr w, db')
     \<and> get_wallet pg_env 1 db' = Inr row \<and> w_balance row = 0"
proof -
  have sf: "\<not> sql_fail pg_env op" for op by (simp add: pg_env_def)
  obtain w db' where r: "create_wallet_row pg_env 1 (\<lambda>_. 5) demo_wallet_request empty_db = (Inr w, db')"
    by (simp add: create_wallet_row_def Let_def stored_zero_wallet [OF pg_env_ok] sf accepts_wallet_def empty_db_def
        demo_wallet_request_def varchar_def known_wallet_type_def)
  from create_wallet_roundtrip [OF pg_env_ok r sf sf] r show ?thesis by blast
qed

section \<open>Stored amounts\<close>

text \<open>What a money column holds is stored back unchanged: balances do not drift by rewriting them.\<close>

definition stored_ok :: "sql_env \<Rightarrow> billing_db \<Rightarrow> bool" where
  "stored_ok env db \<longleftrightarrow> (\<forall>w \<in> set (db_wallets db).
     money_col env (w_balance w) = Some (w_balance w) \<and> money_col env (w_locked w) = Some (w_locked w))"

lemma money_col_idem: "sql_env_ok env \<Longrightarrow> money_col env x = Some y \<Longrightarrow> money_col env y = Some y"
  using numeric_column.col_idem [of 20 9 "money_col env" x y] by (simp add: sql_env_ok_def)

lemma stored_ok_create_wallet [wf_rules]:
  assumes "sql_env_ok env" "stored_ok env db" "create_wallet_row env i clk req db = (r, db')"
  shows "stored_ok env db'"
  using assms by (auto simp: create_wallet_row_def stored_ok_def Let_def stored_zero_wallet money_col_0 split: if_splits)

lemma stored_ok_update_wallet [wf_rules]:
  assumes "sql_env_ok env" "stored_ok env db" "update_wallet_balance env now i b l db = (r, db')"
  shows "stored_ok env db'"
  using assms money_col_idem [OF assms(1)]
  by (auto simp: update_wallet_balance_def stored_ok_def dest!: set_update_by split: if_splits option.splits)

section \<open>What an update touches\<close>

lemma update_wallet_balance_Inr:
  assumes "update_wallet_balance env now i b l db = (Inr (), db')"
  shows "\<exists>b' l'. money_col env b = Some b' \<and> money_col env l = Some l'
    \<and> select_by w_id i (db_wallets db) \<noteq> None
    \<and> db' = db\<lparr>db_wallets := update_by w_id i (set_money b' l' (time_col env now)) (db_wallets db)\<rparr>"
  using assms by (auto simp: update_wallet_balance_def split: if_splits option.splits)

lemma update_wallet_balance_Inl: "update_wallet_balance env now i b l db = (Inl e, db') \<Longrightarrow> db' = db"
  by (auto simp: update_wallet_balance_def split: if_splits option.splits)

lemma create_transaction_Inl: "create_transaction env i clk req db = (Inl e, db') \<Longrightarrow> db' = db"
  by (auto simp: create_transaction_def Let_def split: if_splits option.splits)

lemma update_transaction_wallets [simp]:
  "db_wallets (snd (update_transaction_status env clk i st sig db)) = db_wallets db"
  "db_sessions (snd (update_transaction_status env clk i st sig db)) = db_sessions db"
  by (auto simp: update_transaction_status_def Let_def)

lemma create_transaction_wallets [simp]:
  "db_wallets (snd (create_transaction env i clk req db)) = db_wallets db"
  "db_sessions (snd (create_transaction env i clk req db)) = db_sessions db"
  by (auto simp: create_transaction_def Let_def split: option.splits)

definition same_terms :: "rental_session \<Rightarrow> rental_session \<Rightarrow> bool" where
  "same_terms s s' \<longleftrightarrow> rs_id s' = rs_id s \<and> rs_user_id s' = rs_user_id s \<and> rs_provider_id s' = rs_provider_id s
     \<and> rs_job_id s' = rs_job_id s \<and> rs_gpu_model s' = rs_gpu_model s \<and> rs_allocated_vram s' = rs_allocated_vram s
     \<and> rs_total_vram s' = rs_total_vram s \<and> rs_vram_percentage s' = rs_vram_percentage s
     \<and> rs_hourly_rate s' = rs_hourly_rate s \<and> rs_vram_rate s' = rs_vram_rate s \<and> rs_power_rate s' = rs_power_rate s
     \<and> rs_platform_fee_rate s' = rs_platform_fee_rate s \<and> rs_estimated_power_w s' = rs_estimated_power_w s
     \<and> rs_started_at s' = rs_started_at s"

lemma same_terms_refl [simp]: "same_terms s s"
  by (simp add: same_terms_def)

lemma same_terms_set [simp]: "same_terms s (set_session u m c t s)"
  by (simp add: same_terms_def)

lemma same_terms_trans: "same_terms a b \<Longrightarrow> same_terms b c \<Longrightarrow> same_terms a c"
  by (simp add: same_terms_def)

lemma db_step_session:
  assumes "db_step env db db'" "select_by rs_id i (db_sessions db) = Some s"
  shows "\<exists>s'. select_by rs_id i (db_sessions db') = Some s' \<and> same_terms s s'"
  using assms(1)
proof cases
  case (create_session u x)
  then show ?thesis
    using create_rental_session_db [OF create_session] assms(2) by (auto simp: select_by_append)
next
  case (update_session now u x)
  then show ?thesis
    using update_rental_session_db [OF update_session] assms(2)
    by (cases "i = rs_id u") (auto simp: select_update_same select_update_other)
qed (use assms(2) in \<open>auto dest!: db_change\<close>)

text \<open>C5. A session is never lost, and the terms it was opened on (parties, job, card, allocation, rates, fee rate,
  estimated power and start) are the terms it keeps, whatever sequence of writes the store performs afterwards,
  updates of the same session with other terms included, and whichever statements fail.\<close>

theorem session_terms_immutable:
  assumes "(db_step env)\<^sup>*\<^sup>* db db'" "select_by rs_id i (db_sessions db) = Some s"
  shows "\<exists>s'. select_by rs_id i (db_sessions db') = Some s' \<and> same_terms s s'"
  using assms
proof (induction rule: rtranclp_induct)
  case (step y z)
  then show ?case using db_step_session [OF step.hyps(2)] same_terms_trans by blast
qed simp

theorem session_terms_immutable_witness:
  "\<exists>s'. select_by rs_id 7 (db_sessions (snd (update_rental_session pg_env 3 (demo_session\<lparr>rs_hourly_rate := 99\<rparr>)
        (empty_db\<lparr>db_sessions := [demo_session]\<rparr>)))) = Some s' \<and> rs_hourly_rate s' = 1 / 2"
proof -
  let ?db = "empty_db\<lparr>db_sessions := [demo_session]\<rparr>"
  have "db_step pg_env ?db (snd (update_rental_session pg_env 3 (demo_session\<lparr>rs_hourly_rate := 99\<rparr>) ?db))"
    by (rule update_session) (rule surjective_pairing)
  then have "(db_step pg_env)\<^sup>*\<^sup>* ?db (snd (update_rental_session pg_env 3 (demo_session\<lparr>rs_hourly_rate := 99\<rparr>) ?db))"
    by (rule r_into_rtranclp)
  from session_terms_immutable [OF this, of 7 demo_session] show ?thesis
    by (auto simp: demo_session_def same_terms_def)
qed

section \<open>Reports\<close>

lemma concat_pages: "concat (map (\<lambda>k. take n (drop (k * n) xs)) [0..<m]) = take (m * n) xs"
proof (induction m)
  case (Suc m)
  then show ?case using take_add [of "m * n" n xs] by (simp add: add.commute)
qed simp

text \<open>Paging through the billing history with a fixed page size returns every matching record once, newest
  first, and no other; the total reported with each page counts the matching records.\<close>

theorem billing_history_pages:
  assumes up: "\<not> sql_fail env OpCountBilling" "\<not> sql_fail env OpSelectBilling" "rows_delivered env OpSelectBilling = None"
    and m: "length (filter (history_match req) (db_billing db)) \<le> m * n"
  shows "\<exists>pages. (\<forall>k < m. get_billing_history env (req\<lparr>bhr_limit := int n, bhr_offset := int (k * n)\<rparr>) db = Inr (pages k)
      \<and> bhp_total (pages k) = int (length (filter (history_match req) (db_billing db))))
    \<and> concat (map (\<lambda>k. bhp_records (pages k)) [0..<m]) = order_desc bl_period_start (filter (history_match req) (db_billing db))"
proof -
  let ?hits = "filter (history_match req) (db_billing db)"
  define pages where "pages k = \<lparr>bhp_records = take n (drop (k * n) (order_desc bl_period_start ?hits)),
    bhp_total = int (length ?hits), bhp_limit = int n, bhp_offset = int (k * n)\<rparr>" for k
  have match: "history_match (req\<lparr>bhr_limit := a, bhr_offset := b\<rparr>) = history_match req" for a b
    by (simp add: history_match_def fun_eq_iff)
  have off: "nat (int k * int n) = k * n" "\<not> int k * int n < 0" for k
    by (simp_all add: nat_mult_distrib flip: of_nat_mult)
  have "get_billing_history env (req\<lparr>bhr_limit := int n, bhr_offset := int (k * n)\<rparr>) db = Inr (pages k)" for k
    using up by (simp add: get_billing_history_def Let_def match pages_def delivered_def off)
  moreover have "concat (map (\<lambda>k. bhp_records (pages k)) [0..<m]) = order_desc bl_period_start ?hits"
    using concat_pages [of n "order_desc bl_period_start ?hits" m] m by (simp add: pages_def)
  moreover have "bhp_total (pages k) = int (length ?hits)" for k by (simp add: pages_def)
  ultimately show ?thesis by blast
qed

definition demo_history_request :: billing_history_request where
  "demo_history_request = \<lparr>bhr_user_id = Some ''alice'', bhr_provider_id = None, bhr_start_date = Some 0,
     bhr_end_date = None, bhr_limit = 50, bhr_offset = 0\<rparr>"

definition demo_billing :: "uuid \<Rightarrow> time \<Rightarrow> billing_record" where
  "demo_billing i t = \<lparr>bl_id = i, bl_user_id = ''alice'', bl_provider_id = 9, bl_session_id = 7, bl_period_start = t,
     bl_period_end = t + hour, bl_total_minutes = 60, bl_avg_gpu_util = 50, bl_avg_vram_util = 50,
     bl_avg_power_draw = 300, bl_base_cost = 1 / 2, bl_vram_cost = 0, bl_power_cost = 0, bl_total_cost = 1 / 2,
     bl_platform_fee = 1 / 40, bl_provider_earnings = 19 / 40, bl_transaction_id = 3, bl_created_at = t\<rparr>"

theorem billing_history_pages_witness:
  "\<exists>p0 p1. get_billing_history pg_env (demo_history_request\<lparr>bhr_limit := 1, bhr_offset := 0\<rparr>)
        (empty_db\<lparr>db_billing := [demo_billing 1 0, demo_billing 2 hour]\<rparr>) = Inr p0
    \<and> get_billing_history pg_env (demo_history_request\<lparr>bhr_limit := 1, bhr_offset := 1\<rparr>)
        (empty_db\<lparr>db_billing := [demo_billing 1 0, demo_billing 2 hour]\<rparr>) = Inr p1
    \<and> bhp_records p0 @ bhp_records p1 = [demo_billing 2 hour, demo_billing 1 0] \<and> bhp_total p1 = 2"
proof -
  let ?db = "empty_db\<lparr>db_billing := [demo_billing 1 0, demo_billing 2 hour]\<rparr>"
  have up: "\<not> sql_fail pg_env op" "rows_delivered pg_env op = None" for op by (simp_all add: pg_env_def)
  have hits: "filter (history_match demo_history_request) (db_billing ?db) = [demo_billing 1 0, demo_billing 2 hour]"
    by (simp add: history_match_def within_dates_def demo_history_request_def demo_billing_def)
  have sort: "order_desc bl_period_start [demo_billing 1 0, demo_billing 2 hour] = [demo_billing 2 hour, demo_billing 1 0]"
    by (simp add: order_desc_def demo_billing_def)
  obtain pages where p: "\<And>k. k < 2 \<Longrightarrow> get_billing_history pg_env (demo_history_request\<lparr>bhr_limit := int 1, bhr_offset := int (k * 1)\<rparr>) ?db = Inr (pages k)
        \<and> bhp_total (pages k) = 2"
    and c: "concat (map (\<lambda>k. bhp_records (pages k)) [0..<2]) = [demo_billing 2 hour, demo_billing 1 0]"
    using billing_history_pages [OF up(1) up(1) up(2), of demo_history_request ?db 2 1] unfolding hits sort
    by (auto simp: numeral_2_eq_2)
  have "[0..<2] = [0, Suc 0]" by (simp add: numeral_2_eq_2)
  with c p [of 0] p [of 1] show ?thesis by auto
qed

text \<open>A provider's earnings report never shows more paid and pending than earned, and splits the whole into
  the two when every billed transaction is pending or confirmed.\<close>

theorem earnings_split:
  assumes ok: "schema_ok db" and res: "get_provider_earnings dv qdiv fmt env req db = Inr r"
  shows "pep_paid_earnings r + pep_pending_earnings r \<le> pep_total_earnings r
    \<and> ((\<forall>t \<in> set (db_transactions db). t_status t \<in> {TransactionStatusPending, TransactionStatusConfirmed})
        \<longrightarrow> pep_paid_earnings r + pep_pending_earnings r = pep_total_earnings r)"
proof -
  let ?bs = "filter (\<lambda>b. bl_provider_id b = per_provider_id req
                 \<and> within_dates (per_start_date req) (per_end_date req) b) (db_billing db)"
  have r: "pep_total_earnings r = sum_list (map bl_provider_earnings ?bs)"
    "pep_paid_earnings r + pep_pending_earnings r
      = sum_list (map (\<lambda>b. earned_with TransactionStatusConfirmed db b + earned_with TransactionStatusPending db b) ?bs)"
    using res by (auto simp: get_provider_earnings_def Let_def sum_list_addf split: if_splits)
  have row: "0 \<le> bl_provider_earnings b" "\<exists>t. select_by t_id (bl_transaction_id b) (db_transactions db) = Some t"
    if "b \<in> set ?bs" for b
    using that ok select_by_None [of t_id "bl_transaction_id b" "db_transactions db"]
    by (auto simp: schema_ok_def billing_row_ok_def references_def)
  have le: "earned_with TransactionStatusConfirmed db b + earned_with TransactionStatusPending db b \<le> bl_provider_earnings b"
    if "b \<in> set ?bs" for b
    using row [OF that] by (auto simp: earned_with_def)
  have eq: "earned_with TransactionStatusConfirmed db b + earned_with TransactionStatusPending db b = bl_provider_earnings b"
    if "b \<in> set ?bs" "\<forall>t \<in> set (db_transactions db). t_status t \<in> {TransactionStatusPending, TransactionStatusConfirmed}" for b
  proof -
    note known = row(2) [OF that(1)]
    note statuses = that(2)
    obtain t where t: "select_by t_id (bl_transaction_id b) (db_transactions db) = Some t"
      using known by blast
    then have "t_status t \<in> {TransactionStatusPending, TransactionStatusConfirmed}"
      using statuses by (auto dest: select_by_SomeD)
    then show ?thesis by (auto simp: earned_with_def t)
  qed
  show ?thesis unfolding r
    by (intro conjI impI sum_list_mono le arg_cong [where f = sum_list] map_cong refl eq) auto
qed

definition demo_transaction :: transaction where
  "demo_transaction = \<lparr>t_id = 3, t_from_wallet = Some 1, t_to_wallet = None, t_type = TransactionTypeSessionEnd,
     t_status = TransactionStatusConfirmed, t_amount = 1 / 2, t_fee = 0, t_description = ''session'',
     t_solana_signature = None, t_session_id = Some 7, t_job_id = None, t_metadata = None, t_created_at = 0,
     t_updated_at = 0, t_confirmed_at = None\<rparr>"

definition demo_db :: billing_db where
  "demo_db = \<lparr>db_wallets = [demo_wallet], db_transactions = [demo_transaction], db_sessions = [demo_session],
     db_usage = [], db_billing = [demo_billing 1 0, demo_billing 2 hour]\<rparr>"

lemma demo_session_row_ok: "session_row_ok demo_session"
  unfolding session_row_ok_def by (simp add: demo_session_def varchar_def optional_varchar_def)

lemma demo_db_ok: "schema_ok demo_db"
  using demo_session_row_ok
  by (simp add: schema_ok_def demo_db_def transaction_row_ok_def wallets_ok_def known_wallet_type_def
      references_def billing_row_ok_def demo_transaction_def demo_wallet_def demo_session_def demo_billing_def optional_varchar_def varchar_def)

theorem earnings_split_witness:
  "\<exists>r. get_provider_earnings div16 div16 (\<lambda>_. ''day'') pg_env \<lparr>per_provider_id = 9, per_start_date = None, per_end_date = None\<rparr> demo_db = Inr r
     \<and> pep_total_earnings r = 19 / 20 \<and> pep_paid_earnings r + pep_pending_earnings r = pep_total_earnings r"
proof -
  obtain r where r: "get_provider_earnings div16 div16 (\<lambda>_. ''day'') pg_env
        \<lparr>per_provider_id = 9, per_start_date = None, per_end_date = None\<rparr> demo_db = Inr r"
    and t: "pep_total_earnings r = 19 / 20"
    by (simp add: get_provider_earnings_def Let_def pg_env_def demo_db_def demo_billing_def within_dates_def)
  from r t earnings_split [OF demo_db_ok r] show ?thesis by (auto simp: demo_db_def demo_transaction_def)
qed

end
