(* ===== verification/Solana.thy ===== *)
theory Solana
  imports Session
begin

text \<open>
  The Solana client of the billing service (\<open>internal/solana/client.go\<close>): configuration, the balance
  of a wallet, transfers, the creation of token accounts, and the loop that waits for a transaction.

  The chain and the solana-go library are not part of the repository: address parsing, derived
  addresses, the RPC calls and the signing of a transaction are the record \<open>solana_env\<close>. A
  transaction is the list of its instructions with blockhash and payer; operations that submit return
  the list of transactions they sent beside their result, so that what reaches the chain is visible.
\<close>

section \<open>Types\<close>

type_synonym pubkey = "u8 list"
type_synonym private_key = "u8 list"

datatype commitment = CommitmentProcessed | CommitmentConfirmed | CommitmentFinalized

text \<open>Commitment levels are ordered: a finalized transaction is confirmed, a confirmed one processed.\<close>

instantiation commitment :: linorder
begin

fun commitment_level :: "commitment \<Rightarrow> nat" where
  "commitment_level CommitmentProcessed = 0"
| "commitment_level CommitmentConfirmed = 1"
| "commitment_level CommitmentFinalized = 2"

definition less_eq_commitment :: "commitment \<Rightarrow> commitment \<Rightarrow> bool" where
  "less_eq_commitment a b \<longleftrightarrow> commitment_level a \<le> commitment_level b"

definition less_commitment :: "commitment \<Rightarrow> commitment \<Rightarrow> bool" where
  "less_commitment a b \<longleftrightarrow> commitment_level a < commitment_level b"

instance
proof
  fix a b :: commitment
  show "a \<le> b \<Longrightarrow> b \<le> a \<Longrightarrow> a = b"
    by (cases a; cases b) (simp_all add: less_eq_commitment_def)
qed (auto simp: less_eq_commitment_def less_commitment_def)

end

datatype instruction =
    TokenTransfer u64 pubkey pubkey pubkey
  | CreateTokenAccount pubkey pubkey pubkey
  | ProgramInstruction pubkey "(pubkey \<times> bool \<times> bool) list" "u8 list"

record chain_tx =
  tx_instructions :: "instruction list"
  tx_blockhash :: string
  tx_payer :: pubkey

datatype poll =
    PollError
  | PollUnknown
  | PollFailed string
  | PollStatus commitment
  | PollOtherStatus

record solana_env =
  parse_pubkey :: "string \<Rightarrow> string + pubkey"
  show_pubkey :: "pubkey \<Rightarrow> string"
  parse_signature :: "string \<Rightarrow> string option"
  find_ata :: "pubkey \<Rightarrow> pubkey \<Rightarrow> string + pubkey"
  find_pda :: "u8 list list \<Rightarrow> pubkey \<Rightarrow> string + pubkey"
  account_exists :: "pubkey \<Rightarrow> bool"
  token_account_balance :: "pubkey \<Rightarrow> string + (string \<times> u8)"
  parse_decimal :: "string \<Rightarrow> string + decimal"
  latest_blockhash :: "string + string"
  build_error :: "chain_tx \<Rightarrow> string option"
  sign_error :: "chain_tx \<Rightarrow> (pubkey \<Rightarrow> private_key option) \<Rightarrow> string option"
  send_tx :: "chain_tx \<Rightarrow> string + string"
  signature_polls :: "string \<Rightarrow> nat \<Rightarrow> poll"
  poll_times :: "nat \<Rightarrow> duration"

record solana_client =
  token_mint :: pubkey
  token_decimals :: u8
  platform_wallet :: pubkey
  private_key :: private_key
  client_commitment :: commitment
  client_timeout :: duration

record solana_config =
  cfg_token_address :: string
  cfg_token_decimals :: u8
  cfg_platform_wallet :: string
  cfg_private_key_path :: string
  cfg_commitment :: string
  cfg_timeout :: duration

section \<open>Key loading and construction\<close>

text \<open>
  \<open>copy(dst, src)\<close> writes \<open>min (len dst) (len src)\<close> elements and never grows the slice.
  \<open>solana.PrivateKey\<close> is a byte slice (\<open>base58.Encode\<close> is applied to one), so the declared variable
  is an empty slice.
\<close>

definition go_copy :: "'a list \<Rightarrow> 'a list \<Rightarrow> 'a list" where
  "go_copy dst src = take (length dst) src @ drop (length src) dst"

record key_env =
  env_private_key :: string
  read_key_file :: "string \<Rightarrow> string + string"
  base58_decode :: "string \<Rightarrow> string + u8 list"
  development_mode :: string
  fresh_key :: private_key

definition parse_private_key :: "key_env \<Rightarrow> string \<Rightarrow> string \<Rightarrow> go_error + private_key" where
  "parse_private_key ke source s =
     (case base58_decode ke s of
        Inl m \<Rightarrow> Inl (Wrapped (''failed to decode private key from '' @ source) (Opaque m))
      | Inr bytes \<Rightarrow>
          if length bytes \<noteq> 64 then Inl (Opaque ''invalid private key length'')
          else Inr (go_copy [] bytes))"

definition load_private_key :: "key_env \<Rightarrow> string \<Rightarrow> go_error + private_key" where
  "load_private_key ke path =
     (if env_private_key ke \<noteq> [] then parse_private_key ke ''environment'' (env_private_key ke)
      else if path \<noteq> [] then
        (case read_key_file ke path of
           Inl m \<Rightarrow> Inl (Wrapped ''failed to read private key file'' (Opaque m))
         | Inr content \<Rightarrow> parse_private_key ke ''file'' (trim_space content))
      else if development_mode ke = ''true'' then Inr (fresh_key ke)
      else Inl (Opaque ''no private key found. Set SOLANA_PRIVATE_KEY environment variable or provide key file path''))"

definition parse_commitment :: "string \<Rightarrow> commitment" where
  "parse_commitment s =
     (if s = ''processed'' then CommitmentProcessed
      else if s = ''confirmed'' then CommitmentConfirmed
      else if s = ''finalized'' then CommitmentFinalized
      else CommitmentConfirmed)"

definition new_client :: "solana_env \<Rightarrow> key_env \<Rightarrow> string option \<Rightarrow> solana_config \<Rightarrow> go_error + solana_client" where
  "new_client se ke health cfg =
     (case parse_pubkey se (cfg_token_address cfg) of
        Inl m \<Rightarrow> Inl (Wrapped ''invalid token address'' (Opaque m))
      | Inr mint \<Rightarrow>
     (case parse_pubkey se (cfg_platform_wallet cfg) of
        Inl m \<Rightarrow> Inl (Wrapped ''invalid platform wallet address'' (Opaque m))
      | Inr wallet \<Rightarrow>
     (case load_private_key ke (cfg_private_key_path cfg) of
        Inl e \<Rightarrow> Inl (Wrapped ''failed to load private key'' e)
      | Inr key \<Rightarrow>
     (case health of
        Some m \<Rightarrow> Inl (Wrapped ''failed to connect to Solana: health check failed'' (Opaque m))
      | None \<Rightarrow>
          Inr \<lparr>token_mint = mint,
               token_decimals = (if cfg_token_decimals cfg = 0 then 6 else cfg_token_decimals cfg),
               platform_wallet = wallet, private_key = key,
               client_commitment = parse_commitment (cfg_commitment cfg), client_timeout = cfg_timeout cfg\<rparr>))))"

section \<open>Amounts in atomic units\<close>

text \<open>
  \<open>Decimal.BigInt\<close> truncates towards zero; \<open>big.Int.Uint64\<close> gives the low 64 bits of the absolute
  value, whatever the sign.
\<close>

definition big_int :: "decimal \<Rightarrow> int" where
  "big_int x = (if 0 \<le> x then \<lfloor>x\<rfloor> else - \<lfloor>- x\<rfloor>)"

definition big_uint64 :: "int \<Rightarrow> u64" where
  "big_uint64 k = word_of_int \<bar>k\<bar>"

definition atomic_units :: "nat \<Rightarrow> decimal \<Rightarrow> u64" where
  "atomic_units digits amount = big_uint64 (big_int (amount * 10 ^ digits))"

lemma atomic_units_floor:
  assumes "0 \<le> amount" "amount * 10 ^ digits < 2 ^ 64"
  shows "int (unat (atomic_units digits amount)) = \<lfloor>amount * 10 ^ digits\<rfloor>"
proof -
  let ?x = "amount * 10 ^ digits"
  have "0 \<le> ?x" using assms(1) by simp
  then have f: "0 \<le> \<lfloor>?x\<rfloor>" by simp
  have "\<lfloor>?x\<rfloor> < 2 ^ 64" using assms(2) by (simp add: floor_less_iff)
  with f \<open>0 \<le> ?x\<close> show ?thesis
    by (simp add: atomic_units_def big_int_def big_uint64_def uint_word_of_int)
qed

text \<open>C11. The atomic units of a transfer are the amount without its sign, times ten to the token's decimals, cut to
  a whole number and reduced modulo 2 to the 64. So an amount that is not negative and whose units fit 64 bits is
  never overpaid and falls short by less than one unit, and is paid exactly when it has no more digits than the token;
  an amount whose units do not fit is paid the remainder only.\<close>

theorem atomic_units_exact:
  "int (unat (atomic_units digits amount)) = \<lfloor>\<bar>amount\<bar> * 10 ^ digits\<rfloor> mod 2 ^ 64
    \<and> (0 \<le> amount \<and> amount * 10 ^ digits < 2 ^ 64 \<longrightarrow>
         of_nat (unat (atomic_units digits amount)) \<le> amount * 10 ^ digits
         \<and> amount * 10 ^ digits < of_nat (unat (atomic_units digits amount)) + 1
         \<and> (on_grid digits amount \<longrightarrow> of_nat (unat (atomic_units digits amount)) = amount * 10 ^ digits))"
proof (intro conjI impI)
  have "\<bar>big_int (amount * 10 ^ digits)\<bar> = \<lfloor>\<bar>amount\<bar> * 10 ^ digits\<rfloor>"
  proof (cases "0 \<le> amount")
    case True
    then show ?thesis by (simp add: big_int_def)
  next
    case False
    then have "amount * 10 ^ digits < 0" by (simp add: mult_less_0_iff)
    moreover from this have "0 \<le> \<lfloor>- (amount * 10 ^ digits)\<rfloor>" by simp
    ultimately show ?thesis using False by (simp add: big_int_def)
  qed
  then show "int (unat (atomic_units digits amount)) = \<lfloor>\<bar>amount\<bar> * 10 ^ digits\<rfloor> mod 2 ^ 64"
    by (simp add: atomic_units_def big_uint64_def uint_word_of_int)
next
  assume fits: "0 \<le> amount \<and> amount * 10 ^ digits < 2 ^ 64"
  have eq: "(of_nat (unat (atomic_units digits amount)) :: rat) = of_int \<lfloor>amount * 10 ^ digits\<rfloor>"
    using arg_cong [OF atomic_units_floor, of amount digits "of_int :: int \<Rightarrow> rat"] fits by (simp only: of_int_of_nat_eq)
  show "of_nat (unat (atomic_units digits amount)) \<le> amount * 10 ^ digits"
    "amount * 10 ^ digits < of_nat (unat (atomic_units digits amount)) + 1"
    unfolding eq using floor_correct [of "amount * 10 ^ digits"] by simp_all
  show "of_nat (unat (atomic_units digits amount)) = amount * 10 ^ digits" if "on_grid digits amount"
    using that unfolding eq on_grid_def by simp
qed

theorem atomic_units_exact_witness:
  "of_nat (unat (atomic_units 6 (5 / 2))) = (5 / 2 :: rat) * 10 ^ 6 \<and> int (unat (atomic_units 6 (2 ^ 60))) = 0"
proof -
  have g: "on_grid 6 (5 / 2)" by (simp add: on_grid_def)
  have "int (unat (atomic_units 6 (2 ^ 60))) = 0" using atomic_units_exact [of 6 "2 ^ 60"] by simp
  then show ?thesis using atomic_units_exact [of 6 "5 / 2"] g by simp
qed

text \<open>The sign of an amount is lost: a negative amount is sent as the positive one.\<close>

lemma atomic_units_minus: "atomic_units d (- x) = atomic_units d x"
  by (cases x "0 :: rat" rule: linorder_cases) (auto simp: atomic_units_def big_int_def big_uint64_def mult_le_0_iff zero_le_mult_iff power_le_zero_eq)

section \<open>Operations\<close>

definition get_token_balance ::
    "(decimal \<Rightarrow> decimal \<Rightarrow> decimal) \<Rightarrow> solana_env \<Rightarrow> solana_client \<Rightarrow> string \<Rightarrow> go_error + decimal" where
  "get_token_balance dv se c address =
     (case parse_pubkey se address of
        Inl m \<Rightarrow> Inl (Wrapped ''invalid wallet address'' (Opaque m))
      | Inr key \<Rightarrow>
     (case find_ata se key (token_mint c) of
        Inl m \<Rightarrow> Inl (Wrapped ''failed to find associated token account'' (Opaque m))
      | Inr ata \<Rightarrow>
     (case token_account_balance se ata of
        Inl m \<Rightarrow> if str_contains m ''could not find account'' then Inr 0
                 else Inl (Wrapped ''failed to get token balance'' (Opaque m))
      | Inr (amount, decimals) \<Rightarrow>
     (case parse_decimal se amount of
        Inl m \<Rightarrow> Inl (Wrapped ''failed to parse balance amount'' (Opaque m))
      | Inr a \<Rightarrow> Inr (dv a (10 ^ unat decimals))))))"

definition submit_tx ::
    "solana_env \<Rightarrow> (pubkey \<Rightarrow> private_key option) \<Rightarrow> pubkey \<Rightarrow> instruction list \<Rightarrow> (go_error + string) \<times> chain_tx list" where
  "submit_tx se keys payer ixs =
     (case latest_blockhash se of
        Inl m \<Rightarrow> (Inl (Wrapped ''failed to get recent blockhash'' (Opaque m)), [])
      | Inr hash \<Rightarrow>
        let tx = \<lparr>tx_instructions = ixs, tx_blockhash = hash, tx_payer = payer\<rparr> in
     (case build_error se tx of
        Some m \<Rightarrow> (Inl (Wrapped ''failed to create transaction'' (Opaque m)), [])
      | None \<Rightarrow>
     (case sign_error se tx keys of
        Some m \<Rightarrow> (Inl (Wrapped ''failed to sign transaction'' (Opaque m)), [])
      | None \<Rightarrow>
     (case send_tx se tx of
        Inl m \<Rightarrow> (Inl (Wrapped ''failed to send transaction'' (Opaque m)), [])
      | Inr sig \<Rightarrow> (Inr sig, [tx])))))"

definition transfer_tokens ::
    "solana_env \<Rightarrow> solana_client \<Rightarrow> string \<Rightarrow> string \<Rightarrow> decimal \<Rightarrow> (go_error + string) \<times> chain_tx list" where
  "transfer_tokens se c from_address to_address amount =
     (case parse_pubkey se from_address of
        Inl m \<Rightarrow> (Inl (Wrapped ''invalid from address'' (Opaque m)), [])
      | Inr from_key \<Rightarrow>
     (case parse_pubkey se to_address of
        Inl m \<Rightarrow> (Inl (Wrapped ''invalid to address'' (Opaque m)), [])
      | Inr to_key \<Rightarrow>
     (case find_ata se from_key (token_mint c) of
        Inl m \<Rightarrow> (Inl (Wrapped ''failed to find from ATA'' (Opaque m)), [])
      | Inr from_ata \<Rightarrow>
     (case find_ata se to_key (token_mint c) of
        Inl m \<Rightarrow> (Inl (Wrapped ''failed to find to ATA'' (Opaque m)), [])
      | Inr to_ata \<Rightarrow>
        submit_tx se (\<lambda>k. if k = from_key then Some (private_key c) else None) from_key
          [TokenTransfer (atomic_units (unat (token_decimals c)) amount) from_ata to_ata from_key]))))"

text \<open>
  The confirmation loop. \<open>waited n\<close> is the time since the call at the \<open>n\<close>-th test of the deadline,
  \<open>polls n\<close> the answer of the \<open>n\<close>-th status request. The loop may not end, so its value is an option.
\<close>

definition commitment_reached :: "commitment \<Rightarrow> poll \<Rightarrow> bool" where
  "commitment_reached c p =
     (case p of
        PollStatus CommitmentProcessed \<Rightarrow> c = CommitmentProcessed
      | PollStatus CommitmentConfirmed \<Rightarrow> c = CommitmentConfirmed \<or> c = CommitmentProcessed
      | PollStatus CommitmentFinalized \<Rightarrow> True
      | _ \<Rightarrow> False)"

partial_function (option) confirm_loop ::
    "commitment \<Rightarrow> duration \<Rightarrow> (nat \<Rightarrow> duration) \<Rightarrow> (nat \<Rightarrow> poll) \<Rightarrow> nat \<Rightarrow> (go_error + unit) option" where
  "confirm_loop c timeout waited polls n =
     (if waited n \<ge> timeout then Some (Inl (Opaque ''transaction confirmation timeout''))
      else case polls n of
        PollFailed m \<Rightarrow> Some (Inl (Wrapped ''transaction failed'' (Opaque m)))
      | p \<Rightarrow> if commitment_reached c p then Some (Inr ())
             else confirm_loop c timeout waited polls (Suc n))"

definition confirm_transaction :: "solana_env \<Rightarrow> solana_client \<Rightarrow> string \<Rightarrow> (go_error + unit) option" where
  "confirm_transaction se c signature =
     (case parse_signature se signature of
        Some m \<Rightarrow> Some (Inl (Wrapped ''invalid signature'' (Opaque m)))
      | None \<Rightarrow> confirm_loop (client_commitment c) (client_timeout c) (poll_times se) (signature_polls se signature) 0)"

definition create_associated_token_account ::
    "solana_env \<Rightarrow> solana_client \<Rightarrow> string \<Rightarrow> ((go_error + string) \<times> chain_tx list) option" where
  "create_associated_token_account se c address =
     (case parse_pubkey se address of
        Inl m \<Rightarrow> Some (Inl (Wrapped ''invalid wallet address'' (Opaque m)), [])
      | Inr key \<Rightarrow>
     (case find_ata se key (token_mint c) of
        Inl m \<Rightarrow> Some (Inl (Wrapped ''failed to find ATA'' (Opaque m)), [])
      | Inr ata \<Rightarrow>
        if account_exists se ata then Some (Inr (show_pubkey se ata), [])
        else (case submit_tx se (\<lambda>k. if k = platform_wallet c then Some (private_key c) else None) (platform_wallet c)
                     [CreateTokenAccount (platform_wallet c) key (token_mint c)] of
            (Inl e, sent) \<Rightarrow> Some (Inl e, sent)
          | (Inr sig, sent) \<Rightarrow>
              (case confirm_transaction se c sig of
                 None \<Rightarrow> None
               | Some (Inl e) \<Rightarrow> Some (Inl (Wrapped ''failed to confirm ATA creation'' e), sent)
               | Some (Inr ()) \<Rightarrow> Some (Inr (show_pubkey se ata), sent)))))"

section \<open>Waiting for a transaction\<close>

lemma commitment_reached_iff: "commitment_reached c p \<longleftrightarrow> (\<exists>s. p = PollStatus s \<and> c \<le> s)"
proof (cases p)
  case (PollStatus s)
  then show ?thesis
    by (cases s; cases c) (simp_all add: commitment_reached_def less_eq_commitment_def)
qed (simp_all add: commitment_reached_def)

definition undecided :: "commitment \<Rightarrow> poll \<Rightarrow> bool" where
  "undecided c p \<longleftrightarrow> (\<forall>m. p \<noteq> PollFailed m) \<and> \<not> commitment_reached c p"

lemma confirm_loop_simps:
  "waited n \<ge> timeout \<Longrightarrow>
     confirm_loop c timeout waited polls n = Some (Inl (Opaque ''transaction confirmation timeout''))"
  "waited n < timeout \<Longrightarrow> polls n = PollFailed m \<Longrightarrow>
     confirm_loop c timeout waited polls n = Some (Inl (Wrapped ''transaction failed'' (Opaque m)))"
  "waited n < timeout \<Longrightarrow> commitment_reached c (polls n) \<Longrightarrow> confirm_loop c timeout waited polls n = Some (Inr ())"
  "waited n < timeout \<Longrightarrow> undecided c (polls n) \<Longrightarrow>
     confirm_loop c timeout waited polls n = confirm_loop c timeout waited polls (Suc n)"
  by (subst confirm_loop.simps; simp add: undecided_def commitment_reached_def split: poll.splits commitment.splits)+

lemma poll_cases:
  obtains (failed) m where "p = PollFailed m" | (reached) "commitment_reached c p" | (undecided) "undecided c p"
  unfolding undecided_def by blast

lemma confirm_loop_returns:
  assumes tick: "\<And>n. waited n + second \<le> waited (Suc n)"
  shows "\<exists>r. confirm_loop c timeout waited polls n = Some r"
proof (induction "nat (timeout - waited n)" arbitrary: n rule: less_induct)
  case less
  show ?case
  proof (cases "waited n \<ge> timeout")
    case False
    then have t: "waited n < timeout" by simp
    show ?thesis
    proof (rule poll_cases [where p = "polls n" and c = c])
      assume u: "undecided c (polls n)"
      have "nat (timeout - waited (Suc n)) < nat (timeout - waited n)" using tick [of n] t by simp
      then show ?thesis using less confirm_loop_simps(4) [where waited = waited and polls = polls and n = n, OF t u] by simp
    qed (use confirm_loop_simps(2,3) t in blast)+
  qed (auto simp: confirm_loop_simps)
qed

lemma confirm_loop_accepts:
  assumes "confirm_loop c timeout waited polls n = Some r" "\<And>k. waited k + second \<le> waited (Suc k)"
  shows "r = Inr () \<longleftrightarrow> (\<exists>m \<ge> n. commitment_reached c (polls m) \<and> (\<forall>k. n \<le> k \<and> k \<le> m \<longrightarrow> waited k < timeout)
    \<and> (\<forall>k. n \<le> k \<and> k < m \<longrightarrow> undecided c (polls k)))" (is "_ \<longleftrightarrow> ?acc n")
  using assms(1)
proof (induction "nat (timeout - waited n)" arbitrary: n rule: less_induct)
  case less
  show ?case
  proof (cases "waited n < timeout")
    case t: True
    show ?thesis
    proof (rule poll_cases [where p = "polls n" and c = c])
      fix m assume "polls n = PollFailed m"
      then show ?thesis using less(2) t by (auto simp: confirm_loop_simps undecided_def commitment_reached_def le_less)
    next
      assume "commitment_reached c (polls n)"
      then show ?thesis using less(2) t by (auto simp: confirm_loop_simps intro!: exI [of _ n])
    next
      assume u: "undecided c (polls n)"
      have "nat (timeout - waited (Suc n)) < nat (timeout - waited n)" using assms(2) [of n] t by simp
      then have "r = Inr () \<longleftrightarrow> ?acc (Suc n)"
        using less(1) less(2) confirm_loop_simps(4) [where waited = waited and polls = polls and n = n, OF t u] by simp
      also have "\<dots> \<longleftrightarrow> ?acc n"
      proof
        assume "?acc (Suc n)"
        then show "?acc n" using t u by (metis Suc_leD Suc_leI le_neq_implies_less)
      next
        assume "?acc n"
        then obtain m where m: "m \<ge> n" "commitment_reached c (polls m)"
          "\<forall>k. n \<le> k \<and> k \<le> m \<longrightarrow> waited k < timeout" "\<forall>k. n \<le> k \<and> k < m \<longrightarrow> undecided c (polls k)" by blast
        then have "m \<noteq> n" using u by (auto simp: undecided_def)
        with m show "?acc (Suc n)" by (intro exI [of _ m]) auto
      qed
      finally show ?thesis .
    qed
  next
    case False
    then show ?thesis using less(2) by (auto simp: confirm_loop_simps)
  qed
qed

text \<open>C6. Waiting for a transaction always ends, because each round sleeps a second and the deadline is fixed; and it
  reports success exactly when, before the deadline and before any failure, the chain has reported
  the transaction at the configured commitment or a stronger one.\<close>

theorem confirm_loop_correct:
  assumes "\<And>n. waited n + second \<le> waited (Suc n)"
  shows "\<exists>r. confirm_loop c timeout waited polls 0 = Some r
    \<and> (r = Inr () \<longleftrightarrow> (\<exists>m s. polls m = PollStatus s \<and> c \<le> s \<and> (\<forall>k \<le> m. waited k < timeout)
          \<and> (\<forall>k < m. undecided c (polls k))))"
proof -
  obtain r where r: "confirm_loop c timeout waited polls 0 = Some r"
    using confirm_loop_returns [where waited = waited] assms by blast
  with confirm_loop_accepts [OF r assms] show ?thesis by (auto simp: commitment_reached_iff)
qed

theorem confirm_loop_correct_witness:
  "confirm_loop CommitmentConfirmed (30 * second) (\<lambda>n. int n * second)
      (\<lambda>n. if n < 3 then PollStatus CommitmentProcessed else PollStatus CommitmentFinalized) 0 = Some (Inr ())"
proof -
  let ?p = "\<lambda>n::nat. if n < 3 then PollStatus CommitmentProcessed else PollStatus CommitmentFinalized"
  let ?t = "\<lambda>n::nat. int n * second"
  obtain r where r: "confirm_loop CommitmentConfirmed (30 * second) ?t ?p 0 = Some r"
    "r = Inr () \<longleftrightarrow> (\<exists>m s. ?p m = PollStatus s \<and> CommitmentConfirmed \<le> s \<and> (\<forall>k \<le> m. ?t k < 30 * second)
          \<and> (\<forall>k < m. undecided CommitmentConfirmed (?p k)))"
    using confirm_loop_correct [of ?t CommitmentConfirmed "30 * second" ?p] by (auto simp: algebra_simps)
  have "?p 3 = PollStatus CommitmentFinalized \<and> CommitmentConfirmed \<le> CommitmentFinalized \<and> (\<forall>k \<le> 3. ?t k < 30 * second)
          \<and> (\<forall>k < 3. undecided CommitmentConfirmed (?p k))"
    by (auto simp: less_eq_commitment_def undecided_def commitment_reached_def)
  then have "r = Inr ()" unfolding r(2) by blast
  with r(1) show ?thesis by simp
qed

section \<open>The private key\<close>

text \<open>A key configured in the environment or in a file is decoded and checked for its 64 bytes and then lost: the
  bytes are copied into a slice of length zero, so the client signs with an empty key.\<close>

theorem loaded_key_is_empty:
  assumes "load_private_key ke path = Inr key" "env_private_key ke \<noteq> [] \<or> path \<noteq> []"
  shows "key = []"
proof -
  have "parse_private_key ke source s = Inr k \<Longrightarrow> k = []" for source s k
    by (auto simp: parse_private_key_def go_copy_def split: sum.splits if_splits)
  with assms show ?thesis
    by (auto simp: load_private_key_def split: if_splits sum.splits)
qed

theorem loaded_key_is_empty_witness:
  "load_private_key \<lparr>env_private_key = ''k'', read_key_file = Inr, base58_decode = (\<lambda>_. Inr (replicate 64 7)),
     development_mode = [], fresh_key = []\<rparr> ''key.txt'' = Inr []"
proof -
  let ?ke = "\<lparr>env_private_key = ''k'', read_key_file = Inr, base58_decode = (\<lambda>_. Inr (replicate 64 7)),
     development_mode = [], fresh_key = []\<rparr>"
  obtain key where "load_private_key ?ke ''key.txt'' = Inr key"
    by (simp add: load_private_key_def parse_private_key_def)
  with loaded_key_is_empty [of ?ke "''key.txt''" key] show ?thesis by simp
qed

end
