(* ===== verification/Covenant.thy ===== *)
theory Covenant
  imports Solana
begin

text \<open>
  Settlement through the Covenant escrow (\<open>internal/covenant/onchain.go\<close>, \<open>client.go\<close>, \<open>manager.go\<close>): the
  instruction data of the on-chain program, the dispute bond, the signed operations, the HTTP index
  and the manager that opens, closes, settles and disputes the escrow of a rental.

  The record \<open>covenant_env\<close> holds what the code takes from its libraries and from the service: SHA-256,
  the JSON texts, the formatting of times, numbers and ids, and the answers of the HTTP API. The Solana side is
  \<open>solana_env\<close>. The operations return the transactions they sent beside their result.
\<close>

section \<open>Instruction data\<close>

definition disc_create_job :: "u8 list" where
  "disc_create_job = [178, 130, 217, 110, 100, 27, 82, 119]"
definition disc_accept_job :: "u8 list" where
  "disc_accept_job = [43, 201, 124, 1, 19, 189, 96, 10]"
definition disc_submit_work :: "u8 list" where
  "disc_submit_work = [158, 80, 101, 51, 114, 130, 101, 253]"
definition disc_finalize_payment :: "u8 list" where
  "disc_finalize_payment = [254, 254, 46, 40, 22, 126, 221, 128]"
definition disc_raise_dispute :: "u8 list" where
  "disc_raise_dispute = [41, 243, 1, 51, 150, 95, 246, 73]"

definition bytes_of :: "string \<Rightarrow> u8 list" where
  "bytes_of s = map (\<lambda>c. of_char c) s"

fun le_bytes :: "nat \<Rightarrow> u64 \<Rightarrow> u8 list" where
  "le_bytes 0 v = []"
| "le_bytes (Suc k) v = ucast v # le_bytes k (drop_bit 8 v)"

definition borsh_u64 :: "u64 \<Rightarrow> u8 list" where
  "borsh_u64 v = le_bytes 8 v"

definition borsh_i64 :: "int \<Rightarrow> u8 list" where
  "borsh_i64 v = borsh_u64 (word_of_int v)"

definition borsh_string :: "string \<Rightarrow> u8 list" where
  "borsh_string s = le_bytes 4 (ucast (word_of_nat (length s) :: u32)) @ bytes_of s"

text \<open>The settlement token has six decimals.\<close>

definition to_atomic :: "decimal \<Rightarrow> u64" where
  "to_atomic amount = atomic_units 6 amount"

text \<open>\<open>amountAtomic * 1000\<close> is a product of 64-bit numbers and wraps.\<close>

definition min_bond :: "u64 \<Rightarrow> u64" where
  "min_bond amount_atomic =
     (let pct = amount_atomic * 1000 div 10000 in if pct < 1000000 then 1000000 else pct)"

definition create_job_data :: "decimal \<Rightarrow> u8 list \<Rightarrow> int \<Rightarrow> u64 \<Rightarrow> u8 list" where
  "create_job_data amount spec_hash deadline challenge =
     disc_create_job @ borsh_u64 (to_atomic amount) @ spec_hash @ borsh_i64 deadline @ borsh_u64 challenge"

definition submit_work_data :: "u8 list \<Rightarrow> string \<Rightarrow> u8 list" where
  "submit_work_data work_hash uri = disc_submit_work @ work_hash @ borsh_string (take 128 uri)"

definition raise_dispute_data :: "u8 list \<Rightarrow> u64 \<Rightarrow> u8 list" where
  "raise_dispute_data reason_hash amount_atomic =
     disc_raise_dispute @ reason_hash @ borsh_u64 (min_bond amount_atomic)"

section \<open>Signer\<close>

datatype job_status =
    StatusOpen | StatusAccepted | StatusDelivered | StatusDisputed | StatusSettled | StatusCancelled
  | OtherJobStatus string

fun job_status_text :: "job_status \<Rightarrow> string" where
  "job_status_text StatusOpen = ''Open''"
| "job_status_text StatusAccepted = ''Accepted''"
| "job_status_text StatusDelivered = ''Delivered''"
| "job_status_text StatusDisputed = ''Disputed''"
| "job_status_text StatusSettled = ''Settled''"
| "job_status_text StatusCancelled = ''Cancelled''"
| "job_status_text (OtherJobStatus s) = s"

record covenant_job =
  cj_id :: string
  cj_poster_wallet :: string
  cj_taker_wallet :: string
  cj_token_mint :: string
  cj_amount :: decimal
  cj_spec_hash :: string
  cj_status :: job_status
  cj_deadline :: time
  cj_challenge_end :: "time option"
  cj_work_hash :: string
  cj_delivery_uri :: string
  cj_created_at :: time

record index_job_request =
  ijr_poster_wallet :: string
  ijr_amount :: decimal
  ijr_category :: string
  ijr_title :: string
  ijr_description :: string
  ijr_deadline :: string
  ijr_challenge_seconds :: int
  ijr_tx_signature :: string
  ijr_created_at :: string

record submit_work_request =
  swr_work_hash :: string
  swr_delivery_uri :: string
  swr_tx_signature :: string

record job_spec =
  spec_poster_wallet :: string
  spec_amount :: decimal
  spec_language :: string
  spec_deadline :: string
  spec_created_at :: string
  spec_title :: string
  spec_description :: string
  spec_requirements :: string

datatype http_reply = NoReply string | Reply nat string

record http_request =
  http_method :: string
  http_path :: string
  http_body :: "string option"

record covenant_env =
  sha256 :: "string \<Rightarrow> u8 list"
  to_float :: "decimal \<Rightarrow> decimal"
  encode_spec :: "job_spec \<Rightarrow> string + string"
  encode_index :: "index_job_request \<Rightarrow> string"
  encode_submit :: "submit_work_request \<Rightarrow> string"
  decode_job :: "string \<Rightarrow> string + covenant_job"
  decode_jobs :: "string \<Rightarrow> string + covenant_job list"
  decode_balance :: "string \<Rightarrow> string + decimal"
  covenant_http :: "http_request \<Rightarrow> http_reply"
  iso_millis :: "time \<Rightarrow> string"
  rfc3339 :: "time \<Rightarrow> string"
  hex_of :: "u8 list \<Rightarrow> string"
  show_uuid :: "uuid \<Rightarrow> string"
  show_decimal :: "decimal \<Rightarrow> string"

record signer =
  signer_key :: private_key
  signer_public :: pubkey
  program_id :: pubkey
  usdc_mint :: pubkey
  token_program :: pubkey
  system_program :: pubkey
  sysvar_rent :: pubkey

text \<open>A signed transaction is sent in four steps; nothing reaches the chain unless all succeed.\<close>

definition sign_and_send :: "solana_env \<Rightarrow> signer \<Rightarrow> instruction list \<Rightarrow> (go_error + string) \<times> chain_tx list" where
  "sign_and_send se s ixs =
     (case latest_blockhash se of
        Inl m \<Rightarrow> (Inl (Wrapped ''get blockhash'' (Opaque m)), [])
      | Inr hash \<Rightarrow>
        let tx = \<lparr>tx_instructions = ixs, tx_blockhash = hash, tx_payer = signer_public s\<rparr> in
     (case build_error se tx of
        Some m \<Rightarrow> (Inl (Wrapped ''new tx'' (Opaque m)), [])
      | None \<Rightarrow>
     (case sign_error se tx (\<lambda>k. if k = signer_public s then Some (signer_key s) else None) of
        Some m \<Rightarrow> (Inl (Wrapped ''sign'' (Opaque m)), [])
      | None \<Rightarrow>
     (case send_tx se tx of
        Inl m \<Rightarrow> (Inl (Wrapped ''send'' (Opaque m)), [])
      | Inr sig \<Rightarrow> (Inr sig, [tx])))))"

definition config_pda :: "solana_env \<Rightarrow> signer \<Rightarrow> string + pubkey" where
  "config_pda se s = find_pda se [bytes_of ''config''] (program_id s)"

definition job_pda :: "solana_env \<Rightarrow> signer \<Rightarrow> pubkey \<Rightarrow> u8 list \<Rightarrow> string + pubkey" where
  "job_pda se s poster spec_hash = find_pda se [bytes_of ''job'', poster, spec_hash] (program_id s)"

definition escrow_token_pda :: "solana_env \<Rightarrow> signer \<Rightarrow> pubkey \<Rightarrow> string + pubkey" where
  "escrow_token_pda se s job = find_pda se [bytes_of ''escrow_token'', job] (program_id s)"

definition reputation_pda :: "solana_env \<Rightarrow> signer \<Rightarrow> pubkey \<Rightarrow> string + pubkey" where
  "reputation_pda se s taker = find_pda se [bytes_of ''reputation'', taker] (program_id s)"

definition claim_pda :: "solana_env \<Rightarrow> signer \<Rightarrow> pubkey \<Rightarrow> string + pubkey" where
  "claim_pda se s job = find_pda se [bytes_of ''claim'', job] (program_id s)"

definition bond_pda :: "solana_env \<Rightarrow> signer \<Rightarrow> pubkey \<Rightarrow> string + pubkey" where
  "bond_pda se s job = find_pda se [bytes_of ''bond'', job] (program_id s)"

record create_job_result =
  cjr_job_pda :: pubkey
  cjr_spec_hash_hex :: string
  cjr_spec_json :: string
  cjr_tx_signature :: string
  cjr_poster_wallet :: string

definition create_job ::
    "solana_env \<Rightarrow> covenant_env \<Rightarrow> signer \<Rightarrow> decimal \<Rightarrow> u8 list \<Rightarrow> string \<Rightarrow> int \<Rightarrow> u64
     \<Rightarrow> (go_error + create_job_result) \<times> chain_tx list" where
  "create_job se ce s amount spec_hash json deadline challenge =
     (let poster = signer_public s in
      case config_pda se s of Inl m \<Rightarrow> (Inl (Opaque m), []) | Inr config \<Rightarrow>
     (case job_pda se s poster spec_hash of Inl m \<Rightarrow> (Inl (Opaque m), []) | Inr job \<Rightarrow>
     (case escrow_token_pda se s job of Inl m \<Rightarrow> (Inl (Opaque m), []) | Inr escrow \<Rightarrow>
     (case find_ata se poster (usdc_mint s) of Inl m \<Rightarrow> (Inl (Opaque m), []) | Inr poster_ata \<Rightarrow>
     (case sign_and_send se s
        [ProgramInstruction (program_id s)
           [(poster, True, True), (config, False, False), (job, True, False), (escrow, True, False),
            (poster_ata, True, False), (usdc_mint s, False, False), (token_program s, False, False),
            (system_program s, False, False), (sysvar_rent s, False, False)]
           (create_job_data amount spec_hash deadline challenge),
         ProgramInstruction (program_id s)
           [(poster, True, True), (job, True, False), (poster, False, False)]
           (disc_accept_job @ spec_hash)] of
        (Inl e, sent) \<Rightarrow> (Inl (Wrapped ''covenant: create+accept job'' e), sent)
      | (Inr sig, sent) \<Rightarrow>
          (Inr \<lparr>cjr_job_pda = job, cjr_spec_hash_hex = hex_of ce spec_hash, cjr_spec_json = json,
                cjr_tx_signature = sig, cjr_poster_wallet = show_pubkey se poster\<rparr>, sent))))))"

definition submit_work ::
    "solana_env \<Rightarrow> signer \<Rightarrow> pubkey \<Rightarrow> pubkey \<Rightarrow> u8 list \<Rightarrow> string \<Rightarrow> (go_error + string) \<times> chain_tx list" where
  "submit_work se s job poster work_hash uri =
     sign_and_send se s
       [ProgramInstruction (program_id s)
          [(signer_public s, True, True), (job, True, False), (poster, False, False)]
          (submit_work_data work_hash uri)]"

definition accept_job ::
    "solana_env \<Rightarrow> signer \<Rightarrow> pubkey \<Rightarrow> pubkey \<Rightarrow> u8 list \<Rightarrow> (go_error + string) \<times> chain_tx list" where
  "accept_job se s job poster spec_hash =
     sign_and_send se s
       [ProgramInstruction (program_id s)
          [(signer_public s, True, True), (job, True, False), (poster, False, False)]
          (disc_accept_job @ spec_hash)]"

definition finalize_job ::
    "solana_env \<Rightarrow> signer \<Rightarrow> pubkey \<Rightarrow> pubkey \<Rightarrow> pubkey \<Rightarrow> (go_error + string) \<times> chain_tx list" where
  "finalize_job se s job poster taker =
     (case escrow_token_pda se s job of Inl m \<Rightarrow> (Inl (Opaque m), []) | Inr escrow \<Rightarrow>
     (case find_ata se taker (usdc_mint s) of Inl m \<Rightarrow> (Inl (Opaque m), []) | Inr taker_ata \<Rightarrow>
     (case reputation_pda se s taker of Inl m \<Rightarrow> (Inl (Opaque m), []) | Inr rep \<Rightarrow>
     (case claim_pda se s job of Inl m \<Rightarrow> (Inl (Opaque m), []) | Inr claim \<Rightarrow>
      sign_and_send se s
        [ProgramInstruction (program_id s)
           [(signer_public s, True, True), (job, True, False), (poster, True, False), (escrow, True, False),
            (taker_ata, True, False), (taker, True, False), (rep, True, False), (claim, True, False),
            (token_program s, False, False), (system_program s, False, False)]
           disc_finalize_payment]))))"

definition raise_dispute ::
    "solana_env \<Rightarrow> signer \<Rightarrow> pubkey \<Rightarrow> pubkey \<Rightarrow> u8 list \<Rightarrow> u64 \<Rightarrow> (go_error + string) \<times> chain_tx list" where
  "raise_dispute se s job poster reason_hash amount_atomic =
     (let disputer = signer_public s in
      case config_pda se s of Inl m \<Rightarrow> (Inl (Opaque m), []) | Inr config \<Rightarrow>
     (case bond_pda se s job of Inl m \<Rightarrow> (Inl (Opaque m), []) | Inr bond \<Rightarrow>
     (case find_ata se disputer (usdc_mint s) of Inl m \<Rightarrow> (Inl (Opaque m), []) | Inr poster_ata \<Rightarrow>
      sign_and_send se s
        [ProgramInstruction (program_id s)
           [(disputer, True, True), (config, False, False), (job, True, False), (bond, True, False),
            (poster_ata, True, False), (usdc_mint s, False, False), (token_program s, False, False),
            (system_program s, False, False), (sysvar_rent s, False, False)]
           (raise_dispute_data reason_hash amount_atomic)])))"

section \<open>HTTP client\<close>

text \<open>A status outside 200..299 is an error; the body is decoded only after that test.\<close>

definition do_json ::
    "covenant_env \<Rightarrow> (string \<Rightarrow> string + 'a) \<Rightarrow> http_request \<Rightarrow> go_error + 'a" where
  "do_json ce decode req =
     (case covenant_http ce req of
        NoReply m \<Rightarrow> Inl (Wrapped (''covenant: '' @ http_method req @ '' '' @ http_path req) (Opaque m))
      | Reply status body \<Rightarrow>
          if status < 200 \<or> status \<ge> 300 then Inl (Opaque (''covenant: unexpected status: '' @ body))
          else (case decode body of
              Inl m \<Rightarrow> Inl (Wrapped (''covenant: decode '' @ http_path req) (Opaque m))
            | Inr v \<Rightarrow> Inr v))"

definition get_job :: "covenant_env \<Rightarrow> string \<Rightarrow> go_error + covenant_job" where
  "get_job ce job_id =
     do_json ce (decode_job ce) \<lparr>http_method = ''GET'', http_path = ''/api/jobs/'' @ job_id, http_body = None\<rparr>"

definition list_jobs :: "covenant_env \<Rightarrow> string \<Rightarrow> go_error + covenant_job list" where
  "list_jobs ce taker =
     do_json ce (decode_jobs ce)
       \<lparr>http_method = ''GET'', http_path = ''/api/jobs?limit=100'' @ (if taker \<noteq> [] then ''&taker='' @ taker else []),
        http_body = None\<rparr>"

definition get_balance :: "covenant_env \<Rightarrow> string \<Rightarrow> go_error + decimal" where
  "get_balance ce w =
     do_json ce (decode_balance ce) \<lparr>http_method = ''GET'', http_path = ''/api/balance/'' @ w, http_body = None\<rparr>"

definition index_created_job :: "covenant_env \<Rightarrow> index_job_request \<Rightarrow> go_error + covenant_job" where
  "index_created_job ce req =
     do_json ce (decode_job ce) \<lparr>http_method = ''POST'', http_path = ''/api/jobs'', http_body = Some (encode_index ce req)\<rparr>"

definition index_submitted_work :: "covenant_env \<Rightarrow> string \<Rightarrow> submit_work_request \<Rightarrow> go_error + covenant_job" where
  "index_submitted_work ce job_id req =
     do_json ce (decode_job ce)
       \<lparr>http_method = ''POST'', http_path = ''/api/jobs/'' @ job_id @ ''/submit'', http_body = Some (encode_submit ce req)\<rparr>"

definition index_finalize :: "covenant_env \<Rightarrow> string \<Rightarrow> go_error + covenant_job" where
  "index_finalize ce job_id =
     do_json ce (decode_job ce)
       \<lparr>http_method = ''POST'', http_path = ''/api/jobs/'' @ job_id @ ''/finalize'', http_body = Some ''{}''\<rparr>"

section \<open>Manager\<close>

record manager =
  mgr_signer :: "signer option"
  mgr_has_client :: bool
  mgr_challenge_seconds :: int

record covenant_config =
  cc_api_base_url :: string
  cc_program_id :: string
  cc_usdc_mint :: string

definition new_signer :: "solana_env \<Rightarrow> private_key \<Rightarrow> signer \<Rightarrow> string \<Rightarrow> string \<Rightarrow> go_error + signer" where
  "new_signer se key base program mint =
     (case parse_pubkey se program of
        Inl m \<Rightarrow> Inl (Wrapped ''covenant: invalid program id'' (Opaque m))
      | Inr pid \<Rightarrow>
     (case parse_pubkey se mint of
        Inl m \<Rightarrow> Inl (Wrapped ''covenant: invalid usdc mint'' (Opaque m))
      | Inr mnt \<Rightarrow> Inr (base\<lparr>signer_key := key, program_id := pid, usdc_mint := mnt\<rparr>)))"

definition new_manager :: "signer option \<Rightarrow> bool \<Rightarrow> int \<Rightarrow> manager" where
  "new_manager s client challenge =
     \<lparr>mgr_signer = s, mgr_has_client = client, mgr_challenge_seconds = (if challenge \<le> 0 then 3600 else challenge)\<rparr>"

text \<open>
  \<open>base\<close> carries the public key that belongs to the loaded private key and the three well-known
  program addresses of the library.
\<close>

definition new_manager_from_config ::
    "solana_env \<Rightarrow> (string + private_key) \<Rightarrow> signer \<Rightarrow> covenant_config \<Rightarrow> int \<Rightarrow> go_error + manager" where
  "new_manager_from_config se key_file base cfg challenge =
     (if cc_api_base_url cfg = [] \<or> cc_program_id cfg = [] \<or> cc_usdc_mint cfg = []
      then Inr \<lparr>mgr_signer = None, mgr_has_client = True, mgr_challenge_seconds = challenge\<rparr>
      else case key_file of
        Inl m \<Rightarrow> Inl (Wrapped ''covenant: load platform keypair'' (Opaque m))
      | Inr key \<Rightarrow>
          (case new_signer se key base (cc_program_id cfg) (cc_usdc_mint cfg) of
             Inl e \<Rightarrow> Inl e
           | Inr s \<Rightarrow> Inr (new_manager (Some s) True challenge)))"

definition settlement_signer :: "manager option \<Rightarrow> signer option" where
  "settlement_signer m =
     (case m of None \<Rightarrow> None | Some mg \<Rightarrow> if mgr_has_client mg then mgr_signer mg else None)"

definition enabled :: "manager option \<Rightarrow> bool" where
  "enabled m \<longleftrightarrow> settlement_signer m \<noteq> None"

definition challenge_of :: "manager option \<Rightarrow> int" where
  "challenge_of m = (case m of None \<Rightarrow> 0 | Some mg \<Rightarrow> mgr_challenge_seconds mg)"

record rental_job =
  rj_job_pda :: string
  rj_spec_hash_hex :: string
  rj_poster :: string
  rj_tx_signature :: string

definition not_configured :: go_error where
  "not_configured = Opaque ''covenant: settlement not configured''"

definition build_spec ::
    "covenant_env \<Rightarrow> string \<Rightarrow> decimal \<Rightarrow> string \<Rightarrow> string \<Rightarrow> string \<Rightarrow> string \<Rightarrow> job_spec" where
  "build_spec ce poster amount deadline created title description =
     \<lparr>spec_poster_wallet = poster, spec_amount = to_float ce amount, spec_language = ''English'', spec_deadline = deadline,
      spec_created_at = created, spec_title = title, spec_description = description, spec_requirements = []\<rparr>"

definition trim_newlines :: "string \<Rightarrow> string" where
  "trim_newlines s = rev (dropWhile (\<lambda>c. c = CHR 0x0A) (rev s))"

definition spec_hash_of :: "covenant_env \<Rightarrow> job_spec \<Rightarrow> go_error + u8 list \<times> string" where
  "spec_hash_of ce spec =
     (case encode_spec ce spec of
        Inl m \<Rightarrow> Inl (Opaque m)
      | Inr js \<Rightarrow> let t = trim_newlines js in Inr (sha256 ce t, t))"

text \<open>
  Go returns the job and the error as two values; when the escrow is locked on chain and only the
  index fails, both are set.
\<close>

definition open_rental_job ::
    "solana_env \<Rightarrow> covenant_env \<Rightarrow> manager option \<Rightarrow> time \<Rightarrow> decimal \<Rightarrow> string \<Rightarrow> string \<Rightarrow> duration
     \<Rightarrow> (rental_job option \<times> go_error option) \<times> chain_tx list" where
  "open_rental_job se ce m now amount gpu_model session_id dur =
     (case settlement_signer m of None \<Rightarrow> ((None, Some not_configured), []) | Some s \<Rightarrow>
      let created = iso_millis ce now;
          deadline_time = now + dur;
          deadline = iso_millis ce deadline_time;
          title = ''GPU rental: '' @ gpu_model;
          description = ''DanteGPU rental session '' @ session_id;
          spec = build_spec ce (show_pubkey se (signer_public s)) amount deadline created title description
      in case spec_hash_of ce spec of Inl e \<Rightarrow> ((None, Some e), []) | Inr (hash, json) \<Rightarrow>
     (case create_job se ce s amount hash json (deadline_time div second) (word_of_int (challenge_of m)) of
        (Inl e, sent) \<Rightarrow> ((None, Some e), sent)
      | (Inr res, sent) \<Rightarrow>
          let job = \<lparr>rj_job_pda = show_pubkey se (cjr_job_pda res), rj_spec_hash_hex = cjr_spec_hash_hex res,
                     rj_poster = cjr_poster_wallet res, rj_tx_signature = cjr_tx_signature res\<rparr>
          in (case index_created_job ce
                 \<lparr>ijr_poster_wallet = cjr_poster_wallet res, ijr_amount = to_float ce amount, ijr_category = ''compute'',
                  ijr_title = title, ijr_description = description, ijr_deadline = deadline,
                  ijr_challenge_seconds = challenge_of m, ijr_tx_signature = cjr_tx_signature res,
                  ijr_created_at = created\<rparr> of
               Inl e \<Rightarrow> ((Some job, Some (Wrapped ''covenant: job created on-chain but indexing failed'' e)), sent)
             | Inr _ \<Rightarrow> ((Some job, None), sent))))"

definition close_rental_job ::
    "solana_env \<Rightarrow> covenant_env \<Rightarrow> manager option \<Rightarrow> string \<Rightarrow> string \<Rightarrow> u8 list \<Rightarrow> string
     \<Rightarrow> (go_error + string) \<times> chain_tx list" where
  "close_rental_job se ce m job poster hash uri =
     (case settlement_signer m of None \<Rightarrow> (Inl not_configured, []) | Some s \<Rightarrow>
     (case parse_pubkey se job of Inl e \<Rightarrow> (Inl (Wrapped ''covenant: invalid job pda'' (Opaque e)), []) | Inr j \<Rightarrow>
     (case parse_pubkey se poster of Inl e \<Rightarrow> (Inl (Wrapped ''covenant: invalid poster'' (Opaque e)), []) | Inr p \<Rightarrow>
     (case submit_work se s j p hash uri of
        (Inl e, sent) \<Rightarrow> (Inl e, sent)
      | (Inr sig, sent) \<Rightarrow>
          let _ = index_submitted_work ce job
                    \<lparr>swr_work_hash = hex_of ce hash, swr_delivery_uri = uri, swr_tx_signature = sig\<rparr>
          in (Inr sig, sent)))))"

definition settle_rental_job ::
    "solana_env \<Rightarrow> manager option \<Rightarrow> string \<Rightarrow> string \<Rightarrow> string \<Rightarrow> (go_error + string) \<times> chain_tx list" where
  "settle_rental_job se m job poster taker =
     (case settlement_signer m of None \<Rightarrow> (Inl not_configured, []) | Some s \<Rightarrow>
     (case parse_pubkey se job of Inl e \<Rightarrow> (Inl (Wrapped ''covenant: invalid job pda'' (Opaque e)), []) | Inr j \<Rightarrow>
     (case parse_pubkey se poster of Inl e \<Rightarrow> (Inl (Wrapped ''covenant: invalid poster'' (Opaque e)), []) | Inr p \<Rightarrow>
     (case parse_pubkey se taker of Inl e \<Rightarrow> (Inl (Wrapped ''covenant: invalid taker'' (Opaque e)), []) | Inr t \<Rightarrow>
      finalize_job se s j p t))))"

definition dispute_rental_job ::
    "solana_env \<Rightarrow> covenant_env \<Rightarrow> manager option \<Rightarrow> string \<Rightarrow> string \<Rightarrow> string \<Rightarrow> decimal
     \<Rightarrow> (go_error + string) \<times> chain_tx list" where
  "dispute_rental_job se ce m job poster reason amount =
     (case settlement_signer m of None \<Rightarrow> (Inl not_configured, []) | Some s \<Rightarrow>
     (case parse_pubkey se job of Inl e \<Rightarrow> (Inl (Wrapped ''covenant: invalid job pda'' (Opaque e)), []) | Inr j \<Rightarrow>
     (case parse_pubkey se poster of Inl e \<Rightarrow> (Inl (Wrapped ''covenant: invalid poster'' (Opaque e)), []) | Inr p \<Rightarrow>
      raise_dispute se s j p (sha256 ce reason) (to_atomic amount))))"

definition ripe :: "time \<Rightarrow> covenant_job \<Rightarrow> bool" where
  "ripe now j \<longleftrightarrow> (case cj_challenge_end j of None \<Rightarrow> False | Some t \<Rightarrow> now > t)
     \<and> cj_work_hash j \<noteq> []
     \<and> to_lower (job_status_text (cj_status j)) \<notin> {''settled'', ''cancelled'', ''disputed''}"

text \<open>One pass over the listed jobs: the count of the settled ones and the transactions sent.\<close>

fun settle_each ::
    "solana_env \<Rightarrow> manager option \<Rightarrow> time \<Rightarrow> string \<Rightarrow> covenant_job list \<Rightarrow> nat \<times> chain_tx list" where
  "settle_each se m now platform [] = (0, [])"
| "settle_each se m now platform (j # js) =
     (let (n, sent) = settle_each se m now platform js in
      if \<not> ripe now j then (n, sent)
      else case settle_rental_job se m (cj_id j) platform platform of
        (Inl e, s) \<Rightarrow> (n, s @ sent)
      | (Inr sig, s) \<Rightarrow> (Suc n, s @ sent))"

definition settle_ripe_jobs ::
    "solana_env \<Rightarrow> covenant_env \<Rightarrow> manager option \<Rightarrow> time \<Rightarrow> (go_error + nat) \<times> chain_tx list" where
  "settle_ripe_jobs se ce m now =
     (case settlement_signer m of None \<Rightarrow> (Inr 0, []) | Some s \<Rightarrow>
      let platform = show_pubkey se (signer_public s) in
      (case list_jobs ce platform of
         Inl e \<Rightarrow> (Inl e, [])
       | Inr jobs \<Rightarrow> let (n, sent) = settle_each se m now platform jobs in (Inr n, sent)))"

section \<open>Layout of the instruction data\<close>

fun le_value :: "u8 list \<Rightarrow> u64" where
  "le_value [] = 0"
| "le_value (b # bs) = or (ucast b) (push_bit 8 (le_value bs))"

lemma le_bytes_length [simp]: "length (le_bytes k v) = k"
  by (induction k arbitrary: v) auto

lemma le_value_bytes: "le_value (le_bytes k v) = take_bit (8 * k) v"
proof (induction k arbitrary: v)
  case (Suc k)
  have "or (ucast (ucast v :: u8)) (push_bit 8 (take_bit (8 * k) (drop_bit 8 v))) = take_bit (8 * Suc k) v"
    by (rule bit_word_eqI) (auto simp: bit_simps)
  then show ?case by (simp add: Suc)
qed simp

lemma borsh_u64_roundtrip [simp]: "le_value (borsh_u64 v) = v" "length (borsh_u64 v) = 8"
  by (simp_all add: borsh_u64_def le_value_bytes take_bit_word_eq_self)

lemma unat_take_bit_u32:
  assumes "n < 2 ^ 32"
  shows "unat (take_bit 32 (ucast (word_of_nat n :: u32) :: u64)) = n"
  using assms by (simp add: unsigned_take_bit_eq unsigned_ucast_eq unat_of_nat take_bit_nat_eq_self)

record create_job_fields =
  cf_discriminator :: "u8 list"
  cf_amount :: u64
  cf_spec_hash :: "u8 list"
  cf_deadline :: u64
  cf_challenge :: u64

definition decode_create_job :: "u8 list \<Rightarrow> create_job_fields option" where
  "decode_create_job d =
     (if length d \<noteq> 64 then None
      else Some \<lparr>cf_discriminator = take 8 d, cf_amount = le_value (take 8 (drop 8 d)),
                 cf_spec_hash = take 32 (drop 16 d), cf_deadline = le_value (take 8 (drop 48 d)),
                 cf_challenge = le_value (drop 56 d)\<rparr>)"

text \<open>The data of a delivery, read the way the program on the chain reads it: discriminator, hash, and a Borsh
  string whose length prefix must be the number of the bytes that follow.\<close>

record submit_work_fields =
  sf_discriminator :: "u8 list"
  sf_work_hash :: "u8 list"
  sf_uri :: "u8 list"

definition decode_submit_work :: "u8 list \<Rightarrow> submit_work_fields option" where
  "decode_submit_work d =
     (if length d < 44 \<or> unat (le_value (take 4 (drop 40 d))) \<noteq> length d - 44 then None
      else Some \<lparr>sf_discriminator = take 8 d, sf_work_hash = take 32 (drop 8 d), sf_uri = drop 44 d\<rparr>)"

lemma bytes_of_length [simp]: "length (bytes_of s) = length s"
  by (simp add: bytes_of_def)

lemma decode_submit_work_data:
  assumes "length work_hash = 32"
  shows "decode_submit_work (submit_work_data work_hash uri) =
    Some \<lparr>sf_discriminator = disc_submit_work, sf_work_hash = work_hash, sf_uri = bytes_of (take 128 uri)\<rparr>"
proof -
  have len: "length disc_submit_work = 8" by (simp add: disc_submit_work_def)
  have "length (take 128 uri) < 2 ^ 32" by simp
  then have pre: "unat (take_bit 32 (ucast (word_of_nat (length (take 128 uri)) :: u32) :: u64)) = length (take 128 uri)"
    by (simp only: unat_take_bit_u32)
  have "le_value (take 4 (drop 40 (submit_work_data work_hash uri))) = take_bit 32 (ucast (word_of_nat (length (take 128 uri)) :: u32))"
    using len assms by (simp add: submit_work_data_def borsh_string_def le_value_bytes)
  moreover have "length (submit_work_data work_hash uri) = 44 + length (take 128 uri)"
    using len assms by (simp add: submit_work_data_def borsh_string_def)
  ultimately show ?thesis
    using pre len assms by (simp add: decode_submit_work_def) (simp add: submit_work_data_def borsh_string_def)
qed

text \<open>C10. The data of the instruction that locks the escrow decodes to exactly the fields it was built from: its
  discriminator, the amount in atomic units, the hash that fixes the job's address, the deadline and the window; and
  the data of the delivery decodes to its discriminator, the hash of the work and the URI, the URI cut to 128 bytes.\<close>

theorem covenant_data_roundtrip:
  assumes "length spec_hash = 32" "length work_hash = 32"
  shows "decode_create_job (create_job_data amount spec_hash deadline challenge) =
      Some \<lparr>cf_discriminator = disc_create_job, cf_amount = to_atomic amount, cf_spec_hash = spec_hash,
            cf_deadline = word_of_int deadline, cf_challenge = challenge\<rparr>
    \<and> decode_submit_work (submit_work_data work_hash uri) =
      Some \<lparr>sf_discriminator = disc_submit_work, sf_work_hash = work_hash, sf_uri = bytes_of (take 128 uri)\<rparr>"
proof
  have len: "length disc_create_job = 8" by (simp add: disc_create_job_def)
  show "decode_create_job (create_job_data amount spec_hash deadline challenge) =
      Some \<lparr>cf_discriminator = disc_create_job, cf_amount = to_atomic amount, cf_spec_hash = spec_hash,
            cf_deadline = word_of_int deadline, cf_challenge = challenge\<rparr>"
    using len assms by (simp add: decode_create_job_def create_job_data_def borsh_i64_def)
qed (rule decode_submit_work_data [OF assms(2)])

theorem covenant_data_roundtrip_witness:
  "cf_amount (the (decode_create_job (create_job_data (5 / 2) (replicate 32 7) 1700000000 3600))) = 2500000
   \<and> sf_work_hash (the (decode_submit_work (submit_work_data (replicate 32 9) ''uri''))) = replicate 32 9"
proof -
  have "to_atomic (5 / 2) = 2500000" by (simp add: to_atomic_def atomic_units_def big_int_def big_uint64_def)
  then show ?thesis
    using covenant_data_roundtrip [of "replicate 32 7" "replicate 32 9" "5 / 2" 1700000000 3600 "''uri''"] by simp
qed

text \<open>The dispute bond is ten percent of the escrow and at least one USDC, for every escrow whose thousandfold
  fits into 64 bits; beyond that the product wraps and the bond collapses to the minimum.\<close>

theorem min_bond_exact:
  shows "(unat amount * 1000 < 2 ^ 64 \<longrightarrow> unat (min_bond amount) = max (unat amount div 10) 1000000)
    \<and> 1000000 \<le> min_bond amount \<and> min_bond 18446744073709552 = 1000000"
proof -
  have exact: "unat (min_bond amount) = max (unat amount div 10) 1000000" if lt: "unat amount * 1000 < 2 ^ 64"
  proof -
    have "unat (amount * 1000) = unat amount * 1000"
      using lt unat_mult_lem [of amount 1000] by simp
    then have p: "unat (amount * 1000 div 10000) = unat amount div 10"
      by (simp only: unat_div_distrib) simp
    have "amount * 1000 div 10000 < 1000000 \<longleftrightarrow> unat (amount * 1000 div 10000) < 1000000"
      by (simp add: word_less_nat_alt)
    then show ?thesis unfolding min_bond_def Let_def using p by (simp only: split: if_split) auto
  qed
  moreover have "1000000 \<le> min_bond amount" by (simp add: min_bond_def Let_def not_less)
  moreover have "min_bond 18446744073709552 = 1000000" by (simp add: min_bond_def)
  ultimately show ?thesis by blast
qed

theorem min_bond_exact_witness: "min_bond 50000000 = 5000000"
proof -
  have "unat (min_bond 50000000) = 5000000" using min_bond_exact [of 50000000] by simp
  then have "unat (min_bond 50000000) = unat (5000000 :: u64)" by simp
  then show ?thesis by (simp only: word_unat_eq_iff)
qed

section \<open>What reaches the chain\<close>

lemma sign_and_send_sent:
  "sign_and_send se s ixs = (r, sent) \<Longrightarrow>
   (case r of Inl _ \<Rightarrow> sent = [] | Inr _ \<Rightarrow> \<exists>tx. sent = [tx] \<and> tx_instructions tx = ixs \<and> tx_payer tx = signer_public s)"
  by (auto simp: sign_and_send_def Let_def split: sum.splits option.splits)

lemma settle_rental_job_sent:
  assumes "settle_rental_job se m job poster taker = (r, sent)"
  shows "length sent = (if is_ok r then 1 else 0)"
  using assms
  by (auto simp: settle_rental_job_def finalize_job_def is_ok_def split: option.splits sum.splits dest!: sign_and_send_sent)

lemma settle_each_sound:
  assumes "settle_each se m now platform jobs = (n, sent)"
  shows "n = length (filter (\<lambda>j. ripe now j \<and> is_ok (fst (settle_rental_job se m (cj_id j) platform platform))) jobs)
    \<and> n = length sent
    \<and> (\<forall>tx \<in> set sent. \<exists>j \<in> set jobs. ripe now j \<and> tx \<in> set (snd (settle_rental_job se m (cj_id j) platform platform)))"
  using assms
proof (induction jobs arbitrary: n sent)
  case (Cons j js)
  obtain n' sent' where rec: "settle_each se m now platform js = (n', sent')" by fastforce
  obtain r s where res: "settle_rental_job se m (cj_id j) platform platform = (r, s)" by fastforce
  show ?case
    using Cons.IH [OF rec] Cons.prems rec res settle_rental_job_sent [OF res]
    by (cases r) (auto split: if_splits)
qed simp

text \<open>C7. The payout crank finalizes a job only when its challenge window is over, work was delivered and it is
  neither settled, cancelled nor disputed; it sends one transaction per job it reports as settled and
  no other.\<close>

theorem settle_ripe_jobs_sound:
  assumes "settle_ripe_jobs se ce m now = (Inr n, sent)" "sent \<noteq> []"
  shows "length sent = n \<and> (\<exists>platform jobs. list_jobs ce platform = Inr jobs \<and>
      (\<forall>tx \<in> set sent. \<exists>j \<in> set jobs. tx \<in> set (snd (settle_rental_job se m (cj_id j) platform platform))
        \<and> (\<exists>t. cj_challenge_end j = Some t \<and> t < now) \<and> cj_work_hash j \<noteq> []
        \<and> cj_status j \<notin> {StatusSettled, StatusCancelled, StatusDisputed}))"
proof -
  have low: "to_lower ''Settled'' = ''settled''" "to_lower ''Cancelled'' = ''cancelled''" "to_lower ''Disputed'' = ''disputed''"
    by code_simp+
  have ripe: "(\<exists>t. cj_challenge_end j = Some t \<and> t < now) \<and> cj_work_hash j \<noteq> []
        \<and> cj_status j \<notin> {StatusSettled, StatusCancelled, StatusDisputed}" if "ripe now j" for j
    using that low by (auto simp: ripe_def split: option.splits)
  obtain s jobs where s: "settlement_signer m = Some s" and j: "list_jobs ce (show_pubkey se (signer_public s)) = Inr jobs"
    and e: "settle_each se m now (show_pubkey se (signer_public s)) jobs = (n, sent)"
    using assms by (auto simp: settle_ripe_jobs_def Let_def split: option.splits sum.splits prod.splits)
  show ?thesis
  proof (intro conjI exI ballI)
    show "length sent = n" using settle_each_sound [OF e] by simp
    show "list_jobs ce (show_pubkey se (signer_public s)) = Inr jobs" by (rule j)
    fix tx assume "tx \<in> set sent"
    then obtain j where "j \<in> set jobs" "ripe now j"
      "tx \<in> set (snd (settle_rental_job se m (cj_id j) (show_pubkey se (signer_public s)) (show_pubkey se (signer_public s))))"
      using settle_each_sound [OF e] by blast
    with ripe [of j] show "\<exists>j \<in> set jobs.
        tx \<in> set (snd (settle_rental_job se m (cj_id j) (show_pubkey se (signer_public s)) (show_pubkey se (signer_public s))))
        \<and> (\<exists>t. cj_challenge_end j = Some t \<and> t < now) \<and> cj_work_hash j \<noteq> []
        \<and> cj_status j \<notin> {StatusSettled, StatusCancelled, StatusDisputed}"
      by (intro bexI [of _ j] conjI) simp_all
  qed
qed

definition demo_solana :: solana_env where
  "demo_solana = \<lparr>parse_pubkey = (\<lambda>s. Inr (bytes_of s)), show_pubkey = (\<lambda>k. map (\<lambda>b. char_of (unat b)) k), parse_signature = (\<lambda>_. None),
     find_ata = (\<lambda>k m. Inr (k @ m)), find_pda = (\<lambda>seeds p. Inr (concat seeds @ p)), account_exists = (\<lambda>_. True),
     token_account_balance = (\<lambda>_. Inr (''10000000'', 6)), parse_decimal = (\<lambda>_. Inr 10000000), latest_blockhash = Inr ''hash'',
     build_error = (\<lambda>_. None), sign_error = (\<lambda>_ _. None), send_tx = (\<lambda>_. Inr ''sig''),
     signature_polls = (\<lambda>_ _. PollStatus CommitmentFinalized), poll_times = (\<lambda>n. int n * second)\<rparr>"

definition demo_signer :: signer where
  "demo_signer = \<lparr>signer_key = [1], signer_public = [80], program_id = [2], usdc_mint = [3], token_program = [4],
     system_program = [5], sysvar_rent = [6]\<rparr>"

definition demo_manager :: "manager option" where
  "demo_manager = Some (new_manager (Some demo_signer) True 3600)"

definition demo_job :: "job_status \<Rightarrow> covenant_job" where
  "demo_job st = \<lparr>cj_id = ''J'', cj_poster_wallet = ''P'', cj_taker_wallet = ''P'', cj_token_mint = ''M'', cj_amount = 1,
     cj_spec_hash = ''H'', cj_status = st, cj_deadline = 0, cj_challenge_end = Some 10, cj_work_hash = ''W'',
     cj_delivery_uri = [], cj_created_at = 0\<rparr>"

definition demo_covenant :: covenant_env where
  "demo_covenant = \<lparr>sha256 = (\<lambda>_. replicate 32 7), to_float = (\<lambda>x. x), encode_spec = (\<lambda>_. Inr ''{}''),
     encode_index = (\<lambda>_. ''{}''), encode_submit = (\<lambda>_. ''{}''), decode_job = (\<lambda>_. Inr (demo_job StatusOpen)),
     decode_jobs = (\<lambda>_. Inr [demo_job StatusDelivered, demo_job StatusDisputed]), decode_balance = (\<lambda>_. Inr 0),
     covenant_http = (\<lambda>_. Reply 200 ''{}''), iso_millis = (\<lambda>_. ''t''), rfc3339 = (\<lambda>_. ''t''), hex_of = (\<lambda>_. ''h''),
     show_uuid = (\<lambda>_. ''u''), show_decimal = (\<lambda>_. ''d'')\<rparr>"

lemma demo_settles:
  "\<exists>tx. settle_ripe_jobs demo_solana demo_covenant demo_manager 20 = (Inr 1, [tx])"
proof -
  have low: "to_lower ''Delivered'' = ''delivered''" "to_lower ''Disputed'' = ''disputed''" by code_simp+
  have r: "ripe 20 (demo_job StatusDelivered)" "\<not> ripe 20 (demo_job StatusDisputed)"
    using low by (simp_all add: ripe_def demo_job_def)
  have l: "list_jobs demo_covenant p = Inr [demo_job StatusDelivered, demo_job StatusDisputed]" for p
    by (simp add: list_jobs_def do_json_def demo_covenant_def)
  have s: "settlement_signer demo_manager = Some demo_signer"
    by (simp add: settlement_signer_def demo_manager_def new_manager_def)
  obtain tx where t: "settle_rental_job demo_solana demo_manager (cj_id (demo_job StatusDelivered)) p p = (Inr ''sig'', [tx p])" for p
    by (simp add: settle_rental_job_def s finalize_job_def escrow_token_pda_def reputation_pda_def claim_pda_def
        sign_and_send_def demo_solana_def)
  show ?thesis by (simp add: settle_ripe_jobs_def s l r t)
qed

theorem settle_ripe_jobs_sound_witness:
  "\<exists>n sent. settle_ripe_jobs demo_solana demo_covenant demo_manager 20 = (Inr n, sent) \<and> length sent = 1 \<and> n = 1"
proof -
  obtain tx where t: "settle_ripe_jobs demo_solana demo_covenant demo_manager 20 = (Inr 1, [tx])"
    using demo_settles by blast
  from settle_ripe_jobs_sound [OF t] t show ?thesis by auto
qed

text \<open>Opening an escrow sends at most one transaction, and that one both creates and accepts the job for the
  amount asked; whenever it was sent the job handle is returned, even when the index then fails, so
  that the caller can always find the escrow it has paid into.\<close>

theorem open_rental_job_handle:
  assumes "open_rental_job se ce m now amount gpu sid dur = ((job, err), sent)"
  shows "(sent = [] \<longleftrightarrow> job = None) \<and> (err = None \<longrightarrow> job \<noteq> None)
    \<and> (job \<noteq> None \<longrightarrow> (\<exists>tx hash p acc1 acc2. sent = [tx] \<and> tx_instructions tx =
         [ProgramInstruction p acc1 (create_job_data amount hash ((now + dur) div second) (word_of_int (challenge_of m))),
          ProgramInstruction p acc2 (disc_accept_job @ hash)]))"
proof (cases "settlement_signer m")
  case (Some s)
  have c: "case r of Inl _ \<Rightarrow> sent' = []
      | Inr _ \<Rightarrow> (\<exists>tx p acc1 acc2. sent' = [tx] \<and> tx_instructions tx =
         [ProgramInstruction p acc1 (create_job_data amount hash d ch), ProgramInstruction p acc2 (disc_accept_job @ hash)])"
    if "create_job se ce s amount hash json d ch = (r, sent')" for hash json d ch r sent'
    using that by (auto simp: create_job_def Let_def split: sum.splits prod.splits dest!: sign_and_send_sent)
  from assms Some show ?thesis
    by (auto simp: open_rental_job_def Let_def split: sum.splits prod.splits dest!: c)
qed (use assms in \<open>auto simp: open_rental_job_def\<close>)

theorem open_rental_job_handle_witness:
  "\<exists>job err sent. open_rental_job demo_solana demo_covenant demo_manager 0 1 ''gpu'' ''s'' hour = ((job, err), sent)
     \<and> (sent = [] \<longleftrightarrow> job = None)"
proof -
  obtain job err sent where r: "open_rental_job demo_solana demo_covenant demo_manager 0 1 ''gpu'' ''s'' hour = ((job, err), sent)"
    by (metis surj_pair)
  from open_rental_job_handle [OF r] r show ?thesis by blast
qed

end
