(* ===== verification/BillingService.thy ===== *)
theory BillingService
  imports Pricing PostgresStore Covenant
begin

text \<open>
  The billing service proper (\<open>internal/service/billing.go\<close>): wallets, rental sessions, deposits,
  withdrawals and the pricing queries, composed of the pricing engine, the store, the Solana client
  and the settlement manager the way the code composes them.

  The state is the database and the list of transactions the service has sent to the chain. Every
  operation is total in the state: it returns the new state with its result, on the error paths too,
  so that what a failing request leaves behind can be stated. \<open>be_clock\<close> and \<open>be_uuid\<close> give the
  successive readings of one call; panics of the libraries are the error \<open>Panicked\<close>.
\<close>

section \<open>Environment, configuration and state\<close>

record billing_env =
  be_sql :: sql_env
  be_solana :: solana_env
  be_covenant :: covenant_env
  be_div :: "decimal \<Rightarrow> decimal \<Rightarrow> decimal"
  be_hours :: "duration \<Rightarrow> decimal"
  be_clock :: clock
  be_uuid :: "nat \<Rightarrow> uuid"
  be_put_object :: "string \<Rightarrow> string \<Rightarrow> http_reply"

record service_config =
  minimum_balance :: decimal
  low_balance_threshold :: decimal
  billing_interval :: duration
  insufficient_funds_grace :: duration
  max_transaction_amount :: decimal
  daily_withdrawal_limit :: decimal
  minimum_payout_amount :: decimal
  payout_fee_percent :: decimal
  storage_url :: string

record billing_service =
  sv_solana :: solana_client
  sv_engine :: pricing_engine
  sv_rate_order :: "(string \<times> decimal) list"
  sv_covenant :: "manager option"
  sv_config :: service_config

record billing_state =
  bs_db :: billing_db
  bs_chain :: "chain_tx list"

definition sent_also :: "billing_state \<Rightarrow> billing_db \<Rightarrow> chain_tx list \<Rightarrow> billing_state" where
  "sent_also st db sent = st\<lparr>bs_db := db, bs_chain := bs_chain st @ sent\<rparr>"

definition pricing_failure :: "string \<Rightarrow> pricing_error \<Rightarrow> go_error" where
  "pricing_failure msg e =
     (case e of DivisionByZeroPanic \<Rightarrow> Panicked ''decimal division by 0''
      | _ \<Rightarrow> Wrapped msg (Opaque ''pricing error''))"

section \<open>Wallets\<close>

definition is_valid_solana_address :: "string \<Rightarrow> bool" where
  "is_valid_solana_address a \<longleftrightarrow> 32 \<le> length a \<and> length a \<le> 44"

text \<open>The creation of the token account waits for the chain and may not return: then there is no result.\<close>

definition create_wallet ::
    "billing_env \<Rightarrow> billing_service \<Rightarrow> wallet_create_request \<Rightarrow> billing_state
     \<Rightarrow> ((go_error + wallet) \<times> billing_state) option" where
  "create_wallet env sv req st =
     (if \<not> is_valid_solana_address (wcr_solana_address req)
      then Some (Inl (new_validation_error ''solana_address'' ''invalid Solana address format''), st)
      else case get_wallet_by_user_id (be_sql env) (wcr_user_id req) (wcr_wallet_type req) (bs_db st) of
        Inr _ \<Rightarrow> Some (Inl (new_billing_error ErrCodeWalletExists ''Wallet already exists'' (Sentinel ErrWalletAlreadyExists)), st)
      | Inl e \<Rightarrow>
          if e \<noteq> Sentinel ErrWalletNotFound then Some (Inl (Wrapped ''failed to check existing wallet'' e), st)
          else (case create_associated_token_account (be_solana env) (sv_solana sv) (wcr_solana_address req) of
              None \<Rightarrow> None
            | Some (Inl e, sent) \<Rightarrow> Some (Inl (new_solana_error ''create_ata'' e), sent_also st (bs_db st) sent)
            | Some (Inr _, sent) \<Rightarrow>
                (case create_wallet_row (be_sql env) (be_uuid env 0) (be_clock env) req (bs_db st) of
                   (Inl e, db) \<Rightarrow> Some (Inl (Wrapped ''failed to create wallet'' e), sent_also st db sent)
                 | (Inr w, db) \<Rightarrow> Some (Inr w, sent_also st db sent))))"

definition balance_of :: "wallet \<Rightarrow> balance_response" where
  "balance_of w = \<lparr>br_wallet_id = w_id w, br_balance = w_balance w, br_locked = w_locked w, br_pending = w_pending w,
     br_available = available_balance w, br_total = total_balance w, br_last_updated = w_updated_at w\<rparr>"

definition get_wallet_balance ::
    "billing_env \<Rightarrow> billing_service \<Rightarrow> uuid \<Rightarrow> billing_state \<Rightarrow> (go_error + balance_response) \<times> billing_state" where
  "get_wallet_balance env sv i st =
     (case get_wallet (be_sql env) i (bs_db st) of Inl e \<Rightarrow> (Inl e, st) | Inr w \<Rightarrow>
      let chain = (case get_token_balance (be_div env) (be_solana env) (sv_solana sv) (w_solana_address w) of
                     Inl _ \<Rightarrow> w_balance w | Inr b \<Rightarrow> b)
      in if \<bar>chain - w_balance w\<bar> > 1 / 1000 then
           (case update_wallet_balance (be_sql env) (be_clock env 0) i chain (w_locked w) (bs_db st) of
              (Inl _, db) \<Rightarrow> (Inr (balance_of w), st\<lparr>bs_db := db\<rparr>)
            | (Inr _, db) \<Rightarrow> (Inr (balance_of (w\<lparr>w_balance := chain\<rparr>)), st\<lparr>bs_db := db\<rparr>))
         else (Inr (balance_of w), st))"

definition get_user_wallet :: "billing_env \<Rightarrow> string \<Rightarrow> billing_state \<Rightarrow> go_error + wallet" where
  "get_user_wallet env user st = get_wallet_by_user_id (be_sql env) user WalletTypeUser (bs_db st)"

definition get_user_balance ::
    "billing_env \<Rightarrow> billing_service \<Rightarrow> string \<Rightarrow> billing_state \<Rightarrow> (go_error + balance_response) \<times> billing_state" where
  "get_user_balance env sv user st =
     (case get_user_wallet env user st of Inl e \<Rightarrow> (Inl e, st) | Inr w \<Rightarrow> get_wallet_balance env sv (w_id w) st)"

section \<open>Starting a session\<close>

definition start_pricing_request :: "session_start_request \<Rightarrow> pricing_request" where
  "start_pricing_request req =
     \<lparr>pr_gpu_model = ssr_gpu_model req, pr_requested_vram = ssr_requested_vram req,
      pr_total_vram = ssr_requested_vram req, pr_estimated_power_w = ssr_estimated_power_w req, pr_duration_hours = 1\<rparr>"

definition new_session :: "billing_env \<Rightarrow> session_start_request \<Rightarrow> pricing_response \<Rightarrow> rental_session" where
  "new_session env req p =
     \<lparr>rs_id = be_uuid env 0, rs_user_id = ssr_user_id req, rs_provider_id = ssr_provider_id req,
      rs_job_id = ssr_job_id req, rs_status = SessionStatusActive, rs_gpu_model = ssr_gpu_model req,
      rs_allocated_vram = ssr_requested_vram req, rs_total_vram = ssr_requested_vram req, rs_vram_percentage = 100,
      rs_hourly_rate = base_hourly_rate p, rs_vram_rate = vram_hourly_rate p, rs_power_rate = power_hourly_rate p,
      rs_platform_fee_rate = 5, rs_estimated_power_w = ssr_estimated_power_w req, rs_actual_power_w = None,
      rs_started_at = be_clock env 3, rs_ended_at = None, rs_last_billed_at = be_clock env 4,
      rs_total_cost = 0, rs_platform_fee = 0, rs_provider_earnings = 0, rs_metadata = None,
      rs_created_at = be_clock env 5, rs_updated_at = be_clock env 6\<rparr>"

definition booked_hours :: "session_start_request \<Rightarrow> int" where
  "booked_hours req = (case ssr_max_duration_hours req of Some h \<Rightarrow> if h > 0 then h else 1 | None \<Rightarrow> 1)"

text \<open>\<open>time.Duration(h) * time.Hour\<close> is a product of int64 values and wraps.\<close>

definition hours_duration :: "int \<Rightarrow> duration" where
  "hours_duration h = sint (word_of_int (h * hour) :: u64)"

definition escrow_amount :: "session_start_request \<Rightarrow> pricing_response \<Rightarrow> decimal" where
  "escrow_amount req p = total_hourly_rate p * of_int (booked_hours req)"

definition put_metadata :: "string \<Rightarrow> string \<Rightarrow> metadata \<Rightarrow> metadata" where
  "put_metadata k v m = Some ((case m of None \<Rightarrow> Map.empty | Some f \<Rightarrow> f)(k \<mapsto> v))"

text \<open>A job that comes with an error is dropped, although its escrow may exist on chain.\<close>

definition open_escrow ::
    "billing_env \<Rightarrow> billing_service \<Rightarrow> session_start_request \<Rightarrow> pricing_response \<Rightarrow> rental_session
     \<Rightarrow> (go_error + rental_session) \<times> chain_tx list" where
  "open_escrow env sv req p s =
     (if \<not> enabled (sv_covenant sv) then (Inr s, [])
      else case open_rental_job (be_solana env) (be_covenant env) (sv_covenant sv) (be_clock env 7) (escrow_amount req p)
                  (ssr_gpu_model req) (show_uuid (be_covenant env) (rs_id s)) (hours_duration (booked_hours req)) of
        ((_, Some e), sent) \<Rightarrow> (Inl (Wrapped ''failed to open covenant escrow'' e), sent)
      | ((None, None), sent) \<Rightarrow> (Inl (Panicked ''nil pointer dereference''), sent)
      | ((Some job, None), sent) \<Rightarrow>
          (Inr (s\<lparr>rs_metadata :=
             put_metadata ''covenant_escrow_amount'' (show_decimal (be_covenant env) (escrow_amount req p))
               (put_metadata ''covenant_poster'' (rj_poster job)
                 (put_metadata ''covenant_spec_hash'' (rj_spec_hash_hex job)
                   (put_metadata ''covenant_job_pda'' (rj_job_pda job) (rs_metadata s))))\<rparr>), sent))"

definition start_transaction :: "session_start_request \<Rightarrow> wallet \<Rightarrow> pricing_response \<Rightarrow> rental_session \<Rightarrow> transaction_create_request" where
  "start_transaction req w p s =
     \<lparr>tcr_from_wallet = Some (w_id w), tcr_to_wallet = None, tcr_type = TransactionTypeSessionStart,
      tcr_amount = total_hourly_rate p, tcr_description = ''Session start - locked funds for '' @ ssr_gpu_model req,
      tcr_session_id = Some (rs_id s), tcr_job_id = ssr_job_id req, tcr_metadata = None\<rparr>"

definition insufficient :: "billing_env \<Rightarrow> decimal \<Rightarrow> decimal \<Rightarrow> go_error" where
  "insufficient env required available =
     new_insufficient_funds_error (show_decimal (be_covenant env) required) (show_decimal (be_covenant env) available)"

text \<open>
  The second half of a start, after the funds are locked and the lock is stored: escrow, session,
  transaction record, response.
\<close>

definition start_locked ::
    "billing_env \<Rightarrow> billing_service \<Rightarrow> session_start_request \<Rightarrow> wallet \<Rightarrow> pricing_response \<Rightarrow> billing_state
     \<Rightarrow> (go_error + session_response) \<times> billing_state" where
  "start_locked env sv req w p st =
     (case open_escrow env sv req p (new_session env req p) of
        (Inl e, sent) \<Rightarrow> (Inl e, sent_also st (bs_db st) sent)
      | (Inr s, sent) \<Rightarrow>
     (case create_rental_session (be_sql env) s (bs_db st) of
        (Inl e, db) \<Rightarrow> (Inl (Wrapped ''failed to create rental session'' e), sent_also st db sent)
      | (Inr _, db) \<Rightarrow>
     (case create_transaction (be_sql env) (be_uuid env 1) (\<lambda>i. be_clock env (8 + i)) (start_transaction req w p s) db of
        (Inl e, db') \<Rightarrow> (Inl (Wrapped ''failed to create transaction'' e), sent_also st db' sent)
      | (Inr _, db') \<Rightarrow>
          if total_hourly_rate p = 0 then (Inl (Panicked ''decimal division by 0''), sent_also st db' sent)
          else (Inr \<lparr>sr_session = s, sr_current_cost = 0, sr_estimated_hourly_cost = total_hourly_rate p,
                     sr_remaining_balance = available_balance w,
                     sr_estimated_runtime = be_div env (available_balance w) (total_hourly_rate p)\<rparr>,
                sent_also st db' sent))))"

definition start_rental_session ::
    "billing_env \<Rightarrow> billing_service \<Rightarrow> session_start_request \<Rightarrow> billing_state
     \<Rightarrow> (go_error + session_response) \<times> billing_state" where
  "start_rental_session env sv req st =
     (case get_wallet_by_user_id (be_sql env) (ssr_user_id req) WalletTypeUser (bs_db st) of Inl e \<Rightarrow> (Inl e, st) | Inr w \<Rightarrow>
      if available_balance w < minimum_balance (sv_config sv)
      then (Inl (insufficient env (minimum_balance (sv_config sv)) (available_balance w)), st)
      else (case calculate_pricing (be_div env) (sv_engine sv) (sv_rate_order sv) (be_clock env 0) (start_pricing_request req) of
          Inl e \<Rightarrow> (Inl (pricing_failure ''failed to calculate pricing'' e), st)
        | Inr p \<Rightarrow>
          if available_balance w < total_hourly_rate p
          then (Inl (insufficient env (total_hourly_rate p) (available_balance w)), st)
          else (case lock_funds (be_clock env 1) (total_hourly_rate p) w of
              Inl e \<Rightarrow> (Inl e, st)
            | Inr w' \<Rightarrow>
              (case update_wallet_balance (be_sql env) (be_clock env 2) (w_id w') (w_balance w') (w_locked w') (bs_db st) of
                 (Inl e, db) \<Rightarrow> (Inl (Wrapped ''failed to lock funds'' e), st\<lparr>bs_db := db\<rparr>)
               | (Inr _, db) \<Rightarrow> start_locked env sv req w' p (st\<lparr>bs_db := db\<rparr>)))))"

section \<open>Usage\<close>

definition period_cost :: "(decimal \<Rightarrow> decimal \<Rightarrow> decimal) \<Rightarrow> rental_session \<Rightarrow> u32 \<Rightarrow> decimal" where
  "period_cost dv s watts =
     (let period_hours = dv 1 60;
          bcost = rs_hourly_rate s * period_hours;
          vram_gb = dv (of_int (sint (rs_allocated_vram s))) 1024;
          vcost = rs_vram_rate s * vram_gb * period_hours;
          pcost = dv (rs_power_rate s * of_nat (unat watts)) 1000 * period_hours
      in bcost + vcost + pcost)"

definition process_usage_update ::
    "billing_env \<Rightarrow> usage_update_request \<Rightarrow> billing_state \<Rightarrow> (go_error + unit) \<times> billing_state" where
  "process_usage_update env req st =
     (case get_rental_session (be_sql env) (uur_session_id req) (bs_db st) of Inl e \<Rightarrow> (Inl e, st) | Inr s \<Rightarrow>
      let cost = period_cost (be_div env) s (uur_power_draw req);
          u = \<lparr>ur_id = be_uuid env 0, ur_session_id = uur_session_id req, ur_recorded_at = uur_timestamp req,
               ur_gpu_utilization = uur_gpu_utilization req, ur_vram_utilization = uur_vram_utilization req,
               ur_power_draw = uur_power_draw req, ur_temperature = uur_temperature req, ur_period_minutes = 1,
               ur_period_cost = cost, ur_created_at = be_clock env 0\<rparr>
      in case create_usage_record (be_sql env) u (bs_db st) of
           (Inl e, db) \<Rightarrow> (Inl (Wrapped ''failed to create usage record'' e), st\<lparr>bs_db := db\<rparr>)
         | (Inr _, db) \<Rightarrow>
             if rs_actual_power_w s = None \<or> rs_actual_power_w s \<noteq> Some (uur_power_draw req)
             then (let s' = s\<lparr>rs_actual_power_w := Some (uur_power_draw req),
                              rs_total_cost := rs_total_cost s + cost, rs_updated_at := be_clock env 1\<rparr>
                   in (Inr (), st\<lparr>bs_db := snd (update_rental_session (be_sql env) (be_clock env 2) s' db)\<rparr>))
             else (Inr (), st\<lparr>bs_db := db\<rparr>))"

section \<open>Ending a session\<close>

definition trim_slashes :: "string \<Rightarrow> string" where
  "trim_slashes s = rev (dropWhile (\<lambda>c. c = CHR 0x2F) (rev s))"

definition upload_receipt :: "billing_env \<Rightarrow> service_config \<Rightarrow> string \<Rightarrow> string \<Rightarrow> string" where
  "upload_receipt env cfg session_id receipt =
     (let fallback = ''dantegpu://session/'' @ session_id;
          base = trim_slashes (storage_url cfg);
          url = base @ ''/objects/receipts/'' @ session_id @ ''.json''
      in if base = [] then fallback
         else case be_put_object env url receipt of
           NoReply _ \<Rightarrow> fallback
         | Reply status _ \<Rightarrow> if status < 200 \<or> status \<ge> 300 then fallback else url)"

definition quoted :: "string \<Rightarrow> string" where
  "quoted s = CHR 0x22 # s @ [CHR 0x22]"

definition receipt_text :: "billing_env \<Rightarrow> rental_session \<Rightarrow> time \<Rightarrow> string" where
  "receipt_text env s now =
     ''{'' @ quoted ''session_id'' @ '':'' @ quoted (show_uuid (be_covenant env) (rs_id s)) @ '','' @
     quoted ''gpu_model'' @ '':'' @ quoted (rs_gpu_model s) @ '','' @
     quoted ''total_cost'' @ '':'' @ quoted (show_decimal (be_covenant env) (rs_total_cost s)) @ '','' @
     quoted ''ended_at'' @ '':'' @ quoted (rfc3339 (be_covenant env) now) @ ''}''"

definition metadata_get :: "metadata \<Rightarrow> string \<Rightarrow> string" where
  "metadata_get m k = (case m of None \<Rightarrow> [] | Some f \<Rightarrow> (case f k of None \<Rightarrow> [] | Some v \<Rightarrow> v))"

text \<open>The session as it is closed: ended, completed, charged for its running time.\<close>

definition closed_session :: "billing_env \<Rightarrow> time \<Rightarrow> rental_session \<Rightarrow> rental_session" where
  "closed_session env now s =
     (let s1 = s\<lparr>rs_ended_at := Some now, rs_status := SessionStatusCompleted\<rparr>;
          total = calculate_current_cost (be_div env) (be_hours env) now s1;
          fee = be_div env (total * rs_platform_fee_rate s) 100
      in s1\<lparr>rs_total_cost := total, rs_platform_fee := fee, rs_provider_earnings := total - fee, rs_updated_at := now\<rparr>)"

text \<open>A submit failure is logged; the signature of a success is written to the session in memory only.\<close>

definition submit_receipt ::
    "billing_env \<Rightarrow> billing_service \<Rightarrow> time \<Rightarrow> rental_session \<Rightarrow> rental_session \<times> chain_tx list" where
  "submit_receipt env sv now s =
     (if \<not> enabled (sv_covenant sv) \<or> rs_metadata s = None \<or> metadata_get (rs_metadata s) ''covenant_job_pda'' = [] then (s, [])
      else (let receipt = receipt_text env s now;
                uri = upload_receipt env (sv_config sv) (show_uuid (be_covenant env) (rs_id s)) receipt
            in case close_rental_job (be_solana env) (be_covenant env) (sv_covenant sv)
                      (metadata_get (rs_metadata s) ''covenant_job_pda'') (metadata_get (rs_metadata s) ''covenant_poster'')
                      (sha256 (be_covenant env) receipt) uri of
                 (Inl _, sent) \<Rightarrow> (s, sent)
               | (Inr sig, sent) \<Rightarrow> (s\<lparr>rs_metadata := put_metadata ''covenant_submit_tx'' sig (rs_metadata s)\<rparr>, sent)))"

definition end_transaction :: "wallet \<Rightarrow> rental_session \<Rightarrow> transaction_create_request" where
  "end_transaction w s =
     \<lparr>tcr_from_wallet = Some (w_id w), tcr_to_wallet = None, tcr_type = TransactionTypeSessionEnd,
      tcr_amount = rs_total_cost s, tcr_description = ''Session end - final payment for '' @ rs_gpu_model s,
      tcr_session_id = Some (rs_id s), tcr_job_id = None, tcr_metadata = None\<rparr>"

text \<open>The charge: all locked funds of the user are released and the cost is deducted.\<close>

definition charge_session ::
    "billing_env \<Rightarrow> rental_session \<Rightarrow> billing_state \<Rightarrow> (go_error + session_response) \<times> billing_state" where
  "charge_session env s st =
     (case get_wallet_by_user_id (be_sql env) (rs_user_id s) WalletTypeUser (bs_db st) of Inl e \<Rightarrow> (Inl e, st) | Inr w \<Rightarrow>
     (case deduct_funds (be_clock env 3) (rs_total_cost s) (unlock_funds (be_clock env 2) (w_locked w) w) of
        Inl e \<Rightarrow> (Inl e, st)
      | Inr w' \<Rightarrow>
     (case update_wallet_balance (be_sql env) (be_clock env 4) (w_id w') (w_balance w') (w_locked w') (bs_db st) of
        (Inl e, db) \<Rightarrow> (Inl (Wrapped ''failed to update wallet balance'' e), st\<lparr>bs_db := db\<rparr>)
      | (Inr _, db) \<Rightarrow>
          (Inr \<lparr>sr_session = s, sr_current_cost = rs_total_cost s, sr_estimated_hourly_cost = 0,
                sr_remaining_balance = available_balance w', sr_estimated_runtime = 0\<rparr>,
           st\<lparr>bs_db := snd (create_transaction (be_sql env) (be_uuid env 0) (\<lambda>i. be_clock env (5 + i)) (end_transaction w' s) db)\<rparr>))))"

definition end_rental_session ::
    "billing_env \<Rightarrow> billing_service \<Rightarrow> session_end_request \<Rightarrow> billing_state
     \<Rightarrow> (go_error + session_response) \<times> billing_state" where
  "end_rental_session env sv req st =
     (case get_rental_session (be_sql env) (ser_session_id req) (bs_db st) of Inl e \<Rightarrow> (Inl e, st) | Inr s \<Rightarrow>
      if rs_status s \<noteq> SessionStatusActive
      then (Inl (new_billing_error ErrCodeSessionNotActive ''Session is not active'' (Sentinel ErrSessionNotActive)), st)
      else (let now = be_clock env 0; s' = closed_session env now s in
        case update_rental_session (be_sql env) (be_clock env 1) s' (bs_db st) of
          (Inl e, db) \<Rightarrow> (Inl (Wrapped ''failed to update session'' e), st\<lparr>bs_db := db\<rparr>)
        | (Inr _, db) \<Rightarrow>
            (let (s'', sent) = submit_receipt env sv now s' in charge_session env s'' (sent_also st db sent))))"

definition dispute_session ::
    "billing_env \<Rightarrow> billing_service \<Rightarrow> uuid \<Rightarrow> string \<Rightarrow> billing_state \<Rightarrow> (go_error + string) \<times> billing_state" where
  "dispute_session env sv i reason st =
     (if \<not> enabled (sv_covenant sv) then (Inl (Opaque ''settlement not configured''), st)
      else case get_rental_session (be_sql env) i (bs_db st) of Inl e \<Rightarrow> (Inl e, st) | Inr s \<Rightarrow>
        if rs_metadata s = None then (Inl (Opaque ''session has no covenant escrow''), st)
        else (let pda = metadata_get (rs_metadata s) ''covenant_job_pda'';
                  poster = metadata_get (rs_metadata s) ''covenant_poster'';
                  amount = (case parse_decimal (be_solana env) (metadata_get (rs_metadata s) ''covenant_escrow_amount'') of
                              Inl _ \<Rightarrow> 0 | Inr a \<Rightarrow> a)
              in if pda = [] \<or> poster = [] then (Inl (Opaque ''session has no covenant escrow''), st)
                 else (let (r, sent) = dispute_rental_job (be_solana env) (be_covenant env) (sv_covenant sv) pda poster reason amount
                       in (r, sent_also st (bs_db st) sent))))"

section \<open>Queries on a session\<close>

definition current_hourly_rate :: "(decimal \<Rightarrow> decimal \<Rightarrow> decimal) \<Rightarrow> rental_session \<Rightarrow> decimal" where
  "current_hourly_rate dv s =
     (let r0 = rs_hourly_rate s;
          r1 = (if rs_vram_rate s > 0 then r0 + rs_vram_rate s * dv (of_int (sint (rs_allocated_vram s))) 1024 else r0)
      in if rs_power_rate s > 0 then
           (case rs_actual_power_w s of Some w \<Rightarrow> r1 + rs_power_rate s * dv (of_nat (unat w)) 1000 | None \<Rightarrow> r1)
         else r1)"

definition get_current_usage :: "billing_env \<Rightarrow> uuid \<Rightarrow> billing_state \<Rightarrow> go_error + session_response" where
  "get_current_usage env i st =
     (case get_rental_session (be_sql env) i (bs_db st) of Inl e \<Rightarrow> Inl e | Inr s \<Rightarrow>
     (case get_wallet_by_user_id (be_sql env) (rs_user_id s) WalletTypeUser (bs_db st) of Inl e \<Rightarrow> Inl e | Inr w \<Rightarrow>
      let rate = current_hourly_rate (be_div env) s in
      Inr \<lparr>sr_session = s, sr_current_cost = calculate_current_cost (be_div env) (be_hours env) (be_clock env 0) s,
           sr_estimated_hourly_cost = rate, sr_remaining_balance = available_balance w,
           sr_estimated_runtime = (if rate > 0 then be_div env (available_balance w) rate else 0)\<rparr>))"

definition billing_history :: "billing_env \<Rightarrow> billing_history_request \<Rightarrow> billing_state \<Rightarrow> go_error + billing_history_response" where
  "billing_history env req st = get_billing_history (be_sql env) req (bs_db st)"

section \<open>Deposits and withdrawals\<close>

definition deposit_transaction :: "deposit_request \<Rightarrow> wallet \<Rightarrow> transaction_create_request" where
  "deposit_transaction req w =
     \<lparr>tcr_from_wallet = None, tcr_to_wallet = Some (w_id w), tcr_type = TransactionTypeDeposit, tcr_amount = dr_amount req,
      tcr_description = ''USDC deposit'', tcr_session_id = None, tcr_job_id = None,
      tcr_metadata = Some [''solana_signature'' \<mapsto> dr_signature req]\<rparr>"

definition process_deposit ::
    "billing_env \<Rightarrow> billing_service \<Rightarrow> deposit_request \<Rightarrow> billing_state \<Rightarrow> ((go_error + transaction) \<times> billing_state) option" where
  "process_deposit env sv req st =
     (case confirm_transaction (be_solana env) (sv_solana sv) (dr_signature req) of
        None \<Rightarrow> None
      | Some (Inl e) \<Rightarrow> Some (Inl (new_solana_error ''confirm_deposit'' e), st)
      | Some (Inr _) \<Rightarrow> Some
     (case get_wallet (be_sql env) (dr_wallet_id req) (bs_db st) of Inl e \<Rightarrow> (Inl e, st) | Inr w \<Rightarrow>
      let w' = add_funds (be_clock env 0) (dr_amount req) w in
     (case update_wallet_balance (be_sql env) (be_clock env 1) (w_id w') (w_balance w') (w_locked w') (bs_db st) of
        (Inl e, db) \<Rightarrow> (Inl (Wrapped ''failed to update wallet balance'' e), st\<lparr>bs_db := db\<rparr>)
      | (Inr _, db) \<Rightarrow>
     (case create_transaction (be_sql env) (be_uuid env 0) (\<lambda>i. be_clock env (2 + i)) (deposit_transaction req w') db of
        (Inl e, db') \<Rightarrow> (Inl (Wrapped ''failed to create transaction'' e), st\<lparr>bs_db := db'\<rparr>)
      | (Inr t, db') \<Rightarrow>
          (Inr t, st\<lparr>bs_db := snd (update_transaction_status (be_sql env) (\<lambda>i. be_clock env (4 + i)) (t_id t)
              TransactionStatusConfirmed (Some (dr_signature req)) db')\<rparr>)))))"

definition withdrawal_transaction :: "withdrawal_request \<Rightarrow> wallet \<Rightarrow> transaction_create_request" where
  "withdrawal_transaction req w =
     \<lparr>tcr_from_wallet = Some (w_id w), tcr_to_wallet = None, tcr_type = TransactionTypeWithdrawal, tcr_amount = wr_amount req,
      tcr_description = ''USDC withdrawal to '' @ wr_to_address req, tcr_session_id = None, tcr_job_id = None,
      tcr_metadata = Some [''to_address'' \<mapsto> wr_to_address req]\<rparr>"

definition process_withdrawal ::
    "billing_env \<Rightarrow> billing_service \<Rightarrow> withdrawal_request \<Rightarrow> billing_state \<Rightarrow> (go_error + transaction) \<times> billing_state" where
  "process_withdrawal env sv req st =
     (case get_wallet (be_sql env) (wr_wallet_id req) (bs_db st) of Inl e \<Rightarrow> (Inl e, st) | Inr w \<Rightarrow>
      if \<not> can_spend w (wr_amount req) then (Inl (insufficient env (wr_amount req) (available_balance w)), st)
      else if wr_amount req > daily_withdrawal_limit (sv_config sv)
      then (Inl (new_validation_error ''amount'' ''exceeds daily withdrawal limit''), st)
      else (case create_transaction (be_sql env) (be_uuid env 0) (be_clock env) (withdrawal_transaction req w) (bs_db st) of
          (Inl e, db) \<Rightarrow> (Inl (Wrapped ''failed to create transaction'' e), st\<lparr>bs_db := db\<rparr>)
        | (Inr t, db) \<Rightarrow>
          (case transfer_tokens (be_solana env) (sv_solana sv) (w_solana_address w) (wr_to_address req) (wr_amount req) of
             (Inl e, sent) \<Rightarrow>
               (Inl (new_solana_error ''transfer_tokens'' e),
                sent_also st (snd (update_transaction_status (be_sql env) (\<lambda>i. be_clock env (2 + i)) (t_id t)
                                     TransactionStatusFailed None db)) sent)
           | (Inr sig, sent) \<Rightarrow>
             (case deduct_funds (be_clock env 2) (wr_amount req) w of
                Inl e \<Rightarrow> (Inl e, sent_also st db sent)
              | Inr w' \<Rightarrow>
                (case update_wallet_balance (be_sql env) (be_clock env 3) (w_id w') (w_balance w') (w_locked w') db of
                   (Inl e, db') \<Rightarrow> (Inl e, sent_also st db' sent)
                 | (Inr _, db') \<Rightarrow>
                     (Inr t, sent_also st (snd (update_transaction_status (be_sql env) (\<lambda>i. be_clock env (4 + i)) (t_id t)
                                             TransactionStatusConfirmed (Some sig) db')) sent))))))"

section \<open>Pricing queries and history\<close>

definition get_transaction_history :: "transaction_history_request \<Rightarrow> transaction_history_response" where
  "get_transaction_history req =
     \<lparr>thp_transactions = [], thp_total = 0, thp_limit = thr_limit req, thp_offset = thr_offset req\<rparr>"

text \<open>
  A dynamic request: only a \<open>map[string]interface{}\<close> is looked at, and of it only the entries of
  exactly the expected type. Any other value leaves the request empty.
\<close>

datatype dyn_value = DynString string | DynUint64 u64 | DynUint32 u32 | DynDecimal decimal | DynOther

datatype dyn_request = DynMap "string \<rightharpoonup> dyn_value" | DynStruct

definition pricing_request_of :: "dyn_request \<Rightarrow> pricing_request" where
  "pricing_request_of r =
     (case r of
        DynStruct \<Rightarrow> \<lparr>pr_gpu_model = [], pr_requested_vram = 0, pr_total_vram = 0, pr_estimated_power_w = 0, pr_duration_hours = 0\<rparr>
      | DynMap m \<Rightarrow>
          \<lparr>pr_gpu_model = (case m ''gpu_model'' of Some (DynString s) \<Rightarrow> s | _ \<Rightarrow> []),
           pr_requested_vram = (case m ''requested_vram_mb'' of Some (DynUint64 v) \<Rightarrow> v | _ \<Rightarrow> 0),
           pr_total_vram = (case m ''total_vram_mb'' of Some (DynUint64 v) \<Rightarrow> v | _ \<Rightarrow> 0),
           pr_estimated_power_w = (case m ''estimated_power_w'' of Some (DynUint32 v) \<Rightarrow> v | _ \<Rightarrow> 0),
           pr_duration_hours = (case m ''duration_hours'' of Some (DynDecimal d) \<Rightarrow> d | _ \<Rightarrow> 0)\<rparr>)"

definition with_pricing_defaults :: "pricing_request \<Rightarrow> pricing_request" where
  "with_pricing_defaults r =
     (let r1 = (if pr_total_vram r = 0 then r\<lparr>pr_total_vram := pr_requested_vram r\<rparr> else r)
      in if pr_duration_hours r1 = 0 then r1\<lparr>pr_duration_hours := 1\<rparr> else r1)"

definition quote_pricing :: "billing_env \<Rightarrow> billing_service \<Rightarrow> dyn_request \<Rightarrow> go_error + pricing_response" where
  "quote_pricing env sv dyn =
     (let req = with_pricing_defaults (pricing_request_of dyn) in
      case validate_pricing_request (be_div env) (sv_engine sv) req of
        Inl e \<Rightarrow> Inl (Wrapped ''invalid pricing request'' (Opaque ''validation''))
      | Inr _ \<Rightarrow>
          (case calculate_pricing (be_div env) (sv_engine sv) (sv_rate_order sv) (be_clock env 0) req of
             Inl DivisionByZeroPanic \<Rightarrow> Inl (Panicked ''decimal division by 0'')
           | Inl e \<Rightarrow> Inl (Opaque ''no pricing'')
           | Inr p \<Rightarrow> Inr p))"

record pricing_rates =
  rates_base :: "string \<rightharpoonup> decimal"
  rates_vram_per_gb :: decimal
  rates_power_multiplier :: decimal
  rates_platform_fee_percent :: decimal

definition get_pricing_rates :: "billing_service \<Rightarrow> pricing_rates" where
  "get_pricing_rates sv =
     (let cfg = engine_config (sv_engine sv) in
      \<lparr>rates_base = get_supported_gpu_models (sv_engine sv), rates_vram_per_gb = vram_rate_per_gb cfg,
       rates_power_multiplier = power_multiplier cfg, rates_platform_fee_percent = platform_fee_percent cfg\<rparr>)"

end
