(* ===== verification/BillingFacts.thy ===== *)
theory BillingFacts
  imports BillingService
begin

text \<open>
  What the operations of the billing service guarantee, and what they do not: the funds a session
  start locks, the charge at its end, deposits and withdrawals, each stated on the whole operation of
  \<open>BillingService\<close> with the database failing wherever it may.
\<close>

section \<open>Shared facts\<close>

lemma sent_also_simps [simp]:
  "bs_db (sent_also st db sent) = db" "bs_chain (sent_also st db sent) = bs_chain st @ sent"
  by (simp_all add: sent_also_def)

lemma get_wallet_by_user_id_Inr:
  "get_wallet_by_user_id env user typ db = Inr w \<Longrightarrow> w \<in> set (db_wallets db) \<and> w_user_id w = user \<and> w_type w = typ"
  by (auto simp: get_wallet_by_user_id_def dest: select_by_SomeD split: if_splits option.splits)

lemma get_user_same:
  "db_wallets db = db_wallets db' \<Longrightarrow> get_wallet_by_user_id env u t db = get_wallet_by_user_id env u t db'"
  by (simp add: get_wallet_by_user_id_def)

lemma get_wallet_Inr: "get_wallet env i db = Inr w \<Longrightarrow> select_by w_id i (db_wallets db) = Some w"
  by (auto simp: get_wallet_def split: if_splits option.splits)

lemma get_rental_session_Inr: "get_rental_session env i db = Inr s \<Longrightarrow> select_by rs_id i (db_sessions db) = Some s"
  by (auto simp: get_rental_session_def split: if_splits option.splits)

lemma wallet_by_id: "schema_ok db \<Longrightarrow> w \<in> set (db_wallets db) \<Longrightarrow> select_by w_id (w_id w) (db_wallets db) = Some w"
  by (auto simp: schema_ok_def wallets_ok_def intro: select_by_unique)

lemma get_user_wallet_id:
  assumes "schema_ok db" "get_wallet_by_user_id env user typ db = Inr w"
  shows "select_by w_id (w_id w) (db_wallets db) = Some w"
  using wallet_by_id [OF assms(1)] get_wallet_by_user_id_Inr [OF assms(2)] by blast

text \<open>The wallet with id \<open>i\<close> carries the money \<open>(b, l)\<close>, and all others are as they were.\<close>

definition only_wallet_changed :: "billing_db \<Rightarrow> billing_db \<Rightarrow> uuid \<Rightarrow> decimal \<Rightarrow> decimal \<Rightarrow> bool" where
  "only_wallet_changed db db' i b l \<longleftrightarrow>
     (\<exists>w. select_by w_id i (db_wallets db') = Some w \<and> w_balance w = b \<and> w_locked w = l)
     \<and> (\<forall>j. j \<noteq> i \<longrightarrow> select_by w_id j (db_wallets db') = select_by w_id j (db_wallets db))"

lemma update_wallet_only:
  assumes "update_wallet_balance env now i b l db = (Inr (), db')"
  shows "\<exists>b' l'. money_col env b = Some b' \<and> money_col env l = Some l' \<and> only_wallet_changed db db' i b' l'
    \<and> db_sessions db' = db_sessions db \<and> db_transactions db' = db_transactions db"
  using update_wallet_balance_Inr [OF assms]
  by (auto simp: only_wallet_changed_def select_update_same select_update_other)

lemma only_wallet_changed_more:
  "only_wallet_changed db db' i b l \<Longrightarrow> db_wallets db2 = db_wallets db \<Longrightarrow> db_wallets db2' = db_wallets db' \<Longrightarrow>
   only_wallet_changed db2 db2' i b l"
  by (simp add: only_wallet_changed_def)

lemma create_session_db:
  "db_wallets (snd (create_rental_session env s db)) = db_wallets db"
  "db_transactions (snd (create_rental_session env s db)) = db_transactions db"
  by (auto simp: create_rental_session_def split: option.split)

lemma update_session_wallets [simp]:
  "db_wallets (snd (update_rental_session env now s db)) = db_wallets db"
  by (auto simp: update_rental_session_def split: option.split)

lemma create_usage_wallets [simp]:
  "db_wallets (snd (create_usage_record env u db)) = db_wallets db"
  by (auto simp: create_usage_record_def split: option.split)

lemma update_session_Inr:
  assumes "update_rental_session env now s db = (Inr (), db')"
  shows "\<exists>tc pf pe. money_col env (rs_total_cost s) = Some tc \<and> money_col env (rs_platform_fee s) = Some pf
    \<and> money_col env (rs_provider_earnings s) = Some pe
    \<and> db_sessions db' = update_by rs_id (rs_id s) (set_session s (tc, pf, pe) (time_col env) now) (db_sessions db)
    \<and> db_wallets db' = db_wallets db \<and> select_by rs_id (rs_id s) (db_sessions db) \<noteq> None"
  using assms by (auto simp: update_rental_session_def split: if_splits option.splits)

lemma update_session_Inl: "update_rental_session env now s db = (Inl e, db') \<Longrightarrow> db' = db"
  by (auto simp: update_rental_session_def split: if_splits option.splits)

section \<open>The end of a session\<close>

lemma closed_session_simps [simp]:
  "rs_id (closed_session env now s) = rs_id s" "rs_user_id (closed_session env now s) = rs_user_id s"
  "rs_status (closed_session env now s) = SessionStatusCompleted"
  "rs_ended_at (closed_session env now s) = Some now"
  by (simp_all add: closed_session_def Let_def)

lemma submit_receipt_keeps [simp]:
  "rs_id (fst (submit_receipt env sv now s)) = rs_id s" "rs_user_id (fst (submit_receipt env sv now s)) = rs_user_id s"
  "rs_status (fst (submit_receipt env sv now s)) = rs_status s"
  "rs_total_cost (fst (submit_receipt env sv now s)) = rs_total_cost s"
  "rs_platform_fee (fst (submit_receipt env sv now s)) = rs_platform_fee s"
  "rs_provider_earnings (fst (submit_receipt env sv now s)) = rs_provider_earnings s"
  by (auto simp: submit_receipt_def Let_def split: sum.splits prod.splits)

lemma charge_session_sessions: "db_sessions (bs_db (snd (charge_session env s st))) = db_sessions (bs_db st)"
  by (auto simp: charge_session_def update_wallet_balance_def split: sum.splits prod.splits option.splits if_splits)

text \<open>A session that leaves the end operation past its update is completed in the database.\<close>

lemma end_rental_session_cases:
  assumes "end_rental_session env sv req st = (r, st')"
  obtains (unread) e where "r = Inl e" "st' = st" "\<And>s. get_rental_session (be_sql env) (ser_session_id req) (bs_db st) \<noteq> Inr s"
  | (inactive) s where "get_rental_session (be_sql env) (ser_session_id req) (bs_db st) = Inr s" "rs_status s \<noteq> SessionStatusActive"
      "r = Inl (new_billing_error ErrCodeSessionNotActive ''Session is not active'' (Sentinel ErrSessionNotActive))" "st' = st"
  | (not_updated) s e where "get_rental_session (be_sql env) (ser_session_id req) (bs_db st) = Inr s" "rs_status s = SessionStatusActive"
      "r = Inl e" "st' = st"
  | (charged) s db s'' sent where "get_rental_session (be_sql env) (ser_session_id req) (bs_db st) = Inr s"
      "rs_status s = SessionStatusActive"
      "update_rental_session (be_sql env) (be_clock env 1) (closed_session env (be_clock env 0) s) (bs_db st) = (Inr (), db)"
      "submit_receipt env sv (be_clock env 0) (closed_session env (be_clock env 0) s) = (s'', sent)"
      "charge_session env s'' (sent_also st db sent) = (r, st')"
proof (cases "get_rental_session (be_sql env) (ser_session_id req) (bs_db st)")
  case (Inl e)
  then have "r = Inl e" "st' = st" using assms by (simp_all add: end_rental_session_def)
  then show ?thesis using unread Inl by simp
next
  case (Inr s)
  show ?thesis
  proof (cases "rs_status s = SessionStatusActive")
    case False
    then show ?thesis using assms Inr by (intro inactive [OF Inr]) (simp_all add: end_rental_session_def)
  next
    case True
    obtain u db where u: "update_rental_session (be_sql env) (be_clock env 1) (closed_session env (be_clock env 0) s) (bs_db st) = (u, db)"
      by fastforce
    show ?thesis
    proof (cases u)
      case Inl_u: (Inl e)
      then have "db = bs_db st" using update_session_Inl u by blast
      then have "r = Inl (Wrapped ''failed to update session'' e)" "st' = st"
        using assms Inr True u Inl_u by (simp_all add: end_rental_session_def)
      then show ?thesis by (rule not_updated [OF Inr True])
    next
      case upd: (Inr x)
      obtain s'' sent where sub: "submit_receipt env sv (be_clock env 0) (closed_session env (be_clock env 0) s) = (s'', sent)"
        by fastforce
      have ok: "update_rental_session (be_sql env) (be_clock env 1) (closed_session env (be_clock env 0) s) (bs_db st) = (Inr (), db)"
        using u upd by simp
      show ?thesis
        using assms Inr True ok sub by (intro charged [OF Inr True ok sub]) (simp add: end_rental_session_def)
    qed
  qed
qed

lemma end_completed:
  assumes "get_rental_session (be_sql env) i (bs_db st) = Inr s"
    "update_rental_session (be_sql env) t (closed_session env now s) (bs_db st) = (Inr (), db)"
  shows "\<exists>s'. select_by rs_id i (db_sessions db) = Some s' \<and> rs_status s' = SessionStatusCompleted"
proof -
  have sel: "select_by rs_id i (db_sessions (bs_db st)) = Some s" using get_rental_session_Inr [OF assms(1)] .
  then have "rs_id s = i" by (auto dest: select_by_SomeD)
  with sel show ?thesis using update_session_Inr [OF assms(2)] by (auto simp: select_update_same)
qed

text \<open>The calls of the service, each run to its end before the next one starts: whichever call it is, with whatever
  environment (clock readings, failing statements, chain, settlement) and configuration.\<close>

inductive service_step :: "billing_state \<Rightarrow> billing_state \<Rightarrow> bool" where
  wallet_made: "create_wallet env sv wreq st = Some (wr, st') \<Longrightarrow> service_step st st'"
| balance_read: "get_wallet_balance env sv i st = (br, st') \<Longrightarrow> service_step st st'"
| user_balance_read: "get_user_balance env sv user st = (br, st') \<Longrightarrow> service_step st st'"
| session_started: "start_rental_session env sv sreq st = (sr, st') \<Longrightarrow> service_step st st'"
| usage_reported: "process_usage_update env ureq st = (ur, st') \<Longrightarrow> service_step st st'"
| session_ended: "end_rental_session env sv ereq st = (er, st') \<Longrightarrow> service_step st st'"
| session_disputed: "dispute_session env sv i reason st = (dr, st') \<Longrightarrow> service_step st st'"
| funds_deposited: "process_deposit env sv dreq st = Some (tr, st') \<Longrightarrow> service_step st st'"
| funds_withdrawn: "process_withdrawal env sv wdreq st = (tr, st') \<Longrightarrow> service_step st st'"

definition session_completed :: "uuid \<Rightarrow> rental_session list \<Rightarrow> bool" where
  "session_completed i ss \<longleftrightarrow> (\<exists>s. select_by rs_id i ss = Some s \<and> rs_status s = SessionStatusCompleted)"

lemma create_wallet_row_sessions [simp]: "db_sessions (snd (create_wallet_row env i clk req db)) = db_sessions db"
  by (auto simp: create_wallet_row_def Let_def split: option.splits)

lemma update_wallet_sessions [simp]: "db_sessions (snd (update_wallet_balance env now i b l db)) = db_sessions db"
  by (auto simp: update_wallet_balance_def split: option.splits)

lemma create_usage_sessions [simp]: "db_sessions (snd (create_usage_record env u db)) = db_sessions db"
  by (auto simp: create_usage_record_def split: option.splits)

lemmas sessions_kept =
  create_wallet_row_sessions update_wallet_sessions create_usage_sessions create_transaction_wallets(2) update_transaction_wallets(2)

lemma create_wallet_sessions:
  "create_wallet env sv req st = Some (r, st') \<Longrightarrow> db_sessions (bs_db st') = db_sessions (bs_db st)"
  by (auto simp: create_wallet_def case_prod_beta split: if_splits sum.splits option.splits)

lemma get_wallet_balance_sessions [simp]:
  "db_sessions (bs_db (snd (get_wallet_balance env sv i st))) = db_sessions (bs_db st)"
  by (auto simp: get_wallet_balance_def Let_def case_prod_beta split: sum.split)

lemma get_user_balance_sessions [simp]:
  "db_sessions (bs_db (snd (get_user_balance env sv user st))) = db_sessions (bs_db st)"
  by (auto simp: get_user_balance_def split: sum.split)

lemma dispute_session_sessions [simp]:
  "db_sessions (bs_db (snd (dispute_session env sv i reason st))) = db_sessions (bs_db st)"
  by (auto simp: dispute_session_def Let_def case_prod_beta split: sum.split)

lemma process_deposit_sessions:
  "process_deposit env sv req st = Some (r, st') \<Longrightarrow> db_sessions (bs_db st') = db_sessions (bs_db st)"
  by (auto simp: process_deposit_def Let_def case_prod_beta split: sum.splits option.splits)

lemma process_withdrawal_sessions [simp]:
  "db_sessions (bs_db (snd (process_withdrawal env sv req st))) = db_sessions (bs_db st)"
  by (auto simp: process_withdrawal_def case_prod_beta split: sum.split)

text \<open>A new session never takes the place of an old one, and an update of another session or with the status
  read before leaves a completed one completed.\<close>

lemma create_session_keeps_completed:
  "session_completed i (db_sessions db) \<Longrightarrow> session_completed i (db_sessions (snd (create_rental_session env s db)))"
  by (auto simp: session_completed_def create_rental_session_def select_by_append split: option.split)

lemma update_session_keeps_completed:
  assumes "session_completed i (db_sessions db)" "rs_id s = i \<Longrightarrow> rs_status s = SessionStatusCompleted"
  shows "session_completed i (db_sessions (snd (update_rental_session env now s db)))"
  using assms
  by (cases "rs_id s = i")
     (auto simp: session_completed_def update_rental_session_def select_update_same select_update_other split: option.split)

lemma start_keeps_completed:
  assumes "session_completed i (db_sessions (bs_db st))"
  shows "session_completed i (db_sessions (bs_db (snd (start_rental_session env sv req st))))"
proof -
  have "session_completed i (db_sessions (bs_db (snd (start_locked env sv req w p st1))))" if "session_completed i (db_sessions (bs_db st1))" for w p st1
    using create_session_keeps_completed [OF that]
    by (simp add: start_locked_def case_prod_beta that split: sum.split)
  then show ?thesis
    using assms by (auto simp: start_rental_session_def case_prod_beta split: sum.split)
qed

lemma read_completed:
  "session_completed (ser_session_id req) (db_sessions (bs_db st)) \<Longrightarrow> get_rental_session env (ser_session_id req) (bs_db st) = Inr s \<Longrightarrow>
   rs_status s = SessionStatusCompleted"
  by (auto simp: session_completed_def dest: get_rental_session_Inr)

lemma usage_keeps_completed:
  assumes fin: "session_completed i (db_sessions (bs_db st))"
  shows "session_completed i (db_sessions (bs_db (snd (process_usage_update env req st))))"
proof (cases "get_rental_session (be_sql env) (uur_session_id req) (bs_db st)")
  case (Inr s)
  then have "rs_id s = uur_session_id req" using select_by_SomeD [OF get_rental_session_Inr [OF Inr]] by simp
  then have "rs_id s = i \<Longrightarrow> rs_status s = SessionStatusCompleted"
    using fin get_rental_session_Inr [OF Inr] by (auto simp: session_completed_def)
  then show ?thesis
    using Inr fin
    by (auto simp: process_usage_update_def Let_def case_prod_beta
        intro!: update_session_keeps_completed split: sum.split)
qed (simp add: process_usage_update_def fin)

lemma end_keeps_completed:
  assumes fin: "session_completed i (db_sessions (bs_db st))" and res: "end_rental_session env sv req st = (r, st')"
  shows "session_completed i (db_sessions (bs_db st'))"
  using res
proof (cases rule: end_rental_session_cases)
  case (charged s db s'' sent)
  have "session_completed i (db_sessions db)"
    using update_session_keeps_completed [OF fin, of "closed_session env (be_clock env 0) s" "be_sql env" "be_clock env 1"]
    unfolding charged(3) by simp
  moreover have "db_sessions (bs_db st') = db_sessions db"
    using charge_session_sessions [of env s'' "sent_also st db sent"] charged(5) by simp
  ultimately show ?thesis by simp
qed (use fin in auto)

lemma service_step_keeps_completed:
  assumes "service_step st st'" "session_completed i (db_sessions (bs_db st))"
  shows "session_completed i (db_sessions (bs_db st'))"
  using assms(1)
proof cases
  case (session_started env sv req r)
  then show ?thesis using start_keeps_completed [OF assms(2), of env sv req] by simp
next
  case (usage_reported env req r)
  then show ?thesis using usage_keeps_completed [OF assms(2), of env req] by simp
next
  case (session_ended env sv req r)
  then show ?thesis by (rule end_keeps_completed [OF assms(2)])
next
  case (balance_read env sv j r)
  then show ?thesis using get_wallet_balance_sessions [of env sv j st] assms(2) by simp
next
  case (user_balance_read env sv user r)
  then show ?thesis using get_user_balance_sessions [of env sv user st] assms(2) by simp
next
  case (session_disputed env sv j reason r)
  then show ?thesis using dispute_session_sessions [of env sv j reason st] assms(2) by simp
next
  case (funds_withdrawn env sv req r)
  then show ?thesis using process_withdrawal_sessions [of env sv req st] assms(2) by simp
qed (use assms(2) create_wallet_sessions process_deposit_sessions in \<open>simp_all\<close>)

lemma service_steps_keep_completed:
  "service_step\<^sup>*\<^sup>* st st' \<Longrightarrow> session_completed i (db_sessions (bs_db st)) \<Longrightarrow> session_completed i (db_sessions (bs_db st'))"
  by (induction rule: rtranclp_induct) (auto intro: service_step_keeps_completed)

lemma end_completes:
  assumes "end_rental_session env sv req st = (r, st')" "(\<exists>resp. r = Inr resp) \<or> st' \<noteq> st"
  shows "session_completed (ser_session_id req) (db_sessions (bs_db st'))"
  using assms(1)
proof (cases rule: end_rental_session_cases)
  case (charged s db s'' sent)
  have "db_sessions (bs_db st') = db_sessions db"
    using charge_session_sessions [of env s'' "sent_also st db sent"] charged(5) by simp
  then show ?thesis using end_completed [OF charged(1,3)] by (simp add: session_completed_def)
qed (use assms(2) in auto)

text \<open>C1. A session is charged at most once as long as the service handles its calls one after another: after an end
  that charged the session, or that changed anything without charging it, and after any sequence of further calls of
  the service (wallets, balances, starts, usage reports, ends, disputes, deposits, withdrawals, with anything failing
  in them), every further end of the same session is refused and changes nothing, neither database nor chain. A usage
  report that overlaps an end is outside this claim: it can make the session active again (stale_usage_reopens).\<close>

theorem session_charged_once:
  assumes first: "end_rental_session env sv req st = (r, st1)" "(\<exists>resp. r = Inr resp) \<or> st1 \<noteq> st"
    and between: "service_step\<^sup>*\<^sup>* st1 st2"
    and again: "end_rental_session env' sv' req' st2 = (r', st3)" "ser_session_id req' = ser_session_id req"
  shows "st3 = st2 \<and> (\<exists>e. r' = Inl e)"
proof -
  have "session_completed (ser_session_id req') (db_sessions (bs_db st2))"
    using service_steps_keep_completed [OF between end_completes [OF first]] again(2) by simp
  then have "rs_status t \<noteq> SessionStatusActive" if "get_rental_session (be_sql env') (ser_session_id req') (bs_db st2) = Inr t" for t
    using read_completed that by fastforce
  with again(1) show ?thesis by (cases rule: end_rental_session_cases) auto
qed

lemma closed_session_cost:
  "rs_total_cost (closed_session env now s) =
     metered_rate (be_div env) s * be_hours env (time_sub now (rs_started_at s))"
  by (simp add: closed_session_def Let_def current_cost_rate duration_in_hours_def session_duration_def
      metered_rate_def metered_power_def split: option.split)

lemma closed_session_split:
  "rs_platform_fee (closed_session env now s) + rs_provider_earnings (closed_session env now s) = rs_total_cost (closed_session env now s)"
  by (simp add: closed_session_def Let_def)

lemma charge_session_Inr:
  assumes "charge_session env s st = (Inr resp, st')"
  shows "\<exists>w b. get_wallet_by_user_id (be_sql env) (rs_user_id s) WalletTypeUser (bs_db st) = Inr w
    \<and> rs_total_cost s \<le> w_balance w \<and> money_col (be_sql env) (w_balance w - rs_total_cost s) = Some b
    \<and> (\<exists>l. money_col (be_sql env) 0 = Some l \<and> only_wallet_changed (bs_db st) (bs_db st') (w_id w) b l)
    \<and> sr_session resp = s \<and> sr_current_cost resp = rs_total_cost s \<and> bs_chain st' = bs_chain st"
proof -
  obtain w where w: "get_wallet_by_user_id (be_sql env) (rs_user_id s) WalletTypeUser (bs_db st) = Inr w"
    using assms by (auto simp: charge_session_def split: sum.splits)
  let ?u = "unlock_funds (be_clock env 2) (w_locked w) w"
  obtain w' where w': "deduct_funds (be_clock env 3) (rs_total_cost s) ?u = Inr w'"
    using assms w by (auto simp: charge_session_def split: sum.splits)
  obtain db where db: "update_wallet_balance (be_sql env) (be_clock env 4) (w_id w') (w_balance w') (w_locked w') (bs_db st) = (Inr (), db)"
    using assms w w' by (auto simp: charge_session_def split: sum.splits prod.splits)
  have m: "rs_total_cost s \<le> w_balance w" "w_balance w' = w_balance w - rs_total_cost s" "w_locked w' = 0" "w_id w' = w_id w"
    using w' by (auto simp: deduct_funds_Inr)
  have st': "bs_db st' = snd (create_transaction (be_sql env) (be_uuid env 0) (\<lambda>i. be_clock env (5 + i)) (end_transaction w' s) db)"
    "sr_session resp = s" "sr_current_cost resp = rs_total_cost s" "bs_chain st' = bs_chain st"
    using assms w w' db by (auto simp: charge_session_def)
  have "only_wallet_changed (bs_db st) db i b l \<Longrightarrow> only_wallet_changed (bs_db st) (bs_db st') i b l" for i b l
    unfolding st'(1) by (rule only_wallet_changed_more) simp_all
  moreover obtain b l where "money_col (be_sql env) (w_balance w') = Some b" "money_col (be_sql env) (w_locked w') = Some l"
    "only_wallet_changed (bs_db st) db (w_id w') b l"
    using update_wallet_only [OF db] by blast
  ultimately show ?thesis
    using w m st' by (intro exI [of _ w] exI [of _ b] conjI exI [of _ l]) simp_all
qed

text \<open>C2. Ending a session charges exactly the metered rate times the time the session ran, from the user's wallet and
  from no other, never more than its balance; fee and provider earnings divide the charge without
  remainder. The locked amount of the wallet becomes zero, whatever other sessions it covered.\<close>

theorem end_session_charges_cost:
  assumes env: "sql_env_ok (be_sql env)" and res: "end_rental_session env sv req st = (Inr resp, st')"
  shows "\<exists>s w b. get_rental_session (be_sql env) (ser_session_id req) (bs_db st) = Inr s
    \<and> get_wallet_by_user_id (be_sql env) (rs_user_id s) WalletTypeUser (bs_db st) = Inr w
    \<and> sr_current_cost resp = metered_rate (be_div env) s * be_hours env (time_sub (be_clock env 0) (rs_started_at s))
    \<and> sr_current_cost resp \<le> w_balance w
    \<and> money_col (be_sql env) (w_balance w - sr_current_cost resp) = Some b
    \<and> only_wallet_changed (bs_db st) (bs_db st') (w_id w) b 0
    \<and> rs_platform_fee (sr_session resp) + rs_provider_earnings (sr_session resp) = sr_current_cost resp"
  using res
proof (cases rule: end_rental_session_cases)
  case (charged s db s'' sent)
  have s'': "rs_user_id s'' = rs_user_id s" "rs_total_cost s'' = rs_total_cost (closed_session env (be_clock env 0) s)"
    "rs_platform_fee s'' + rs_provider_earnings s'' = rs_total_cost s''"
    using submit_receipt_keeps [of env sv "be_clock env 0" "closed_session env (be_clock env 0) s"]
      closed_session_split [of env "be_clock env 0" s] by (simp_all add: charged(4))
  have ws: "db_wallets db = db_wallets (bs_db st)" using update_session_Inr [OF charged(3)] by blast
  then have get: "get_wallet_by_user_id (be_sql env) u t db = get_wallet_by_user_id (be_sql env) u t (bs_db st)" for u t
    by (rule get_user_same)
  have only: "only_wallet_changed db db' i b l \<Longrightarrow> only_wallet_changed (bs_db st) db' i b l" for db' i b l
    by (simp add: only_wallet_changed_def ws)
  obtain w b where w: "get_wallet_by_user_id (be_sql env) (rs_user_id s) WalletTypeUser db = Inr w"
      "rs_total_cost s'' \<le> w_balance w" "money_col (be_sql env) (w_balance w - rs_total_cost s'') = Some b"
      "only_wallet_changed db (bs_db st') (w_id w) b 0" "sr_session resp = s''" "sr_current_cost resp = rs_total_cost s''"
    using charge_session_Inr [OF charged(5)] money_col_0 [OF env] by (auto simp: s''(1))
  show ?thesis
    using w charged(1) only [OF w(4)] s''(3) unfolding get
    by (intro exI [of _ s] exI [of _ w] exI [of _ b]) (simp add: s''(2) closed_session_cost)
qed auto

text \<open>When the balance does not cover the cost, the session is completed and closed for good, but nothing is
  charged: no wallet changes, and the caller gets the sentinel error, which the handler answers with
  500.\<close>

theorem end_session_unpaid:
  assumes s: "get_rental_session (be_sql env) (ser_session_id req) (bs_db st) = Inr s" "rs_status s = SessionStatusActive"
    and upd: "update_rental_session (be_sql env) (be_clock env 1) (closed_session env (be_clock env 0) s) (bs_db st) = (Inr (), db)"
    and w: "get_wallet_by_user_id (be_sql env) (rs_user_id s) WalletTypeUser (bs_db st) = Inr w"
    and poor: "w_balance w < metered_rate (be_div env) s * be_hours env (time_sub (be_clock env 0) (rs_started_at s))"
  shows "fst (end_rental_session env sv req st) = Inl (Sentinel ErrInsufficientFunds)
    \<and> handler_status (Sentinel ErrInsufficientFunds) = 500
    \<and> db_wallets (bs_db (snd (end_rental_session env sv req st))) = db_wallets (bs_db st)
    \<and> (\<exists>s'. select_by rs_id (ser_session_id req) (db_sessions (bs_db (snd (end_rental_session env sv req st)))) = Some s'
         \<and> rs_status s' = SessionStatusCompleted)"
proof -
  let ?c = "closed_session env (be_clock env 0) s"
  obtain s'' sent where sub: "submit_receipt env sv (be_clock env 0) ?c = (s'', sent)" by fastforce
  have s'': "rs_user_id s'' = rs_user_id s" "rs_total_cost s'' = rs_total_cost ?c"
    using submit_receipt_keeps [of env sv "be_clock env 0" ?c] by (simp_all add: sub)
  have ws: "db_wallets db = db_wallets (bs_db st)" using update_session_Inr [OF upd] by blast
  then have get: "get_wallet_by_user_id (be_sql env) (rs_user_id s) WalletTypeUser db = Inr w"
    using w get_user_same by metis
  have "charge_session env s'' (sent_also st db sent) = (Inl (Sentinel ErrInsufficientFunds), sent_also st db sent)"
    using poor by (simp add: charge_session_def s'' get deduct_funds_def closed_session_cost)
  then have "end_rental_session env sv req st = (Inl (Sentinel ErrInsufficientFunds), sent_also st db sent)"
    using s upd sub by (simp add: end_rental_session_def)
  with end_completed [OF s(1) upd] ws show ?thesis by simp
qed

text \<open>A usage report that read the session before its end and writes it back after it makes the session active
  again, without an end: the session can then be ended, and charged, a second time.\<close>

theorem stale_usage_reopens:
  assumes read: "get_rental_session sq i (bs_db st) = Inr s" "rs_status s = SessionStatusActive" "rs_ended_at s = None"
    and ended: "end_rental_session env sv req st = (Inr resp, st1)"
    and stale: "update_rental_session sq' now (s\<lparr>rs_actual_power_w := p, rs_total_cost := c\<rparr>) (bs_db st1) = (Inr (), db)"
    and up: "\<not> sql_fail sq'' OpSelectSession"
  shows "\<exists>s'. get_rental_session sq'' i db = Inr s' \<and> rs_status s' = SessionStatusActive \<and> rs_ended_at s' = None"
proof -
  have id: "rs_id s = i" using get_rental_session_Inr [OF read(1)] by (auto dest: select_by_SomeD)
  show ?thesis
    using update_session_Inr [OF stale] read up id
    by (auto simp: get_rental_session_def select_update_same)
qed

section \<open>The start of a session\<close>

lemma start_locked_wallets: "db_wallets (bs_db (snd (start_locked env sv req w p st))) = db_wallets (bs_db st)"
proof -
  obtain r1 sent where e: "open_escrow env sv req p (new_session env req p) = (r1, sent)" by fastforce
  show ?thesis
  proof (cases r1)
    case (Inr s)
    obtain r2 db where c: "create_rental_session (be_sql env) s (bs_db st) = (r2, db)" by fastforce
    obtain r3 db' where t: "create_transaction (be_sql env) (be_uuid env 1) (\<lambda>i. be_clock env (8 + i)) (start_transaction req w p s) db = (r3, db')"
      by fastforce
    have "db_wallets db = db_wallets (bs_db st)" "db_wallets db' = db_wallets db"
      using create_session_db(1) [of "be_sql env" s "bs_db st"]
        create_transaction_wallets(1) [of "be_sql env" "be_uuid env 1" "\<lambda>i. be_clock env (8 + i)" "start_transaction req w p s" db]
      unfolding c t by simp_all
    then show ?thesis using e c t Inr by (cases r2; cases r3) (simp_all add: start_locked_def)
  qed (simp add: start_locked_def e)
qed

lemma open_escrow_session:
  "open_escrow env sv req p s = (Inr s', sent) \<Longrightarrow> \<exists>m. s' = s\<lparr>rs_metadata := m\<rparr>"
  by (auto simp: open_escrow_def split: if_splits prod.splits option.splits intro: exI [of _ "rs_metadata s"])

lemma create_rental_session_Inr:
  "create_rental_session env s db = (Inr u, db') \<Longrightarrow>
   \<exists>row. stored_session env s = Some row \<and> accepts_session (db_sessions db) row \<and> db' = db\<lparr>db_sessions := db_sessions db @ [row]\<rparr>"
  by (auto simp: create_rental_session_def split: if_splits option.splits)

lemma create_transaction_row:
  "create_transaction env i clk req db = (Inr t, db') \<Longrightarrow>
   t_id t = i \<and> t_amount t = tcr_amount req \<and> t_type t = tcr_type req \<and> t_from_wallet t = tcr_from_wallet req
     \<and> t_session_id t = tcr_session_id req \<and> t_status t = TransactionStatusPending
     \<and> (\<exists>row. stored_transaction env t = Some row \<and> accepts_transaction (db_wallets db) (db_transactions db) row
          \<and> db' = db\<lparr>db_transactions := db_transactions db @ [row]\<rparr>)"
  by (auto simp: create_transaction_def Let_def split: if_splits option.splits)

lemma stored_transaction_keeps:
  assumes "stored_transaction env t = Some row"
  shows "t_id row = t_id t" "t_type row = t_type t" "t_status row = t_status t" "t_session_id row = t_session_id t"
    "t_from_wallet row = t_from_wallet t" "money_col env (t_amount t) = Some (t_amount row)"
  using assms by (auto simp: stored_transaction_def split: option.splits)

lemma create_transaction_Inr:
  assumes "create_transaction env i clk req db = (Inr t, db')"
  shows "\<exists>row. money_col env (tcr_amount req) = Some (t_amount row) \<and> 0 < t_amount row \<and> t_id row = i \<and> t_id t = i
     \<and> t_type row = tcr_type req \<and> t_session_id row = tcr_session_id req
     \<and> t_from_wallet row = tcr_from_wallet req \<and> t_status row = TransactionStatusPending
     \<and> accepts_transaction (db_wallets db) (db_transactions db) row
     \<and> db' = db\<lparr>db_transactions := db_transactions db @ [row]\<rparr>"
proof -
  obtain row where row: "stored_transaction env t = Some row" "accepts_transaction (db_wallets db) (db_transactions db) row"
    "db' = db\<lparr>db_transactions := db_transactions db @ [row]\<rparr>"
    using create_transaction_row [OF assms] by blast
  then show ?thesis
    using create_transaction_row [OF assms] stored_transaction_keeps [OF row(1)]
    by (intro exI [of _ row]) (auto simp: accepts_transaction_def transaction_row_ok_def)
qed

lemma stored_session_keeps:
  assumes "stored_session env s = Some row"
  shows "rs_id row = rs_id s" "rs_status row = rs_status s" "rs_user_id row = rs_user_id s" "rs_metadata row = rs_metadata s"
    "rs_provider_id row = rs_provider_id s" "rs_gpu_model row = rs_gpu_model s"
  using assms by (auto simp: stored_session_def split: option.splits)

lemma start_locked_Inr:
  assumes "start_locked env sv req w p st = (Inr resp, st')"
  shows "\<exists>row m a. sr_session resp = (new_session env req p)\<lparr>rs_metadata := m\<rparr>
    \<and> stored_session (be_sql env) (sr_session resp) = Some row
    \<and> select_by rs_id (be_uuid env 0) (db_sessions (bs_db st')) = Some row
    \<and> sr_estimated_hourly_cost resp = total_hourly_rate p \<and> sr_remaining_balance resp = available_balance w
    \<and> money_col (be_sql env) (total_hourly_rate p) = Some a \<and> 0 < a
    \<and> (\<exists>t \<in> set (db_transactions (bs_db st')). t_type t = TransactionTypeSessionStart \<and> t_status t = TransactionStatusPending
         \<and> t_amount t = a \<and> t_session_id t = Some (be_uuid env 0) \<and> t_from_wallet t = Some (w_id w))"
proof -
  obtain s sent where e: "open_escrow env sv req p (new_session env req p) = (Inr s, sent)"
    using assms by (auto simp: start_locked_def split: sum.splits prod.splits)
  obtain db where c: "create_rental_session (be_sql env) s (bs_db st) = (Inr (), db)"
    using assms e by (auto simp: start_locked_def split: sum.splits prod.splits)
  obtain t db' where t: "create_transaction (be_sql env) (be_uuid env 1) (\<lambda>i. be_clock env (8 + i)) (start_transaction req w p s) db = (Inr t, db')"
    using assms e c by (auto simp: start_locked_def split: sum.splits prod.splits)
  have r: "bs_db st' = db'" "sr_session resp = s" "sr_estimated_hourly_cost resp = total_hourly_rate p"
    "sr_remaining_balance resp = available_balance w"
    using assms e c t by (auto simp: start_locked_def split: if_splits)
  obtain m where m: "s = (new_session env req p)\<lparr>rs_metadata := m\<rparr>" using open_escrow_session [OF e] by blast
  have id: "rs_id s = be_uuid env 0" by (simp add: m new_session_def)
  obtain row where row: "stored_session (be_sql env) s = Some row" "accepts_session (db_sessions (bs_db st)) row"
    "db = (bs_db st)\<lparr>db_sessions := db_sessions (bs_db st) @ [row]\<rparr>"
    using create_rental_session_Inr [OF c] by blast
  obtain a trow where a: "money_col (be_sql env) (total_hourly_rate p) = Some a" "0 < a" "t_amount trow = a"
    "t_type trow = TransactionTypeSessionStart" "t_session_id trow = Some (rs_id s)"
    "t_status trow = TransactionStatusPending" "t_from_wallet trow = Some (w_id w)"
    "db' = db\<lparr>db_transactions := db_transactions db @ [trow]\<rparr>"
    using create_transaction_Inr [OF t] by (auto simp: start_transaction_def)
  have "rs_id row = be_uuid env 0" using stored_session_keeps(1) [OF row(1)] id by simp
  then have "select_by rs_id (be_uuid env 0) (db_sessions db') = Some row"
    using session_table.insert_lookup [OF row(2)] by (simp add: a(8) row(3))
  then show ?thesis using r m row(1) a id by (intro exI [of _ row] exI [of _ m] exI [of _ a]) auto
qed

lemma start_rental_session_locked:
  assumes "start_rental_session env sv req st = (r, st')"
  shows "st' = st \<and> (\<exists>e. r = Inl e) \<or>
    (\<exists>w p b l db. get_wallet_by_user_id (be_sql env) (ssr_user_id req) WalletTypeUser (bs_db st) = Inr w
      \<and> minimum_balance (sv_config sv) \<le> available_balance w
      \<and> calculate_pricing (be_div env) (sv_engine sv) (sv_rate_order sv) (be_clock env 0) (start_pricing_request req) = Inr p
      \<and> total_hourly_rate p \<le> available_balance w
      \<and> money_col (be_sql env) (w_balance w) = Some b \<and> money_col (be_sql env) (w_locked w + total_hourly_rate p) = Some l
      \<and> only_wallet_changed (bs_db st) db (w_id w) b l
      \<and> start_locked env sv req (w\<lparr>w_locked := w_locked w + total_hourly_rate p, w_updated_at := be_clock env 1\<rparr>) p
          (st\<lparr>bs_db := db\<rparr>) = (r, st'))"
proof (cases "get_wallet_by_user_id (be_sql env) (ssr_user_id req) WalletTypeUser (bs_db st)")
  case (Inl e)
  then show ?thesis using assms by (auto simp: start_rental_session_def)
next
  case w: (Inr w)
  show ?thesis
  proof (cases "minimum_balance (sv_config sv) \<le> available_balance w")
    case False
    then show ?thesis using assms w by (auto simp: start_rental_session_def)
  next
    case min: True
    show ?thesis
    proof (cases "calculate_pricing (be_div env) (sv_engine sv) (sv_rate_order sv) (be_clock env 0) (start_pricing_request req)")
      case (Inl e)
      then show ?thesis using assms w min by (auto simp: start_rental_session_def)
    next
      case p: (Inr p)
      show ?thesis
      proof (cases "total_hourly_rate p \<le> available_balance w")
        case False
        then show ?thesis using assms w min p by (auto simp: start_rental_session_def)
      next
        case afford: True
        let ?w = "w\<lparr>w_locked := w_locked w + total_hourly_rate p, w_updated_at := be_clock env 1\<rparr>"
        have lock: "lock_funds (be_clock env 1) (total_hourly_rate p) w = Inr ?w" using afford by (simp add: lock_funds_Inr)
        obtain u db where u: "update_wallet_balance (be_sql env) (be_clock env 2) (w_id w) (w_balance w)
            (w_locked w + total_hourly_rate p) (bs_db st) = (u, db)" by fastforce
        show ?thesis
        proof (cases u)
          case (Inl e)
          then have "db = bs_db st" using update_wallet_balance_Inl u by blast
          then show ?thesis using assms w min p afford lock u Inl by (auto simp: start_rental_session_def)
        next
          case (Inr x)
          then have "start_locked env sv req ?w p (st\<lparr>bs_db := db\<rparr>) = (r, st')"
            using assms w min p afford lock u by (simp add: start_rental_session_def)
          moreover have "update_wallet_balance (be_sql env) (be_clock env 2) (w_id w) (w_balance w)
              (w_locked w + total_hourly_rate p) (bs_db st) = (Inr (), db)" using u Inr by simp
          ultimately show ?thesis using update_wallet_only w min p afford by blast
        qed
      qed
    qed
  qed
qed

text \<open>C3. A started session is backed by money: the wallet held at least the minimum and the hourly rate, exactly the
  quoted rate is added to its locked funds, its balance and every other wallet stay, and the session
  is stored as active on the quoted terms with a pending session-start transaction from that wallet over the rate as the database rounds it,
  a positive amount.\<close>

theorem start_locks_quoted_rate:
  assumes res: "start_rental_session env sv req st = (Inr resp, st')"
    and stored: "stored_ok (be_sql env) (bs_db st)"
  shows "\<exists>w p l row a. get_wallet_by_user_id (be_sql env) (ssr_user_id req) WalletTypeUser (bs_db st) = Inr w
    \<and> calculate_pricing (be_div env) (sv_engine sv) (sv_rate_order sv) (be_clock env 0) (start_pricing_request req) = Inr p
    \<and> max (minimum_balance (sv_config sv)) (total_hourly_rate p) \<le> available_balance w
    \<and> money_col (be_sql env) (w_locked w + total_hourly_rate p) = Some l
    \<and> only_wallet_changed (bs_db st) (bs_db st') (w_id w) (w_balance w) l
    \<and> sr_remaining_balance resp = available_balance w - total_hourly_rate p
    \<and> select_by rs_id (be_uuid env 0) (db_sessions (bs_db st')) = Some row
    \<and> rs_status row = SessionStatusActive \<and> rs_user_id row = ssr_user_id req \<and> rs_gpu_model row = ssr_gpu_model req
    \<and> money_col (be_sql env) (total_hourly_rate p) = Some a \<and> 0 < a
    \<and> (\<exists>t \<in> set (db_transactions (bs_db st')). t_type t = TransactionTypeSessionStart \<and> t_status t = TransactionStatusPending
         \<and> t_amount t = a \<and> t_session_id t = Some (be_uuid env 0) \<and> t_from_wallet t = Some (w_id w))"
proof -
  obtain w p b l db where w: "get_wallet_by_user_id (be_sql env) (ssr_user_id req) WalletTypeUser (bs_db st) = Inr w"
      "minimum_balance (sv_config sv) \<le> available_balance w"
    and p: "calculate_pricing (be_div env) (sv_engine sv) (sv_rate_order sv) (be_clock env 0) (start_pricing_request req) = Inr p"
      "total_hourly_rate p \<le> available_balance w"
    and m: "money_col (be_sql env) (w_balance w) = Some b" "money_col (be_sql env) (w_locked w + total_hourly_rate p) = Some l"
      "only_wallet_changed (bs_db st) db (w_id w) b l"
    and st: "start_locked env sv req (w\<lparr>w_locked := w_locked w + total_hourly_rate p, w_updated_at := be_clock env 1\<rparr>) p
          (st\<lparr>bs_db := db\<rparr>) = (Inr resp, st')"
    using start_rental_session_locked [OF res] by auto
  have b: "b = w_balance w"
    using stored m(1) get_wallet_by_user_id_Inr [OF w(1)] by (auto simp: stored_ok_def)
  have "db_wallets (bs_db st') = db_wallets db"
    using start_locked_wallets [of env sv req "w\<lparr>w_locked := w_locked w + total_hourly_rate p, w_updated_at := be_clock env 1\<rparr>" p "st\<lparr>bs_db := db\<rparr>"]
    unfolding st by simp
  then have only: "only_wallet_changed (bs_db st) (bs_db st') (w_id w) (w_balance w) l"
    using m(3) b by (simp add: only_wallet_changed_def)
  have wid: "w_id (w\<lparr>w_locked := x, w_updated_at := y\<rparr>) = w_id w" for x y by simp
  obtain row mt a where row: "sr_session resp = (new_session env req p)\<lparr>rs_metadata := mt\<rparr>"
      "stored_session (be_sql env) (sr_session resp) = Some row"
      "select_by rs_id (be_uuid env 0) (db_sessions (bs_db st')) = Some row"
      "sr_remaining_balance resp = available_balance (w\<lparr>w_locked := w_locked w + total_hourly_rate p, w_updated_at := be_clock env 1\<rparr>)"
      "money_col (be_sql env) (total_hourly_rate p) = Some a" "0 < a"
      "\<exists>t \<in> set (db_transactions (bs_db st')). t_type t = TransactionTypeSessionStart \<and> t_status t = TransactionStatusPending
         \<and> t_amount t = a \<and> t_session_id t = Some (be_uuid env 0) \<and> t_from_wallet t = Some (w_id w)"
    using start_locked_Inr [OF st] unfolding wid by blast
  show ?thesis
    using w p m(2) only row stored_session_keeps [OF row(2)]
    by (intro exI [of _ w] exI [of _ p] exI [of _ l] exI [of _ row] exI [of _ a])
       (simp add: new_session_def available_balance_def)
qed

text \<open>Starting a session never spends: whatever its outcome, no balance changes. But a start that fails after the
  lock was stored keeps the quoted rate locked: the funds are not released on any error path.\<close>

theorem failed_start_keeps_lock:
  assumes res: "start_rental_session env sv req st = (Inl e, st')"
    and stored: "stored_ok (be_sql env) (bs_db st)"
  shows "st' = st \<or> (\<exists>w p l. get_wallet_by_user_id (be_sql env) (ssr_user_id req) WalletTypeUser (bs_db st) = Inr w
    \<and> calculate_pricing (be_div env) (sv_engine sv) (sv_rate_order sv) (be_clock env 0) (start_pricing_request req) = Inr p
    \<and> money_col (be_sql env) (w_locked w + total_hourly_rate p) = Some l
    \<and> only_wallet_changed (bs_db st) (bs_db st') (w_id w) (w_balance w) l)"
proof -
  have "only_wallet_changed (bs_db st) (bs_db st') (w_id w) (w_balance w) l"
    if w: "get_wallet_by_user_id (be_sql env) (ssr_user_id req) WalletTypeUser (bs_db st) = Inr w"
      and m: "money_col (be_sql env) (w_balance w) = Some b" "only_wallet_changed (bs_db st) db (w_id w) b l"
      and s: "start_locked env sv req w' p (st\<lparr>bs_db := db\<rparr>) = (Inl e, st')" for w w' p b l db
  proof -
    have "b = w_balance w" using stored m(1) get_wallet_by_user_id_Inr [OF w] by (auto simp: stored_ok_def)
    moreover have "db_wallets (bs_db st') = db_wallets db"
      using start_locked_wallets [of env sv req w' p "st\<lparr>bs_db := db\<rparr>"] by (simp add: s)
    ultimately show ?thesis using m(2) by (simp add: only_wallet_changed_def)
  qed
  then show ?thesis using start_rental_session_locked [OF res] by blast
qed

section \<open>Withdrawals\<close>

lemma submit_tx_sent:
  "submit_tx se keys payer ixs = (r, sent) \<Longrightarrow>
   (case r of Inl _ \<Rightarrow> sent = [] | Inr _ \<Rightarrow> \<exists>tx. sent = [tx] \<and> tx_instructions tx = ixs)"
  by (auto simp: submit_tx_def Let_def split: sum.splits option.splits)

lemma transfer_tokens_sent:
  assumes "transfer_tokens se c from_a to_a amount = (r, sent)"
  shows "(\<exists>e. r = Inl e \<and> sent = []) \<or>
    (\<exists>sig tx src dst owner. r = Inr sig \<and> sent = [tx] \<and> parse_pubkey se from_a = Inr owner
       \<and> tx_instructions tx = [TokenTransfer (atomic_units (unat (token_decimals c)) amount) src dst owner])"
  using assms by (auto simp: transfer_tokens_def split: sum.splits dest!: submit_tx_sent)

lemma update_status_wallets:
  "only_wallet_changed db db1 i b l \<Longrightarrow>
   only_wallet_changed db (snd (update_transaction_status env clk j st sig db1)) i b l"
  by (rule only_wallet_changed_more) simp_all

lemma create_transaction_only:
  assumes "create_transaction env i clk req db = (r, db1)" "only_wallet_changed db1 db2 j b l"
  shows "only_wallet_changed db db2 j b l"
  using assms create_transaction_wallets(1) [of env i clk req db] by (simp add: only_wallet_changed_def)

text \<open>C4. A withdrawal sends at most one transfer, of the amount asked for in atomic units, and only for a positive
  amount within the available funds and the configured limit; a successful one is debited from that
  wallet and no other, and a failing one changes no wallet.\<close>

theorem withdrawal_guarded:
  assumes env: "sql_env_ok (be_sql env)" and res: "process_withdrawal env sv req st = (r, st')"
  shows "(bs_chain st' = bs_chain st \<or>
      (\<exists>w tx src dst owner. get_wallet (be_sql env) (wr_wallet_id req) (bs_db st) = Inr w
        \<and> 0 < wr_amount req \<and> wr_amount req \<le> available_balance w \<and> wr_amount req \<le> daily_withdrawal_limit (sv_config sv)
        \<and> bs_chain st' = bs_chain st @ [tx]
        \<and> tx_instructions tx = [TokenTransfer (atomic_units (unat (token_decimals (sv_solana sv))) (wr_amount req)) src dst owner]))
    \<and> (case r of
        Inl _ \<Rightarrow> db_wallets (bs_db st') = db_wallets (bs_db st)
      | Inr _ \<Rightarrow> \<exists>w b l. get_wallet (be_sql env) (wr_wallet_id req) (bs_db st) = Inr w \<and> bs_chain st' \<noteq> bs_chain st
          \<and> money_col (be_sql env) (w_balance w - wr_amount req) = Some b \<and> money_col (be_sql env) (w_locked w) = Some l
          \<and> only_wallet_changed (bs_db st) (bs_db st') (w_id w) b l)"
proof (cases "get_wallet (be_sql env) (wr_wallet_id req) (bs_db st)")
  case (Inl e)
  then show ?thesis using res by (auto simp: process_withdrawal_def)
next
  case w: (Inr w)
  show ?thesis
  proof (cases "can_spend w (wr_amount req) \<and> wr_amount req \<le> daily_withdrawal_limit (sv_config sv)")
    case False
    then show ?thesis using res w by (auto simp: process_withdrawal_def split: if_splits)
  next
    case ok: True
    obtain r1 db where c: "create_transaction (be_sql env) (be_uuid env 0) (be_clock env) (withdrawal_transaction req w) (bs_db st) = (r1, db)"
      by fastforce
    have ws: "db_wallets db = db_wallets (bs_db st)"
      using create_transaction_wallets(1) [of "be_sql env" "be_uuid env 0" "be_clock env" "withdrawal_transaction req w" "bs_db st"]
      by (simp add: c)
    show ?thesis
    proof (cases r1)
      case (Inl e)
      then show ?thesis using res w ok c ws by (auto simp: process_withdrawal_def)
    next
      case t: (Inr t)
      obtain a where a: "money_col (be_sql env) (wr_amount req) = Some a" "0 < a"
        using create_transaction_Inr [OF c [unfolded t]] by (auto simp: withdrawal_transaction_def)
      have pos: "0 < wr_amount req"
      proof (rule ccontr)
        assume "\<not> 0 < wr_amount req"
        then have "a \<le> 0"
          using env a numeric_column.col_nonpos [of 20 9 "money_col (be_sql env)" "wr_amount req" a] by (simp add: sql_env_ok_def)
        with a(2) show False by simp
      qed
      obtain r2 sent where x: "transfer_tokens (be_solana env) (sv_solana sv) (w_solana_address w) (wr_to_address req) (wr_amount req) = (r2, sent)"
        by fastforce
      from transfer_tokens_sent [OF x] show ?thesis
      proof (elim disjE exE conjE)
        fix e assume "r2 = Inl e" "sent = []"
        then show ?thesis using res w ok c t x ws by (auto simp: process_withdrawal_def)
      next
        fix sig tx src dst owner
        assume r2: "r2 = Inr sig" and sent: "sent = [tx]"
          and ix: "tx_instructions tx = [TokenTransfer (atomic_units (unat (token_decimals (sv_solana sv))) (wr_amount req)) src dst owner]"
        let ?d = "deduct_funds (be_clock env 2) (wr_amount req) w"
        have guard: "wr_amount req \<le> available_balance w" using ok by (simp add: can_spend_def)
        show ?thesis
        proof (cases ?d)
          case (Inl e)
          then have "r = Inl e" "bs_chain st' = bs_chain st @ [tx]" "bs_db st' = db"
            using res w ok c t x r2 sent by (auto simp: process_withdrawal_def)
          then show ?thesis using ix pos guard ok w ws by auto
        next
          case d: (Inr w')
          then have w': "w_id w' = w_id w" "w_balance w' = w_balance w - wr_amount req" "w_locked w' = w_locked w"
            by (auto simp: deduct_funds_Inr)
          obtain r3 db' where u: "update_wallet_balance (be_sql env) (be_clock env 3) (w_id w') (w_balance w') (w_locked w') db = (r3, db')"
            by fastforce
          show ?thesis
          proof (cases r3)
            case (Inl e)
            then have "r = Inl e" "bs_chain st' = bs_chain st @ [tx]" "bs_db st' = db'"
              using res w ok c t x r2 sent d u by (auto simp: process_withdrawal_def)
            then show ?thesis using update_wallet_balance_Inl [OF u [unfolded Inl]] ix pos guard ok w ws by auto
          next
            case (Inr y)
            have r: "r = Inr t" "bs_chain st' = bs_chain st @ [tx]"
              "bs_db st' = snd (update_transaction_status (be_sql env) (\<lambda>i. be_clock env (4 + i)) (t_id t) TransactionStatusConfirmed (Some sig) db')"
              using res w ok c t x r2 sent d u Inr by (auto simp: process_withdrawal_def)
            obtain b l where b: "money_col (be_sql env) (w_balance w') = Some b" "money_col (be_sql env) (w_locked w') = Some l"
              "only_wallet_changed db db' (w_id w') b l"
              using update_wallet_only u Inr by (metis (full_types) old.unit.exhaust)
            have "only_wallet_changed (bs_db st) (bs_db st') (w_id w) b l"
              unfolding r(3) using update_status_wallets [OF create_transaction_only [OF c b(3)]] by (simp only: w')
            then show ?thesis using r b w' ix pos guard ok w by auto
          qed
        qed
      qed
    qed
  qed
qed

section \<open>Deposits\<close>

lemma process_deposit_Inr:
  assumes "process_deposit env sv req st = Some (Inr t, st')"
  shows "\<exists>w b l db db'. get_wallet (be_sql env) (dr_wallet_id req) (bs_db st) = Inr w
    \<and> confirm_transaction (be_solana env) (sv_solana sv) (dr_signature req) = Some (Inr ())
    \<and> money_col (be_sql env) (w_balance w + dr_amount req) = Some b \<and> money_col (be_sql env) (w_locked w) = Some l
    \<and> db = (bs_db st)\<lparr>db_wallets := update_by w_id (w_id w) (set_money b l (time_col (be_sql env) (be_clock env 1))) (db_wallets (bs_db st))\<rparr>
    \<and> create_transaction (be_sql env) (be_uuid env 0) (\<lambda>i. be_clock env (2 + i)) (deposit_transaction req w) db = (Inr t, db')
    \<and> st' = st\<lparr>bs_db := snd (update_transaction_status (be_sql env) (\<lambda>i. be_clock env (4 + i)) (t_id t)
              TransactionStatusConfirmed (Some (dr_signature req)) db')\<rparr>"
proof -
  have c: "confirm_transaction (be_solana env) (sv_solana sv) (dr_signature req) = Some (Inr ())"
    using assms by (auto simp: process_deposit_def split: option.splits sum.splits)
  obtain w where w: "get_wallet (be_sql env) (dr_wallet_id req) (bs_db st) = Inr w"
    using assms c by (auto simp: process_deposit_def split: sum.splits)
  let ?w = "add_funds (be_clock env 0) (dr_amount req) w"
  have m: "w_id ?w = w_id w" "w_balance ?w = w_balance w + dr_amount req" "w_locked ?w = w_locked w"
    "deposit_transaction req ?w = deposit_transaction req w"
    by (simp_all add: add_funds_def deposit_transaction_def)
  obtain db where u: "update_wallet_balance (be_sql env) (be_clock env 1) (w_id w) (w_balance w + dr_amount req) (w_locked w) (bs_db st) = (Inr (), db)"
    using assms c w m by (auto simp: process_deposit_def split: sum.splits prod.splits)
  obtain db' where t: "create_transaction (be_sql env) (be_uuid env 0) (\<lambda>i. be_clock env (2 + i)) (deposit_transaction req w) db = (Inr t, db')"
    and st': "st' = st\<lparr>bs_db := snd (update_transaction_status (be_sql env) (\<lambda>i. be_clock env (4 + i)) (t_id t)
              TransactionStatusConfirmed (Some (dr_signature req)) db')\<rparr>"
    using assms c w m u by (auto simp: process_deposit_def split: sum.splits prod.splits)
  show ?thesis using c w t st' update_wallet_balance_Inr [OF u] by blast
qed

text \<open>A deposit is credited only when the chain confirms its signature, by exactly the amount of the request, to
  the named wallet and to no other.\<close>

theorem deposit_credits:
  assumes "process_deposit env sv req st = Some (Inr t, st')" "stored_ok (be_sql env) (bs_db st)"
  shows "\<exists>w b. get_wallet (be_sql env) (dr_wallet_id req) (bs_db st) = Inr w
    \<and> confirm_transaction (be_solana env) (sv_solana sv) (dr_signature req) = Some (Inr ())
    \<and> money_col (be_sql env) (w_balance w + dr_amount req) = Some b
    \<and> only_wallet_changed (bs_db st) (bs_db st') (w_id w) b (w_locked w) \<and> bs_chain st' = bs_chain st"
proof -
  obtain w b l db db' where w: "get_wallet (be_sql env) (dr_wallet_id req) (bs_db st) = Inr w"
    and c: "confirm_transaction (be_solana env) (sv_solana sv) (dr_signature req) = Some (Inr ())"
    and m: "money_col (be_sql env) (w_balance w + dr_amount req) = Some b" "money_col (be_sql env) (w_locked w) = Some l"
    and db: "db = (bs_db st)\<lparr>db_wallets := update_by w_id (w_id w) (set_money b l (time_col (be_sql env) (be_clock env 1))) (db_wallets (bs_db st))\<rparr>"
    and t: "create_transaction (be_sql env) (be_uuid env 0) (\<lambda>i. be_clock env (2 + i)) (deposit_transaction req w) db = (Inr t, db')"
    and st': "st' = st\<lparr>bs_db := snd (update_transaction_status (be_sql env) (\<lambda>i. be_clock env (4 + i)) (t_id t)
              TransactionStatusConfirmed (Some (dr_signature req)) db')\<rparr>"
    using process_deposit_Inr [OF assms(1)] by blast
  have sel: "select_by w_id (dr_wallet_id req) (db_wallets (bs_db st)) = Some w" using get_wallet_Inr [OF w] .
  then have "w_id w = dr_wallet_id req" "l = w_locked w"
    using m(2) assms(2) select_by_SomeD [OF sel] by (auto simp: stored_ok_def)
  moreover have "db_wallets db' = db_wallets db"
    using create_transaction_wallets(1) [of "be_sql env" "be_uuid env 0" "\<lambda>i. be_clock env (2 + i)" "deposit_transaction req w" db]
    unfolding t by simp
  ultimately have "only_wallet_changed (bs_db st) (bs_db st') (w_id w) b (w_locked w)"
    using sel by (simp add: st' only_wallet_changed_def db select_update_same select_update_other)
  then show ?thesis using w c m(1) st' by auto
qed

end
