(* ===== verification/BillingDemo.thy ===== *)
theory BillingDemo
  imports BillingFacts
begin

text \<open>
  A concrete billing service (PostgreSQL columns, division to sixteen digits, one wallet, one running
  session) on which the properties of \<open>BillingFacts\<close> are instantiated, and the properties that compare
  a quote with the charge and a deposit with its repetition.
\<close>

section \<open>The example service\<close>

definition demo_env :: billing_env where
  "demo_env = \<lparr>be_sql = pg_env, be_solana = demo_solana, be_covenant = demo_covenant, be_div = div16,
     be_hours = exact_hours, be_clock = (\<lambda>_. hour), be_uuid = (\<lambda>n. word_of_nat (100 + n)),
     be_put_object = (\<lambda>_ _. Reply 200 [])\<rparr>"

definition demo_client :: solana_client where
  "demo_client = \<lparr>token_mint = [3], token_decimals = 6, platform_wallet = [80], private_key = [1],
     client_commitment = CommitmentConfirmed, client_timeout = 30 * second\<rparr>"

definition demo_service_config :: service_config where
  "demo_service_config = \<lparr>minimum_balance = 1, low_balance_threshold = 5, billing_interval = minute,
     insufficient_funds_grace = 5 * minute, max_transaction_amount = 1000, daily_withdrawal_limit = 500,
     minimum_payout_amount = 5, payout_fee_percent = 1, storage_url = []\<rparr>"

definition demo_service :: "manager option \<Rightarrow> billing_service" where
  "demo_service m = \<lparr>sv_solana = demo_client, sv_engine = demo_engine, sv_rate_order = demo_order,
     sv_covenant = m, sv_config = demo_service_config\<rparr>"

definition demo_state :: billing_state where
  "demo_state = \<lparr>bs_db = demo_db, bs_chain = []\<rparr>"

definition demo_end :: session_end_request where
  "demo_end = \<lparr>ser_session_id = 7, ser_reason = []\<rparr>"

lemma demo_sql [simp]:
  "be_sql demo_env = pg_env" "be_clock demo_env i = hour" "be_div demo_env = div16" "be_hours demo_env = exact_hours"
  "be_uuid demo_env n = word_of_nat (100 + n)" "be_solana demo_env = demo_solana" "be_covenant demo_env = demo_covenant"
  by (simp_all add: demo_env_def)

lemma pg_env_simps [simp]:
  "sql_fail pg_env op = False" "money_col pg_env = numeric 20 9" "percent_col pg_env = numeric 5 2"
  "rows_delivered pg_env op = None"
  by (simp_all add: pg_env_def)

lemma numeric_20_9 [simp]: "on_grid 9 x \<Longrightarrow> \<bar>x\<bar> \<le> 10 ^ 10 \<Longrightarrow> numeric 20 9 x = Some x"
  using pg20_9.col_stored [of x] by simp

lemma numeric_5_2 [simp]: "on_grid 2 x \<Longrightarrow> \<bar>x\<bar> \<le> 100 \<Longrightarrow> numeric 5 2 x = Some x"
  using pg5_2.col_stored [of x] by simp

lemma div16_exact: "b \<noteq> 0 \<Longrightarrow> on_grid 16 (a / b) \<Longrightarrow> div16 a b = a / b"
  by (rule d16.dv_exact)

lemma demo_divs [simp]: "div16 8192 1024 = 8" "div16 450 1000 = 9 / 20" "div16 8192 8192 = 1"
  by (simp_all add: div16_exact on_grid_def)

lemma demo_stored: "stored_ok pg_env demo_db"
  by (simp add: stored_ok_def demo_db_def demo_wallet_def on_grid_def)

lemma demo_session_fields [simp]:
  "rs_id demo_session = 7" "rs_user_id demo_session = ''alice''" "rs_status demo_session = SessionStatusActive"
  "rs_started_at demo_session = 0" "rs_ended_at demo_session = None" "rs_metadata demo_session = None"
  "rs_actual_power_w demo_session = None" "rs_platform_fee_rate demo_session = 5" "rs_allocated_vram demo_session = 8192"
  "rs_gpu_model demo_session = ''RTX-4090''"
  by (simp_all add: demo_session_def)

lemma demo_wallet_fields [simp]:
  "w_id demo_wallet = 1" "w_user_id demo_wallet = ''alice''" "w_type demo_wallet = WalletTypeUser"
  "w_balance demo_wallet = 10" "w_locked demo_wallet = 2" "available_balance demo_wallet = 8"
  by (simp_all add: demo_wallet_def available_balance_def)

lemma demo_db_fields [simp]:
  "db_wallets demo_db = [demo_wallet]" "db_sessions demo_db = [demo_session]" "db_transactions demo_db = [demo_transaction]"
  "bs_db demo_state = demo_db" "bs_chain demo_state = []" "t_id demo_transaction = 3"
  by (simp_all add: demo_db_def demo_state_def demo_transaction_def)

lemma demo_service_fields [simp]:
  "sv_covenant (demo_service m) = m" "sv_engine (demo_service m) = demo_engine" "sv_rate_order (demo_service m) = demo_order"
  "minimum_balance (sv_config (demo_service m)) = 1" "daily_withdrawal_limit (sv_config (demo_service m)) = 500"
  "sv_solana (demo_service m) = demo_client"
  by (simp_all add: demo_service_def demo_service_config_def)

section \<open>An end of a session\<close>

lemma demo_rate: "metered_rate div16 demo_session = 7201 / 4000"
  by (simp add: metered_rate_def metered_power_def) (simp add: demo_session_def)

lemma demo_get: "get_rental_session pg_env 7 demo_db = Inr demo_session"
  "get_wallet_by_user_id pg_env ''alice'' WalletTypeUser demo_db = Inr demo_wallet"
  "get_wallet pg_env 1 demo_db = Inr demo_wallet"
  by (simp_all add: get_rental_session_def get_wallet_by_user_id_def get_wallet_def)

lemma one_hour: "exact_hours (time_sub hour (rs_started_at demo_session)) = 1"
  by (simp add: time_sub_def exact_hours_def)

lemma demo_closed [simp]:
  "rs_total_cost (closed_session demo_env hour demo_session) = 7201 / 4000"
  "rs_platform_fee (closed_session demo_env hour demo_session) = 7201 / 80000"
  "rs_provider_earnings (closed_session demo_env hour demo_session) = 136819 / 80000"
  "rs_actual_power_w (closed_session demo_env hour demo_session) = None"
  "rs_metadata (closed_session demo_env hour demo_session) = None"
proof -
  have t: "rs_total_cost (closed_session demo_env hour demo_session) = 7201 / 4000"
    using closed_session_cost [of demo_env hour demo_session] by (simp add: demo_rate one_hour del: demo_session_fields)
  have f: "rs_platform_fee (closed_session demo_env hour demo_session)
      = div16 (rs_total_cost (closed_session demo_env hour demo_session) * rs_platform_fee_rate demo_session) 100"
    by (simp add: closed_session_def Let_def)
  have p: "rs_platform_fee (closed_session demo_env hour demo_session) = 7201 / 80000"
    unfolding f t by (simp add: div16_exact on_grid_def)
  show "rs_total_cost (closed_session demo_env hour demo_session) = 7201 / 4000" by (rule t)
  show "rs_platform_fee (closed_session demo_env hour demo_session) = 7201 / 80000" by (rule p)
  have "rs_provider_earnings (closed_session demo_env hour demo_session) = 7201 / 4000 - 7201 / 80000"
    using closed_session_split [of demo_env hour demo_session] unfolding t p by (simp only: eq_diff_eq add.commute)
  then show "rs_provider_earnings (closed_session demo_env hour demo_session) = 136819 / 80000" by simp
qed (simp_all add: closed_session_def Let_def)

lemma demo_update:
  "\<exists>db. update_rental_session pg_env hour (closed_session demo_env hour demo_session) demo_db = (Inr (), db)
     \<and> db_wallets db = db_wallets demo_db"
  by (simp add: update_rental_session_def on_grid_def session_update_ok_def)

lemma demo_ends:
  "\<exists>resp st. end_rental_session demo_env (demo_service None) demo_end demo_state = (Inr resp, st)
     \<and> sr_current_cost resp = 7201 / 4000 \<and> w_locked (hd (db_wallets (bs_db st))) = 0
     \<and> select_by rs_id 7 (db_sessions (bs_db st)) \<noteq> None"
proof -
  obtain db where u: "update_rental_session pg_env hour (closed_session demo_env hour demo_session) demo_db = (Inr (), db)"
    and ws: "db_wallets db = [demo_wallet]" using demo_update by auto
  have get: "get_wallet_by_user_id pg_env ''alice'' WalletTypeUser db = Inr demo_wallet"
    using get_user_same [of db demo_db] ws demo_get by simp
  have sub: "submit_receipt demo_env (demo_service None) hour (closed_session demo_env hour demo_session)
      = (closed_session demo_env hour demo_session, [])"
    by (simp add: submit_receipt_def enabled_def settlement_signer_def)
  have upd: "update_wallet_balance pg_env t 1 (32799 / 4000) 0 db
      = (Inr (), db\<lparr>db_wallets := update_by w_id 1 (set_money (32799 / 4000) 0 (time_col pg_env t)) (db_wallets db)\<rparr>)" for t
    by (simp add: update_wallet_balance_def on_grid_def ws)
  have "select_by rs_id 7 (db_sessions db) \<noteq> None"
    using update_session_Inr [OF u] by (auto simp: update_by_def)
  then show ?thesis
    by (simp add: end_rental_session_def demo_end_def demo_get u sub charge_session_def get deduct_funds_def
        unlock_funds_def Let_def upd) (simp add: ws update_by_def)
qed

definition demo_usage :: usage_update_request where
  "demo_usage = \<lparr>uur_session_id = 7, uur_gpu_utilization = 90, uur_vram_utilization = 50, uur_power_draw = 300,
     uur_temperature = 70, uur_timestamp = hour\<rparr>"

theorem session_charged_once_witness:
  "\<exists>resp st e. end_rental_session demo_env (demo_service None) demo_end demo_state = (Inr resp, st)
     \<and> end_rental_session demo_env (demo_service None) demo_end (snd (process_usage_update demo_env demo_usage st))
         = (Inl e, snd (process_usage_update demo_env demo_usage st))"
proof -
  obtain resp st where r: "end_rental_session demo_env (demo_service None) demo_end demo_state = (Inr resp, st)"
    using demo_ends by blast
  let ?st = "snd (process_usage_update demo_env demo_usage st)"
  have "service_step st ?st" by (rule usage_reported) (rule surjective_pairing)
  then have between: "service_step\<^sup>*\<^sup>* st ?st" by (rule r_into_rtranclp)
  obtain r' st3 where again: "end_rental_session demo_env (demo_service None) demo_end ?st = (r', st3)" by fastforce
  show ?thesis using session_charged_once [OF r _ between again] r again by auto
qed

theorem end_session_charges_cost_witness:
  "\<exists>resp st b. end_rental_session demo_env (demo_service None) demo_end demo_state = (Inr resp, st)
     \<and> only_wallet_changed demo_db (bs_db st) 1 b 0"
proof -
  obtain resp st where r: "end_rental_session demo_env (demo_service None) demo_end demo_state = (Inr resp, st)"
    using demo_ends by blast
  have "sql_env_ok (be_sql demo_env)" by (simp add: pg_env_ok)
  from end_session_charges_cost [OF this r] r show ?thesis by (auto simp: demo_end_def demo_get)
qed

theorem stale_usage_reopens_witness:
  "\<exists>resp st db s. end_rental_session demo_env (demo_service None) demo_end demo_state = (Inr resp, st)
     \<and> get_rental_session pg_env 7 db = Inr s \<and> rs_status s = SessionStatusActive
     \<and> snd (update_rental_session pg_env hour (demo_session\<lparr>rs_actual_power_w := Some 300, rs_total_cost := 1\<rparr>) (bs_db st)) = db"
proof -
  obtain resp st where r: "end_rental_session demo_env (demo_service None) demo_end demo_state = (Inr resp, st)"
    "select_by rs_id 7 (db_sessions (bs_db st)) \<noteq> None" using demo_ends by blast
  have z: "rs_platform_fee demo_session = 0" "rs_provider_earnings demo_session = 0" by (simp_all add: demo_session_def)
  let ?s = "demo_session\<lparr>rs_actual_power_w := Some 300, rs_total_cost := 1\<rparr>"
  obtain db where u: "update_rental_session pg_env hour ?s (bs_db st) = (Inr (), db)"
    using r(2) by (auto simp: update_rental_session_def z on_grid_def session_update_ok_def)
  have "get_rental_session pg_env 7 (bs_db demo_state) = Inr demo_session" by (simp add: demo_get)
  from stale_usage_reopens [OF this _ _ r(1) u, of pg_env] r(1) u show ?thesis by fastforce
qed

theorem end_session_unpaid_witness:
  "fst (end_rental_session demo_env (demo_service None) demo_end
      (demo_state\<lparr>bs_db := demo_db\<lparr>db_wallets := [demo_wallet\<lparr>w_balance := 1\<rparr>]\<rparr>\<rparr>)) = Inl (Sentinel ErrInsufficientFunds)"
proof -
  let ?st = "demo_state\<lparr>bs_db := demo_db\<lparr>db_wallets := [demo_wallet\<lparr>w_balance := 1\<rparr>]\<rparr>\<rparr>"
  have s: "get_rental_session (be_sql demo_env) (ser_session_id demo_end) (bs_db ?st) = Inr demo_session"
    "get_wallet_by_user_id (be_sql demo_env) (rs_user_id demo_session) WalletTypeUser (bs_db ?st) = Inr (demo_wallet\<lparr>w_balance := 1\<rparr>)"
    by (simp_all add: get_rental_session_def get_wallet_by_user_id_def demo_end_def)
  obtain db where u: "update_rental_session (be_sql demo_env) (be_clock demo_env 1)
      (closed_session demo_env (be_clock demo_env 0) demo_session) (bs_db ?st) = (Inr (), db)"
    by (simp add: update_rental_session_def on_grid_def session_update_ok_def)
  show ?thesis
    using end_session_unpaid [OF s(1) _ u s(2), of "demo_service None"] by (simp add: demo_rate one_hour del: demo_session_fields(4))
qed

section \<open>A start of a session\<close>

definition demo_start :: session_start_request where
  "demo_start = \<lparr>ssr_user_id = ''alice'', ssr_provider_id = 9, ssr_job_id = None, ssr_gpu_model = ''RTX-4090'',
     ssr_requested_vram = 8192, ssr_estimated_power_w = 450, ssr_max_hourly_rate = None, ssr_max_duration_hours = Some 2\<rparr>"

lemma demo_start_fields [simp]:
  "ssr_user_id demo_start = ''alice''" "ssr_gpu_model demo_start = ''RTX-4090''"
  by (simp_all add: demo_start_def)

lemma demo_quote:
  "\<exists>p. calculate_pricing div16 demo_engine demo_order hour (start_pricing_request demo_start) = Inr p
     \<and> total_hourly_rate p = 141 / 200 \<and> base_hourly_rate p = 1 / 2 \<and> vram_hourly_rate p = 4 / 25 \<and> power_hourly_rate p = 9 / 200"
proof -
  have "to_lower (trim_space ''RTX-4090'') = ''rtx-4090''" by code_simp
  then have b: "get_base_rate demo_engine demo_order ''RTX-4090'' = Inr (1 / 2)"
    by (simp add: get_base_rate_def demo_rates)
  have c: "vram_rate_per_gb (engine_config demo_engine) = 1 / 50" "power_multiplier (engine_config demo_engine) = 1 / 10"
    by (simp_all add: demo_engine_def new_engine_def)
  show ?thesis
    by (simp add: calculate_pricing_def start_pricing_request_def demo_start_def b c Let_def get_dynamic_pricing_factors_def
        adjusted_base_rate_def)
qed

lemma start_session_row:
  assumes "base_hourly_rate p = 1 / 2" "vram_hourly_rate p = 4 / 25" "power_hourly_rate p = 9 / 200"
  shows "\<exists>row. stored_session pg_env (new_session demo_env demo_start p) = Some row \<and> session_row_ok row
     \<and> rs_id row = be_uuid demo_env 0"
  unfolding session_row_ok_def
  by (simp add: stored_session_def new_session_def assms demo_start_def on_grid_def varchar_def optional_varchar_def)

lemma demo_locks:
  "\<exists>db. update_wallet_balance pg_env hour 1 10 (541 / 200) demo_db = (Inr (), db) \<and> db_wallets db = [set_money 10 (541 / 200) (time_col pg_env hour) demo_wallet]
    \<and> db_sessions db = [demo_session] \<and> db_transactions db = [demo_transaction]"
  by (simp add: update_wallet_balance_def on_grid_def update_by_def)

lemma demo_starts: "\<exists>resp st. start_rental_session demo_env (demo_service None) demo_start demo_state = (Inr resp, st)"
proof -
  obtain p where p: "calculate_pricing div16 demo_engine demo_order hour (start_pricing_request demo_start) = Inr p"
    "total_hourly_rate p = 141 / 200" "base_hourly_rate p = 1 / 2" "vram_hourly_rate p = 4 / 25" "power_hourly_rate p = 9 / 200"
    using demo_quote by blast
  obtain row where row: "stored_session pg_env (new_session demo_env demo_start p) = Some row" "session_row_ok row" "rs_id row = 100"
    using start_session_row [OF p(3-5)] by auto
  obtain db where db: "update_wallet_balance pg_env hour 1 10 (541 / 200) demo_db = (Inr (), db)"
    "db_wallets db = [set_money 10 (541 / 200) (time_col pg_env hour) demo_wallet]"
    "db_sessions db = [demo_session]" "db_transactions db = [demo_transaction]" using demo_locks by blast
  let ?w = "demo_wallet\<lparr>w_locked := 541 / 200, w_updated_at := hour\<rparr>"
  have lock: "lock_funds hour (141 / 200) demo_wallet = Inr ?w" by (simp add: lock_funds_def can_spend_def)
  have id: "rs_id (new_session demo_env demo_start p) = 100" by (simp add: new_session_def)
  have esc: "open_escrow demo_env (demo_service None) demo_start p (new_session demo_env demo_start p) = (Inr (new_session demo_env demo_start p), [])"
    by (simp add: open_escrow_def enabled_def settlement_signer_def)
  have ses: "create_rental_session pg_env (new_session demo_env demo_start p) db = (Inr (), db\<lparr>db_sessions := [demo_session, row]\<rparr>)"
    using row by (simp add: create_rental_session_def accepts_session_def db)
  obtain t db' where txn: "create_transaction pg_env 101 (\<lambda>i. hour) (start_transaction demo_start ?w p (new_session demo_env demo_start p))
      (db\<lparr>db_sessions := [demo_session, row]\<rparr>) = (Inr t, db')"
    by (simp add: create_transaction_def Let_def start_transaction_def stored_transaction_def p(2) on_grid_def accepts_transaction_def
        transaction_row_ok_def references_def db demo_start_def optional_varchar_def)
  show ?thesis
    by (simp add: start_rental_session_def demo_get p lock db(1) start_locked_def esc ses txn)
qed

theorem start_locks_quoted_rate_witness:
  "\<exists>resp st l. start_rental_session demo_env (demo_service None) demo_start demo_state = (Inr resp, st)
     \<and> only_wallet_changed demo_db (bs_db st) 1 10 l \<and> sr_remaining_balance resp = 8 - 141 / 200"
proof -
  obtain resp st where r: "start_rental_session demo_env (demo_service None) demo_start demo_state = (Inr resp, st)"
    using demo_starts by blast
  have "stored_ok (be_sql demo_env) (bs_db demo_state)" by (simp add: demo_stored)
  from start_locks_quoted_rate [OF r this] r demo_quote show ?thesis by (auto simp: demo_get)
qed

lemma demo_start_fails:
  "\<exists>e st. start_rental_session (demo_env\<lparr>be_uuid := \<lambda>_. 7\<rparr>) (demo_service None) demo_start demo_state = (Inl e, st)
     \<and> w_locked (hd (db_wallets (bs_db st))) = 541 / 200"
proof -
  let ?env = "demo_env\<lparr>be_uuid := \<lambda>_. 7\<rparr>"
  have env: "be_sql ?env = pg_env" "be_clock ?env i = hour" "be_div ?env = div16" "be_uuid ?env i = 7" for i
    by (simp_all add: demo_env_def)
  obtain p where p: "calculate_pricing div16 demo_engine demo_order hour (start_pricing_request demo_start) = Inr p"
    "total_hourly_rate p = 141 / 200" using demo_quote by blast
  obtain db where db: "update_wallet_balance pg_env hour 1 10 (541 / 200) demo_db = (Inr (), db)"
    "db_wallets db = [set_money 10 (541 / 200) (time_col pg_env hour) demo_wallet]"
    "db_sessions db = [demo_session]" using demo_locks by blast
  have lock: "lock_funds hour (141 / 200) demo_wallet = Inr (demo_wallet\<lparr>w_locked := 541 / 200, w_updated_at := hour\<rparr>)"
    by (simp add: lock_funds_def can_spend_def)
  have esc: "open_escrow ?env (demo_service None) demo_start p (new_session ?env demo_start p) = (Inr (new_session ?env demo_start p), [])"
    by (simp add: open_escrow_def enabled_def settlement_signer_def)
  have "\<not> accepts_session [demo_session] row" if "stored_session pg_env (new_session ?env demo_start p) = Some row" for row
    using stored_session_keeps(1) [OF that] env by (simp add: accepts_session_def new_session_def)
  then have ses: "create_rental_session pg_env (new_session ?env demo_start p) db = (Inl (db_error ''failed to create rental session''), db)"
    by (cases "stored_session pg_env (new_session ?env demo_start p)") (simp_all add: create_rental_session_def db)
  have pr: "calculate_pricing (be_div ?env) (sv_engine (demo_service None)) (sv_rate_order (demo_service None)) (be_clock ?env 0)
      (start_pricing_request demo_start) = Inr p" using p(1) by (simp only: env demo_service_fields)
  have "start_rental_session ?env (demo_service None) demo_start demo_state
      = start_locked ?env (demo_service None) demo_start (demo_wallet\<lparr>w_locked := 541 / 200, w_updated_at := hour\<rparr>) p
          (demo_state\<lparr>bs_db := db\<rparr>)"
    unfolding start_rental_session_def pr by (simp add: env demo_get p(2) lock db(1))
  then show ?thesis by (simp add: start_locked_def esc ses db(2))
qed

theorem failed_start_keeps_lock_witness:
  "\<exists>e st l. start_rental_session (demo_env\<lparr>be_uuid := \<lambda>_. 7\<rparr>) (demo_service None) demo_start demo_state = (Inl e, st)
     \<and> only_wallet_changed demo_db (bs_db st) 1 10 l"
proof -
  obtain e st where r: "start_rental_session (demo_env\<lparr>be_uuid := \<lambda>_. 7\<rparr>) (demo_service None) demo_start demo_state = (Inl e, st)"
    "w_locked (hd (db_wallets (bs_db st))) = 541 / 200" using demo_start_fails by blast
  have "stored_ok (be_sql (demo_env\<lparr>be_uuid := \<lambda>_. 7\<rparr>)) (bs_db demo_state)" by (simp add: demo_stored)
  moreover have "st \<noteq> demo_state" using r(2) by auto
  ultimately show ?thesis using failed_start_keeps_lock [OF r(1)] r(1) by (fastforce simp: demo_get)
qed

section \<open>The quote and the charge\<close>

text \<open>C9. A session is not charged what it was quoted: the VRAM and the power part of the quote are hourly prices for
  the whole allocation, but the session stores them as prices per gigabyte and per kilowatt and multiplies them once
  more. After any running time the cost of the new session is, times the hours, the quoted rate and a surplus: the quoted VRAM price
  once for every gigabyte but the first, and the quoted power price once for every kilowatt but the first (a negative
  number of times below one).\<close>

theorem hour_charge_differs_from_quote:
  assumes quote: "calculate_pricing (be_div env) e order now (start_pricing_request req) = Inr p"
  shows "calculate_current_cost (be_div env) (be_hours env) t (new_session env req p)
      = (total_hourly_rate p
          + vram_hourly_rate p * (be_div env (of_int (sint (ssr_requested_vram req))) 1024 - 1)
          + power_hourly_rate p * (be_div env (of_nat (unat (ssr_estimated_power_w req))) 1000 - 1))
        * be_hours env (time_sub t (be_clock env 3))"
proof -
  have "total_hourly_rate p = base_hourly_rate p + vram_hourly_rate p + power_hourly_rate p"
    using quote by (auto simp: calculate_pricing_def Let_def split: sum.splits if_splits)
  then show ?thesis
    by (simp add: calculate_current_cost_def duration_in_hours_def session_duration_def new_session_def Let_def algebra_simps)
qed

theorem hour_charge_differs_from_quote_witness:
  "\<exists>p. calculate_pricing div16 demo_engine demo_order hour (start_pricing_request demo_start) = Inr p
     \<and> total_hourly_rate p = 141 / 200
     \<and> calculate_current_cost div16 exact_hours (2 * hour) (new_session demo_env demo_start p) = 7201 / 4000"
proof -
  obtain p where p: "calculate_pricing div16 demo_engine demo_order hour (start_pricing_request demo_start) = Inr p"
    "total_hourly_rate p = 141 / 200" "vram_hourly_rate p = 4 / 25" "power_hourly_rate p = 9 / 200"
    using demo_quote by blast
  define t where "t = 2 * hour"
  have h: "exact_hours (time_sub t hour) = 1" by (simp add: t_def time_sub_def exact_hours_def)
  have "calculate_current_cost div16 exact_hours t (new_session demo_env demo_start p) = 7201 / 4000"
    using hour_charge_differs_from_quote [of demo_env demo_engine demo_order hour demo_start p t] p(1)
    by (simp add: h p(2-4)) (simp add: demo_start_def)
  with p show ?thesis unfolding t_def by blast
qed

text \<open>The pricing endpoint hands the service a pointer to its own request struct, and the service reads only maps:
  the request it prices is empty, so every call fails validation and is answered with 500.\<close>

theorem struct_quote_always_fails:
  "\<exists>e. quote_pricing env sv DynStruct = Inl e \<and> handler_status e = 500"
  by (simp add: quote_pricing_def with_pricing_defaults_def pricing_request_of_def validate_pricing_request_def Let_def)

section \<open>Withdrawals and deposits\<close>

definition demo_withdrawal :: withdrawal_request where
  "demo_withdrawal = \<lparr>wr_wallet_id = 1, wr_amount = 3, wr_to_address = ''T''\<rparr>"

lemma demo_fields_chain [simp]: "(numeric 20 9 (3 :: rat)) = Some 3" "numeric 20 9 7 = Some 7" "numeric 20 9 2 = Some 2"
  by (simp_all add: on_grid_def)

lemma demo_withdraws: "\<exists>t st. process_withdrawal demo_env (demo_service None) demo_withdrawal demo_state = (Inr t, st)"
proof -
  obtain t db where c: "create_transaction pg_env 100 (\<lambda>_. hour) (withdrawal_transaction demo_withdrawal demo_wallet) demo_db = (Inr t, db)"
    "db_wallets db = [demo_wallet]"
    by (simp add: create_transaction_def Let_def withdrawal_transaction_def stored_transaction_def demo_withdrawal_def
        accepts_transaction_def transaction_row_ok_def references_def optional_varchar_def on_grid_def)
  have clk: "be_clock demo_env = (\<lambda>_. hour)" by (simp add: demo_env_def)
  obtain sent where x: "transfer_tokens demo_solana demo_client a b amt = (Inr ''sig'', sent a b amt)" for a b amt
    by (simp add: transfer_tokens_def submit_tx_def demo_solana_def)
  show ?thesis
    by (simp add: process_withdrawal_def demo_get clk c can_spend_def demo_withdrawal_def [THEN arg_cong [where f = wr_amount]]
        demo_withdrawal_def [THEN arg_cong [where f = wr_wallet_id]] x deduct_funds_def update_wallet_balance_def)
qed

theorem withdrawal_guarded_witness:
  "\<exists>t st b l. process_withdrawal demo_env (demo_service None) demo_withdrawal demo_state = (Inr t, st)
     \<and> bs_chain st \<noteq> [] \<and> only_wallet_changed demo_db (bs_db st) 1 b l"
proof -
  obtain t st where r: "process_withdrawal demo_env (demo_service None) demo_withdrawal demo_state = (Inr t, st)"
    using demo_withdraws by blast
  have "sql_env_ok (be_sql demo_env)" by (simp add: pg_env_ok)
  from withdrawal_guarded [OF this r] r show ?thesis by (auto simp: demo_get demo_withdrawal_def)
qed

definition demo_deposit :: deposit_request where
  "demo_deposit = \<lparr>dr_wallet_id = 1, dr_amount = 5, dr_signature = ''S''\<rparr>"

lemma demo_confirms: "confirm_transaction demo_solana demo_client s = Some (Inr ())"
proof -
  have r: "commitment_reached CommitmentConfirmed (signature_polls demo_solana s 0)"
    by (simp add: demo_solana_def commitment_reached_def)
  have t: "poll_times demo_solana 0 < client_timeout demo_client" by (simp add: demo_solana_def demo_client_def)
  show ?thesis
    using confirm_loop_simps(3) [where waited = "poll_times demo_solana" and polls = "signature_polls demo_solana s" and n = 0, OF t r]
    by (simp add: confirm_transaction_def demo_client_def) (simp add: demo_solana_def)
qed

text \<open>The conditions under which a deposit goes through; that the signature is new is not among them.\<close>

lemma process_deposit_succeeds:
  assumes env: "sql_env_ok (be_sql env)" "\<And>op. \<not> sql_fail (be_sql env) op" "stored_ok (be_sql env) (bs_db st)"
    and c: "confirm_transaction (be_solana env) (sv_solana sv) (dr_signature req) = Some (Inr ())"
    and w: "get_wallet (be_sql env) (dr_wallet_id req) (bs_db st) = Inr w"
    and b: "money_col (be_sql env) (w_balance w + dr_amount req) = Some b"
    and a: "money_col (be_sql env) (dr_amount req) = Some a" "0 < a"
    and fresh: "be_uuid env 0 \<notin> t_id ` set (db_transactions (bs_db st))"
  shows "\<exists>t st'. process_deposit env sv req st = Some (Inr t, st')"
proof -
  let ?w = "add_funds (be_clock env 0) (dr_amount req) w"
  have sel: "select_by w_id (dr_wallet_id req) (db_wallets (bs_db st)) = Some w" using get_wallet_Inr [OF w] .
  then have m: "w_id w = dr_wallet_id req" "w \<in> set (db_wallets (bs_db st))" "money_col (be_sql env) (w_locked w) = Some (w_locked w)"
    using env(3) select_by_SomeD [OF sel] by (auto simp: stored_ok_def)
  have f: "w_id ?w = w_id w" "w_balance ?w = w_balance w + dr_amount req" "w_locked ?w = w_locked w"
    by (simp_all add: add_funds_def)
  obtain db where u: "update_wallet_balance (be_sql env) (be_clock env 1) (w_id ?w) (w_balance ?w) (w_locked ?w) (bs_db st) = (Inr (), db)"
    "w_id ` set (db_wallets db) = w_id ` set (db_wallets (bs_db st))" "db_transactions db = db_transactions (bs_db st)"
    unfolding f using env(2) b m sel by (simp add: update_wallet_balance_def keys_update_by)
  have "w_id w \<in> w_id ` set (db_wallets (bs_db st))" using m(2) by (rule imageI)
  then obtain t db' where "create_transaction (be_sql env) (be_uuid env 0) (\<lambda>i. be_clock env (2 + i)) (deposit_transaction req ?w) db = (Inr t, db')"
    using env a fresh money_col_0 [OF env(1)]
    by (simp add: create_transaction_def Let_def deposit_transaction_def stored_transaction_def accepts_transaction_def
        transaction_row_ok_def references_def optional_varchar_def u f)
  then show ?thesis using c w u(1) by (simp add: process_deposit_def)
qed

text \<open>C8. A deposit is not tied to its signature: after it was credited once, the same request with the same
  signature is credited again, as long as the database works.\<close>

theorem deposit_replay:
  assumes first: "process_deposit env sv req st = Some (Inr t, st1)"
    and env: "sql_env_ok (be_sql env)" "\<And>op. \<not> sql_fail (be_sql env) op" "stored_ok (be_sql env) (bs_db st)"
    and w: "get_wallet (be_sql env) (dr_wallet_id req) (bs_db st) = Inr w"
    and room: "money_col (be_sql env) (w_balance w + dr_amount req) = Some b" "money_col (be_sql env) (b + dr_amount req) = Some b2"
    and fresh: "u 0 \<notin> t_id ` set (db_transactions (bs_db st1))"
  shows "\<exists>t2 st2 w2. process_deposit (env\<lparr>be_uuid := u\<rparr>) sv req st1 = Some (Inr t2, st2)
    \<and> get_wallet (be_sql env) (dr_wallet_id req) (bs_db st2) = Inr w2 \<and> w_balance w2 = b2"
proof -
  let ?env = "env\<lparr>be_uuid := u\<rparr>"
  obtain l db db' where m: "money_col (be_sql env) (w_locked w) = Some l"
    and c: "confirm_transaction (be_solana env) (sv_solana sv) (dr_signature req) = Some (Inr ())"
    and db: "db = (bs_db st)\<lparr>db_wallets := update_by w_id (w_id w) (set_money b l (time_col (be_sql env) (be_clock env 1))) (db_wallets (bs_db st))\<rparr>"
    and t: "create_transaction (be_sql env) (be_uuid env 0) (\<lambda>i. be_clock env (2 + i)) (deposit_transaction req w) db = (Inr t, db')"
    and st1: "bs_db st1 = snd (update_transaction_status (be_sql env) (\<lambda>i. be_clock env (4 + i)) (t_id t)
              TransactionStatusConfirmed (Some (dr_signature req)) db')"
    using process_deposit_Inr [OF first] w room(1) by auto
  obtain a where a: "money_col (be_sql env) (dr_amount req) = Some a" "0 < a"
    using create_transaction_Inr [OF t] by (auto simp: deposit_transaction_def)
  have sel: "select_by w_id (dr_wallet_id req) (db_wallets (bs_db st)) = Some w" using get_wallet_Inr [OF w] .
  have id: "w_id w = dr_wallet_id req" using select_by_SomeD [OF sel] by blast
  have "db_wallets (bs_db st1) = db_wallets db"
    using create_transaction_wallets(1) [of "be_sql env" "be_uuid env 0" "\<lambda>i. be_clock env (2 + i)" "deposit_transaction req w" db]
    unfolding t st1 by simp
  then have ws: "db_wallets (bs_db st1) = update_by w_id (w_id w) (set_money b l (time_col (be_sql env) (be_clock env 1))) (db_wallets (bs_db st))"
    by (simp add: db)
  then obtain w1 where w1: "get_wallet (be_sql env) (dr_wallet_id req) (bs_db st1) = Inr w1" "w_balance w1 = b" "w_id w1 = dr_wallet_id req"
    using sel id env(2) by (simp add: get_wallet_def select_update_same)
  have stored: "stored_ok (be_sql env) (bs_db st1)"
    using env(3) money_col_idem [OF env(1)] room(1) m
    by (auto simp: stored_ok_def ws dest!: set_update_by)
  have sq: "be_sql ?env = be_sql env" "be_solana ?env = be_solana env" "be_uuid ?env = u" by simp_all
  obtain t2 st2 where second: "process_deposit ?env sv req st1 = Some (Inr t2, st2)"
    using process_deposit_succeeds [of ?env st1 sv req w1 b2 a] env c stored w1 room(2) a fresh by auto
  obtain w2 where "only_wallet_changed (bs_db st1) (bs_db st2) (w_id w1) b2 (w_locked w1)"
    using deposit_credits [OF second] stored w1 room(2) by auto
  then show ?thesis
    using second env(2) w1(3) by (auto simp: only_wallet_changed_def get_wallet_def)
qed

lemma demo_deposits:
  "\<exists>t st. process_deposit demo_env (demo_service None) demo_deposit demo_state = Some (Inr t, st)"
  by (rule process_deposit_succeeds [of _ _ _ _ demo_wallet 15 5])
     (simp_all add: pg_env_ok demo_stored demo_confirms demo_deposit_def demo_get on_grid_def)

theorem deposit_credits_witness:
  "\<exists>t st. process_deposit demo_env (demo_service None) demo_deposit demo_state = Some (Inr t, st)
     \<and> only_wallet_changed demo_db (bs_db st) 1 15 2"
proof -
  obtain t st where r: "process_deposit demo_env (demo_service None) demo_deposit demo_state = Some (Inr t, st)"
    using demo_deposits by blast
  have "stored_ok (be_sql demo_env) (bs_db demo_state)" by (simp add: demo_stored)
  from deposit_credits [OF r this] r show ?thesis by (auto simp: demo_deposit_def demo_get on_grid_def)
qed

lemma status_ids:
  "t_id ` set (db_transactions (snd (update_transaction_status env clk i st sig db))) = t_id ` set (db_transactions db)"
  by (auto simp: update_transaction_status_def Let_def keys_update_by)

theorem deposit_replay_witness:
  "\<exists>t st u t2 st2 w2. process_deposit demo_env (demo_service None) demo_deposit demo_state = Some (Inr t, st)
     \<and> process_deposit (demo_env\<lparr>be_uuid := u\<rparr>) (demo_service None) demo_deposit st = Some (Inr t2, st2)
     \<and> get_wallet pg_env 1 (bs_db st2) = Inr w2 \<and> w_balance w2 = 20"
proof -
  obtain t st where r: "process_deposit demo_env (demo_service None) demo_deposit demo_state = Some (Inr t, st)"
    using demo_deposits by blast
  obtain db db' where t: "create_transaction pg_env 100 (\<lambda>i. be_clock demo_env (2 + i)) (deposit_transaction demo_deposit demo_wallet) db = (Inr t, db')"
    and db: "db_transactions db = [demo_transaction]"
    and st: "t_id ` set (db_transactions (bs_db st)) = t_id ` set (db_transactions db')"
    using process_deposit_Inr [OF r] by (auto simp: demo_deposit_def demo_get status_ids)
  have "t_id ` set (db_transactions db') = {3, 100}"
    using create_transaction_Inr [OF t] db by auto
  then have fresh: "(\<lambda>_. 5) 0 \<notin> t_id ` set (db_transactions (bs_db st))" unfolding st by simp
  show ?thesis
    using r deposit_replay [OF r _ _ _ _ _ _ fresh, of demo_wallet 15 20]
    by (simp add: pg_env_ok demo_stored demo_deposit_def demo_get on_grid_def) blast
qed

end
