(* ===== verification/GoText.thy ===== *)
theory GoText
  imports Prelude
begin

text \<open>
  The texts Go prints: decimal and hexadecimal numerals (\<open>%d\<close>), and the text of a UUID
  (\<open>uuid.UUID.String\<close>: 32 hexadecimal digits in groups of 8, 4, 4, 4 and 12). JSON values as they are
  after decoding into \<open>interface{}\<close>.
\<close>

definition digit :: "nat \<Rightarrow> char" where
  "digit n = (if n < 10 then char_of (48 + n) else char_of (87 + n))"

fun nat_text :: "nat \<Rightarrow> string" where
  "nat_text n = (if n < 10 then [digit n] else nat_text (n div 10) @ [digit (n mod 10)])"

declare nat_text.simps [simp del]

definition int_text :: "int \<Rightarrow> string" where
  "int_text i = (if i < 0 then ''-'' @ nat_text (nat (- i)) else nat_text (nat i))"

fun hex_text :: "nat \<Rightarrow> nat \<Rightarrow> string" where
  "hex_text 0 n = []"
| "hex_text (Suc k) n = hex_text k (n div 16) @ [digit (n mod 16)]"

definition uuid_text :: "uuid \<Rightarrow> string" where
  "uuid_text u = (let h = hex_text 32 (unat u) in
     take 8 h @ ''-'' @ take 4 (drop 8 h) @ ''-'' @ take 4 (drop 12 h) @ ''-'' @ take 4 (drop 16 h) @ ''-'' @ drop 20 h)"

datatype (plugins only: code) json =
  JNull | JBool bool | JNumber rat | JString string | JArray "json list" | JObject "(string \<times> json) list"

type_synonym json_map = "string \<rightharpoonup> json"

lemma length_hex_text [simp]: "length (hex_text k n) = k"
  by (induction k arbitrary: n) auto

lemma nat_text_nonempty [simp]: "nat_text n \<noteq> []"
  by (subst nat_text.simps) simp

lemma int_text_nonempty [simp]: "int_text i \<noteq> []"
  by (simp add: int_text_def)

lemma uuid_text_nonempty [simp]: "uuid_text u \<noteq> []"
  by (simp add: uuid_text_def Let_def)

lemma length_uuid_text: "length (uuid_text u) = 36"
  by (simp add: uuid_text_def Let_def)

lemma digit_inj: "digit m = digit n \<Longrightarrow> m < 16 \<Longrightarrow> n < 16 \<Longrightarrow> m = n"
proof -
  assume eq: "digit m = digit n" and lt: "m < 16" "n < 16"
  have val: "of_char (digit k) = (if k < 10 then 48 + k else 87 + k :: nat)" if "k < 16" for k
    using that by (auto simp: digit_def of_char_of)
  from eq have "(of_char (digit m) :: nat) = of_char (digit n)" by simp
  then show "m = n" using lt by (auto simp: val split: if_splits)
qed

lemma hex_text_inj: "hex_text k m = hex_text k n \<Longrightarrow> m < 16 ^ k \<Longrightarrow> n < 16 ^ k \<Longrightarrow> m = n"
proof (induction k arbitrary: m n)
  case (Suc k)
  then have "hex_text k (m div 16) = hex_text k (n div 16)" "digit (m mod 16) = digit (n mod 16)" by auto
  moreover have "m div 16 < 16 ^ k" "n div 16 < 16 ^ k"
    using Suc.prems by (auto simp: less_mult_imp_div_less mult.commute)
  ultimately have "m div 16 = n div 16" "m mod 16 = n mod 16"
    using Suc.IH digit_inj [of "m mod 16" "n mod 16"] by auto
  then show ?case by (metis div_mod_decomp)
qed simp

lemma uuid_text_inj: "uuid_text u = uuid_text v \<longleftrightarrow> u = v"
proof
  assume eq: "uuid_text u = uuid_text v"
  let ?h = "\<lambda>u. hex_text 32 (unat (u::uuid))"
  have split: "h = take 8 h @ take 4 (drop 8 h) @ take 4 (drop 12 h) @ take 4 (drop 16 h) @ drop 20 h" for h :: string
    by (rule nth_equalityI) (auto simp: nth_append min_def)
  from eq have "take 8 (?h u) = take 8 (?h v)" "take 4 (drop 8 (?h u)) = take 4 (drop 8 (?h v))"
    "take 4 (drop 12 (?h u)) = take 4 (drop 12 (?h v))" "take 4 (drop 16 (?h u)) = take 4 (drop 16 (?h v))"
    "drop 20 (?h u) = drop 20 (?h v)"
    by (auto simp: uuid_text_def Let_def append_eq_append_conv)
  then have "?h u = ?h v" by (metis split)
  moreover have "unat u < 16 ^ 32" "unat v < 16 ^ 32"
    using unsigned_less [of u, where ?'a = nat] unsigned_less [of v, where ?'a = nat] by simp_all
  ultimately show "u = v" using hex_text_inj [of 32 "unat u" "unat v"] by (simp only: word_unat_eq_iff)
qed simp

section \<open>Splitting and joining\<close>

fun join_with :: "string \<Rightarrow> string list \<Rightarrow> string" where
  "join_with sep [] = []"
| "join_with sep [x] = x"
| "join_with sep (x # xs) = x @ sep @ join_with sep xs"

text \<open>\<open>strings.Split\<close> with one character; there is always a part.\<close>

fun split_char :: "char \<Rightarrow> string \<Rightarrow> string list" where
  "split_char c [] = [[]]"
| "split_char c (x # s) = (if x = c then [] # split_char c s else (case split_char c s of [] \<Rightarrow> [[x]] | p # ps \<Rightarrow> (x # p) # ps))"

lemma split_char_nonempty [simp]: "split_char c s \<noteq> []"
  by (induction s) (auto split: list.split)

lemma split_char_none: "c \<notin> set s \<Longrightarrow> split_char c s = [s]"
  by (induction s) auto

lemma split_char_first: "c \<notin> set p \<Longrightarrow> split_char c (p @ c # s) = p # split_char c s"
  by (induction p) auto

lemma split_char_join:
  "xs \<noteq> [] \<Longrightarrow> \<forall>x \<in> set xs. c \<notin> set x \<Longrightarrow> split_char c (join_with [c] xs) = xs"
  by (induction "[c]" xs rule: join_with.induct) (auto simp: split_char_none split_char_first)

section \<open>Reading numbers\<close>

definition digit_value :: "char \<Rightarrow> int option" where
  "digit_value c = (let n = of_char c :: int in if 48 \<le> n \<and> n \<le> 57 then Some (n - 48) else None)"

fun digits_value :: "int \<Rightarrow> string \<Rightarrow> int option" where
  "digits_value acc [] = Some acc"
| "digits_value acc (c # cs) = (case digit_value c of None \<Rightarrow> None | Some d \<Rightarrow> digits_value (10 * acc + d) cs)"

text \<open>\<open>strconv.Atoi\<close>: an optional sign, at least one digit, the range of an int64.\<close>

definition atoi :: "string \<Rightarrow> int option" where
  "atoi s =
     (let (sign, ds) = (case s of [] \<Rightarrow> (1, []) | c # cs \<Rightarrow>
            if c = CHR ''-'' then (-1, cs) else if c = CHR ''+'' then (1, cs) else (1, s))
      in if ds = [] then None
         else case digits_value 0 ds of
           None \<Rightarrow> None
         | Some n \<Rightarrow> if - (2 ^ 63) \<le> sign * n \<and> sign * n < 2 ^ 63 then Some (sign * n) else None)"

text \<open>\<open>strconv.ParseUint\<close> in base ten: digits only, within the width.\<close>

definition parse_uint :: "nat \<Rightarrow> string \<Rightarrow> nat option" where
  "parse_uint bits s =
     (if s = [] then None
      else case digits_value 0 s of None \<Rightarrow> None | Some n \<Rightarrow> if n < 2 ^ bits then Some (nat n) else None)"

lemma digits_value_append:
  "digits_value a (s @ t) = (case digits_value a s of None \<Rightarrow> None | Some n \<Rightarrow> digits_value n t)"
  by (induction s arbitrary: a) (auto split: option.split)

lemma digit_value_digit: "d < 10 \<Longrightarrow> digit_value (digit d) = Some (int d)"
proof -
  assume d: "d < 10"
  have "(of_char (char_of (48 + d) :: char) :: int) = int (of_char (char_of (48 + d) :: char))" by (simp only: of_nat_of_char)
  also have "\<dots> = 48 + int d" using d by (simp add: of_char_of)
  finally show ?thesis using d by (simp add: digit_value_def digit_def Let_def)
qed

lemma digits_value_nat_text: "digits_value 0 (nat_text n) = Some (int n)"
proof (induction n rule: nat_text.induct)
  case (1 n)
  show ?case
  proof (cases "n < 10")
    case True
    then show ?thesis by (simp add: nat_text.simps [of n] digit_value_digit)
  next
    case False
    then have "digits_value 0 (nat_text n) = Some (10 * int (n div 10) + int (n mod 10))"
      using 1 by (simp add: nat_text.simps [of n] digits_value_append digit_value_digit)
    moreover have "int (10 * (n div 10) + n mod 10) = int n" by simp
    ultimately show ?thesis by (simp only: of_nat_add of_nat_mult of_nat_numeral)
  qed
qed

lemma parse_uint_nat_text: "n < 2 ^ bits \<Longrightarrow> parse_uint bits (nat_text n) = Some n"
proof -
  assume "n < 2 ^ bits"
  then have "int n < 2 ^ bits" by (metis of_nat_less_iff of_nat_numeral of_nat_power)
  then show ?thesis by (simp add: parse_uint_def digits_value_nat_text)
qed

text \<open>The number \<open>strconv.ParseInt\<close> returns beside its error, for callers that do not look at the error: zero for a text that is no number, the
  nearest int64 for one out of range.\<close>

definition int_despite_error :: "string \<Rightarrow> int" where
  "int_despite_error s =
     (let (sign, ds) = (case s of [] \<Rightarrow> (1, []) | c # cs \<Rightarrow>
            if c = CHR ''-'' then (-1, cs) else if c = CHR ''+'' then (1, cs) else (1, s))
      in if ds = [] then 0
         else case digits_value 0 ds of
           None \<Rightarrow> 0
         | Some n \<Rightarrow> max (- (2 ^ 63)) (min (2 ^ 63 - 1) (sign * n)))"

lemma digits_value_digits: "digits_value a s \<noteq> None \<Longrightarrow> c \<in> set s \<Longrightarrow> digit_value c \<noteq> None"
  by (induction s arbitrary: a) (auto split: option.splits)

lemma nat_text_digits: "c \<in> set (nat_text n) \<Longrightarrow> digit_value c \<noteq> None"
  using digits_value_digits [of 0 "nat_text n" c] by (simp add: digits_value_nat_text)

lemma nat_text_inj: "nat_text m = nat_text n \<longleftrightarrow> m = n"
  by (metis digits_value_nat_text option.inject of_nat_eq_iff)

lemma int_despite_error_bad:
  assumes "c \<in> set s" "digit_value c = None" "c \<noteq> CHR ''-''" "c \<noteq> CHR ''+''"
  shows "int_despite_error s = 0"
proof -
  have "digits_value 0 ds = None" if "c \<in> set ds" for ds using digits_value_digits that assms(2) by blast
  with assms(1,3,4) show ?thesis by (cases s) (auto simp: int_despite_error_def Let_def simp del: digits_value.simps)
qed

end
