(* ===== verification/BillingHandlers.thy ===== *)
theory BillingHandlers
  imports BillingDemo GoText
begin

text \<open>
  The HTTP handlers of the billing service (\<open>internal/handlers/billing.go\<close>, \<open>wallet.go\<close>). A handler is
  modelled from the decoded request on: a body is either a decoding error or the request, a path
  parameter is its text, the query is a function from names to texts (the empty text when absent).
  \<open>encoding/json\<close> and \<open>uuid.Parse\<close> are arguments. The response is a status with the payload, or an
  error with status, message and details.
\<close>

datatype 'a http_response =
    JsonResponse nat 'a
  | ErrorResponse nat string "string option"

definition error_response :: "string \<Rightarrow> go_error \<Rightarrow> 'a http_response" where
  "error_response fallback e = ErrorResponse (handler_status e) (handler_message fallback e) (Some (go_error_text e))"

definition invalid_body :: "string \<Rightarrow> 'a http_response" where
  "invalid_body m = ErrorResponse 400 ''Invalid request body'' (Some m)"

fun response_status :: "'a http_response \<Rightarrow> nat" where
  "response_status (JsonResponse s _) = s"
| "response_status (ErrorResponse s _ _) = s"

section \<open>Query parameters\<close>

definition parse_limit :: "string \<Rightarrow> int" where
  "parse_limit q =
     (if q = [] then 50
      else case atoi q of None \<Rightarrow> 50 | Some n \<Rightarrow> if n > 0 \<and> n \<le> 1000 then n else 50)"

definition parse_offset :: "string \<Rightarrow> int" where
  "parse_offset q =
     (if q = [] then 0
      else case atoi q of None \<Rightarrow> 0 | Some n \<Rightarrow> if n \<ge> 0 then n else 0)"

section \<open>Wallet handlers\<close>

definition handle_create_wallet ::
    "billing_env \<Rightarrow> billing_service \<Rightarrow> (string + wallet_create_request) \<Rightarrow> billing_state
     \<Rightarrow> (wallet http_response \<times> billing_state) option" where
  "handle_create_wallet env sv body st =
     (case body of Inl m \<Rightarrow> Some (invalid_body m, st) | Inr req \<Rightarrow>
      map_option (\<lambda>(r, st'). (case r of
          Inl e \<Rightarrow> error_response ''Failed to create wallet'' e
        | Inr w \<Rightarrow> JsonResponse 201 w, st')) (create_wallet env sv req st))"

definition handle_get_wallet_balance ::
    "(string \<Rightarrow> string + uuid) \<Rightarrow> billing_env \<Rightarrow> billing_service \<Rightarrow> string \<Rightarrow> billing_state
     \<Rightarrow> balance_response http_response \<times> billing_state" where
  "handle_get_wallet_balance parse env sv wallet_id st =
     (case parse wallet_id of Inl m \<Rightarrow> (ErrorResponse 400 ''Invalid wallet ID'' (Some m), st) | Inr i \<Rightarrow>
      let (r, st') = get_wallet_balance env sv i st
      in (case r of Inl e \<Rightarrow> error_response ''Failed to get wallet balance'' e | Inr b \<Rightarrow> JsonResponse 200 b, st'))"

definition handle_deposit_tokens ::
    "(string \<Rightarrow> string + uuid) \<Rightarrow> billing_env \<Rightarrow> billing_service \<Rightarrow> string \<Rightarrow> (string + deposit_request) \<Rightarrow> billing_state
     \<Rightarrow> (transaction http_response \<times> billing_state) option" where
  "handle_deposit_tokens parse env sv wallet_id body st =
     (case parse wallet_id of Inl m \<Rightarrow> Some (ErrorResponse 400 ''Invalid wallet ID'' (Some m), st) | Inr i \<Rightarrow>
     (case body of Inl m \<Rightarrow> Some (invalid_body m, st) | Inr req \<Rightarrow>
      map_option (\<lambda>(r, st'). (case r of
          Inl e \<Rightarrow> error_response ''Failed to process deposit'' e
        | Inr t \<Rightarrow> JsonResponse 200 t, st')) (process_deposit env sv (req\<lparr>dr_wallet_id := i\<rparr>) st)))"

definition handle_withdraw_tokens ::
    "(string \<Rightarrow> string + uuid) \<Rightarrow> billing_env \<Rightarrow> billing_service \<Rightarrow> string \<Rightarrow> (string + withdrawal_request) \<Rightarrow> billing_state
     \<Rightarrow> transaction http_response \<times> billing_state" where
  "handle_withdraw_tokens parse env sv wallet_id body st =
     (case parse wallet_id of Inl m \<Rightarrow> (ErrorResponse 400 ''Invalid wallet ID'' (Some m), st) | Inr i \<Rightarrow>
     (case body of Inl m \<Rightarrow> (invalid_body m, st) | Inr req \<Rightarrow>
      let (r, st') = process_withdrawal env sv (req\<lparr>wr_wallet_id := i\<rparr>) st
      in (case r of Inl e \<Rightarrow> error_response ''Failed to process withdrawal'' e | Inr t \<Rightarrow> JsonResponse 200 t, st')))"

definition handle_transaction_history ::
    "(string \<Rightarrow> string + uuid) \<Rightarrow> string \<Rightarrow> (string \<Rightarrow> string) \<Rightarrow> transaction_history_response http_response" where
  "handle_transaction_history parse wallet_id query =
     (case parse wallet_id of Inl m \<Rightarrow> ErrorResponse 400 ''Invalid wallet ID'' (Some m) | Inr i \<Rightarrow>
      JsonResponse 200 (get_transaction_history
        \<lparr>thr_wallet_id = Some i, thr_type = None, thr_status = None, thr_start = None, thr_end = None,
         thr_limit = parse_limit (query ''limit''), thr_offset = parse_offset (query ''offset'')\<rparr>))"

definition handle_get_user_wallet :: "billing_env \<Rightarrow> string \<Rightarrow> billing_state \<Rightarrow> wallet http_response" where
  "handle_get_user_wallet env user st =
     (if user = [] then ErrorResponse 400 ''User ID is required'' None
      else case get_user_wallet env user st of
        Inl e \<Rightarrow> error_response ''Failed to get user wallet'' e
      | Inr w \<Rightarrow> JsonResponse 200 w)"

definition handle_get_user_balance ::
    "billing_env \<Rightarrow> billing_service \<Rightarrow> string \<Rightarrow> billing_state \<Rightarrow> balance_response http_response \<times> billing_state" where
  "handle_get_user_balance env sv user st =
     (if user = [] then (ErrorResponse 400 ''User ID is required'' None, st)
      else let (r, st') = get_user_balance env sv user st
           in (case r of Inl e \<Rightarrow> error_response ''Failed to get user balance'' e | Inr b \<Rightarrow> JsonResponse 200 b, st'))"

section \<open>Session handlers\<close>

definition handle_dispute_session ::
    "billing_env \<Rightarrow> billing_service \<Rightarrow> (string + uuid \<times> string) \<Rightarrow> billing_state \<Rightarrow> string http_response \<times> billing_state" where
  "handle_dispute_session env sv body st =
     (case body of Inl m \<Rightarrow> (invalid_body m, st) | Inr (i, reason) \<Rightarrow>
      let (r, st') = dispute_session env sv i reason st
      in (case r of Inl e \<Rightarrow> ErrorResponse 500 ''Failed to open dispute'' (Some (go_error_text e)) | Inr sig \<Rightarrow> JsonResponse 200 sig, st'))"

definition handle_start_rental_session ::
    "billing_env \<Rightarrow> billing_service \<Rightarrow> (string + session_start_request) \<Rightarrow> billing_state
     \<Rightarrow> session_response http_response \<times> billing_state" where
  "handle_start_rental_session env sv body st =
     (case body of Inl m \<Rightarrow> (invalid_body m, st) | Inr req \<Rightarrow>
      let (r, st') = start_rental_session env sv req st
      in (case r of Inl e \<Rightarrow> error_response ''Failed to start rental session'' e | Inr s \<Rightarrow> JsonResponse 201 s, st'))"

definition handle_end_rental_session ::
    "billing_env \<Rightarrow> billing_service \<Rightarrow> (string + session_end_request) \<Rightarrow> billing_state
     \<Rightarrow> session_response http_response \<times> billing_state" where
  "handle_end_rental_session env sv body st =
     (case body of Inl m \<Rightarrow> (invalid_body m, st) | Inr req \<Rightarrow>
      let (r, st') = end_rental_session env sv req st
      in (case r of Inl e \<Rightarrow> error_response ''Failed to end rental session'' e | Inr s \<Rightarrow> JsonResponse 200 s, st'))"

definition handle_usage_update ::
    "billing_env \<Rightarrow> (string + usage_update_request) \<Rightarrow> billing_state \<Rightarrow> (string \<times> string) list http_response \<times> billing_state" where
  "handle_usage_update env body st =
     (case body of Inl m \<Rightarrow> (invalid_body m, st) | Inr req \<Rightarrow>
      let (r, st') = process_usage_update env req st
      in (case r of
            Inl e \<Rightarrow> error_response ''Failed to process usage update'' e
          | Inr _ \<Rightarrow> JsonResponse 200 [(''message'', ''Usage update processed successfully''), (''status'', ''success'')], st'))"

definition handle_current_usage ::
    "(string \<Rightarrow> string + uuid) \<Rightarrow> billing_env \<Rightarrow> string \<Rightarrow> billing_state \<Rightarrow> session_response http_response" where
  "handle_current_usage parse env session_id st =
     (case parse session_id of Inl m \<Rightarrow> ErrorResponse 400 ''Invalid session ID'' (Some m) | Inr i \<Rightarrow>
     (case get_current_usage env i st of
        Inl e \<Rightarrow> error_response ''Failed to get current usage'' e
      | Inr u \<Rightarrow> JsonResponse 200 u))"

definition history_request :: "(string \<Rightarrow> string + uuid) \<Rightarrow> (string \<Rightarrow> string) \<Rightarrow> billing_history_request" where
  "history_request parse query =
     \<lparr>bhr_user_id = (if query ''user_id'' = [] then None else Some (query ''user_id'')),
      bhr_provider_id = (if query ''provider_id'' = [] then None
        else case parse (query ''provider_id'') of Inl _ \<Rightarrow> None | Inr p \<Rightarrow> Some p),
      bhr_start_date = None, bhr_end_date = None,
      bhr_limit = parse_limit (query ''limit''), bhr_offset = parse_offset (query ''offset'')\<rparr>"

definition handle_billing_history ::
    "(string \<Rightarrow> string + uuid) \<Rightarrow> billing_env \<Rightarrow> (string \<Rightarrow> string) \<Rightarrow> billing_state
     \<Rightarrow> billing_history_response http_response" where
  "handle_billing_history parse env query st =
     (case billing_history env (history_request parse query) st of
        Inl e \<Rightarrow> ErrorResponse 500 ''Failed to get billing history'' (Some (go_error_text e))
      | Inr h \<Rightarrow> JsonResponse 200 h)"

section \<open>Pricing and provider handlers\<close>

text \<open>
  The decoded request is handed to the service as a pointer to a struct, which is not the map the
  service looks for: of the request nothing arrives.
\<close>

definition handle_calculate_pricing ::
    "billing_env \<Rightarrow> billing_service \<Rightarrow> (string + pricing_request) \<Rightarrow> pricing_response http_response" where
  "handle_calculate_pricing env sv body =
     (case body of Inl m \<Rightarrow> invalid_body m | Inr req \<Rightarrow>
     (case quote_pricing env sv DynStruct of
        Inl e \<Rightarrow> ErrorResponse 500 ''Failed to calculate pricing'' (Some (go_error_text e))
      | Inr p \<Rightarrow> JsonResponse 200 p))"

definition handle_pricing_rates :: "billing_service \<Rightarrow> pricing_rates http_response" where
  "handle_pricing_rates sv = JsonResponse 200 (get_pricing_rates sv)"

definition handle_provider_earnings ::
    "(string \<Rightarrow> string + uuid) \<Rightarrow> string \<Rightarrow> provider_earnings_response http_response" where
  "handle_provider_earnings parse provider_id =
     (case parse provider_id of Inl m \<Rightarrow> ErrorResponse 400 ''Invalid provider ID'' (Some m) | Inr i \<Rightarrow>
      JsonResponse 200 \<lparr>pep_provider_id = i, pep_total_earnings = 0, pep_pending_earnings = 0, pep_paid_earnings = 0,
        pep_total_sessions = 0, pep_total_hours = 0, pep_avg_hourly_rate = 0, pep_period = ''all_time''\<rparr>)"

record payout_request =
  pq_provider_wallet_id :: uuid
  pq_amount :: decimal
  pq_to_address :: string

definition handle_request_payout ::
    "(string \<Rightarrow> string + uuid) \<Rightarrow> string \<Rightarrow> (string + payout_request) \<Rightarrow> (payout_request \<times> string) http_response" where
  "handle_request_payout parse provider_id body =
     (case parse provider_id of Inl m \<Rightarrow> ErrorResponse 400 ''Invalid provider ID'' (Some m) | Inr i \<Rightarrow>
     (case body of Inl m \<Rightarrow> invalid_body m | Inr req \<Rightarrow>
      JsonResponse 202 (req\<lparr>pq_provider_wallet_id := i\<rparr>, ''pending'')))"

definition handle_get_provider_rates :: "(string \<Rightarrow> string + uuid) \<Rightarrow> string \<Rightarrow> (uuid \<times> string) http_response" where
  "handle_get_provider_rates parse provider_id =
     (case parse provider_id of Inl m \<Rightarrow> ErrorResponse 400 ''Invalid provider ID'' (Some m) | Inr i \<Rightarrow>
      JsonResponse 501 (i, ''coming_soon''))"

definition handle_set_provider_rates :: "(string \<Rightarrow> string + uuid) \<Rightarrow> string \<Rightarrow> (uuid \<times> string) http_response" where
  "handle_set_provider_rates parse provider_id =
     (case parse provider_id of Inl m \<Rightarrow> ErrorResponse 400 ''Invalid provider ID'' (Some m) | Inr i \<Rightarrow>
      JsonResponse 501 (i, ''coming_soon''))"

section \<open>What a client sees\<close>

lemma parse_limit_range: "1 \<le> parse_limit q \<and> parse_limit q \<le> 1000"
  by (auto simp: parse_limit_def split: option.splits)

lemma parse_offset_nonneg: "0 \<le> parse_offset q"
  by (auto simp: parse_offset_def split: option.splits)

text \<open>Whatever the query says, a page of the history has between one and a thousand records and a non-negative
  offset, so the database never refuses it for its bounds: with the database working the answer is 200.\<close>

theorem history_page_bounded:
  assumes "\<not> sql_fail (be_sql env) OpCountBilling" "\<not> sql_fail (be_sql env) OpSelectBilling"
  shows "\<exists>h. handle_billing_history parse env query st = JsonResponse 200 h \<and> length (bhp_records h) \<le> 1000
    \<and> 1 \<le> bhp_limit h \<and> bhp_limit h \<le> 1000 \<and> 0 \<le> bhp_offset h"
proof -
  have l: "1 \<le> parse_limit (query ''limit'')" "parse_limit (query ''limit'') \<le> 1000" "0 \<le> parse_offset (query ''offset'')"
    using parse_limit_range parse_offset_nonneg by blast+
  have n: "nat (parse_limit (query ''limit'')) \<le> 1000" using l(2) by simp
  show ?thesis
    using assms l n
    by (auto simp: handle_billing_history_def billing_history_def get_billing_history_def history_request_def Let_def
        delivered_def split: option.split)
qed

theorem history_page_bounded_witness:
  "\<exists>h. handle_billing_history (\<lambda>_. Inl ''bad'') demo_env (\<lambda>k. if k = ''limit'' then ''5000'' else []) demo_state = JsonResponse 200 h
     \<and> bhp_limit h \<le> 1000"
  using history_page_bounded [of demo_env "\<lambda>_. Inl ''bad''" "\<lambda>k. if k = ''limit'' then ''5000'' else []" demo_state] by auto

text \<open>An unknown wallet, user or session is answered with 500: the store returns the bare sentinel, and the handlers
  look only at errors built as billing errors, although those map the same conditions to 404.\<close>

theorem missing_is_internal_error:
  assumes "\<not> sql_fail (be_sql env) OpSelectWallet" "\<not> sql_fail (be_sql env) OpSelectUserWallet" "\<not> sql_fail (be_sql env) OpSelectSession"
  shows "(parse a = Inr i \<longrightarrow> select_by w_id i (db_wallets (bs_db st)) = None \<longrightarrow>
        response_status (fst (handle_get_wallet_balance parse env sv a st)) = 500)
    \<and> (u \<noteq> [] \<longrightarrow> select_by (\<lambda>w. (w_user_id w, w_type w)) (u, WalletTypeUser) (db_wallets (bs_db st)) = None \<longrightarrow>
        response_status (handle_get_user_wallet env u st) = 500)
    \<and> (parse a = Inr i \<longrightarrow> select_by rs_id i (db_sessions (bs_db st)) = None \<longrightarrow>
        response_status (handle_current_usage parse env a st) = 500)
    \<and> handler_status (new_wallet_not_found_error t) = 404 \<and> handler_status (new_session_not_found_error t) = 404"
  using assms
  by (auto simp: handle_get_wallet_balance_def get_wallet_balance_def get_wallet_def error_response_def
      handle_get_user_wallet_def get_user_wallet_def get_wallet_by_user_id_def
      handle_current_usage_def get_current_usage_def get_rental_session_def)

theorem missing_is_internal_error_witness:
  "response_status (fst (handle_get_wallet_balance (\<lambda>_. Inr 99) demo_env (demo_service None) ''99'' demo_state)) = 500
   \<and> response_status (handle_get_user_wallet demo_env ''bob'' demo_state) = 500"
  using missing_is_internal_error [of demo_env "\<lambda>_. Inr 99" "''99''" 99 demo_state "demo_service None" "''bob''" "[]"] by simp

end
