(* ===== verification/Jobs.thy ===== *)
theory Jobs
  imports GoText
begin

text \<open>
  The scheduler's data (\<open>internal/models\<close> of the scheduler): the job as it arrives on the queue, the
  scheduler's own view of it with its state, the record the store keeps (some fields of the job beside
  the job itself) and the task sent to a provider. The zero time of Go is the first of January of year 1.
\<close>

record job =
  j_id :: string
  j_user_id :: string
  j_type :: string
  j_name :: string
  j_description :: string
  j_priority :: int
  j_submitted_at :: time
  j_gpu_type :: string
  j_gpu_count :: int
  j_min_vram :: u64
  j_min_power :: u64
  j_params :: "json_map option"
  j_tags :: "string list"

datatype job_state =
    JobStatePending | JobStateSearching | JobStateAssigning | JobStateDispatched
  | JobStateRunning | JobStateCompleted | JobStateFailed | JobStateCancelled

definition job_state_text :: "job_state \<Rightarrow> string" where
  "job_state_text s = (case s of
      JobStatePending \<Rightarrow> ''pending'' | JobStateSearching \<Rightarrow> ''searching'' | JobStateAssigning \<Rightarrow> ''assigning''
    | JobStateDispatched \<Rightarrow> ''dispatched'' | JobStateRunning \<Rightarrow> ''running'' | JobStateCompleted \<Rightarrow> ''completed''
    | JobStateFailed \<Rightarrow> ''failed'' | JobStateCancelled \<Rightarrow> ''cancelled'')"

record internal_job =
  ij_job :: job
  ij_state :: job_state
  ij_provider_id :: string
  ij_attempts :: int
  ij_last_error :: string
  ij_received_at :: time
  ij_updated_at :: time

definition new_internal_job :: "time \<Rightarrow> job \<Rightarrow> internal_job" where
  "new_internal_job now j =
     \<lparr>ij_job = j, ij_state = JobStatePending, ij_provider_id = [], ij_attempts = 0, ij_last_error = [],
      ij_received_at = now, ij_updated_at = now\<rparr>"

record job_record =
  jr_job_id :: string
  jr_user_id :: string
  jr_job_details :: job
  jr_state :: job_state
  jr_provider_id :: string
  jr_attempts :: int
  jr_last_error :: string
  jr_received_at :: time
  jr_updated_at :: time
  jr_submitted_at :: time
  jr_job_name :: string
  jr_job_type :: string
  jr_gpu_type :: string
  jr_priority :: int

definition zero_time :: time where
  "zero_time = - 62135596800 * second"

definition default_to :: "string \<Rightarrow> string \<Rightarrow> string" where
  "default_to d s = (if s = [] then d else s)"

definition restored_job :: "job_record \<Rightarrow> job" where
  "restored_job r =
     (let j = (jr_job_details r)\<lparr>j_id := jr_job_id r, j_user_id := jr_user_id r\<rparr>;
          j = j\<lparr>j_id := default_to (jr_job_id r) (j_id j)\<rparr>;
          j = j\<lparr>j_user_id := default_to (jr_user_id r) (j_user_id j)\<rparr>;
          j = j\<lparr>j_name := default_to (jr_job_name r) (j_name j)\<rparr>;
          j = j\<lparr>j_type := default_to (jr_job_type r) (j_type j)\<rparr>;
          j = (if j_gpu_type j = [] \<and> jr_gpu_type r \<noteq> [] then j\<lparr>j_gpu_type := jr_gpu_type r\<rparr> else j);
          j = (if j_priority j = 0 \<and> jr_priority r \<noteq> 0 then j\<lparr>j_priority := jr_priority r\<rparr> else j)
      in if j_submitted_at j = zero_time \<and> jr_submitted_at r \<noteq> zero_time
         then j\<lparr>j_submitted_at := jr_submitted_at r\<rparr> else j)"

definition to_internal :: "job_record \<Rightarrow> internal_job" where
  "to_internal r =
     \<lparr>ij_job = restored_job r, ij_state = jr_state r, ij_provider_id = jr_provider_id r, ij_attempts = jr_attempts r,
      ij_last_error = jr_last_error r, ij_received_at = jr_received_at r, ij_updated_at = jr_updated_at r\<rparr>"

definition from_internal :: "internal_job \<Rightarrow> job_record" where
  "from_internal ij =
     \<lparr>jr_job_id = j_id (ij_job ij), jr_user_id = j_user_id (ij_job ij), jr_job_details = ij_job ij,
      jr_state = ij_state ij, jr_provider_id = ij_provider_id ij, jr_attempts = ij_attempts ij,
      jr_last_error = ij_last_error ij, jr_received_at = ij_received_at ij, jr_updated_at = ij_updated_at ij,
      jr_submitted_at = j_submitted_at (ij_job ij), jr_job_name = j_name (ij_job ij), jr_job_type = j_type (ij_job ij),
      jr_gpu_type = j_gpu_type (ij_job ij), jr_priority = j_priority (ij_job ij)\<rparr>"

record task =
  tk_job_id :: string
  tk_user_id :: string
  tk_job_type :: string
  tk_job_name :: string
  tk_job_params :: "json_map option"
  tk_gpu_type_needed :: string
  tk_gpu_count_needed :: int
  tk_assigned_provider_id :: string
  tk_dispatched_at :: time

definition new_task :: "time \<Rightarrow> job \<Rightarrow> string \<Rightarrow> task" where
  "new_task now j provider =
     \<lparr>tk_job_id = j_id j, tk_user_id = j_user_id j, tk_job_type = j_type j, tk_job_name = j_name j,
      tk_job_params = j_params j, tk_gpu_type_needed = j_gpu_type j, tk_gpu_count_needed = j_gpu_count j,
      tk_assigned_provider_id = provider, tk_dispatched_at = now\<rparr>"

section \<open>A record gives back the job it was made of\<close>

lemma default_to_same [simp]: "default_to s s = s"
  by (simp add: default_to_def)

lemma restored_from_internal: "restored_job (from_internal ij) = ij_job ij"
  by (simp add: restored_job_def from_internal_def Let_def)

lemma restored_job_id [simp]: "j_id (restored_job r) = jr_job_id r" "j_user_id (restored_job r) = jr_user_id r"
  by (simp_all add: restored_job_def Let_def default_to_def)

lemma to_from_internal [simp]: "to_internal (from_internal ij) = ij"
  by (simp add: to_internal_def restored_from_internal) (simp add: from_internal_def)

lemma from_internal_simps [simp]:
  "jr_job_id (from_internal ij) = j_id (ij_job ij)" "jr_user_id (from_internal ij) = j_user_id (ij_job ij)"
  "jr_state (from_internal ij) = ij_state ij" "jr_attempts (from_internal ij) = ij_attempts ij"
  "jr_provider_id (from_internal ij) = ij_provider_id ij" "jr_last_error (from_internal ij) = ij_last_error ij"
  by (simp_all add: from_internal_def)

lemma to_internal_simps [simp]:
  "ij_state (to_internal r) = jr_state r" "ij_attempts (to_internal r) = jr_attempts r"
  "ij_provider_id (to_internal r) = jr_provider_id r" "ij_job (to_internal r) = restored_job r"
  by (simp_all add: to_internal_def)

lemma new_internal_job_simps [simp]:
  "ij_job (new_internal_job now j) = j" "ij_state (new_internal_job now j) = JobStatePending"
  "ij_attempts (new_internal_job now j) = 0" "ij_provider_id (new_internal_job now j) = []"
  by (simp_all add: new_internal_job_def)

end
