(* ===== verification/Matching.thy ===== *)
theory Matching
  imports Jobs
begin

text \<open>
  How the scheduler finds a provider for a job: the provider records it reads from the registry
  (\<open>internal/clients/provider_registry.go\<close>) and the matching of \<open>internal/scheduler/consumer.go\<close>, with the
  choice of the GPU a job is billed against. Consul and the registry's HTTP server are parameters
  (\<open>registry_env\<close>): what a discovery finds, which instance the random choice takes and what a
  request is answered with.
\<close>

section \<open>Providers\<close>

datatype provider_status = StatusIdle | StatusBusy | StatusOffline | StatusMaintenance | StatusError | StatusOther string

record gpu_detail =
  g_model_name :: string
  g_vram :: u64
  g_driver_version :: string
  g_power :: u32

record listed_provider =
  lp_id :: uuid
  lp_owner_id :: string
  lp_name :: string
  lp_hostname :: string
  lp_ip_address :: string
  lp_status :: provider_status
  lp_gpus :: "gpu_detail list"
  lp_location :: string
  lp_registered_at :: time
  lp_last_seen_at :: time
  lp_metadata :: "json_map option"

section \<open>The registry client\<close>

record service_entry =
  se_address :: string
  se_node_address :: string
  se_port :: int

datatype http_answer = HttpFailed string | HttpStatus nat "string + listed_provider list"

record registry_env =
  re_service :: string
  re_discover :: "string + service_entry list"
  re_pick :: nat
  re_request :: "string \<Rightarrow> string option"
  re_get :: "string \<Rightarrow> http_answer"

definition service_url :: "service_entry \<Rightarrow> string" where
  "service_url e =
     ''http://'' @ (if se_address e = [] then se_node_address e else se_address e) @ '':'' @ int_text (se_port e)"

text \<open>The state of the client is the address it remembers, empty when it remembers none.\<close>

definition get_service_address :: "registry_env \<Rightarrow> string \<Rightarrow> (string + string) \<times> string" where
  "get_service_address env cached =
     (if cached \<noteq> [] then (Inr cached, cached)
      else case re_discover env of
        Inl e \<Rightarrow> (Inl (''failed to discover '' @ re_service env @ '' service: '' @ e), cached)
      | Inr es \<Rightarrow>
          if es = [] then (Inl (''no healthy instances found for '' @ re_service env @ '' service''), cached)
          else (let u = service_url (es ! (re_pick env mod length es)) in (Inr u, u)))"

definition invalidate_cached_address :: "string \<Rightarrow> string" where
  "invalidate_cached_address cached = []"

definition list_available_providers :: "registry_env \<Rightarrow> string \<Rightarrow> (string + listed_provider list) \<times> string" where
  "list_available_providers env cached =
     (case get_service_address env cached of (Inl e, c) \<Rightarrow> (Inl e, c) | (Inr base, c) \<Rightarrow>
       case re_request env (base @ ''/providers'') of
         Some e \<Rightarrow> (Inl (''failed to create request: '' @ e), c)
       | None \<Rightarrow>
       (case re_get env (base @ ''/providers'') of
          HttpFailed e \<Rightarrow> (Inl (''failed to get provider list: '' @ e), invalidate_cached_address c)
        | HttpStatus code body \<Rightarrow>
            if code \<noteq> 200
            then (Inl (''provider registry service returned status '' @ nat_text code @ '' for provider list''),
                  invalidate_cached_address c)
            else (case body of Inl e \<Rightarrow> (Inl (''failed to decode provider list: '' @ e), c) | Inr ps \<Rightarrow> (Inr ps, c))))"

section \<open>Matching\<close>

definition estimate_power_from_model :: "string \<Rightarrow> u32" where
  "estimate_power_from_model model =
     (let m = to_lower model in
      if str_contains m ''h100'' then 700
      else if str_contains m ''4090'' then 450
      else if str_contains m ''a100'' then 400
      else if str_contains m ''4080'' \<or> str_contains m ''3090'' then 350
      else if str_contains m ''a6000'' \<or> str_contains m ''l40'' then 300
      else 250)"

definition find_provider_gpu_type :: "listed_provider \<Rightarrow> string" where
  "find_provider_gpu_type p = (if length (lp_gpus p) > 0 then g_model_name (lp_gpus p ! 0) else ''unknown-gpu'')"

definition gpu_power :: "gpu_detail \<Rightarrow> u32" where
  "gpu_power g = (if g_power g = 0 then estimate_power_from_model (g_model_name g) else g_power g)"

fun best_of :: "(gpu_detail \<Rightarrow> 'a::linorder) \<Rightarrow> 'a \<Rightarrow> gpu_detail list \<Rightarrow> 'a" where
  "best_of f best [] = best"
| "best_of f best (g # gs) = best_of f (if f g > best then f g else best) gs"

definition best_provider_vram :: "listed_provider \<Rightarrow> u64" where
  "best_provider_vram p = best_of g_vram 0 (lp_gpus p)"

definition best_provider_power :: "listed_provider \<Rightarrow> u32" where
  "best_provider_power p = best_of gpu_power 0 (lp_gpus p)"

definition suitable :: "job \<Rightarrow> listed_provider \<Rightarrow> bool" where
  "suitable j p =
     (if lp_status p \<noteq> StatusIdle then False
      else if length (lp_gpus p) = 0 then False
      else if j_gpu_type j \<noteq> [] \<and> \<not> equal_fold (find_provider_gpu_type p) (j_gpu_type j) then False
      else if j_gpu_count j > 0 \<and> int (length (lp_gpus p)) < j_gpu_count j then False
      else if j_min_vram j > 0 \<and> best_provider_vram p < j_min_vram j then False
      else if j_min_power j > 0 \<and> (ucast (best_provider_power p) :: u64) < j_min_power j then False
      else True)"

definition find_suitable_provider :: "job \<Rightarrow> listed_provider list \<Rightarrow> listed_provider option" where
  "find_suitable_provider j ps = find (suitable j) ps"

definition meets_floors :: "u64 \<Rightarrow> u64 \<Rightarrow> gpu_detail \<Rightarrow> bool" where
  "meets_floors min_vram min_power g \<longleftrightarrow>
     \<not> (min_vram > 0 \<and> g_vram g < min_vram) \<and> \<not> (min_power > 0 \<and> (ucast (gpu_power g) :: u64) < min_power)"

fun billing_scan :: "u64 \<Rightarrow> u64 \<Rightarrow> gpu_detail option \<Rightarrow> gpu_detail list \<Rightarrow> gpu_detail option" where
  "billing_scan mv mp best [] = best"
| "billing_scan mv mp best (g # gs) =
     (if \<not> meets_floors mv mp g then billing_scan mv mp best gs
      else case best of
        None \<Rightarrow> billing_scan mv mp (Some g) gs
      | Some b \<Rightarrow> billing_scan mv mp (if g_vram g > g_vram b then Some g else best) gs)"

definition select_billing_gpu :: "listed_provider \<Rightarrow> u64 \<Rightarrow> u64 \<Rightarrow> gpu_detail option" where
  "select_billing_gpu p mv mp =
     (case billing_scan mv mp None (lp_gpus p) of
        Some g \<Rightarrow> Some g
      | None \<Rightarrow> if length (lp_gpus p) > 0 then Some (lp_gpus p ! 0) else None)"

text \<open>What the job is billed for: the model, the memory and the power of that GPU, with the defaults of \<open>scheduleJob\<close>.\<close>

definition billing_specs :: "listed_provider \<Rightarrow> job \<Rightarrow> string \<times> u64 \<times> u32" where
  "billing_specs p j =
     (case select_billing_gpu p (j_min_vram j) (j_min_power j) of
        None \<Rightarrow> (find_provider_gpu_type p, 8192, 250)
      | Some g \<Rightarrow> (if g_model_name g \<noteq> [] then g_model_name g else find_provider_gpu_type p,
                   if g_vram g > 0 then g_vram g else 8192,
                   if g_power g > 0 then g_power g else estimate_power_from_model (g_model_name g)))"

section \<open>The best of a list\<close>

lemma best_of_ge: "best \<le> best_of f best gs" "g \<in> set gs \<Longrightarrow> f g \<le> best_of f best gs"
proof (induction gs arbitrary: best)
  case (Cons h gs)
  { case 1 show ?case using Cons.IH(1) [of "if f h > best then f h else best"] by (auto split: if_splits) }
  { case 2 then show ?case
      using Cons.IH(1) [of "if f h > best then f h else best"] Cons.IH(2) [of "if f h > best then f h else best"]
      by (auto split: if_splits intro: order_trans) }
qed simp_all

lemma best_of_in: "best_of f best gs = best \<or> (\<exists>g \<in> set gs. best_of f best gs = f g)"
proof (induction gs arbitrary: best)
  case (Cons h gs)
  then show ?case using Cons [of "if f h > best then f h else best"] by auto
qed simp

lemma best_of_less: "best_of f best gs < m \<longleftrightarrow> best < m \<and> (\<forall>g \<in> set gs. f g < m)"
proof
  assume "best_of f best gs < m"
  then show "best < m \<and> (\<forall>g \<in> set gs. f g < m)"
    using best_of_ge(1) [of best f gs] best_of_ge(2) [of _ gs f best] by (auto intro: order_le_less_trans)
next
  assume "best < m \<and> (\<forall>g \<in> set gs. f g < m)"
  then show "best_of f best gs < m" using best_of_in [of f best gs] by auto
qed

lemma best_vram_less: "best_provider_vram p < m \<longleftrightarrow> 0 < m \<and> (\<forall>g \<in> set (lp_gpus p). g_vram g < m)"
  by (simp add: best_provider_vram_def best_of_less)

lemma unat_ucast_u32: "unat (ucast (x :: u32) :: u64) = unat x"
proof -
  have "unat x < 2 ^ 32" using unsigned_less [of x, where ?'a = nat] by simp
  then have "take_bit 64 (unat x) = unat x" by (simp add: take_bit_nat_eq_self_iff)
  then show ?thesis by (simp add: unsigned_ucast_eq)
qed

lemma best_power_in: "lp_gpus p \<noteq> [] \<Longrightarrow> \<exists>g \<in> set (lp_gpus p). best_provider_power p = gpu_power g"
proof -
  assume ne: "lp_gpus p \<noteq> []"
  have "best_of gpu_power 0 (lp_gpus p) = 0 \<or> (\<exists>g \<in> set (lp_gpus p). best_of gpu_power 0 (lp_gpus p) = gpu_power g)"
    by (rule best_of_in)
  moreover have "gpu_power (hd (lp_gpus p)) \<le> best_of gpu_power 0 (lp_gpus p)"
    using ne by (intro best_of_ge) simp
  ultimately show ?thesis using ne hd_in_set [OF ne] unfolding best_provider_power_def
    by (metis order_antisym word_zero_le)
qed

lemma ucast_mono: "(x :: u32) \<le> y \<Longrightarrow> (ucast x :: u64) \<le> ucast y"
  by (simp add: word_le_nat_alt unat_ucast_u32)

lemma best_power_less:
  assumes "lp_gpus p \<noteq> []"
  shows "(ucast (best_provider_power p) :: u64) < m \<longleftrightarrow> (\<forall>g \<in> set (lp_gpus p). ucast (gpu_power g) < m)"
proof
  assume l: "(ucast (best_provider_power p) :: u64) < m"
  show "\<forall>g \<in> set (lp_gpus p). ucast (gpu_power g) < m"
  proof
    fix g assume "g \<in> set (lp_gpus p)"
    then have "gpu_power g \<le> best_provider_power p" by (simp add: best_provider_power_def best_of_ge)
    then show "ucast (gpu_power g) < m" using l by (rule order_le_less_trans [OF ucast_mono])
  qed
qed (use best_power_in [OF assms] in auto)

section \<open>Suitable providers\<close>

lemma suitable_iff:
  "suitable j p \<longleftrightarrow> lp_status p = StatusIdle \<and> lp_gpus p \<noteq> []
     \<and> (j_gpu_type j = [] \<or> equal_fold (g_model_name (hd (lp_gpus p))) (j_gpu_type j))
     \<and> (j_gpu_count j \<le> 0 \<or> j_gpu_count j \<le> int (length (lp_gpus p)))
     \<and> (\<exists>g \<in> set (lp_gpus p). meets_floors (j_min_vram j) 0 g)
     \<and> (\<exists>g \<in> set (lp_gpus p). meets_floors 0 (j_min_power j) g)"
proof (cases "lp_gpus p = []")
  case False
  then have v: "best_provider_vram p < j_min_vram j \<longleftrightarrow>
      j_min_vram j > 0 \<and> (\<forall>g \<in> set (lp_gpus p). g_vram g < j_min_vram j)"
    by (simp add: best_vram_less)
  from False show ?thesis
    using best_power_less [OF False, of "j_min_power j"] hd_in_set [OF False]
    by (cases "j_min_power j > 0"; cases "j_min_vram j > 0")
      (auto simp: suitable_def v meets_floors_def find_provider_gpu_type_def hd_conv_nth not_less ex_in_conv)
qed (simp add: suitable_def)

text \<open>Matching takes the first provider of the registry's list that is idle, has GPUs, features the wanted
  model (up to case), has enough of them and has, for each floor the job sets, some GPU above it; it fails
  exactly when there is none.\<close>

theorem provider_match_exact:
  "(find_suitable_provider j ps = Some p \<longleftrightarrow> (\<exists>before after. ps = before @ p # after \<and> suitable j p \<and> (\<forall>q \<in> set before. \<not> suitable j q)))
   \<and> (find_suitable_provider j ps = None \<longleftrightarrow> (\<forall>p \<in> set ps. lp_status p \<noteq> StatusIdle \<or> lp_gpus p = []
     \<or> (j_gpu_type j \<noteq> [] \<and> \<not> equal_fold (g_model_name (hd (lp_gpus p))) (j_gpu_type j))
     \<or> (0 < j_gpu_count j \<and> int (length (lp_gpus p)) < j_gpu_count j)
     \<or> (\<forall>g \<in> set (lp_gpus p). g_vram g < j_min_vram j)
     \<or> (\<forall>g \<in> set (lp_gpus p). ucast (gpu_power g) < j_min_power j)))"
proof
  show "find_suitable_provider j ps = Some p \<longleftrightarrow>
      (\<exists>before after. ps = before @ p # after \<and> suitable j p \<and> (\<forall>q \<in> set before. \<not> suitable j q))"
    by (simp add: find_suitable_provider_def filter_find_first)
  have z: "\<not> x < (0 :: u64)" for x by simp
  show "find_suitable_provider j ps = None \<longleftrightarrow> (\<forall>p \<in> set ps. lp_status p \<noteq> StatusIdle \<or> lp_gpus p = []
     \<or> (j_gpu_type j \<noteq> [] \<and> \<not> equal_fold (g_model_name (hd (lp_gpus p))) (j_gpu_type j))
     \<or> (0 < j_gpu_count j \<and> int (length (lp_gpus p)) < j_gpu_count j)
     \<or> (\<forall>g \<in> set (lp_gpus p). g_vram g < j_min_vram j)
     \<or> (\<forall>g \<in> set (lp_gpus p). ucast (gpu_power g) < j_min_power j))"
    unfolding find_suitable_provider_def find_None_all
    by (intro ball_cong [OF refl]; cases "j_min_vram j = 0"; cases "j_min_power j = 0")
      (auto simp: suitable_iff meets_floors_def word_neq_0_conv z)
qed

section \<open>The GPU that is billed\<close>

lemma billing_scan_None: "billing_scan mv mp best gs = None \<longleftrightarrow> best = None \<and> (\<forall>g \<in> set gs. \<not> meets_floors mv mp g)"
  by (induction gs arbitrary: best) (auto split: option.splits)

lemma billing_scan_Some:
  "billing_scan mv mp best gs = Some g \<Longrightarrow> (best = Some g \<or> g \<in> set gs \<and> meets_floors mv mp g)
     \<and> (\<forall>b. best = Some b \<longrightarrow> g_vram b \<le> g_vram g) \<and> (\<forall>h \<in> set gs. meets_floors mv mp h \<longrightarrow> g_vram h \<le> g_vram g)"
proof (induction gs arbitrary: best)
  case (Cons a gs)
  show ?case
  proof (cases "meets_floors mv mp a")
    case True
    show ?thesis
    proof (cases best)
      case None
      with Cons.prems True have "billing_scan mv mp (Some a) gs = Some g" by simp
      from Cons.IH [OF this] True None show ?thesis by auto
    next
      case (Some b)
      with Cons.prems True have "billing_scan mv mp (if g_vram a > g_vram b then Some a else best) gs = Some g"
        by (auto split: if_splits)
      from Cons.IH [OF this] True Some show ?thesis by (auto split: if_splits intro: order_trans)
    qed
  qed (use Cons in auto)
qed simp

lemma billing_gpu_None: "(\<forall>g \<in> set (lp_gpus p). \<not> meets_floors mv mp g) \<Longrightarrow> lp_gpus p \<noteq> [] \<Longrightarrow>
    select_billing_gpu p mv mp = Some (hd (lp_gpus p))"
  using billing_scan_None [of mv mp None "lp_gpus p"] by (simp add: select_billing_gpu_def hd_conv_nth)

lemma billing_gpu_Some:
  assumes "h \<in> set (lp_gpus p)" "meets_floors mv mp h"
  obtains g where "select_billing_gpu p mv mp = Some g" "g \<in> set (lp_gpus p)" "meets_floors mv mp g"
    "\<And>k. k \<in> set (lp_gpus p) \<Longrightarrow> meets_floors mv mp k \<Longrightarrow> g_vram k \<le> g_vram g"
proof -
  from assms obtain g where g: "billing_scan mv mp None (lp_gpus p) = Some g"
    using billing_scan_None [of mv mp None "lp_gpus p"] by blast
  then show thesis using that [of g] billing_scan_Some [OF g] by (simp add: select_billing_gpu_def)
qed

text \<open>A suitable provider of a job that sets at most one of the two floors, or with a single GPU, is billed
  for the largest of its GPUs that meet the floors.\<close>

theorem billing_gpu_qualifies:
  assumes "suitable j p" "j_min_vram j = 0 \<or> j_min_power j = 0 \<or> length (lp_gpus p) = 1"
  shows "\<exists>g. select_billing_gpu p (j_min_vram j) (j_min_power j) = Some g \<and> g \<in> set (lp_gpus p)
    \<and> meets_floors (j_min_vram j) (j_min_power j) g
    \<and> (\<forall>h \<in> set (lp_gpus p). meets_floors (j_min_vram j) (j_min_power j) h \<longrightarrow> g_vram h \<le> g_vram g)"
proof -
  from assms(1) obtain a b where "a \<in> set (lp_gpus p)" "meets_floors (j_min_vram j) 0 a"
    "b \<in> set (lp_gpus p)" "meets_floors 0 (j_min_power j) b" by (auto simp: suitable_iff)
  note ab = this
  from assms(2) have "\<exists>h \<in> set (lp_gpus p). meets_floors (j_min_vram j) (j_min_power j) h"
  proof (elim disjE)
    assume "length (lp_gpus p) = 1"
    then have "a = b" using ab by (auto simp: length_Suc_conv)
    with ab show ?thesis by (auto simp: meets_floors_def)
  next
    assume "j_min_vram j = 0"
    with ab(3,4) show ?thesis by auto
  next
    assume "j_min_power j = 0"
    with ab(1,2) show ?thesis by auto
  qed
  then obtain h where "h \<in> set (lp_gpus p)" "meets_floors (j_min_vram j) (j_min_power j) h" by blast
  then show ?thesis by (rule billing_gpu_Some) blast
qed

text \<open>The gate looks at the floors one by one: a provider with one GPU of enough power and another of enough
  memory is suitable though neither meets both, and the job is billed against the first, below the memory
  the user asked for.\<close>

theorem billing_gpu_unqualified:
  assumes p: "lp_status p = StatusIdle" "lp_gpus p = [a, b]"
    and j: "j_gpu_type j = []" "j_gpu_count j \<le> 2"
    and a: "g_vram a < j_min_vram j" "j_min_power j \<le> ucast (gpu_power a)"
    and b: "j_min_vram j \<le> g_vram b" "ucast (gpu_power b) < j_min_power j"
  shows "suitable j p \<and> select_billing_gpu p (j_min_vram j) (j_min_power j) = Some a
    \<and> \<not> meets_floors (j_min_vram j) (j_min_power j) a"
proof (intro conjI)
  have pos: "j_min_vram j > 0" "j_min_power j > 0"
    using a(1) b(2) by (auto simp: word_neq_0_conv [symmetric])
  show m: "\<not> meets_floors (j_min_vram j) (j_min_power j) a" using a pos by (simp add: meets_floors_def)
  have "\<not> meets_floors (j_min_vram j) (j_min_power j) b" using b pos by (simp add: meets_floors_def)
  with m p show "select_billing_gpu p (j_min_vram j) (j_min_power j) = Some a"
    using billing_gpu_None [of p "j_min_vram j" "j_min_power j"] by simp
  show "suitable j p" using p j a b by (auto simp: suitable_iff meets_floors_def not_less)
qed

section \<open>Examples\<close>

definition demo_gpu :: "string \<Rightarrow> u64 \<Rightarrow> u32 \<Rightarrow> gpu_detail" where
  "demo_gpu m v w = \<lparr>g_model_name = m, g_vram = v, g_driver_version = ''550'', g_power = w\<rparr>"

definition demo_provider :: "uuid \<Rightarrow> gpu_detail list \<Rightarrow> listed_provider" where
  "demo_provider i gs =
     \<lparr>lp_id = i, lp_owner_id = ''bob'', lp_name = ''rig'', lp_hostname = ''rig-1'', lp_ip_address = ''10.0.0.7'',
      lp_status = StatusIdle, lp_gpus = gs, lp_location = ''lab'', lp_registered_at = 0, lp_last_seen_at = 0,
      lp_metadata = None\<rparr>"

definition demo_job :: "u64 \<Rightarrow> u64 \<Rightarrow> job" where
  "demo_job v w =
     \<lparr>j_id = ''job-1'', j_user_id = ''alice'', j_type = ''ai-training'', j_name = ''train'', j_description = [],
      j_priority = 1, j_submitted_at = 5, j_gpu_type = [], j_gpu_count = 1, j_min_vram = v, j_min_power = w,
      j_params = Some [''script'' \<mapsto> JString ''run.sh''], j_tags = []\<rparr>"

lemma demo_simps [simp]:
  "g_vram (demo_gpu m v k) = v" "g_power (demo_gpu m v k) = k" "g_model_name (demo_gpu m v k) = m"
  "lp_gpus (demo_provider i gs) = gs" "lp_status (demo_provider i gs) = StatusIdle" "lp_id (demo_provider i gs) = i"
  "j_gpu_type (demo_job v w) = []" "j_gpu_count (demo_job v w) = 1" "j_min_vram (demo_job v w) = v"
  "j_min_power (demo_job v w) = w" "j_id (demo_job v w) = ''job-1''" "j_user_id (demo_job v w) = ''alice''"
  "k \<noteq> 0 \<Longrightarrow> gpu_power (demo_gpu m v k) = k"
  by (simp_all add: demo_gpu_def demo_provider_def demo_job_def gpu_power_def)

lemma demo_suitable: "suitable (demo_job 24000 0) (demo_provider 7 [demo_gpu ''RTX 3060'' 12288 170, demo_gpu ''RTX 4090'' 24564 450])"
  by (auto simp: suitable_iff meets_floors_def)

theorem provider_match_exact_witness:
  "find_suitable_provider (demo_job 50000 0) [demo_provider 6 [], demo_provider 7 [demo_gpu ''RTX 4090'' 24564 450]] = None"
  using provider_match_exact [of "demo_job 50000 0" "[demo_provider 6 [], demo_provider 7 [demo_gpu ''RTX 4090'' 24564 450]]" "demo_provider 6 []"]
  by simp

theorem billing_gpu_qualifies_witness:
  "select_billing_gpu (demo_provider 7 [demo_gpu ''RTX 3060'' 12288 170, demo_gpu ''RTX 4090'' 24564 450]) 24000 0
     = Some (demo_gpu ''RTX 4090'' 24564 450)"
  using billing_gpu_qualifies [OF demo_suitable] by (auto simp: meets_floors_def)

theorem billing_gpu_unqualified_witness:
  "select_billing_gpu (demo_provider 7 [demo_gpu ''RTX 3060'' 12288 400, demo_gpu ''RTX A6000'' 49140 300]) 40000 350
     = Some (demo_gpu ''RTX 3060'' 12288 400)"
  using billing_gpu_unqualified [of "demo_provider 7 [demo_gpu ''RTX 3060'' 12288 400, demo_gpu ''RTX A6000'' 49140 300]"
    "demo_gpu ''RTX 3060'' 12288 400" "demo_gpu ''RTX A6000'' 49140 300" "demo_job 40000 350"] by simp

end
