(* ===== verification/JobStore.thy ===== *)
theory JobStore
  imports Jobs Table
begin

text \<open>
  The scheduler's job store (\<open>internal/store\<close>): the table \<open>jobs\<close> as a list of rows and one function per
  method. What a run of the database can vary is the record \<open>job_sql\<close>: the failure of an operation
  and the rounding of a time to its column. The widths of the columns are part of the model: a
  text longer than its \<open>VARCHAR\<close> or a number outside \<open>INTEGER\<close> is refused. The interface the consumer
  relies on (\<open>store/jobstore.go\<close>) is the locale \<open>job_store\<close>.
\<close>

section \<open>Rows\<close>

datatype job_op = OpSaveJob | OpGetJob | OpUpdateJob | OpJobsByState | OpRetryable | OpDeleteJob

datatype db_failure = PgFailure string string | ConnFailure string

definition failure_text :: "db_failure \<Rightarrow> string" where
  "failure_text f = (case f of PgFailure code t \<Rightarrow> t | ConnFailure t \<Rightarrow> t)"

record job_sql =
  js_fail :: "job_op \<Rightarrow> db_failure option"
  js_time_col :: "time \<Rightarrow> time"

record job_row =
  row_job_id :: string
  row_user_id :: string
  row_job_details :: job
  row_state :: job_state
  row_provider_id :: "string option"
  row_attempts :: int
  row_last_error :: "string option"
  row_received_at :: time
  row_updated_at :: time
  row_submitted_at :: time
  row_job_name :: string
  row_job_type :: string
  row_gpu_type :: string
  row_priority :: int

definition null_string :: "string \<Rightarrow> string option" where
  "null_string s = (if s = [] then None else Some s)"

definition string_or_empty :: "string option \<Rightarrow> string" where
  "string_or_empty v = (case v of None \<Rightarrow> [] | Some s \<Rightarrow> s)"

definition fits :: "nat \<Rightarrow> string \<Rightarrow> bool" where
  "fits n s \<longleftrightarrow> length s \<le> n"

definition int4 :: "int \<Rightarrow> bool" where
  "int4 v \<longleftrightarrow> - 2147483648 \<le> v \<and> v \<le> 2147483647"

definition job_columns_ok :: "job_record \<Rightarrow> bool" where
  "job_columns_ok r \<longleftrightarrow> fits 255 (jr_job_id r) \<and> fits 255 (jr_user_id r) \<and> fits 255 (jr_provider_id r)
     \<and> fits 255 (jr_job_name r) \<and> fits 100 (jr_job_type r) \<and> fits 100 (jr_gpu_type r)
     \<and> int4 (jr_attempts r) \<and> int4 (jr_priority r)"

definition job_row_of :: "job_sql \<Rightarrow> job_record \<Rightarrow> job_row" where
  "job_row_of sql r =
     \<lparr>row_job_id = jr_job_id r, row_user_id = jr_user_id r, row_job_details = jr_job_details r, row_state = jr_state r,
      row_provider_id = null_string (jr_provider_id r), row_attempts = jr_attempts r,
      row_last_error = null_string (jr_last_error r), row_received_at = js_time_col sql (jr_received_at r),
      row_updated_at = js_time_col sql (jr_updated_at r), row_submitted_at = js_time_col sql (jr_submitted_at r),
      row_job_name = jr_job_name r, row_job_type = jr_job_type r, row_gpu_type = jr_gpu_type r,
      row_priority = jr_priority r\<rparr>"

definition scan_job_row :: "job_row \<Rightarrow> job_record" where
  "scan_job_row w =
     \<lparr>jr_job_id = row_job_id w, jr_user_id = row_user_id w, jr_job_details = row_job_details w, jr_state = row_state w,
      jr_provider_id = string_or_empty (row_provider_id w), jr_attempts = row_attempts w,
      jr_last_error = string_or_empty (row_last_error w), jr_received_at = row_received_at w,
      jr_updated_at = row_updated_at w, jr_submitted_at = row_submitted_at w, jr_job_name = row_job_name w,
      jr_job_type = row_job_type w, jr_gpu_type = row_gpu_type w, jr_priority = row_priority w\<rparr>"

section \<open>Operations\<close>

definition save_failure :: "string \<Rightarrow> db_failure \<Rightarrow> string" where
  "save_failure i f = (case f of
      PgFailure code t \<Rightarrow> ''saving job '' @ i @ '' (SQL state '' @ code @ ''): '' @ t
    | ConnFailure t \<Rightarrow> ''saving job '' @ i @ '': '' @ t)"

definition upsert_job :: "job_row \<Rightarrow> job_row list \<Rightarrow> job_row list" where
  "upsert_job w rows =
     (if select_by row_job_id (row_job_id w) rows = None then rows @ [w]
      else update_by row_job_id (row_job_id w) (\<lambda>old. w\<lparr>row_received_at := row_received_at old\<rparr>) rows)"

definition save_job :: "job_sql \<Rightarrow> time \<Rightarrow> job_record \<Rightarrow> job_row list \<Rightarrow> (string + unit) \<times> job_row list" where
  "save_job sql now r rows =
     (let r' = r\<lparr>jr_updated_at := now\<rparr> in
      case js_fail sql OpSaveJob of
        Some f \<Rightarrow> (Inl (save_failure (jr_job_id r') f), rows)
      | None \<Rightarrow>
          if job_columns_ok r' then (Inr (), upsert_job (job_row_of sql r') rows)
          else (Inl (save_failure (jr_job_id r') (PgFailure ''22001'' ''value out of range'')), rows))"

definition get_job_record :: "job_sql \<Rightarrow> string \<Rightarrow> job_row list \<Rightarrow> string + job_record option" where
  "get_job_record sql i rows =
     (case js_fail sql OpGetJob of
        Some f \<Rightarrow> Inl (''getting job '' @ i @ '': '' @ failure_text f)
      | None \<Rightarrow> Inr (map_option scan_job_row (select_by row_job_id i rows)))"

definition set_job_state :: "job_state \<Rightarrow> string \<Rightarrow> string \<Rightarrow> int \<Rightarrow> time \<Rightarrow> job_row \<Rightarrow> job_row" where
  "set_job_state s provider err attempts t w =
     w\<lparr>row_state := s, row_provider_id := null_string provider, row_last_error := null_string err,
       row_attempts := attempts, row_updated_at := t\<rparr>"

definition update_job_state ::
    "job_sql \<Rightarrow> time \<Rightarrow> string \<Rightarrow> job_state \<Rightarrow> string \<Rightarrow> string \<Rightarrow> int \<Rightarrow> job_row list \<Rightarrow> (string + unit) \<times> job_row list" where
  "update_job_state sql now i s provider err attempts rows =
     (case js_fail sql OpUpdateJob of
        Some f \<Rightarrow> (Inl (''updating job state for '' @ i @ '': '' @ failure_text f), rows)
      | None \<Rightarrow>
          if \<not> int4 attempts \<or> (select_by row_job_id i rows \<noteq> None \<and> \<not> fits 255 provider)
          then (Inl (''updating job state for '' @ i @ '': value out of range''), rows)
          else (Inr (), update_by row_job_id i (set_job_state s provider err attempts (js_time_col sql now)) rows))"

definition order_asc :: "(job_row \<Rightarrow> int) \<Rightarrow> job_row list \<Rightarrow> job_row list" where
  "order_asc k rows = sort_key k rows"

definition limited :: "int \<Rightarrow> job_row list \<Rightarrow> job_record list" where
  "limited n rows = map scan_job_row (take (nat n) rows)"

definition get_jobs_by_state :: "job_sql \<Rightarrow> job_state \<Rightarrow> int \<Rightarrow> job_row list \<Rightarrow> string + job_record list" where
  "get_jobs_by_state sql s n rows =
     (case js_fail sql OpJobsByState of
        Some f \<Rightarrow> Inl (''getting jobs by state '' @ job_state_text s @ '': '' @ failure_text f)
      | None \<Rightarrow>
          if n < 0 then Inl (''getting jobs by state '' @ job_state_text s @ '': LIMIT must not be negative'')
          else Inr (limited n (order_asc row_updated_at (filter (\<lambda>w. row_state w = s) rows))))"

definition retryable :: "job_row \<Rightarrow> bool" where
  "retryable w \<longleftrightarrow> row_state w = JobStatePending \<or> row_state w = JobStateSearching
     \<or> (row_state w = JobStateFailed \<and> row_attempts w < 3)"

definition get_retryable_jobs :: "job_sql \<Rightarrow> int \<Rightarrow> job_row list \<Rightarrow> string + job_record list" where
  "get_retryable_jobs sql n rows =
     (case js_fail sql OpRetryable of
        Some f \<Rightarrow> Inl (''getting retryable jobs: '' @ failure_text f)
      | None \<Rightarrow>
          if n < 0 then Inl ''getting retryable jobs: LIMIT must not be negative''
          else Inr (limited n (order_asc (\<lambda>w. - row_priority w) (order_asc row_updated_at (filter retryable rows)))))"

definition delete_job :: "job_sql \<Rightarrow> string \<Rightarrow> job_row list \<Rightarrow> (string + unit) \<times> job_row list" where
  "delete_job sql i rows =
     (case js_fail sql OpDeleteJob of
        Some f \<Rightarrow> (Inl (''deleting job '' @ i @ '': '' @ failure_text f), rows)
      | None \<Rightarrow> (Inr (), delete_by row_job_id i rows))"

section \<open>The interface the consumer relies on\<close>

text \<open>
  \<open>peek\<close> is what is stored under an identifier, \<open>saved\<close> and \<open>changed\<close> say what a save and a change of state
  leave there. A call that fails changes nothing, a call that succeeds changes one entry.
\<close>

locale job_store =
  fixes peek :: "'s \<Rightarrow> string \<Rightarrow> job_record option"
    and save :: "time \<Rightarrow> job_record \<Rightarrow> 's \<Rightarrow> (string + unit) \<times> 's"
    and load :: "string \<Rightarrow> 's \<Rightarrow> string + job_record option"
    and change :: "time \<Rightarrow> string \<Rightarrow> job_state \<Rightarrow> string \<Rightarrow> string \<Rightarrow> int \<Rightarrow> 's \<Rightarrow> (string + unit) \<times> 's"
    and remove :: "string \<Rightarrow> 's \<Rightarrow> (string + unit) \<times> 's"
    and saved :: "time \<Rightarrow> job_record \<Rightarrow> job_record option \<Rightarrow> job_record"
    and changed :: "time \<Rightarrow> job_state \<Rightarrow> string \<Rightarrow> string \<Rightarrow> int \<Rightarrow> job_record \<Rightarrow> job_record"
  assumes load_peek: "load i s = Inr x \<Longrightarrow> x = peek s i"
    and save_ok: "save now r s = (Inr (), s') \<Longrightarrow> peek s' = (peek s)(jr_job_id r \<mapsto> saved now r (peek s (jr_job_id r)))"
    and save_err: "save now r s = (Inl e, s') \<Longrightarrow> s' = s"
    and change_ok: "change now i st p m n s = (Inr (), s') \<Longrightarrow>
        peek s' = (peek s)(i := map_option (changed now st p m n) (peek s i))"
    and change_err: "change now i st p m n s = (Inl e, s') \<Longrightarrow> s' = s"
    and remove_ok: "remove i s = (Inr (), s') \<Longrightarrow> peek s' = (peek s)(i := None)"
    and remove_err: "remove i s = (Inl e, s') \<Longrightarrow> s' = s"
    and saved_id: "jr_job_id (saved now r old) = jr_job_id r"
    and changed_state: "jr_state (changed now st p m n r) = st" "jr_attempts (changed now st p m n r) = n"
      "jr_provider_id (changed now st p m n r) = p" "jr_job_id (changed now st p m n r) = jr_job_id r"
    and changed_job: "restored_job (changed now st p m n r) = restored_job r"
begin

lemma save_load: "save now r s = (Inr (), s') \<Longrightarrow> load (jr_job_id r) s' = Inr x \<Longrightarrow>
    x = Some (saved now r (peek s (jr_job_id r)))"
  using save_ok [of now r s s'] load_peek [of "jr_job_id r" s' x] by simp

lemma save_other: "save now r s = (res, s') \<Longrightarrow> i \<noteq> jr_job_id r \<Longrightarrow> peek s' i = peek s i"
  by (cases res) (auto dest: save_ok save_err)

lemma change_other: "change now i st p m n s = (res, s') \<Longrightarrow> k \<noteq> i \<Longrightarrow> peek s' k = peek s k"
  by (cases res) (auto dest: change_ok change_err)

lemma change_load: "change now i st p m n s = (Inr (), s') \<Longrightarrow> peek s i = Some r \<Longrightarrow> load i s' = Inr x \<Longrightarrow>
    \<exists>r'. x = Some r' \<and> jr_state r' = st \<and> jr_attempts r' = n \<and> jr_provider_id r' = p \<and> restored_job r' = restored_job r"
  by (auto dest!: change_ok load_peek simp: changed_state changed_job)

lemma remove_load: "remove i s = (Inr (), s') \<Longrightarrow> load i s' = Inr x \<Longrightarrow> x = None"
  by (auto dest!: remove_ok load_peek)

lemma save_then_change:
  assumes "save now r s = (Inr (), s1)" "change now' (jr_job_id r) st p m n s1 = (Inr (), s2)"
  shows "\<exists>r'. peek s2 (jr_job_id r) = Some r' \<and> jr_state r' = st \<and> jr_attempts r' = n \<and> jr_provider_id r' = p"
  using save_ok [OF assms(1)] change_ok [OF assms(2)] by (auto simp: changed_state)

end

section \<open>The PostgreSQL store implements it\<close>

definition peek_job :: "job_row list \<Rightarrow> string \<Rightarrow> job_record option" where
  "peek_job rows i = map_option scan_job_row (select_by row_job_id i rows)"

definition saved_job :: "job_sql \<Rightarrow> time \<Rightarrow> job_record \<Rightarrow> job_record option \<Rightarrow> job_record" where
  "saved_job sql now r old =
     (let r' = scan_job_row (job_row_of sql (r\<lparr>jr_updated_at := now\<rparr>))
      in case old of None \<Rightarrow> r' | Some o' \<Rightarrow> r'\<lparr>jr_received_at := jr_received_at o'\<rparr>)"

definition changed_job :: "job_sql \<Rightarrow> time \<Rightarrow> job_state \<Rightarrow> string \<Rightarrow> string \<Rightarrow> int \<Rightarrow> job_record \<Rightarrow> job_record" where
  "changed_job sql now s provider err attempts r =
     r\<lparr>jr_state := s, jr_provider_id := provider, jr_last_error := err, jr_attempts := attempts,
       jr_updated_at := js_time_col sql now\<rparr>"

definition job_accepts :: "job_row list \<Rightarrow> job_row \<Rightarrow> bool" where
  "job_accepts rows w \<longleftrightarrow> select_by row_job_id (row_job_id w) rows = None"

interpretation job_table: keyed_table row_job_id job_accepts
  by unfold_locales (simp add: job_accepts_def select_by_None)

lemma null_string_roundtrip [simp]: "string_or_empty (null_string s) = s"
  by (simp add: null_string_def string_or_empty_def)

lemma scan_job_row_simps [simp]:
  "jr_job_id (scan_job_row w) = row_job_id w" "jr_state (scan_job_row w) = row_state w"
  "jr_attempts (scan_job_row w) = row_attempts w"
  by (simp_all add: scan_job_row_def)

lemma scan_row_of: "scan_job_row (job_row_of sql r) =
    r\<lparr>jr_received_at := js_time_col sql (jr_received_at r), jr_updated_at := js_time_col sql (jr_updated_at r),
      jr_submitted_at := js_time_col sql (jr_submitted_at r)\<rparr>"
  by (simp add: scan_job_row_def job_row_of_def)

lemma scan_received: "scan_job_row (w\<lparr>row_received_at := t\<rparr>) = (scan_job_row w)\<lparr>jr_received_at := t\<rparr>"
  by (simp add: scan_job_row_def)

lemma row_of_id [simp]: "row_job_id (job_row_of sql r) = jr_job_id r"
  by (simp add: job_row_of_def)

lemma set_job_state_id [simp]: "row_job_id (set_job_state s p m n t w) = row_job_id w"
  by (simp add: set_job_state_def)

lemma scan_set_state: "scan_job_row (set_job_state s p m n (js_time_col sql now) w) = changed_job sql now s p m n (scan_job_row w)"
  by (simp add: scan_job_row_def set_job_state_def changed_job_def)

lemma select_update_unkeyed:
  "select_by key i rows = Some w \<Longrightarrow> key (f w) = i \<Longrightarrow> select_by key i (update_by key i f rows) = Some (f w)"
  by (induction rows) (auto simp: update_by_def split: if_splits)

lemma select_update_unkeyed_other:
  "(\<And>w. key (f w) = i) \<Longrightarrow> k \<noteq> i \<Longrightarrow> select_by key k (update_by key i f rows) = select_by key k rows"
  by (induction rows) (auto simp: update_by_def)

lemma peek_upsert_other:
  assumes "i \<noteq> jr_job_id r"
  shows "peek_job (upsert_job (job_row_of sql r) rows) i = peek_job rows i"
proof -
  have "select_by row_job_id i (update_by row_job_id (jr_job_id r)
      (\<lambda>old. (job_row_of sql r)\<lparr>row_received_at := row_received_at old\<rparr>) rows) = select_by row_job_id i rows"
    using assms by (intro select_update_unkeyed_other) simp_all
  with assms show ?thesis by (simp add: peek_job_def upsert_job_def select_by_append split: option.split)
qed

lemma peek_upsert_same:
  "peek_job (upsert_job (job_row_of sql (r\<lparr>jr_updated_at := now\<rparr>)) rows) (jr_job_id r)
     = Some (saved_job sql now r (peek_job rows (jr_job_id r)))"
proof (cases "select_by row_job_id (jr_job_id r) rows")
  case None
  then show ?thesis by (simp add: peek_job_def upsert_job_def select_by_append saved_job_def)
next
  case (Some w)
  let ?f = "\<lambda>old. (job_row_of sql (r\<lparr>jr_updated_at := now\<rparr>))\<lparr>row_received_at := row_received_at old\<rparr>"
  have "select_by row_job_id (jr_job_id r) (update_by row_job_id (jr_job_id r) ?f rows) = Some (?f w)"
    using Some by (rule select_update_unkeyed) simp
  with Some show ?thesis
    by (simp add: peek_job_def upsert_job_def saved_job_def scan_received Let_def) (simp add: scan_job_row_def)
qed

lemma save_job_ok:
  assumes "save_job sql now r rows = (Inr (), rows')"
  shows "peek_job rows' = (peek_job rows)(jr_job_id r \<mapsto> saved_job sql now r (peek_job rows (jr_job_id r)))"
proof -
  from assms have rows': "rows' = upsert_job (job_row_of sql (r\<lparr>jr_updated_at := now\<rparr>)) rows"
    by (auto simp: save_job_def Let_def split: option.splits if_splits)
  show ?thesis
  proof
    fix i
    show "peek_job rows' i = ((peek_job rows)(jr_job_id r \<mapsto> saved_job sql now r (peek_job rows (jr_job_id r)))) i"
      using peek_upsert_other [of i "r\<lparr>jr_updated_at := now\<rparr>" sql rows] peek_upsert_same [of sql now r rows]
      by (cases "i = jr_job_id r") (simp_all add: rows')
  qed
qed

lemma update_job_state_ok:
  assumes "update_job_state sql now i s p m n rows = (Inr (), rows')"
  shows "peek_job rows' = (peek_job rows)(i := map_option (changed_job sql now s p m n) (peek_job rows i))"
proof
  fix k
  let ?f = "set_job_state s p m n (js_time_col sql now)"
  from assms have rows': "rows' = update_by row_job_id i ?f rows"
    by (auto simp: update_job_state_def split: option.splits if_splits)
  show "peek_job rows' k = ((peek_job rows)(i := map_option (changed_job sql now s p m n) (peek_job rows i))) k"
    using select_update_same [of row_job_id ?f i rows] select_update_other [of row_job_id ?f i k rows]
    by (cases "k = i") (simp_all add: rows' peek_job_def option.map_comp o_def scan_set_state)
qed

lemma restored_changed: "restored_job (changed_job sql now s p m n r) = restored_job r"
  by (cases r) (simp only: restored_job_def changed_job_def job_record.simps)

lemma delete_job_ok: "delete_job sql i rows = (Inr (), rows') \<Longrightarrow> peek_job rows' = (peek_job rows)(i := None)"
  by (auto simp: delete_job_def peek_job_def select_delete fun_eq_iff split: option.splits)

interpretation jobs: job_store peek_job "save_job sql" "get_job_record sql" "update_job_state sql" "delete_job sql"
    "saved_job sql" "changed_job sql" for sql
proof (unfold_locales, goal_cases)
  case 1 then show ?case by (simp add: get_job_record_def peek_job_def split: option.splits)
next
  case 2 then show ?case by (rule save_job_ok)
next
  case 3 then show ?case by (auto simp: save_job_def Let_def split: option.splits if_splits)
next
  case 4 then show ?case by (rule update_job_state_ok)
next
  case 5 then show ?case by (auto simp: update_job_state_def split: option.splits if_splits)
next
  case 6 then show ?case by (rule delete_job_ok)
next
  case 7 then show ?case by (auto simp: delete_job_def split: option.splits)
next
  case 8 then show ?case by (simp add: saved_job_def Let_def split: option.splits)
next
  case 13 then show ?case by (rule restored_changed)
qed (simp_all add: changed_job_def)

section \<open>The table refines a map\<close>

datatype job_command =
    CmdSave time job_record | CmdChange time string job_state string string int | CmdRemove string

definition run_command :: "job_sql \<Rightarrow> job_command \<Rightarrow> job_row list \<Rightarrow> (string + unit) \<times> job_row list" where
  "run_command sql c rows = (case c of
      CmdSave now r \<Rightarrow> save_job sql now r rows
    | CmdChange now i s p m n \<Rightarrow> update_job_state sql now i s p m n rows
    | CmdRemove i \<Rightarrow> delete_job sql i rows)"

definition spec_command :: "job_sql \<Rightarrow> job_command \<Rightarrow> (string \<rightharpoonup> job_record) \<Rightarrow> string \<rightharpoonup> job_record" where
  "spec_command sql c m = (case c of
      CmdSave now r \<Rightarrow> m(jr_job_id r \<mapsto> saved_job sql now r (m (jr_job_id r)))
    | CmdChange now i s p e n \<Rightarrow> m(i := map_option (changed_job sql now s p e n) (m i))
    | CmdRemove i \<Rightarrow> m(i := None))"

fun run_commands :: "job_sql \<Rightarrow> job_command list \<Rightarrow> job_row list \<Rightarrow> bool list \<times> job_row list" where
  "run_commands sql [] rows = ([], rows)"
| "run_commands sql (c # cs) rows =
     (let (r, rows1) = run_command sql c rows; (oks, rows2) = run_commands sql cs rows1 in (is_ok r # oks, rows2))"

fun spec_commands :: "job_sql \<Rightarrow> (job_command \<times> bool) list \<Rightarrow> (string \<rightharpoonup> job_record) \<Rightarrow> string \<rightharpoonup> job_record" where
  "spec_commands sql [] m = m"
| "spec_commands sql ((c, ok) # cs) m = spec_commands sql cs (if ok then spec_command sql c m else m)"

lemma run_command_refines:
  "run_command sql c rows = (r, rows') \<Longrightarrow>
     peek_job rows' = (if is_ok r then spec_command sql c (peek_job rows) else peek_job rows)"
  by (cases r; cases c)
    (auto simp: run_command_def spec_command_def dest: jobs.save_err jobs.change_err jobs.remove_err
      jobs.save_ok jobs.change_ok jobs.remove_ok)

text \<open>C16. The job table is a map from identifiers to records: every sequence of saves, changes of state and deletions acts
  on the table as the successful ones act on the map, and a lookup returns what the map holds.\<close>

theorem job_store_refines_map:
  "peek_job (snd (run_commands sql cs rows)) = spec_commands sql (zip cs (fst (run_commands sql cs rows))) (peek_job rows)
   \<and> get_job_record sql i rows = (case js_fail sql OpGetJob of None \<Rightarrow> Inr (peek_job rows i)
       | Some f \<Rightarrow> Inl (''getting job '' @ i @ '': '' @ failure_text f))"
proof
  show "peek_job (snd (run_commands sql cs rows)) = spec_commands sql (zip cs (fst (run_commands sql cs rows))) (peek_job rows)"
  proof (induction cs arbitrary: rows)
    case (Cons c cs)
    obtain r rows1 where "run_command sql c rows = (r, rows1)" by fastforce
    with Cons [of rows1] run_command_refines [of sql c rows r rows1] show ?case
      by (simp add: case_prod_unfold Let_def)
  qed simp
qed (simp add: get_job_record_def peek_job_def split: option.split)

end
