(* ===== verification/Consumer.thy ===== *)
theory Consumer
  imports Matching JobStore Decimal
begin

text \<open>
  The scheduler's queue consumer (\<open>internal/scheduler/consumer.go\<close>) with its billing client
  (\<open>internal/billing/integration.go\<close>). A message is handled in one environment: the answers of the job
  table, the registry, the billing service and the queue. The result is the list of effects on the
  outside in their order (requests to the billing service, published tasks, the answer to the queue)
  and the new state, the job table and the remembered registry address.
\<close>

section \<open>The billing client\<close>

record client_session_start =
  cs_user_id :: string
  cs_provider_id :: uuid
  cs_job_id :: "string option"
  cs_gpu_model :: string
  cs_requested_vram :: u64
  cs_estimated_power :: u32
  cs_max_hourly_rate :: "decimal option"
  cs_max_duration_hours :: "int option"

datatype session_answer = SessionFailed string | SessionStatus nat "string + uuid"

record billing_api =
  ba_base_url :: string
  ba_request :: "string \<Rightarrow> string option"
  ba_start :: "client_session_start \<Rightarrow> session_answer"

datatype effect =
    SessionRequested client_session_start session_answer
  | TaskPublished string task
  | MsgAck | MsgAckSync | MsgNak duration

definition client_start_session :: "billing_api \<Rightarrow> client_session_start \<Rightarrow> (string + uuid) \<times> effect list" where
  "client_start_session api req =
     (case ba_request api (ba_base_url api @ ''/api/v1/billing/start-session'') of
        Some e \<Rightarrow> (Inl (''failed to create request: '' @ e), [])
      | None \<Rightarrow>
         (case ba_start api req of
            SessionFailed e \<Rightarrow> Inl (''failed to start session: '' @ e)
          | SessionStatus code body \<Rightarrow>
              if code \<noteq> 201 then Inl (''billing service returned status '' @ nat_text code)
              else (case body of Inl e \<Rightarrow> Inl (''failed to decode response: '' @ e) | Inr i \<Rightarrow> Inr i),
          [SessionRequested req (ba_start api req)]))"

definition check_user_balance :: "string \<Rightarrow> decimal \<Rightarrow> string + bool \<times> decimal" where
  "check_user_balance user cost = Inr (True, 100)"

definition validate_job_requirements :: "(decimal \<Rightarrow> string) \<Rightarrow> string \<Rightarrow> string \<Rightarrow> u64 \<Rightarrow> u32 \<Rightarrow> string option" where
  "validate_job_requirements shown user model vram watts =
     (case check_user_balance user 1 of
        Inl e \<Rightarrow> Some (''failed to check user balance: '' @ e)
      | Inr (has, balance) \<Rightarrow>
          if \<not> has then Some (''insufficient balance: required '' @ shown 1 @ '', available '' @ shown balance) else None)"

definition estimate_job_cost :: "(decimal \<Rightarrow> decimal \<Rightarrow> decimal) \<Rightarrow> string \<Rightarrow> u64 \<Rightarrow> u32 \<Rightarrow> decimal \<Rightarrow> decimal" where
  "estimate_job_cost dv model vram watts hours =
     (let vram_gb = dv (of_int (sint vram)) 1024; power_kw = dv (of_nat (unat watts)) 1000;
          hourly = 1 / 2 + 2 / 100 * vram_gb + 1 / 1000 * power_kw
      in hourly * hours)"

section \<open>Scheduling one job\<close>

record consumer_env =
  ce_clock :: clock
  ce_sql :: job_sql
  ce_registry :: registry_env
  ce_billing :: "billing_api option"
  ce_shown :: "decimal \<Rightarrow> string"
  ce_marshal :: "task \<Rightarrow> string option"
  ce_publish :: "string \<Rightarrow> task \<Rightarrow> string option"
  ce_nak_fails :: bool
  ce_dispatch_prefix :: string

record consumer_state =
  cn_jobs :: "job_row list"
  cn_address :: string

definition session_request :: "listed_provider \<Rightarrow> job \<Rightarrow> client_session_start" where
  "session_request p j =
     (let (model, vram, watts) = billing_specs p j in
      \<lparr>cs_user_id = j_user_id j, cs_provider_id = lp_id p, cs_job_id = Some (j_id j), cs_gpu_model = model,
       cs_requested_vram = vram, cs_estimated_power = watts, cs_max_hourly_rate = None, cs_max_duration_hours = None\<rparr>)"

text \<open>The outcome is the session's text, empty without a billing client, or the pair of the job's error and the returned one.\<close>

definition open_billing :: "consumer_env \<Rightarrow> job \<Rightarrow> listed_provider \<Rightarrow> (string \<times> string + string) \<times> effect list" where
  "open_billing env j p =
     (case ce_billing env of
        None \<Rightarrow> (Inr [], [])
      | Some api \<Rightarrow>
          let (model, vram, watts) = billing_specs p j in
          (case validate_job_requirements (ce_shown env) (j_user_id j) model vram watts of
             Some e \<Rightarrow> (Inl (''Billing validation failed: '' @ e, ''billing validation failed: '' @ e), [])
           | None \<Rightarrow>
             (case client_start_session api (session_request p j) of
                (Inl e, es) \<Rightarrow> (Inl (''Failed to start billing session: '' @ e, ''billing session start failed: '' @ e), es)
              | (Inr i, es) \<Rightarrow> (Inr (uuid_text i), es))))"

definition with_session :: "string \<Rightarrow> json_map option \<Rightarrow> json_map option" where
  "with_session sid params =
     (if sid = [] then params
      else Some ((case params of None \<Rightarrow> Map.empty | Some m \<Rightarrow> m)(''session_id'' \<mapsto> JString sid)))"

text \<open>The map of parameters is shared between the job and the task: a job that has one gets the session too.\<close>

definition share_session :: "string \<Rightarrow> job \<Rightarrow> job" where
  "share_session sid j = (if j_params j = None then j else j\<lparr>j_params := with_session sid (j_params j)\<rparr>)"

definition job_task :: "consumer_env \<Rightarrow> job \<Rightarrow> listed_provider \<Rightarrow> string \<Rightarrow> task" where
  "job_task env j p sid =
     (let t = new_task (ce_clock env 2) j (uuid_text (lp_id p)) in t\<lparr>tk_job_params := with_session sid (tk_job_params t)\<rparr>)"

definition dispatch_subject :: "consumer_env \<Rightarrow> job \<Rightarrow> listed_provider \<Rightarrow> string" where
  "dispatch_subject env j p = ce_dispatch_prefix env @ ''.'' @ uuid_text (lp_id p) @ ''.'' @ j_id j"

definition dispatch_job ::
    "consumer_env \<Rightarrow> internal_job \<Rightarrow> listed_provider \<Rightarrow> string \<Rightarrow> (bool \<times> string option) \<times> internal_job \<times> effect list" where
  "dispatch_job env ij p sid =
     (let j = ij_job ij; t = job_task env j p sid; subj = dispatch_subject env j p;
          ij = ij\<lparr>ij_job := share_session sid j\<rparr> in
      case ce_marshal env t of
        Some e \<Rightarrow> ((False, Some (''task marshalling failed: '' @ e)),
                   ij\<lparr>ij_state := JobStateFailed, ij_last_error := ''Failed to prepare task data: '' @ e\<rparr>, [])
      | None \<Rightarrow>
         (case ce_publish env subj t of
            Some e \<Rightarrow> ((False, Some (''NATS publish failed for task: '' @ e)),
                       ij\<lparr>ij_state := JobStatePending, ij_last_error := ''Failed to dispatch task to NATS: '' @ e\<rparr>, [])
          | None \<Rightarrow> ((True, None),
                     ij\<lparr>ij_state := JobStateDispatched, ij_provider_id := uuid_text (lp_id p),
                        ij_attempts := ij_attempts ij + 1, ij_last_error := []\<rparr>,
                     [TaskPublished subj t])))"

definition schedule_job ::
    "consumer_env \<Rightarrow> internal_job \<Rightarrow> string \<Rightarrow> (bool \<times> string option) \<times> internal_job \<times> string \<times> effect list" where
  "schedule_job env ij cached =
     (let original = ij_state ij; j = ij_job ij; ij1 = ij\<lparr>ij_state := JobStateSearching\<rparr> in
      case list_available_providers (ce_registry env) cached of
        (Inl e, a) \<Rightarrow> ((False, Some (''provider registry query failed: '' @ e)),
                       ij1\<lparr>ij_state := original, ij_last_error := ''provider registry query failed: '' @ e\<rparr>, a, [])
      | (Inr ps, a) \<Rightarrow>
      (case find_suitable_provider j ps of
         None \<Rightarrow> ((False, None), ij1\<lparr>ij_state := JobStatePending, ij_last_error := ''No suitable provider found''\<rparr>, a, [])
       | Some p \<Rightarrow>
      (case open_billing env j p of
         (Inl (told, e), es) \<Rightarrow> ((False, Some e), ij1\<lparr>ij_state := JobStateFailed, ij_last_error := told\<rparr>, a, es)
       | (Inr sid, es) \<Rightarrow> (let (res, ij', es') = dispatch_job env ij1 p sid in (res, ij', a, es @ es')))))"

section \<open>Handling a message\<close>

definition nak_with_delay :: "consumer_env \<Rightarrow> duration \<Rightarrow> effect list" where
  "nak_with_delay env d = (if ce_nak_fails env then [MsgNak d, MsgAck] else [MsgNak d])"

definition process_job :: "consumer_env \<Rightarrow> internal_job \<Rightarrow> consumer_state \<Rightarrow> effect list \<times> consumer_state" where
  "process_job env ij st =
     (let ((scheduled, err), ij', a, es) = schedule_job env ij (cn_address st);
          attempts = (if \<not> scheduled \<or> err \<noteq> None then ij_attempts ij' + 1 else ij_attempts ij');
          last_error = (case err of None \<Rightarrow> [] | Some e \<Rightarrow> e);
          rows = snd (update_job_state (ce_sql env) (ce_clock env 3) (j_id (ij_job ij')) (ij_state ij')
                        (ij_provider_id ij') last_error attempts (cn_jobs st))
      in (es @ (if err \<noteq> None then nak_with_delay env (30 * second)
                else if \<not> scheduled then nak_with_delay env minute
                else [MsgAckSync]),
          \<lparr>cn_jobs = rows, cn_address = a\<rparr>))"

definition stored_job :: "consumer_env \<Rightarrow> job \<Rightarrow> consumer_state \<Rightarrow> job_record option" where
  "stored_job env j st = (case get_job_record (ce_sql env) (j_id j) (cn_jobs st) of Inl e \<Rightarrow> None | Inr r \<Rightarrow> r)"

definition handle_message :: "consumer_env \<Rightarrow> string + job \<Rightarrow> consumer_state \<Rightarrow> effect list \<times> consumer_state" where
  "handle_message env msg st =
     (case msg of
        Inl e \<Rightarrow> ([MsgAck], st)
      | Inr j \<Rightarrow>
        (case stored_job env j st of
           Some r \<Rightarrow>
             (let ij = to_internal r in
              if ij_state ij = JobStateCompleted \<or> ij_state ij = JobStateCancelled then ([MsgAck], st)
              else process_job env ij st)
         | None \<Rightarrow>
             (let ij = new_internal_job (ce_clock env 0) j in
              case save_job (ce_sql env) (ce_clock env 1) (from_internal ij) (cn_jobs st) of
                (Inl e, rows) \<Rightarrow> (nak_with_delay env (10 * second), st\<lparr>cn_jobs := rows\<rparr>)
              | (Inr _, rows) \<Rightarrow> process_job env ij (st\<lparr>cn_jobs := rows\<rparr>))))"

section \<open>The fetch loop\<close>

text \<open>
  One round of the loop: a shutdown, a fetch that times out, a fetch that fails with the connection
  alive or lost, or a batch of messages, each with the environment it is handled in. The loop runs
  over the rounds it is given; after a shutdown or a lost connection the rest is not looked at.
\<close>

datatype fetched =
    ShutdownSignal | FetchTimeout | FetchFailed bool | FetchedBatch "(consumer_env \<times> (string + job)) list"

fun handle_batch :: "(consumer_env \<times> (string + job)) list \<Rightarrow> consumer_state \<Rightarrow> effect list \<times> consumer_state" where
  "handle_batch [] st = ([], st)"
| "handle_batch ((env, m) # ms) st =
     (let (es, st1) = handle_message env m st; (es', st2) = handle_batch ms st1 in (es @ es', st2))"

fun fetch_loop :: "fetched list \<Rightarrow> consumer_state \<Rightarrow> effect list \<times> consumer_state" where
  "fetch_loop [] st = ([], st)"
| "fetch_loop (ShutdownSignal # rs) st = ([], st)"
| "fetch_loop (FetchTimeout # rs) st = fetch_loop rs st"
| "fetch_loop (FetchFailed alive # rs) st = (if \<not> alive then ([], st) else fetch_loop rs st)"
| "fetch_loop (FetchedBatch ms # rs) st =
     (let (es, st1) = handle_batch ms st; (es', st2) = fetch_loop rs st1 in (es @ es', st2))"

end
