(* ===== verification/ConsumerFacts.thy ===== *)
theory ConsumerFacts
  imports Consumer
begin

text \<open>
  What the consumer guarantees: one answer to the queue per message, a task only for a suitable
  provider and with its billing session, the job table kept in step, and the invariants of the table
  over every sequence of messages. Then what it does not guarantee: a job delivered again, or one whose
  lookup fails, is dispatched again.
\<close>

section \<open>The outcomes of scheduling\<close>

lemma validate_passes [simp]: "validate_job_requirements shown user model vram watts = None"
  by (simp add: validate_job_requirements_def check_user_balance_def)

lemma client_start_session_cases:
  assumes "client_start_session api req = (r, es)"
  shows "es = [] \<and> (\<exists>e. r = Inl e) \<or> (\<exists>a. es = [SessionRequested req a] \<and> (\<forall>i. r = Inr i \<longrightarrow> a = SessionStatus 201 (Inr i)))"
  using assms by (auto simp: client_start_session_def split: option.splits session_answer.splits if_splits sum.splits)

lemma open_billing_cases:
  assumes "open_billing env j p = (r, es)"
  shows "(\<exists>e. r = Inl e) \<and> (es = [] \<or> (\<exists>a. es = [SessionRequested (session_request p j) a]))
    \<or> ce_billing env = None \<and> r = Inr [] \<and> es = []
    \<or> ce_billing env \<noteq> None \<and> (\<exists>i. r = Inr (uuid_text i) \<and> es = [SessionRequested (session_request p j) (SessionStatus 201 (Inr i))])"
proof (cases "ce_billing env")
  case (Some api)
  obtain r' es' where s: "client_start_session api (session_request p j) = (r', es')" by fastforce
  from client_start_session_cases [OF s] assms Some s show ?thesis
    by (cases r') (auto simp: open_billing_def split: prod.splits)
qed (use assms in \<open>simp add: open_billing_def\<close>)

lemma dispatch_job_True:
  assumes "dispatch_job env ij p sid = ((True, err), ij', es)"
  shows "err = None" "es = [TaskPublished (dispatch_subject env (ij_job ij) p) (job_task env (ij_job ij) p sid)]"
    "ij' = ij\<lparr>ij_job := share_session sid (ij_job ij), ij_state := JobStateDispatched, ij_provider_id := uuid_text (lp_id p),
              ij_attempts := ij_attempts ij + 1, ij_last_error := []\<rparr>"
  using assms by (auto simp: dispatch_job_def Let_def split: option.splits)

lemma dispatch_job_False:
  assumes "dispatch_job env ij p sid = ((False, err), ij', es)"
  shows "err \<noteq> None" "es = []" "ij_attempts ij' = ij_attempts ij" "ij_provider_id ij' = ij_provider_id ij"
    "ij_job ij' = share_session sid (ij_job ij)" "ij_state ij' \<in> {JobStatePending, JobStateFailed}"
  using assms by (auto simp: dispatch_job_def Let_def split: option.splits)

lemma share_session_id [simp]: "j_id (share_session sid j) = j_id j"
  by (simp add: share_session_def)

lemma schedule_True:
  assumes "schedule_job env ij c = ((True, err), ij', a, es)"
  obtains ps p sid es0 where "err = None" "list_available_providers (ce_registry env) c = (Inr ps, a)"
    "find_suitable_provider (ij_job ij) ps = Some p" "open_billing env (ij_job ij) p = (Inr sid, es0)"
    "es = es0 @ [TaskPublished (dispatch_subject env (ij_job ij) p) (job_task env (ij_job ij) p sid)]"
    "j_id (ij_job ij') = j_id (ij_job ij)" "ij_state ij' = JobStateDispatched"
    "ij_provider_id ij' = uuid_text (lp_id p)" "ij_attempts ij' = ij_attempts ij + 1"
proof -
  let ?ij = "ij\<lparr>ij_state := JobStateSearching\<rparr>"
  from assms obtain ps p sid es0 es1 where l: "list_available_providers (ce_registry env) c = (Inr ps, a)"
    "find_suitable_provider (ij_job ij) ps = Some p" "open_billing env (ij_job ij) p = (Inr sid, es0)"
    and d: "dispatch_job env ?ij p sid = ((True, err), ij', es1)" and es: "es = es0 @ es1"
    by (auto simp: schedule_job_def Let_def split: sum.splits option.splits prod.splits)
  from dispatch_job_True [OF d] l es show thesis by (intro that) simp_all
qed

lemma schedule_False:
  assumes "schedule_job env ij c = ((False, err), ij', a, es)"
  shows "ij_attempts ij' = ij_attempts ij" "ij_provider_id ij' = ij_provider_id ij" "j_id (ij_job ij') = j_id (ij_job ij)"
    "ij_state ij' = ij_state ij \<or> ij_state ij' \<in> {JobStatePending, JobStateFailed}"
    "es = [] \<or> (\<exists>q x. es = [SessionRequested q x])"
proof -
  let ?P = "ij_attempts ij' = ij_attempts ij \<and> ij_provider_id ij' = ij_provider_id ij \<and> j_id (ij_job ij') = j_id (ij_job ij)
    \<and> (ij_state ij' = ij_state ij \<or> ij_state ij' \<in> {JobStatePending, JobStateFailed})
    \<and> (es = [] \<or> (\<exists>q x. es = [SessionRequested q x]))"
  have ?P
  proof (cases "fst (list_available_providers (ce_registry env) c)")
    case (Inl e)
    with assms show ?thesis by (auto simp: schedule_job_def Let_def split: prod.splits)
  next
    case (Inr ps)
    then obtain a' where l: "list_available_providers (ce_registry env) c = (Inr ps, a')" by (metis prod.collapse)
    show ?thesis
    proof (cases "find_suitable_provider (ij_job ij) ps")
      case None
      with l assms show ?thesis by (auto simp: schedule_job_def Let_def)
    next
      case (Some p)
      obtain r es0 where o': "open_billing env (ij_job ij) p = (r, es0)" by fastforce
      have es0: "es0 = [] \<or> (\<exists>q x. es0 = [SessionRequested q x])" using open_billing_cases [OF o'] by auto
      show ?thesis
      proof (cases r)
        case (Inl e)
        with l Some o' es0 assms show ?thesis by (auto simp: schedule_job_def Let_def split: prod.splits)
      next
        case (Inr sid)
        with l Some o' assms obtain es1 where
          d: "dispatch_job env (ij\<lparr>ij_state := JobStateSearching\<rparr>) p sid = ((False, err), ij', es1)" and "es = es0 @ es1"
          by (auto simp: schedule_job_def Let_def split: prod.splits)
        with dispatch_job_False [OF d] es0 show ?thesis by auto
      qed
    qed
  qed
  then show "ij_attempts ij' = ij_attempts ij" "ij_provider_id ij' = ij_provider_id ij" "j_id (ij_job ij') = j_id (ij_job ij)"
    "ij_state ij' = ij_state ij \<or> ij_state ij' \<in> {JobStatePending, JobStateFailed}"
    "es = [] \<or> (\<exists>q x. es = [SessionRequested q x])" by blast+
qed

section \<open>One answer per message\<close>

definition answers :: "effect list set" where
  "answers = {[MsgAck], [MsgAckSync]} \<union> (\<Union>d. {[MsgNak d], [MsgNak d, MsgAck]})"

definition published :: "effect list \<Rightarrow> bool" where
  "published es \<longleftrightarrow> (\<exists>subj t. TaskPublished subj t \<in> set es)"

definition work_of_message :: "effect list \<Rightarrow> bool" where
  "work_of_message es \<longleftrightarrow> es = [] \<or> (\<exists>q x. es = [SessionRequested q x]) \<or> (\<exists>s t. es = [TaskPublished s t])
     \<or> (\<exists>q x s t. es = [SessionRequested q x, TaskPublished s t])"

lemma nak_answers [simp]: "nak_with_delay env d \<in> answers" "nak_with_delay env d \<noteq> [MsgAckSync]"
  by (simp_all add: nak_with_delay_def answers_def)

lemma ack_answers [simp]: "[MsgAck] \<in> answers" "[MsgAckSync] \<in> answers"
  by (simp_all add: answers_def)

definition answered_once :: "effect list \<Rightarrow> bool" where
  "answered_once es \<longleftrightarrow> (\<exists>work answer. es = work @ answer \<and> answer \<in> answers \<and> work_of_message work
     \<and> (answer = [MsgAckSync] \<longleftrightarrow> published work))"

lemma answered_idle: "ans \<in> answers \<Longrightarrow> ans \<noteq> [MsgAckSync] \<Longrightarrow> answered_once ans"
  unfolding answered_once_def
  by (intro exI [of _ "[]"] exI [of _ ans]) (simp add: work_of_message_def published_def)

lemma handle_message_cases:
  obtains (poison) e where "m = Inl e" "handle_message env m st = ([MsgAck], st)"
  | (finished) j r where "m = Inr j" "stored_job env j st = Some r"
      "jr_state r \<in> {JobStateCompleted, JobStateCancelled}" "handle_message env m st = ([MsgAck], st)"
  | (known) j r where "m = Inr j" "stored_job env j st = Some r"
      "jr_state r \<notin> {JobStateCompleted, JobStateCancelled}" "handle_message env m st = process_job env (to_internal r) st"
  | (unsaved) j e where "m = Inr j" "stored_job env j st = None"
      "handle_message env m st = (nak_with_delay env (10 * second), st)"
  | (fresh) j rows where "m = Inr j" "stored_job env j st = None"
      "save_job (ce_sql env) (ce_clock env 1) (from_internal (new_internal_job (ce_clock env 0) j)) (cn_jobs st) = (Inr (), rows)"
      "handle_message env m st = process_job env (new_internal_job (ce_clock env 0) j) (st\<lparr>cn_jobs := rows\<rparr>)"
proof (cases m)
  case (Inl e)
  then show thesis using poison by (simp add: handle_message_def)
next
  case (Inr j)
  show thesis
  proof (cases "stored_job env j st")
    case (Some r)
    with Inr show thesis using finished [of j r] known [of j r]
      by (cases "jr_state r \<in> {JobStateCompleted, JobStateCancelled}") (simp_all add: handle_message_def Let_def)
  next
    case None
    obtain res rows where s: "save_job (ce_sql env) (ce_clock env 1) (from_internal (new_internal_job (ce_clock env 0) j))
        (cn_jobs st) = (res, rows)" by fastforce
    show thesis
    proof (cases res)
      case (Inl e)
      with s have "rows = cn_jobs st" using jobs.save_err by blast
      with Inl s None Inr show thesis using unsaved [of j] by (simp add: handle_message_def Let_def)
    next
      case (Inr u)
      with s None \<open>m = Inr j\<close> show thesis using fresh [of j rows] by (simp add: handle_message_def Let_def)
    qed
  qed
qed

lemma process_job_answer:
  "answered_once (fst (process_job env ij st))"
proof -
  obtain b err ij' a es where s: "schedule_job env ij (cn_address st) = ((b, err), ij', a, es)" by (metis surj_pair)
  show ?thesis
  proof (cases b)
    case True
    with s obtain sid es0 subj t p where "err = None" "open_billing env (ij_job ij) p = (Inr sid, es0)" "es = es0 @ [TaskPublished subj t]"
      by (auto elim!: schedule_True)
    then show ?thesis using open_billing_cases [of env "ij_job ij" p "Inr sid" es0] s True unfolding answered_once_def
      by (intro exI [of _ es] exI [of _ "[MsgAckSync]"]) (auto simp: process_job_def work_of_message_def published_def)
  next
    case False
    let ?ans = "if err \<noteq> None then nak_with_delay env (30 * second) else nak_with_delay env minute"
    have "fst (process_job env ij st) = es @ ?ans" using s False by (simp add: process_job_def)
    moreover have "work_of_message es" "\<not> published es"
      using schedule_False(5) [of env ij "cn_address st" err ij' a es] s False
      by (auto simp: work_of_message_def published_def)
    ultimately show ?thesis unfolding answered_once_def by (intro exI [of _ es] exI [of _ ?ans]) simp
  qed
qed

text \<open>C12. Every message is answered exactly once: an acknowledgement, a negative one, or that and an
  acknowledgement when it fails. Before the answer the consumer asks for at most one billing session and then
  publishes at most one task; it acknowledges with confirmation exactly the messages it published a task for.\<close>

theorem message_answered_once:
  "\<exists>work answer. fst (handle_message env m st) = work @ answer \<and> answer \<in> answers \<and> work_of_message work
     \<and> (answer = [MsgAckSync] \<longleftrightarrow> published work)"
  unfolding answered_once_def [symmetric]
  by (cases rule: handle_message_cases [of m env st]) (simp_all add: process_job_answer answered_idle)

section \<open>What is published\<close>

text \<open>The job a message is scheduled as: the stored one when the lookup finds it, else the one in the message.\<close>

definition scheduled_as :: "consumer_env \<Rightarrow> job \<Rightarrow> consumer_state \<Rightarrow> job" where
  "scheduled_as env j st = (case stored_job env j st of None \<Rightarrow> j | Some r \<Rightarrow> restored_job r)"

definition task_of :: "consumer_env \<Rightarrow> job \<Rightarrow> string \<Rightarrow> string \<Rightarrow> task \<Rightarrow> bool" where
  "task_of env j provider sid t \<longleftrightarrow> t = (new_task (ce_clock env 2) j provider)\<lparr>tk_job_params := with_session sid (j_params j)\<rparr>"

lemma schedule_publishes:
  assumes "schedule_job env ij c = ((b, err), ij', a, es)" "TaskPublished subj t \<in> set es"
  shows b
  using schedule_False(5) [of env ij c err ij' a es] assms by (cases b) auto

lemma process_job_True:
  assumes "schedule_job env ij (cn_address st) = ((True, None), ij', a, es)"
  shows "process_job env ij st = (es @ [MsgAckSync], \<lparr>cn_jobs = snd (update_job_state (ce_sql env) (ce_clock env 3)
    (j_id (ij_job ij')) (ij_state ij') (ij_provider_id ij') [] (ij_attempts ij') (cn_jobs st)), cn_address = a\<rparr>)"
  using assms by (simp add: process_job_def)

lemma process_job_published:
  assumes "TaskPublished subj t \<in> set (fst (process_job env ij st))"
  obtains ps p sid a es0 where "list_available_providers (ce_registry env) (cn_address st) = (Inr ps, a)"
    "find_suitable_provider (ij_job ij) ps = Some p" "open_billing env (ij_job ij) p = (Inr sid, es0)"
    "subj = dispatch_subject env (ij_job ij) p" "t = job_task env (ij_job ij) p sid"
    "process_job env ij st = (es0 @ [TaskPublished subj t, MsgAckSync],
      \<lparr>cn_jobs = snd (update_job_state (ce_sql env) (ce_clock env 3) (j_id (ij_job ij)) JobStateDispatched
        (uuid_text (lp_id p)) [] (ij_attempts ij + 1) (cn_jobs st)), cn_address = a\<rparr>)"
proof -
  obtain b err ij' a es where s: "schedule_job env ij (cn_address st) = ((b, err), ij', a, es)" by (metis surj_pair)
  have "TaskPublished subj t \<in> set es"
    using assms by (auto simp: process_job_def s nak_with_delay_def split: if_splits)
  with s schedule_publishes have b: "schedule_job env ij (cn_address st) = ((True, err), ij', a, es)" by (metis (full_types))
  then show thesis
  proof (rule schedule_True)
    fix ps p sid es0
    assume x: "err = None" "list_available_providers (ce_registry env) (cn_address st) = (Inr ps, a)"
      "find_suitable_provider (ij_job ij) ps = Some p" "open_billing env (ij_job ij) p = (Inr sid, es0)"
      "es = es0 @ [TaskPublished (dispatch_subject env (ij_job ij) p) (job_task env (ij_job ij) p sid)]"
      "j_id (ij_job ij') = j_id (ij_job ij)" "ij_state ij' = JobStateDispatched"
      "ij_provider_id ij' = uuid_text (lp_id p)" "ij_attempts ij' = ij_attempts ij + 1"
    have "subj = dispatch_subject env (ij_job ij) p \<and> t = job_task env (ij_job ij) p sid"
      using \<open>TaskPublished subj t \<in> set es\<close> open_billing_cases [OF x(4)] by (auto simp: x(5))
    then show thesis using x process_job_True [OF b [unfolded x(1)]] by (intro that [of ps a p sid es0]) simp_all
  qed
qed

text \<open>C13. A published task is for the job of the message, goes to the first suitable provider of the registry's list on
  that provider's subject, and carries the identifier of the billing session that was opened for it, with the
  user, the provider and the specification of the billed GPU, whenever there is a billing service.\<close>

theorem published_task_matches:
  assumes "TaskPublished subj t \<in> set (fst (handle_message env (Inr m) st))"
  shows "\<exists>j ps p a. j = scheduled_as env m st
    \<and> list_available_providers (ce_registry env) (cn_address st) = (Inr ps, a)
    \<and> find_suitable_provider j ps = Some p \<and> subj = dispatch_subject env j p
    \<and> (ce_billing env = None \<and> task_of env j (uuid_text (lp_id p)) [] t
       \<or> ce_billing env \<noteq> None \<and> (\<exists>i. task_of env j (uuid_text (lp_id p)) (uuid_text i) t
           \<and> fst (handle_message env (Inr m) st)
               = [SessionRequested (session_request p j) (SessionStatus 201 (Inr i)), TaskPublished subj t, MsgAckSync]))"
proof -
  have core: ?thesis if h: "handle_message env (Inr m) st = process_job env ij st1" and ij: "ij_job ij = scheduled_as env m st"
    and a: "cn_address st1 = cn_address st" for ij st1
  proof -
    from assms have "TaskPublished subj t \<in> set (fst (process_job env ij st1))" by (simp add: h)
    then obtain ps p sid a es0 where x: "list_available_providers (ce_registry env) (cn_address st1) = (Inr ps, a)"
      "find_suitable_provider (ij_job ij) ps = Some p" "open_billing env (ij_job ij) p = (Inr sid, es0)"
      "subj = dispatch_subject env (ij_job ij) p" "t = job_task env (ij_job ij) p sid"
      "fst (process_job env ij st1) = es0 @ [TaskPublished subj t, MsgAckSync]"
      by (rule process_job_published) simp
    have "task_of env (ij_job ij) (uuid_text (lp_id p)) sid t"
      by (simp add: x task_of_def job_task_def Let_def new_task_def)
    with open_billing_cases [OF x(3)] x show ?thesis by (auto simp: h ij a)
  qed
  show ?thesis
  proof (cases rule: handle_message_cases [of "Inr m" env st])
    case (known k r)
    then show ?thesis by (intro core [of "to_internal r" st]) (simp_all add: scheduled_as_def)
  next
    case (fresh k rows)
    then show ?thesis
      by (intro core [of "new_internal_job (ce_clock env 0) m" "st\<lparr>cn_jobs := rows\<rparr>"]) (simp_all add: scheduled_as_def)
  qed (use assms in \<open>auto simp: nak_with_delay_def split: if_splits\<close>)
qed

section \<open>The job table over a sequence of messages\<close>

text \<open>What every row satisfies: a state the scheduler writes, a provider when it is dispatched, a count of attempts.\<close>

definition ij_ok :: "internal_job \<Rightarrow> bool" where
  "ij_ok ij \<longleftrightarrow> ij_state ij \<in> {JobStatePending, JobStateDispatched, JobStateFailed}
     \<and> (ij_state ij = JobStateDispatched \<longrightarrow> ij_provider_id ij \<noteq> []) \<and> 0 \<le> ij_attempts ij"

definition row_ok :: "job_row \<Rightarrow> bool" where
  "row_ok w \<longleftrightarrow> ij_ok (to_internal (scan_job_row w)) \<and> int4 (row_attempts w)"

definition jobs_ok :: "job_row list \<Rightarrow> bool" where
  "jobs_ok rows \<longleftrightarrow> distinct (map row_job_id rows) \<and> (\<forall>w \<in> set rows. row_ok w)"

inductive handles :: "consumer_state \<Rightarrow> consumer_state \<Rightarrow> bool" where
  handles: "handle_message env m st = (es, st') \<Longrightarrow> handles st st'"

inductive_cases handlesE: "handles st st'"

lemma jobs_ok_update:
  assumes "jobs_ok rows" "s \<in> {JobStatePending, JobStateDispatched, JobStateFailed}"
    "s = JobStateDispatched \<longrightarrow> p \<noteq> []" "0 \<le> n"
  shows "jobs_ok (snd (update_job_state sql now i s p e n rows))"
proof -
  have "row_ok (set_job_state s p e n t w)" if "int4 n" for t w
    using assms that by (simp add: row_ok_def ij_ok_def set_job_state_def scan_job_row_def to_internal_def)
  then show ?thesis using assms(1)
    by (auto simp: update_job_state_def jobs_ok_def keys_update dest!: set_update_by split: option.split)
qed

lemma row_ok_new:
  assumes "job_columns_ok (from_internal (new_internal_job now j)\<lparr>jr_updated_at := t\<rparr>)"
  shows "row_ok ((job_row_of sql (from_internal (new_internal_job now j)\<lparr>jr_updated_at := t\<rparr>))\<lparr>row_received_at := u\<rparr>)"
    "row_ok (job_row_of sql (from_internal (new_internal_job now j)\<lparr>jr_updated_at := t\<rparr>))"
  by (simp_all add: row_ok_def ij_ok_def job_row_of_def scan_job_row_def to_internal_def int4_def)

lemma set_upsert: "x \<in> set (upsert_job w rows) \<Longrightarrow> x \<in> set rows \<or> x = w \<or> (\<exists>t. x = w\<lparr>row_received_at := t\<rparr>)"
  by (auto simp: upsert_job_def dest!: set_update_by split: if_splits)

lemma keys_upsert:
  "map row_job_id (upsert_job w rows) =
     (if select_by row_job_id (row_job_id w) rows = None then map row_job_id rows @ [row_job_id w] else map row_job_id rows)"
  by (auto simp: upsert_job_def update_by_def)

lemma jobs_ok_save_new:
  assumes "jobs_ok rows" "save_job sql now (from_internal (new_internal_job t j)) rows = (res, rows')"
  shows "jobs_ok rows'"
proof (cases res)
  case (Inl e)
  with assms jobs.save_err show ?thesis by blast
next
  case (Inr u)
  let ?w = "job_row_of sql (from_internal (new_internal_job t j)\<lparr>jr_updated_at := now\<rparr>)"
  from Inr assms(2) have r: "rows' = upsert_job ?w rows" "job_columns_ok (from_internal (new_internal_job t j)\<lparr>jr_updated_at := now\<rparr>)"
    by (auto simp: save_job_def Let_def split: option.splits if_splits)
  then have "row_ok x" if "x \<in> set rows'" for x
    using set_upsert [of x ?w rows] that assms(1) row_ok_new [of now t j] by (auto simp: jobs_ok_def)
  moreover have "distinct (map row_job_id rows')"
    using assms(1) by (auto simp: r(1) keys_upsert jobs_ok_def select_by_None)
  ultimately show ?thesis by (simp add: jobs_ok_def)
qed

lemma schedule_keeps_ij:
  assumes "schedule_job env ij c = ((b, err), ij', a, es)" "ij_ok ij"
  shows "ij_ok ij'"
proof (cases b)
  case True
  with assms(1) have "schedule_job env ij c = ((True, err), ij', a, es)" by simp
  then show ?thesis
    by (rule schedule_True) (use assms(2) uuid_text_nonempty in \<open>simp add: ij_ok_def\<close>)
next
  case False
  with assms(1) have s: "schedule_job env ij c = ((False, err), ij', a, es)" by simp
  show ?thesis using schedule_False(1-4) [OF s] assms(2) by (auto simp: ij_ok_def)
qed

lemma jobs_ok_process:
  assumes "jobs_ok (cn_jobs st)" "ij_ok ij"
  shows "jobs_ok (cn_jobs (snd (process_job env ij st)))"
proof -
  obtain b err ij' a es where s: "schedule_job env ij (cn_address st) = ((b, err), ij', a, es)" by (metis surj_pair)
  from schedule_keeps_ij [OF s assms(2)] show ?thesis
    using assms(1) by (auto simp: process_job_def s ij_ok_def intro!: jobs_ok_update)
qed

lemma stored_job_row: "stored_job env j st = Some r \<Longrightarrow> \<exists>w \<in> set (cn_jobs st). r = scan_job_row w"
  by (auto simp: stored_job_def get_job_record_def dest: select_by_SomeD split: option.splits sum.splits)

lemma jobs_ok_handle: "jobs_ok (cn_jobs st) \<Longrightarrow> jobs_ok (cn_jobs (snd (handle_message env m st)))"
proof (cases rule: handle_message_cases [of m env st])
  case (known j r)
  assume ok: "jobs_ok (cn_jobs st)"
  with known stored_job_row [of env j st r] have "ij_ok (to_internal r)" by (auto simp: jobs_ok_def row_ok_def)
  with ok known show ?thesis by (simp add: jobs_ok_process)
next
  case (fresh j rows)
  assume "jobs_ok (cn_jobs st)"
  with fresh have "jobs_ok rows" by (auto intro: jobs_ok_save_new)
  then show ?thesis unfolding fresh(4) by (intro jobs_ok_process) (simp_all add: ij_ok_def)
qed simp_all

text \<open>C14. Whatever messages arrive and whatever the database, the registry, the billing service and the queue answer,
  the job table keeps one row per job; a row is pending, failed, or dispatched with a provider. No job is ever
  completed or cancelled by the scheduler, so the test for finished jobs stops no redelivery.\<close>

theorem consumer_table_invariant:
  assumes "handles\<^sup>*\<^sup>* st st'" "jobs_ok (cn_jobs st)"
  shows "distinct (map row_job_id (cn_jobs st'))
    \<and> (\<forall>w \<in> set (cn_jobs st'). row_state w \<in> {JobStatePending, JobStateDispatched, JobStateFailed}
       \<and> (row_state w = JobStateDispatched \<longrightarrow> row_provider_id w \<noteq> None) \<and> 0 \<le> row_attempts w)"
proof -
  have "jobs_ok (cn_jobs st')" using assms
  proof (induction rule: rtranclp_induct)
    case (step y z)
    from step.hyps(2) show ?case
    proof (rule handlesE)
      fix env m es assume "handle_message env m y = (es, z)"
      then show ?thesis using jobs_ok_handle [of y env m] step by simp
    qed
  qed
  then show ?thesis
    by (auto simp: jobs_ok_def row_ok_def ij_ok_def to_internal_def scan_job_row_def string_or_empty_def split: option.splits)
qed

section \<open>What a delivery leaves in the table\<close>

lemma fits_uuid_text [simp]: "fits 255 (uuid_text u)"
  by (simp add: fits_def length_uuid_text)

lemma published_append [simp]: "published (xs @ ys) \<longleftrightarrow> published xs \<or> published ys"
  "\<not> published (nak_with_delay env d)" "\<not> published [MsgAckSync]" "\<not> published [MsgAck]"
  by (auto simp: published_def nak_with_delay_def)

lemma published_task [simp]: "published (TaskPublished s t # es)"
  by (auto simp: published_def)

lemma stored_jobI: "js_fail (ce_sql env) OpGetJob = None \<Longrightarrow> stored_job env j st = peek_job (cn_jobs st) (j_id j)"
  by (simp add: stored_job_def get_job_record_def peek_job_def)

lemma process_job_records:
  obtains s p e where "cn_jobs (snd (process_job env ij st)) =
      snd (update_job_state (ce_sql env) (ce_clock env 3) (j_id (ij_job ij)) s p e (ij_attempts ij + 1) (cn_jobs st))"
    "fits 255 (ij_provider_id ij) \<Longrightarrow> fits 255 p" "published (fst (process_job env ij st)) \<Longrightarrow> s = JobStateDispatched"
    "s = JobStateDispatched \<Longrightarrow> published (fst (process_job env ij st)) \<or> ij_state ij = JobStateDispatched"
proof -
  obtain b err ij' a es where s: "schedule_job env ij (cn_address st) = ((b, err), ij', a, es)" by (metis surj_pair)
  show thesis
  proof (cases b)
    case True
    with s have "schedule_job env ij (cn_address st) = ((True, err), ij', a, es)" by simp
    then show thesis
    proof (rule schedule_True)
      fix ps p sid es0
      assume x: "err = None" "es = es0 @ [TaskPublished (dispatch_subject env (ij_job ij) p) (job_task env (ij_job ij) p sid)]"
        "j_id (ij_job ij') = j_id (ij_job ij)" "ij_state ij' = JobStateDispatched"
        "ij_provider_id ij' = uuid_text (lp_id p)" "ij_attempts ij' = ij_attempts ij + 1"
      then have "published es" by (auto simp: published_def)
      with x s True show thesis by (intro that [of JobStateDispatched "uuid_text (lp_id p)" "[]"]) (simp_all add: process_job_def)
    qed
  next
    case False
    with s have s': "schedule_job env ij (cn_address st) = ((False, err), ij', a, es)" by simp
    have "\<not> published es" using schedule_False(5) [OF s'] by (auto simp: published_def)
    with schedule_False(1-4) [OF s'] s' show thesis
      by (intro that [of "ij_state ij'" "ij_provider_id ij'" "case err of None \<Rightarrow> [] | Some e \<Rightarrow> e"])
        (auto simp: process_job_def split: if_splits)
  qed
qed

lemma update_succeeds:
  "js_fail sql OpUpdateJob = None \<Longrightarrow> int4 n \<Longrightarrow> fits 255 p \<Longrightarrow> fst (update_job_state sql now i s p e n rows) = Inr ()"
  by (simp add: update_job_state_def)

lemma process_job_table:
  assumes "js_fail (ce_sql env) OpUpdateJob = None" "int4 (ij_attempts ij + 1)" "fits 255 (ij_provider_id ij)"
    and r: "peek_job (cn_jobs st) (j_id (ij_job ij)) = Some r"
  obtains r' where
    "peek_job (cn_jobs (snd (process_job env ij st))) = (peek_job (cn_jobs st))(j_id (ij_job ij) \<mapsto> r')"
    "jr_attempts r' = ij_attempts ij + 1" "restored_job r' = restored_job r"
    "published (fst (process_job env ij st)) \<Longrightarrow> jr_state r' = JobStateDispatched"
    "jr_state r' = JobStateDispatched \<Longrightarrow> published (fst (process_job env ij st)) \<or> ij_state ij = JobStateDispatched"
proof -
  obtain s p e where u: "cn_jobs (snd (process_job env ij st)) =
      snd (update_job_state (ce_sql env) (ce_clock env 3) (j_id (ij_job ij)) s p e (ij_attempts ij + 1) (cn_jobs st))"
    and p: "fits 255 p" and d: "published (fst (process_job env ij st)) \<Longrightarrow> s = JobStateDispatched"
      "s = JobStateDispatched \<Longrightarrow> published (fst (process_job env ij st)) \<or> ij_state ij = JobStateDispatched"
    using assms(3) process_job_records [of env ij st] by metis
  have "fst (update_job_state (ce_sql env) (ce_clock env 3) (j_id (ij_job ij)) s p e (ij_attempts ij + 1) (cn_jobs st)) = Inr ()"
    using assms(1,2) p by (rule update_succeeds)
  then have "update_job_state (ce_sql env) (ce_clock env 3) (j_id (ij_job ij)) s p e (ij_attempts ij + 1) (cn_jobs st)
      = (Inr (), cn_jobs (snd (process_job env ij st)))" unfolding u by (simp add: prod_eq_iff)
  from jobs.change_ok [OF this] r d show thesis
    by (intro that [of "changed_job (ce_sql env) (ce_clock env 3) s p e (ij_attempts ij + 1) r"])
      (simp_all add: jobs.changed_state jobs.changed_job)
qed

text \<open>Every delivery of a stored, unfinished job counts as exactly one attempt whatever becomes of it, keeps the job
  itself and every other row, and leaves it dispatched whenever its task was published.\<close>

theorem delivery_recorded:
  assumes db: "js_fail (ce_sql env) OpGetJob = None" "js_fail (ce_sql env) OpUpdateJob = None"
    and r: "peek_job (cn_jobs st) (j_id j) = Some r" "jr_state r \<notin> {JobStateCompleted, JobStateCancelled}"
    and fits: "int4 (jr_attempts r + 1)" "fits 255 (jr_provider_id r)"
    and h: "handle_message env (Inr j) st = (es, st')"
  shows "\<exists>r'. peek_job (cn_jobs st') = (peek_job (cn_jobs st))(j_id j \<mapsto> r') \<and> jr_attempts r' = jr_attempts r + 1
    \<and> restored_job r' = restored_job r \<and> (published es \<longrightarrow> jr_state r' = JobStateDispatched)
    \<and> (jr_state r' = JobStateDispatched \<longrightarrow> published es \<or> jr_state r = JobStateDispatched)"
proof -
  from db(1) r(1) have s: "stored_job env j st = Some r" by (simp add: stored_jobI)
  with r(2) h have p: "process_job env (to_internal r) st = (es, st')" by (simp add: handle_message_def Let_def)
  have i: "jr_job_id r = j_id j" using r(1) by (auto simp: peek_job_def dest: select_by_SomeD)
  show ?thesis
    by (rule process_job_table [of env "to_internal r" st r]) (use db(2) r(1) fits p i in auto)
qed

section \<open>A message that is delivered again\<close>

text \<open>An environment in which nothing fails for the job: some suitable provider, an open billing session, a task that is published.\<close>

definition serves :: "consumer_env \<Rightarrow> job \<Rightarrow> listed_provider \<Rightarrow> billing_api \<Rightarrow> uuid \<Rightarrow> bool" where
  "serves env j p api i \<longleftrightarrow> js_fail (ce_sql env) = (\<lambda>_. None)
     \<and> (\<forall>c. \<exists>ps a. list_available_providers (ce_registry env) c = (Inr ps, a) \<and> find_suitable_provider j ps = Some p)
     \<and> ce_billing env = Some api \<and> ba_request api (ba_base_url api @ ''/api/v1/billing/start-session'') = None
     \<and> ba_start api (session_request p j) = SessionStatus 201 (Inr i)
     \<and> ce_marshal env = (\<lambda>_. None) \<and> ce_publish env = (\<lambda>_ _. None)"

definition dispatch_effects :: "consumer_env \<Rightarrow> job \<Rightarrow> listed_provider \<Rightarrow> uuid \<Rightarrow> effect list" where
  "dispatch_effects env j p i = [SessionRequested (session_request p j) (SessionStatus 201 (Inr i)),
     TaskPublished (dispatch_subject env j p) (job_task env j p (uuid_text i)), MsgAckSync]"

lemma serves_process:
  assumes "serves env j p api i" "ij_job ij = j"
  shows "fst (process_job env ij st) = dispatch_effects env j p i"
proof -
  from assms(1) obtain ps a where a: "list_available_providers (ce_registry env) (cn_address st) = (Inr ps, a)"
    "find_suitable_provider j ps = Some p" by (fastforce simp: serves_def)
  have c: "client_start_session api (session_request p j)
      = (Inr i, [SessionRequested (session_request p j) (SessionStatus 201 (Inr i))])"
    using assms(1) by (simp add: serves_def client_start_session_def)
  have b: "open_billing env j p = (Inr (uuid_text i), [SessionRequested (session_request p j) (SessionStatus 201 (Inr i))])"
    using assms(1) c by (simp add: serves_def open_billing_def split: prod.split)
  obtain ij' where s: "schedule_job env ij (cn_address st) = ((True, None), ij', a,
      [SessionRequested (session_request p j) (SessionStatus 201 (Inr i)),
       TaskPublished (dispatch_subject env j p) (job_task env j p (uuid_text i))])"
    using assms(1) a b by (simp add: schedule_job_def Let_def assms(2) dispatch_job_def serves_def)
  show "fst (process_job env ij st) = dispatch_effects env j p i"
    by (simp_all add: process_job_True [OF s] dispatch_effects_def)
qed

lemma restored_received [simp]: "restored_job (r\<lparr>jr_received_at := t\<rparr>) = restored_job r"
  by (cases r) (simp only: restored_job_def job_record.simps)

lemma restored_saved_new:
  assumes "j_submitted_at j \<noteq> zero_time"
  shows "restored_job (saved_job sql now (from_internal (new_internal_job t j)) old) = j"
proof -
  have "restored_job (scan_job_row (job_row_of sql (from_internal (new_internal_job t j)\<lparr>jr_updated_at := now\<rparr>))) = j"
    using assms by (simp add: scan_row_of from_internal_def restored_job_def Let_def)
  then show ?thesis by (cases old) (simp_all add: saved_job_def Let_def)
qed

lemma serves_new:
  assumes "serves env j p api i" "peek_job (cn_jobs st) (j_id j) = None"
    "job_columns_ok (from_internal (new_internal_job 0 j))" "j_submitted_at j \<noteq> zero_time"
  obtains st' r where "handle_message env (Inr j) st = (dispatch_effects env j p i, st')"
    "peek_job (cn_jobs st') (j_id j) = Some r" "restored_job r = j" "jr_state r = JobStateDispatched"
proof -
  let ?ij = "new_internal_job (ce_clock env 0) j"
  have sql: "js_fail (ce_sql env) = (\<lambda>_. None)" using assms(1) by (simp add: serves_def)
  have s0: "stored_job env j st = None" using assms(2) sql by (simp add: stored_jobI)
  have cols: "job_columns_ok (from_internal ?ij\<lparr>jr_updated_at := t\<rparr>)" for t
    using assms(3) by (simp add: job_columns_ok_def from_internal_def)
  then obtain rows where sv: "save_job (ce_sql env) (ce_clock env 1) (from_internal ?ij) (cn_jobs st) = (Inr (), rows)"
    using sql by (simp add: save_job_def Let_def)
  let ?st1 = "st\<lparr>cn_jobs := rows\<rparr>"
  have h1: "handle_message env (Inr j) st = process_job env ?ij ?st1"
    using s0 sv by (simp add: handle_message_def Let_def)
  obtain st2 where p1: "process_job env ?ij ?st1 = (dispatch_effects env j p i, st2)"
    using serves_process [of env j p api i ?ij ?st1] assms(1) by (cases "process_job env ?ij ?st1") auto
  have pk: "peek_job rows (j_id j) = Some (saved_job (ce_sql env) (ce_clock env 1) (from_internal ?ij) None)"
    using jobs.save_ok [OF sv] assms(2) by simp
  have rj: "restored_job (saved_job (ce_sql env) t (from_internal ?ij) None) = j" for t
    by (rule restored_saved_new [OF assms(4)])
  obtain r where r: "peek_job (cn_jobs st2) (j_id j) = Some r" "restored_job r = j" "jr_state r = JobStateDispatched"
    by (rule process_job_table [of env ?ij ?st1 "saved_job (ce_sql env) (ce_clock env 1) (from_internal ?ij) None"])
      (use sql pk p1 rj in \<open>auto simp: int4_def fits_def published_def dispatch_effects_def\<close>)
  with h1 p1 show thesis by (intro that [of st2 r]) simp_all
qed

text \<open>A job that was dispatched and whose message is delivered again, because the confirmation of its
  acknowledgement was lost, is dispatched again: a second billing session is opened for it and a second task published.\<close>

theorem redelivery_dispatches_again:
  assumes "serves env j p api i" "peek_job (cn_jobs st) (j_id j) = None"
    "job_columns_ok (from_internal (new_internal_job 0 j))" "j_submitted_at j \<noteq> zero_time"
  shows "fst (handle_batch [(env, Inr j), (env, Inr j)] st) = dispatch_effects env j p i @ dispatch_effects env j p i"
proof -
  have sql: "js_fail (ce_sql env) = (\<lambda>_. None)" using assms(1) by (simp add: serves_def)
  from assms obtain st2 r where h1: "handle_message env (Inr j) st = (dispatch_effects env j p i, st2)"
    and r: "peek_job (cn_jobs st2) (j_id j) = Some r" "restored_job r = j"
      "jr_state r = JobStateDispatched" by (rule serves_new)
  have "handle_message env (Inr j) st2 = process_job env (to_internal r) st2"
    using r sql by (simp add: handle_message_def Let_def stored_jobI)
  moreover have "fst (process_job env (to_internal r) st2) = dispatch_effects env j p i"
    using serves_process [of env j p api i "to_internal r" st2] assms(1) r by simp
  ultimately show ?thesis using h1 by (cases "process_job env (to_internal r) st2") simp
qed

text \<open>A job whose lookup fails is taken for a new one: its row is overwritten, a finished job is scheduled again and
  the attempts counted so far are lost.\<close>

theorem failed_lookup_resets_job:
  assumes db: "js_fail (ce_sql env) OpGetJob = Some f" "js_fail (ce_sql env) OpSaveJob = None" "js_fail (ce_sql env) OpUpdateJob = None"
    and cols: "job_columns_ok (from_internal (new_internal_job 0 j))"
    and r: "peek_job (cn_jobs st) (j_id j) = Some r"
    and h: "handle_message env (Inr j) st = (es, st')"
  shows "\<exists>r'. peek_job (cn_jobs st') (j_id j) = Some r' \<and> jr_attempts r' = 1
    \<and> jr_state r' \<in> {JobStatePending, JobStateFailed, JobStateDispatched}"
proof -
  let ?ij = "new_internal_job (ce_clock env 0) j"
  have "job_columns_ok (from_internal ?ij\<lparr>jr_updated_at := t\<rparr>)" for t
    using cols by (simp add: job_columns_ok_def from_internal_def)
  then obtain rows where sv: "save_job (ce_sql env) (ce_clock env 1) (from_internal ?ij) (cn_jobs st) = (Inr (), rows)"
    using db by (simp add: save_job_def Let_def)
  let ?st1 = "st\<lparr>cn_jobs := rows\<rparr>"
  from db(1) have "stored_job env j st = None" by (simp add: stored_job_def get_job_record_def)
  with sv h have p: "process_job env ?ij ?st1 = (es, st')" by (simp add: handle_message_def Let_def)
  have pk: "peek_job rows (j_id j) = Some (saved_job (ce_sql env) (ce_clock env 1) (from_internal ?ij) (Some r))"
    using jobs.save_ok [OF sv] r by simp
  obtain b err ij' a w where s: "schedule_job env ?ij (cn_address st) = ((b, err), ij', a, w)" by (metis surj_pair)
  have ok: "ij_ok ij'" using schedule_keeps_ij [OF s] by (simp add: ij_ok_def)
  obtain r' where r': "peek_job (cn_jobs st') (j_id j) = Some r'" "jr_attempts r' = 1"
    by (rule process_job_table [of env ?ij ?st1 _]) (use db pk p in \<open>auto simp: int4_def fits_def\<close>)
  moreover have "jr_state r' = ij_state ij' \<or> jr_state r' = JobStatePending"
  proof -
    let ?n = "if \<not> b \<or> err \<noteq> None then ij_attempts ij' + 1 else ij_attempts ij'"
    let ?u = "update_job_state (ce_sql env) (ce_clock env 3) (j_id (ij_job ij')) (ij_state ij') (ij_provider_id ij')
        (case err of None \<Rightarrow> [] | Some e \<Rightarrow> e) ?n rows"
    have st': "cn_jobs st' = snd ?u" using p by (auto simp: process_job_def s)
    have i: "j_id (ij_job ij') = j_id j"
      using s schedule_False(3) [of env ?ij "cn_address st" err ij' a w] by (cases b) (auto elim!: schedule_True)
    show ?thesis
    proof (cases "fst ?u")
      case (Inl e)
      then have "cn_jobs st' = rows" unfolding st' using jobs.change_err by (metis prod.collapse)
      with r' pk show ?thesis by (auto simp: saved_job_def scan_row_of)
    next
      case (Inr v)
      then have "?u = (Inr (), cn_jobs st')" unfolding st' by (simp add: prod_eq_iff)
      from jobs.change_ok [OF this] r'(1) pk i show ?thesis by (auto simp: jobs.changed_state)
    qed
  qed
  ultimately show ?thesis using ok by (auto simp: ij_ok_def)
qed

text \<open>The table knows the job and does not hold it finished, or does not know it.\<close>

definition unfinished :: "job_row list \<Rightarrow> job \<Rightarrow> bool" where
  "unfinished rows j \<longleftrightarrow> (case peek_job rows (j_id j) of None \<Rightarrow> True
     | Some r \<Rightarrow> restored_job r = j \<and> jr_state r \<notin> {JobStateCompleted, JobStateCancelled})"

definition leaks :: "consumer_env \<Rightarrow> job \<Rightarrow> listed_provider \<Rightarrow> billing_api \<Rightarrow> uuid \<Rightarrow> bool" where
  "leaks env j p api i \<longleftrightarrow> serves (env\<lparr>ce_publish := \<lambda>_ _. None\<rparr>) j p api i \<and> (\<forall>s t. ce_publish env s t \<noteq> None)"

lemma leaks_process:
  assumes "leaks env j p api i" "ij_job ij = j"
  shows "fst (process_job env ij st) = SessionRequested (session_request p j) (SessionStatus 201 (Inr i)) # nak_with_delay env (30 * second)"
    "\<exists>e. cn_jobs (snd (process_job env ij st)) = snd (update_job_state (ce_sql env) (ce_clock env 3) (j_id j) JobStatePending
       (ij_provider_id ij) e (ij_attempts ij + 1) (cn_jobs st))"
proof -
  from assms(1) obtain ps a where a: "list_available_providers (ce_registry env) (cn_address st) = (Inr ps, a)"
    "find_suitable_provider j ps = Some p" by (fastforce simp: serves_def leaks_def)
  have c: "client_start_session api (session_request p j)
      = (Inr i, [SessionRequested (session_request p j) (SessionStatus 201 (Inr i))])"
    using assms(1) by (simp add: serves_def client_start_session_def leaks_def)
  have b: "open_billing env j p = (Inr (uuid_text i), [SessionRequested (session_request p j) (SessionStatus 201 (Inr i))])"
    using assms(1) c by (simp add: serves_def open_billing_def leaks_def split: prod.split)
  obtain e where e: "ce_publish env (dispatch_subject env j p) (job_task env j p (uuid_text i)) = Some e"
    using assms(1) by (auto simp: leaks_def)
  obtain e' ij' where s: "schedule_job env ij (cn_address st) = ((False, Some e'), ij', a,
      [SessionRequested (session_request p j) (SessionStatus 201 (Inr i))])"
    and ij': "j_id (ij_job ij') = j_id j" "ij_state ij' = JobStatePending" "ij_provider_id ij' = ij_provider_id ij"
      "ij_attempts ij' = ij_attempts ij"
    using assms(1) a b e by (simp add: schedule_job_def Let_def assms(2) dispatch_job_def serves_def leaks_def)
  show "fst (process_job env ij st) = SessionRequested (session_request p j) (SessionStatus 201 (Inr i)) # nak_with_delay env (30 * second)"
    "\<exists>e. cn_jobs (snd (process_job env ij st)) = snd (update_job_state (ce_sql env) (ce_clock env 3) (j_id j) JobStatePending
       (ij_provider_id ij) e (ij_attempts ij + 1) (cn_jobs st))"
    by (auto simp: process_job_def s ij')
qed

lemma unfinished_update:
  assumes "unfinished rows j" "s \<notin> {JobStateCompleted, JobStateCancelled}"
  shows "unfinished (snd (update_job_state sql now (j_id j) s p e n rows)) j"
proof (cases "fst (update_job_state sql now (j_id j) s p e n rows)")
  case (Inl err)
  then show ?thesis using assms jobs.change_err by (metis prod.collapse)
next
  case (Inr u)
  then have "update_job_state sql now (j_id j) s p e n rows
      = (Inr (), snd (update_job_state sql now (j_id j) s p e n rows))" by (simp add: prod_eq_iff)
  from jobs.change_ok [OF this] assms show ?thesis
    by (auto simp: unfinished_def jobs.changed_job jobs.changed_state split: option.splits)
qed

lemma unfinished_save:
  assumes "unfinished rows j" "j_submitted_at j \<noteq> zero_time"
    and s: "save_job sql now (from_internal (new_internal_job t j)) rows = (Inr (), rows')"
  shows "unfinished rows' j"
proof -
  note restored_saved_new [OF assms(2)]
  moreover have "jr_state (saved_job sql now (from_internal (new_internal_job t j)) old) = JobStatePending" for old
    by (simp add: saved_job_def scan_row_of Let_def split: option.split)
  ultimately show ?thesis using jobs.save_ok [OF s] by (simp add: unfinished_def)
qed

lemma leaks_message:
  assumes "leaks env j p api i" "unfinished (cn_jobs st) j"
    "job_columns_ok (from_internal (new_internal_job 0 j))" "j_submitted_at j \<noteq> zero_time"
  obtains st' where "handle_message env (Inr j) st
      = (SessionRequested (session_request p j) (SessionStatus 201 (Inr i)) # nak_with_delay env (30 * second), st')"
    "unfinished (cn_jobs st') j"
proof -
  note found = that
  have sql: "js_fail (ce_sql env) = (\<lambda>_. None)" using assms(1) by (simp add: leaks_def serves_def)
  have step: thesis if h: "handle_message env (Inr j) st = process_job env ij st1" "ij_job ij = j"
    and st1: "unfinished (cn_jobs st1) j" for ij st1
  proof -
    obtain e where "cn_jobs (snd (process_job env ij st1)) = snd (update_job_state (ce_sql env) (ce_clock env 3) (j_id j)
        JobStatePending (ij_provider_id ij) e (ij_attempts ij + 1) (cn_jobs st1))"
      using leaks_process(2) [OF assms(1) h(2), of st1] by blast
    then have "unfinished (cn_jobs (snd (process_job env ij st1))) j" using unfinished_update [OF st1] by simp
    then show thesis using leaks_process(1) [OF assms(1) h(2), of st1] h(1)
      by (intro found [of "snd (process_job env ij st1)"]) (simp_all add: prod_eq_iff)
  qed
  show thesis
  proof (cases "peek_job (cn_jobs st) (j_id j)")
    case None
    let ?ij = "new_internal_job (ce_clock env 0) j"
    have "job_columns_ok (from_internal ?ij\<lparr>jr_updated_at := t\<rparr>)" for t
      using assms(3) by (simp add: job_columns_ok_def from_internal_def)
    then obtain rows where sv: "save_job (ce_sql env) (ce_clock env 1) (from_internal ?ij) (cn_jobs st) = (Inr (), rows)"
      using sql by (simp add: save_job_def Let_def)
    have "unfinished rows j" using assms(2,4) sv by (rule unfinished_save)
    with None sv sql show thesis
      by (intro step [of ?ij "st\<lparr>cn_jobs := rows\<rparr>"]) (simp_all add: handle_message_def stored_jobI)
  next
    case (Some r)
    with assms(2) sql show thesis
      by (intro step [of "to_internal r" st]) (simp_all add: handle_message_def stored_jobI Let_def unfinished_def)
  qed
qed

text \<open>While the task cannot be published, every delivery of the message opens one more billing session, and none of
  them is ever ended: the consumer sends the billing service nothing else.\<close>

theorem unpublished_job_leaks_sessions:
  assumes "leaks env j p api i" "unfinished (cn_jobs st) j"
    "job_columns_ok (from_internal (new_internal_job 0 j))" "j_submitted_at j \<noteq> zero_time"
  shows "fst (handle_batch (replicate n (env, Inr j)) st) = concat (replicate n
    (SessionRequested (session_request p j) (SessionStatus 201 (Inr i)) # nak_with_delay env (30 * second)))"
  using assms(2)
proof (induction n arbitrary: st)
  case (Suc n)
  obtain st' where h: "handle_message env (Inr j) st
      = (SessionRequested (session_request p j) (SessionStatus 201 (Inr i)) # nak_with_delay env (30 * second), st')"
    "unfinished (cn_jobs st') j"
    using assms(1) Suc.prems assms(3,4) by (rule leaks_message)
  with Suc.IH [of st'] Suc.prems show ?case by (simp add: case_prod_unfold)
qed simp

section \<open>Progress\<close>

lemma process_unfinished:
  assumes "unfinished (cn_jobs st) j" "ij_job ij = j" "ij_state ij \<notin> {JobStateCompleted, JobStateCancelled}"
  shows "unfinished (cn_jobs (snd (process_job env ij st))) j"
proof -
  obtain b err ij' a es where s: "schedule_job env ij (cn_address st) = ((b, err), ij', a, es)" by (metis surj_pair)
  have "ij_state ij' \<notin> {JobStateCompleted, JobStateCancelled} \<and> j_id (ij_job ij') = j_id j"
    using s assms(2,3) schedule_False(3,4) [of env ij "cn_address st" err ij' a es]
    by (cases b) (auto elim!: schedule_True)
  with assms(1) show ?thesis by (auto simp: process_job_def s intro!: unfinished_update)
qed

lemma handle_unfinished:
  assumes "unfinished (cn_jobs st) j" "j_submitted_at j \<noteq> zero_time"
  shows "unfinished (cn_jobs (snd (handle_message env (Inr j) st))) j"
proof (cases rule: handle_message_cases [of "Inr j" env st])
  case (known k r)
  then have "restored_job r = j \<or> stored_job env j st = None"
    using assms(1) by (auto simp: unfinished_def stored_job_def get_job_record_def peek_job_def split: option.splits)
  with known show ?thesis using process_unfinished [OF assms(1), of "to_internal r" env] by simp
next
  case (fresh k rows)
  then have "unfinished rows j" using assms by (auto intro: unfinished_save)
  then show ?thesis unfolding fresh(4) using fresh(1) by (intro process_unfinished) simp_all
qed (use assms in simp_all)

lemma serves_dispatches:
  assumes "serves env j p api i" "unfinished (cn_jobs st) j" "job_columns_ok (from_internal (new_internal_job 0 j))"
    "j_submitted_at j \<noteq> zero_time"
  shows "fst (handle_message env (Inr j) st) = dispatch_effects env j p i"
proof (cases "peek_job (cn_jobs st) (j_id j)")
  case None
  with assms show ?thesis using serves_new [of env j p api i st] by (metis fst_conv)
next
  case (Some r)
  have "js_fail (ce_sql env) = (\<lambda>_. None)" using assms(1) by (simp add: serves_def)
  with Some assms(2) have "handle_message env (Inr j) st = process_job env (to_internal r) st" "restored_job r = j"
    by (simp_all add: handle_message_def stored_jobI Let_def unfinished_def)
  with serves_process [OF assms(1), of "to_internal r" st] show ?thesis by simp
qed

lemma handle_batch_append:
  "handle_batch (xs @ ys) st = (let (es, st1) = handle_batch xs st; (es', st2) = handle_batch ys st1 in (es @ es', st2))"
  by (induction xs arbitrary: st) (auto simp: case_prod_unfold Let_def)

lemma batch_unfinished:
  "unfinished (cn_jobs st) j \<Longrightarrow> j_submitted_at j \<noteq> zero_time \<Longrightarrow>
    unfinished (cn_jobs (snd (handle_batch (map (\<lambda>e. (e, Inr j)) envs) st))) j"
proof (induction envs arbitrary: st)
  case (Cons e envs)
  show ?case using Cons.IH [OF handle_unfinished [OF Cons.prems, of e]] Cons.prems(2) by (simp add: case_prod_unfold Let_def)
qed simp

text \<open>C15. However many deliveries of a job have failed, and in whatever way, the first delivery that finds a suitable
  provider with the database, the billing service and the queue at work opens a session and publishes the task.\<close>

theorem job_eventually_dispatched:
  assumes "serves env j p api i" "unfinished (cn_jobs st) j" "job_columns_ok (from_internal (new_internal_job 0 j))"
    "j_submitted_at j \<noteq> zero_time"
  shows "\<exists>before. fst (handle_batch (map (\<lambda>e. (e, Inr j)) envs @ [(env, Inr j)]) st) = before @ dispatch_effects env j p i"
  using serves_dispatches [OF assms(1) batch_unfinished [OF assms(2,4)] assms(3,4), of envs]
  by (simp add: handle_batch_append case_prod_unfold Let_def)

end
