(* ===== verification/ConsumerDemo.thy ===== *)
theory ConsumerDemo
  imports ConsumerFacts
begin

text \<open>
  A concrete run of the consumer: one provider with two GPUs, a job that asks for 24 GB, a database and a
  billing service that answer, and variants in which the lookup or the publication fails. The witnesses
  of the consumer's properties are on it.
\<close>

definition sched_sql :: job_sql where
  "sched_sql = \<lparr>js_fail = (\<lambda>_. None), js_time_col = (\<lambda>t. t div 1000 * 1000)\<rparr>"

definition sched_rig :: listed_provider where
  "sched_rig = demo_provider 7 [demo_gpu ''RTX 3060'' 12288 170, demo_gpu ''RTX 4090'' 24564 450]"

definition sched_registry :: registry_env where
  "sched_registry = \<lparr>re_service = ''provider-registry'', re_discover = Inr [\<lparr>se_address = [], se_node_address = ''10.0.0.2'', se_port = 8002\<rparr>], re_pick = 0, re_request = (\<lambda>_. None),
     re_get = (\<lambda>_. HttpStatus 200 (Inr [demo_provider 6 [], sched_rig]))\<rparr>"

definition sched_api :: billing_api where
  "sched_api = \<lparr>ba_base_url = ''http://billing:8080'', ba_request = (\<lambda>_. None), ba_start = (\<lambda>_. SessionStatus 201 (Inr 42))\<rparr>"

definition sched_env :: consumer_env where
  "sched_env = \<lparr>ce_clock = (\<lambda>i. 1000 * (int i + 1)), ce_sql = sched_sql, ce_registry = sched_registry, ce_billing = Some sched_api,
     ce_shown = (\<lambda>_. ''1''), ce_marshal = (\<lambda>_. None), ce_publish = (\<lambda>_ _. None), ce_nak_fails = False,
     ce_dispatch_prefix = ''tasks.dispatch''\<rparr>"

definition sched_job :: job where "sched_job = demo_job 24000 0"

definition sched_state :: consumer_state where
  "sched_state = \<lparr>cn_jobs = [], cn_address = ''http://10.0.0.2:8002''\<rparr>"

definition sched_known :: "job_state \<Rightarrow> consumer_state" where
  "sched_known s = sched_state\<lparr>cn_jobs := [job_row_of sched_sql ((from_internal (new_internal_job 3 sched_job))\<lparr>jr_state := s\<rparr>)]\<rparr>"

lemma sched_simps [simp]:
  "ce_sql sched_env = sched_sql" "js_fail sched_sql = (\<lambda>_. None)" "cn_jobs sched_state = []"
  "cn_address sched_state = ''http://10.0.0.2:8002''" "ce_billing sched_env = Some sched_api"
  "ce_publish sched_env = (\<lambda>_ _. None)" "ce_marshal sched_env = (\<lambda>_. None)" "j_id sched_job = ''job-1''"
  "ba_start sched_api r = SessionStatus 201 (Inr 42)" "ba_request sched_api u = None" "ce_nak_fails sched_env = False"
  "cn_address (sched_known s) = ''http://10.0.0.2:8002''"
  by (simp_all add: sched_env_def sched_sql_def sched_state_def sched_api_def sched_job_def sched_known_def)

lemma sched_cols: "job_columns_ok (from_internal (new_internal_job t sched_job))" "j_submitted_at sched_job \<noteq> zero_time"
  by (simp_all add: job_columns_ok_def from_internal_def sched_job_def demo_job_def fits_def int4_def zero_time_def)

lemma sched_list: "\<exists>a. list_available_providers (ce_registry sched_env) c = (Inr [demo_provider 6 [], sched_rig], a)"
  by (cases "c = []") (simp_all add: list_available_providers_def get_service_address_def sched_env_def sched_registry_def Let_def)

lemma sched_match: "find_suitable_provider sched_job [demo_provider 6 [], sched_rig] = Some sched_rig"
  using demo_suitable by (simp add: find_suitable_provider_def sched_rig_def sched_job_def suitable_iff)

lemma sched_serves: "serves sched_env sched_job sched_rig sched_api 42"
  using sched_list sched_match by (fastforce simp: serves_def)

lemma sched_known_peek:
  "peek_job (cn_jobs (sched_known s)) ''job-1'' = Some (scan_job_row (job_row_of sched_sql
     ((from_internal (new_internal_job 3 sched_job))\<lparr>jr_state := s\<rparr>)))"
  by (simp add: peek_job_def sched_known_def)

lemma sched_known_row:
  "restored_job (scan_job_row (job_row_of sched_sql ((from_internal (new_internal_job 3 sched_job))\<lparr>jr_state := s\<rparr>))) = sched_job"
  by (simp add: scan_row_of from_internal_def restored_job_def Let_def sched_job_def demo_job_def zero_time_def)

lemma sched_new: "peek_job (cn_jobs sched_state) (j_id sched_job) = None"
  by (simp add: peek_job_def)

lemma sched_first:
  obtains st where "handle_message sched_env (Inr sched_job) sched_state = (dispatch_effects sched_env sched_job sched_rig 42, st)"
  using serves_new [of sched_env sched_job sched_rig sched_api 42 sched_state] sched_serves sched_new sched_cols by auto

theorem published_task_matches_witness:
  "\<exists>i. fst (handle_message sched_env (Inr sched_job) sched_state) = [SessionRequested (session_request sched_rig sched_job)
     (SessionStatus 201 (Inr i)), TaskPublished (dispatch_subject sched_env sched_job sched_rig)
     (job_task sched_env sched_job sched_rig (uuid_text 42)), MsgAckSync]"
proof -
  have j: "scheduled_as sched_env sched_job sched_state = sched_job"
    by (simp add: scheduled_as_def stored_jobI peek_job_def)
  have "TaskPublished (dispatch_subject sched_env sched_job sched_rig) (job_task sched_env sched_job sched_rig (uuid_text 42))
      \<in> set (fst (handle_message sched_env (Inr sched_job) sched_state))"
    by (rule sched_first) (simp add: dispatch_effects_def)
  from published_task_matches [OF this] show ?thesis
    using sched_list [of "cn_address sched_state"] sched_match by (auto simp: j)
qed

theorem consumer_table_invariant_witness:
  "distinct (map row_job_id (cn_jobs (snd (handle_message sched_env (Inr sched_job) sched_state))))"
proof -
  have "handles sched_state (snd (handle_message sched_env (Inr sched_job) sched_state))"
    by (rule handles [OF surjective_pairing])
  then have "handles\<^sup>*\<^sup>* sched_state (snd (handle_message sched_env (Inr sched_job) sched_state))" ..
  from consumer_table_invariant [OF this] show ?thesis by (simp add: jobs_ok_def)
qed

theorem delivery_recorded_witness:
  "\<exists>r. peek_job (cn_jobs (snd (handle_message sched_env (Inr sched_job) (sched_known JobStateFailed)))) ''job-1'' = Some r
     \<and> jr_attempts r = 1"
  using delivery_recorded [of sched_env "sched_known JobStateFailed" sched_job, OF _ _ _ _ _ _ surjective_pairing]
    sched_known_peek [of JobStateFailed] by (auto simp: scan_row_of int4_def fits_def)

theorem redelivery_dispatches_again_witness:
  "length (filter (\<lambda>e. case e of SessionRequested _ _ \<Rightarrow> True | _ \<Rightarrow> False)
     (fst (handle_batch [(sched_env, Inr sched_job), (sched_env, Inr sched_job)] sched_state))) = 2"
  using redelivery_dispatches_again [of sched_env sched_job sched_rig sched_api 42 sched_state] sched_serves sched_new sched_cols
  by (simp add: dispatch_effects_def)

definition lookup_fails :: consumer_env where
  "lookup_fails = sched_env\<lparr>ce_sql := sched_sql\<lparr>js_fail := \<lambda>op. if op = OpGetJob then Some (ConnFailure ''timeout'') else None\<rparr>\<rparr>"

theorem failed_lookup_resets_job_witness:
  "\<exists>r. peek_job (cn_jobs (snd (handle_message lookup_fails (Inr sched_job) (sched_known JobStateCompleted)))) ''job-1'' = Some r
     \<and> jr_state r \<noteq> JobStateCompleted"
  using failed_lookup_resets_job [of lookup_fails "ConnFailure ''timeout''" sched_job "sched_known JobStateCompleted",
      OF _ _ _ _ _ surjective_pairing]
    sched_known_peek [of JobStateCompleted] sched_cols by (auto simp: lookup_fails_def)

definition queue_down :: consumer_env where
  "queue_down = sched_env\<lparr>ce_publish := \<lambda>_ _. Some ''no responders''\<rparr>"

lemma queue_down_leaks: "leaks queue_down sched_job sched_rig sched_api 42"
  using sched_list sched_match by (fastforce simp: leaks_def queue_down_def serves_def)

theorem unpublished_job_leaks_sessions_witness:
  "fst (handle_batch (replicate 3 (queue_down, Inr sched_job)) sched_state)
     = concat (replicate 3 [SessionRequested (session_request sched_rig sched_job) (SessionStatus 201 (Inr 42)), MsgNak (30 * second)])"
proof -
  have "unfinished (cn_jobs sched_state) sched_job" by (simp add: unfinished_def peek_job_def)
  then show ?thesis
    using unpublished_job_leaks_sessions [of queue_down sched_job sched_rig sched_api 42 sched_state 3] queue_down_leaks sched_cols
    by (simp add: nak_with_delay_def queue_down_def)
qed

theorem job_eventually_dispatched_witness:
  "\<exists>before. fst (handle_batch [(queue_down, Inr sched_job), (lookup_fails, Inr sched_job), (sched_env, Inr sched_job)] sched_state)
     = before @ dispatch_effects sched_env sched_job sched_rig 42"
proof -
  have "unfinished (cn_jobs sched_state) sched_job" by (simp add: unfinished_def peek_job_def)
  from job_eventually_dispatched [OF sched_serves this sched_cols, of "[queue_down, lookup_fails]"] show ?thesis by simp
qed

end
