(* ===== verification/Extender.thy ===== *)
theory Extender
  imports GoText
begin

text \<open>
  The Kubernetes scheduler extender of the scheduler (\<open>internal/k8s/scheduler_extender.go\<close>): filter, prioritize
  and bind. Pods and nodes are types of the Kubernetes API, of which the fields the code reads are here; a
  quantity is what its library says of it, the value and the text. The API server and \<open>strconv.ParseFloat\<close>
  are arguments. Sums and products are 64 bits wide.
\<close>

record quantity =
  q_value :: int
  q_text :: string

record kube_node =
  kn_name :: string
  kn_labels :: "string \<rightharpoonup> string"
  kn_allocatable :: "string \<rightharpoonup> quantity"

record kube_pod =
  kp_name :: string
  kp_namespace :: string
  kp_requests :: "(string \<rightharpoonup> quantity) list"
  kp_annotations :: "(string \<rightharpoonup> string) option"

record extender_args =
  ea_pod :: kube_pod
  ea_nodes :: "kube_node list option"
  ea_node_names :: "string list option"

record filter_result =
  fr_nodes :: "kube_node list option"
  fr_node_names :: "string list option"
  fr_failed_nodes :: "(string \<rightharpoonup> string) option"
  fr_error :: string

record binding_args =
  ba_pod_name :: string
  ba_pod_namespace :: string
  ba_pod_uid :: string
  ba_node :: string

record gpu_request =
  gr_count :: int
  gr_memory :: int
  gr_fraction :: rat

definition int64 :: "int \<Rightarrow> int" where
  "int64 i = sint (word_of_int i :: 64 word)"

definition trunc_div :: "int \<Rightarrow> int \<Rightarrow> int" where
  "trunc_div a b = (if a < 0 then - ((- a) div b) else a div b)"

section \<open>Requirements and nodes\<close>

definition container_requirements :: "(string \<Rightarrow> rat option) \<Rightarrow> (string \<rightharpoonup> quantity) \<Rightarrow> gpu_request option" where
  "container_requirements parse req =
     (case req ''dante.ai/gpu'' of None \<Rightarrow> None | Some q \<Rightarrow>
       Some \<lparr>gr_count = q_value q,
             gr_memory = (case req ''dante.ai/gpu-memory'' of None \<Rightarrow> 8192 | Some m \<Rightarrow> trunc_div (q_value m) (1024 * 1024)),
             gr_fraction = (case req ''dante.ai/gpu-fraction'' of None \<Rightarrow> 1
               | Some f \<Rightarrow> (case parse (q_text f) of None \<Rightarrow> 1 | Some r \<Rightarrow> r))\<rparr>)"

fun extract_gpu_requirements :: "(string \<Rightarrow> rat option) \<Rightarrow> (string \<rightharpoonup> quantity) list \<Rightarrow> gpu_request option" where
  "extract_gpu_requirements parse [] = None"
| "extract_gpu_requirements parse (c # cs) =
     (case container_requirements parse c of None \<Rightarrow> extract_gpu_requirements parse cs | Some g \<Rightarrow> Some g)"

definition get_available_gpu_count :: "kube_node \<Rightarrow> int" where
  "get_available_gpu_count n = (case kn_allocatable n ''dante.ai/gpu'' of Some q \<Rightarrow> q_value q | None \<Rightarrow> 0)"

definition gpu_memory_map :: "string \<rightharpoonup> int" where
  "gpu_memory_map = [''RTX4090'' \<mapsto> 24576, ''RTX4080'' \<mapsto> 16384, ''RTX3090'' \<mapsto> 24576, ''RTX3080'' \<mapsto> 10240,
     ''A100'' \<mapsto> 40960, ''H100'' \<mapsto> 80896, ''V100'' \<mapsto> 16384, ''T4'' \<mapsto> 15360, ''M4-Max'' \<mapsto> 36864]"

definition get_gpu_memory :: "string \<Rightarrow> int" where
  "get_gpu_memory model = (case gpu_memory_map model of Some m \<Rightarrow> m | None \<Rightarrow> 8192)"

definition supports_fractional_gpu :: "kube_node \<Rightarrow> bool" where
  "supports_fractional_gpu n = (case kn_labels n ''dante.ai/fractional-gpu'' of Some s \<Rightarrow> s = ''true'' | None \<Rightarrow> False)"

definition node_has_available_gpu :: "kube_node \<Rightarrow> gpu_request \<Rightarrow> bool" where
  "node_has_available_gpu n g =
     (case kn_labels n ''dante.ai/gpu-model'' of
        None \<Rightarrow> False
      | Some model \<Rightarrow>
          if get_available_gpu_count n < gr_count g then False
          else if get_gpu_memory model < gr_memory g then False
          else if gr_fraction g < 1 \<and> \<not> supports_fractional_gpu n then False
          else True)"

fun filter_nodes :: "gpu_request \<Rightarrow> kube_node list \<Rightarrow> kube_node list \<times> (string \<rightharpoonup> string) \<Rightarrow> kube_node list \<times> (string \<rightharpoonup> string)" where
  "filter_nodes g [] (kept, failed) = (kept, failed)"
| "filter_nodes g (n # ns) (kept, failed) =
     (if node_has_available_gpu n g then filter_nodes g ns (kept @ [n], failed)
      else filter_nodes g ns (kept, failed(kn_name n \<mapsto> ''Insufficient GPU resources'')))"

definition filter_nodes_by_gpu :: "kube_node list option \<Rightarrow> gpu_request \<Rightarrow> kube_node list \<times> (string \<rightharpoonup> string)" where
  "filter_nodes_by_gpu nodes g = (case nodes of None \<Rightarrow> ([], Map.empty) | Some ns \<Rightarrow> filter_nodes g ns ([], Map.empty))"

section \<open>Endpoints\<close>

definition extender_filter :: "(string \<Rightarrow> rat option) \<Rightarrow> string + extender_args \<Rightarrow> string + filter_result" where
  "extender_filter parse body =
     (case body of Inl e \<Rightarrow> Inl (''Failed to decode request: '' @ e) | Inr args \<Rightarrow>
       (case extract_gpu_requirements parse (kp_requests (ea_pod args)) of
          None \<Rightarrow> Inr \<lparr>fr_nodes = ea_nodes args, fr_node_names = ea_node_names args, fr_failed_nodes = None, fr_error = []\<rparr>
        | Some g \<Rightarrow>
            let (kept, failed) = filter_nodes_by_gpu (ea_nodes args) g in
            Inr \<lparr>fr_nodes = Some kept, fr_node_names = None, fr_failed_nodes = Some failed, fr_error = []\<rparr>))"

definition model_score :: "string \<Rightarrow> int" where
  "model_score model =
     (if str_contains model ''H100'' then 100
      else if str_contains model ''A100'' then 80
      else if str_contains model ''RTX4090'' then 60
      else if str_contains model ''RTX4080'' then 50
      else 20)"

definition calculate_node_priority :: "kube_node \<Rightarrow> int" where
  "calculate_node_priority n =
     (let s0 = int64 (get_available_gpu_count n * 10);
          s1 = (case kn_labels n ''dante.ai/gpu-model'' of None \<Rightarrow> s0 | Some model \<Rightarrow> int64 (s0 + model_score model))
      in if supports_fractional_gpu n then int64 (s1 + 20) else s1)"

definition extender_prioritize :: "(string \<Rightarrow> string + kube_node) \<Rightarrow> string + extender_args \<Rightarrow> string + int list" where
  "extender_prioritize get_node body =
     (case body of Inl e \<Rightarrow> Inl (''Failed to decode request: '' @ e) | Inr args \<Rightarrow>
       Inr (case ea_nodes args of
              Some ns \<Rightarrow> map calculate_node_priority ns
            | None \<Rightarrow> (case ea_node_names args of
                None \<Rightarrow> []
              | Some names \<Rightarrow> map (\<lambda>name. case get_node name of Inl e \<Rightarrow> 0 | Inr n \<Rightarrow> calculate_node_priority n) names)))"

record kube_api =
  ka_get_pod :: "string \<Rightarrow> string \<Rightarrow> string + kube_pod"
  ka_bind :: "string \<Rightarrow> string \<Rightarrow> string \<Rightarrow> string option"
  ka_now :: string

datatype kube_call = BindPod string string string | UpdatePod kube_pod

definition annotated_pod :: "kube_api \<Rightarrow> kube_pod \<Rightarrow> string \<Rightarrow> kube_pod" where
  "annotated_pod api p node =
     p\<lparr>kp_annotations := Some ((case kp_annotations p of None \<Rightarrow> Map.empty | Some m \<Rightarrow> m)
        (''dante.ai/gpu-allocated-node'' \<mapsto> node, ''dante.ai/gpu-allocation-time'' \<mapsto> ka_now api))\<rparr>"

text \<open>The answer is the error of the binding result, empty on success; the calls are those that change the cluster.\<close>

definition extender_bind :: "kube_api \<Rightarrow> string + binding_args \<Rightarrow> (string + string) \<times> kube_call list" where
  "extender_bind api body =
     (case body of Inl e \<Rightarrow> (Inl (''Failed to decode request: '' @ e), []) | Inr args \<Rightarrow>
       (case ka_get_pod api (ba_pod_namespace args) (ba_pod_name args) of
          Inl e \<Rightarrow> (Inr (''Failed to get pod: '' @ e), [])
        | Inr p \<Rightarrow>
            let call = BindPod (ba_pod_namespace args) (ba_pod_name args) (ba_node args) in
            (case ka_bind api (ba_pod_namespace args) (ba_pod_name args) (ba_node args) of
               Some e \<Rightarrow> (Inr (''Failed to bind pod: '' @ e), [call])
             | None \<Rightarrow> (Inr [], [call, UpdatePod (annotated_pod api p (ba_node args))]))))"

section \<open>Filtering is exact\<close>

lemma filter_nodes_eq:
  "filter_nodes g ns (kept, failed) = (kept @ filter (\<lambda>n. node_has_available_gpu n g) ns,
     (\<lambda>i. if \<exists>n \<in> set ns. kn_name n = i \<and> \<not> node_has_available_gpu n g then Some ''Insufficient GPU resources'' else failed i))"
  by (induction ns arbitrary: kept failed) (auto simp: fun_eq_iff)

lemma node_has_available_gpu_iff:
  "node_has_available_gpu n g \<longleftrightarrow> (\<exists>model. kn_labels n ''dante.ai/gpu-model'' = Some model \<and> gr_memory g \<le> get_gpu_memory model)
     \<and> gr_count g \<le> get_available_gpu_count n \<and> (gr_fraction g < 1 \<longrightarrow> supports_fractional_gpu n)"
  by (auto simp: node_has_available_gpu_def split: option.splits)

text \<open>For a pod that asks for GPUs the filter keeps, in their order, exactly the nodes with a labelled model whose
  memory suffices, enough allocatable GPUs and support for fractions where one is asked for, and names
  exactly the others as failed.\<close>

theorem extender_filter_exact:
  assumes "extract_gpu_requirements parse (kp_requests (ea_pod args)) = Some g" "ea_nodes args = Some ns"
  shows "\<exists>r failed. extender_filter parse (Inr args) = Inr r \<and> fr_failed_nodes r = Some failed
    \<and> fr_nodes r = Some (filter (\<lambda>n. (\<exists>model. kn_labels n ''dante.ai/gpu-model'' = Some model \<and> gr_memory g \<le> get_gpu_memory model)
         \<and> gr_count g \<le> get_available_gpu_count n \<and> (gr_fraction g < 1 \<longrightarrow> supports_fractional_gpu n)) ns)
    \<and> dom failed = {kn_name n |n. n \<in> set ns \<and> \<not> node_has_available_gpu n g}"
  using assms by (auto simp: extender_filter_def filter_nodes_by_gpu_def filter_nodes_eq node_has_available_gpu_iff [symmetric] dom_def)

text \<open>A scheduler that sends the names of the nodes only gets no node back for a pod that asks for GPUs, and no
  failed one either: the names are not looked at.\<close>

theorem extender_drops_node_names:
  assumes "extract_gpu_requirements parse (kp_requests (ea_pod args)) = Some g" "ea_nodes args = None"
  shows "extender_filter parse (Inr args)
    = Inr \<lparr>fr_nodes = Some [], fr_node_names = None, fr_failed_nodes = Some Map.empty, fr_error = []\<rparr>"
  using assms by (simp add: extender_filter_def filter_nodes_by_gpu_def)

definition demo_pod :: kube_pod where
  "demo_pod = \<lparr>kp_name = ''train'', kp_namespace = ''jobs'',
     kp_requests = [Map.empty, [''dante.ai/gpu'' \<mapsto> \<lparr>q_value = 2, q_text = ''2''\<rparr>]], kp_annotations = None\<rparr>"

definition demo_node :: "string \<Rightarrow> string \<Rightarrow> int \<Rightarrow> kube_node" where
  "demo_node name model n = \<lparr>kn_name = name, kn_labels = [''dante.ai/gpu-model'' \<mapsto> model],
     kn_allocatable = [''dante.ai/gpu'' \<mapsto> \<lparr>q_value = n, q_text = []\<rparr>]\<rparr>"

lemma demo_pod_request:
  "extract_gpu_requirements parse (kp_requests demo_pod) = Some \<lparr>gr_count = 2, gr_memory = 8192, gr_fraction = 1\<rparr>"
  by (simp add: demo_pod_def container_requirements_def)

theorem extender_filter_exact_witness:
  "\<exists>r. extender_filter (\<lambda>_. None) (Inr \<lparr>ea_pod = demo_pod, ea_nodes = Some [demo_node ''a'' ''A100'' 1, demo_node ''b'' ''T4'' 4],
     ea_node_names = None\<rparr>) = Inr r \<and> fr_nodes r = Some [demo_node ''b'' ''T4'' 4]"
proof -
  let ?args = "\<lparr>ea_pod = demo_pod, ea_nodes = Some [demo_node ''a'' ''A100'' 1, demo_node ''b'' ''T4'' 4], ea_node_names = None\<rparr>"
  have n: "kn_labels (demo_node i m k) ''dante.ai/gpu-model'' = Some m" "get_available_gpu_count (demo_node i m k) = k" for i m k
    by (simp_all add: demo_node_def get_available_gpu_count_def)
  have m: "get_gpu_memory ''A100'' = 40960" "get_gpu_memory ''T4'' = 15360" by (simp_all add: get_gpu_memory_def gpu_memory_map_def)
  have g: "extract_gpu_requirements (\<lambda>_. None) (kp_requests (ea_pod ?args)) = Some \<lparr>gr_count = 2, gr_memory = 8192, gr_fraction = 1\<rparr>"
    by (simp add: demo_pod_request)
  show ?thesis using extender_filter_exact [OF g, of "[demo_node ''a'' ''A100'' 1, demo_node ''b'' ''T4'' 4]"] n m by auto
qed

theorem extender_drops_node_names_witness:
  "\<exists>r. extender_filter (\<lambda>_. None) (Inr \<lparr>ea_pod = demo_pod, ea_nodes = None, ea_node_names = Some [''a'', ''b'']\<rparr>) = Inr r
     \<and> fr_nodes r = Some [] \<and> fr_node_names r = None"
  using extender_drops_node_names [of "\<lambda>_. None" "\<lparr>ea_pod = demo_pod, ea_nodes = None, ea_node_names = Some [''a'', ''b'']\<rparr>"]
    demo_pod_request by simp

end
