(* ===== verification/Retry.thy ===== *)
theory Retry
  imports GoText
begin

text \<open>
  The errors of the provider registry and its two retry policies: \<open>internal/retryer/retryer.go\<close>, used by
  the writes and the single read of the PostgreSQL store, and \<open>internal/store/db_errors.go\<close>, used by its
  list. An operation is a function of the attempt and the state; its result, the times slept and the
  state after it are returned. \<open>cancelled\<close> says with what error the context ends during the wait after an
  attempt. \<open>scale\<close> is the multiplication of a duration by a \<open>float64\<close>.
\<close>

section \<open>Errors\<close>

datatype reg_error =
    ErrProviderNotFound | ErrProviderAlreadyExists | ErrInvalidProviderData
  | ErrDBConnection | ErrDBConstraint | ErrDBTimeout | ErrDBCanceled
  | ErrNoRows | ErrTxClosed | CtxDeadlineExceeded | CtxCanceled
  | PgErr string string | ErrText string | ErrWrap string reg_error

fun reg_error_text :: "reg_error \<Rightarrow> string" where
  "reg_error_text ErrProviderNotFound = ''provider not found''"
| "reg_error_text ErrProviderAlreadyExists = ''provider already exists with this ID''"
| "reg_error_text ErrInvalidProviderData = ''invalid provider data provided''"
| "reg_error_text ErrDBConnection = ''database connection error''"
| "reg_error_text ErrDBConstraint = ''database constraint violation''"
| "reg_error_text ErrDBTimeout = ''database operation timeout''"
| "reg_error_text ErrDBCanceled = ''database operation canceled''"
| "reg_error_text ErrNoRows = ''no rows in result set''"
| "reg_error_text ErrTxClosed = ''tx is closed''"
| "reg_error_text CtxDeadlineExceeded = ''context deadline exceeded''"
| "reg_error_text CtxCanceled = ''context canceled''"
| "reg_error_text (PgErr code t) = t"
| "reg_error_text (ErrText t) = t"
| "reg_error_text (ErrWrap t e) = t"

text \<open>\<open>fmt.Errorf("...: %w", err)\<close> prints the message and the text of the cause.\<close>

definition wrap_error :: "string \<Rightarrow> reg_error \<Rightarrow> reg_error" where
  "wrap_error msg e = ErrWrap (msg @ '': '' @ reg_error_text e) e"

fun causes :: "reg_error \<Rightarrow> reg_error list" where
  "causes (ErrWrap t e) = ErrWrap t e # causes e"
| "causes e = [e]"

definition errors_is :: "reg_error \<Rightarrow> reg_error \<Rightarrow> bool" where
  "errors_is e target \<longleftrightarrow> target \<in> set (causes e)"

fun pg_code :: "reg_error \<Rightarrow> string option" where
  "pg_code (PgErr code t) = Some code"
| "pg_code (ErrWrap t e) = pg_code e"
| "pg_code e = None"

section \<open>The retry policy of the writes\<close>

record retry_config =
  max_attempts :: int
  initial_delay :: duration
  max_delay :: duration
  backoff_factor :: rat
  jitter_percentage :: rat

definition default_retry_config :: retry_config where
  "default_retry_config = \<lparr>max_attempts = 3, initial_delay = 100 * 1000000, max_delay = 2 * second,
     backoff_factor = 2, jitter_percentage = 1 / 5\<rparr>"

text \<open>The code of a PostgreSQL error has five characters (SQLSTATE); of a shorter one the source's slice would panic, which is not modelled.\<close>

definition is_transient_error :: "reg_error \<Rightarrow> bool" where
  "is_transient_error e =
     ((case pg_code e of None \<Rightarrow> False | Some code \<Rightarrow>
         take 2 code = ''08'' \<or> take 2 code = ''57'' \<or> take 2 code = ''53'' \<or> code = ''40P01'' \<or> code = ''40001'')
      \<or> (let m = to_lower (reg_error_text e) in str_contains m ''connection''
          \<and> (str_contains m ''reset'' \<or> str_contains m ''closed'' \<or> str_contains m ''refused'' \<or> str_contains m ''timeout'')))"

definition retry_jitter :: "(duration \<Rightarrow> rat \<Rightarrow> duration) \<Rightarrow> retry_config \<Rightarrow> nat \<Rightarrow> duration \<Rightarrow> duration" where
  "retry_jitter scale cfg attempt delay =
     scale delay (jitter_percentage cfg * (1 / 2 + of_nat attempt / of_int (max_attempts cfg)))"

definition next_delay :: "(duration \<Rightarrow> rat \<Rightarrow> duration) \<Rightarrow> retry_config \<Rightarrow> duration \<Rightarrow> duration" where
  "next_delay scale cfg delay =
     (let d = scale delay (backoff_factor cfg) in if d > max_delay cfg then max_delay cfg else d)"

text \<open>\<open>left\<close> counts the attempts that remain, \<open>attempt\<close> is the one to be made.\<close>

fun retry_loop ::
    "(duration \<Rightarrow> rat \<Rightarrow> duration) \<Rightarrow> retry_config \<Rightarrow> string \<Rightarrow> (nat \<Rightarrow> reg_error option)
     \<Rightarrow> (nat \<Rightarrow> 's \<Rightarrow> (reg_error + 'a) \<times> 's) \<Rightarrow> nat \<Rightarrow> nat \<Rightarrow> duration \<Rightarrow> 's \<Rightarrow> (reg_error + 'a) \<times> duration list \<times> 's" where
  "retry_loop scale cfg operation cancelled f 0 attempt delay s = (Inl (ErrText (operation @ '': %!w(<nil>)'')), [], s)"
| "retry_loop scale cfg operation cancelled f (Suc left) attempt delay s =
     (case f attempt s of
        (Inr x, s') \<Rightarrow> (Inr x, [], s')
      | (Inl e, s') \<Rightarrow>
          if \<not> is_transient_error e \<or> left = 0 then (Inl (wrap_error operation e), [], s')
          else (let sleep = delay + retry_jitter scale cfg attempt delay in
            case cancelled attempt of
              Some c \<Rightarrow> (Inl (wrap_error (operation @ '' cancelled'') c), [sleep], s')
            | None \<Rightarrow>
                (let (r, sleeps, s'') = retry_loop scale cfg operation cancelled f left (attempt + 1) (next_delay scale cfg delay) s'
                 in (r, sleep # sleeps, s''))))"

definition with_retry ::
    "(duration \<Rightarrow> rat \<Rightarrow> duration) \<Rightarrow> retry_config \<Rightarrow> string \<Rightarrow> (nat \<Rightarrow> reg_error option)
     \<Rightarrow> (nat \<Rightarrow> 's \<Rightarrow> (reg_error + 'a) \<times> 's) \<Rightarrow> 's \<Rightarrow> (reg_error + 'a) \<times> duration list \<times> 's" where
  "with_retry scale cfg operation cancelled f s =
     retry_loop scale cfg operation cancelled f (nat (max_attempts cfg)) 1 (initial_delay cfg) s"

section \<open>The retry policy of the list\<close>

definition store_is_transient :: "reg_error \<Rightarrow> bool" where
  "store_is_transient e =
     (if errors_is e CtxDeadlineExceeded \<or> errors_is e CtxCanceled then False
      else case pg_code e of
        Some code \<Rightarrow> code = ''08000'' \<or> code = ''08006''
      | None \<Rightarrow> errors_is e ErrTxClosed)"

definition printed_after :: "reg_error \<Rightarrow> reg_error \<Rightarrow> reg_error" where
  "printed_after sentinel e = ErrWrap (reg_error_text sentinel @ '': '' @ reg_error_text e) sentinel"

definition map_to_custom_error :: "reg_error \<Rightarrow> reg_error" where
  "map_to_custom_error e =
     (if errors_is e CtxDeadlineExceeded then printed_after ErrDBTimeout e
      else if errors_is e CtxCanceled then printed_after ErrDBCanceled e
      else case pg_code e of
        Some code \<Rightarrow>
          if code = ''23505'' \<or> code = ''23503'' then printed_after ErrDBConstraint e
          else if code = ''08000'' \<or> code = ''08006'' then printed_after ErrDBConnection e
          else if errors_is e ErrTxClosed then printed_after ErrDBConnection e else e
      | None \<Rightarrow> if errors_is e ErrTxClosed then printed_after ErrDBConnection e else e)"

text \<open>\<open>expired\<close> says whether the context has ended when an attempt has failed, \<open>cancelled\<close> whether it ends during the wait.\<close>

fun store_retry_loop ::
    "nat \<Rightarrow> duration \<Rightarrow> (nat \<Rightarrow> reg_error option) \<Rightarrow> (nat \<Rightarrow> reg_error option) \<Rightarrow> (nat \<Rightarrow> reg_error + 'a)
     \<Rightarrow> nat \<Rightarrow> nat \<Rightarrow> reg_error option \<Rightarrow> (reg_error + 'a) \<times> duration list" where
  "store_retry_loop count delay expired cancelled f 0 attempt prev =
     (case prev of
        None \<Rightarrow> (Inl (ErrText (''after '' @ nat_text count @ '' attempts: %!w(<nil>)'')), [])
      | Some e \<Rightarrow> (Inl (wrap_error (''after '' @ nat_text count @ '' attempts'') (map_to_custom_error e)), []))"
| "store_retry_loop count delay expired cancelled f (Suc left) attempt prev =
     (case f attempt of
        Inr x \<Rightarrow> (Inr x, [])
      | Inl e \<Rightarrow>
          if \<not> store_is_transient e
          then (Inl (ErrWrap (reg_error_text (map_to_custom_error e) @ '': '' @ reg_error_text e) (map_to_custom_error e)), [])
          else case expired attempt of
            Some c \<Rightarrow> (Inl c, [])
          | None \<Rightarrow>
              (let sleep = delay * int attempt in
               case cancelled attempt of
                 Some c \<Rightarrow> (Inl c, [sleep])
               | None \<Rightarrow> (let (r, sleeps) = store_retry_loop count delay expired cancelled f left (attempt + 1) (Some e)
                          in (r, sleep # sleeps))))"

definition store_with_retry ::
    "nat \<Rightarrow> duration \<Rightarrow> (nat \<Rightarrow> reg_error option) \<Rightarrow> (nat \<Rightarrow> reg_error option) \<Rightarrow> (nat \<Rightarrow> reg_error + 'a) \<Rightarrow> (reg_error + 'a) \<times> duration list" where
  "store_with_retry count delay expired cancelled f = store_retry_loop count delay expired cancelled f count 1 None"

section \<open>What a retried operation does\<close>

text \<open>The state before attempt \<open>n + 1\<close> when the attempts from \<open>k + 1\<close> on were made.\<close>

fun state_after :: "(nat \<Rightarrow> 's \<Rightarrow> (reg_error + 'a) \<times> 's) \<Rightarrow> nat \<Rightarrow> nat \<Rightarrow> 's \<Rightarrow> 's" where
  "state_after f 0 k s = s"
| "state_after f (Suc n) k s = state_after f n (Suc k) (snd (f (Suc k) s))"

lemma state_after_last: "state_after f (Suc n) k s = snd (f (Suc (k + n)) (state_after f n k s))"
  by (induction n arbitrary: k s) simp_all

lemma retry_loop_exact:
  assumes "retry_loop scale cfg operation cancelled f left (Suc k) delay s = (r, sleeps, s')" "0 < left"
  shows "\<exists>n. n < left \<and> s' = state_after f (Suc n) k s \<and> length sleeps \<in> {n, Suc n}
    \<and> (\<forall>i < n. \<exists>e. fst (f (Suc (k + i)) (state_after f i k s)) = Inl e \<and> is_transient_error e \<and> cancelled (Suc (k + i)) = None)
    \<and> (case fst (f (Suc (k + n)) (state_after f n k s)) of
         Inr x \<Rightarrow> r = Inr x
       | Inl e \<Rightarrow> (r = Inl (wrap_error operation e) \<and> (\<not> is_transient_error e \<or> Suc n = left))
           \<or> (\<exists>c. cancelled (Suc (k + n)) = Some c \<and> r = Inl (wrap_error (operation @ '' cancelled'') c)))"
  using assms
proof (induction left arbitrary: k delay s sleeps)
  case (Suc left)
  obtain res s1 where f: "f (Suc k) s = (res, s1)" by fastforce
  show ?case
  proof (cases "\<exists>e. res = Inl e \<and> is_transient_error e \<and> left \<noteq> 0 \<and> cancelled (Suc k) = None")
    case False
    with Suc.prems f show ?thesis
      by (intro exI [of _ 0]) (auto split: sum.splits if_splits option.splits prod.splits simp: Let_def)
  next
    case True
    then obtain e where e: "res = Inl e" "is_transient_error e" "left \<noteq> 0" "cancelled (Suc k) = None" by blast
    with Suc.prems f obtain sleeps' where
      l: "retry_loop scale cfg operation cancelled f left (Suc (Suc k)) (next_delay scale cfg delay) s1 = (r, sleeps', s')"
      and sl: "length sleeps = Suc (length sleeps')"
      by (auto simp: Let_def split: prod.splits)
    from Suc.IH [OF l] e obtain n where n: "n < left" "s' = state_after f (Suc n) (Suc k) s1" "length sleeps' \<in> {n, Suc n}"
      "\<forall>i < n. \<exists>e. fst (f (Suc (Suc k + i)) (state_after f i (Suc k) s1)) = Inl e \<and> is_transient_error e \<and> cancelled (Suc (Suc k + i)) = None"
      "case fst (f (Suc (Suc k + n)) (state_after f n (Suc k) s1)) of
         Inr x \<Rightarrow> r = Inr x
       | Inl e \<Rightarrow> (r = Inl (wrap_error operation e) \<and> (\<not> is_transient_error e \<or> Suc n = left))
           \<or> (\<exists>c. cancelled (Suc (Suc k + n)) = Some c \<and> r = Inl (wrap_error (operation @ '' cancelled'') c))" by blast
    have "\<exists>e. fst (f (Suc (k + i)) (state_after f i k s)) = Inl e \<and> is_transient_error e \<and> cancelled (Suc (k + i)) = None"
      if "i < Suc n" for i
      using that n(4) e f by (cases i) auto
    with n sl f show ?thesis by (intro exI [of _ "Suc n"]) (auto split: sum.splits)
  qed
qed simp

lemma retry_loop_state:
  assumes "retry_loop scale cfg operation cancelled f left attempt delay s = (r, sleeps, s')" "I s"
    and "\<And>n s e s'. I s \<Longrightarrow> f n s = (Inl e, s') \<Longrightarrow> I s'"
  shows "(\<exists>e. r = Inl e \<and> I s') \<or> (\<exists>n s1 x. I s1 \<and> f n s1 = (Inr x, s') \<and> r = Inr x)"
  using assms(1,2)
proof (induction left arbitrary: attempt delay s sleeps)
  case (Suc left)
  obtain res s1 where f: "f attempt s = (res, s1)" by fastforce
  show ?case
  proof (cases res)
    case (Inr x)
    with Suc.prems f show ?thesis by auto
  next
    case (Inl e)
    with f Suc.prems(2) assms(3) have "I s1" by blast
    with Suc.prems Suc.IH f Inl show ?thesis
      by (auto simp: Let_def split: if_splits option.splits prod.splits)
  qed
qed auto

lemma with_retry_state:
  assumes "with_retry scale cfg operation cancelled f s = (r, sleeps, s')" "I s"
    and "\<And>n s e s'. I s \<Longrightarrow> f n s = (Inl e, s') \<Longrightarrow> I s'"
  shows "(\<exists>e. r = Inl e \<and> I s') \<or> (\<exists>n s1 x. I s1 \<and> f n s1 = (Inr x, s') \<and> r = Inr x)"
  using assms(1,2) unfolding with_retry_def by (rule retry_loop_state) (rule assms(3))

text \<open>C19. A retried operation is run at least once and at most the configured number of times, one attempt after the
  other on the state the last one left; it is run again only after a transient error; and its result is
  that of the last attempt, or the cancellation of the wait after it.\<close>

theorem with_retry_exact:
  assumes "with_retry scale cfg operation cancelled f s = (r, sleeps, s')" "0 < max_attempts cfg"
  shows "\<exists>n. int (Suc n) \<le> max_attempts cfg \<and> s' = state_after f (Suc n) 0 s \<and> length sleeps \<le> Suc n
    \<and> (\<forall>i < n. \<exists>e. fst (f (Suc i) (state_after f i 0 s)) = Inl e \<and> is_transient_error e)
    \<and> (case fst (f (Suc n) (state_after f n 0 s)) of
         Inr x \<Rightarrow> r = Inr x
       | Inl e \<Rightarrow> (r = Inl (wrap_error operation e) \<and> (\<not> is_transient_error e \<or> int (Suc n) = max_attempts cfg))
           \<or> (\<exists>c. cancelled (Suc n) = Some c \<and> r = Inl (wrap_error (operation @ '' cancelled'') c)))"
proof -
  let ?m = "nat (max_attempts cfg)"
  from assms have "retry_loop scale cfg operation cancelled f ?m (Suc 0) (initial_delay cfg) s = (r, sleeps, s')" "0 < ?m"
    by (simp_all add: with_retry_def)
  from retry_loop_exact [OF this] obtain n where n: "n < ?m" "s' = state_after f (Suc n) 0 s" "length sleeps \<in> {n, Suc n}"
    "\<forall>i < n. \<exists>e. fst (f (Suc (0 + i)) (state_after f i 0 s)) = Inl e \<and> is_transient_error e \<and> cancelled (Suc (0 + i)) = None"
    "case fst (f (Suc (0 + n)) (state_after f n 0 s)) of
         Inr x \<Rightarrow> r = Inr x
       | Inl e \<Rightarrow> (r = Inl (wrap_error operation e) \<and> (\<not> is_transient_error e \<or> Suc n = ?m))
           \<or> (\<exists>c. cancelled (Suc (0 + n)) = Some c \<and> r = Inl (wrap_error (operation @ '' cancelled'') c))" by blast
  have "Suc n = ?m \<longleftrightarrow> int (Suc n) = max_attempts cfg" using assms(2) by linarith
  with n show ?thesis by (intro exI [of _ n]) (auto split: sum.splits)
qed

theorem with_retry_exact_witness:
  "\<exists>sleeps. with_retry (\<lambda>d r. \<lfloor>of_int d * r\<rfloor>) default_retry_config ''op'' (\<lambda>_. None)
     (\<lambda>n s. (if n = 1 then Inl (PgErr ''40001'' ''serialization failure'') else Inr n, s + 1)) (0 :: nat) = (Inr 2, sleeps, 2)"
proof -
  let ?f = "\<lambda>n s :: nat. (if n = 1 then Inl (PgErr ''40001'' ''serialization failure'') else Inr n, s + 1)"
  obtain r sleeps s' where w: "with_retry (\<lambda>d r. \<lfloor>of_int d * r\<rfloor>) default_retry_config ''op'' (\<lambda>_. None) ?f 0 = (r, sleeps, s')"
    by (rule prod_cases3)
  have t: "is_transient_error (PgErr ''40001'' ''serialization failure'')"
    unfolding is_transient_error_def by (rule disjI1) simp
  have m: "max_attempts default_retry_config = 3" by (simp add: default_retry_config_def)
  from with_retry_exact [OF w] obtain n where n: "s' = state_after ?f (Suc n) 0 0"
    "\<forall>i < n. \<exists>e. fst (?f (Suc i) (state_after ?f i 0 0)) = Inl e \<and> is_transient_error e"
    "case fst (?f (Suc n) (state_after ?f n 0 0)) of Inr x \<Rightarrow> r = Inr x
       | Inl e \<Rightarrow> (r = Inl (wrap_error ''op'' e) \<and> (\<not> is_transient_error e \<or> int (Suc n) = 3))
           \<or> (\<exists>c. None = Some c \<and> r = Inl (wrap_error (''op'' @ '' cancelled'') c))"
    unfolding m by auto
  have "n \<noteq> 0" using n(3) t by (cases n) simp_all
  moreover have "n < 2"
  proof (rule ccontr)
    assume "\<not> n < 2"
    then have "1 < n" by simp
    with n(2) have "\<exists>e. fst (?f (Suc 1) (state_after ?f 1 0 0)) = Inl e" by blast
    then show False by simp
  qed
  ultimately have "n = 1" by simp
  with n have "r = Inr 2 \<and> s' = 2" by (simp add: numeral_2_eq_2)
  with w show ?thesis by blast
qed

end
