(* ===== verification/Registry.thy ===== *)
theory Registry
  imports Retry Matching Table "HOL-Library.Multiset"
begin

text \<open>
  The provider registry's data (\<open>internal/models/provider.go\<close>), the interface of its stores
  (\<open>internal/store/providerstore.go\<close>) as the locale \<open>provider_store\<close>, and the in-memory store
  (\<open>internal/store/memory.go\<close>). The statuses are the constants the scheduler's client has too. The memory store is a
  map; its enumeration by \<open>range\<close> is an argument. A store hands out and keeps the providers themselves, so a value
  here is the provider at the time of the call.
\<close>

section \<open>Providers\<close>

record registry_gpu =
  rg_model_name :: string
  rg_vram :: u64
  rg_driver_version :: string
  rg_architecture :: string
  rg_compute_capability :: string
  rg_cuda_cores :: u32
  rg_tensor_cores :: u32
  rg_memory_bandwidth :: u64
  rg_power_consumption :: u32
  rg_utilization_gpu :: u8
  rg_utilization_mem :: u8
  rg_temperature :: u8
  rg_power_draw :: u32
  rg_is_healthy :: bool

record provider =
  p_id :: uuid
  p_owner_id :: string
  p_name :: string
  p_hostname :: string
  p_ip_address :: string
  p_status :: provider_status
  p_gpus :: "registry_gpu list"
  p_location :: string
  p_registered_at :: time
  p_last_seen_at :: time
  p_metadata :: "json_map option"

definition provider_status_text :: "provider_status \<Rightarrow> string" where
  "provider_status_text s = (case s of StatusIdle \<Rightarrow> ''idle'' | StatusBusy \<Rightarrow> ''busy'' | StatusOffline \<Rightarrow> ''offline''
     | StatusMaintenance \<Rightarrow> ''maintenance'' | StatusError \<Rightarrow> ''error'' | StatusOther t \<Rightarrow> t)"

definition new_provider ::
    "uuid \<Rightarrow> time \<Rightarrow> string \<Rightarrow> string \<Rightarrow> string \<Rightarrow> string \<Rightarrow> string \<Rightarrow> registry_gpu list \<Rightarrow> json_map option \<Rightarrow> provider" where
  "new_provider new_id now owner name host ip location gpus meta =
     \<lparr>p_id = new_id, p_owner_id = owner, p_name = name, p_hostname = host, p_ip_address = ip, p_status = StatusIdle,
      p_gpus = gpus, p_location = location, p_registered_at = now, p_last_seen_at = now, p_metadata = meta\<rparr>"

definition update_status :: "time \<Rightarrow> provider_status \<Rightarrow> provider \<Rightarrow> provider" where
  "update_status now s p = p\<lparr>p_status := s, p_last_seen_at := now\<rparr>"

definition heartbeat :: "time \<Rightarrow> provider \<Rightarrow> provider" where
  "heartbeat now p =
     (let p' = p\<lparr>p_last_seen_at := now\<rparr> in
      if p_status p' = StatusOffline \<or> p_status p' = StatusError then p'\<lparr>p_status := StatusIdle\<rparr> else p')"

definition merge_metrics :: "registry_gpu \<Rightarrow> registry_gpu \<Rightarrow> registry_gpu" where
  "merge_metrics m g =
     g\<lparr>rg_utilization_gpu := rg_utilization_gpu m, rg_utilization_mem := rg_utilization_mem m,
       rg_temperature := rg_temperature m, rg_power_draw := rg_power_draw m, rg_is_healthy := rg_is_healthy m\<rparr>"

fun apply_metrics :: "registry_gpu list \<Rightarrow> registry_gpu list \<Rightarrow> registry_gpu list" where
  "apply_metrics (m # ms) (g # gs) = merge_metrics m g # apply_metrics ms gs"
| "apply_metrics [] gs = gs"
| "apply_metrics ms [] = []"

definition beaten :: "time \<Rightarrow> registry_gpu list \<Rightarrow> provider \<Rightarrow> provider" where
  "beaten now ms p = (let p' = heartbeat now p in p'\<lparr>p_gpus := apply_metrics ms (p_gpus p')\<rparr>)"

text \<open>What the scheduler's client decodes of a provider: fewer fields per GPU.\<close>

definition as_listed :: "provider \<Rightarrow> listed_provider" where
  "as_listed p =
     \<lparr>lp_id = p_id p, lp_owner_id = p_owner_id p, lp_name = p_name p, lp_hostname = p_hostname p,
      lp_ip_address = p_ip_address p, lp_status = p_status p,
      lp_gpus = map (\<lambda>g. \<lparr>g_model_name = rg_model_name g, g_vram = rg_vram g, g_driver_version = rg_driver_version g,
                          g_power = rg_power_consumption g\<rparr>) (p_gpus p),
      lp_location = p_location p, lp_registered_at = p_registered_at p, lp_last_seen_at = p_last_seen_at p,
      lp_metadata = p_metadata p\<rparr>"

section \<open>Filters\<close>

datatype filter_value = FilterString string | FilterUint64 u64 | FilterBool bool | FilterOther

type_synonym filters = "string \<rightharpoonup> filter_value"

definition string_filter :: "filters \<Rightarrow> string \<Rightarrow> string option" where
  "string_filter fs k = (case fs k of Some (FilterString s) \<Rightarrow> if s = [] then None else Some s | _ \<Rightarrow> None)"

definition vram_filter :: "filters \<Rightarrow> u64 option" where
  "vram_filter fs = (case fs ''min_vram'' of Some (FilterUint64 v) \<Rightarrow> if v > 0 then Some v else None | _ \<Rightarrow> None)"

definition healthy_filter :: "filters \<Rightarrow> bool" where
  "healthy_filter fs = (case fs ''healthy_only'' of Some (FilterBool b) \<Rightarrow> b | _ \<Rightarrow> False)"

definition passes_filters :: "provider \<Rightarrow> filters \<Rightarrow> bool" where
  "passes_filters p fs =
     (if (case string_filter fs ''status'' of Some s \<Rightarrow> provider_status_text (p_status p) \<noteq> s | None \<Rightarrow> False) then False
      else if (case vram_filter fs of Some v \<Rightarrow> \<not> (\<exists>g \<in> set (p_gpus p). rg_vram g \<ge> v) | None \<Rightarrow> False) then False
      else if (case string_filter fs ''gpu_model'' of Some m \<Rightarrow>
                 \<not> (\<exists>g \<in> set (p_gpus p). str_contains (to_lower (rg_model_name g)) (to_lower m)) | None \<Rightarrow> False) then False
      else if (case string_filter fs ''architecture'' of Some a \<Rightarrow>
                 \<not> (\<exists>g \<in> set (p_gpus p). str_contains (to_lower (rg_architecture g)) (to_lower a)) | None \<Rightarrow> False) then False
      else if healthy_filter fs \<and> (\<exists>g \<in> set (p_gpus p). \<not> rg_is_healthy g) then False
      else True)"

section \<open>The in-memory store\<close>

type_synonym mem_store = "uuid \<rightharpoonup> provider"

definition mem_add_provider :: "provider \<Rightarrow> mem_store \<Rightarrow> reg_error option \<times> mem_store" where
  "mem_add_provider p s = (if s (p_id p) \<noteq> None then (Some ErrProviderAlreadyExists, s) else (None, s(p_id p \<mapsto> p)))"

definition mem_get_provider :: "uuid \<Rightarrow> mem_store \<Rightarrow> reg_error + provider" where
  "mem_get_provider i s = (case s i of None \<Rightarrow> Inl ErrProviderNotFound | Some p \<Rightarrow> Inr p)"

definition mem_list_providers :: "(mem_store \<Rightarrow> provider list) \<Rightarrow> filters \<Rightarrow> mem_store \<Rightarrow> provider list" where
  "mem_list_providers enum fs s = filter (\<lambda>p. passes_filters p fs) (enum s)"

definition mem_update_provider :: "uuid \<Rightarrow> provider \<Rightarrow> mem_store \<Rightarrow> reg_error option \<times> mem_store" where
  "mem_update_provider i p s = (if s i = None then (Some ErrProviderNotFound, s) else (None, s(i \<mapsto> p\<lparr>p_id := i\<rparr>)))"

definition mem_delete_provider :: "uuid \<Rightarrow> mem_store \<Rightarrow> reg_error option \<times> mem_store" where
  "mem_delete_provider i s = (if s i = None then (Some ErrProviderNotFound, s) else (None, s(i := None)))"

definition mem_update_provider_status :: "time \<Rightarrow> uuid \<Rightarrow> provider_status \<Rightarrow> mem_store \<Rightarrow> reg_error option \<times> mem_store" where
  "mem_update_provider_status now i st s =
     (case s i of None \<Rightarrow> (Some ErrProviderNotFound, s) | Some p \<Rightarrow> (None, s(i \<mapsto> update_status now st p)))"

definition mem_update_provider_heartbeat :: "time \<Rightarrow> uuid \<Rightarrow> registry_gpu list \<Rightarrow> mem_store \<Rightarrow> reg_error option \<times> mem_store" where
  "mem_update_provider_heartbeat now i ms s =
     (case s i of None \<Rightarrow> (Some ErrProviderNotFound, s)
      | Some p \<Rightarrow>
          (let p1 = heartbeat now p;
               p2 = (if length ms > 0 \<and> length (p_gpus p1) > 0 then p1\<lparr>p_gpus := apply_metrics ms (p_gpus p1)\<rparr> else p1)
           in (None, s(i \<mapsto> p2))))"

section \<open>The interface\<close>

text \<open>The same provider with its GPUs in any order: what a store that does not order them may return.\<close>

definition same_provider :: "provider \<Rightarrow> provider \<Rightarrow> bool" where
  "same_provider p q \<longleftrightarrow> p\<lparr>p_gpus := []\<rparr> = q\<lparr>p_gpus := []\<rparr> \<and> mset (p_gpus p) = mset (p_gpus q)"

lemma same_provider_refl [simp]: "same_provider p p"
  by (simp add: same_provider_def)

lemma same_provider_fields: "same_provider p q \<Longrightarrow>
    p_id p = p_id q \<and> p_status p = p_status q \<and> p_last_seen_at p = p_last_seen_at q \<and> mset (p_gpus p) = mset (p_gpus q)"
  by (cases p; cases q) (simp add: same_provider_def)

text \<open>What a store keeps of the times it is given, and of the registration time when a provider is replaced.\<close>

definition at_precision :: "(time \<Rightarrow> time) \<Rightarrow> provider \<Rightarrow> provider" where
  "at_precision seen p = p\<lparr>p_registered_at := seen (p_registered_at p), p_last_seen_at := seen (p_last_seen_at p)\<rparr>"

definition replacement :: "(time \<Rightarrow> time) \<Rightarrow> bool \<Rightarrow> provider \<Rightarrow> provider \<Rightarrow> provider" where
  "replacement seen keeps old p =
     p\<lparr>p_registered_at := (if keeps then p_registered_at old else seen (p_registered_at p)), p_last_seen_at := seen (p_last_seen_at p)\<rparr>"

lemma at_precision_fields [simp]: "p_status (at_precision seen p) = p_status p" "p_id (at_precision seen p) = p_id p"
    "p_gpus (at_precision seen p) = p_gpus p" "at_precision (\<lambda>t. t) p = p"
  by (simp_all add: at_precision_def)

lemma replacement_exact [simp]: "replacement (\<lambda>t. t) False old p = p"
  by (simp add: replacement_def)

locale provider_store =
  fixes valid :: "'s \<Rightarrow> bool"
    and peek :: "'s \<Rightarrow> uuid \<Rightarrow> provider option"
    and add :: "provider \<Rightarrow> 's \<Rightarrow> reg_error option \<times> 's"
    and get :: "uuid \<Rightarrow> 's \<Rightarrow> reg_error + provider"
    and update :: "uuid \<Rightarrow> provider \<Rightarrow> 's \<Rightarrow> reg_error option \<times> 's"
    and remove :: "uuid \<Rightarrow> 's \<Rightarrow> reg_error option \<times> 's"
    and set_status :: "time \<Rightarrow> uuid \<Rightarrow> provider_status \<Rightarrow> 's \<Rightarrow> reg_error option \<times> 's"
    and beat :: "time \<Rightarrow> uuid \<Rightarrow> registry_gpu list \<Rightarrow> 's \<Rightarrow> reg_error option \<times> 's"
    and seen :: "time \<Rightarrow> time"
    and keeps :: bool
  assumes get_peek: "valid s \<Longrightarrow> get i s = Inr p \<Longrightarrow> \<exists>q. peek s i = Some q \<and> same_provider p q"
    and add_ok: "valid s \<Longrightarrow> add p s = (None, s') \<Longrightarrow>
        valid s' \<and> peek s (p_id p) = None \<and> peek s' = (peek s)(p_id p \<mapsto> at_precision seen p)"
    and add_err: "valid s \<Longrightarrow> add p s = (Some e, s') \<Longrightarrow> valid s' \<and> peek s' = peek s"
    and update_ok: "valid s \<Longrightarrow> update i p s = (None, s') \<Longrightarrow>
        valid s' \<and> (\<exists>old. peek s i = Some old \<and> peek s' = (peek s)(i \<mapsto> replacement seen keeps old (p\<lparr>p_id := i\<rparr>)))"
    and update_err: "valid s \<Longrightarrow> update i p s = (Some e, s') \<Longrightarrow> valid s' \<and> peek s' = peek s"
    and remove_ok: "valid s \<Longrightarrow> remove i s = (None, s') \<Longrightarrow> valid s' \<and> peek s i \<noteq> None \<and> peek s' = (peek s)(i := None)"
    and remove_err: "valid s \<Longrightarrow> remove i s = (Some e, s') \<Longrightarrow> valid s' \<and> peek s' = peek s"
    and status_ok: "valid s \<Longrightarrow> set_status now i st s = (None, s') \<Longrightarrow>
        valid s' \<and> (\<exists>old. peek s i = Some old \<and> peek s' = (peek s)(i \<mapsto> update_status (seen now) st old))"
    and status_err: "valid s \<Longrightarrow> set_status now i st s = (Some e, s') \<Longrightarrow> valid s' \<and> peek s' = peek s"
    and beat_ok: "valid s \<Longrightarrow> beat now i ms s = (None, s') \<Longrightarrow>
        valid s' \<and> (\<exists>old. peek s i = Some old \<and> peek s' = (peek s)(i \<mapsto> beaten (seen now) ms old))"
    and beat_err: "valid s \<Longrightarrow> beat now i ms s = (Some e, s') \<Longrightarrow> valid s' \<and> peek s' = peek s"
begin

lemma add_get:
  assumes "valid s" "add p s = (None, s')" "get (p_id p) s' = Inr q"
  shows "p_id q = p_id p \<and> p_status q = p_status p \<and> mset (p_gpus q) = mset (p_gpus p)"
proof -
  from add_ok [OF assms(1,2)] have s': "valid s'" "peek s' (p_id p) = Some (at_precision seen p)" by auto
  from get_peek [OF s'(1) assms(3)] s'(2) show ?thesis
    using same_provider_fields by auto
qed

lemma beat_alive:
  assumes "valid s" "beat now i ms s = (None, s')"
  shows "\<exists>p. peek s' i = Some p \<and> p_status p \<notin> {StatusOffline, StatusError} \<and> p_last_seen_at p = seen now"
  using beat_ok [OF assms] by (auto simp: beaten_def heartbeat_def Let_def)

lemma remove_gone:
  assumes "valid s" "remove i s = (None, s')"
  shows "\<exists>e. get i s' = Inl e"
proof (cases "get i s'")
  case (Inr q)
  from remove_ok [OF assms] have s': "valid s'" "peek s' i = None" by auto
  from get_peek [OF s'(1) Inr] s'(2) show ?thesis by simp
qed simp

lemma others_kept:
  "valid s \<Longrightarrow> add p s = (r, s') \<Longrightarrow> k \<noteq> p_id p \<Longrightarrow> peek s' k = peek s k"
  "valid s \<Longrightarrow> update i p s = (r, s') \<Longrightarrow> k \<noteq> i \<Longrightarrow> peek s' k = peek s k"
  "valid s \<Longrightarrow> remove i s = (r, s') \<Longrightarrow> k \<noteq> i \<Longrightarrow> peek s' k = peek s k"
  "valid s \<Longrightarrow> set_status now i st s = (r, s') \<Longrightarrow> k \<noteq> i \<Longrightarrow> peek s' k = peek s k"
  "valid s \<Longrightarrow> beat now i ms s = (r, s') \<Longrightarrow> k \<noteq> i \<Longrightarrow> peek s' k = peek s k"
  by (cases r; fastforce dest: add_ok add_err update_ok update_err remove_ok remove_err status_ok status_err beat_ok beat_err)+

end

lemma apply_metrics_empty [simp]: "apply_metrics ms [] = []" "apply_metrics [] gs = gs"
  by (cases ms) simp_all

lemma length_apply_metrics [simp]: "length (apply_metrics ms gs) = length gs"
  by (induction ms gs rule: apply_metrics.induct) simp_all

interpretation mem: provider_store "\<lambda>s. True" "\<lambda>s. s" mem_add_provider mem_get_provider mem_update_provider
    mem_delete_provider mem_update_provider_status mem_update_provider_heartbeat "\<lambda>t. t" False
  by unfold_locales
    (auto simp: mem_get_provider_def mem_add_provider_def mem_update_provider_def mem_delete_provider_def
      mem_update_provider_status_def mem_update_provider_heartbeat_def beaten_def Let_def split: option.splits if_splits)

end
