(* ===== verification/RegistryStore.thy ===== *)
theory RegistryStore
  imports Registry
begin

text \<open>
  The provider registry's PostgreSQL store (\<open>internal/store/postgres_providerstore.go\<close>): providers and their GPUs
  in two tables. What the database and the context do in one run is the record \<open>provider_env\<close>: which
  statements of which attempt fail, the order of unordered results, the precision of times. An operation runs
  alone; what it does after a failing statement is rolled back, the serial number of the GPU rows excepted. The
  laws of \<open>provider_store\<close> are proved of it.
\<close>

section \<open>Tables\<close>

record provider_row =
  pr_id :: uuid
  pr_owner_id :: string
  pr_name :: string
  pr_hostname :: string
  pr_ip_address :: string
  pr_status :: provider_status
  pr_location :: string
  pr_registered_at :: time
  pr_last_seen_at :: time
  pr_metadata :: "json_map option option"

record gpu_row =
  gd_id :: nat
  gd_provider_id :: uuid
  gd_gpu :: registry_gpu

record registry_db =
  rd_providers :: "provider_row list"
  rd_gpus :: "gpu_row list"
  rd_next_gpu :: nat

datatype registry_query =
    RqBegin | RqInsertProvider | RqInsertGpu nat | RqCommit | RqSelectProvider | RqSelectGpus | RqScanGpus | RqIterateGpus
  | RqList | RqScanList | RqIterateList | RqUpdateProvider | RqDeleteGpus | RqDeleteProvider | RqUpdateStatus
  | RqHeartbeat | RqSelectGpuId nat | RqUpdateGpu nat

record provider_env =
  pe_fail :: "nat \<Rightarrow> registry_query \<Rightarrow> reg_error option"
  pe_duplicate :: reg_error
  pe_out_of_range :: reg_error
  pe_time_col :: "time \<Rightarrow> time"
  pe_gpu_rank :: "gpu_row \<Rightarrow> nat"
  pe_name_rank :: "provider_row \<Rightarrow> nat"
  pe_cancelled :: "nat \<Rightarrow> reg_error option"
  pe_expired :: "nat \<Rightarrow> reg_error option"
  pe_scale :: "duration \<Rightarrow> rat \<Rightarrow> duration"

text \<open>A result without an order comes by any rank of its rows, the list by the collation's rank of the names.\<close>

definition stored_provider :: "provider_env \<Rightarrow> provider \<Rightarrow> provider_row" where
  "stored_provider env p =
     \<lparr>pr_id = p_id p, pr_owner_id = p_owner_id p, pr_name = p_name p, pr_hostname = p_hostname p,
      pr_ip_address = p_ip_address p, pr_status = p_status p, pr_location = p_location p,
      pr_registered_at = pe_time_col env (p_registered_at p), pr_last_seen_at = pe_time_col env (p_last_seen_at p),
      pr_metadata = (case p_metadata p of None \<Rightarrow> None | Some m \<Rightarrow> Some (Some m))\<rparr>"

text \<open>Signed columns: a value above the largest of its column is refused before it is sent.\<close>

definition gpu_fits :: "registry_gpu \<Rightarrow> bool" where
  "gpu_fits g \<longleftrightarrow> unat (rg_vram g) < 2 ^ 63 \<and> unat (rg_cuda_cores g) < 2 ^ 31 \<and> unat (rg_tensor_cores g) < 2 ^ 31
     \<and> unat (rg_memory_bandwidth g) < 2 ^ 31 \<and> unat (rg_power_consumption g) < 2 ^ 31 \<and> unat (rg_power_draw g) < 2 ^ 31"

fun insert_gpus ::
    "(nat \<Rightarrow> reg_error option) \<Rightarrow> reg_error \<Rightarrow> uuid \<Rightarrow> nat \<Rightarrow> registry_gpu list \<Rightarrow> registry_db \<Rightarrow> reg_error option \<times> registry_db" where
  "insert_gpus fails too_big pid k [] db = (None, db)"
| "insert_gpus fails too_big pid k (g # gs) db =
     (case fails k of Some e \<Rightarrow> (Some e, db)
      | None \<Rightarrow>
          if \<not> gpu_fits g then (Some too_big, db)
          else insert_gpus fails too_big pid (Suc k) gs
                 (db\<lparr>rd_gpus := rd_gpus db @ [\<lparr>gd_id = rd_next_gpu db, gd_provider_id = pid, gd_gpu = g\<rparr>],
                     rd_next_gpu := rd_next_gpu db + 1\<rparr>))"

definition rolled_back :: "registry_db \<Rightarrow> registry_db \<Rightarrow> registry_db" where
  "rolled_back db db' = db\<lparr>rd_next_gpu := rd_next_gpu db'\<rparr>"

definition gpus_of :: "uuid \<Rightarrow> registry_db \<Rightarrow> gpu_row list" where
  "gpus_of pid db = filter (\<lambda>r. gd_provider_id r = pid) (rd_gpus db)"

definition outcome :: "(reg_error + unit) \<times> duration list \<times> 's \<Rightarrow> reg_error option \<times> 's" where
  "outcome r = ((case fst r of Inl e \<Rightarrow> Some e | Inr u \<Rightarrow> None), snd (snd r))"

section \<open>Operations\<close>

text \<open>A commit that reports an error has been rolled back: that the connection breaks after the server has committed and before it has said so is not
  modelled.\<close>

definition add_provider_tx :: "provider_env \<Rightarrow> provider \<Rightarrow> nat \<Rightarrow> registry_db \<Rightarrow> (reg_error + unit) \<times> registry_db" where
  "add_provider_tx env p n db =
     (case pe_fail env n RqBegin of Some e \<Rightarrow> (Inl (wrap_error ''failed to begin transaction'' e), db)
      | None \<Rightarrow>
      case pe_fail env n RqInsertProvider of Some e \<Rightarrow> (Inl (wrap_error ''failed to insert provider'' e), db)
      | None \<Rightarrow>
          if select_by pr_id (p_id p) (rd_providers db) \<noteq> None
          then (Inl (wrap_error ''failed to insert provider'' (pe_duplicate env)), db)
          else (case insert_gpus (\<lambda>k. pe_fail env n (RqInsertGpu k)) (pe_out_of_range env) (p_id p) 0 (p_gpus p)
                       (db\<lparr>rd_providers := rd_providers db @ [stored_provider env p]\<rparr>) of
              (Some e, db') \<Rightarrow> (Inl (wrap_error ''failed to insert GPU detail'' e), rolled_back db db')
            | (None, db') \<Rightarrow>
                (case pe_fail env n RqCommit of
                   Some e \<Rightarrow> (Inl (wrap_error ''failed to commit transaction'' e), rolled_back db db')
                 | None \<Rightarrow> (Inr (), db'))))"

definition pg_add_provider :: "provider_env \<Rightarrow> provider \<Rightarrow> registry_db \<Rightarrow> reg_error option \<times> registry_db" where
  "pg_add_provider env p db =
     outcome (with_retry (pe_scale env) default_retry_config ''add provider'' (pe_cancelled env) (add_provider_tx env p) db)"

definition provider_of :: "provider_row \<Rightarrow> gpu_row list \<Rightarrow> provider" where
  "provider_of row gs =
     \<lparr>p_id = pr_id row, p_owner_id = pr_owner_id row, p_name = pr_name row, p_hostname = pr_hostname row,
      p_ip_address = pr_ip_address row, p_status = pr_status row, p_gpus = map gd_gpu gs, p_location = pr_location row,
      p_registered_at = pr_registered_at row, p_last_seen_at = pr_last_seen_at row,
      p_metadata = (case pr_metadata row of None \<Rightarrow> None | Some m \<Rightarrow> m)\<rparr>"

definition get_provider_query :: "provider_env \<Rightarrow> uuid \<Rightarrow> nat \<Rightarrow> registry_db \<Rightarrow> (reg_error + provider) \<times> registry_db" where
  "get_provider_query env i n db =
     (case (case pe_fail env n RqSelectProvider of Some e \<Rightarrow> Inl e
            | None \<Rightarrow> (case select_by pr_id i (rd_providers db) of None \<Rightarrow> Inl ErrNoRows | Some row \<Rightarrow> Inr row)) of
        Inl e \<Rightarrow> (Inl (wrap_error (if errors_is e ErrNoRows then ''provider not found'' else ''failed to query provider'') e), db)
      | Inr row \<Rightarrow>
      case pe_fail env n RqSelectGpus of Some e \<Rightarrow> (Inl (wrap_error ''failed to query GPU details'' e), db)
      | None \<Rightarrow>
      case pe_fail env n RqScanGpus of Some e \<Rightarrow> (Inl (wrap_error ''failed to scan GPU detail'' e), db)
      | None \<Rightarrow>
      case pe_fail env n RqIterateGpus of Some e \<Rightarrow> (Inl (wrap_error ''error iterating GPU details rows'' e), db)
      | None \<Rightarrow> (Inr (provider_of row (sort_key (pe_gpu_rank env) (gpus_of i db))), db))"

definition pg_get_provider :: "provider_env \<Rightarrow> uuid \<Rightarrow> registry_db \<Rightarrow> reg_error + provider" where
  "pg_get_provider env i db =
     fst (with_retry (pe_scale env) default_retry_config ''get provider'' (pe_cancelled env) (get_provider_query env i) db)"

text \<open>\<open>s LIKE p\<close>: \<open>%\<close> is any text, \<open>_\<close> any character, a backslash quotes the next character.\<close>

function sql_like :: "string \<Rightarrow> string \<Rightarrow> bool" where
  "sql_like s [] \<longleftrightarrow> s = []"
| "sql_like s (c # p) \<longleftrightarrow>
     (if c = CHR ''%'' then sql_like s p \<or> (case s of [] \<Rightarrow> False | x # s' \<Rightarrow> sql_like s' (c # p))
      else if c = CHR ''_'' then (case s of [] \<Rightarrow> False | x # s' \<Rightarrow> sql_like s' p)
      else if c = char_of (92 :: nat) then
        (case p of [] \<Rightarrow> False | d # p' \<Rightarrow> (case s of [] \<Rightarrow> False | x # s' \<Rightarrow> x = d \<and> sql_like s' p'))
      else (case s of [] \<Rightarrow> False | x # s' \<Rightarrow> x = c \<and> sql_like s' p))"
  by pat_completeness auto
termination by (relation "measure (\<lambda>(s, p). length s + length p)") auto

definition like_model :: "string \<Rightarrow> string \<Rightarrow> bool" where
  "like_model text pat = sql_like (to_lower text) (to_lower (''%'' @ pat @ ''%''))"

definition list_condition :: "filters \<Rightarrow> registry_db \<Rightarrow> provider_row \<Rightarrow> bool" where
  "list_condition fs db row \<longleftrightarrow>
     (case string_filter fs ''status'' of Some s \<Rightarrow> provider_status_text (pr_status row) = s | None \<Rightarrow> True)
     \<and> (case string_filter fs ''gpu_model'' of
          Some m \<Rightarrow> \<exists>r \<in> set (gpus_of (pr_id row) db). like_model (rg_model_name (gd_gpu r)) m | None \<Rightarrow> True)
     \<and> (case vram_filter fs of Some v \<Rightarrow> \<exists>r \<in> set (gpus_of (pr_id row) db). rg_vram (gd_gpu r) \<ge> v | None \<Rightarrow> True)
     \<and> (case string_filter fs ''architecture'' of
          Some a \<Rightarrow> \<exists>r \<in> set (gpus_of (pr_id row) db). like_model (rg_architecture (gd_gpu r)) a | None \<Rightarrow> True)
     \<and> (healthy_filter fs \<longrightarrow> \<not> (\<exists>r \<in> set (gpus_of (pr_id row) db). \<not> rg_is_healthy (gd_gpu r)))"

text \<open>The scanned address is overwritten with a local that is never set.\<close>

definition listed_row :: "provider_env \<Rightarrow> registry_db \<Rightarrow> provider_row \<Rightarrow> provider" where
  "listed_row env db row =
     (let p = provider_of row (sort_key (pe_gpu_rank env) (gpus_of (pr_id row) db)) in
      p\<lparr>p_ip_address := [],
        p_metadata := (case pr_metadata row of None \<Rightarrow> Some Map.empty | Some None \<Rightarrow> Some Map.empty | Some (Some m) \<Rightarrow> Some m)\<rparr>)"

definition list_query :: "provider_env \<Rightarrow> filters \<Rightarrow> registry_db \<Rightarrow> nat \<Rightarrow> reg_error + provider list" where
  "list_query env fs db n =
     (case pe_fail env n RqList of Some e \<Rightarrow> Inl (wrap_error ''failed to list providers'' e)
      | None \<Rightarrow>
      if (case vram_filter fs of Some v \<Rightarrow> unat v \<ge> 2 ^ 63 | None \<Rightarrow> False)
      then Inl (wrap_error ''failed to list providers'' (pe_out_of_range env))
      else case pe_fail env n RqScanList of Some e \<Rightarrow> Inl (wrap_error ''failed to scan provider row'' e)
      | None \<Rightarrow>
      case pe_fail env n RqIterateList of Some e \<Rightarrow> Inl (wrap_error ''error iterating provider rows'' e)
      | None \<Rightarrow> Inr (map (listed_row env db) (sort_key (pe_name_rank env) (filter (list_condition fs db) (rd_providers db)))))"

definition pg_list_providers :: "provider_env \<Rightarrow> filters \<Rightarrow> registry_db \<Rightarrow> reg_error + provider list" where
  "pg_list_providers env fs db = fst (store_with_retry 3 second (pe_expired env) (pe_cancelled env) (list_query env fs db))"

definition updated_row :: "provider_env \<Rightarrow> provider \<Rightarrow> provider_row \<Rightarrow> provider_row" where
  "updated_row env p row =
     row\<lparr>pr_owner_id := p_owner_id p, pr_name := p_name p, pr_hostname := p_hostname p, pr_ip_address := p_ip_address p,
         pr_status := p_status p, pr_location := p_location p, pr_last_seen_at := pe_time_col env (p_last_seen_at p),
         pr_metadata := Some (p_metadata p)\<rparr>"

definition pg_update_provider :: "provider_env \<Rightarrow> uuid \<Rightarrow> provider \<Rightarrow> registry_db \<Rightarrow> reg_error option \<times> registry_db" where
  "pg_update_provider env i p db =
     (case pe_fail env 0 RqBegin of Some e \<Rightarrow> (Some (wrap_error ''failed to begin transaction'' e), db)
      | None \<Rightarrow>
      case pe_fail env 0 RqUpdateProvider of Some e \<Rightarrow> (Some (wrap_error ''failed to update provider'' e), db)
      | None \<Rightarrow>
      if select_by pr_id i (rd_providers db) = None then (Some ErrProviderNotFound, db)
      else case pe_fail env 0 RqDeleteGpus of Some e \<Rightarrow> (Some (wrap_error ''failed to delete existing GPU details'' e), db)
      | None \<Rightarrow>
      (case insert_gpus (\<lambda>k. pe_fail env 0 (RqInsertGpu k)) (pe_out_of_range env) i 0 (p_gpus p)
              (db\<lparr>rd_providers := update_by pr_id i (updated_row env p) (rd_providers db),
                  rd_gpus := delete_by gd_provider_id i (rd_gpus db)\<rparr>) of
         (Some e, db') \<Rightarrow> (Some (wrap_error ''failed to insert updated GPU detail'' e), rolled_back db db')
       | (None, db') \<Rightarrow>
           (case pe_fail env 0 RqCommit of
              Some e \<Rightarrow> (Some (wrap_error ''failed to commit transaction'' e), rolled_back db db')
            | None \<Rightarrow> (None, db'))))"

definition pg_delete_provider :: "provider_env \<Rightarrow> uuid \<Rightarrow> registry_db \<Rightarrow> reg_error option \<times> registry_db" where
  "pg_delete_provider env i db =
     (case pe_fail env 0 RqDeleteProvider of Some e \<Rightarrow> (Some (wrap_error ''failed to delete provider'' e), db)
      | None \<Rightarrow>
      if select_by pr_id i (rd_providers db) = None then (Some ErrProviderNotFound, db)
      else (None, db\<lparr>rd_providers := delete_by pr_id i (rd_providers db), rd_gpus := delete_by gd_provider_id i (rd_gpus db)\<rparr>))"

definition pg_update_provider_status ::
    "provider_env \<Rightarrow> time \<Rightarrow> uuid \<Rightarrow> provider_status \<Rightarrow> registry_db \<Rightarrow> reg_error option \<times> registry_db" where
  "pg_update_provider_status env now i st db =
     (case pe_fail env 0 RqUpdateStatus of Some e \<Rightarrow> (Some (wrap_error ''failed to update provider status'' e), db)
      | None \<Rightarrow>
      if select_by pr_id i (rd_providers db) = None then (Some ErrProviderNotFound, db)
      else (None, db\<lparr>rd_providers :=
              update_by pr_id i (\<lambda>row. row\<lparr>pr_status := st, pr_last_seen_at := pe_time_col env now\<rparr>) (rd_providers db)\<rparr>))"

definition beaten_row :: "provider_env \<Rightarrow> time \<Rightarrow> provider_row \<Rightarrow> provider_row" where
  "beaten_row env now row =
     row\<lparr>pr_last_seen_at := pe_time_col env now,
         pr_status := (if pr_status row = StatusOffline \<or> pr_status row = StatusError then StatusIdle else pr_status row)\<rparr>"

text \<open>The GPU of metric \<open>k\<close> is the one at offset \<open>k\<close> of the provider's GPUs by serial number.\<close>

fun update_metrics ::
    "(nat \<Rightarrow> reg_error option) \<Rightarrow> (nat \<Rightarrow> reg_error option) \<Rightarrow> reg_error \<Rightarrow> uuid \<Rightarrow> nat \<Rightarrow> registry_gpu list \<Rightarrow> registry_db
     \<Rightarrow> reg_error option \<times> registry_db" where
  "update_metrics sel upd too_big pid k [] db = (None, db)"
| "update_metrics sel upd too_big pid k (m # ms) db =
     (case (case sel k of Some e \<Rightarrow> Inl e
            | None \<Rightarrow> (case drop k (sort_key gd_id (gpus_of pid db)) of [] \<Rightarrow> Inl ErrNoRows | r # rs \<Rightarrow> Inr (gd_id r))) of
        Inl e \<Rightarrow>
          (Some (if e = ErrNoRows then ErrText (''GPU at index '' @ nat_text k @ '' not found for provider '' @ uuid_text pid)
                 else wrap_error ''failed to get GPU ID'' e), db)
      | Inr g \<Rightarrow>
      case upd k of Some e \<Rightarrow> (Some (wrap_error ''failed to update GPU metrics'' e), db)
      | None \<Rightarrow>
      if unat (rg_power_draw m) \<ge> 2 ^ 31 then (Some (wrap_error ''failed to update GPU metrics'' too_big), db)
      else update_metrics sel upd too_big pid (Suc k) ms
             (db\<lparr>rd_gpus := update_by gd_id g (\<lambda>r. r\<lparr>gd_gpu := merge_metrics m (gd_gpu r)\<rparr>) (rd_gpus db)\<rparr>))"

definition pg_update_provider_heartbeat ::
    "provider_env \<Rightarrow> time \<Rightarrow> uuid \<Rightarrow> registry_gpu list \<Rightarrow> registry_db \<Rightarrow> reg_error option \<times> registry_db" where
  "pg_update_provider_heartbeat env now i ms db =
     (case pe_fail env 0 RqBegin of Some e \<Rightarrow> (Some (wrap_error ''failed to begin transaction'' e), db)
      | None \<Rightarrow>
      case pe_fail env 0 RqHeartbeat of Some e \<Rightarrow> (Some (wrap_error ''failed to update provider heartbeat'' e), db)
      | None \<Rightarrow>
      if select_by pr_id i (rd_providers db) = None then (Some ErrProviderNotFound, db)
      else (case update_metrics (\<lambda>k. pe_fail env 0 (RqSelectGpuId k)) (\<lambda>k. pe_fail env 0 (RqUpdateGpu k)) (pe_out_of_range env)
                   i 0 ms (db\<lparr>rd_providers := update_by pr_id i (beaten_row env now) (rd_providers db)\<rparr>) of
          (Some e, db') \<Rightarrow> (Some e, db)
        | (None, db') \<Rightarrow>
            (case pe_fail env 0 RqCommit of
               Some e \<Rightarrow> (Some (wrap_error ''failed to commit transaction'' e), db)
             | None \<Rightarrow> (None, db'))))"

end
