(* ===== verification/RegistryFacts.thy ===== *)
theory RegistryFacts
  imports RegistryStore
begin

text \<open>
  The PostgreSQL store of the registry implements the interface \<open>provider_store\<close>: its tables, seen as a map
  from identifiers to providers, change under every operation as the interface says, retries and
  failures included.
\<close>

section \<open>The tables as a map\<close>

definition valid_registry :: "registry_db \<Rightarrow> bool" where
  "valid_registry db \<longleftrightarrow> distinct (map pr_id (rd_providers db)) \<and> sorted_wrt (<) (map gd_id (rd_gpus db))
     \<and> (\<forall>r \<in> set (rd_gpus db). gd_id r < rd_next_gpu db \<and> gd_provider_id r \<in> pr_id ` set (rd_providers db))"

definition registry_peek :: "registry_db \<Rightarrow> uuid \<Rightarrow> provider option" where
  "registry_peek db i = map_option (\<lambda>row. provider_of row (gpus_of i db)) (select_by pr_id i (rd_providers db))"

lemma valid_rolled_back:
  "valid_registry db \<Longrightarrow> rd_next_gpu db \<le> rd_next_gpu db' \<Longrightarrow>
     valid_registry (rolled_back db db') \<and> registry_peek (rolled_back db db') = registry_peek db"
  by (fastforce simp: valid_registry_def rolled_back_def registry_peek_def gpus_of_def)

lemma provider_of_stored [simp]: "map gd_gpu gs = p_gpus p \<Longrightarrow> provider_of (stored_provider env p) gs = at_precision (pe_time_col env) p"
  by (cases p) (simp add: provider_of_def stored_provider_def at_precision_def split: option.split)

lemma gpus_of_unknown: "valid_registry db \<Longrightarrow> select_by pr_id i (rd_providers db) = None \<Longrightarrow> gpus_of i db = []"
  by (auto simp: valid_registry_def gpus_of_def select_by_None filter_empty_conv)

lemma insert_gpus_rows:
  assumes "insert_gpus fails e pid k gs db = (res, db')"
  shows "\<exists>rows. db' = db\<lparr>rd_gpus := rd_gpus db @ rows, rd_next_gpu := rd_next_gpu db + length rows\<rparr>
    \<and> map gd_id rows = [rd_next_gpu db ..< rd_next_gpu db + length rows] \<and> gd_provider_id ` set rows \<subseteq> {pid}
    \<and> (res = None \<longrightarrow> map gd_gpu rows = gs)"
  using assms
proof (induction gs arbitrary: k db)
  case (Cons g gs)
  show ?case
  proof (cases "fails k = None \<and> gpu_fits g")
    case False
    with Cons.prems show ?thesis by (intro exI [of _ "[]"]) (auto split: option.splits if_splits; metis)
  next
    case True
    let ?row = "\<lparr>gd_id = rd_next_gpu db, gd_provider_id = pid, gd_gpu = g\<rparr>"
    let ?db = "db\<lparr>rd_gpus := rd_gpus db @ [?row], rd_next_gpu := rd_next_gpu db + 1\<rparr>"
    from True Cons.prems have "insert_gpus fails e pid (Suc k) gs ?db = (res, db')" by simp
    from Cons.IH [OF this] obtain rows where rows:
      "db' = ?db\<lparr>rd_gpus := rd_gpus ?db @ rows, rd_next_gpu := rd_next_gpu ?db + length rows\<rparr>"
      "map gd_id rows = [rd_next_gpu ?db ..< rd_next_gpu ?db + length rows]"
      "gd_provider_id ` set rows \<subseteq> {pid}" "res = None \<longrightarrow> map gd_gpu rows = gs" by blast
    then show ?thesis
      by (intro exI [of _ "?row # rows"]) (auto simp: upt_conv_Cons simp del: upt_Suc)
  qed
qed auto

lemma valid_insert_gpus:
  assumes "valid_registry db" "insert_gpus fails e pid k gs db = (res, db')" "pid \<in> pr_id ` set (rd_providers db)"
  shows "valid_registry db' \<and> rd_providers db' = rd_providers db \<and> rd_next_gpu db \<le> rd_next_gpu db'
    \<and> (\<forall>i. i \<noteq> pid \<longrightarrow> gpus_of i db' = gpus_of i db)
    \<and> (res = None \<longrightarrow> map gd_gpu (gpus_of pid db') = map gd_gpu (gpus_of pid db) @ gs)"
proof -
  from insert_gpus_rows [OF assms(2)] obtain rows where rows:
    "db' = db\<lparr>rd_gpus := rd_gpus db @ rows, rd_next_gpu := rd_next_gpu db + length rows\<rparr>"
    "map gd_id rows = [rd_next_gpu db ..< rd_next_gpu db + length rows]"
    "gd_provider_id ` set rows \<subseteq> {pid}" "res = None \<longrightarrow> map gd_gpu rows = gs" by blast
  have ids: "rd_next_gpu db \<le> gd_id r \<and> gd_id r < rd_next_gpu db + length rows" if "r \<in> set rows" for r
  proof -
    from that have "gd_id r \<in> set (map gd_id rows)" by simp
    then show ?thesis by (simp add: rows(2))
  qed
  have srt: "sorted_wrt (<) (map gd_id (rd_gpus db) @ map gd_id rows)"
    using assms(1) ids by (fastforce simp: valid_registry_def sorted_wrt_append rows(2))
  have own: "filter (\<lambda>r. gd_provider_id r = pid) rows = rows" "i \<noteq> pid \<Longrightarrow> filter (\<lambda>r. gd_provider_id r = i) rows = []" for i
    using rows(3) by (auto simp: filter_id_conv filter_empty_conv)
  show ?thesis
    using assms(1,3) srt ids rows(3,4) own by (force simp: rows(1) valid_registry_def gpus_of_def)
qed

section \<open>Every operation changes the map as the interface says\<close>

definition kept_map :: "registry_db \<Rightarrow> registry_db \<Rightarrow> bool" where
  "kept_map db db' \<longleftrightarrow> valid_registry db' \<and> registry_peek db' = registry_peek db"

lemma add_tx_err:
  assumes "valid_registry db" "add_provider_tx env p n db = (Inl e, db')"
  shows "kept_map db db'"
proof -
  let ?db = "db\<lparr>rd_providers := rd_providers db @ [stored_provider env p]\<rparr>"
  obtain res db1 where i: "insert_gpus (\<lambda>k. pe_fail env n (RqInsertGpu k)) (pe_out_of_range env) (p_id p) 0 (p_gpus p) ?db = (res, db1)"
    by fastforce
  from insert_gpus_rows [OF i] have "rd_next_gpu db \<le> rd_next_gpu db1" by auto
  from valid_rolled_back [OF assms(1) this] assms i show ?thesis
    by (auto simp: add_provider_tx_def kept_map_def split: option.splits if_splits)
qed

lemma add_tx_ok:
  assumes v: "valid_registry db" and a: "add_provider_tx env p n db = (Inr u, db')"
  shows "valid_registry db' \<and> registry_peek db (p_id p) = None \<and> registry_peek db' = (registry_peek db)(p_id p \<mapsto> at_precision (pe_time_col env) p)"
proof -
  let ?db = "db\<lparr>rd_providers := rd_providers db @ [stored_provider env p]\<rparr>"
  from a have new: "select_by pr_id (p_id p) (rd_providers db) = None"
    and i: "insert_gpus (\<lambda>k. pe_fail env n (RqInsertGpu k)) (pe_out_of_range env) (p_id p) 0 (p_gpus p) ?db = (None, db')"
    by (auto simp: add_provider_tx_def split: option.splits if_splits prod.splits)
  have id: "pr_id (stored_provider env p) = p_id p" by (simp add: stored_provider_def)
  have "valid_registry ?db"
    using v new by (auto simp: valid_registry_def select_by_None id)
  from valid_insert_gpus [OF this i] have db': "valid_registry db'" "rd_providers db' = rd_providers ?db"
    "\<And>i. i \<noteq> p_id p \<Longrightarrow> gpus_of i db' = gpus_of i ?db" "map gd_gpu (gpus_of (p_id p) db') = map gd_gpu (gpus_of (p_id p) ?db) @ p_gpus p"
    by (auto simp: id)
  have "gpus_of i ?db = gpus_of i db" for i by (simp add: gpus_of_def)
  with db' gpus_of_unknown [OF v new] new have "registry_peek db' i = ((registry_peek db)(p_id p \<mapsto> at_precision (pe_time_col env) p)) i" for i
    by (auto simp: registry_peek_def select_by_append id split: option.splits)
  with db'(1) new show ?thesis by (auto simp: registry_peek_def)
qed

lemma pg_add_cases:
  assumes v: "valid_registry db" and a: "pg_add_provider env p db = (r, db')"
  shows "case r of Some e \<Rightarrow> kept_map db db'
    | None \<Rightarrow> valid_registry db' \<and> registry_peek db (p_id p) = None \<and> registry_peek db' = (registry_peek db)(p_id p \<mapsto> at_precision (pe_time_col env) p)"
proof -
  obtain res sleeps where w: "with_retry (pe_scale env) default_retry_config ''add provider'' (pe_cancelled env) (add_provider_tx env p) db
      = (res, sleeps, db')" and r: "r = (case res of Inl e \<Rightarrow> Some e | Inr u \<Rightarrow> None)"
    using a by (auto simp: pg_add_provider_def outcome_def prod_eq_iff)
  have "kept_map db db2" if "kept_map db db1" "add_provider_tx env p n db1 = (Inl e, db2)" for n db1 e db2
    using add_tx_err [OF _ that(2)] that(1) by (auto simp: kept_map_def)
  moreover have "kept_map db db" using v by (simp add: kept_map_def)
  ultimately have "(\<exists>e. res = Inl e \<and> kept_map db db')
      \<or> (\<exists>n db1 u. kept_map db db1 \<and> add_provider_tx env p n db1 = (Inr u, db') \<and> res = Inr u)"
    using with_retry_state [where I = "kept_map db", OF w] by blast
  then consider e where "res = Inl e" "kept_map db db'"
    | n db1 u where "kept_map db db1" "add_provider_tx env p n db1 = (Inr u, db')" "res = Inr u" by blast
  then show ?thesis
  proof cases
    case 2
    with add_tx_ok [of db1 env p n u db'] r show ?thesis by (simp add: kept_map_def)
  qed (simp add: r)
qed

lemma pg_get_cases:
  assumes "pg_get_provider env i db = Inr p"
  shows "\<exists>q. registry_peek db i = Some q \<and> same_provider p q"
proof -
  obtain res sleeps db' where w: "with_retry (pe_scale env) default_retry_config ''get provider'' (pe_cancelled env) (get_provider_query env i) db
      = (res, sleeps, db')" by (rule prod_cases3)
  with assms have res: "res = Inr p" by (simp add: pg_get_provider_def)
  have "db2 = db" if "get_provider_query env i n db = (Inl e, db2)" for n e db2
    using that by (auto simp: get_provider_query_def split: sum.splits option.splits)
  then obtain n where "get_provider_query env i n db = (Inr p, db')"
    using with_retry_state [where I = "\<lambda>d. d = db", OF w] res by auto
  then obtain row where "select_by pr_id i (rd_providers db) = Some row" "p = provider_of row (sort_key (pe_gpu_rank env) (gpus_of i db))"
    by (auto simp: get_provider_query_def split: sum.splits option.splits)
  then show ?thesis
    by (auto simp: registry_peek_def same_provider_def provider_of_def)
qed

lemma gpus_of_delete: "gpus_of j (db\<lparr>rd_providers := ps, rd_gpus := delete_by gd_provider_id i (rd_gpus db)\<rparr>)
    = (if j = i then [] else gpus_of j db)"
  by (auto simp: gpus_of_def delete_by_def filter_empty_conv intro!: filter_cong)

lemma gpus_of_providers [simp]: "gpus_of j (db\<lparr>rd_providers := ps\<rparr>) = gpus_of j db"
  by (simp add: gpus_of_def)

lemma sorted_ids_delete: "sorted_wrt (<) (map gd_id rs) \<Longrightarrow> sorted_wrt (<) (map gd_id (delete_by gd_provider_id i rs))"
  by (simp add: delete_by_def sorted_wrt_map sorted_wrt_filter)

lemma valid_update_rows:
  assumes "valid_registry db" "\<And>row. pr_id (f row) = pr_id row"
  shows "valid_registry (db\<lparr>rd_providers := update_by pr_id i f (rd_providers db)\<rparr>)"
    "valid_registry (db\<lparr>rd_providers := update_by pr_id i f (rd_providers db), rd_gpus := delete_by gd_provider_id i (rd_gpus db)\<rparr>)"
proof -
  have keys: "pr_id ` set (update_by pr_id i f (rd_providers db)) = pr_id ` set (rd_providers db)"
    using assms(2) by (rule keys_update_by)
  show "valid_registry (db\<lparr>rd_providers := update_by pr_id i f (rd_providers db)\<rparr>)"
    using assms keys by (simp add: valid_registry_def keys_update)
  show "valid_registry (db\<lparr>rd_providers := update_by pr_id i f (rd_providers db), rd_gpus := delete_by gd_provider_id i (rd_gpus db)\<rparr>)"
    using assms keys by (simp add: valid_registry_def keys_update sorted_ids_delete) (simp add: delete_by_def)
qed

lemma peek_update_rows:
  assumes "\<And>row. pr_id (f row) = pr_id row" "rd_providers db' = update_by pr_id i f (rd_providers db)"
    "select_by pr_id i (rd_providers db) = Some row" "\<And>j. j \<noteq> i \<Longrightarrow> gpus_of j db' = gpus_of j db"
  shows "registry_peek db' = (registry_peek db)(i \<mapsto> provider_of (f row) (gpus_of i db'))"
proof
  fix j
  show "registry_peek db' j = ((registry_peek db)(i \<mapsto> provider_of (f row) (gpus_of i db'))) j"
    using assms by (cases "j = i") (simp_all add: registry_peek_def select_update_same select_update_other)
qed

lemma pg_update_cases:
  assumes v: "valid_registry db" and a: "pg_update_provider env i p db = (r, db')"
  shows "case r of Some e \<Rightarrow> kept_map db db'
    | None \<Rightarrow> valid_registry db' \<and> (\<exists>old. registry_peek db i = Some old
        \<and> registry_peek db' = (registry_peek db)(i \<mapsto> replacement (pe_time_col env) True old (p\<lparr>p_id := i\<rparr>)))"
proof (cases "select_by pr_id i (rd_providers db)")
  case None
  with a v show ?thesis by (auto simp: pg_update_provider_def kept_map_def split: option.splits)
next
  case (Some row)
  let ?db = "db\<lparr>rd_providers := update_by pr_id i (updated_row env p) (rd_providers db), rd_gpus := delete_by gd_provider_id i (rd_gpus db)\<rparr>"
  obtain res db1 where ins: "insert_gpus (\<lambda>k. pe_fail env 0 (RqInsertGpu k)) (pe_out_of_range env) i 0 (p_gpus p) ?db = (res, db1)"
    by fastforce
  have id: "pr_id (updated_row env p row) = pr_id row" for row by (simp add: updated_row_def)
  from Some have "i \<in> pr_id ` set (rd_providers db)" by (auto dest: select_by_SomeD)
  then have i: "i \<in> pr_id ` set (rd_providers ?db)" by (simp add: keys_update_by id)
  from valid_insert_gpus [OF valid_update_rows(2) [OF v id] ins i] have db1: "valid_registry db1" "rd_providers db1 = rd_providers ?db"
    "rd_next_gpu db \<le> rd_next_gpu db1" "\<And>j. j \<noteq> i \<Longrightarrow> gpus_of j db1 = gpus_of j db" "res = None \<Longrightarrow> map gd_gpu (gpus_of i db1) = p_gpus p"
    by (auto simp: gpus_of_delete)
  show ?thesis
  proof (cases r)
    case (Some e)
    with a ins valid_rolled_back [OF v db1(3)] v \<open>select_by pr_id i _ = _\<close> show ?thesis
      by (auto simp: pg_update_provider_def kept_map_def split: option.splits)
  next
    case None
    with a ins Some have "res = None" "db' = db1"
      by (auto simp: pg_update_provider_def split: option.splits)
    moreover have "registry_peek db1 = (registry_peek db)(i \<mapsto> provider_of (updated_row env p row) (gpus_of i db1))"
      using db1(2,4) Some by (intro peek_update_rows) (simp_all add: id)
    moreover have "provider_of (updated_row env p row) (gpus_of i db1) = replacement (pe_time_col env) True (provider_of row (gpus_of i db)) (p\<lparr>p_id := i\<rparr>)"
      using db1(5) \<open>res = None\<close> select_by_SomeD [OF Some] by (cases p) (simp add: provider_of_def updated_row_def replacement_def)
    ultimately show ?thesis using None Some db1(1) by (simp add: registry_peek_def)
  qed
qed

lemma pg_delete_cases:
  assumes v: "valid_registry db" and a: "pg_delete_provider env i db = (r, db')"
  shows "case r of Some e \<Rightarrow> kept_map db db'
    | None \<Rightarrow> valid_registry db' \<and> registry_peek db i \<noteq> None \<and> registry_peek db' = (registry_peek db)(i := None)"
proof (cases r)
  case (Some e)
  with a v show ?thesis by (auto simp: pg_delete_provider_def kept_map_def split: option.splits if_splits)
next
  case None
  let ?db = "db\<lparr>rd_providers := delete_by pr_id i (rd_providers db), rd_gpus := delete_by gd_provider_id i (rd_gpus db)\<rparr>"
  from a None have db': "db' = ?db" "select_by pr_id i (rd_providers db) \<noteq> None"
    by (auto simp: pg_delete_provider_def split: option.splits if_splits)
  have "valid_registry ?db"
    using v by (auto simp: valid_registry_def keys_delete sorted_ids_delete) (auto simp: delete_by_def)
  moreover have "registry_peek ?db j = ((registry_peek db)(i := None)) j" for j
    by (simp add: registry_peek_def select_delete gpus_of_delete)
  ultimately show ?thesis using None db' by (auto simp: registry_peek_def)
qed

lemma pg_status_cases:
  assumes v: "valid_registry db" and a: "pg_update_provider_status env now i st db = (r, db')"
  shows "case r of Some e \<Rightarrow> kept_map db db'
    | None \<Rightarrow> valid_registry db' \<and> (\<exists>old. registry_peek db i = Some old
        \<and> registry_peek db' = (registry_peek db)(i \<mapsto> update_status (pe_time_col env now) st old))"
proof (cases r)
  case (Some e)
  with a v show ?thesis by (auto simp: pg_update_provider_status_def kept_map_def split: option.splits if_splits)
next
  case None
  let ?f = "\<lambda>row. row\<lparr>pr_status := st, pr_last_seen_at := pe_time_col env now\<rparr>"
  from a None obtain row where row: "select_by pr_id i (rd_providers db) = Some row"
    and db': "db' = db\<lparr>rd_providers := update_by pr_id i ?f (rd_providers db)\<rparr>"
    by (auto simp: pg_update_provider_status_def split: option.splits if_splits)
  have "registry_peek db' = (registry_peek db)(i \<mapsto> provider_of (?f row) (gpus_of i db'))"
    using row by (intro peek_update_rows) (simp_all add: db')
  then show ?thesis
    using None row valid_update_rows(1) [OF v, of ?f i]
    by (simp add: db' registry_peek_def update_status_def provider_of_def)
qed

lemma filter_update_by: "(\<And>r. P (f r) = P r) \<Longrightarrow> filter P (update_by key k f rs) = update_by key k f (filter P rs)"
  by (induction rs) (auto simp: update_by_def)

lemma update_by_nth:
  assumes "distinct (map key rs)" "drop k rs = r # qs"
  shows "update_by key (key r) f rs = take k rs @ f r # qs"
proof -
  have rs: "rs = take k rs @ r # qs" using assms(2) by (metis append_take_drop_id)
  then have "distinct (map key (take k rs @ r # qs))" using assms(1) by metis
  then have "update_by key (key r) f (take k rs) = take k rs" "update_by key (key r) f qs = qs"
    by (auto intro: update_by_none)
  moreover have "update_by key (key r) f rs = update_by key (key r) f (take k rs) @ f r # update_by key (key r) f qs"
    by (subst rs) (simp add: update_by_def)
  ultimately show ?thesis by simp
qed

lemma update_metrics_rows:
  assumes "update_metrics sel upd e pid k ms db = (None, db')" "sorted_wrt (<) (map gd_id (rd_gpus db))"
  shows "\<exists>gs. db' = db\<lparr>rd_gpus := gs\<rparr> \<and> map gd_id gs = map gd_id (rd_gpus db)
    \<and> map gd_provider_id gs = map gd_provider_id (rd_gpus db) \<and> (\<forall>j. j \<noteq> pid \<longrightarrow> gpus_of j db' = gpus_of j db)
    \<and> map gd_gpu (gpus_of pid db') = take k (map gd_gpu (gpus_of pid db)) @ apply_metrics ms (drop k (map gd_gpu (gpus_of pid db)))
    \<and> (ms \<noteq> [] \<longrightarrow> k + length ms \<le> length (gpus_of pid db))"
  using assms
proof (induction ms arbitrary: k db)
  case Nil
  then show ?case by (intro exI [of _ "rd_gpus db"]) simp
next
  case (Cons m ms)
  let ?G = "gpus_of pid db" and ?f = "\<lambda>r. r\<lparr>gd_gpu := merge_metrics m (gd_gpu r)\<rparr>"
  from Cons.prems(2) have "sorted_wrt (<) (map gd_id ?G)"
    by (simp add: gpus_of_def sorted_wrt_map sorted_wrt_filter)
  then have G: "distinct (map gd_id ?G)" "sort_key gd_id ?G = ?G"
    using strict_sorted_iff [of "map gd_id ?G"] sort_key_id_if_sorted [of gd_id ?G] by auto
  from Cons.prems(1) G(2) obtain r qs where r: "drop k ?G = r # qs"
    by (auto split: option.splits sum.splits list.splits if_splits)
  let ?db = "db\<lparr>rd_gpus := update_by gd_id (gd_id r) ?f (rd_gpus db)\<rparr>"
  from Cons.prems(1) G(2) r have step: "update_metrics sel upd e pid (Suc k) ms ?db = (None, db')"
    by (auto split: option.splits if_splits)
  have "sorted_wrt (<) (map gd_id (rd_gpus ?db))" using Cons.prems(2) by (simp add: map_update_by)
  from Cons.IH [OF step this] obtain gs where gs: "db' = ?db\<lparr>rd_gpus := gs\<rparr>" "map gd_id gs = map gd_id (rd_gpus ?db)"
    "map gd_provider_id gs = map gd_provider_id (rd_gpus ?db)" "\<forall>j. j \<noteq> pid \<longrightarrow> gpus_of j db' = gpus_of j ?db"
    "map gd_gpu (gpus_of pid db') = take (Suc k) (map gd_gpu (gpus_of pid ?db)) @ apply_metrics ms (drop (Suc k) (map gd_gpu (gpus_of pid ?db)))"
    "ms \<noteq> [] \<longrightarrow> Suc k + length ms \<le> length (gpus_of pid ?db)"
    by blast
  have upd: "gpus_of j ?db = update_by gd_id (gd_id r) ?f (gpus_of j db)" for j
    by (simp add: gpus_of_def filter_update_by)
  have other: "gpus_of j ?db = gpus_of j db" if "j \<noteq> pid" for j
  proof -
    from r have rG: "r \<in> set ?G" by (metis in_set_dropD list.set_intros(1))
    have "gd_id r \<notin> gd_id ` set (gpus_of j db)"
    proof
      assume "gd_id r \<in> gd_id ` set (gpus_of j db)"
      then obtain x where x: "x \<in> set (gpus_of j db)" "gd_id x = gd_id r" by auto
      have "distinct (map gd_id (rd_gpus db))" using Cons.prems(2) strict_sorted_iff by blast
      with x rG have "x = r" by (auto simp: gpus_of_def distinct_map inj_on_def)
      with x rG that show False by (simp add: gpus_of_def)
    qed
    then show ?thesis by (simp add: upd update_by_none)
  qed
  have own: "gpus_of pid ?db = take k ?G @ ?f r # qs"
    unfolding upd by (rule update_by_nth [OF G(1) r])
  have len: "k < length ?G" using r by (metis drop_eq_Nil linorder_not_less list.distinct(1))
  have "map gd_gpu (gpus_of pid db') = take k (map gd_gpu ?G) @ merge_metrics m (gd_gpu r) # apply_metrics ms (map gd_gpu qs)"
    using gs(5) len unfolding own by (simp add: take_map min_def)
  moreover have "drop k (map gd_gpu ?G) = gd_gpu r # map gd_gpu qs" by (simp add: drop_map r)
  ultimately show ?case
    using gs other len by (intro exI [of _ gs]) (auto simp: map_update_by upd)
qed

lemma pg_heartbeat_cases:
  assumes v: "valid_registry db" and a: "pg_update_provider_heartbeat env now i ms db = (r, db')"
  shows "case r of Some e \<Rightarrow> kept_map db db'
    | None \<Rightarrow> valid_registry db' \<and> (\<exists>old. registry_peek db i = Some old
        \<and> registry_peek db' = (registry_peek db)(i \<mapsto> beaten (pe_time_col env now) ms old))"
proof (cases r)
  case (Some e)
  with a v show ?thesis by (auto simp: pg_update_provider_heartbeat_def kept_map_def split: option.splits if_splits prod.splits)
next
  case None
  let ?db = "db\<lparr>rd_providers := update_by pr_id i (beaten_row env now) (rd_providers db)\<rparr>"
  from a None obtain row where row: "select_by pr_id i (rd_providers db) = Some row"
    and u: "update_metrics (\<lambda>k. pe_fail env 0 (RqSelectGpuId k)) (\<lambda>k. pe_fail env 0 (RqUpdateGpu k)) (pe_out_of_range env) i 0 ms ?db = (None, db')"
    by (auto simp: pg_update_provider_heartbeat_def split: option.splits if_splits prod.splits)
  have id: "pr_id (beaten_row env now row) = pr_id row" for row by (simp add: beaten_row_def)
  have vdb: "valid_registry ?db" using v id by (rule valid_update_rows)
  then have "sorted_wrt (<) (map gd_id (rd_gpus ?db))" by (simp add: valid_registry_def)
  from update_metrics_rows [OF u this] obtain gs where gs: "db' = ?db\<lparr>rd_gpus := gs\<rparr>" "map gd_id gs = map gd_id (rd_gpus ?db)"
    "map gd_provider_id gs = map gd_provider_id (rd_gpus ?db)" "\<And>j. j \<noteq> i \<Longrightarrow> gpus_of j db' = gpus_of j ?db"
    "map gd_gpu (gpus_of i db') = apply_metrics ms (map gd_gpu (gpus_of i db))" by auto
  have "gd_id ` set gs = gd_id ` set (rd_gpus db)" "gd_provider_id ` set gs = gd_provider_id ` set (rd_gpus db)"
    using gs(2,3) by (metis gs(2,3) list.set_map registry_db.ext_inject registry_db.surjective registry_db.update_convs(1))+
  then have "valid_registry db'"
    using vdb gs(2) unfolding valid_registry_def gs(1) by (simp add: ball_conj_distrib) (metis (no_types, lifting) image_iff)
  moreover have "registry_peek db' = (registry_peek db)(i \<mapsto> provider_of (beaten_row env now row) (gpus_of i db'))"
    using row gs(4) by (intro peek_update_rows) (simp_all add: gs(1) id)
  ultimately show ?thesis
    using None row gs(5) by (simp add: registry_peek_def beaten_def heartbeat_def provider_of_def beaten_row_def Let_def)
qed

lemma pg_heartbeat_many:
  assumes v: "valid_registry db" and a: "pg_update_provider_heartbeat env now i ms db = (None, db')"
    and p: "registry_peek db i = Some p"
  shows "length ms \<le> length (p_gpus p)"
proof -
  let ?db = "db\<lparr>rd_providers := update_by pr_id i (beaten_row env now) (rd_providers db)\<rparr>"
  from a have u: "update_metrics (\<lambda>k. pe_fail env 0 (RqSelectGpuId k)) (\<lambda>k. pe_fail env 0 (RqUpdateGpu k)) (pe_out_of_range env) i 0 ms ?db = (None, db')"
    by (auto simp: pg_update_provider_heartbeat_def split: option.splits if_splits prod.splits)
  have "sorted_wrt (<) (map gd_id (rd_gpus ?db))" using v by (simp add: valid_registry_def)
  from update_metrics_rows [OF u this] p show ?thesis
    by (cases "ms = []") (auto simp: registry_peek_def provider_of_def)
qed

section \<open>The interface\<close>

interpretation pg: provider_store valid_registry registry_peek "pg_add_provider env" "pg_get_provider env" "pg_update_provider env"
    "pg_delete_provider env" "pg_update_provider_status env" "pg_update_provider_heartbeat env" "pe_time_col env" True for env
  by unfold_locales
    (auto dest: pg_add_cases pg_get_cases pg_update_cases pg_delete_cases pg_status_cases pg_heartbeat_cases
      simp: kept_map_def)

end
