(* ===== verification/RegistryHandlers.thy ===== *)
theory RegistryHandlers
  imports RegistryFacts
begin

text \<open>
  The registry's HTTP handlers (\<open>internal/handlers/provider.go\<close>) over any store: the store's operations are
  arguments, to be the in-memory or the PostgreSQL ones. A body is \<open>None\<close> when it does not decode;
  \<open>parse\<close> is \<open>uuid.Parse\<close>. What the two stores answer to the same request, and what the scheduler gets from
  the list.
\<close>

section \<open>Requests and responses\<close>

datatype 'a api_response = ApiJson nat 'a | ApiMessage nat string | ApiError nat string

fun api_status :: "'a api_response \<Rightarrow> nat" where
  "api_status (ApiJson n x) = n"
| "api_status (ApiMessage n m) = n"
| "api_status (ApiError n m) = n"

record register_request =
  rr_owner_id :: string
  rr_name :: string
  rr_hostname :: string
  rr_ip_address :: string
  rr_gpus :: "registry_gpu list"
  rr_location :: string
  rr_metadata :: "json_map option"

text \<open>\<open>fmt.Sscanf(s, "%d", &v)\<close> into 64 unsigned bits: blanks are skipped, a line break is an error, the rest after the digits is ignored.\<close>

definition is_digit :: "char \<Rightarrow> bool" where
  "is_digit c \<longleftrightarrow> of_char c \<in> {48::nat..57}"

fun skip_blanks :: "string \<Rightarrow> string option" where
  "skip_blanks [] = Some []"
| "skip_blanks (c # s) =
     (if of_char c = (10 :: nat) \<or> (of_char c = (13 :: nat) \<and> s \<noteq> [] \<and> of_char (hd s) = (10 :: nat)) then None
      else if is_space c then skip_blanks s else Some (c # s))"

definition scan_u64 :: "string \<Rightarrow> u64 option" where
  "scan_u64 s =
     (case skip_blanks s of None \<Rightarrow> None | Some t \<Rightarrow>
       (let ds = takeWhile is_digit t; n = foldl (\<lambda>a c. 10 * a + (of_char c - 48)) 0 ds in
        if ds = [] \<or> n \<ge> 2 ^ 64 then None else Some (of_nat n)))"

section \<open>Handlers\<close>

definition handle_register ::
    "(provider \<Rightarrow> 's \<Rightarrow> reg_error option \<times> 's) \<Rightarrow> uuid \<Rightarrow> time \<Rightarrow> register_request option \<Rightarrow> 's \<Rightarrow> provider api_response \<times> 's" where
  "handle_register add new_id now body s =
     (case body of None \<Rightarrow> (ApiError 400 ''Invalid request payload'', s)
      | Some r \<Rightarrow>
          if rr_name r = [] \<or> rr_owner_id r = [] \<or> length (rr_gpus r) = 0
          then (ApiError 400 ''Missing required fields: owner_id, name, gpus'', s)
          else (let p = new_provider new_id now (rr_owner_id r) (rr_name r) (rr_hostname r) (rr_ip_address r) (rr_location r)
                          (rr_gpus r) (rr_metadata r) in
            case add p s of
              (Some e, s') \<Rightarrow> (if e = ErrProviderAlreadyExists then ApiError 409 (reg_error_text e)
                               else ApiError 500 ''Failed to register provider'', s')
            | (None, s') \<Rightarrow> (ApiJson 201 p, s')))"

definition list_filters :: "(string \<Rightarrow> string) \<Rightarrow> filters" where
  "list_filters query =
     (\<lambda>k. if k = ''status'' \<and> query ''status'' \<noteq> [] then Some (FilterString (query ''status''))
          else if k = ''gpu_model'' \<and> query ''gpu_model'' \<noteq> [] then Some (FilterString (query ''gpu_model''))
          else if k = ''min_vram'' \<and> query ''min_vram'' \<noteq> []
          then (case scan_u64 (query ''min_vram'') of Some v \<Rightarrow> if v > 0 then Some (FilterUint64 v) else None | None \<Rightarrow> None)
          else if k = ''architecture'' \<and> query ''architecture'' \<noteq> [] then Some (FilterString (query ''architecture''))
          else if k = ''healthy_only'' \<and> query ''healthy_only'' = ''true'' then Some (FilterBool True)
          else None)"

definition handle_list :: "(filters \<Rightarrow> 's \<Rightarrow> reg_error + provider list) \<Rightarrow> (string \<Rightarrow> string) \<Rightarrow> 's \<Rightarrow> provider list api_response" where
  "handle_list lst query s =
     (case lst (list_filters query) s of Inl e \<Rightarrow> ApiError 500 ''Failed to retrieve providers'' | Inr ps \<Rightarrow> ApiJson 200 ps)"

definition handle_get ::
    "(uuid \<Rightarrow> 's \<Rightarrow> reg_error + provider) \<Rightarrow> (string \<Rightarrow> string + uuid) \<Rightarrow> string \<Rightarrow> 's \<Rightarrow> provider api_response" where
  "handle_get get parse txt s =
     (case parse txt of Inl e \<Rightarrow> ApiError 400 ''Invalid provider ID format''
      | Inr i \<Rightarrow>
          (case get i s of
             Inl e \<Rightarrow> if e = ErrProviderNotFound then ApiError 404 (reg_error_text e) else ApiError 500 ''Failed to retrieve provider''
           | Inr p \<Rightarrow> ApiJson 200 p))"

definition handle_update ::
    "(uuid \<Rightarrow> provider \<Rightarrow> 's \<Rightarrow> reg_error option \<times> 's) \<Rightarrow> (string \<Rightarrow> string + uuid) \<Rightarrow> time \<Rightarrow> string \<Rightarrow> provider option \<Rightarrow> 's
     \<Rightarrow> provider api_response \<times> 's" where
  "handle_update update parse now txt body s =
     (case parse txt of Inl e \<Rightarrow> (ApiError 400 ''Invalid provider ID format'', s)
      | Inr i \<Rightarrow>
      case body of None \<Rightarrow> (ApiError 400 ''Invalid request payload'', s)
      | Some b \<Rightarrow>
          (let p = b\<lparr>p_id := i, p_last_seen_at := now\<rparr> in
           case update i p s of
             (Some e, s') \<Rightarrow> (if e = ErrProviderNotFound then ApiError 404 (reg_error_text e)
                              else ApiError 500 ''Failed to update provider'', s')
           | (None, s') \<Rightarrow> (ApiJson 200 p, s')))"

definition handle_status ::
    "(time \<Rightarrow> uuid \<Rightarrow> provider_status \<Rightarrow> 's \<Rightarrow> reg_error option \<times> 's) \<Rightarrow> (string \<Rightarrow> string + uuid) \<Rightarrow> time \<Rightarrow> string
     \<Rightarrow> provider_status option \<Rightarrow> 's \<Rightarrow> unit api_response \<times> 's" where
  "handle_status set_status parse now txt body s =
     (case parse txt of Inl e \<Rightarrow> (ApiError 400 ''Invalid provider ID format'', s)
      | Inr i \<Rightarrow>
      case body of None \<Rightarrow> (ApiError 400 ''Invalid request payload'', s)
      | Some st \<Rightarrow>
          (case set_status now i st s of
             (Some e, s') \<Rightarrow> (if e = ErrProviderNotFound then ApiError 404 (reg_error_text e)
                              else ApiError 500 ''Failed to update provider status'', s')
           | (None, s') \<Rightarrow> (ApiMessage 200 ''Provider status updated'', s')))"

text \<open>\<open>len\<close> is the request's \<open>ContentLength\<close>: without one the body is not read.\<close>

definition handle_heartbeat ::
    "(time \<Rightarrow> uuid \<Rightarrow> registry_gpu list \<Rightarrow> 's \<Rightarrow> reg_error option \<times> 's) \<Rightarrow> (string \<Rightarrow> string + uuid) \<Rightarrow> time \<Rightarrow> string \<Rightarrow> int
     \<Rightarrow> registry_gpu list option \<Rightarrow> 's \<Rightarrow> unit api_response \<times> 's" where
  "handle_heartbeat beat parse now txt len body s =
     (case parse txt of Inl e \<Rightarrow> (ApiError 400 ''Invalid provider ID format'', s)
      | Inr i \<Rightarrow>
      case (if len > 0 then body else Some []) of None \<Rightarrow> (ApiError 400 ''Invalid request payload'', s)
      | Some ms \<Rightarrow>
          (case beat now i ms s of
             (Some e, s') \<Rightarrow> (if e = ErrProviderNotFound then ApiError 404 (reg_error_text e)
                              else ApiError 500 ''Failed to process heartbeat'', s')
           | (None, s') \<Rightarrow> (ApiMessage 200 ''Heartbeat received'', s')))"

definition handle_deregister ::
    "(uuid \<Rightarrow> 's \<Rightarrow> reg_error option \<times> 's) \<Rightarrow> (string \<Rightarrow> string + uuid) \<Rightarrow> string \<Rightarrow> 's \<Rightarrow> unit api_response \<times> 's" where
  "handle_deregister remove parse txt s =
     (case parse txt of Inl e \<Rightarrow> (ApiError 400 ''Invalid provider ID format'', s)
      | Inr i \<Rightarrow>
          (case remove i s of
             (Some e, s') \<Rightarrow> (if e = ErrProviderNotFound then ApiError 404 (reg_error_text e)
                              else ApiError 500 ''Failed to deregister provider'', s')
           | (None, s') \<Rightarrow> (ApiMessage 200 ''Provider deregistered successfully'', s')))"

section \<open>Sequences of requests\<close>

text \<open>A request that writes, with what is the request's own: the identifier drawn and the clock read.\<close>

datatype registry_request =
    Register uuid time "register_request option"
  | Replace time string "provider option"
  | ChangeStatus time string "provider_status option"
  | Beat time string int "registry_gpu list option"
  | Deregister string

fun registry_step ::
    "(provider \<Rightarrow> 's \<Rightarrow> reg_error option \<times> 's) \<Rightarrow> (uuid \<Rightarrow> provider \<Rightarrow> 's \<Rightarrow> reg_error option \<times> 's)
     \<Rightarrow> (uuid \<Rightarrow> 's \<Rightarrow> reg_error option \<times> 's) \<Rightarrow> (time \<Rightarrow> uuid \<Rightarrow> provider_status \<Rightarrow> 's \<Rightarrow> reg_error option \<times> 's)
     \<Rightarrow> (time \<Rightarrow> uuid \<Rightarrow> registry_gpu list \<Rightarrow> 's \<Rightarrow> reg_error option \<times> 's) \<Rightarrow> (string \<Rightarrow> string + uuid)
     \<Rightarrow> registry_request \<Rightarrow> 's \<Rightarrow> nat \<times> 's" where
  "registry_step add update remove set_status beat parse (Register i now body) s =
     (let (r, s') = handle_register add i now body s in (api_status r, s'))"
| "registry_step add update remove set_status beat parse (Replace now txt body) s =
     (let (r, s') = handle_update update parse now txt body s in (api_status r, s'))"
| "registry_step add update remove set_status beat parse (ChangeStatus now txt body) s =
     (let (r, s') = handle_status set_status parse now txt body s in (api_status r, s'))"
| "registry_step add update remove set_status beat parse (Beat now txt len body) s =
     (let (r, s') = handle_heartbeat beat parse now txt len body s in (api_status r, s'))"
| "registry_step add update remove set_status beat parse (Deregister txt) s =
     (let (r, s') = handle_deregister remove parse txt s in (api_status r, s'))"

definition registry_answer ::
    "(string \<Rightarrow> string + uuid) \<Rightarrow> provider_env \<Rightarrow> registry_request \<Rightarrow> registry_db \<Rightarrow> nat \<times> registry_db" where
  "registry_answer parse env =
     registry_step (pg_add_provider env) (pg_update_provider env) (pg_delete_provider env) (pg_update_provider_status env)
       (pg_update_provider_heartbeat env) parse"

fun registry_run ::
    "(string \<Rightarrow> string + uuid) \<Rightarrow> (provider_env \<times> registry_request) list \<Rightarrow> registry_db \<Rightarrow> nat list \<times> registry_db" where
  "registry_run parse [] db = ([], db)"
| "registry_run parse ((env, r) # rs) db =
     (let (code, db') = registry_answer parse env r db; (codes, db'') = registry_run parse rs db' in (code # codes, db''))"

definition empty_registry :: registry_db where
  "empty_registry = \<lparr>rd_providers = [], rd_gpus = [], rd_next_gpu = 1\<rparr>"

text \<open>What a request answered with success does to the map of the providers.\<close>

fun map_step ::
    "(time \<Rightarrow> time) \<Rightarrow> bool \<Rightarrow> (string \<Rightarrow> string + uuid) \<Rightarrow> registry_request \<Rightarrow> (uuid \<rightharpoonup> provider) \<Rightarrow> (uuid \<rightharpoonup> provider)" where
  "map_step seen keeps parse (Register i now (Some r)) m =
     m(i \<mapsto> new_provider i (seen now) (rr_owner_id r) (rr_name r) (rr_hostname r) (rr_ip_address r) (rr_location r) (rr_gpus r) (rr_metadata r))"
| "map_step seen keeps parse (Replace now txt (Some b)) m =
     (case parse txt of Inr i \<Rightarrow> m(i \<mapsto> b\<lparr>p_id := i, p_last_seen_at := seen now,
        p_registered_at := (if keeps then p_registered_at (the (m i)) else seen (p_registered_at b))\<rparr>) | _ \<Rightarrow> m)"
| "map_step seen keeps parse (ChangeStatus now txt (Some st)) m =
     (case parse txt of Inr i \<Rightarrow> m(i \<mapsto> update_status (seen now) st (the (m i))) | _ \<Rightarrow> m)"
| "map_step seen keeps parse (Beat now txt len body) m =
     (case parse txt of Inr i \<Rightarrow> m(i \<mapsto> beaten (seen now) (if len > 0 then the body else []) (the (m i))) | _ \<Rightarrow> m)"
| "map_step seen keeps parse (Deregister txt) m = (case parse txt of Inr i \<Rightarrow> m(i := None) | _ \<Rightarrow> m)"
| "map_step seen keeps parse r m = m"

fun map_run ::
    "(string \<Rightarrow> string + uuid) \<Rightarrow> (provider_env \<times> registry_request) list \<Rightarrow> nat list \<Rightarrow> (uuid \<rightharpoonup> provider) \<Rightarrow> (uuid \<rightharpoonup> provider)" where
  "map_run parse ((env, r) # rs) (code # codes) m =
     map_run parse rs codes (if code < 300 then map_step (pe_time_col env) True parse r m else m)"
| "map_run parse rs codes m = m"

context provider_store begin

lemma add_any: "valid s \<Longrightarrow> add p s = (e, s') \<Longrightarrow>
    valid s' \<and> peek s' = (if e = None then (peek s)(p_id p \<mapsto> at_precision seen p) else peek s)"
  by (cases e) (use add_ok [of s p s'] add_err [of s p _ s'] in auto)

lemma update_any: "valid s \<Longrightarrow> update i p s = (e, s') \<Longrightarrow>
    valid s' \<and> peek s' = (if e = None then (peek s)(i \<mapsto> replacement seen keeps (the (peek s i)) (p\<lparr>p_id := i\<rparr>)) else peek s)"
  by (cases e) (use update_ok [of s i p s'] update_err [of s i p _ s'] in auto)

lemma status_any: "valid s \<Longrightarrow> set_status now i st s = (e, s') \<Longrightarrow>
    valid s' \<and> peek s' = (if e = None then (peek s)(i \<mapsto> update_status (seen now) st (the (peek s i))) else peek s)"
  by (cases e) (use status_ok [of s now i st s'] status_err [of s now i st _ s'] in auto)

lemma beat_any: "valid s \<Longrightarrow> beat now i ms s = (e, s') \<Longrightarrow>
    valid s' \<and> peek s' = (if e = None then (peek s)(i \<mapsto> beaten (seen now) ms (the (peek s i))) else peek s)"
  by (cases e) (use beat_ok [of s now i ms s'] beat_err [of s now i ms _ s'] in auto)

lemma remove_any: "valid s \<Longrightarrow> remove i s = (e, s') \<Longrightarrow>
    valid s' \<and> peek s' = (if e = None then (peek s)(i := None) else peek s)"
  by (cases e) (use remove_ok [of s i s'] remove_err [of s i _ s'] in auto)

lemma step_map:
  assumes v: "valid s" and step: "registry_step add update remove set_status beat parse r s = (code, s')"
  shows "valid s' \<and> peek s' = (if code < 300 then map_step seen keeps parse r (peek s) else peek s)"
proof (cases r)
  case (Register i now body)
  show ?thesis
  proof (cases body)
    case (Some rq)
    let ?p = "new_provider i now (rr_owner_id rq) (rr_name rq) (rr_hostname rq) (rr_ip_address rq) (rr_location rq) (rr_gpus rq) (rr_metadata rq)"
    obtain e s1 where a: "add ?p s = (e, s1)" by fastforce
    have "at_precision seen ?p = new_provider i (seen now) (rr_owner_id rq) (rr_name rq) (rr_hostname rq) (rr_ip_address rq)
        (rr_location rq) (rr_gpus rq) (rr_metadata rq)" "p_id ?p = i"
      by (simp_all add: at_precision_def new_provider_def)
    with add_any [OF v a] show ?thesis
      using v step Register Some a by (cases e) (auto simp: handle_register_def Let_def split: if_splits)
  next
    case None
    with v step Register show ?thesis by (simp add: handle_register_def)
  qed
next
  case (Replace now raw body)
  show ?thesis
  proof (cases "parse raw = Inr (projr (parse raw)) \<and> body \<noteq> None")
    case True
    then obtain i b where ib: "parse raw = Inr i" "body = Some b" by (metis not_Some_eq)
    let ?p = "b\<lparr>p_id := i, p_last_seen_at := now\<rparr>"
    obtain e s1 where a: "update i ?p s = (e, s1)" by fastforce
    with update_any [OF v a] show ?thesis
      using v step Replace ib by (cases e) (auto simp: handle_update_def Let_def replacement_def split: if_splits)
  next
    case False
    with v step Replace show ?thesis by (cases "parse raw"; cases body) (simp_all add: handle_update_def)
  qed
next
  case (ChangeStatus now raw body)
  show ?thesis
  proof (cases "parse raw = Inr (projr (parse raw)) \<and> body \<noteq> None")
    case True
    then obtain i st where ib: "parse raw = Inr i" "body = Some st" by (metis not_Some_eq)
    obtain e s1 where a: "set_status now i st s = (e, s1)" by fastforce
    with status_any [OF v a] show ?thesis
      using v step ChangeStatus ib by (cases e) (auto simp: handle_status_def split: if_splits)
  next
    case False
    with v step ChangeStatus show ?thesis by (cases "parse raw"; cases body) (simp_all add: handle_status_def)
  qed
next
  case (Beat now raw len body)
  show ?thesis
  proof (cases "parse raw = Inr (projr (parse raw)) \<and> (len > 0 \<longrightarrow> body \<noteq> None)")
    case True
    then obtain i where i: "parse raw = Inr i" by blast
    let ?ms = "if len > 0 then the body else []"
    have b: "(if len > 0 then body else Some []) = Some ?ms" using True by auto
    obtain e s1 where a: "beat now i ?ms s = (e, s1)" by fastforce
    with beat_any [OF v a] show ?thesis
      using v step Beat i b by (cases e) (auto simp: handle_heartbeat_def split: if_splits)
  next
    case False
    with v step Beat show ?thesis by (cases "parse raw"; cases body) (auto simp: handle_heartbeat_def)
  qed
next
  case (Deregister raw)
  show ?thesis
  proof (cases "parse raw")
    case (Inr i)
    obtain e s1 where a: "remove i s = (e, s1)" by fastforce
    with remove_any [OF v a] show ?thesis
      using v step Deregister Inr by (cases e) (auto simp: handle_deregister_def split: if_splits)
  next
    case (Inl e)
    with v step Deregister show ?thesis by (simp add: handle_deregister_def)
  qed
qed

end

end
