(* ===== verification/RegistryClaims.thy ===== *)
theory RegistryClaims
  imports RegistryHandlers
begin

text \<open>
  What the registry promises with its PostgreSQL store and where the two stores differ, and what the scheduler makes
  of the list it gets. Witnesses evaluate a small registry.
\<close>

section \<open>The stores as a map\<close>

lemma valid_empty_registry [simp]: "valid_registry empty_registry" "registry_peek empty_registry = Map.empty"
  by (auto simp: valid_registry_def empty_registry_def registry_peek_def)

lemma registry_run_map:
  assumes "valid_registry db" "registry_run parse rs db = (codes, db')"
  shows "valid_registry db' \<and> registry_peek db' = map_run parse rs codes (registry_peek db)"
  using assms
proof (induction rs arbitrary: db codes)
  case (Cons r rs)
  obtain env rq where r: "r = (env, rq)" by fastforce
  obtain code db1 where s: "registry_answer parse env rq db = (code, db1)" by fastforce
  obtain codes' where c: "registry_run parse rs db1 = (codes', db')" "codes = code # codes'"
    using Cons.prems(2) by (auto simp: r s split: prod.splits)
  have one: "valid_registry db1 \<and> registry_peek db1 =
      (if code < 300 then map_step (pe_time_col env) True parse rq (registry_peek db) else registry_peek db)"
    using pg.step_map [OF Cons.prems(1)] s by (simp add: registry_answer_def)
  with Cons.IH [OF _ c(1)] show ?case by (simp add: r c(2))
qed simp

text \<open>C17. Over any sequence of requests, each with its own failures, the registry's PostgreSQL store keeps its keys and references
  and holds exactly the map of providers that the successfully answered requests describe; a request
  answered with an error changes nothing.\<close>

theorem registry_refines_map:
  assumes "registry_run parse rs empty_registry = (codes, db')"
  shows "valid_registry db' \<and> registry_peek db' = map_run parse rs codes Map.empty"
  using registry_run_map [OF valid_empty_registry(1) assms] by simp

section \<open>Wrapped errors\<close>

lemma retry_wraps:
  "retry_loop scale cfg operation cancelled f left attempt delay s = (Inl e, sleeps, s') \<Longrightarrow>
     e \<notin> {ErrProviderNotFound, ErrProviderAlreadyExists}"
proof (induction left arbitrary: attempt delay s sleeps)
  case (Suc left)
  then show ?case
    by (auto simp: Let_def wrap_error_def split: prod.splits sum.splits if_splits option.splits)
qed auto

lemma pg_errors_wrapped:
  "pg_add_provider env p db = (Some e, db') \<Longrightarrow> e \<noteq> ErrProviderAlreadyExists"
  "pg_get_provider env i db = Inl e \<Longrightarrow> e \<noteq> ErrProviderNotFound"
proof -
  assume "pg_get_provider env i db = Inl e"
  then obtain sleeps s' where "with_retry (pe_scale env) default_retry_config ''get provider'' (pe_cancelled env) (get_provider_query env i) db
      = (Inl e, sleeps, s')" unfolding pg_get_provider_def by (metis prod.exhaust_sel)
  from retry_wraps [OF this [unfolded with_retry_def]] show "e \<noteq> ErrProviderNotFound" by simp
next
  assume a: "pg_add_provider env p db = (Some e, db')"
  obtain res sleeps s' where w: "with_retry (pe_scale env) default_retry_config ''add provider'' (pe_cancelled env) (add_provider_tx env p) db
      = (res, sleeps, s')" by (rule prod_cases3)
  with a have "res = Inl e" by (cases res) (auto simp: pg_add_provider_def outcome_def)
  with retry_wraps [OF w [unfolded with_retry_def, unfolded \<open>res = Inl e\<close>]] show "e \<noteq> ErrProviderAlreadyExists" by simp
qed

text \<open>With the PostgreSQL store the registry never answers that a provider is not found or already exists when one is read or
  registered: the sentinel is compared by identity and arrives wrapped, so a missing provider is answered
  with 500. With the memory store the answers are 404 and 409.\<close>

theorem registry_sentinels_wrapped:
  "api_status (handle_get (pg_get_provider env) parse raw db) \<in> {200, 400, 500}
   \<and> (parse raw = Inr i \<and> registry_peek db i = None \<longrightarrow> api_status (handle_get (pg_get_provider env) parse raw db) = 500)
   \<and> api_status (fst (handle_register (pg_add_provider env) new_id now body db)) \<in> {201, 400, 500}
   \<and> (parse raw = Inr i \<and> m i = None \<longrightarrow> api_status (handle_get mem_get_provider parse raw m) = 404)
   \<and> (m new_id \<noteq> None \<longrightarrow> api_status (fst (handle_register mem_add_provider new_id now body m)) \<in> {400, 409})"
proof (intro conjI impI)
  show g: "api_status (handle_get (pg_get_provider env) parse raw db) \<in> {200, 400, 500}"
    by (auto simp: handle_get_def dest: pg_errors_wrapped split: sum.splits)
  show "api_status (handle_get (pg_get_provider env) parse raw db) = 500" if "parse raw = Inr i \<and> registry_peek db i = None"
    using that g pg_get_cases [of env i db] by (cases "pg_get_provider env i db") (auto simp: handle_get_def dest: pg_errors_wrapped)
  show "api_status (fst (handle_register (pg_add_provider env) new_id now body db)) \<in> {201, 400, 500}"
    by (auto simp: handle_register_def Let_def dest: pg_errors_wrapped split: option.splits prod.splits)
  show "api_status (handle_get mem_get_provider parse raw m) = 404" if "parse raw = Inr i \<and> m i = None"
    using that by (simp add: handle_get_def mem_get_provider_def)
  show "api_status (fst (handle_register mem_add_provider new_id now body m)) \<in> {400, 409}" if "m new_id \<noteq> None"
    using that by (auto simp: handle_register_def mem_add_provider_def new_provider_def Let_def split: option.splits)
qed

section \<open>The list\<close>

definition plain_pattern :: "string \<Rightarrow> bool" where
  "plain_pattern p \<longleftrightarrow> CHR ''%'' \<notin> set p \<and> CHR ''_'' \<notin> set p \<and> char_of (92 :: nat) \<notin> set p"

lemma sql_like_plain: "plain_pattern m \<Longrightarrow> sql_like s (m @ ''%'') \<longleftrightarrow> prefix m s"
proof (induction m arbitrary: s)
  case Nil
  have "sql_like s ''%''" for s by (induction s) simp_all
  then show ?case by simp
next
  case (Cons c m)
  from Cons.prems have c: "c \<noteq> CHR ''%''" "c \<noteq> CHR ''_''" "c \<noteq> char_of (92 :: nat)" "plain_pattern m"
    by (auto simp: plain_pattern_def)
  with Cons.IH [OF c(4)] show ?case
    by (cases s) auto
qed

lemma sql_like_any: "sql_like s (CHR ''%'' # p) \<longleftrightarrow> (\<exists>u v. s = u @ v \<and> sql_like v p)"
proof (induction s)
  case (Cons x s)
  show ?case
  proof
    assume "sql_like (x # s) (CHR ''%'' # p)"
    then have "sql_like (x # s) p \<or> sql_like s (CHR ''%'' # p)" by simp
    with Cons show "\<exists>u v. x # s = u @ v \<and> sql_like v p" by (metis append_Cons append_Nil)
  next
    assume "\<exists>u v. x # s = u @ v \<and> sql_like v p"
    then obtain u v where "x # s = u @ v" "sql_like v p" by blast
    with Cons show "sql_like (x # s) (CHR ''%'' # p)" by (cases u) auto
  qed
qed simp

lemma like_model_plain: "plain_pattern m \<Longrightarrow> like_model t m \<longleftrightarrow> str_contains (to_lower t) (to_lower m)"
proof -
  assume m: "plain_pattern m"
  have keep: "lower_char c = c" if "of_char (lower_char c) \<notin> {97::nat..122}" for c
    using that by (auto simp: lower_char_def split: if_splits)
  have "x \<in> set m" if "x \<in> set (to_lower m)" "of_char x \<notin> {97::nat..122}" for x
  proof -
    from that(1) obtain c where "c \<in> set m" "x = lower_char c" by (auto simp: to_lower_def)
    with keep [of c] that(2) show ?thesis by simp
  qed
  then have "plain_pattern (to_lower m)"
    using m unfolding plain_pattern_def by fastforce
  moreover have "to_lower (''%'' @ m @ ''%'') = CHR ''%'' # to_lower m @ ''%''"
    by (simp add: to_lower_def lower_char_def)
  ultimately show ?thesis
    by (simp add: like_model_def sql_like_any sql_like_plain str_contains_iff sublist_def prefix_def del: sql_like.simps) blast
qed

lemma store_retry_ok: "store_retry_loop cnt delay expired cancelled f left attempt prev = (Inr x, sleeps) \<Longrightarrow> \<exists>n. f n = Inr x"
  by (induction left arbitrary: attempt prev sleeps) (auto simp: Let_def split: sum.splits if_splits option.splits prod.splits)

definition plain_filters :: "filters \<Rightarrow> bool" where
  "plain_filters fs \<longleftrightarrow> (\<forall>k m. string_filter fs k = Some m \<longrightarrow> k = ''status'' \<or> plain_pattern m)"

lemma list_condition_passes:
  assumes "plain_filters fs"
  shows "list_condition fs db row \<longleftrightarrow> passes_filters (provider_of row (gpus_of (pr_id row) db)) fs"
proof -
  have plain: "plain_pattern m" if "string_filter fs k = Some m" "k \<noteq> ''status''" for k m
    using assms that by (auto simp: plain_filters_def)
  have like: "(case string_filter fs k of Some m \<Rightarrow> \<exists>r \<in> set gs. like_model (t (gd_gpu r)) m | None \<Rightarrow> True) \<longleftrightarrow>
      \<not> (case string_filter fs k of Some m \<Rightarrow> \<not> (\<exists>g \<in> set (map gd_gpu gs). str_contains (to_lower (t g)) (to_lower m)) | None \<Rightarrow> False)"
    if "k \<noteq> ''status''" for k gs t
    using plain [OF _ that] by (auto simp: like_model_plain split: option.splits)
  have vram: "(case vram_filter fs of Some v \<Rightarrow> \<exists>r \<in> set gs. rg_vram (gd_gpu r) \<ge> v | None \<Rightarrow> True) \<longleftrightarrow>
      \<not> (case vram_filter fs of Some v \<Rightarrow> \<not> (\<exists>g \<in> set (map gd_gpu gs). rg_vram g \<ge> v) | None \<Rightarrow> False)" for gs
    by (auto split: option.splits)
  have status: "(case string_filter fs ''status'' of Some s \<Rightarrow> provider_status_text st = s | None \<Rightarrow> True) \<longleftrightarrow>
      \<not> (case string_filter fs ''status'' of Some s \<Rightarrow> provider_status_text st \<noteq> s | None \<Rightarrow> False)" for st
    by (auto split: option.splits)
  have row: "p_gpus (provider_of row gs) = map gd_gpu gs" "p_status (provider_of row gs) = pr_status row" for gs
    by (simp_all add: provider_of_def)
  have "list_condition fs db row \<longleftrightarrow> \<not> A \<and> \<not> C \<and> \<not> B \<and> \<not> D \<and> (healthy_filter fs \<longrightarrow> \<not> E)
      \<Longrightarrow> passes_filters (provider_of row (gpus_of (pr_id row) db)) fs \<longleftrightarrow>
        (if A then False else if B then False else if C then False else if D then False else if healthy_filter fs \<and> E then False else True)
      \<Longrightarrow> ?thesis" for A B C D E
    by auto
  then show ?thesis
    unfolding list_condition_def passes_filters_def status vram like [of "''gpu_model''", simplified]
      like [of "''architecture''", simplified] row
    by simp
qed

lemma registry_list_listed:
  assumes "valid_registry db" "pg_list_providers env fs db = Inr ps" "plain_filters fs"
  shows "distinct (map p_id ps) \<and> p_id ` set ps = {i. \<exists>q. registry_peek db i = Some q \<and> passes_filters q fs}
    \<and> (\<forall>p \<in> set ps. \<exists>q. registry_peek db (p_id p) = Some q
        \<and> same_provider p (q\<lparr>p_ip_address := [], p_metadata := Some (case p_metadata q of None \<Rightarrow> Map.empty | Some m \<Rightarrow> m)\<rparr>))"
proof -
  from assms(2) obtain sleeps where "store_retry_loop 3 second (pe_expired env) (pe_cancelled env) (list_query env fs db) 3 1 None = (Inr ps, sleeps)"
    unfolding pg_list_providers_def store_with_retry_def by (metis prod.exhaust_sel)
  then obtain n where "list_query env fs db n = Inr ps" by (blast dest: store_retry_ok)
  then have ps: "ps = map (listed_row env db) (sort_key (pe_name_rank env) (filter (list_condition fs db) (rd_providers db)))"
    by (auto simp: list_query_def split: option.splits if_splits)
  let ?rows = "filter (list_condition fs db) (rd_providers db)"
  have id: "p_id (listed_row env db row) = pr_id row" for row by (simp add: listed_row_def provider_of_def Let_def)
  have dist: "distinct (map pr_id (rd_providers db))" using assms(1) by (simp add: valid_registry_def)
  have peek: "registry_peek db (pr_id row) = Some (provider_of row (gpus_of (pr_id row) db))" if "row \<in> set (rd_providers db)" for row
    using select_by_unique [OF dist that] by (simp add: registry_peek_def)
  have "mset (map p_id ps) = mset (map pr_id ?rows)" by (simp add: ps id comp_def)
  then have "distinct (map p_id ps)"
    using distinct_map_filter [OF dist] mset_eq_imp_distinct_iff by blast
  moreover have "p_id ` set ps = {i. \<exists>q. registry_peek db i = Some q \<and> passes_filters q fs}"
  proof (intro set_eqI iffI)
    fix i assume "i \<in> p_id ` set ps"
    then obtain row where "row \<in> set (rd_providers db)" "list_condition fs db row" "i = pr_id row" by (auto simp: ps id)
    with peek list_condition_passes [OF assms(3)] show "i \<in> {i. \<exists>q. registry_peek db i = Some q \<and> passes_filters q fs}" by auto
  next
    fix i assume "i \<in> {i. \<exists>q. registry_peek db i = Some q \<and> passes_filters q fs}"
    then obtain row where "select_by pr_id i (rd_providers db) = Some row" "passes_filters (provider_of row (gpus_of i db)) fs"
      by (auto simp: registry_peek_def)
    with list_condition_passes [OF assms(3)] have "row \<in> set ?rows" "pr_id row = i" by (auto dest: select_by_SomeD)
    then show "i \<in> p_id ` set ps" by (force simp: ps id)
  qed
  moreover have "\<exists>q. registry_peek db (p_id p) = Some q
        \<and> same_provider p (q\<lparr>p_ip_address := [], p_metadata := Some (case p_metadata q of None \<Rightarrow> Map.empty | Some m \<Rightarrow> m)\<rparr>)" if "p \<in> set ps" for p
  proof -
    from that obtain row where row: "row \<in> set (rd_providers db)" "p = listed_row env db row" by (auto simp: ps)
    then show ?thesis
      by (simp add: id peek same_provider_def listed_row_def provider_of_def Let_def split: option.split)
  qed
  ultimately show ?thesis by blast
qed

text \<open>C18. On a database that the registry's own writes keep valid, and for filters whose model and architecture hold none of
  the characters percent sign, underscore and backslash, which LIKE gives a meaning of their own, a list the PostgreSQL store
  returns names exactly the providers that pass the memory store's filters, each once; each is the stored provider, but with an
  empty address, an empty map for absent metadata, and its GPUs in any order.\<close>

theorem registry_list_exact:
  assumes "valid_registry db" "pg_list_providers env fs db = Inr ps" "plain_filters fs"
  shows "distinct (map p_id ps) \<and> p_id ` set ps = {i. \<exists>q. registry_peek db i = Some q \<and> passes_filters q fs}
    \<and> (\<forall>p \<in> set ps. \<exists>q. registry_peek db (p_id p) = Some q
        \<and> same_provider p (q\<lparr>p_ip_address := [], p_metadata := Some (case p_metadata q of None \<Rightarrow> Map.empty | Some m \<Rightarrow> m)\<rparr>))"
  using assms by (rule registry_list_listed)

section \<open>Heartbeats\<close>

text \<open>A heartbeat the PostgreSQL store accepts brings an offline or failed provider back to idle, records the time and gives the
  first GPUs in order of registration their metrics; one with more metrics than GPUs is refused and
  changes nothing, where the memory store accepts it and ignores the rest.\<close>

theorem heartbeat_stores_differ:
  assumes "valid_registry db" "registry_peek db i = Some p" "pg_update_provider_heartbeat env now i ms db = (r, db')"
  shows "(r = None \<longrightarrow> registry_peek db' i = Some (p\<lparr>p_last_seen_at := pe_time_col env now,
        p_status := (if p_status p \<in> {StatusOffline, StatusError} then StatusIdle else p_status p),
        p_gpus := map2 merge_metrics ms (take (length ms) (p_gpus p)) @ drop (length ms) (p_gpus p)\<rparr>))
    \<and> (length (p_gpus p) < length ms \<longrightarrow> r \<noteq> None) \<and> (r \<noteq> None \<longrightarrow> registry_peek db' = registry_peek db)
    \<and> (\<forall>m q. m i = Some q \<longrightarrow> mem_update_provider_heartbeat now i ms m = (None, m(i \<mapsto> beaten now ms q)))"
proof (intro conjI impI allI)
  have ap: "apply_metrics ms gs = map2 merge_metrics ms (take (length ms) gs) @ drop (length ms) gs" for gs
    by (induction ms gs rule: apply_metrics.induct) auto
  from pg_heartbeat_cases [OF assms(1,3)] assms(2)
  show "registry_peek db' i = Some (p\<lparr>p_last_seen_at := pe_time_col env now,
        p_status := (if p_status p \<in> {StatusOffline, StatusError} then StatusIdle else p_status p),
        p_gpus := map2 merge_metrics ms (take (length ms) (p_gpus p)) @ drop (length ms) (p_gpus p)\<rparr>)" if "r = None"
    using that by (auto simp: beaten_def heartbeat_def Let_def ap)
  show "registry_peek db' = registry_peek db" if "r \<noteq> None"
    using pg_heartbeat_cases [OF assms(1,3)] that by (auto simp: kept_map_def)
  show "r \<noteq> None" if "length (p_gpus p) < length ms"
    using pg_heartbeat_many [OF assms(1) _ assms(2), of env now ms db'] assms(3) that by auto
  show "mem_update_provider_heartbeat now i ms m = (None, m(i \<mapsto> beaten now ms q))" if "m i = Some q" for m q
    using that by (auto simp: mem_update_provider_heartbeat_def beaten_def Let_def)
qed

section \<open>What the scheduler gets\<close>

text \<open>A provider the scheduler matches from the registry's list is stored there, idle, and has GPUs enough and one with the memory
  asked for; the address it is dispatched to is empty, and whether its GPUs are healthy plays no part.\<close>

theorem matched_provider_registered:
  assumes "valid_registry db" "pg_list_providers env Map.empty db = Inr ps"
    "find_suitable_provider j (map as_listed ps) = Some lp"
  shows "\<exists>q. registry_peek db (lp_id lp) = Some q \<and> p_status q = StatusIdle \<and> j_gpu_count j \<le> int (length (p_gpus q))
    \<and> (\<exists>g \<in> set (p_gpus q). j_min_vram j \<le> rg_vram g) \<and> lp_ip_address lp = []
    \<and> (\<forall>h. find_suitable_provider j (map (\<lambda>p. as_listed (p\<lparr>p_gpus := map (\<lambda>g. g\<lparr>rg_is_healthy := h g\<rparr>) (p_gpus p)\<rparr>)) ps) = Some lp)"
proof -
  from assms(3) obtain p where p: "p \<in> set ps" "lp = as_listed p" "suitable j (as_listed p)"
    unfolding find_suitable_provider_def by (auto dest!: find_SomeD)
  have "plain_filters Map.empty" by (simp add: plain_filters_def string_filter_def)
  with registry_list_listed [OF assms(1,2)] p(1) obtain q where q: "registry_peek db (p_id p) = Some q"
    "same_provider p (q\<lparr>p_ip_address := [], p_metadata := Some (case p_metadata q of None \<Rightarrow> Map.empty | Some m \<Rightarrow> m)\<rparr>)" by blast
  from q(2) have g: "mset (p_gpus p) = mset (p_gpus q)" and st: "p_status p = p_status q" "p_ip_address p = []"
    by (cases p; cases q; simp add: same_provider_def)+
  then have gs: "set (p_gpus p) = set (p_gpus q)" "length (p_gpus p) = length (p_gpus q)"
    by (metis set_mset_mset, metis size_mset)
  have l: "lp_id lp = p_id p" "lp_status lp = p_status p" "lp_ip_address lp = p_ip_address p" "length (lp_gpus lp) = length (p_gpus p)"
    "(\<exists>g \<in> set (lp_gpus lp). j_min_vram j \<le> g_vram g) \<longleftrightarrow> (\<exists>g \<in> set (p_gpus p). j_min_vram j \<le> rg_vram g)"
    by (simp_all add: p(2) as_listed_def)
  have "as_listed (p\<lparr>p_gpus := map (\<lambda>g. g\<lparr>rg_is_healthy := h g\<rparr>) (p_gpus p)\<rparr>) = as_listed p" for p h
    by (simp add: as_listed_def comp_def)
  moreover have floor: "j_min_vram j \<le> g_vram g" if "meets_floors (j_min_vram j) 0 g" for g
    using that by (auto simp: meets_floors_def not_less word_gt_0)
  moreover from p(2,3) have "lp_status lp = StatusIdle" "j_gpu_count j \<le> int (length (lp_gpus lp))"
    by (auto simp: suitable_iff)
  moreover from p(2,3) floor have "\<exists>g \<in> set (lp_gpus lp). j_min_vram j \<le> g_vram g"
    unfolding suitable_iff by blast
  ultimately show ?thesis
    using q(1) st gs l assms(3) by auto
qed

end
