(* ===== verification/RegistryDemo.thy ===== *)
theory RegistryDemo
  imports RegistryClaims
begin

text \<open>A registry with one provider of two GPUs: the witnesses of the registry's properties.\<close>

definition calm_env :: "(gpu_row \<Rightarrow> nat) \<Rightarrow> provider_env" where
  "calm_env rank = \<lparr>pe_fail = (\<lambda>n q. None), pe_duplicate = PgErr ''23505'' ''duplicate key'', pe_out_of_range = ErrText ''out of range'',
     pe_time_col = (\<lambda>t. t div 1000 * 1000), pe_gpu_rank = rank, pe_name_rank = (\<lambda>r. 0), pe_cancelled = (\<lambda>n. None),
     pe_expired = (\<lambda>n. None), pe_scale = (\<lambda>d r. \<lfloor>of_int d * r\<rfloor>)\<rparr>"

definition demo_rgpu :: "string \<Rightarrow> u64 \<Rightarrow> registry_gpu" where
  "demo_rgpu m v = \<lparr>rg_model_name = m, rg_vram = v, rg_driver_version = [], rg_architecture = [], rg_compute_capability = [],
     rg_cuda_cores = 0, rg_tensor_cores = 0, rg_memory_bandwidth = 0, rg_power_consumption = 450, rg_utilization_gpu = 0,
     rg_utilization_mem = 0, rg_temperature = 0, rg_power_draw = 0, rg_is_healthy = True\<rparr>"

definition demo_row :: provider_row where
  "demo_row = \<lparr>pr_id = 7, pr_owner_id = ''o'', pr_name = ''rig'', pr_hostname = [], pr_ip_address = ''10.0.0.7'', pr_status = StatusIdle,
     pr_location = [], pr_registered_at = 0, pr_last_seen_at = 0, pr_metadata = None\<rparr>"

definition demo_registry :: registry_db where
  "demo_registry = \<lparr>rd_providers = [demo_row],
     rd_gpus = [\<lparr>gd_id = 1, gd_provider_id = 7, gd_gpu = demo_rgpu ''RTX 4090'' 24564\<rparr>,
                \<lparr>gd_id = 2, gd_provider_id = 7, gd_gpu = demo_rgpu ''RTX 3060'' 12288\<rparr>], rd_next_gpu = 3\<rparr>"

definition demo_parse :: "string \<Rightarrow> string + uuid" where
  "demo_parse s = (if s = ''7'' then Inr 7 else Inl ''invalid UUID'')"

lemma demo_registry_valid: "valid_registry demo_registry"
  by (simp add: valid_registry_def demo_registry_def demo_row_def)

lemma demo_registry_peek: "registry_peek demo_registry 7 = Some (provider_of demo_row (rd_gpus demo_registry))"
  by (simp add: registry_peek_def demo_registry_def demo_row_def gpus_of_def)

lemma demo_registry_list: "pg_list_providers (calm_env rank) Map.empty demo_registry = Inr [listed_row (calm_env rank) demo_registry demo_row]"
  by (simp add: pg_list_providers_def store_with_retry_def numeral_3_eq_3 list_query_def calm_env_def list_condition_def
      string_filter_def vram_filter_def healthy_filter_def demo_registry_def)

theorem registry_refines_map_witness:
  "\<exists>codes db'. registry_run demo_parse [(calm_env (\<lambda>r. 0), Deregister ''8''), (calm_env (\<lambda>r. 0), Deregister ''7'')] empty_registry = (codes, db')
     \<and> registry_peek db' 7 = None"
proof -
  let ?rs = "[(calm_env (\<lambda>r. 0), Deregister ''8''), (calm_env (\<lambda>r. 0), Deregister ''7'')]"
  obtain codes db' where r: "registry_run demo_parse ?rs empty_registry = (codes, db')" by fastforce
  then have "codes = [400, 404]"
    by (simp add: registry_answer_def handle_deregister_def demo_parse_def pg_delete_provider_def calm_env_def empty_registry_def)
  with registry_refines_map [OF r] r show ?thesis by simp
qed

theorem registry_sentinels_wrapped_witness:
  "api_status (handle_get (pg_get_provider (calm_env (\<lambda>r. 0))) demo_parse ''7'' empty_registry) = 500
   \<and> api_status (handle_get mem_get_provider demo_parse ''7'' Map.empty) = 404"
  using registry_sentinels_wrapped [of "calm_env (\<lambda>r. 0)" demo_parse "''7''" empty_registry 7 0 0 None Map.empty]
  by (simp add: demo_parse_def)

theorem registry_list_exact_witness:
  "p_id ` set [listed_row (calm_env (\<lambda>r. 0)) demo_registry demo_row]
     = {i. \<exists>q. registry_peek demo_registry i = Some q \<and> passes_filters q Map.empty}"
  using registry_list_exact [OF demo_registry_valid demo_registry_list] by (simp add: plain_filters_def string_filter_def)

theorem heartbeat_stores_differ_witness:
  "fst (pg_update_provider_heartbeat (calm_env (\<lambda>r. 0)) 5000 7 [demo_rgpu [] 0, demo_rgpu [] 0, demo_rgpu [] 0] demo_registry) \<noteq> None"
proof -
  obtain r db' where h: "pg_update_provider_heartbeat (calm_env (\<lambda>r. 0)) 5000 7 [demo_rgpu [] 0, demo_rgpu [] 0, demo_rgpu [] 0] demo_registry = (r, db')"
    by fastforce
  from heartbeat_stores_differ [OF demo_registry_valid demo_registry_peek h] h show ?thesis
    by (auto simp: provider_of_def demo_registry_def)
qed

text \<open>The type of a provider is that of its first GPU, and the list has them in any order: the same registry matches or not.\<close>

theorem match_depends_on_row_order:
  "find_suitable_provider (demo_job 0 0 \<lparr>j_gpu_type := ''RTX 4090''\<rparr>)
       (map as_listed [listed_row (calm_env gd_id) demo_registry demo_row]) \<noteq> None
   \<and> find_suitable_provider (demo_job 0 0 \<lparr>j_gpu_type := ''RTX 4090''\<rparr>)
       (map as_listed [listed_row (calm_env (\<lambda>r. 10 - gd_id r)) demo_registry demo_row]) = None"
  by code_simp

theorem matched_provider_registered_witness:
  "\<exists>lp q. find_suitable_provider (demo_job 20000 0) (map as_listed [listed_row (calm_env (\<lambda>r. 0)) demo_registry demo_row]) = Some lp
     \<and> registry_peek demo_registry (lp_id lp) = Some q \<and> p_status q = StatusIdle \<and> lp_ip_address lp = []"
proof -
  have "find_suitable_provider (demo_job 20000 0) (map as_listed [listed_row (calm_env (\<lambda>r. 0)) demo_registry demo_row]) \<noteq> None"
    by code_simp
  then obtain lp where f: "find_suitable_provider (demo_job 20000 0) (map as_listed [listed_row (calm_env (\<lambda>r. 0)) demo_registry demo_row]) = Some lp"
    by blast
  from matched_provider_registered [OF demo_registry_valid demo_registry_list f] f show ?thesis by blast
qed

end
