(* ===== verification/AuthBase.thy ===== *)
theory AuthBase
  imports GoText Table
begin

text \<open>
  What the handlers of the authentication service (\<open>services/auth-service/internal/handlers\<close>) share: the tables they
  use, the environment of one request and the answers. The tables have the columns the handlers' statements name;
  the migrations create some of them under other names or not at all. One request runs alone. A statement
  fails or not, a result may break off after some rows; \<open>bcrypt\<close> hashes with a salt that is drawn for the call,
  random tokens, identifiers and the clock are arguments. Mails are handed to the mail service in the
  background; audit records are written and never read, and are left out.
\<close>

section \<open>Tables\<close>

record auth_user =
  au_id :: string
  au_email :: string
  au_username :: string
  au_password_hash :: string
  au_first_name :: string
  au_last_name :: string
  au_phone :: string
  au_organization :: string
  au_active :: bool
  au_verified :: bool
  au_role :: string
  au_subscription :: string
  au_created_at :: time
  au_updated_at :: time

record login_attempt =
  la_email :: string
  la_success :: bool
  la_ip :: string
  la_agent :: string
  la_locked_until :: "time option"
  la_created_at :: time

record auth_session =
  as_id :: string
  as_user_id :: string
  as_refresh_token :: string
  as_ip :: string
  as_agent :: string
  as_expires_at :: time
  as_last_activity :: time
  as_revoked_at :: "time option"
  as_created_at :: time

record role_row =
  ro_user_id :: string
  ro_role :: string
  ro_active :: bool

text \<open>A verification or reset token; \<open>tr_used_at\<close> is \<open>verified_at\<close> of the one and \<open>used_at\<close> of the other.\<close>

record token_row =
  tr_user_id :: string
  tr_email :: string
  tr_hash :: string
  tr_expires_at :: time
  tr_used_at :: "time option"
  tr_created_at :: time

record two_factor_row =
  tf_user_id :: string
  tf_method :: string
  tf_secret :: "string option"
  tf_phone :: "string option"
  tf_enabled :: bool
  tf_verified_at :: "time option"
  tf_disabled_at :: "time option"
  tf_created_at :: time

record code_row =
  co_user_id :: string
  co_code :: string
  co_expires_at :: time
  co_used_at :: "time option"
  co_created_at :: time

record backup_row =
  bk_id :: nat
  bk_user_id :: string
  bk_hash :: string
  bk_used_at :: "time option"

record challenge_row =
  ch_user_id :: string
  ch_token :: string
  ch_expires_at :: time
  ch_verified :: bool

record key_row =
  ky_id :: string
  ky_user_id :: string
  ky_name :: string
  ky_description :: string
  ky_hash :: string
  ky_prefix :: string
  ky_scopes :: string
  ky_expires_at :: "time option"
  ky_active :: bool
  ky_created_at :: time
  ky_revoked_at :: "time option"

record revoked_row =
  rv_token_id :: string
  rv_expires_at :: time

datatype mail =
    MailVerification string string string | MailWelcome string string | MailReset string string string
  | MailPasswordChanged string string | MailCode string string string | MailLoginAlert string string string
  | SmsCode string string

record auth_state =
  st_users :: "auth_user list"
  st_preferences :: "string list"
  st_roles :: "role_row list"
  st_attempts :: "login_attempt list"
  st_sessions :: "auth_session list"
  st_verifications :: "token_row list"
  st_resets :: "token_row list"
  st_two_factor :: "two_factor_row list"
  st_codes :: "code_row list"
  st_backup :: "backup_row list"
  st_challenges :: "challenge_row list"
  st_keys :: "key_row list"
  st_revoked :: "revoked_row list"
  st_mails :: "mail list"

definition empty_auth :: auth_state where
  "empty_auth = \<lparr>st_users = [], st_preferences = [], st_roles = [], st_attempts = [], st_sessions = [], st_verifications = [],
     st_resets = [], st_two_factor = [], st_codes = [], st_backup = [], st_challenges = [], st_keys = [], st_revoked = [], st_mails = []\<rparr>"

section \<open>The environment of a request\<close>

datatype auth_query =
    QLock | QUser | QAttemptCount | QAttemptInsert | Q2FAStatus | QChallengeInsert | QRoles | QSessionInsert | QSessionSelect
  | QActive | QSessionUpdate | QSessionRevoke | QSessionRevokeAll | QSessionList | QExists | QHash | QRandom | QBegin
  | QUserInsert | QRoleInsert | QPreferencesInsert | QTokenInsert | QUserVerify | QCommit | QTokenSelect | QTokenUse
  | QLastReset | QPasswordUpdate | Q2FAPending | QCodeSelect | QCodeUse | QBackupInsert | Q2FAEnable | QChallengeSelect
  | Q2FAEnabled | QBackupSelect | QBackupUse | QChallengeVerify | Q2FADisable | QBackupDelete | Q2FAUpsert
  | QCodeInsert | QEmail | QKeyInsert | QKeyList | QKeyRevoke | QKeySelect | QRevoked | QPermission | QRateCount

record bcrypt_lib =
  bc_hash :: "string \<Rightarrow> string \<Rightarrow> string"
  bc_matches :: "string \<Rightarrow> string \<Rightarrow> bool"

text \<open>A hash is a text with the salt in it, and a password matches its own hashes.\<close>

definition bcrypt_ok :: "bcrypt_lib \<Rightarrow> bool" where
  "bcrypt_ok bc \<longleftrightarrow> (\<forall>s p s' p'. bc_hash bc s p = bc_hash bc s' p' \<longrightarrow> s = s')
     \<and> (\<forall>s p. bc_hash bc s p \<noteq> []) \<and> (\<forall>s p. bc_matches bc (bc_hash bc s p) p)"

record auth_env =
  ax_fail :: "auth_query \<Rightarrow> bool"
  ax_rows :: "auth_query \<Rightarrow> nat option"
  ax_clock :: clock
  ax_db_now :: time
  ax_salt :: "nat \<Rightarrow> string"
  ax_random :: "nat \<Rightarrow> string"
  ax_new_id :: "nat \<Rightarrow> string"

definition arrived :: "auth_env \<Rightarrow> auth_query \<Rightarrow> 'r list \<Rightarrow> 'r list" where
  "arrived env q rs = (case ax_rows env q of None \<Rightarrow> rs | Some n \<Rightarrow> take n rs)"

record http_headers =
  hh_forwarded_for :: string
  hh_real_ip :: string
  hh_remote_addr :: string
  hh_user_agent :: string
  hh_user_id :: "string option"

definition upto_char :: "char \<Rightarrow> string \<Rightarrow> string" where
  "upto_char c s = takeWhile (\<lambda>x. x \<noteq> c) s"

definition get_ip_address :: "http_headers \<Rightarrow> string" where
  "get_ip_address h =
     (if hh_forwarded_for h \<noteq> [] then trim_space (upto_char CHR '','' (hh_forwarded_for h))
      else if hh_real_ip h \<noteq> [] then hh_real_ip h
      else upto_char CHR '':'' (hh_remote_addr h))"

datatype 'a auth_response = Responded nat 'a | Refused nat string

fun auth_status :: "'a auth_response \<Rightarrow> nat" where
  "auth_status (Responded n x) = n"
| "auth_status (Refused n m) = n"

section \<open>Validation shared by registration, login and reset\<close>

definition is_alpha :: "char \<Rightarrow> bool" where
  "is_alpha c \<longleftrightarrow> of_char c \<in> {65::nat..90} \<union> {97..122}"

definition is_upper :: "char \<Rightarrow> bool" where
  "is_upper c \<longleftrightarrow> of_char c \<in> {65::nat..90}"

definition is_lower :: "char \<Rightarrow> bool" where
  "is_lower c \<longleftrightarrow> of_char c \<in> {97::nat..122}"

definition is_number :: "char \<Rightarrow> bool" where
  "is_number c \<longleftrightarrow> of_char c \<in> {48::nat..57}"

definition is_special :: "char \<Rightarrow> bool" where
  "is_special c \<longleftrightarrow> c \<in> set ''!@#$%^&*(),.?:{}|<>'' \<or> of_char c = (34 :: nat)"

definition local_char :: "char \<Rightarrow> bool" where
  "local_char c \<longleftrightarrow> is_alpha c \<or> is_number c \<or> c \<in> set ''._%+-''"

definition domain_char :: "char \<Rightarrow> bool" where
  "domain_char c \<longleftrightarrow> is_alpha c \<or> is_number c \<or> c \<in> set ''.-''"

text \<open>\<open>^[a-zA-Z0-9._%+-]+@[a-zA-Z0-9.-]+\.[a-zA-Z]{2,}$\<close>: the part before the first \<open>@\<close>, and after it the longest run of letters at the end.\<close>

definition is_valid_email :: "string \<Rightarrow> bool" where
  "is_valid_email e =
     (let l = takeWhile local_char e; rest = dropWhile local_char e; d = tl rest;
          t = rev (takeWhile is_alpha (rev d)); h = rev (dropWhile is_alpha (rev d)) in
      l \<noteq> [] \<and> rest \<noteq> [] \<and> hd rest = CHR ''@'' \<and> length t \<ge> 2 \<and> h \<noteq> [] \<and> h \<noteq> ''.'' \<and> hd (rev h) = CHR ''.'' \<and> list_all domain_char h)"

record password_policy =
  pp_min_length :: int
  pp_upper :: bool
  pp_lower :: bool
  pp_number :: bool
  pp_special :: bool

definition validate_password_strength :: "password_policy \<Rightarrow> string \<Rightarrow> string option" where
  "validate_password_strength pp p =
     (if int (length p) < pp_min_length pp then Some ''password must be at least 8 characters''
      else if pp_upper pp \<and> \<not> list_ex is_upper p then Some ''password must contain at least one uppercase letter''
      else if pp_lower pp \<and> \<not> list_ex is_lower p then Some ''password must contain at least one lowercase letter''
      else if pp_number pp \<and> \<not> list_ex is_number p then Some ''password must contain at least one number''
      else if pp_special pp \<and> \<not> list_ex is_special p then Some ''password must contain at least one special character''
      else None)"

lemma is_valid_email_iff:
  "is_valid_email e \<longleftrightarrow> (\<exists>l d t. e = l @ ''@'' @ d @ ''.'' @ t \<and> l \<noteq> [] \<and> list_all local_char l \<and> d \<noteq> [] \<and> list_all domain_char d
     \<and> 2 \<le> length t \<and> list_all is_alpha t)" (is "_ \<longleftrightarrow> ?R")
proof
  let ?l = "takeWhile local_char e" and ?rest = "dropWhile local_char e"
  let ?d = "tl ?rest" let ?t = "rev (takeWhile is_alpha (rev ?d))" and ?h = "rev (dropWhile is_alpha (rev ?d))"
  assume a: "is_valid_email e"
  then have h: "?h \<noteq> []" "hd (rev ?h) = CHR ''.''" "?h \<noteq> ''.''" "list_all domain_char ?h" "2 \<le> length ?t" "?l \<noteq> []" "?rest \<noteq> []"
    "hd ?rest = CHR ''@''" by (simp_all add: is_valid_email_def Let_def)
  then have hs: "?h = butlast ?h @ ''.''" by (metis append_butlast_last_id hd_rev)
  have "?d = ?h @ ?t" by (metis rev_append rev_rev_ident takeWhile_dropWhile_id)
  moreover have "e = ?l @ CHR ''@'' # ?d" using h(7,8) by (metis hd_Cons_tl takeWhile_dropWhile_id)
  ultimately have "e = ?l @ ''@'' @ butlast ?h @ ''.'' @ ?t" using hs by (metis append.assoc append_Cons append_Nil)
  moreover have "butlast ?h \<noteq> []" using hs h(3) by (metis append_Nil)
  moreover have "list_all domain_char (butlast ?h)" using h(4) by (metis in_set_butlastD list_all_iff)
  moreover have "list_all is_alpha ?t" by (auto simp: list_all_iff dest: set_takeWhileD)
  moreover have "list_all local_char ?l" by (auto simp: list_all_iff dest: set_takeWhileD)
  ultimately show ?R using h(5,6) by blast
next
  assume ?R
  then obtain l d t where e: "e = l @ CHR ''@'' # (d @ ''.'') @ t" "l \<noteq> []" "list_all local_char l" "d \<noteq> []" "list_all domain_char d"
    "2 \<le> length t" "list_all is_alpha t" by auto
  have at: "\<not> local_char CHR ''@''" "\<not> is_alpha CHR ''.''" "domain_char CHR ''.''" by (simp_all add: local_char_def domain_char_def is_alpha_def is_number_def)
  have l: "takeWhile local_char e = l" "dropWhile local_char e = CHR ''@'' # (d @ ''.'') @ t"
    using e(1,3) at(1) by (simp_all add: takeWhile_append2 dropWhile_append2 list_all_iff)
  have r: "rev ((d @ ''.'') @ t) = rev t @ CHR ''.'' # rev d" by simp
  have t: "takeWhile is_alpha (rev ((d @ ''.'') @ t)) = rev t" "dropWhile is_alpha (rev ((d @ ''.'') @ t)) = CHR ''.'' # rev d"
    unfolding r using takeWhile_append2 [of "rev t" is_alpha "CHR ''.'' # rev d"]
      dropWhile_append2 [of "rev t" is_alpha "CHR ''.'' # rev d"] e(7) at(2) by (simp_all add: list_all_iff)
  show "is_valid_email e"
    unfolding is_valid_email_def Let_def l list.sel t using e at(3) by (simp add: list_all_iff)
qed

end
