(* ===== verification/AuthTokens.thy ===== *)
theory AuthTokens
  imports GoText
begin

text \<open>
  The tokens of the authentication service (\<open>pkg/jwt/jwt.go\<close>). Signing and parsing are a library's: \<open>jl_sign\<close>
  makes the text of signed claims, \<open>jl_parse\<close> reads a text at a time under the secret the key function gives to
  an HMAC token. What they promise is \<open>jwt_lib_ok\<close>. A numeric date is a whole number of seconds.
\<close>

record claims =
  cl_user_id :: string
  cl_email :: string
  cl_roles :: "string list"
  cl_token_id :: string
  cl_is_refresh :: bool
  cl_expires_at :: "time option"
  cl_issued_at :: "time option"
  cl_not_before :: "time option"
  cl_issuer :: string
  cl_subject :: string

record token_pair =
  tp_access_token :: string
  tp_refresh_token :: string
  tp_expires_at :: time
  tp_token_type :: string

datatype token_error = ErrInvalidToken | ErrExpiredToken | ErrTokenNotYetValid | ErrInvalidClaims | TokenFailure string

datatype parse_failure = ParseExpired | ParseNotYetValid | ParseOther string

record jwt_lib =
  jl_sign :: "string \<Rightarrow> claims \<Rightarrow> string + string"
  jl_parse :: "time \<Rightarrow> string \<Rightarrow> string \<Rightarrow> parse_failure + claims"
  jl_unverified :: "string \<Rightarrow> string + claims"

record jwt_manager =
  jm_access_secret :: string
  jm_refresh_secret :: string
  jm_access_ttl :: duration
  jm_refresh_ttl :: duration
  jm_issuer :: string

definition numeric_date :: "time \<Rightarrow> time" where
  "numeric_date t = t div second * second"

definition claims_valid_at :: "time \<Rightarrow> claims \<Rightarrow> parse_failure option" where
  "claims_valid_at now c =
     (if (case cl_expires_at c of Some t \<Rightarrow> t \<le> now | None \<Rightarrow> False) then Some ParseExpired
      else if (case cl_not_before c of Some t \<Rightarrow> now < t | None \<Rightarrow> False) then Some ParseNotYetValid
      else None)"

text \<open>A signed token is read under its own secret, valid from its start until it expires, and carries what was signed.\<close>

definition jwt_lib_ok :: "jwt_lib \<Rightarrow> bool" where
  "jwt_lib_ok lib \<longleftrightarrow> (\<forall>sec c tok. jl_sign lib sec c = Inr tok \<longrightarrow>
     (\<forall>now. jl_parse lib now sec tok = (case claims_valid_at now c of Some e \<Rightarrow> Inl e | None \<Rightarrow> Inr c))
     \<and> (\<forall>now sec' c'. jl_parse lib now sec' tok = Inr c' \<longrightarrow> c' = c))"

definition new_jwt_manager :: "string \<Rightarrow> string \<Rightarrow> duration \<Rightarrow> duration \<Rightarrow> jwt_manager" where
  "new_jwt_manager access refresh access_ttl refresh_ttl =
     \<lparr>jm_access_secret = access, jm_refresh_secret = refresh, jm_access_ttl = access_ttl, jm_refresh_ttl = refresh_ttl,
      jm_issuer = ''dantegpu-platform''\<rparr>"

definition token_claims :: "jwt_manager \<Rightarrow> time \<Rightarrow> string \<Rightarrow> string \<Rightarrow> string list \<Rightarrow> string \<Rightarrow> bool \<Rightarrow> time \<Rightarrow> claims" where
  "token_claims m now user email roles tid refresh expires =
     \<lparr>cl_user_id = user, cl_email = email, cl_roles = roles, cl_token_id = tid, cl_is_refresh = refresh,
      cl_expires_at = Some (numeric_date expires), cl_issued_at = Some (numeric_date now), cl_not_before = Some (numeric_date now),
      cl_issuer = jm_issuer m, cl_subject = user\<rparr>"

text \<open>\<open>tid\<close> is the random identifier, or the error of the random source.\<close>

definition generate_token_pair ::
    "jwt_lib \<Rightarrow> jwt_manager \<Rightarrow> time \<Rightarrow> string + string \<Rightarrow> string \<Rightarrow> string \<Rightarrow> string list \<Rightarrow> token_error + token_pair" where
  "generate_token_pair lib m now tid user email roles =
     (case tid of Inl e \<Rightarrow> Inl (TokenFailure e)
      | Inr i \<Rightarrow>
      case jl_sign lib (jm_access_secret m) (token_claims m now user email roles i False (now + jm_access_ttl m)) of
        Inl e \<Rightarrow> Inl (TokenFailure e)
      | Inr a \<Rightarrow>
      case jl_sign lib (jm_refresh_secret m) (token_claims m now user email roles i True (now + jm_refresh_ttl m)) of
        Inl e \<Rightarrow> Inl (TokenFailure e)
      | Inr r \<Rightarrow> Inr \<lparr>tp_access_token = a, tp_refresh_token = r, tp_expires_at = now + jm_access_ttl m, tp_token_type = ''Bearer''\<rparr>)"

definition validate_token :: "jwt_lib \<Rightarrow> time \<Rightarrow> string \<Rightarrow> string \<Rightarrow> bool \<Rightarrow> token_error + claims" where
  "validate_token lib now tok secret refresh =
     (case jl_parse lib now secret tok of
        Inl ParseExpired \<Rightarrow> Inl ErrExpiredToken
      | Inl ParseNotYetValid \<Rightarrow> Inl ErrTokenNotYetValid
      | Inl (ParseOther e) \<Rightarrow> Inl ErrInvalidToken
      | Inr c \<Rightarrow> if cl_is_refresh c \<noteq> refresh then Inl ErrInvalidToken else Inr c)"

definition validate_access_token :: "jwt_lib \<Rightarrow> jwt_manager \<Rightarrow> time \<Rightarrow> string \<Rightarrow> token_error + claims" where
  "validate_access_token lib m now tok = validate_token lib now tok (jm_access_secret m) False"

definition validate_refresh_token :: "jwt_lib \<Rightarrow> jwt_manager \<Rightarrow> time \<Rightarrow> string \<Rightarrow> token_error + claims" where
  "validate_refresh_token lib m now tok = validate_token lib now tok (jm_refresh_secret m) True"

text \<open>The token is validated at \<open>now\<close>, the new pair is made at \<open>later\<close>.\<close>

definition refresh_tokens :: "jwt_lib \<Rightarrow> jwt_manager \<Rightarrow> time \<Rightarrow> time \<Rightarrow> string + string \<Rightarrow> string \<Rightarrow> token_error + token_pair" where
  "refresh_tokens lib m now later tid tok =
     (case validate_refresh_token lib m now tok of Inl e \<Rightarrow> Inl e
      | Inr c \<Rightarrow> generate_token_pair lib m later tid (cl_user_id c) (cl_email c) (cl_roles c))"

definition extract_claims :: "jwt_lib \<Rightarrow> string \<Rightarrow> token_error + claims" where
  "extract_claims lib tok = (case jl_unverified lib tok of Inl e \<Rightarrow> Inl (TokenFailure e) | Inr c \<Rightarrow> Inr c)"

definition revoke_token :: "string \<Rightarrow> time \<Rightarrow> token_error option" where
  "revoke_token tid expires = None"

definition is_token_revoked :: "string \<Rightarrow> token_error + bool" where
  "is_token_revoked tid = Inr False"

definition get_token_expiration :: "jwt_lib \<Rightarrow> string \<Rightarrow> token_error + time" where
  "get_token_expiration lib tok =
     (case extract_claims lib tok of Inl e \<Rightarrow> Inl e
      | Inr c \<Rightarrow> (case cl_expires_at c of None \<Rightarrow> Inl (TokenFailure ''token has no expiration'') | Some t \<Rightarrow> Inr t))"

definition get_token_remaining_time :: "jwt_lib \<Rightarrow> time \<Rightarrow> string \<Rightarrow> token_error + duration" where
  "get_token_remaining_time lib now tok =
     (case get_token_expiration lib tok of Inl e \<Rightarrow> Inl e
      | Inr t \<Rightarrow> if t - now < 0 then Inl ErrExpiredToken else Inr (t - now))"

definition has_role :: "claims \<Rightarrow> string \<Rightarrow> bool" where
  "has_role c role = list_ex (\<lambda>r. r = role) (cl_roles c)"

definition has_any_role :: "claims \<Rightarrow> string list \<Rightarrow> bool" where
  "has_any_role c roles = list_ex (has_role c) roles"

definition has_all_roles :: "claims \<Rightarrow> string list \<Rightarrow> bool" where
  "has_all_roles c roles = list_all (has_role c) roles"

section \<open>What a pair is good for\<close>

lemma numeric_date_le: "numeric_date t \<le> t"
  by (simp add: numeric_date_def minus_mod_eq_div_mult [symmetric])

lemma sign_parse:
  "jwt_lib_ok lib \<Longrightarrow> jl_sign lib sec c = Inr tok \<Longrightarrow>
     jl_parse lib now sec tok = (case claims_valid_at now c of Some e \<Rightarrow> Inl e | None \<Rightarrow> Inr c)"
  unfolding jwt_lib_ok_def by blast

lemma sign_parse_payload: "jwt_lib_ok lib \<Longrightarrow> jl_sign lib sec c = Inr tok \<Longrightarrow> jl_parse lib now sec' tok = Inr c' \<Longrightarrow> c' = c"
  unfolding jwt_lib_ok_def by blast

lemma generated_pair:
  assumes "generate_token_pair lib m now tid user email roles = Inr tp"
  shows "\<exists>i. tid = Inr i
    \<and> jl_sign lib (jm_access_secret m) (token_claims m now user email roles i False (now + jm_access_ttl m)) = Inr (tp_access_token tp)
    \<and> jl_sign lib (jm_refresh_secret m) (token_claims m now user email roles i True (now + jm_refresh_ttl m)) = Inr (tp_refresh_token tp)"
  using assms by (auto simp: generate_token_pair_def split: sum.splits)

lemma token_claims_simps [simp]:
  "cl_user_id (token_claims m now user email roles i f t) = user" "cl_email (token_claims m now user email roles i f t) = email"
  "cl_roles (token_claims m now user email roles i f t) = roles" "cl_token_id (token_claims m now user email roles i f t) = i"
  "cl_is_refresh (token_claims m now user email roles i f t) = f"
  by (simp_all add: token_claims_def)

lemma token_claims_valid:
  "now \<le> t \<Longrightarrow> claims_valid_at t (token_claims m now user email roles i f e) =
     (if numeric_date e \<le> t then Some ParseExpired else None)"
  using numeric_date_le [of now] by (auto simp: claims_valid_at_def token_claims_def)

text \<open>C25. A generated pair: each token is valid from its making until the second its time to live ends in, gives back user, mail
  address and roles, and is expired from then on; neither token is ever accepted in the place of
  the other, even under the same secret.\<close>

theorem token_pair_valid:
  assumes "jwt_lib_ok lib" "generate_token_pair lib m now tid user email roles = Inr tp" "now \<le> t"
  shows "(case validate_access_token lib m t (tp_access_token tp) of
        Inr c \<Rightarrow> t < numeric_date (now + jm_access_ttl m) \<and> cl_user_id c = user \<and> cl_email c = email \<and> cl_roles c = roles
      | Inl e \<Rightarrow> numeric_date (now + jm_access_ttl m) \<le> t \<and> e = ErrExpiredToken)
    \<and> (case validate_refresh_token lib m t (tp_refresh_token tp) of
        Inr c \<Rightarrow> t < numeric_date (now + jm_refresh_ttl m) \<and> cl_user_id c = user \<and> cl_email c = email \<and> cl_roles c = roles
      | Inl e \<Rightarrow> numeric_date (now + jm_refresh_ttl m) \<le> t \<and> e = ErrExpiredToken)
    \<and> \<not> is_ok (validate_access_token lib m t (tp_refresh_token tp)) \<and> \<not> is_ok (validate_refresh_token lib m t (tp_access_token tp))"
proof -
  from generated_pair [OF assms(2)] obtain i where
    a: "jl_sign lib (jm_access_secret m) (token_claims m now user email roles i False (now + jm_access_ttl m)) = Inr (tp_access_token tp)" and
    r: "jl_sign lib (jm_refresh_secret m) (token_claims m now user email roles i True (now + jm_refresh_ttl m)) = Inr (tp_refresh_token tp)"
    by blast
  have "\<not> is_ok (validate_access_token lib m t (tp_refresh_token tp))"
    by (auto simp: validate_access_token_def validate_token_def split: sum.split parse_failure.split dest!: sign_parse_payload [OF assms(1) r])
  moreover have "\<not> is_ok (validate_refresh_token lib m t (tp_access_token tp))"
    by (auto simp: validate_refresh_token_def validate_token_def split: sum.split parse_failure.split dest!: sign_parse_payload [OF assms(1) a])
  ultimately show ?thesis
    using sign_parse [OF assms(1) a, of t] sign_parse [OF assms(1) r, of t] assms(3)
    by (auto simp: validate_access_token_def validate_refresh_token_def validate_token_def token_claims_valid)
qed

end
