(* ===== verification/AuthLogin.thy ===== *)
theory AuthLogin
  imports AuthBase AuthTokens
begin

text \<open>
  Login, refresh, logout and the list of sessions (\<open>internal/handlers/login.go\<close>, \<open>login_helpers.go\<close>). The readings of
  the clock in one request are numbered in the order of the code; rows with the same time come in the
  order of insertion.
\<close>

record login_config =
  lc_max_attempts :: int
  lc_lockout :: duration
  lc_session_timeout :: duration
  lc_remember_me :: duration
  lc_require_verified :: bool
  lc_alerts :: bool
  lc_2fa :: bool

record login_request =
  lr_email :: string
  lr_password :: string
  lr_remember :: bool

record user_info =
  ui_user :: auth_user
  ui_roles :: "string list"

record login_session =
  ls_tokens :: token_pair
  ls_expires_in :: int
  ls_info :: user_info
  ls_cookie :: string

datatype login_answer = LoggedIn login_session | RequiresCode string

section \<open>Helpers\<close>

definition is_account_locked :: "auth_env \<Rightarrow> string \<Rightarrow> auth_state \<Rightarrow> bool option" where
  "is_account_locked env email st =
     (if ax_fail env QLock then None
      else case order_desc la_created_at (filter (\<lambda>a. la_email a = email) (st_attempts st)) of
        [] \<Rightarrow> Some False
      | a # as \<Rightarrow> (case la_locked_until a of Some t \<Rightarrow> Some (ax_clock env 0 < t) | None \<Rightarrow> Some False))"

definition recent_failures :: "auth_env \<Rightarrow> string \<Rightarrow> auth_state \<Rightarrow> nat" where
  "recent_failures env email st =
     length (filter (\<lambda>a. la_email a = email \<and> \<not> la_success a \<and> la_created_at a > ax_db_now env - 15 * minute) (st_attempts st))"

text \<open>The two readings of the clock are \<open>k\<close> and \<open>k + 1\<close>; the callers ignore the error.\<close>

definition record_login_attempt :: "login_config \<Rightarrow> auth_env \<Rightarrow> nat \<Rightarrow> string \<Rightarrow> bool \<Rightarrow> http_headers \<Rightarrow> auth_state \<Rightarrow> auth_state" where
  "record_login_attempt cfg env k email success h st =
     (if ax_fail env QAttemptCount then st
      else (let locked = (if \<not> success \<and> int (recent_failures env email st) \<ge> lc_max_attempts cfg - 1
                          then Some (ax_clock env k + lc_lockout cfg) else None)
            in if ax_fail env QAttemptInsert then st
               else st\<lparr>st_attempts := st_attempts st @
                 [\<lparr>la_email = email, la_success = success, la_ip = get_ip_address h, la_agent = hh_user_agent h,
                   la_locked_until = locked, la_created_at = ax_clock env (k + 1)\<rparr>]\<rparr>))"

text \<open>A result that breaks off is not noticed.\<close>

definition get_user_roles :: "auth_env \<Rightarrow> string \<Rightarrow> auth_state \<Rightarrow> string list option" where
  "get_user_roles env user st =
     (if ax_fail env QRoles then None
      else (let roles = map ro_role (arrived env QRoles (filter (\<lambda>r. ro_user_id r = user \<and> ro_active r) (st_roles st)))
            in Some (if roles = [] then [''user''] else roles)))"

definition has_2fa_enabled :: "auth_env \<Rightarrow> string \<Rightarrow> auth_state \<Rightarrow> bool option" where
  "has_2fa_enabled env user st =
     (if ax_fail env Q2FAStatus then None else Some (list_ex (\<lambda>r. tf_user_id r = user \<and> tf_enabled r) (st_two_factor st)))"

definition create_2fa_session :: "auth_env \<Rightarrow> string \<Rightarrow> auth_state \<Rightarrow> string option \<times> auth_state" where
  "create_2fa_session env user st =
     (let tok = ax_random env 0 in
      if ax_fail env QChallengeInsert then (None, st)
      else (Some tok, st\<lparr>st_challenges := st_challenges st @
              [\<lparr>ch_user_id = user, ch_token = tok, ch_expires_at = ax_clock env 3 + 10 * minute, ch_verified = False\<rparr>]\<rparr>))"

definition create_session ::
    "auth_env \<Rightarrow> string \<Rightarrow> string \<Rightarrow> http_headers \<Rightarrow> duration \<Rightarrow> auth_state \<Rightarrow> string option \<times> auth_state" where
  "create_session env user refresh h d st =
     (if ax_fail env QSessionInsert then (None, st)
      else (Some (ax_new_id env 0), st\<lparr>st_sessions := st_sessions st @
              [\<lparr>as_id = ax_new_id env 0, as_user_id = user, as_refresh_token = refresh, as_ip = get_ip_address h,
                as_agent = hh_user_agent h, as_expires_at = ax_clock env 4 + d, as_last_activity = ax_clock env 5,
                as_revoked_at = None, as_created_at = ax_clock env 6\<rparr>]\<rparr>))"

definition find_session :: "string \<Rightarrow> string \<Rightarrow> auth_state \<Rightarrow> auth_session option" where
  "find_session user refresh st = select_by (\<lambda>s. (as_user_id s, as_refresh_token s)) (user, refresh) (st_sessions st)"

definition is_session_valid :: "auth_env \<Rightarrow> string \<Rightarrow> string \<Rightarrow> auth_state \<Rightarrow> bool option" where
  "is_session_valid env user refresh st =
     (if ax_fail env QSessionSelect then None
      else case find_session user refresh st of
        None \<Rightarrow> Some False
      | Some s \<Rightarrow> if as_revoked_at s \<noteq> None then Some False else Some (\<not> ax_clock env 1 > as_expires_at s))"

definition change_sessions :: "(auth_session \<Rightarrow> bool) \<Rightarrow> (auth_session \<Rightarrow> auth_session) \<Rightarrow> auth_state \<Rightarrow> auth_state" where
  "change_sessions P f st = st\<lparr>st_sessions := map (\<lambda>s. if P s then f s else s) (st_sessions st)\<rparr>"

definition update_session :: "auth_env \<Rightarrow> string \<Rightarrow> string \<Rightarrow> string \<Rightarrow> auth_state \<Rightarrow> bool \<times> auth_state" where
  "update_session env user old new st =
     (if ax_fail env QSessionUpdate then (False, st)
      else (True, change_sessions (\<lambda>s. as_user_id s = user \<and> as_refresh_token s = old)
              (\<lambda>s. s\<lparr>as_refresh_token := new, as_last_activity := ax_clock env 4\<rparr>) st))"

definition revoke_session :: "auth_env \<Rightarrow> string \<Rightarrow> string \<Rightarrow> auth_state \<Rightarrow> bool \<times> auth_state" where
  "revoke_session env user refresh st =
     (if ax_fail env QSessionRevoke then (False, st)
      else (True, change_sessions (\<lambda>s. as_user_id s = user \<and> as_refresh_token s = refresh)
              (\<lambda>s. s\<lparr>as_revoked_at := Some (ax_clock env 0)\<rparr>) st))"

definition revoke_all_sessions :: "auth_env \<Rightarrow> string \<Rightarrow> auth_state \<Rightarrow> bool \<times> auth_state" where
  "revoke_all_sessions env user st =
     (if ax_fail env QSessionRevokeAll then (False, st)
      else (True, change_sessions (\<lambda>s. as_user_id s = user \<and> as_revoked_at s = None)
              (\<lambda>s. s\<lparr>as_revoked_at := Some (ax_clock env 0)\<rparr>) st))"

definition random_id :: "auth_env \<Rightarrow> string + string" where
  "random_id env = (if ax_fail env QRandom then Inl ''random source failed'' else Inr (ax_random env 1))"

section \<open>Handlers\<close>

text \<open>What follows the check of the password.\<close>

definition open_login ::
    "login_config \<Rightarrow> jwt_lib \<Rightarrow> jwt_manager \<Rightarrow> auth_env \<Rightarrow> http_headers \<Rightarrow> login_request \<Rightarrow> auth_user \<Rightarrow> auth_state
     \<Rightarrow> login_answer auth_response \<times> auth_state" where
  "open_login cfg lib m env h r u st =
     (case has_2fa_enabled env (au_id u) st of
        None \<Rightarrow> (Refused 500 ''Failed to check 2FA status'', st)
      | Some has \<Rightarrow>
      if has \<and> lc_2fa cfg
      then (case create_2fa_session env (au_id u) st of
              (None, st') \<Rightarrow> (Refused 500 ''Failed to create 2FA session'', st')
            | (Some tok, st') \<Rightarrow> (Responded 200 (RequiresCode tok), st'))
      else case get_user_roles env (au_id u) st of
        None \<Rightarrow> (Refused 500 ''Failed to get user roles'', st)
      | Some roles \<Rightarrow>
          (let ttl = (if lr_remember r then lc_remember_me cfg else lc_session_timeout cfg) in
           case generate_token_pair lib m (ax_clock env 3) (random_id env) (au_id u) (au_email u) roles of
             Inl e \<Rightarrow> (Refused 500 ''Failed to generate tokens'', st)
           | Inr tp \<Rightarrow>
           case create_session env (au_id u) (tp_refresh_token tp) h ttl st of
             (None, st') \<Rightarrow> (Refused 500 ''Failed to create session'', st')
           | (Some sid, st') \<Rightarrow>
               (let st2 = record_login_attempt cfg env 7 (to_lower (lr_email r)) True h st';
                    st3 = (if lc_alerts cfg
                           then st2\<lparr>st_mails := st_mails st2 @ [MailLoginAlert (au_email u) (au_first_name u) (get_ip_address h)]\<rparr>
                           else st2)
                in (Responded 200 (LoggedIn \<lparr>ls_tokens = tp, ls_expires_in = ttl div second,
                      ls_info = \<lparr>ui_user = u, ui_roles = roles\<rparr>, ls_cookie = sid\<rparr>), st3))))"

definition login ::
    "login_config \<Rightarrow> bcrypt_lib \<Rightarrow> jwt_lib \<Rightarrow> jwt_manager \<Rightarrow> auth_env \<Rightarrow> http_headers \<Rightarrow> login_request option \<Rightarrow> auth_state
     \<Rightarrow> login_answer auth_response \<times> auth_state" where
  "login cfg bc lib m env h body st =
     (case body of None \<Rightarrow> (Refused 400 ''Invalid request payload'', st)
      | Some r \<Rightarrow>
      if \<not> is_valid_email (lr_email r) then (Refused 400 ''Invalid email format'', st)
      else (let email = to_lower (lr_email r) in
        case is_account_locked env email st of
          None \<Rightarrow> (Refused 500 ''Failed to check account status'', st)
        | Some locked \<Rightarrow>
        if locked then (Refused 403 ''Account is locked due to too many failed login attempts'', st)
        else if ax_fail env QUser then (Refused 500 ''Failed to authenticate'', st)
        else case select_by au_email email (st_users st) of
          None \<Rightarrow> (Refused 401 ''Invalid email or password'', record_login_attempt cfg env 1 email False h st)
        | Some u \<Rightarrow>
            if \<not> au_active u then (Refused 403 ''Account is inactive'', st)
            else if lc_require_verified cfg \<and> \<not> au_verified u
            then (Refused 403 ''Email not verified. Please check your email for verification link.'', st)
            else if \<not> bc_matches bc (au_password_hash u) (lr_password r)
            then (Refused 401 ''Invalid email or password'', record_login_attempt cfg env 1 email False h st)
            else open_login cfg lib m env h r u st))"

definition refresh_token ::
    "login_config \<Rightarrow> jwt_lib \<Rightarrow> jwt_manager \<Rightarrow> auth_env \<Rightarrow> string option \<Rightarrow> auth_state \<Rightarrow> token_pair auth_response \<times> auth_state" where
  "refresh_token cfg lib m env body st =
     (case body of None \<Rightarrow> (Refused 400 ''Invalid request payload'', st)
      | Some tok \<Rightarrow>
      case validate_refresh_token lib m (ax_clock env 0) tok of
        Inl e \<Rightarrow> (Refused 401 (if e = ErrExpiredToken then ''Refresh token has expired'' else ''Invalid refresh token''), st)
      | Inr c \<Rightarrow>
      case is_session_valid env (cl_user_id c) tok st of
        None \<Rightarrow> (Refused 500 ''Failed to validate session'', st)
      | Some valid \<Rightarrow>
      if \<not> valid then (Refused 401 ''Session has been revoked'', st)
      else case (if ax_fail env QActive then None else select_by au_id (cl_user_id c) (st_users st)) of
        None \<Rightarrow> (Refused 500 ''Failed to check user status'', st)
      | Some u \<Rightarrow>
      if \<not> au_active u then (Refused 403 ''Account is inactive'', st)
      else case refresh_tokens lib m (ax_clock env 2) (ax_clock env 3) (random_id env) tok of
        Inl e \<Rightarrow> (Refused 500 ''Failed to refresh tokens'', st)
      | Inr tp \<Rightarrow>
          (case update_session env (cl_user_id c) tok (tp_refresh_token tp) st of
             (False, st') \<Rightarrow> (Refused 500 ''Failed to update session'', st')
           | (True, st') \<Rightarrow> (Responded 200 tp, st')))"

text \<open>A body that does not decode counts as one without a token: the error is not looked at.\<close>

definition logout :: "auth_env \<Rightarrow> http_headers \<Rightarrow> string \<Rightarrow> auth_state \<Rightarrow> unit auth_response \<times> auth_state" where
  "logout env h refresh st =
     (case hh_user_id h of None \<Rightarrow> (Refused 401 ''Unauthorized'', st)
      | Some user \<Rightarrow>
          (case (if refresh \<noteq> [] then revoke_session env user refresh st else revoke_all_sessions env user st) of
             (False, st') \<Rightarrow> (Refused 500 ''Failed to logout'', st')
           | (True, st') \<Rightarrow> (Responded 200 (), st')))"

definition get_active_sessions :: "auth_env \<Rightarrow> http_headers \<Rightarrow> auth_state \<Rightarrow> (auth_session \<times> bool) list auth_response" where
  "get_active_sessions env h st =
     (case hh_user_id h of None \<Rightarrow> Refused 401 ''Unauthorized''
      | Some user \<Rightarrow>
          if ax_fail env QSessionList then Refused 500 ''Failed to get sessions''
          else Responded 200 (map (\<lambda>s. (s, as_ip s = get_ip_address h))
            (arrived env QSessionList (order_desc as_last_activity
              (filter (\<lambda>s. as_user_id s = user \<and> as_revoked_at s = None \<and> as_expires_at s > ax_db_now env) (st_sessions st))))))"

definition revoke_session_by_id :: "auth_env \<Rightarrow> http_headers \<Rightarrow> string option \<Rightarrow> auth_state \<Rightarrow> unit auth_response \<times> auth_state" where
  "revoke_session_by_id env h body st =
     (case hh_user_id h of None \<Rightarrow> (Refused 401 ''Unauthorized'', st)
      | Some user \<Rightarrow>
      case body of None \<Rightarrow> (Refused 400 ''Invalid request payload'', st)
      | Some sid \<Rightarrow>
          if ax_fail env QSessionRevoke then (Refused 500 ''Failed to revoke session'', st)
          else (let hit = (\<lambda>s. as_id s = sid \<and> as_user_id s = user \<and> as_revoked_at s = None) in
            if \<not> list_ex hit (st_sessions st) then (Refused 404 ''Session not found'', st)
            else (Responded 200 (), change_sessions hit (\<lambda>s. s\<lparr>as_revoked_at := Some (ax_clock env 0)\<rparr>) st)))"

end
