(* ===== verification/AuthGuard.thy ===== *)
theory AuthGuard
  imports AuthLogin
begin

text \<open>
  The middleware of the authentication service (\<open>internal/middleware/auth.go\<close>) and what login, refresh, logout and the
  guard do together. A guard passes the request on with a context, or refuses it.
\<close>

record auth_context =
  cx_user_id :: string
  cx_email :: string
  cx_roles :: "string list"
  cx_token_id :: string

text \<open>\<open>strings.SplitN(header, " ", 2)\<close> with \<open>Bearer\<close> before the first blank.\<close>

definition bearer_token :: "string \<Rightarrow> string option" where
  "bearer_token hdr =
     (let p = upto_char CHR '' '' hdr in
      if p = ''Bearer'' \<and> length p < length hdr then Some (drop (length p + 1) hdr) else None)"

definition token_revoked :: "auth_env \<Rightarrow> string \<Rightarrow> auth_state \<Rightarrow> bool option" where
  "token_revoked env tid st =
     (if ax_fail env QRevoked then None
      else Some (list_ex (\<lambda>r. rv_token_id r = tid \<and> rv_expires_at r > ax_db_now env) (st_revoked st)))"

definition is_user_active :: "auth_env \<Rightarrow> string \<Rightarrow> auth_state \<Rightarrow> bool option" where
  "is_user_active env user st =
     (if ax_fail env QActive then None else map_option au_active (select_by au_id user (st_users st)))"

definition update_session_activity :: "auth_env \<Rightarrow> string \<Rightarrow> auth_state \<Rightarrow> auth_state" where
  "update_session_activity env user st =
     (if ax_fail env QSessionUpdate then st
      else change_sessions (\<lambda>s. as_user_id s = user \<and> as_revoked_at s = None) (\<lambda>s. s\<lparr>as_last_activity := ax_clock env 1\<rparr>) st)"

definition authenticate ::
    "jwt_lib \<Rightarrow> jwt_manager \<Rightarrow> auth_env \<Rightarrow> string \<Rightarrow> auth_state \<Rightarrow> auth_context auth_response \<times> auth_state" where
  "authenticate lib m env hdr st =
     (if hdr = [] then (Refused 401 ''Missing authorization header'', st)
      else case bearer_token hdr of
        None \<Rightarrow> (Refused 401 ''Invalid authorization header format'', st)
      | Some tok \<Rightarrow>
      case validate_access_token lib m (ax_clock env 0) tok of
        Inl e \<Rightarrow> (Refused 401 (if e = ErrExpiredToken then ''Token has expired'' else ''Invalid token''), st)
      | Inr c \<Rightarrow>
      case token_revoked env (cl_token_id c) st of
        None \<Rightarrow> (Refused 500 ''Failed to validate token'', st)
      | Some revoked \<Rightarrow>
      if revoked then (Refused 401 ''Token has been revoked'', st)
      else case is_user_active env (cl_user_id c) st of
        None \<Rightarrow> (Refused 500 ''Failed to validate user'', st)
      | Some active \<Rightarrow>
      if \<not> active then (Refused 403 ''User account is inactive'', st)
      else (Responded 200 \<lparr>cx_user_id = cl_user_id c, cx_email = cl_email c, cx_roles = cl_roles c, cx_token_id = cl_token_id c\<rparr>,
            update_session_activity env (cl_user_id c) st))"

text \<open>The next three guards read what \<open>authenticate\<close> left in the context, if it ran.\<close>

definition require_role :: "string \<Rightarrow> string list option \<Rightarrow> unit auth_response" where
  "require_role role ctx =
     (case ctx of None \<Rightarrow> Refused 403 ''Forbidden''
      | Some roles \<Rightarrow> if list_ex (\<lambda>r. r = role) roles then Responded 200 () else Refused 403 ''Insufficient permissions'')"

definition require_any_role :: "string list \<Rightarrow> string list option \<Rightarrow> unit auth_response" where
  "require_any_role roles ctx =
     (case ctx of None \<Rightarrow> Refused 403 ''Forbidden''
      | Some user_roles \<Rightarrow>
          if list_ex (\<lambda>role. list_ex (\<lambda>r. r = role) user_roles) roles then Responded 200 ()
          else Refused 403 ''Insufficient permissions'')"

text \<open>\<open>user_has_permission\<close> is a function of the database.\<close>

definition require_permission ::
    "(string \<Rightarrow> string \<Rightarrow> bool) \<Rightarrow> auth_env \<Rightarrow> string \<Rightarrow> string option \<Rightarrow> unit auth_response" where
  "require_permission permitted env permission ctx =
     (case ctx of None \<Rightarrow> Refused 403 ''Forbidden''
      | Some user \<Rightarrow>
          if ax_fail env QPermission then Refused 500 ''Failed to check permissions''
          else if permitted user permission then Responded 200 () else Refused 403 ''Insufficient permissions'')"

definition optional_auth :: "jwt_lib \<Rightarrow> jwt_manager \<Rightarrow> time \<Rightarrow> string \<Rightarrow> (string \<times> string \<times> string list) option" where
  "optional_auth lib m now hdr =
     (if hdr = [] then None
      else case bearer_token hdr of None \<Rightarrow> None
      | Some tok \<Rightarrow>
          (case validate_access_token lib m now tok of Inl e \<Rightarrow> None | Inr c \<Rightarrow> Some (cl_user_id c, cl_email c, cl_roles c)))"

text \<open>The rate limit counts the recorded requests of the address in the last minute; the request is recorded in the background.\<close>

definition rate_limit ::
    "int \<Rightarrow> auth_env \<Rightarrow> http_headers \<Rightarrow> (string \<times> time) list \<Rightarrow> unit auth_response \<times> (string \<times> time) list" where
  "rate_limit limit env h requests =
     (let ip = get_ip_address h; n = length (filter (\<lambda>(a, t). a = ip \<and> t > ax_db_now env - minute) requests) in
      if \<not> ax_fail env QRateCount \<and> int n \<ge> limit then (Refused 429 ''Rate limit exceeded'', requests)
      else (Responded 200 (), requests @ [(ip, ax_clock env 0)]))"

section \<open>Lockout\<close>

definition locks_out :: "login_config \<Rightarrow> auth_env \<Rightarrow> string \<Rightarrow> auth_state \<Rightarrow> bool" where
  "locks_out cfg env email st \<longleftrightarrow> \<not> ax_fail env QAttemptCount \<and> \<not> ax_fail env QAttemptInsert
     \<and> int (recent_failures env email st) \<ge> lc_max_attempts cfg - 1"

lemma order_desc_last: "\<forall>a \<in> set xs. k a < k x \<Longrightarrow> order_desc k (xs @ [x]) = x # order_desc k xs"
  by (induction xs) (auto simp: order_desc_def)

fun login_run ::
    "login_config \<Rightarrow> bcrypt_lib \<Rightarrow> jwt_lib \<Rightarrow> jwt_manager \<Rightarrow> (auth_env \<times> http_headers \<times> login_request option) list \<Rightarrow> auth_state
     \<Rightarrow> login_answer auth_response list \<times> auth_state" where
  "login_run cfg bc lib m [] st = ([], st)"
| "login_run cfg bc lib m ((env, h, body) # rs) st =
     (let (r, st') = login cfg bc lib m env h body st; (as, st'') = login_run cfg bc lib m rs st' in (r # as, st''))"

lemma record_failure_locks:
  assumes "locks_out cfg env email st" "\<forall>a \<in> set (st_attempts st). la_email a = email \<longrightarrow> la_created_at a < ax_clock env (Suc k)"
    "ax_clock env' 0 < ax_clock env k + lc_lockout cfg"
  shows "is_account_locked env' email (record_login_attempt cfg env k email False h st) \<in> {None, Some True}"
proof -
  let ?x = "\<lparr>la_email = email, la_success = False, la_ip = get_ip_address h, la_agent = hh_user_agent h,
    la_locked_until = Some (ax_clock env k + lc_lockout cfg), la_created_at = ax_clock env (Suc k)\<rparr>"
  have "record_login_attempt cfg env k email False h st = st\<lparr>st_attempts := st_attempts st @ [?x]\<rparr>"
    using assms(1) by (simp add: record_login_attempt_def locks_out_def Let_def)
  moreover have "order_desc la_created_at (filter (\<lambda>a. la_email a = email) (st_attempts st) @ [?x])
      = ?x # order_desc la_created_at (filter (\<lambda>a. la_email a = email) (st_attempts st))"
    using assms(2) by (intro order_desc_last) auto
  ultimately show ?thesis using assms(3) by (simp add: is_account_locked_def)
qed

lemma login_locked:
  assumes "is_account_locked env (to_lower (lr_email r)) st \<in> {None, Some True}" "is_valid_email (lr_email r)"
  shows "\<exists>msg. login cfg bc lib m env h (Some r) st = (Refused 403 msg, st) \<or> login cfg bc lib m env h (Some r) st = (Refused 500 msg, st)"
  using assms by (auto simp: login_def Let_def)

text \<open>C20. A login that fails with the last failure the configuration allows within fifteen minutes locks the account: until the
  lockout ends every login for that address, with the right password too, is refused with 403 (or 500 when
  the database fails) and leaves no trace, so the lock neither grows nor shrinks.\<close>

theorem lockout_enforced:
  assumes "login cfg bc lib m env h (Some r) st = (Refused 401 msg, st1)" "locks_out cfg env (to_lower (lr_email r)) st"
    "\<forall>a \<in> set (st_attempts st). la_email a = to_lower (lr_email r) \<longrightarrow> la_created_at a < ax_clock env 2"
    "\<forall>(env', h', body) \<in> set rs. \<exists>r'. body = Some r' \<and> is_valid_email (lr_email r') \<and> to_lower (lr_email r') = to_lower (lr_email r)
       \<and> ax_clock env' 0 < ax_clock env 1 + lc_lockout cfg"
    "login_run cfg bc lib m rs st1 = (as, st2)"
  shows "st2 = st1 \<and> (\<forall>a \<in> set as. auth_status a \<in> {403, 500})"
proof -
  have st1: "st1 = record_login_attempt cfg env 1 (to_lower (lr_email r)) False h st"
    using assms(1) by (auto simp: login_def open_login_def Let_def split: option.splits if_splits sum.splits prod.splits)
  from assms(4,5) show ?thesis
  proof (induction rs arbitrary: as)
    case (Cons q rs)
    obtain env' h' body where q: "q = (env', h', body)" by (rule prod_cases3)
    with Cons.prems(1) obtain r' where r': "body = Some r'" "is_valid_email (lr_email r')" "to_lower (lr_email r') = to_lower (lr_email r)"
      "ax_clock env' 0 < ax_clock env 1 + lc_lockout cfg" by auto
    have "is_account_locked env' (to_lower (lr_email r)) st1 \<in> {None, Some True}"
      unfolding st1 using assms(2,3) r'(4) by (intro record_failure_locks) (simp_all add: numeral_2_eq_2)
    then obtain msg' where l: "login cfg bc lib m env' h' body st1 = (Refused 403 msg', st1) \<or> login cfg bc lib m env' h' body st1 = (Refused 500 msg', st1)"
      using login_locked [of env' r' st1 cfg bc lib m h'] r'(1,2,3) by auto
    with Cons.prems(2) obtain a as' where run: "login_run cfg bc lib m rs st1 = (as', st2)" "as = a # as'" "auth_status a \<in> {403, 500}"
      by (auto simp: q split: prod.splits)
    with Cons.IH [OF _ run(1)] Cons.prems(1) show ?case by simp
  qed simp
qed

section \<open>Refresh and logout\<close>

lemma find_session_None: "find_session user refresh st = None \<longleftrightarrow>
    (\<forall>s \<in> set (st_sessions st). as_user_id s = user \<longrightarrow> as_refresh_token s \<noteq> refresh)"
  by (auto simp: find_session_def select_by_None)

lemma refresh_refused:
  assumes "\<And>c. validate_refresh_token lib m (ax_clock env 0) tok = Inr c \<Longrightarrow> is_session_valid env (cl_user_id c) tok st \<in> {None, Some False}"
  shows "auth_status (fst (refresh_token cfg lib m env (Some tok) st)) \<in> {401, 500} \<and> snd (refresh_token cfg lib m env (Some tok) st) = st"
  using assms by (cases "validate_refresh_token lib m (ax_clock env 0) tok") (auto simp: refresh_token_def)

lemma validated_payload:
  "jwt_lib_ok lib \<Longrightarrow> jl_sign lib sec c = Inr tok \<Longrightarrow> validate_refresh_token lib m now tok = Inr c' \<Longrightarrow> c' = c"
  by (auto simp: validate_refresh_token_def validate_token_def split: sum.splits parse_failure.splits if_splits dest: sign_parse_payload)

text \<open>C24. A refresh swaps the token of its session and nothing else of it but the time of last activity: with the old token no further
  refresh succeeds, the new one is as valid as the old one was, and the session still ends when it was
  to end.\<close>

theorem refresh_rotates:
  assumes "jwt_lib_ok lib" "jl_sign lib sec c = Inr tok" "refresh_token cfg lib m env (Some tok) st = (Responded 200 tp, st')"
    "\<forall>s \<in> set (st_sessions st). as_refresh_token s \<noteq> tp_refresh_token tp"
    "\<exists>s \<in> set (st_sessions st). as_refresh_token s = tok"
  shows "auth_status (fst (refresh_token cfg lib m env' (Some tok) st')) \<in> {401, 500}
    \<and> is_session_valid env' (cl_user_id c) (tp_refresh_token tp) st' = is_session_valid env' (cl_user_id c) tok st
    \<and> map as_expires_at (st_sessions st') = map as_expires_at (st_sessions st)
    \<and> map as_revoked_at (st_sessions st') = map as_revoked_at (st_sessions st)"
proof -
  let ?P = "\<lambda>s. as_user_id s = cl_user_id c \<and> as_refresh_token s = tok"
  let ?f = "\<lambda>s. s\<lparr>as_refresh_token := tp_refresh_token tp, as_last_activity := ax_clock env 4\<rparr>"
  from assms(3) obtain c' where v: "validate_refresh_token lib m (ax_clock env 0) tok = Inr c'"
    and u: "update_session env (cl_user_id c') tok (tp_refresh_token tp) st = (True, st')"
    by (auto simp: refresh_token_def split: sum.splits option.splits if_splits prod.splits bool.splits)
  have c': "c' = c" using validated_payload [OF assms(1,2) v] .
  with u have st': "st' = change_sessions ?P ?f st" by (auto simp: update_session_def split: if_splits)
  have new: "tp_refresh_token tp \<noteq> tok" using assms(4,5) by auto
  have "find_session (cl_user_id c) tok st' = None"
    using new by (auto simp: find_session_None st' change_sessions_def)
  then have old: "is_session_valid e (cl_user_id c) tok st' \<in> {None, Some False}" for e
    by (simp add: is_session_valid_def)
  have "auth_status (fst (refresh_token cfg lib m env' (Some tok) st')) \<in> {401, 500}"
    using refresh_refused [of lib m env' tok st' cfg] validated_payload [OF assms(1,2), of m "ax_clock env' 0"] old by blast
  moreover have "find_session (cl_user_id c) (tp_refresh_token tp) st' = map_option ?f (find_session (cl_user_id c) tok st)"
  proof -
    have "select_by (\<lambda>s. (as_user_id s, as_refresh_token s)) (cl_user_id c, tp_refresh_token tp) (map (\<lambda>s. if ?P s then ?f s else s) ss)
        = map_option ?f (select_by (\<lambda>s. (as_user_id s, as_refresh_token s)) (cl_user_id c, tok) ss)"
      if "\<forall>s \<in> set ss. as_refresh_token s \<noteq> tp_refresh_token tp" for ss
      using that by (induction ss) auto
    with assms(4) show ?thesis by (simp add: find_session_def st' change_sessions_def)
  qed
  then have "is_session_valid env' (cl_user_id c) (tp_refresh_token tp) st' = is_session_valid env' (cl_user_id c) tok st"
    by (auto simp: is_session_valid_def split: option.split)
  ultimately show ?thesis by (simp add: st' change_sessions_def comp_def if_distrib cong: if_cong)
qed

lemma bearer_token_header: "bearer_token (''Bearer '' @ tok) = Some tok"
  by (simp add: bearer_token_def upto_char_def)

text \<open>Logging out of all sessions ends every refresh token of the user, but the access token stays good until it expires: no
  handler writes the table the guard looks revoked tokens up in.\<close>

theorem logout_leaves_access_token:
  assumes "jwt_lib_ok lib" "generate_token_pair lib m now tid user email roles = Inr tp"
    "logout env h [] st = (Responded 200 (), st')" "hh_user_id h = Some user"
    "select_by au_id user (st_users st) = Some u" "au_active u" "\<forall>r \<in> set (st_revoked st). Inr (rv_token_id r) \<noteq> tid"
    "now \<le> ax_clock env' 0" "ax_clock env' 0 < numeric_date (now + jm_access_ttl m)"
    "\<not> ax_fail env' QRevoked" "\<not> ax_fail env' QActive"
  shows "auth_status (fst (refresh_token cfg lib m env'' (Some (tp_refresh_token tp)) st')) \<in> {401, 500}
    \<and> (\<exists>cx. fst (authenticate lib m env' (''Bearer '' @ tp_access_token tp) st') = Responded 200 cx \<and> cx_user_id cx = user \<and> cx_roles cx = roles)"
proof -
  from generated_pair [OF assms(2)] obtain i where i: "tid = Inr i" and
    a: "jl_sign lib (jm_access_secret m) (token_claims m now user email roles i False (now + jm_access_ttl m)) = Inr (tp_access_token tp)" and
    r: "jl_sign lib (jm_refresh_secret m) (token_claims m now user email roles i True (now + jm_refresh_ttl m)) = Inr (tp_refresh_token tp)"
    by blast
  from assms(3,4) have st': "st' = change_sessions (\<lambda>s. as_user_id s = user \<and> as_revoked_at s = None)
      (\<lambda>s. s\<lparr>as_revoked_at := Some (ax_clock env 0)\<rparr>) st"
    by (auto simp: logout_def revoke_all_sessions_def split: if_splits prod.splits)
  have revoked: "as_revoked_at s \<noteq> None" if f: "find_session user tok st' = Some s" for s tok
  proof -
    from select_by_SomeD [OF f [unfolded find_session_def]] have s: "s \<in> set (st_sessions st')" "as_user_id s = user" by simp_all
    let ?f = "\<lambda>s. if as_user_id s = user \<and> as_revoked_at s = None then s\<lparr>as_revoked_at := Some (ax_clock env 0)\<rparr> else s"
    from s(1) have "s \<in> ?f ` set (st_sessions st)" by (simp add: st' change_sessions_def)
    then obtain s0 where "s = ?f s0" by (rule imageE)
    with s(2) show ?thesis by (cases "as_revoked_at s0 = None") (simp_all split: if_splits)
  qed
  have "is_session_valid e user tok st' \<in> {None, Some False}" for e tok
    using revoked [of tok] by (auto simp: is_session_valid_def split: option.splits)
  then have "auth_status (fst (refresh_token cfg lib m env'' (Some (tp_refresh_token tp)) st')) \<in> {401, 500}"
    using refresh_refused [of lib m env'' "tp_refresh_token tp" st' cfg] validated_payload [OF assms(1) r, of m "ax_clock env'' 0"]
    by (metis token_claims_simps(1))
  moreover have "validate_access_token lib m (ax_clock env' 0) (tp_access_token tp)
      = Inr (token_claims m now user email roles i False (now + jm_access_ttl m))"
    using sign_parse [OF assms(1) a, of "ax_clock env' 0"] assms(8,9)
    by (simp add: validate_access_token_def validate_token_def token_claims_valid)
  moreover have "st_users st' = st_users st" "st_revoked st' = st_revoked st" by (simp_all add: st' change_sessions_def)
  ultimately show ?thesis
    using assms(5,6,7,10,11) i
    by (auto simp: authenticate_def bearer_token_header [simplified] token_revoked_def is_user_active_def list_ex_iff)
qed

end
