(* ===== verification/AuthAccounts.thy ===== *)
theory AuthAccounts
  imports AuthLogin
begin

text \<open>
  Registration with the verification of the mail address (\<open>internal/handlers/registration.go\<close>) and the reset and change of
  a password (\<open>internal/handlers/password_reset.go\<close>). A transaction that does not commit leaves the tables as they
  were; a mail is handed over where the code does it, before the commit.
\<close>

section \<open>Hashes\<close>

text \<open>\<open>bcrypt\<close> refuses more than 72 bytes; the hash of a token ignores the error and is then empty.\<close>

definition hash_password :: "bcrypt_lib \<Rightarrow> auth_env \<Rightarrow> nat \<Rightarrow> string \<Rightarrow> string option" where
  "hash_password bc env k p = (if ax_fail env QHash \<or> 72 < length p then None else Some (bc_hash bc (ax_salt env k) p))"

definition hash_token :: "bcrypt_lib \<Rightarrow> auth_env \<Rightarrow> nat \<Rightarrow> string \<Rightarrow> string" where
  "hash_token bc env k t = (if ax_fail env QHash \<or> 72 < length t then [] else bc_hash bc (ax_salt env k) t)"

definition generate_token :: "bcrypt_lib \<Rightarrow> auth_env \<Rightarrow> nat \<Rightarrow> (string \<times> string) option" where
  "generate_token bc env k = (if ax_fail env QRandom then None else Some (ax_random env 0, hash_token bc env k (ax_random env 0)))"

section \<open>Registration\<close>

record registration_config =
  rc_require_verification :: bool
  rc_policy :: password_policy
  rc_token_ttl :: duration
  rc_enabled :: bool

record registration_request =
  rg_email :: string
  rg_password :: string
  rg_confirm :: string
  rg_first_name :: string
  rg_last_name :: string
  rg_phone :: string
  rg_organization :: string
  rg_accept_terms :: bool

record registration_answer =
  ra_user_id :: string
  ra_email :: string
  ra_verification_sent :: bool
  ra_message :: string
  ra_created_at :: time

definition validate_registration_request :: "registration_config \<Rightarrow> registration_request \<Rightarrow> string option" where
  "validate_registration_request cfg r =
     (if \<not> is_valid_email (rg_email r) then Some ''invalid email format''
      else if rg_password r \<noteq> rg_confirm r then Some ''passwords do not match''
      else case validate_password_strength (rc_policy cfg) (rg_password r) of Some e \<Rightarrow> Some e
      | None \<Rightarrow> if \<not> rg_accept_terms r then Some ''you must accept the terms and conditions'' else None)"

definition generate_username :: "auth_env \<Rightarrow> string \<Rightarrow> string" where
  "generate_username env email = upto_char CHR ''@'' email @ ''_'' @ take 8 (ax_new_id env 1)"

definition get_registration_message :: "bool \<Rightarrow> string" where
  "get_registration_message sent =
     (if sent then ''Registration successful! Please check your email to verify your account.''
      else ''Registration successful! You can now log in.'')"

definition new_user :: "auth_env \<Rightarrow> registration_request \<Rightarrow> string \<Rightarrow> auth_user" where
  "new_user env r hash =
     \<lparr>au_id = ax_new_id env 0, au_email = to_lower (rg_email r), au_username = generate_username env (rg_email r),
      au_password_hash = hash, au_first_name = rg_first_name r, au_last_name = rg_last_name r, au_phone = rg_phone r,
      au_organization = rg_organization r, au_active = True, au_verified = False, au_role = ''user'', au_subscription = ''basic'',
      au_created_at = ax_clock env 0, au_updated_at = ax_clock env 0\<rparr>"

text \<open>The users table refuses an address, a name or an identifier it has.\<close>

definition accepts_user :: "auth_user list \<Rightarrow> auth_user \<Rightarrow> bool" where
  "accepts_user us u \<longleftrightarrow> (\<forall>v \<in> set us. au_id v \<noteq> au_id u \<and> au_email v \<noteq> au_email u \<and> au_username v \<noteq> au_username u)"

definition set_user :: "string \<Rightarrow> (auth_user \<Rightarrow> auth_user) \<Rightarrow> auth_state \<Rightarrow> auth_state" where
  "set_user i f st = st\<lparr>st_users := update_by au_id i f (st_users st)\<rparr>"

definition commit_registration ::
    "auth_env \<Rightarrow> registration_request \<Rightarrow> auth_state \<Rightarrow> auth_state \<Rightarrow> bool \<Rightarrow> registration_answer auth_response \<times> auth_state" where
  "commit_registration env r st st' sent =
     (if ax_fail env QCommit then (Refused 500 ''Failed to complete registration'', st\<lparr>st_mails := st_mails st'\<rparr>)
      else (Responded 201 \<lparr>ra_user_id = ax_new_id env 0, ra_email = rg_email r, ra_verification_sent = sent,
              ra_message = get_registration_message sent, ra_created_at = ax_clock env 0\<rparr>, st'))"

definition register_account ::
    "registration_config \<Rightarrow> bcrypt_lib \<Rightarrow> auth_env \<Rightarrow> registration_request option \<Rightarrow> auth_state
     \<Rightarrow> registration_answer auth_response \<times> auth_state" where
  "register_account cfg bc env body st =
     (if \<not> rc_enabled cfg then (Refused 403 ''Registration is currently disabled'', st)
      else case body of None \<Rightarrow> (Refused 400 ''Invalid request payload'', st)
      | Some r \<Rightarrow>
      case validate_registration_request cfg r of Some e \<Rightarrow> (Refused 400 e, st)
      | None \<Rightarrow>
      if ax_fail env QExists then (Refused 500 ''Failed to check user existence'', st)
      else if select_by au_email (to_lower (rg_email r)) (st_users st) \<noteq> None
      then (Refused 409 ''User with this email already exists'', st)
      else case hash_password bc env 0 (rg_password r) of None \<Rightarrow> (Refused 500 ''Failed to process password'', st)
      | Some hash \<Rightarrow>
      if ax_fail env QBegin then (Refused 500 ''Failed to start transaction'', st)
      else (let u = new_user env r hash in
        if ax_fail env QUserInsert \<or> \<not> accepts_user (st_users st) u then (Refused 500 ''Failed to create user'', st)
        else if ax_fail env QRoleInsert then (Refused 500 ''Failed to assign user role'', st)
        else if ax_fail env QPreferencesInsert then (Refused 500 ''Failed to create user preferences'', st)
        else (let st1 = st\<lparr>st_users := st_users st @ [u],
                           st_roles := st_roles st @ [\<lparr>ro_user_id = au_id u, ro_role = ''user'', ro_active = True\<rparr>],
                           st_preferences := st_preferences st @ [au_id u]\<rparr> in
          if rc_require_verification cfg
          then (case generate_token bc env 1 of
                  None \<Rightarrow> (Refused 500 ''Failed to generate verification token'', st)
                | Some (tok, h) \<Rightarrow>
                    if ax_fail env QTokenInsert then (Refused 500 ''Failed to create verification token'', st)
                    else commit_registration env r st
                      (st1\<lparr>st_verifications := st_verifications st1 @
                            [\<lparr>tr_user_id = au_id u, tr_email = rg_email r, tr_hash = h, tr_expires_at = ax_clock env 0 + rc_token_ttl cfg,
                              tr_used_at = None, tr_created_at = ax_clock env 0\<rparr>],
                           st_mails := st_mails st1 @ [MailVerification (rg_email r) tok (rg_first_name r)]\<rparr>) True)
          else if ax_fail env QUserVerify then (Refused 500 ''Failed to verify user'', st)
          else commit_registration env r st
                 ((set_user (au_id u) (\<lambda>v. v\<lparr>au_verified := True\<rparr>) st1)
                    \<lparr>st_mails := st_mails st1 @ [MailWelcome (rg_email r) (rg_first_name r)]\<rparr>) False)))"

text \<open>The first name for the mail is read after the commit; an error there leaves it empty.\<close>

definition first_name_of :: "auth_env \<Rightarrow> string \<Rightarrow> auth_state \<Rightarrow> string" where
  "first_name_of env user st =
     (if ax_fail env QEmail then [] else case select_by au_id user (st_users st) of None \<Rightarrow> [] | Some u \<Rightarrow> au_first_name u)"

definition use_tokens :: "string \<Rightarrow> time \<Rightarrow> token_row list \<Rightarrow> token_row list" where
  "use_tokens hash t rows = update_by tr_hash hash (\<lambda>r. r\<lparr>tr_used_at := Some t\<rparr>) rows"

definition verify_email ::
    "bcrypt_lib \<Rightarrow> auth_env \<Rightarrow> string option \<Rightarrow> auth_state \<Rightarrow> time auth_response \<times> auth_state" where
  "verify_email bc env body st =
     (case body of None \<Rightarrow> (Refused 400 ''Invalid request payload'', st)
      | Some tok \<Rightarrow>
      if tok = [] then (Refused 400 ''Verification token is required'', st)
      else (let h = hash_token bc env 0 tok in
        if ax_fail env QTokenSelect then (Refused 500 ''Failed to verify token'', st)
        else case select_by tr_hash h (st_verifications st) of
          None \<Rightarrow> (Refused 404 ''Invalid or expired verification token'', st)
        | Some row \<Rightarrow>
            if tr_used_at row \<noteq> None then (Refused 409 ''Email already verified'', st)
            else if ax_clock env 0 > tr_expires_at row then (Refused 410 ''Verification token has expired'', st)
            else if ax_fail env QBegin then (Refused 500 ''Failed to start transaction'', st)
            else if ax_fail env QUserVerify then (Refused 500 ''Failed to verify user'', st)
            else if ax_fail env QTokenUse then (Refused 500 ''Failed to update token'', st)
            else if ax_fail env QCommit then (Refused 500 ''Failed to complete verification'', st)
            else (let now = ax_clock env 1;
                      st1 = (set_user (tr_user_id row) (\<lambda>u. u\<lparr>au_verified := True, au_updated_at := now\<rparr>) st)
                              \<lparr>st_verifications := use_tokens h now (st_verifications st)\<rparr>
                  in (Responded 200 now,
                      st1\<lparr>st_mails := st_mails st1 @ [MailWelcome (tr_email row) (first_name_of env (tr_user_id row) st1)]\<rparr>))))"

definition resend_verification ::
    "registration_config \<Rightarrow> bcrypt_lib \<Rightarrow> auth_env \<Rightarrow> string option \<Rightarrow> auth_state \<Rightarrow> string auth_response \<times> auth_state" where
  "resend_verification cfg bc env body st =
     (case body of None \<Rightarrow> (Refused 400 ''Invalid request payload'', st)
      | Some email \<Rightarrow>
      if ax_fail env QUser then (Refused 500 ''Failed to process request'', st)
      else case find (\<lambda>u. au_email u = to_lower email \<and> au_active u) (st_users st) of
        None \<Rightarrow> (Responded 200 ''If the email exists, a verification link has been sent'', st)
      | Some u \<Rightarrow>
          if au_verified u then (Refused 409 ''Email is already verified'', st)
          else case generate_token bc env 0 of None \<Rightarrow> (Refused 500 ''Failed to generate token'', st)
          | Some (tok, h) \<Rightarrow>
              if ax_fail env QTokenInsert then (Refused 500 ''Failed to create verification token'', st)
              else (Responded 200 ''Verification email sent successfully'',
                st\<lparr>st_verifications := st_verifications st @
                     [\<lparr>tr_user_id = au_id u, tr_email = email, tr_hash = h, tr_expires_at = ax_clock env 0 + rc_token_ttl cfg,
                       tr_used_at = None, tr_created_at = ax_clock env 0\<rparr>],
                   st_mails := st_mails st @ [MailVerification email tok (au_first_name u)]\<rparr>))"

section \<open>Password reset and change\<close>

record reset_config =
  rs_token_ttl :: duration
  rs_cooldown :: duration
  rs_policy :: password_policy

record reset_request =
  rq_token :: string
  rq_password :: string
  rq_confirm :: string

definition can_request_reset :: "reset_config \<Rightarrow> auth_env \<Rightarrow> string \<Rightarrow> auth_state \<Rightarrow> bool option" where
  "can_request_reset cfg env user st =
     (if ax_fail env QLastReset then None
      else case map tr_created_at (filter (\<lambda>r. tr_user_id r = user) (st_resets st)) of
        [] \<Rightarrow> Some True
      | t # ts \<Rightarrow> Some (ax_clock env 0 - fold max ts t > rs_cooldown cfg))"

definition request_password_reset ::
    "reset_config \<Rightarrow> bcrypt_lib \<Rightarrow> auth_env \<Rightarrow> string option \<Rightarrow> auth_state \<Rightarrow> unit auth_response \<times> auth_state" where
  "request_password_reset cfg bc env body st =
     (case body of None \<Rightarrow> (Refused 400 ''Invalid request payload'', st)
      | Some addr \<Rightarrow>
      if \<not> is_valid_email addr then (Refused 400 ''Invalid email format'', st)
      else if ax_fail env QUser then (Refused 500 ''Failed to process request'', st)
      else (let email = to_lower addr in
        case select_by au_email email (st_users st) of
          None \<Rightarrow> (Responded 200 (), st)
        | Some u \<Rightarrow>
            if \<not> au_active u then (Responded 200 (), st)
            else case can_request_reset cfg env (au_id u) st of None \<Rightarrow> (Refused 500 ''Failed to process request'', st)
            | Some can \<Rightarrow>
            if \<not> can then (Refused 429 ''Please wait before requesting another password reset'', st)
            else case generate_token bc env 0 of None \<Rightarrow> (Refused 500 ''Failed to generate reset token'', st)
            | Some (tok, h) \<Rightarrow>
                if ax_fail env QTokenInsert then (Refused 500 ''Failed to create reset token'', st)
                else (Responded 200 (),
                  st\<lparr>st_resets := st_resets st @
                       [\<lparr>tr_user_id = au_id u, tr_email = email, tr_hash = h, tr_expires_at = ax_clock env 1 + rs_token_ttl cfg,
                         tr_used_at = None, tr_created_at = ax_clock env 1\<rparr>],
                     st_mails := st_mails st @ [MailReset email tok (au_first_name u)]\<rparr>)))"

definition reset_password ::
    "reset_config \<Rightarrow> bcrypt_lib \<Rightarrow> auth_env \<Rightarrow> reset_request option \<Rightarrow> auth_state \<Rightarrow> time auth_response \<times> auth_state" where
  "reset_password cfg bc env body st =
     (case body of None \<Rightarrow> (Refused 400 ''Invalid request payload'', st)
      | Some r \<Rightarrow>
      if rq_password r \<noteq> rq_confirm r then (Refused 400 ''Passwords do not match'', st)
      else case validate_password_strength (rs_policy cfg) (rq_password r) of Some e \<Rightarrow> (Refused 400 e, st)
      | None \<Rightarrow>
      (let h = hash_token bc env 0 (rq_token r) in
       if ax_fail env QTokenSelect then (Refused 500 ''Failed to verify token'', st)
       else case select_by tr_hash h (st_resets st) of
         None \<Rightarrow> (Refused 404 ''Invalid or expired reset token'', st)
       | Some row \<Rightarrow>
           if tr_used_at row \<noteq> None then (Refused 409 ''Reset token has already been used'', st)
           else if ax_clock env 0 > tr_expires_at row then (Refused 410 ''Reset token has expired'', st)
           else case hash_password bc env 1 (rq_password r) of None \<Rightarrow> (Refused 500 ''Failed to process password'', st)
           | Some hash \<Rightarrow>
           if ax_fail env QBegin then (Refused 500 ''Failed to start transaction'', st)
           else if ax_fail env QPasswordUpdate then (Refused 500 ''Failed to update password'', st)
           else if ax_fail env QTokenUse then (Refused 500 ''Failed to update token'', st)
           else if ax_fail env QSessionRevokeAll then (Refused 500 ''Failed to revoke sessions'', st)
           else if ax_fail env QCommit then (Refused 500 ''Failed to complete password reset'', st)
           else (let now = ax_clock env 1; user = tr_user_id row;
                     st1 = (set_user user (\<lambda>u. u\<lparr>au_password_hash := hash, au_updated_at := now\<rparr>) st)
                             \<lparr>st_resets := use_tokens h now (st_resets st)\<rparr>;
                     st2 = change_sessions (\<lambda>s. as_user_id s = user \<and> as_revoked_at s = None) (\<lambda>s. s\<lparr>as_revoked_at := Some now\<rparr>) st1
                 in (Responded 200 now,
                     st2\<lparr>st_mails := st_mails st2 @ [MailPasswordChanged (tr_email row) (first_name_of env user st2)]\<rparr>))))"

record change_request =
  cg_current :: string
  cg_new :: string
  cg_confirm :: string

definition change_password ::
    "reset_config \<Rightarrow> bcrypt_lib \<Rightarrow> auth_env \<Rightarrow> http_headers \<Rightarrow> change_request option \<Rightarrow> auth_state \<Rightarrow> time auth_response \<times> auth_state" where
  "change_password cfg bc env h body st =
     (case hh_user_id h of None \<Rightarrow> (Refused 401 ''Unauthorized'', st)
      | Some user \<Rightarrow>
      case body of None \<Rightarrow> (Refused 400 ''Invalid request payload'', st)
      | Some r \<Rightarrow>
      if cg_new r \<noteq> cg_confirm r then (Refused 400 ''Passwords do not match'', st)
      else case validate_password_strength (rs_policy cfg) (cg_new r) of Some e \<Rightarrow> (Refused 400 e, st)
      | None \<Rightarrow>
      case (if ax_fail env QUser then None else select_by au_id user (st_users st)) of
        None \<Rightarrow> (Refused 500 ''Failed to get user'', st)
      | Some u \<Rightarrow>
          if \<not> bc_matches bc (au_password_hash u) (cg_current r) then (Refused 401 ''Current password is incorrect'', st)
          else if bc_matches bc (au_password_hash u) (cg_new r)
          then (Refused 400 ''New password must be different from current password'', st)
          else case hash_password bc env 0 (cg_new r) of None \<Rightarrow> (Refused 500 ''Failed to process password'', st)
          | Some hash \<Rightarrow>
          if ax_fail env QPasswordUpdate then (Refused 500 ''Failed to update password'', st)
          else (let now = ax_clock env 0; st1 = set_user user (\<lambda>u. u\<lparr>au_password_hash := hash, au_updated_at := now\<rparr>) st in
            (Responded 200 now, st1\<lparr>st_mails := st_mails st1 @ [MailPasswordChanged (au_email u) (au_first_name u)]\<rparr>)))"

end
