(* ===== verification/AuthAccountFacts.thy ===== *)
theory AuthAccountFacts
  imports AuthAccounts
begin

text \<open>
  What registration, verification, reset and change of a password do together: the requests of a client in a row, and
  what follows from the salt a token is hashed with when its row is looked up again.
\<close>

section \<open>Requests in a row\<close>

datatype account_request =
    ARegister "registration_request option" | AVerify "string option" | AResend "string option"
  | ARequestReset "string option" | AReset "reset_request option" | AChange http_headers "change_request option"

fun account_step ::
    "registration_config \<Rightarrow> reset_config \<Rightarrow> bcrypt_lib \<Rightarrow> auth_env \<Rightarrow> account_request \<Rightarrow> auth_state \<Rightarrow> nat \<times> auth_state" where
  "account_step cfg rcfg bc env (ARegister b) st = (case register_account cfg bc env b st of (a, st') \<Rightarrow> (auth_status a, st'))"
| "account_step cfg rcfg bc env (AVerify b) st = (case verify_email bc env b st of (a, st') \<Rightarrow> (auth_status a, st'))"
| "account_step cfg rcfg bc env (AResend b) st = (case resend_verification cfg bc env b st of (a, st') \<Rightarrow> (auth_status a, st'))"
| "account_step cfg rcfg bc env (ARequestReset b) st = (case request_password_reset rcfg bc env b st of (a, st') \<Rightarrow> (auth_status a, st'))"
| "account_step cfg rcfg bc env (AReset b) st = (case reset_password rcfg bc env b st of (a, st') \<Rightarrow> (auth_status a, st'))"
| "account_step cfg rcfg bc env (AChange h b) st = (case change_password rcfg bc env h b st of (a, st') \<Rightarrow> (auth_status a, st'))"

fun account_run ::
    "registration_config \<Rightarrow> reset_config \<Rightarrow> bcrypt_lib \<Rightarrow> (auth_env \<times> account_request) list \<Rightarrow> auth_state \<Rightarrow> nat list \<times> auth_state" where
  "account_run cfg rcfg bc [] st = ([], st)"
| "account_run cfg rcfg bc ((env, q) # qs) st =
     (case account_step cfg rcfg bc env q st of (n, st') \<Rightarrow> (case account_run cfg rcfg bc qs st' of (ns, st'') \<Rightarrow> (n # ns, st'')))"

fun presents_token :: "account_request \<Rightarrow> bool" where
  "presents_token (AVerify b) = True"
| "presents_token (AReset b) = True"
| "presents_token q = False"

definition run_salts :: "(auth_env \<times> account_request) list \<Rightarrow> string list" where
  "run_salts qs = concat (map (\<lambda>(env, q). [ax_salt env 0, ax_salt env 1]) qs)"

section \<open>Token rows and their salts\<close>

definition token_hashes :: "auth_state \<Rightarrow> string set" where
  "token_hashes st = tr_hash ` set (st_verifications st) \<union> tr_hash ` set (st_resets st)"

definition token_rows_ok :: "bcrypt_lib \<Rightarrow> string set \<Rightarrow> auth_state \<Rightarrow> bool" where
  "token_rows_ok bc S st \<longleftrightarrow> token_hashes st \<subseteq> {h. \<exists>s \<in> S. \<exists>t. h = bc_hash bc s t}"

lemma token_rows_ok_change:
  "token_rows_ok bc S st \<Longrightarrow> token_hashes st' \<subseteq> insert (bc_hash bc s t) (token_hashes st) \<Longrightarrow> token_rows_ok bc (insert s S) st'"
  unfolding token_rows_ok_def by blast

lemma token_rows_ok_mono: "token_rows_ok bc S st \<Longrightarrow> S \<subseteq> S' \<Longrightarrow> token_hashes st' = token_hashes st \<Longrightarrow> token_rows_ok bc S' st'"
  unfolding token_rows_ok_def by blast

text \<open>A look-up hashes with the salt of its own request, which no row has.\<close>

lemma fresh_salt_finds_nothing:
  assumes "bcrypt_ok bc" "token_rows_ok bc S st" "ax_salt env k \<notin> S"
  shows "select_by tr_hash (hash_token bc env k t) (st_verifications st) = None"
    and "select_by tr_hash (hash_token bc env k t) (st_resets st) = None"
proof -
  have "hash_token bc env k t \<noteq> bc_hash bc s u" if "s \<in> S" for s u
    using assms(1,3) that unfolding bcrypt_ok_def hash_token_def by (metis (full_types))
  with assms(2) have "hash_token bc env k t \<notin> token_hashes st" unfolding token_rows_ok_def by blast
  then show "select_by tr_hash (hash_token bc env k t) (st_verifications st) = None"
    "select_by tr_hash (hash_token bc env k t) (st_resets st) = None" unfolding token_hashes_def select_by_None by blast+
qed

lemma generated_token_salted:
  assumes "generate_token bc env k = Some (tok, h)" "\<not> ax_fail env QHash" "length (ax_random env 0) \<le> 72"
  shows "h = bc_hash bc (ax_salt env k) tok"
  using assms by (auto simp: generate_token_def hash_token_def split: if_splits)

lemma verify_email_fresh:
  assumes "bcrypt_ok bc" "token_rows_ok bc S st" "ax_salt env 0 \<notin> S" "verify_email bc env b st = (a, st')"
  shows "st' = st \<and> auth_status a \<in> {400, 404, 500}"
  using assms(4) fresh_salt_finds_nothing(1) [OF assms(1-3)]
  by (auto simp: verify_email_def Let_def split: option.splits if_splits)

lemma reset_password_fresh:
  assumes "bcrypt_ok bc" "token_rows_ok bc S st" "ax_salt env 0 \<notin> S" "reset_password cfg bc env b st = (a, st')"
  shows "st' = st \<and> auth_status a \<in> {400, 404, 500}"
  using assms(4) fresh_salt_finds_nothing(2) [OF assms(1-3)]
  by (auto simp: reset_password_def Let_def split: option.splits if_splits)


definition verified_ids :: "auth_state \<Rightarrow> string set" where
  "verified_ids st = au_id ` {u \<in> set (st_users st). au_verified u}"

lemma verified_ids_set_user [simp]:
  assumes "\<And>u. au_id (f u) = au_id u" "\<And>u. au_verified (f u) = au_verified u"
  shows "verified_ids (set_user i f st) = verified_ids st"
proof -
  have *: "au_id ` {u \<in> set (map g us). au_verified u} = au_id ` {u \<in> set us. au_verified u}"
    if g: "\<And>u. au_id (g u) = au_id u" "\<And>u. au_verified (g u) = au_verified u" for g us
    using g by (induction us) (auto simp: image_def)
  have u: "st_users (set_user i f st) = map (\<lambda>r. if au_id r = i then f r else r) (st_users st)" by (simp add: set_user_def update_by_def)
  show ?thesis unfolding verified_ids_def u by (rule *) (simp_all add: assms)
qed

lemma token_hashes_set_user [simp]: "token_hashes (set_user i f st) = token_hashes st"
  by (simp add: token_hashes_def set_user_def)

lemma token_hashes_mails [simp]: "token_hashes (st\<lparr>st_mails := ms\<rparr>) = token_hashes st"
  by (simp add: token_hashes_def)

lemma verified_ids_mails [simp]: "verified_ids (st\<lparr>st_mails := ms\<rparr>) = verified_ids st"
  by (simp add: verified_ids_def)

definition adds_one_token :: "bcrypt_lib \<Rightarrow> auth_env \<Rightarrow> auth_state \<Rightarrow> auth_state \<Rightarrow> bool" where
  "adds_one_token bc env st st' \<longleftrightarrow>
     (\<exists>k \<in> {0, 1}. \<exists>t. token_hashes st' \<subseteq> insert (bc_hash bc (ax_salt env k) t) (token_hashes st))"

lemma adds_one_tokenI:
  "token_hashes st' = token_hashes st \<Longrightarrow> adds_one_token bc env st st'"
  "k \<in> {0, 1} \<Longrightarrow> token_hashes st' = insert (bc_hash bc (ax_salt env k) t) (token_hashes st) \<Longrightarrow> adds_one_token bc env st st'"
  unfolding adds_one_token_def by blast+

lemma generated_token_adds_one:
  assumes "generate_token bc env k = Some (tok, h)" "k \<in> {0, 1}" "token_hashes st' = insert h (token_hashes st)"
    "\<not> ax_fail env QHash" "length (ax_random env 0) \<le> 72"
  shows "adds_one_token bc env st st'"
  using adds_one_tokenI(2) [OF assms(2) assms(3) [unfolded generated_token_salted [OF assms(1,4,5)]]] .

lemma resend_adds_one:
  assumes "\<not> ax_fail env QHash" "length (ax_random env 0) \<le> 72" "resend_verification cfg bc env b st = (a, st')"
  shows "adds_one_token bc env st st' \<and> verified_ids st' = verified_ids st"
proof -
  from assms(3) have "st' = st \<or> (\<exists>tok h. generate_token bc env 0 = Some (tok, h)
      \<and> token_hashes st' = insert h (token_hashes st) \<and> st_users st' = st_users st)"
    by (auto simp: resend_verification_def token_hashes_def split: option.splits if_splits)
  then show ?thesis
    using assms(1,2) by (auto simp: verified_ids_def intro: adds_one_tokenI(1) generated_token_adds_one)
qed

lemma request_reset_adds_one:
  assumes "\<not> ax_fail env QHash" "length (ax_random env 0) \<le> 72" "request_password_reset cfg bc env b st = (a, st')"
  shows "adds_one_token bc env st st' \<and> verified_ids st' = verified_ids st"
proof -
  from assms(3) have "st' = st \<or> (\<exists>tok h. generate_token bc env 0 = Some (tok, h)
      \<and> token_hashes st' = insert h (token_hashes st) \<and> st_users st' = st_users st)"
    by (auto simp: request_password_reset_def token_hashes_def Let_def split: option.splits if_splits)
  then show ?thesis
    using assms(1,2) by (auto simp: verified_ids_def intro: adds_one_tokenI(1) generated_token_adds_one)
qed

lemma change_password_adds_none:
  "change_password cfg bc env h b st = (a, st') \<Longrightarrow> adds_one_token bc env st st' \<and> verified_ids st' = verified_ids st"
  by (auto simp: change_password_def Let_def intro!: adds_one_tokenI(1) split: option.splits if_splits)


lemma verified_ids_new_user: "st_users st' = st_users st @ [new_user env r h] \<Longrightarrow> verified_ids st' = verified_ids st"
  unfolding verified_ids_def by (rule arg_cong [of _ _ "image au_id"]) (auto simp: new_user_def)

lemma commit_registration_cases:
  "commit_registration env r st st' sent = (a, st'') \<Longrightarrow> st'' = st' \<or> st'' = st\<lparr>st_mails := st_mails st'\<rparr>"
  by (auto simp: commit_registration_def split: if_splits)

lemma register_cases:
  assumes "register_account cfg bc env b st = (a, st')"
  shows "st' = st \<or> (\<exists>r st1 sent. commit_registration env r st st1 sent = (a, st') \<and>
     (\<exists>tok h. generate_token bc env 1 = Some (tok, h) \<and> token_hashes st1 = insert h (token_hashes st) \<and> verified_ids st1 = verified_ids st
      \<or> \<not> rc_require_verification cfg \<and> token_hashes st1 = token_hashes st))"
proof (cases b)
  case (Some r)
  show ?thesis
    using assms unfolding register_account_def Let_def Some
    apply (simp split: if_split_asm option.split_asm prod.split_asm)
    subgoal by (intro disjI2 exI conjI, assumption) (simp add: token_hashes_def, simp add: verified_ids_new_user)
    subgoal by (intro disjI2 exI conjI, assumption) (simp add: token_hashes_def set_user_def)
    done
qed (use assms in \<open>auto simp: register_account_def split: if_splits\<close>)

lemma register_adds_one:
  assumes "\<not> ax_fail env QHash" "length (ax_random env 0) \<le> 72" "register_account cfg bc env b st = (a, st')"
  shows "adds_one_token bc env st st' \<and> (rc_require_verification cfg \<longrightarrow> verified_ids st' = verified_ids st)"
  using register_cases [OF assms(3)]
  by (elim disjE exE conjE) (use assms(1,2) in \<open>auto dest!: commit_registration_cases intro: adds_one_tokenI(1) generated_token_adds_one\<close>)

lemma account_step_keeps:
  assumes "bcrypt_ok bc" "token_rows_ok bc S st" "ax_salt env 0 \<notin> S" "\<not> ax_fail env QHash" "length (ax_random env 0) \<le> 72"
    "account_step cfg rcfg bc env q st = (n, st')"
  shows "token_rows_ok bc ({ax_salt env 0, ax_salt env 1} \<union> S) st' \<and> (presents_token q \<longrightarrow> n \<in> {400, 404, 500})
    \<and> (rc_require_verification cfg \<longrightarrow> verified_ids st' = verified_ids st)"
proof -
  have "(presents_token q \<longrightarrow> n \<in> {400, 404, 500}) \<and> adds_one_token bc env st st'
      \<and> (rc_require_verification cfg \<longrightarrow> verified_ids st' = verified_ids st)"
    using assms(6)
    by (cases q) (auto split: prod.splits intro: adds_one_tokenI(1)
        dest!: register_adds_one [OF assms(4,5)] resend_adds_one [OF assms(4,5)] request_reset_adds_one [OF assms(4,5)]
          change_password_adds_none verify_email_fresh [OF assms(1-3)] reset_password_fresh [OF assms(1-3)])
  moreover have "token_rows_ok bc ({ax_salt env 0, ax_salt env 1} \<union> S) st'" if "adds_one_token bc env st st'"
  proof -
    from that obtain k t where "k \<in> {0, 1}" "token_hashes st' \<subseteq> insert (bc_hash bc (ax_salt env k) t) (token_hashes st)"
      unfolding adds_one_token_def by blast
    with assms(2) show ?thesis unfolding token_rows_ok_def by blast
  qed
  ultimately show ?thesis by blast
qed

lemma account_run_keeps:
  assumes "bcrypt_ok bc" "token_rows_ok bc S st" "distinct (run_salts qs)" "set (run_salts qs) \<inter> S = {}"
    "list_all (\<lambda>(env, q). \<not> ax_fail env QHash \<and> length (ax_random env 0) \<le> 72) qs"
    "account_run cfg rcfg bc qs st = (ns, st')"
  shows "list_all2 (\<lambda>(env, q) n. presents_token q \<longrightarrow> n \<in> {400, 404, 500}) qs ns
    \<and> (rc_require_verification cfg \<longrightarrow> verified_ids st' = verified_ids st)"
  using assms(2-)
proof (induction qs arbitrary: S st ns)
  case (Cons eq qs)
  obtain env q where eq: "eq = (env, q)" by (cases eq)
  obtain n st1 where step: "account_step cfg rcfg bc env q st = (n, st1)" by force
  obtain ns' where rest: "account_run cfg rcfg bc qs st1 = (ns', st')" and ns: "ns = n # ns'"
    using Cons.prems(5) step eq by (auto split: prod.splits)
  have k: "token_rows_ok bc ({ax_salt env 0, ax_salt env 1} \<union> S) st1 \<and> (presents_token q \<longrightarrow> n \<in> {400, 404, 500})
      \<and> (rc_require_verification cfg \<longrightarrow> verified_ids st1 = verified_ids st)"
    using Cons.prems eq by (intro account_step_keeps [OF assms(1) _ _ _ _ step]) (auto simp: run_salts_def)
  have "distinct (run_salts qs)" "set (run_salts qs) \<inter> ({ax_salt env 0, ax_salt env 1} \<union> S) = {}"
    using Cons.prems(2,3) eq by (auto simp: run_salts_def)
  from Cons.IH [OF conjunct1 [OF k] this _ rest] Cons.prems(4) eq ns k show ?case by auto
qed simp

text \<open>C22. The links the service mails never work: a token is looked up by a hash with a new salt. Whatever requests follow each other
  from tables without tokens, no verification and no reset succeeds, and when verification is required no user becomes verified.\<close>

theorem mailed_links_dead:
  assumes "bcrypt_ok bc" "distinct (run_salts qs)" "list_all (\<lambda>(env, q). \<not> ax_fail env QHash \<and> length (ax_random env 0) \<le> 72) qs"
    "st_verifications st = []" "st_resets st = []" "account_run cfg rcfg bc qs st = (ns, st')"
  shows "list_all2 (\<lambda>(env, q) n. presents_token q \<longrightarrow> n \<in> {400, 404, 500}) qs ns
    \<and> (rc_require_verification cfg \<longrightarrow> verified_ids st' = verified_ids st)"
  using account_run_keeps [OF assms(1) _ assms(2) _ assms(3,6), of "{}"] assms(4,5) by (auto simp: token_rows_ok_def token_hashes_def)

section \<open>Registration\<close>

lemma new_user_simps [simp]:
  "au_id (new_user env r h) = ax_new_id env 0" "au_email (new_user env r h) = to_lower (rg_email r)" "au_active (new_user env r h)"
  "au_password_hash (new_user env r h) = h" "(new_user env r h)\<lparr>au_verified := False\<rparr> = new_user env r h"
  by (simp_all add: new_user_def)

lemma update_new: "accepts_user us u \<Longrightarrow> update_by au_id (au_id u) f (us @ [u]) = us @ [f u]"
  by (induction us) (auto simp: update_by_def accepts_user_def)
text \<open>What a successful registration leaves: one user more, stored under the address in lower case, with one role.\<close>

lemma registered:
  assumes "register_account cfg bc env (Some r) st = (Responded 201 a, st')"
  shows "\<exists>h. hash_password bc env 0 (rg_password r) = Some h \<and> validate_registration_request cfg r = None
    \<and> select_by au_email (to_lower (rg_email r)) (st_users st) = None \<and> accepts_user (st_users st) (new_user env r h)
    \<and> st_users st' = st_users st @ [(new_user env r h)\<lparr>au_verified := \<not> rc_require_verification cfg\<rparr>]
    \<and> st_roles st' = st_roles st @ [\<lparr>ro_user_id = ra_user_id a, ro_role = ''user'', ro_active = True\<rparr>]
    \<and> st_attempts st' = st_attempts st \<and> st_two_factor st' = st_two_factor st \<and> st_sessions st' = st_sessions st
    \<and> ra_user_id a = ax_new_id env 0"
  using assms unfolding register_account_def Let_def
  apply (simp split: if_split_asm option.split_asm prod.split_asm)
  subgoal by (auto simp: commit_registration_def split: if_split_asm)
  subgoal using update_new [of "st_users st" "new_user env r _"] by (auto simp: commit_registration_def set_user_def split: if_split_asm)
  done

lemma validated_registration:
  "validate_registration_request cfg r = None \<Longrightarrow> is_valid_email (rg_email r) \<and> validate_password_strength (rc_policy cfg) (rg_password r) = None
     \<and> rg_password r = rg_confirm r \<and> rg_accept_terms r"
  by (simp add: validate_registration_request_def split: if_splits option.splits)

definition no_failures :: "auth_env \<Rightarrow> bool" where
  "no_failures env \<longleftrightarrow> ax_fail env = (\<lambda>q. False) \<and> ax_rows env = (\<lambda>q. None)"

lemma generate_token_pair_total:
  assumes "\<forall>sec c. \<exists>t. jl_sign lib sec c = Inr t"
  shows "\<exists>tp. generate_token_pair lib m now (Inr i) user email roles = Inr tp"
proof -
  obtain f where "\<And>sec c. jl_sign lib sec c = Inr (f sec c)" using assms by metis
  then show ?thesis by (simp add: generate_token_pair_def)
qed

text \<open>C23. A registered user logs in with the password of the registration (no failed attempt before, no second factor, no failing
  statement): the answer names the new user with the one role, a session with the refresh token is stored; but when
  the address must be verified, first by the registration and then by the login, the login is refused.\<close>

theorem register_then_login:
  assumes "bcrypt_ok bc" "\<forall>sec c. \<exists>t. jl_sign lib sec c = Inr t" "no_failures env'"
    "register_account cfg bc env (Some r) st = (Responded 201 a, st')"
    "\<forall>x \<in> set (st_attempts st). la_email x \<noteq> to_lower (rg_email r)"
    "\<forall>x \<in> set (st_two_factor st). tf_user_id x \<noteq> ra_user_id a" "\<forall>x \<in> set (st_roles st). ro_user_id x \<noteq> ra_user_id a"
    "login lcfg bc lib m env' h (Some \<lparr>lr_email = rg_email r, lr_password = rg_password r, lr_remember = rem\<rparr>) st' = (b, st'')"
  shows "(if lc_require_verified lcfg \<and> rc_require_verification cfg then auth_status b = 403 \<and> st'' = st'
    else \<exists>s. b = Responded 200 (LoggedIn s) \<and> au_id (ui_user (ls_info s)) = ra_user_id a \<and> ui_roles (ls_info s) = [''user'']
      \<and> (\<exists>x. st_sessions st'' = st_sessions st @ [x] \<and> as_user_id x = ra_user_id a \<and> as_refresh_token x = tp_refresh_token (ls_tokens s)))"
proof -
  from registered [OF assms(4)] obtain hash where h: "hash_password bc env 0 (rg_password r) = Some hash"
    "validate_registration_request cfg r = None" "select_by au_email (to_lower (rg_email r)) (st_users st) = None"
    "st_users st' = st_users st @ [(new_user env r hash)\<lparr>au_verified := \<not> rc_require_verification cfg\<rparr>]"
    "st_roles st' = st_roles st @ [\<lparr>ro_user_id = ra_user_id a, ro_role = ''user'', ro_active = True\<rparr>]"
    "st_attempts st' = st_attempts st" "st_two_factor st' = st_two_factor st" "st_sessions st' = st_sessions st"
    "ra_user_id a = ax_new_id env 0" by blast
  let ?u = "(new_user env r hash)\<lparr>au_verified := \<not> rc_require_verification cfg\<rparr>"
  have u: "select_by au_email (to_lower (rg_email r)) (st_users st') = Some ?u"
    using h(3) by (simp add: h(4) select_by_append new_user_def)
  have lock: "is_account_locked env' (to_lower (rg_email r)) st' = Some False"
    using assms(3,5) by (simp add: is_account_locked_def no_failures_def h(6) order_desc_def filter_empty_conv [THEN iffD2])
  have pw: "bc_matches bc hash (rg_password r)"
    using h(1) assms(1) by (auto simp: hash_password_def bcrypt_ok_def split: if_splits)
  have f: "has_2fa_enabled env' (ra_user_id a) st' = Some False"
    using assms(3,6) by (auto simp: has_2fa_enabled_def no_failures_def h(7) list_ex_iff)
  have "filter (\<lambda>x. ro_user_id x = ra_user_id a \<and> ro_active x) (st_roles st) = []" using assms(7) by (auto simp: filter_empty_conv)
  then have ro: "get_user_roles env' (ra_user_id a) st' = Some [''user'']"
    using assms(3) by (simp add: get_user_roles_def no_failures_def h(5) arrived_def)
  have fs: "\<And>q. \<not> ax_fail env' q" "random_id env' = Inr (ax_random env' 1)" using assms(3) by (simp_all add: no_failures_def random_id_def)
  obtain tp where tp: "generate_token_pair lib m (ax_clock env' 3) (Inr (ax_random env' 1)) (ra_user_id a) (to_lower (rg_email r)) [''user''] = Inr tp"
    using generate_token_pair_total [OF assms(2)] by blast
  have keep: "st_sessions (record_login_attempt lcfg env' k e ok hd x) = st_sessions x" for k e ok hd x
    by (simp add: record_login_attempt_def Let_def)
  have us: "au_id ?u = ra_user_id a" "au_email ?u = to_lower (rg_email r)" "au_active ?u" "au_verified ?u = (\<not> rc_require_verification cfg)"
    "au_password_hash ?u = hash" by (simp_all add: h(9))
  show ?thesis
    using assms(8) conjunct1 [OF validated_registration [OF h(2)]] fs tp
    by (auto simp: login_def Let_def lock u us pw open_login_def f [unfolded h(9)] ro [unfolded h(9)] create_session_def keep h(8,9) split: if_splits)
qed

end
