(* ===== verification/AuthTwoFactor.thy ===== *)
theory AuthTwoFactor
  imports AuthLogin
begin

text \<open>
  The second factor (\<open>internal/handlers/two_factor.go\<close>). Time-based codes are a library's: \<open>tl_generate\<close> makes a secret and its
  address for an issuer and an account from random bytes, \<open>tl_valid\<close> compares a code with a secret at a time. A column without a value
  does not scan into a string. \<open>ax_rows env QBackupInsert = Some n\<close>: the insert after \<open>n\<close> backup codes fails.
\<close>

section \<open>Codes\<close>

text \<open>A buffer of \<open>n\<close> bytes after a read: bytes that were not read are zero.\<close>

definition buffer :: "nat \<Rightarrow> string \<Rightarrow> nat list" where
  "buffer n bs = map (\<lambda>i. if i < length bs then of_char (bs ! i) else 0) [0..<n]"

definition generate_numeric_code :: "nat \<Rightarrow> string \<Rightarrow> string" where
  "generate_numeric_code n bs = map (\<lambda>b. ''0123456789'' ! (b mod 10)) (buffer n bs)"

definition base64_digits :: string where
  "base64_digits = ''ABCDEFGHIJKLMNOPQRSTUVWXYZabcdefghijklmnopqrstuvwxyz0123456789''"

definition std_digit :: "nat \<Rightarrow> char" where
  "std_digit n = (base64_digits @ ''+/'') ! n"

definition url_digit :: "nat \<Rightarrow> char" where
  "url_digit n = (base64_digits @ ''-_'') ! n"

text \<open>\<open>base64.Encoding.EncodeToString\<close> with padding, for the digits of the alphabet.\<close>

fun base64 :: "(nat \<Rightarrow> char) \<Rightarrow> nat list \<Rightarrow> string" where
  "base64 d [] = []"
| "base64 d [a] = [d (a div 4), d (a mod 4 * 16), CHR ''='', CHR ''='']"
| "base64 d [a, b] = [d (a div 4), d (a mod 4 * 16 + b div 16), d (b mod 16 * 4), CHR ''='']"
| "base64 d (a # b # c # cs) =
     d (a div 4) # d (a mod 4 * 16 + b div 16) # d (b mod 16 * 4 + c div 64) # d (c mod 64) # base64 d cs"

definition generate_alphanumeric_code :: "nat \<Rightarrow> string \<Rightarrow> string" where
  "generate_alphanumeric_code n bs = take n (base64 url_digit (buffer n bs))"

definition hash_code :: "string \<Rightarrow> string" where
  "hash_code code = base64 std_digit (map of_char code)"

section \<open>Setup\<close>

record totp_lib =
  tl_generate :: "string \<Rightarrow> string \<Rightarrow> string \<Rightarrow> (string \<times> string) option"
  tl_valid :: "time \<Rightarrow> string \<Rightarrow> string \<Rightarrow> bool"

record two_factor_config =
  tc_issuer :: string
  tc_code_ttl :: duration
  tc_backup_count :: nat

record enable_request =
  en_method :: string
  en_phone :: string

datatype setup_answer = TotpSetup string string | SmsSetup string | EmailSetup

text \<open>\<open>ON CONFLICT (user_id, method)\<close>: the row there is changed, else one is added.\<close>

definition upsert_method :: "two_factor_row \<Rightarrow> (two_factor_row \<Rightarrow> two_factor_row) \<Rightarrow> two_factor_row list \<Rightarrow> two_factor_row list" where
  "upsert_method r f rows =
     (let k = (\<lambda>x. (tf_user_id x, tf_method x)) in
      if select_by k (k r) rows = None then rows @ [r] else update_by k (k r) f rows)"

definition method_row :: "auth_env \<Rightarrow> nat \<Rightarrow> string \<Rightarrow> string \<Rightarrow> string option \<Rightarrow> string option \<Rightarrow> two_factor_row" where
  "method_row env k user meth secret phone =
     \<lparr>tf_user_id = user, tf_method = meth, tf_secret = secret, tf_phone = phone, tf_enabled = False, tf_verified_at = None,
      tf_disabled_at = None, tf_created_at = ax_clock env k\<rparr>"

definition user_email :: "auth_env \<Rightarrow> string \<Rightarrow> auth_state \<Rightarrow> string \<times> string" where
  "user_email env user st =
     (if ax_fail env QEmail then ([], [])
      else case select_by au_id user (st_users st) of None \<Rightarrow> ([], []) | Some u \<Rightarrow> (au_email u, au_first_name u))"

definition setup_totp ::
    "two_factor_config \<Rightarrow> totp_lib \<Rightarrow> auth_env \<Rightarrow> string \<Rightarrow> auth_state \<Rightarrow> setup_answer option \<times> auth_state" where
  "setup_totp cfg lib env user st =
     (case tl_generate lib (tc_issuer cfg) (fst (user_email env user st)) (ax_random env 0) of None \<Rightarrow> (None, st)
      | Some (secret, url) \<Rightarrow>
          if ax_fail env Q2FAUpsert then (None, st)
          else (Some (TotpSetup secret url),
            st\<lparr>st_two_factor := upsert_method (method_row env 0 user ''totp'' (Some secret) None)
                 (\<lambda>r. r\<lparr>tf_secret := Some secret, tf_created_at := ax_clock env 0\<rparr>) (st_two_factor st)\<rparr>))"

definition store_code :: "two_factor_config \<Rightarrow> auth_env \<Rightarrow> string \<Rightarrow> string \<Rightarrow> auth_state \<Rightarrow> auth_state option" where
  "store_code cfg env user code st =
     (if ax_fail env QCodeInsert then None
      else Some (st\<lparr>st_codes := st_codes st @
        [\<lparr>co_user_id = user, co_code = code, co_expires_at = ax_clock env 0 + tc_code_ttl cfg, co_used_at = None,
          co_created_at = ax_clock env 1\<rparr>]\<rparr>))"

definition setup_sms ::
    "two_factor_config \<Rightarrow> auth_env \<Rightarrow> string \<Rightarrow> string \<Rightarrow> auth_state \<Rightarrow> setup_answer option \<times> auth_state" where
  "setup_sms cfg env user phone st =
     (let code = generate_numeric_code 6 (ax_random env 0) in
      case store_code cfg env user code st of None \<Rightarrow> (None, st)
      | Some st1 \<Rightarrow>
          if ax_fail env Q2FAUpsert then (None, st1)
          else (Some (SmsSetup phone),
            st1\<lparr>st_two_factor := upsert_method (method_row env 2 user ''sms'' None (Some phone))
                  (\<lambda>r. r\<lparr>tf_phone := Some phone, tf_created_at := ax_clock env 2\<rparr>) (st_two_factor st1),
                st_mails := st_mails st1 @ [SmsCode phone (''Your verification code is: '' @ code)]\<rparr>))"

definition setup_email ::
    "two_factor_config \<Rightarrow> auth_env \<Rightarrow> string \<Rightarrow> auth_state \<Rightarrow> setup_answer option \<times> auth_state" where
  "setup_email cfg env user st =
     (let code = generate_numeric_code 6 (ax_random env 0); (email, first) = user_email env user st in
      case store_code cfg env user code st of None \<Rightarrow> (None, st)
      | Some st1 \<Rightarrow>
          if ax_fail env Q2FAUpsert then (None, st1)
          else (Some EmailSetup,
            st1\<lparr>st_two_factor := upsert_method (method_row env 2 user ''email'' None None)
                  (\<lambda>r. r\<lparr>tf_created_at := ax_clock env 2\<rparr>) (st_two_factor st1),
                st_mails := st_mails st1 @ [MailCode email code first]\<rparr>))"

definition enable_2fa ::
    "two_factor_config \<Rightarrow> totp_lib \<Rightarrow> auth_env \<Rightarrow> http_headers \<Rightarrow> enable_request option \<Rightarrow> auth_state
     \<Rightarrow> setup_answer auth_response \<times> auth_state" where
  "enable_2fa cfg lib env h body st =
     (case hh_user_id h of None \<Rightarrow> (Refused 401 ''Unauthorized'', st)
      | Some user \<Rightarrow>
      case body of None \<Rightarrow> (Refused 400 ''Invalid request payload'', st)
      | Some r \<Rightarrow>
      case has_2fa_enabled env user st of None \<Rightarrow> (Refused 500 ''Failed to check 2FA status'', st)
      | Some True \<Rightarrow> (Refused 409 ''2FA is already enabled'', st)
      | Some False \<Rightarrow>
          (let finish = (\<lambda>(x, st'). case x of None \<Rightarrow> (Refused 500 ''setup failed'', st') | Some a \<Rightarrow> (Responded 200 a, st')) in
           if en_method r = ''totp'' then finish (setup_totp cfg lib env user st)
           else if en_method r = ''sms''
           then (if en_phone r = [] then (Refused 400 ''Phone number required for SMS 2FA'', st)
                 else finish (setup_sms cfg env user (en_phone r) st))
           else if en_method r = ''email'' then finish (setup_email cfg env user st)
           else (Refused 400 ''Invalid 2FA method'', st)))"

section \<open>Verification\<close>

text \<open>The newest unused code of the user, whatever it was made for, if it can be read.\<close>

definition newest_code :: "auth_env \<Rightarrow> string \<Rightarrow> auth_state \<Rightarrow> code_row option" where
  "newest_code env user st =
     (if ax_fail env QCodeSelect then None
      else case order_desc co_created_at (filter (\<lambda>c. co_user_id c = user \<and> co_used_at c = None) (st_codes st)) of
        [] \<Rightarrow> None | c # cs \<Rightarrow> Some c)"

definition check_mailed_code :: "auth_env \<Rightarrow> nat \<Rightarrow> string \<Rightarrow> string \<Rightarrow> auth_state \<Rightarrow> bool \<times> auth_state" where
  "check_mailed_code env k user code st =
     (case newest_code env user st of None \<Rightarrow> (False, st)
      | Some c \<Rightarrow>
          if co_code c = code \<and> ax_clock env k < co_expires_at c
          then (True, if ax_fail env QCodeUse then st
                else st\<lparr>st_codes := map (\<lambda>x. if co_user_id x = user \<and> co_code x = code
                       then x\<lparr>co_used_at := Some (ax_clock env (k + 1))\<rparr> else x) (st_codes st)\<rparr>)
          else (False, st))"

definition next_backup_id :: "auth_state \<Rightarrow> nat" where
  "next_backup_id st = Suc (fold max (map bk_id (st_backup st)) 0)"

definition add_backup_code :: "string \<Rightarrow> string \<Rightarrow> auth_state \<Rightarrow> auth_state" where
  "add_backup_code user code st =
     st\<lparr>st_backup := st_backup st @ [\<lparr>bk_id = next_backup_id st, bk_user_id = user, bk_hash = hash_code code, bk_used_at = None\<rparr>]\<rparr>"

definition backup_code :: "auth_env \<Rightarrow> nat \<Rightarrow> string" where
  "backup_code env i = generate_alphanumeric_code 8 (ax_random env (10 + i))"

text \<open>What was inserted before a failure stays.\<close>

definition generate_backup_codes :: "auth_env \<Rightarrow> string \<Rightarrow> nat \<Rightarrow> auth_state \<Rightarrow> string list option \<times> auth_state" where
  "generate_backup_codes env user n st =
     (let stored = (case ax_rows env QBackupInsert of None \<Rightarrow> n | Some k \<Rightarrow> min k n); codes = map (backup_code env) [0..<n] in
      (if stored < n then None else Some codes, fold (add_backup_code user) (take stored codes) st))"

definition verify_backup_code :: "auth_env \<Rightarrow> string \<Rightarrow> string \<Rightarrow> auth_state \<Rightarrow> bool \<times> auth_state" where
  "verify_backup_code env user code st =
     (if ax_fail env QBackupSelect then (False, st)
      else case find (\<lambda>b. hash_code code = bk_hash b)
          (arrived env QBackupSelect (filter (\<lambda>b. bk_user_id b = user \<and> bk_used_at b = None) (st_backup st))) of
        None \<Rightarrow> (False, st)
      | Some b \<Rightarrow> (True, if ax_fail env QBackupUse then st
            else st\<lparr>st_backup := update_by bk_id (bk_id b) (\<lambda>x. x\<lparr>bk_used_at := Some (ax_clock env 5)\<rparr>) (st_backup st)\<rparr>))"

record setup_done =
  sd_codes :: "string list"
  sd_enabled_at :: time

definition check_code :: "totp_lib \<Rightarrow> auth_env \<Rightarrow> two_factor_row \<Rightarrow> string \<Rightarrow> string \<Rightarrow> auth_state \<Rightarrow> bool \<times> auth_state" where
  "check_code lib env row secret code st =
     (if tf_method row = ''totp'' then (tl_valid lib (ax_clock env 0) secret code, st)
      else if tf_method row \<in> {''sms'', ''email''} then check_mailed_code env 0 (tf_user_id row) code st
      else (False, st))"

definition finish_setup ::
    "two_factor_config \<Rightarrow> auth_env \<Rightarrow> string \<Rightarrow> string \<Rightarrow> auth_state \<Rightarrow> setup_done auth_response \<times> auth_state" where
  "finish_setup cfg env user meth st =
     (case generate_backup_codes env user (tc_backup_count cfg) st of
        (None, st2) \<Rightarrow> (Refused 500 ''Failed to generate backup codes'', st2)
      | (Some codes, st2) \<Rightarrow>
          if ax_fail env Q2FAEnable then (Refused 500 ''Failed to enable 2FA'', st2)
          else (Responded 200 \<lparr>sd_codes = codes, sd_enabled_at = ax_clock env 3\<rparr>,
            st2\<lparr>st_two_factor := update_by (\<lambda>r. (tf_user_id r, tf_method r)) (user, meth)
                  (\<lambda>r. r\<lparr>tf_enabled := True, tf_verified_at := Some (ax_clock env 2)\<rparr>) (st_two_factor st2)\<rparr>))"

definition verify_2fa_setup ::
    "two_factor_config \<Rightarrow> totp_lib \<Rightarrow> auth_env \<Rightarrow> http_headers \<Rightarrow> string option \<Rightarrow> auth_state \<Rightarrow> setup_done auth_response \<times> auth_state" where
  "verify_2fa_setup cfg lib env h body st =
     (case hh_user_id h of None \<Rightarrow> (Refused 401 ''Unauthorized'', st)
      | Some user \<Rightarrow>
      case body of None \<Rightarrow> (Refused 400 ''Invalid request payload'', st)
      | Some code \<Rightarrow>
      if ax_fail env Q2FAPending then (Refused 500 ''Failed to get 2FA setup'', st)
      else case order_desc tf_created_at (filter (\<lambda>r. tf_user_id r = user \<and> \<not> tf_enabled r) (st_two_factor st)) of
        [] \<Rightarrow> (Refused 404 ''No pending 2FA setup found'', st)
      | row # rows \<Rightarrow>
      case tf_secret row of None \<Rightarrow> (Refused 500 ''Failed to get 2FA setup'', st)
      | Some secret \<Rightarrow>
      (case check_code lib env row secret code st of
         (valid, st1) \<Rightarrow> if \<not> valid then (Refused 401 ''Invalid verification code'', st1) else finish_setup cfg env user (tf_method row) st1))"

text \<open>The answer is a message; \<open>True\<close> is the warning that a backup code was used.\<close>

definition verify_2fa_login ::
    "totp_lib \<Rightarrow> auth_env \<Rightarrow> (string \<times> string) option \<Rightarrow> auth_state \<Rightarrow> bool auth_response \<times> auth_state" where
  "verify_2fa_login lib env body st =
     (case body of None \<Rightarrow> (Refused 400 ''Invalid request payload'', st)
      | Some (tok, code) \<Rightarrow>
      if ax_fail env QChallengeSelect then (Refused 500 ''Failed to get session'', st)
      else case find (\<lambda>c. ch_token c = tok \<and> \<not> ch_verified c) (st_challenges st) of
        None \<Rightarrow> (Refused 404 ''Invalid or expired session'', st)
      | Some ch \<Rightarrow>
      if ax_clock env 0 > ch_expires_at ch then (Refused 410 ''Session has expired'', st)
      else case (if ax_fail env Q2FAEnabled then None
                 else find (\<lambda>r. tf_user_id r = ch_user_id ch \<and> tf_enabled r) (st_two_factor st)) of
        None \<Rightarrow> (Refused 500 ''Failed to get 2FA settings'', st)
      | Some row \<Rightarrow>
      case tf_secret row of None \<Rightarrow> (Refused 500 ''Failed to get 2FA settings'', st)
      | Some secret \<Rightarrow>
      (let user = ch_user_id ch;
           (valid, backup, st1) =
             (if tf_method row = ''totp''
              then (if tl_valid lib (ax_clock env 1) secret code then (True, False, st)
                    else (case verify_backup_code env user code st of (v, st1) \<Rightarrow> (v, v, st1)))
              else if tf_method row \<in> {''sms'', ''email''}
              then (case check_mailed_code env 1 user code st of (v, st1) \<Rightarrow> (v, False, st1))
              else (False, False, st))
       in if \<not> valid then (Refused 401 ''Invalid 2FA code'', st1)
          else (Responded 200 backup,
            if ax_fail env QChallengeVerify then st1
            else st1\<lparr>st_challenges := update_by ch_token tok (\<lambda>c. c\<lparr>ch_verified := True\<rparr>) (st_challenges st1)\<rparr>)))"

record disable_request =
  dr_password :: string
  dr_code :: string

text \<open>The password hash is read, and neither it nor the request is looked at.\<close>

definition disable_2fa ::
    "auth_env \<Rightarrow> http_headers \<Rightarrow> disable_request option \<Rightarrow> auth_state \<Rightarrow> unit auth_response \<times> auth_state" where
  "disable_2fa env h body st =
     (case hh_user_id h of None \<Rightarrow> (Refused 401 ''Unauthorized'', st)
      | Some user \<Rightarrow>
      case body of None \<Rightarrow> (Refused 400 ''Invalid request payload'', st)
      | Some r \<Rightarrow>
      if ax_fail env QHash \<or> select_by au_id user (st_users st) = None then (Refused 500 ''Failed to verify password'', st)
      else if ax_fail env Q2FADisable then (Refused 500 ''Failed to disable 2FA'', st)
      else (let st1 = st\<lparr>st_two_factor := update_by tf_user_id user
                           (\<lambda>x. x\<lparr>tf_enabled := False, tf_disabled_at := Some (ax_clock env 0)\<rparr>) (st_two_factor st)\<rparr>
            in (Responded 200 (), if ax_fail env QBackupDelete then st1
                 else st1\<lparr>st_backup := delete_by bk_user_id user (st_backup st1)\<rparr>)))"

end
