(* ===== verification/AuthTwoFactorFacts.thy ===== *)
theory AuthTwoFactorFacts
  imports AuthTwoFactor
begin

text \<open>
  What the second factor is good for: how the handlers of this file and the login act on each other, as labelled steps, and what
  the stored backup codes give away.
\<close>

section \<open>Steps\<close>

datatype second_factor_event =
    PasswordLogin "login_answer auth_response" | CodeLogin "bool auth_response" | SetUp | Disabled string

record second_factor_setting =
  ss_login :: login_config
  ss_config :: two_factor_config
  ss_totp :: totp_lib
  ss_bcrypt :: bcrypt_lib
  ss_jwt :: jwt_lib
  ss_manager :: jwt_manager

inductive second_factor_step :: "second_factor_setting \<Rightarrow> auth_state \<Rightarrow> second_factor_event \<Rightarrow> auth_state \<Rightarrow> bool"
  for g :: second_factor_setting where
  step_enable: "enable_2fa (ss_config g) (ss_totp g) env h b st = (a, st') \<Longrightarrow> second_factor_step g st SetUp st'"
| step_setup: "verify_2fa_setup (ss_config g) (ss_totp g) env h b st = (a, st') \<Longrightarrow> second_factor_step g st SetUp st'"
| step_login: "login (ss_login g) (ss_bcrypt g) (ss_jwt g) (ss_manager g) env h b st = (a, st') \<Longrightarrow> second_factor_step g st (PasswordLogin a) st'"
| step_code: "verify_2fa_login (ss_totp g) env b st = (a, st') \<Longrightarrow> second_factor_step g st (CodeLogin a) st'"
| step_disable: "disable_2fa env h b st = (a, st') \<Longrightarrow> hh_user_id h = Some user \<Longrightarrow> second_factor_step g st (Disabled user) st'"

inductive second_factor_trace :: "second_factor_setting \<Rightarrow> auth_state \<Rightarrow> second_factor_event list \<Rightarrow> auth_state \<Rightarrow> bool"
  for g :: second_factor_setting where
  trace_none: "second_factor_trace g st [] st"
| trace_step: "second_factor_trace g st es st' \<Longrightarrow> second_factor_step g st' e st'' \<Longrightarrow> second_factor_trace g st (es @ [e]) st''"

inductive_cases second_factor_stepE: "second_factor_step g st e st'"

section \<open>Which methods can be enabled\<close>

definition row_ok :: "two_factor_row \<Rightarrow> bool" where
  "row_ok r \<longleftrightarrow> (tf_secret r \<noteq> None \<longrightarrow> tf_method r = ''totp'') \<and> (tf_enabled r \<longrightarrow> tf_secret r \<noteq> None)"

definition rows_ok :: "two_factor_row list \<Rightarrow> bool" where
  "rows_ok rows \<longleftrightarrow> (\<forall>r \<in> set rows. row_ok r) \<and> distinct (map (\<lambda>r. (tf_user_id r, tf_method r)) rows)"

lemma rows_ok_upsert:
  assumes "rows_ok rows" "row_ok r" "\<And>x. (tf_user_id (f x), tf_method (f x)) = (tf_user_id x, tf_method x)"
    "\<And>x. x \<in> set rows \<Longrightarrow> (tf_user_id x, tf_method x) = (tf_user_id r, tf_method r) \<Longrightarrow> row_ok (f x)"
  shows "rows_ok (upsert_method r f rows)"
proof -
  let ?k = "\<lambda>x. (tf_user_id x, tf_method x)"
  have "\<forall>x \<in> set (update_by ?k (?k r) f rows). row_ok x"
    using assms(1,4) by (auto simp: rows_ok_def dest!: set_update_by)
  moreover have "map ?k (update_by ?k (?k r) f rows) = map ?k rows" using assms(3) by (intro keys_update)
  ultimately show ?thesis
    using assms(1,2) by (auto simp: upsert_method_def rows_ok_def Let_def select_by_None)
qed

lemma login_keeps_factors: "login cfg bc lib m env h b st = (a, st') \<Longrightarrow> st_two_factor st' = st_two_factor st"
  by (auto simp: login_def open_login_def create_2fa_session_def create_session_def record_login_attempt_def Let_def
      split: option.splits if_splits sum.splits)

lemma check_mailed_code_keeps: "check_mailed_code env k user code st = (v, st') \<Longrightarrow>
    st_two_factor st' = st_two_factor st \<and> st_sessions st' = st_sessions st"
  by (auto simp: check_mailed_code_def split: option.splits if_splits)

lemma verify_backup_code_keeps: "verify_backup_code env user code st = (v, st') \<Longrightarrow>
    st_two_factor st' = st_two_factor st \<and> st_sessions st' = st_sessions st"
  by (auto simp: verify_backup_code_def split: option.splits if_splits)

lemma add_backup_codes_keep [simp]:
  "st_two_factor (fold (add_backup_code user) cs st) = st_two_factor st" "st_sessions (fold (add_backup_code user) cs st) = st_sessions st"
  by (induction cs arbitrary: st) (simp_all add: add_backup_code_def)

lemma generate_backup_codes_keeps: "generate_backup_codes env user n st = (x, st') \<Longrightarrow>
    st_two_factor st' = st_two_factor st \<and> st_sessions st' = st_sessions st"
  by (auto simp: generate_backup_codes_def Let_def)

lemma code_login_keeps: "verify_2fa_login lib env b st = (a, st') \<Longrightarrow> st_two_factor st' = st_two_factor st \<and> st_sessions st' = st_sessions st"
  by (auto simp: verify_2fa_login_def Let_def split: option.splits if_splits prod.splits
      dest!: check_mailed_code_keeps verify_backup_code_keeps)

lemma check_code_keeps: "check_code lib env row secret code st = (v, st') \<Longrightarrow> st_two_factor st' = st_two_factor st \<and> st_sessions st' = st_sessions st"
  by (auto simp: check_code_def split: if_splits dest!: check_mailed_code_keeps)

lemma finish_setup_cases: "finish_setup cfg env user meth st = (a, st') \<Longrightarrow> st_sessions st' = st_sessions st
    \<and> (st_two_factor st' = st_two_factor st \<or> (\<exists>t. st_two_factor st' = update_by (\<lambda>r. (tf_user_id r, tf_method r)) (user, meth)
         (\<lambda>r. r\<lparr>tf_enabled := True, tf_verified_at := Some t\<rparr>) (st_two_factor st)))"
  unfolding finish_setup_def by (auto split: prod.splits option.splits if_splits dest!: generate_backup_codes_keeps)

text \<open>A setup that is verified had a secret, and enables its own row.\<close>

lemma setup_verified:
  assumes "verify_2fa_setup cfg lib env h b st = (a, st')"
  shows "st_sessions st' = st_sessions st \<and> (st_two_factor st' = st_two_factor st \<or>
    (\<exists>row t. row \<in> set (st_two_factor st) \<and> tf_secret row \<noteq> None
      \<and> st_two_factor st' = update_by (\<lambda>r. (tf_user_id r, tf_method r)) (tf_user_id row, tf_method row)
         (\<lambda>r. r\<lparr>tf_enabled := True, tf_verified_at := Some t\<rparr>) (st_two_factor st)))"
proof (cases "st' = st")
  case False
  then obtain user code row rows secret v st1 where c: "hh_user_id h = Some user" "b = Some code"
    "order_desc tf_created_at (filter (\<lambda>r. tf_user_id r = user \<and> \<not> tf_enabled r) (st_two_factor st)) = row # rows"
    "tf_secret row = Some secret" "check_code lib env row secret code st = (v, st1)"
    "(if \<not> v then (Refused 401 ''Invalid verification code'', st1) else finish_setup cfg env user (tf_method row) st1) = (a, st')"
    using assms by (auto simp: verify_2fa_setup_def split: option.splits if_split_asm list.splits prod.splits)
  from c(3) have "row \<in> set (order_desc tf_created_at (filter (\<lambda>r. tf_user_id r = user \<and> \<not> tf_enabled r) (st_two_factor st)))" by simp
  then have row: "row \<in> set (st_two_factor st)" "tf_user_id row = user" by simp_all
  from check_code_keeps [OF c(5)] show ?thesis
    using c(4,6) row finish_setup_cases [of cfg env user "tf_method row" st1 a st'] by (auto split: if_split_asm)
qed simp


lemma enable_cases:
  assumes "enable_2fa cfg lib env h b st = (a, st')"
  shows "st_sessions st' = st_sessions st \<and> (st_two_factor st' = st_two_factor st \<or>
    (\<exists>r f user. st_two_factor st' = upsert_method r f (st_two_factor st) \<and> row_ok r \<and> tf_user_id r = user \<and> \<not> tf_enabled r
      \<and> \<not> list_ex (\<lambda>x. tf_user_id x = user \<and> tf_enabled x) (st_two_factor st)
      \<and> (\<forall>x. tf_user_id (f x) = tf_user_id x \<and> tf_method (f x) = tf_method x \<and> tf_enabled (f x) = tf_enabled x
           \<and> (tf_secret (f x) = tf_secret x \<or> tf_method r = ''totp''))))"
proof (cases "st_two_factor st' = st_two_factor st")
  case True
  then show ?thesis
    using assms by (auto simp: enable_2fa_def setup_totp_def setup_sms_def setup_email_def store_code_def Let_def
        split: option.splits bool.splits if_splits prod.splits)
next
  case False
  then obtain user r x where c: "hh_user_id h = Some user" "b = Some r" "has_2fa_enabled env user st = Some False"
    and s: "setup_totp cfg lib env user st = (x, st') \<or> setup_sms cfg env user (en_phone r) st = (x, st') \<or> setup_email cfg env user st = (x, st')"
    using assms by (auto simp: enable_2fa_def Let_def split: option.splits bool.splits if_split_asm prod.splits)
  have "\<not> list_ex (\<lambda>x. tf_user_id x = user \<and> tf_enabled x) (st_two_factor st)"
    using c(3) by (simp add: has_2fa_enabled_def split: if_splits)
  moreover have "st_sessions st' = st_sessions st \<and>
      (\<exists>r f. st_two_factor st' = upsert_method r f (st_two_factor st) \<and> row_ok r \<and> tf_user_id r = user \<and> \<not> tf_enabled r
      \<and> (\<forall>x. tf_user_id (f x) = tf_user_id x \<and> tf_method (f x) = tf_method x \<and> tf_enabled (f x) = tf_enabled x
           \<and> (tf_secret (f x) = tf_secret x \<or> tf_method r = ''totp'')))"
    using s
  proof (elim disjE)
    assume "setup_totp cfg lib env user st = (x, st')"
    with False show ?thesis
      by (auto simp: setup_totp_def split: option.splits prod.splits if_split_asm intro!: exI [of _ "method_row env 0 user ''totp'' _ None"] exI)
        (simp_all add: method_row_def row_ok_def)
  next
    assume "setup_sms cfg env user (en_phone r) st = (x, st')"
    with False show ?thesis
      by (auto simp: setup_sms_def store_code_def Let_def split: if_split_asm intro!: exI [of _ "method_row env 2 user ''sms'' None _"] exI)
        (simp_all add: method_row_def row_ok_def)
  next
    assume "setup_email cfg env user st = (x, st')"
    with False show ?thesis
      by (auto simp: setup_email_def store_code_def Let_def split: if_split_asm prod.splits intro!: exI [of _ "method_row env 2 user ''email'' None None"] exI)
        (simp_all add: method_row_def row_ok_def)
  qed
  ultimately show ?thesis by blast
qed


lemma rows_ok_enable:
  assumes "rows_ok rows" "row \<in> set rows" "tf_secret row \<noteq> None"
  shows "rows_ok (update_by (\<lambda>r. (tf_user_id r, tf_method r)) (tf_user_id row, tf_method row)
     (\<lambda>r. r\<lparr>tf_enabled := True, tf_verified_at := Some t\<rparr>) rows)"
proof -
  let ?k = "\<lambda>r. (tf_user_id r, tf_method r)"
  have only: "x = row" if "x \<in> set rows" "?k x = ?k row" for x
    using assms(1,2) that unfolding rows_ok_def distinct_map by (meson inj_onD)
  have "row_ok x" if "x \<in> set (update_by ?k (?k row) (\<lambda>r. r\<lparr>tf_enabled := True, tf_verified_at := Some t\<rparr>) rows)" for x
    using set_update_by [OF that]
  proof (elim disjE bexE conjE)
    fix r assume r: "r \<in> set rows" "?k r = ?k row" "x = r\<lparr>tf_enabled := True, tf_verified_at := Some t\<rparr>"
    with only have "r = row" by blast
    with r(3) assms show ?thesis by (simp add: rows_ok_def row_ok_def)
  qed (use assms(1) in \<open>simp add: rows_ok_def\<close>)
  then show ?thesis using assms(1) by (simp add: rows_ok_def keys_update)
qed

lemma rows_ok_disable: "rows_ok rows \<Longrightarrow> rows_ok (update_by tf_user_id user (\<lambda>x. x\<lparr>tf_enabled := False, tf_disabled_at := t\<rparr>) rows)"
  by (auto simp: rows_ok_def map_update_by row_ok_def dest!: set_update_by)

lemma step_rows_ok:
  assumes "second_factor_step g st e st'" "rows_ok (st_two_factor st)"
  shows "rows_ok (st_two_factor st')"
  using assms(1)
proof (cases rule: second_factor_step.cases)
  case (step_enable env h b a)
  from enable_cases [OF step_enable(2)] show ?thesis
  proof (elim conjE disjE exE)
    fix r f user
    assume c: "st_two_factor st' = upsert_method r f (st_two_factor st)" "row_ok r" "tf_user_id r = user"
      "\<not> list_ex (\<lambda>x. tf_user_id x = user \<and> tf_enabled x) (st_two_factor st)"
      "\<forall>x. tf_user_id (f x) = tf_user_id x \<and> tf_method (f x) = tf_method x \<and> tf_enabled (f x) = tf_enabled x
           \<and> (tf_secret (f x) = tf_secret x \<or> tf_method r = ''totp'')"
    show ?thesis
      unfolding c(1)
    proof (rule rows_ok_upsert [OF assms(2) c(2)])
      fix x assume x: "x \<in> set (st_two_factor st)" "(tf_user_id x, tf_method x) = (tf_user_id r, tf_method r)"
      then have "\<not> tf_enabled x" "row_ok x" using c(3,4) assms(2) by (auto simp: list_ex_iff rows_ok_def)
      moreover have "tf_method x = tf_method r" using x(2) by simp
      ultimately show "row_ok (f x)" using c(5) [rule_format, of x] by (auto simp: row_ok_def)
    qed (use c(5) in simp)
  qed (simp add: assms(2))
next
  case (step_setup env h b a)
  from setup_verified [OF step_setup(2)] show ?thesis
    using assms(2) rows_ok_enable [OF assms(2)] by auto
next
  case (step_disable env h b a user)
  then show ?thesis
    using assms(2) by (auto simp: disable_2fa_def Let_def rows_ok_disable split: option.splits if_splits)
qed (use assms(2) login_keeps_factors code_login_keeps in metis)+

lemma trace_rows_ok: "second_factor_trace g st es st' \<Longrightarrow> rows_ok (st_two_factor st) \<Longrightarrow> rows_ok (st_two_factor st')"
  by (induction rule: second_factor_trace.induct) (blast intro: step_rows_ok)+

text \<open>Only a time-based code can become a second factor: whatever requests follow each other from an empty table, an enabled row is a
  TOTP row with a secret, and while the newest pending setup of a user is one by SMS or mail its verification fails.\<close>

theorem second_factor_is_totp:
  assumes "second_factor_trace g st es st'" "st_two_factor st = []"
  shows "(\<forall>r \<in> set (st_two_factor st'). tf_enabled r \<longrightarrow> tf_method r = ''totp'' \<and> tf_secret r \<noteq> None)
    \<and> (\<forall>lib cfg env h user b r rs. hh_user_id h = Some user
        \<and> order_desc tf_created_at (filter (\<lambda>r. tf_user_id r = user \<and> \<not> tf_enabled r) (st_two_factor st')) = r # rs
        \<and> tf_method r \<noteq> ''totp'' \<longrightarrow> auth_status (fst (verify_2fa_setup cfg lib env h b st')) \<in> {400, 500})"
proof -
  have ok: "\<forall>r \<in> set (st_two_factor st'). row_ok r"
    using trace_rows_ok [OF assms(1)] assms(2) by (simp add: rows_ok_def)
  have "row_ok r" if "order_desc tf_created_at (filter (\<lambda>r. tf_user_id r = user \<and> \<not> tf_enabled r) (st_two_factor st')) = r # rs" for r rs user
  proof -
    from that have "r \<in> set (order_desc tf_created_at (filter (\<lambda>r. tf_user_id r = user \<and> \<not> tf_enabled r) (st_two_factor st')))" by simp
    with ok show ?thesis by simp
  qed
  then have "tf_secret r = None" if "order_desc tf_created_at (filter (\<lambda>r. tf_user_id r = user \<and> \<not> tf_enabled r) (st_two_factor st')) = r # rs"
    "tf_method r \<noteq> ''totp''" for r rs user
    using that unfolding row_ok_def by blast
  with ok show ?thesis by (auto simp: row_ok_def verify_2fa_setup_def split: option.split)
qed

section \<open>A second factor in the way of the login\<close>

definition factor_on :: "string \<Rightarrow> auth_state \<Rightarrow> bool" where
  "factor_on user st \<longleftrightarrow> list_ex (\<lambda>r. tf_user_id r = user \<and> tf_enabled r) (st_two_factor st)"

lemma factor_on_update:
  assumes "factor_on user st" "st_two_factor st' = update_by k i f (st_two_factor st)"
    "\<And>r. r \<in> set (st_two_factor st) \<Longrightarrow> tf_user_id r = user \<Longrightarrow> tf_enabled r \<Longrightarrow> k r = i \<Longrightarrow> tf_user_id (f r) = user \<and> tf_enabled (f r)"
  shows "factor_on user st'"
proof -
  from assms(1) obtain r where r: "r \<in> set (st_two_factor st)" "tf_user_id r = user" "tf_enabled r" by (auto simp: factor_on_def list_ex_iff)
  then have "(if k r = i then f r else r) \<in> set (st_two_factor st')" by (simp add: assms(2) update_by_def)
  then show ?thesis using r assms(3) [OF r] by (auto simp: factor_on_def list_ex_iff split: if_split_asm)
qed


lemma factor_on_append: "factor_on user st \<Longrightarrow> st_two_factor st' = st_two_factor st @ rs \<Longrightarrow> factor_on user st'"
  by (simp add: factor_on_def)

lemma factor_on_same: "factor_on user st \<Longrightarrow> st_two_factor st' = st_two_factor st \<Longrightarrow> factor_on user st'"
  by (simp add: factor_on_def)

definition sessions_of :: "string \<Rightarrow> auth_state \<Rightarrow> auth_session list" where
  "sessions_of user st = filter (\<lambda>s. as_user_id s = user) (st_sessions st)"

text \<open>A login opens a session for the user it finds, and only when no second factor is on.\<close>

lemma login_with_factor:
  assumes "login cfg bc lib m env h b st = (a, st')" "factor_on user st" "lc_2fa cfg"
  shows "sessions_of user st' = sessions_of user st \<and> (\<forall>s. a = Responded 200 (LoggedIn s) \<longrightarrow> au_id (ui_user (ls_info s)) \<noteq> user)"
proof -
  have keep: "st_sessions (record_login_attempt cfg env k e ok hd x) = st_sessions x" for k e ok hd x
    by (simp add: record_login_attempt_def Let_def)
  have o: "sessions_of user st1 = sessions_of user st \<and> (\<forall>s. a = Responded 200 (LoggedIn s) \<longrightarrow> au_id (ui_user (ls_info s)) \<noteq> user)"
    if "open_login cfg lib m env h r u st = (a, st1)" for r u st1
  proof (cases "au_id u = user")
    case True
    then have "has_2fa_enabled env (au_id u) st \<in> {None, Some True}" using assms(2) by (simp add: has_2fa_enabled_def factor_on_def)
    then show ?thesis
      using that assms(3) by (auto simp: open_login_def create_2fa_session_def sessions_of_def Let_def split: option.splits prod.splits if_splits)
  next
    case False
    with that show ?thesis
      by (auto simp: open_login_def create_2fa_session_def create_session_def sessions_of_def keep Let_def
          split: option.splits prod.splits sum.splits if_splits)
  qed
  show ?thesis
    using assms(1) o by (auto simp: login_def sessions_of_def keep Let_def split: option.splits if_splits)
qed

lemma step_with_factor:
  assumes "second_factor_step g st e st'" "factor_on user st" "lc_2fa (ss_login g)" "e \<noteq> Disabled user"
  shows "factor_on user st' \<and> sessions_of user st' = sessions_of user st
    \<and> (\<forall>s. e = PasswordLogin (Responded 200 (LoggedIn s)) \<longrightarrow> au_id (ui_user (ls_info s)) \<noteq> user)"
  using assms(1)
proof (cases rule: second_factor_step.cases)
  case (step_enable env h b a)
  from enable_cases [OF step_enable(2)] have "factor_on user st'"
  proof (elim conjE disjE exE)
    fix r f i
    assume c: "st_two_factor st' = upsert_method r f (st_two_factor st)" "tf_user_id r = i"
      "\<not> list_ex (\<lambda>x. tf_user_id x = i \<and> tf_enabled x) (st_two_factor st)"
    then have "tf_user_id r \<noteq> user" using assms(2) by (auto simp: factor_on_def)
    then have "factor_on user st'" if "st_two_factor st' = update_by (\<lambda>x. (tf_user_id x, tf_method x)) (tf_user_id r, tf_method r) f (st_two_factor st)"
      by (intro factor_on_update [OF assms(2) that]) auto
    then show ?thesis
      using c(1) factor_on_append [OF assms(2)] by (auto simp: upsert_method_def Let_def split: if_split_asm)
  qed (rule factor_on_same [OF assms(2)])
  with enable_cases [OF step_enable(2)] step_enable(1) show ?thesis by (simp add: sessions_of_def)
next
  case (step_setup env h b a)
  from setup_verified [OF step_setup(2)] have "factor_on user st'"
    by (elim conjE disjE exE) (rule factor_on_same [OF assms(2)], assumption, rule factor_on_update [OF assms(2)], assumption, simp)
  with setup_verified [OF step_setup(2)] step_setup(1) show ?thesis by (simp add: sessions_of_def)
next
  case (step_login env h b a)
  with login_with_factor [OF step_login(2) assms(2,3)] login_keeps_factors [OF step_login(2)] assms(2) show ?thesis
    by (auto simp: factor_on_def)
next
  case (step_code env b a)
  with code_login_keeps [OF step_code(2)] assms(2) show ?thesis by (simp add: factor_on_def sessions_of_def)
next
  case (step_disable env h b a i)
  have "factor_on user st' \<and> st_sessions st' = st_sessions st"
    using step_disable assms(2,4)
    by (auto simp: disable_2fa_def Let_def sessions_of_def intro: factor_on_same factor_on_update split: option.splits if_split_asm)
  with step_disable(1) show ?thesis by (simp add: sessions_of_def)
qed

text \<open>C21. A user with a second factor never gets in: as long as he does not disable it, no login of his opens a session or returns
  tokens, whatever codes he sends, since the verified code is answered with a message only.\<close>

theorem second_factor_locks_out:
  assumes "second_factor_trace g st es st'" "lc_2fa (ss_login g)" "factor_on user st" "Disabled user \<notin> set es"
  shows "sessions_of user st' = sessions_of user st
    \<and> (\<forall>s. PasswordLogin (Responded 200 (LoggedIn s)) \<in> set es \<longrightarrow> au_id (ui_user (ls_info s)) \<noteq> user)"
proof -
  from assms(1,3,4) have "factor_on user st' \<and> sessions_of user st' = sessions_of user st
    \<and> (\<forall>s. PasswordLogin (Responded 200 (LoggedIn s)) \<in> set es \<longrightarrow> au_id (ui_user (ls_info s)) \<noteq> user)"
  proof (induction rule: second_factor_trace.induct)
    case (trace_step st es st1 e st2)
    then show ?case using step_with_factor [OF trace_step(2) _ assms(2)] by auto
  qed simp
  then show ?thesis by blast
qed

text \<open>Disabling asks for nothing: the answer and the change are the same for every password and code in the request, and afterwards a
  login of the user runs as if the service had no second factor.\<close>

theorem disable_without_code:
  assumes "disable_2fa env h (Some r) st = (Responded 200 (), st')" "hh_user_id h = Some user"
  shows "disable_2fa env h (Some r') st = (Responded 200 (), st')
    \<and> (au_id u = user \<longrightarrow> \<not> ax_fail env' Q2FAStatus \<longrightarrow>
         open_login cfg lib m env' h' q u st' = open_login (cfg\<lparr>lc_2fa := False\<rparr>) lib m env' h' q u st')"
proof -
  have st': "st_two_factor st' = update_by tf_user_id user (\<lambda>x. x\<lparr>tf_enabled := False, tf_disabled_at := Some (ax_clock env 0)\<rparr>) (st_two_factor st)"
    using assms by (auto simp: disable_2fa_def Let_def split: if_splits)
  have "\<not> (tf_user_id x = user \<and> tf_enabled x)" if "x \<in> set (st_two_factor st')" for x
  proof -
    from that have "x \<in> (\<lambda>y. if tf_user_id y = user then y\<lparr>tf_enabled := False, tf_disabled_at := Some (ax_clock env 0)\<rparr> else y) ` set (st_two_factor st)"
      by (simp add: st' update_by_def)
    then obtain y where "x = (if tf_user_id y = user then y\<lparr>tf_enabled := False, tf_disabled_at := Some (ax_clock env 0)\<rparr> else y)"
      by (rule imageE)
    then show ?thesis by (cases "tf_user_id y = user") auto
  qed
  then have "has_2fa_enabled env' user st' = Some False" if "\<not> ax_fail env' Q2FAStatus"
    using that by (auto simp: has_2fa_enabled_def list_ex_iff)
  moreover have "record_login_attempt (cfg\<lparr>lc_2fa := False\<rparr>) = record_login_attempt cfg"
    by (intro ext) (simp add: record_login_attempt_def)
  ultimately have "open_login cfg lib m env' h' q u st' = open_login (cfg\<lparr>lc_2fa := False\<rparr>) lib m env' h' q u st'"
    if "au_id u = user" "\<not> ax_fail env' Q2FAStatus"
    using that by (simp add: open_login_def Let_def split: option.split sum.split prod.split)
  moreover have "disable_2fa env h (Some r') st = disable_2fa env h (Some r) st" by (simp add: disable_2fa_def split: option.split)
  ultimately show ?thesis using assms(1) by simp
qed

section \<open>Backup codes\<close>

text \<open>The inverse of the encoding: what the value of a digit is, and four digits for three bytes.\<close>

definition std_value :: "char \<Rightarrow> nat" where
  "std_value c = length (takeWhile (\<lambda>x. x \<noteq> c) (base64_digits @ ''+/''))"

fun unbase64 :: "string \<Rightarrow> nat list" where
  "unbase64 (a # b # c # d # cs) =
     (std_value a * 4 + std_value b div 16) #
     (if c = CHR ''='' then []
      else (std_value b mod 16 * 16 + std_value c div 4) #
        (if d = CHR ''='' then [] else (std_value c mod 4 * 64 + std_value d) # unbase64 cs))"
| "unbase64 cs = []"

definition read_hash :: "string \<Rightarrow> string" where
  "read_hash h = map char_of (unbase64 h)"

lemma std_digit_value:
  assumes "n < 64"
  shows "std_value (std_digit n) = n \<and> std_digit n \<noteq> CHR ''=''"
proof -
  have "list_all (\<lambda>n. std_value (std_digit n) = n \<and> std_digit n \<noteq> CHR ''='') [0..<64]" by code_simp
  then show ?thesis using assms by (auto simp: list_all_iff)
qed

lemma unbase64_base64: "\<forall>b \<in> set bs. b < 256 \<Longrightarrow> unbase64 (base64 std_digit bs) = bs"
proof (induction std_digit bs rule: base64.induct)
  case (2 a)
  then have "a div 4 < 64" "a mod 4 * 16 < 64" by auto
  then show ?case by (simp add: std_digit_value)
next
  case (3 a b)
  then have "a div 4 < 64" "a mod 4 * 16 + b div 16 < 64" "b mod 16 * 4 < 64" "b div 16 < 16" by auto
  then show ?case by (simp add: std_digit_value)
next
  case (4 a b c cs)
  then have "a div 4 < 64" "a mod 4 * 16 + b div 16 < 64" "b mod 16 * 4 + c div 64 < 64" "c mod 64 < 64" "b div 16 < 16" "c div 64 < 4" by auto
  with 4 show ?case by (simp add: std_digit_value)
qed simp

lemma of_char_bound: "of_char c < (256 :: nat)"
  by (metis mod_less_divisor of_char_mod_256 zero_less_numeral)

lemma read_hash_code: "read_hash (hash_code code) = code"
proof -
  have "unbase64 (hash_code code) = map of_char code"
    unfolding hash_code_def by (rule unbase64_base64) (auto simp: of_char_bound)
  then show ?thesis by (simp add: read_hash_def comp_def)
qed

lemma hash_code_inj: "hash_code a = hash_code b \<longleftrightarrow> a = b"
  by (metis read_hash_code)

lemma added_backup_rows:
  "map (\<lambda>b. (bk_user_id b, bk_hash b, bk_used_at b)) (st_backup (fold (add_backup_code user) cs st))
    = map (\<lambda>b. (bk_user_id b, bk_hash b, bk_used_at b)) (st_backup st) @ map (\<lambda>c. (user, hash_code c, None)) cs"
  by (induction cs arbitrary: st) (simp_all add: add_backup_code_def)

text \<open>What the table of backup codes holds as their hashes is the codes: the rows a setup adds are read back to the codes it returns,
  in their order.\<close>

theorem backup_hashes_are_codes:
  assumes "generate_backup_codes env user n st = (Some codes, st')"
  shows "map (read_hash \<circ> bk_hash) (drop (length (st_backup st)) (st_backup st')) = codes \<and> length codes = n"
proof -
  have c: "codes = map (backup_code env) [0..<n]" "st' = fold (add_backup_code user) codes st"
    using assms by (auto simp: generate_backup_codes_def Let_def split: if_splits option.splits)
  let ?h = "\<lambda>b. (bk_user_id b, bk_hash b, bk_used_at b)"
  have "map ?h (drop (length (st_backup st)) (st_backup st')) = map (\<lambda>c. (user, hash_code c, None)) codes"
    using added_backup_rows [of user codes st] by (simp add: c(2) drop_map [symmetric])
  then have "map (\<lambda>x. read_hash (fst (snd x))) (map ?h (drop (length (st_backup st)) (st_backup st')))
      = map (\<lambda>x. read_hash (fst (snd x))) (map (\<lambda>c. (user, hash_code c, None :: time option)) codes)" by simp
  then show ?thesis by (simp add: comp_def read_hash_code c(1))
qed

text \<open>A backup code is good once: with the identifiers distinct and one unused row for the code, a second use is refused, and no
  row of another user or another code changes.\<close>

theorem backup_code_once:
  assumes "verify_backup_code env user code st = (True, st')" "distinct (map bk_id (st_backup st))" "\<not> ax_fail env QBackupUse"
    "length (filter (\<lambda>b. bk_user_id b = user \<and> bk_used_at b = None \<and> bk_hash b = hash_code code) (st_backup st)) = 1"
  shows "verify_backup_code env' user code st' = (False, st')
    \<and> filter (\<lambda>b. \<not> (bk_user_id b = user \<and> bk_hash b = hash_code code)) (st_backup st')
      = filter (\<lambda>b. \<not> (bk_user_id b = user \<and> bk_hash b = hash_code code)) (st_backup st)"
proof -
  let ?P = "\<lambda>b. bk_user_id b = user \<and> bk_used_at b = None \<and> bk_hash b = hash_code code"
  obtain b where f: "find (\<lambda>b. hash_code code = bk_hash b)
      (arrived env QBackupSelect (filter (\<lambda>b. bk_user_id b = user \<and> bk_used_at b = None) (st_backup st))) = Some b"
    and st': "st_backup st' = update_by bk_id (bk_id b) (\<lambda>x. x\<lparr>bk_used_at := Some (ax_clock env 5)\<rparr>) (st_backup st)"
    using assms(1,3) by (auto simp: verify_backup_code_def split: if_splits option.splits)
  have "b \<in> set (arrived env QBackupSelect (filter (\<lambda>b. bk_user_id b = user \<and> bk_used_at b = None) (st_backup st)))"
    and h: "hash_code code = bk_hash b" using find_SomeD [OF f] by auto
  then have b: "b \<in> set (st_backup st)" "?P b" by (auto simp: arrived_def split: option.splits dest: in_set_takeD)
  have only: "x = b" if "x \<in> set (st_backup st)" "?P x" for x
  proof -
    have "x \<in> set (filter ?P (st_backup st))" "b \<in> set (filter ?P (st_backup st))" using that b by simp_all
    then show ?thesis using assms(4) by (auto simp: length_Suc_conv numeral_eq_Suc simp del: set_filter)
  qed
  have same: "x = b" if "x \<in> set (st_backup st)" "bk_id x = bk_id b" for x
    using that b(1) assms(2) by (meson distinct_map inj_onD)
  have none: "\<not> ?P x" if "x \<in> set (st_backup st')" for x
  proof -
    from that have "x \<in> (\<lambda>y. if bk_id y = bk_id b then y\<lparr>bk_used_at := Some (ax_clock env 5)\<rparr> else y) ` set (st_backup st)"
      by (simp add: st' update_by_def)
    then obtain y where y: "y \<in> set (st_backup st)" "x = (if bk_id y = bk_id b then y\<lparr>bk_used_at := Some (ax_clock env 5)\<rparr> else y)"
      by (rule imageE)
    show ?thesis using only [OF y(1)] y(2) by (cases "bk_id y = bk_id b") auto
  qed
  have "bk_hash x \<noteq> hash_code code"
    if "x \<in> set (arrived env' QBackupSelect (filter (\<lambda>b. bk_user_id b = user \<and> bk_used_at b = None) (st_backup st')))" for x
  proof -
    from that have "x \<in> set (st_backup st')" "bk_user_id x = user" "bk_used_at x = None"
      by (auto simp: arrived_def split: option.splits dest: in_set_takeD)
    with none show ?thesis by blast
  qed
  then have "find (\<lambda>b. hash_code code = bk_hash b)
      (arrived env' QBackupSelect (filter (\<lambda>b. bk_user_id b = user \<and> bk_used_at b = None) (st_backup st'))) = None"
    unfolding find_None_iff by metis
  moreover have "filter (\<lambda>b. \<not> (bk_user_id b = user \<and> bk_hash b = hash_code code)) (update_by bk_id (bk_id b) f rows)
      = filter (\<lambda>b. \<not> (bk_user_id b = user \<and> bk_hash b = hash_code code)) rows"
    if "set rows \<subseteq> set (st_backup st)" "\<And>x. bk_user_id (f x) = bk_user_id x \<and> bk_hash (f x) = bk_hash x" for rows f
    using that same b(2) by (induction rows) (auto simp: update_by_def)
  ultimately show ?thesis by (simp add: verify_backup_code_def st')
qed

end
