(* ===== verification/AuthKeys.thy ===== *)
theory AuthKeys
  imports AuthTwoFactor AuthAccounts
begin

text \<open>
  API keys (\<open>internal/handlers/api_keys.go\<close>): creation, list, revocation and validation. The time a key was last used is written in
  the background and only the list would show it; it is left out. A day is 24 hours (a clock in UTC).
\<close>

section \<open>Handlers\<close>

record key_request =
  kq_name :: string
  kq_description :: string
  kq_scopes :: "string list"
  kq_expires_in :: int

record key_response =
  kr_id :: string
  kr_name :: string
  kr_key :: string
  kr_prefix :: string
  kr_description :: string
  kr_scopes :: "string list"
  kr_expires_at :: "time option"
  kr_created_at :: time

datatype api_key_error = ErrInvalidAPIKey | ErrAPIKeyRevoked | ErrAPIKeyExpired | KeyQueryFailed

definition key_secret :: "auth_env \<Rightarrow> string" where
  "key_secret env = base64 url_digit (buffer 32 (ax_random env 0))"

text \<open>The key, its hash and its prefix.\<close>

definition generate_api_key :: "bcrypt_lib \<Rightarrow> auth_env \<Rightarrow> (string \<times> string \<times> string) option" where
  "generate_api_key bc env =
     (if ax_fail env QRandom then None
      else (let pre = ''dgpu_'' @ take 8 (key_secret env); key = pre @ ''_'' @ drop 8 (key_secret env) in
        case hash_password bc env 0 key of None \<Rightarrow> None | Some h \<Rightarrow> Some (key, h, pre)))"

definition day :: duration where
  "day = 24 * 60 * minute"

definition key_expiry :: "auth_env \<Rightarrow> key_request \<Rightarrow> time option" where
  "key_expiry env r = (if kq_expires_in r > 0 then Some (ax_clock env 0 + kq_expires_in r * day) else None)"

definition new_key :: "auth_env \<Rightarrow> string \<Rightarrow> key_request \<Rightarrow> string \<Rightarrow> string \<Rightarrow> key_row" where
  "new_key env user r hash pre =
     \<lparr>ky_id = ax_new_id env 0, ky_user_id = user, ky_name = kq_name r, ky_description = kq_description r, ky_hash = hash, ky_prefix = pre,
      ky_scopes = join_with '','' (kq_scopes r), ky_expires_at = key_expiry env r, ky_active = True, ky_created_at = ax_clock env 1,
      ky_revoked_at = None\<rparr>"

definition create_api_key ::
    "bcrypt_lib \<Rightarrow> auth_env \<Rightarrow> http_headers \<Rightarrow> key_request option \<Rightarrow> auth_state \<Rightarrow> key_response auth_response \<times> auth_state" where
  "create_api_key bc env h body st =
     (case hh_user_id h of None \<Rightarrow> (Refused 401 ''Unauthorized'', st)
      | Some user \<Rightarrow>
      case body of None \<Rightarrow> (Refused 400 ''Invalid request payload'', st)
      | Some r \<Rightarrow>
      if kq_scopes r = [] then (Refused 400 ''At least one scope is required'', st)
      else case generate_api_key bc env of None \<Rightarrow> (Refused 500 ''Failed to generate API key'', st)
      | Some (key, hash, pre) \<Rightarrow>
      if ax_fail env QKeyInsert then (Refused 500 ''Failed to create API key'', st)
      else (Responded 201 \<lparr>kr_id = ax_new_id env 0, kr_name = kq_name r, kr_key = key, kr_prefix = pre, kr_description = kq_description r,
              kr_scopes = kq_scopes r, kr_expires_at = key_expiry env r, kr_created_at = ax_clock env 1\<rparr>,
            st\<lparr>st_keys := st_keys st @ [new_key env user r hash pre]\<rparr>))"

text \<open>The columns the list selects and the places it scans them into; a scan with another number of places fails, and the row is passed over.\<close>

definition listed_columns :: "string list" where
  "listed_columns = [''id'', ''name'', ''description'', ''key_prefix'', ''scopes'', ''expires_at'', ''is_active'', ''created_at'', ''last_used_at'']"

definition scanned_into :: "string list" where
  "scanned_into = [''ID'', ''Name'', ''Description'', ''KeyPrefix'', ''scopes'', ''ExpiresAt'', ''CreatedAt'', ''lastUsedAt'']"

definition scan_key :: "key_row \<Rightarrow> key_response option" where
  "scan_key k =
     (if length listed_columns \<noteq> length scanned_into then None
      else Some \<lparr>kr_id = ky_id k, kr_name = ky_name k, kr_key = [], kr_prefix = ky_prefix k, kr_description = ky_description k,
        kr_scopes = split_char CHR '','' (ky_scopes k), kr_expires_at = ky_expires_at k, kr_created_at = ky_created_at k\<rparr>)"

definition list_api_keys :: "auth_env \<Rightarrow> http_headers \<Rightarrow> auth_state \<Rightarrow> (key_response list \<times> nat) auth_response" where
  "list_api_keys env h st =
     (case hh_user_id h of None \<Rightarrow> Refused 401 ''Unauthorized''
      | Some user \<Rightarrow>
          if ax_fail env QKeyList then Refused 500 ''Failed to list API keys''
          else (let keys = List.map_filter scan_key (arrived env QKeyList
                  (order_desc ky_created_at (filter (\<lambda>k. ky_user_id k = user) (st_keys st))))
                in Responded 200 (keys, length keys)))"

definition revoke_api_key :: "auth_env \<Rightarrow> http_headers \<Rightarrow> string option \<Rightarrow> auth_state \<Rightarrow> unit auth_response \<times> auth_state" where
  "revoke_api_key env h body st =
     (case hh_user_id h of None \<Rightarrow> (Refused 401 ''Unauthorized'', st)
      | Some user \<Rightarrow>
      case body of None \<Rightarrow> (Refused 400 ''Invalid request payload'', st)
      | Some kid \<Rightarrow>
      if ax_fail env QKeyRevoke then (Refused 500 ''Failed to revoke API key'', st)
      else if \<not> list_ex (\<lambda>k. ky_id k = kid \<and> ky_user_id k = user) (st_keys st) then (Refused 404 ''API key not found'', st)
      else (Responded 200 (), st\<lparr>st_keys := update_by (\<lambda>k. (ky_id k, ky_user_id k)) (kid, user)
              (\<lambda>k. k\<lparr>ky_active := False, ky_revoked_at := Some (ax_clock env 0)\<rparr>) (st_keys st)\<rparr>))"

definition validate_api_key :: "bcrypt_lib \<Rightarrow> auth_env \<Rightarrow> string \<Rightarrow> auth_state \<Rightarrow> api_key_error + (string \<times> string list)" where
  "validate_api_key bc env key st =
     (case split_char CHR ''_'' key of
        a # b # rest \<Rightarrow>
          if ax_fail env QKeySelect then Inl KeyQueryFailed
          else (case select_by ky_prefix (a @ ''_'' @ b) (st_keys st) of
            None \<Rightarrow> Inl ErrInvalidAPIKey
          | Some k \<Rightarrow>
              if \<not> ky_active k then Inl ErrAPIKeyRevoked
              else if (case ky_expires_at k of None \<Rightarrow> False | Some t \<Rightarrow> ax_clock env 0 > t) then Inl ErrAPIKeyExpired
              else if \<not> bc_matches bc (ky_hash k) key then Inl ErrInvalidAPIKey
              else Inr (ky_user_id k, split_char CHR '','' (ky_scopes k)))
      | _ \<Rightarrow> Inl ErrInvalidAPIKey)"

text \<open>The first part is what stands before the first separator.\<close>

lemma split_char_upto: "\<exists>rest. split_char c s = upto_char c s # rest"
  by (induction s) (auto simp: upto_char_def split: list.split)

section \<open>Which keys are good\<close>

lemma select_updated:
  "(\<And>r. k (f r) = k r) \<Longrightarrow> select_by k x (update_by key i f rs) = map_option (\<lambda>r. if key r = i then f r else r) (select_by k x rs)"
  by (induction rs) (auto simp: update_by_def)

lemma upto_char_first: "c \<notin> set p \<Longrightarrow> upto_char c (p @ c # s) = p"
  by (induction p) (auto simp: upto_char_def)

lemma upto_char_append: "c \<in> set s \<Longrightarrow> length (upto_char c (s @ t)) < length s"
  by (induction s) (auto simp: upto_char_def)

lemma length_base64: "length (base64 d bs) = 4 * ((length bs + 2) div 3)"
proof (induction d bs rule: base64.induct)
  case (4 d a b c cs)
  have "(5 + n) div 3 = Suc ((n + 2) div 3)" for n :: nat by presburger
  with 4 show ?case by simp
qed simp_all

lemma length_key_secret: "length (key_secret env) = 44"
  by (simp add: key_secret_def length_base64 buffer_def)

definition prefixes_ok :: "auth_state \<Rightarrow> bool" where
  "prefixes_ok st \<longleftrightarrow> (\<forall>k \<in> set (st_keys st). length (ky_prefix k) = 13)"

lemma created_key:
  assumes "create_api_key bc env h (Some r) st = (Responded 201 a, st')" "hh_user_id h = Some user"
  shows "kr_prefix a = ''dgpu_'' @ take 8 (key_secret env) \<and> kr_key a = ''dgpu'' @ CHR ''_'' # take 8 (key_secret env) @ ''_'' @ drop 8 (key_secret env)
    \<and> st' = st\<lparr>st_keys := st_keys st @ [new_key env user r (bc_hash bc (ax_salt env 0) (kr_key a)) (kr_prefix a)]\<rparr>
    \<and> kr_id a = ax_new_id env 0 \<and> kr_expires_at a = key_expiry env r \<and> kq_scopes r \<noteq> []"
  using assms by (auto simp: create_api_key_def generate_api_key_def hash_password_def Let_def split: option.splits if_splits)

lemma created_prefixes_ok:
  "create_api_key bc env h (Some r) st = (Responded 201 a, st') \<Longrightarrow> hh_user_id h = Some user \<Longrightarrow> prefixes_ok st \<Longrightarrow> prefixes_ok st'"
  using created_key [of bc env h r st a st' user] by (auto simp: prefixes_ok_def length_key_secret new_key_def)

text \<open>A new key (no other key with its prefix, no scope with a comma) is accepted until it expires, for its user and with its
  scopes, exactly when the first eight characters of its secret have no underscore; with one it is refused from the start. Once
  its owner has revoked it, it is refused.\<close>

theorem api_key_usable:
  assumes "bcrypt_ok bc" "create_api_key bc env h (Some r) st = (Responded 201 a, st')" "hh_user_id h = Some user"
    "prefixes_ok st" "select_by ky_prefix (kr_prefix a) (st_keys st) = None" "\<forall>s \<in> set (kq_scopes r). CHR '','' \<notin> set s"
    "\<not> ax_fail env' QKeySelect" "\<forall>t. kr_expires_at a = Some t \<longrightarrow> ax_clock env' 0 \<le> t"
    "revoke_api_key env'' h (Some (kr_id a)) st' = (Responded 200 (), st'')"
  shows "validate_api_key bc env' (kr_key a) st' =
      (if CHR ''_'' \<in> set (take 8 (key_secret env)) then Inl ErrInvalidAPIKey else Inr (user, kq_scopes r))
    \<and> \<not> is_ok (validate_api_key bc env' (kr_key a) st'')"
proof -
  define k where "k = new_key env user r (bc_hash bc (ax_salt env 0) (kr_key a)) (kr_prefix a)"
  define t where "t = take 8 (key_secret env) @ ''_'' @ drop 8 (key_secret env)"
  define p where "p = upto_char CHR ''_'' t"
  note c = created_key [OF assms(2,3)]
  have st': "st_keys st' = st_keys st @ [k]" using c by (simp add: k_def)
  have k: "ky_id k = kr_id a" "ky_user_id k = user" "ky_prefix k = kr_prefix a" "ky_scopes k = join_with '','' (kq_scopes r)"
    "ky_expires_at k = kr_expires_at a" "ky_active k" using c by (simp_all add: k_def new_key_def)
  have key: "kr_key a = ''dgpu'' @ CHR ''_'' # t" using c by (simp add: t_def)
  obtain rest where "split_char CHR ''_'' t = p # rest" using split_char_upto [of "CHR ''_''" t] by (auto simp: p_def)
  then have split: "split_char CHR ''_'' (kr_key a) = ''dgpu'' # p # rest" unfolding key by (subst split_char_first) simp_all
  have sc: "split_char CHR '','' (join_with '','' (kq_scopes r)) = kq_scopes r" using split_char_join [of "kq_scopes r" "CHR '',''"] c assms(6) by blast
  have m: "bc_matches bc (ky_hash k) (kr_key a)" using assms(1) by (simp add: bcrypt_ok_def k_def new_key_def)
  have revoked: "st_keys st'' = update_by (\<lambda>k. (ky_id k, ky_user_id k)) (kr_id a, user)
      (\<lambda>k. k\<lparr>ky_active := False, ky_revoked_at := Some (ax_clock env'' 0)\<rparr>) (st_keys st')"
    using assms(3,9) by (auto simp: revoke_api_key_def split: if_splits)
  show ?thesis
  proof (cases "CHR ''_'' \<in> set (take 8 (key_secret env))")
    case True
    then have "length p < 8"
      using upto_char_append [OF True] unfolding p_def t_def by (simp add: length_key_secret)
    moreover have "prefixes_ok st'" using created_prefixes_ok [OF assms(2,3,4)] .
    ultimately have "select_by ky_prefix (''dgpu'' @ ''_'' @ p) (st_keys st') = None"
      unfolding select_by_None prefixes_ok_def by (auto dest: arg_cong [of _ _ length])
    then show ?thesis
      using True assms(7) by (simp add: validate_api_key_def split select_updated revoked)
  next
    case False
    then have p: "p = take 8 (key_secret env)" by (simp add: p_def t_def upto_char_first)
    then have l: "select_by ky_prefix (''dgpu'' @ ''_'' @ p) (st_keys st') = Some k"
      using assms(5) k(3) conjunct1 [OF c] p unfolding st' by (simp add: select_by_append)
    moreover have "ax_clock env' 0 \<le> t" if "ky_expires_at k = Some t" for t using that assms(8) k(5) by simp
    ultimately show ?thesis
      using False assms(7) m k(1,2,4,6) by (auto simp: validate_api_key_def split select_updated revoked sc not_less split: option.split)
  qed
qed

text \<open>The list of keys is always empty, whatever keys the user has.\<close>

theorem list_api_keys_empty:
  "list_api_keys env h st \<in> {Refused 401 ''Unauthorized'', Refused 500 ''Failed to list API keys'', Responded 200 ([], 0)}"
  by (simp add: list_api_keys_def scan_key_def listed_columns_def scanned_into_def map_filter_simps map_filter_def split: option.split)

end
