(* ===== verification/AuthDemo.thy ===== *)
theory AuthDemo
  imports AuthGuard AuthAccountFacts AuthTwoFactorFacts AuthKeys
begin

text \<open>
  Concrete requests of the authentication service: the witnesses of its properties. The token library knows two pairs of tokens; a
  demonstration hash is the length of the salt in unary, the salt and the password.
\<close>

section \<open>Libraries\<close>

definition demo_manager :: jwt_manager where
  "demo_manager = new_jwt_manager ''a'' ''r'' (10 * second) (100 * second)"

definition demo_claims :: "time \<Rightarrow> string \<Rightarrow> bool \<Rightarrow> claims" where
  "demo_claims t i f = token_claims demo_manager t ''u'' ''u@x.io'' [''user''] i f (t + (if f then 100 * second else 10 * second))"

definition demo_signed :: "(string \<times> claims \<times> string) list" where
  "demo_signed = [(''a'', demo_claims 0 ''i'' False, ''A1''), (''r'', demo_claims 0 ''i'' True, ''R1''),
     (''a'', demo_claims (5 * second) ''j'' False, ''A2''), (''r'', demo_claims (5 * second) ''j'' True, ''R2'')]"

definition demo_jwt :: jwt_lib where
  "demo_jwt = \<lparr>
     jl_sign = (\<lambda>sec c. case find (\<lambda>(s, c', t). s = sec \<and> c' = c) demo_signed of Some (s, c', t) \<Rightarrow> Inr t | None \<Rightarrow> Inl ''unknown''),
     jl_parse = (\<lambda>now sec tok. case find (\<lambda>(s, c', t). s = sec \<and> t = tok) demo_signed of
        Some (s, c, t) \<Rightarrow> (case claims_valid_at now c of Some e \<Rightarrow> Inl e | None \<Rightarrow> Inr c) | None \<Rightarrow> Inl (ParseOther ''signature'')),
     jl_unverified = (\<lambda>tok. Inl ''unused'')\<rparr>"

lemma demo_claims_ne [simp]: "demo_claims 0 ''i'' False \<noteq> demo_claims t i' True" "demo_claims 0 ''i'' f \<noteq> demo_claims t ''j'' f'"
  "demo_claims t ''j'' False \<noteq> demo_claims t' i' True" "demo_claims t i' True \<noteq> demo_claims t' i'' False"
  by (simp_all add: demo_claims_def token_claims_def)

lemma demo_jwt_ok: "jwt_lib_ok demo_jwt"
  by (auto simp: jwt_lib_ok_def demo_jwt_def demo_signed_def split: if_splits option.splits)

lemma demo_sign [simp]:
  "jl_sign demo_jwt ''a'' (demo_claims 0 ''i'' False) = Inr ''A1''" "jl_sign demo_jwt ''r'' (demo_claims 0 ''i'' True) = Inr ''R1''"
  "jl_sign demo_jwt ''a'' (demo_claims (5 * second) ''j'' False) = Inr ''A2''" "jl_sign demo_jwt ''r'' (demo_claims (5 * second) ''j'' True) = Inr ''R2''"
  by (simp_all add: demo_jwt_def demo_signed_def)

lemma demo_manager_simps [simp]: "jm_access_secret demo_manager = ''a''" "jm_refresh_secret demo_manager = ''r''"
  "jm_access_ttl demo_manager = 10 * second" "jm_refresh_ttl demo_manager = 100 * second"
  by (simp_all add: demo_manager_def new_jwt_manager_def)

definition demo_pair :: "string \<Rightarrow> string \<Rightarrow> time \<Rightarrow> token_pair" where
  "demo_pair a r t = \<lparr>tp_access_token = a, tp_refresh_token = r, tp_expires_at = t + 10 * second, tp_token_type = ''Bearer''\<rparr>"

lemma demo_generated:
  "generate_token_pair demo_jwt demo_manager 0 (Inr ''i'') ''u'' ''u@x.io'' [''user''] = Inr (demo_pair ''A1'' ''R1'' 0)"
  "generate_token_pair demo_jwt demo_manager (5 * second) (Inr ''j'') ''u'' ''u@x.io'' [''user''] = Inr (demo_pair ''A2'' ''R2'' (5 * second))"
  using demo_sign by (simp_all add: generate_token_pair_def demo_claims_def demo_pair_def)

definition demo_bcrypt :: bcrypt_lib where
  "demo_bcrypt = \<lparr>bc_hash = (\<lambda>s p. replicate (length s) CHR ''x'' @ ''.'' @ s @ p),
     bc_matches = (\<lambda>h p. drop (2 * length (takeWhile (\<lambda>c. c = CHR ''x'') h) + 1) h = p)\<rparr>"

lemma unary_prefix: "takeWhile (\<lambda>c. c = CHR ''x'') (replicate n CHR ''x'' @ CHR ''.'' # t) = replicate n CHR ''x''"
  by (induction n) simp_all

lemma demo_bcrypt_ok: "bcrypt_ok demo_bcrypt"
proof -
  have inj: "s = s'" if e: "replicate (length s) CHR ''x'' @ CHR ''.'' # s @ p = replicate (length s') CHR ''x'' @ CHR ''.'' # s' @ p'" for s p s' p' :: string
  proof -
    have "replicate (length s) CHR ''x'' = replicate (length s') CHR ''x''" using arg_cong [OF e, of "takeWhile (\<lambda>c. c = CHR ''x'')"]
      by (simp only: unary_prefix)
    then have "length s = length s'" by (simp add: replicate_eq_replicate)
    then show ?thesis using e by simp
  qed
  show ?thesis
    unfolding bcrypt_ok_def
  proof (intro conjI allI impI)
    fix s p s' p' assume "bc_hash demo_bcrypt s p = bc_hash demo_bcrypt s' p'"
    then show "s = s'" by (intro inj [of s p s' p']) (simp add: demo_bcrypt_def)
  qed (simp_all add: demo_bcrypt_def unary_prefix)
qed

section \<open>Requests\<close>

definition demo_env :: "time \<Rightarrow> string \<Rightarrow> (nat \<Rightarrow> string) \<Rightarrow> auth_env" where
  "demo_env t salt rnd = \<lparr>ax_fail = (\<lambda>q. False), ax_rows = (\<lambda>q. None), ax_clock = (\<lambda>n. t), ax_db_now = t,
     ax_salt = (\<lambda>n. salt @ replicate n CHR ''s''), ax_random = rnd, ax_new_id = (\<lambda>n. ''u'')\<rparr>"

definition demo_headers :: http_headers where
  "demo_headers = \<lparr>hh_forwarded_for = [], hh_real_ip = ''10.0.0.9'', hh_remote_addr = [], hh_user_agent = ''cli'', hh_user_id = Some ''u''\<rparr>"

definition demo_user :: auth_user where
  "demo_user = \<lparr>au_id = ''u'', au_email = ''u@x.io'', au_username = ''u_1'', au_password_hash = ''.secret'', au_first_name = ''U'',
     au_last_name = [], au_phone = [], au_organization = [], au_active = True, au_verified = True, au_role = ''user'',
     au_subscription = ''basic'', au_created_at = 0, au_updated_at = 0\<rparr>"

definition demo_session :: auth_session where
  "demo_session = \<lparr>as_id = ''s'', as_user_id = ''u'', as_refresh_token = ''R1'', as_ip = ''10.0.0.9'', as_agent = ''cli'',
     as_expires_at = 50 * second, as_last_activity = 0, as_revoked_at = None, as_created_at = 0\<rparr>"

definition demo_auth :: auth_state where
  "demo_auth = empty_auth\<lparr>st_users := [demo_user], st_sessions := [demo_session]\<rparr>"

definition demo_login_config :: login_config where
  "demo_login_config = \<lparr>lc_max_attempts = 1, lc_lockout = 60 * second, lc_session_timeout = 100 * second, lc_remember_me = 1000 * second,
     lc_require_verified = True, lc_alerts = False, lc_2fa = True\<rparr>"

lemmas demo_state_defs = demo_auth_def empty_auth_def demo_user_def demo_session_def demo_env_def demo_headers_def

theorem token_pair_valid_witness:
  "\<exists>c. validate_access_token demo_jwt demo_manager second ''A1'' = Inr c \<and> cl_user_id c = ''u''"
  using token_pair_valid [OF demo_jwt_ok demo_generated(1), of second]
  by (simp add: demo_pair_def numeric_date_def split: sum.splits)

lemma demo_mail: "is_valid_email ''U@x.io''" "is_valid_email ''u@x.io''"
  by (simp_all add: is_valid_email_def local_char_def is_alpha_def is_number_def domain_char_def)

lemma demo_lower: "to_lower ''U@x.io'' = ''u@x.io''" "to_lower ''u@x.io'' = ''u@x.io''"
proof -
  have "char_of (117 :: nat) = CHR ''u''" by code_simp
  then show "to_lower ''U@x.io'' = ''u@x.io''" "to_lower ''u@x.io'' = ''u@x.io''" by (simp_all add: to_lower_def lower_char_def)
qed

theorem lockout_enforced_witness:
  "\<exists>as st2. login_run demo_login_config demo_bcrypt demo_jwt demo_manager
       [(demo_env 5 [] (\<lambda>n. []), demo_headers, Some \<lparr>lr_email = ''u@x.io'', lr_password = ''secret'', lr_remember = False\<rparr>)]
       (snd (login demo_login_config demo_bcrypt demo_jwt demo_manager (demo_env 4 [] (\<lambda>n. [])) demo_headers
          (Some \<lparr>lr_email = ''U@x.io'', lr_password = ''guess'', lr_remember = False\<rparr>) demo_auth)) = (as, st2)
     \<and> (\<forall>a \<in> set as. auth_status a \<in> {403, 500})"
proof -
  let ?r = "\<lparr>lr_email = ''U@x.io'', lr_password = ''guess'', lr_remember = False\<rparr>"
  let ?rs = "[(demo_env 5 [] (\<lambda>n. []), demo_headers, Some \<lparr>lr_email = ''u@x.io'', lr_password = ''secret'', lr_remember = False\<rparr>)]"
  let ?st1 = "snd (login demo_login_config demo_bcrypt demo_jwt demo_manager (demo_env 4 [] (\<lambda>n. [])) demo_headers (Some ?r) demo_auth)"
  have "fst (login demo_login_config demo_bcrypt demo_jwt demo_manager (demo_env 4 [] (\<lambda>n. [])) demo_headers (Some ?r) demo_auth)
      = Refused 401 ''Invalid email or password''"
    by (simp add: login_def demo_mail demo_lower is_account_locked_def demo_state_defs order_desc_def demo_bcrypt_def demo_login_config_def Let_def)
  then have l: "login demo_login_config demo_bcrypt demo_jwt demo_manager (demo_env 4 [] (\<lambda>n. [])) demo_headers (Some ?r) demo_auth
      = (Refused 401 ''Invalid email or password'', ?st1)" by (metis prod.collapse)
  obtain as st2 where r: "login_run demo_login_config demo_bcrypt demo_jwt demo_manager ?rs ?st1 = (as, st2)" by fastforce
  have "st2 = ?st1 \<and> (\<forall>a \<in> set as. auth_status a \<in> {403, 500})"
    by (rule lockout_enforced [OF l _ _ _ r])
      (simp_all add: demo_mail demo_lower locks_out_def demo_state_defs demo_login_config_def recent_failures_def)
  with r show ?thesis by blast
qed

lemma demo_parsed: "jl_parse demo_jwt (5 * second) ''r'' ''R1'' = Inr (demo_claims 0 ''i'' True)"
  using sign_parse [OF demo_jwt_ok demo_sign(2)] by (simp add: demo_claims_def token_claims_def claims_valid_at_def numeric_date_def)

lemma demo_refreshed: "\<exists>st'. refresh_token demo_login_config demo_jwt demo_manager (demo_env (5 * second) [] (\<lambda>n. ''j'')) (Some ''R1'') demo_auth
    = (Responded 200 (demo_pair ''A2'' ''R2'' (5 * second)), st')"
  using demo_generated(2)
  by (simp add: refresh_token_def refresh_tokens_def validate_refresh_token_def validate_token_def demo_parsed [simplified] demo_claims_def
      is_session_valid_def find_session_def random_id_def update_session_def demo_state_defs)

theorem refresh_rotates_witness:
  "\<exists>st'. refresh_token demo_login_config demo_jwt demo_manager (demo_env (5 * second) [] (\<lambda>n. ''j'')) (Some ''R1'') demo_auth
       = (Responded 200 (demo_pair ''A2'' ''R2'' (5 * second)), st')
     \<and> auth_status (fst (refresh_token demo_login_config demo_jwt demo_manager (demo_env (6 * second) [] (\<lambda>n. ''j'')) (Some ''R1'') st')) \<in> {401, 500}"
proof -
  obtain st' where r: "refresh_token demo_login_config demo_jwt demo_manager (demo_env (5 * second) [] (\<lambda>n. ''j'')) (Some ''R1'') demo_auth
      = (Responded 200 (demo_pair ''A2'' ''R2'' (5 * second)), st')" using demo_refreshed by blast
  have "auth_status (fst (refresh_token demo_login_config demo_jwt demo_manager (demo_env (6 * second) [] (\<lambda>n. ''j'')) (Some ''R1'') st')) \<in> {401, 500}"
    by (rule conjunct1 [OF refresh_rotates [OF demo_jwt_ok demo_sign(2) r]])
      (simp_all add: demo_state_defs demo_pair_def)
  with r show ?thesis by blast
qed

theorem logout_leaves_access_token_witness:
  "\<exists>st'. logout (demo_env second [] (\<lambda>n. [])) demo_headers [] demo_auth = (Responded 200 (), st')
     \<and> (\<exists>cx. fst (authenticate demo_jwt demo_manager (demo_env (2 * second) [] (\<lambda>n. [])) ''Bearer A1'' st') = Responded 200 cx \<and> cx_user_id cx = ''u'')"
proof -
  obtain st' where l: "logout (demo_env second [] (\<lambda>n. [])) demo_headers [] demo_auth = (Responded 200 (), st')"
    by (simp add: logout_def revoke_all_sessions_def demo_state_defs)
  have "\<exists>cx. fst (authenticate demo_jwt demo_manager (demo_env (2 * second) [] (\<lambda>n. []))
        (''Bearer '' @ tp_access_token (demo_pair ''A1'' ''R1'' 0)) st') = Responded 200 cx \<and> cx_user_id cx = ''u'' \<and> cx_roles cx = [''user'']"
    by (rule conjunct2 [OF logout_leaves_access_token [OF demo_jwt_ok demo_generated(1) l, of demo_user]])
      (simp_all add: demo_state_defs numeric_date_def)
  with l show ?thesis by (auto simp: demo_pair_def)
qed

section \<open>Accounts\<close>

definition demo_policy :: password_policy where
  "demo_policy = \<lparr>pp_min_length = 8, pp_upper = False, pp_lower = True, pp_number = False, pp_special = False\<rparr>"

definition demo_registration :: "bool \<Rightarrow> registration_config" where
  "demo_registration verify = \<lparr>rc_require_verification = verify, rc_policy = demo_policy, rc_token_ttl = 60 * second, rc_enabled = True\<rparr>"

definition demo_reset :: reset_config where
  "demo_reset = \<lparr>rs_token_ttl = 60 * second, rs_cooldown = second, rs_policy = demo_policy\<rparr>"

definition demo_reset_run :: "(auth_env \<times> account_request) list" where
  "demo_reset_run = [(demo_env 1 ''p'' (\<lambda>n. ''token''), ARequestReset (Some ''u@x.io'')),
     (demo_env 2 ''q'' (\<lambda>n. []), AReset (Some \<lparr>rq_token = ''token'', rq_password = ''newsecret'', rq_confirm = ''newsecret''\<rparr>))]"

theorem mailed_links_dead_witness:
  "\<exists>ns st'. account_run (demo_registration True) demo_reset demo_bcrypt demo_reset_run demo_auth = (ns, st')
     \<and> ns ! 1 \<in> {400, 404, 500} \<and> st_mails st' = [MailReset ''u@x.io'' ''token'' ''U'']"
proof -
  obtain ns st' where r: "account_run (demo_registration True) demo_reset demo_bcrypt demo_reset_run demo_auth = (ns, st')" by fastforce
  have "list_all2 (\<lambda>(env, q) n. presents_token q \<longrightarrow> n \<in> {400, 404, 500}) demo_reset_run ns"
    by (rule conjunct1 [OF mailed_links_dead [OF demo_bcrypt_ok _ _ _ _ r]])
      (simp_all add: demo_reset_run_def run_salts_def demo_state_defs)
  then have "ns ! 1 \<in> {400, 404, 500}" by (auto simp: demo_reset_run_def list_all2_Cons1)
  moreover have "st_mails st' = [MailReset ''u@x.io'' ''token'' ''U'']"
    using r by (auto simp: demo_reset_run_def request_password_reset_def demo_mail demo_lower can_request_reset_def generate_token_def
        hash_token_def demo_bcrypt_def demo_state_defs reset_password_def demo_reset_def demo_policy_def validate_password_strength_def is_lower_def Let_def)
  ultimately show ?thesis using r by blast
qed

definition total_jwt :: jwt_lib where
  "total_jwt = \<lparr>jl_sign = (\<lambda>sec c. Inr ''T''), jl_parse = (\<lambda>now sec tok. Inl (ParseOther ''unread'')), jl_unverified = (\<lambda>tok. Inl ''unread'')\<rparr>"

definition demo_request :: registration_request where
  "demo_request = \<lparr>rg_email = ''u@x.io'', rg_password = ''mysecret'', rg_confirm = ''mysecret'', rg_first_name = ''U'', rg_last_name = [],
     rg_phone = [], rg_organization = [], rg_accept_terms = True\<rparr>"

theorem register_then_login_witness:
  "\<exists>a st' s st''. register_account (demo_registration False) demo_bcrypt (demo_env 1 ''p'' (\<lambda>n. [])) (Some demo_request) empty_auth = (Responded 201 a, st')
     \<and> login demo_login_config demo_bcrypt total_jwt demo_manager (demo_env 2 [] (\<lambda>n. [])) demo_headers
         (Some \<lparr>lr_email = rg_email demo_request, lr_password = rg_password demo_request, lr_remember = False\<rparr>) st' = (Responded 200 (LoggedIn s), st'')
     \<and> ui_roles (ls_info s) = [''user'']"
proof -
  obtain a st' where r: "register_account (demo_registration False) demo_bcrypt (demo_env 1 ''p'' (\<lambda>n. [])) (Some demo_request) empty_auth
      = (Responded 201 a, st')"
    by (simp add: register_account_def validate_registration_request_def demo_registration_def demo_policy_def validate_password_strength_def
        demo_request_def demo_mail is_lower_def hash_password_def accepts_user_def commit_registration_def demo_env_def empty_auth_def Let_def)
  obtain b st'' where l: "login demo_login_config demo_bcrypt total_jwt demo_manager (demo_env 2 [] (\<lambda>n. [])) demo_headers
      (Some \<lparr>lr_email = rg_email demo_request, lr_password = rg_password demo_request, lr_remember = False\<rparr>) st' = (b, st'')" by fastforce
  have t: "\<forall>sec c. \<exists>t. jl_sign total_jwt sec c = Inr t" "no_failures (demo_env 2 [] (\<lambda>n. []))"
    by (simp_all add: total_jwt_def no_failures_def demo_env_def)
  have e: "\<forall>x \<in> set (st_attempts empty_auth). la_email x \<noteq> to_lower (rg_email demo_request)"
    "\<forall>x \<in> set (st_two_factor empty_auth). tf_user_id x \<noteq> ra_user_id a" "\<forall>x \<in> set (st_roles empty_auth). ro_user_id x \<noteq> ra_user_id a"
    by (simp_all add: empty_auth_def)
  from register_then_login [OF demo_bcrypt_ok t r e l] r l show ?thesis by (auto simp: demo_registration_def)
qed

section \<open>The second factor and API keys\<close>

definition demo_totp :: totp_lib where
  "demo_totp = \<lparr>tl_generate = (\<lambda>issuer account rnd. Some (''S'', ''otpauth'')), tl_valid = (\<lambda>t secret code. code = ''123456'')\<rparr>"

definition demo_setting :: second_factor_setting where
  "demo_setting = \<lparr>ss_login = demo_login_config, ss_config = \<lparr>tc_issuer = ''dante'', tc_code_ttl = 60 * second, tc_backup_count = 2\<rparr>,
     ss_totp = demo_totp, ss_bcrypt = demo_bcrypt, ss_jwt = demo_jwt, ss_manager = demo_manager\<rparr>"

definition sms_auth :: auth_state where
  "sms_auth = snd (enable_2fa (ss_config demo_setting) demo_totp (demo_env 1 [] (\<lambda>n. [])) demo_headers
     (Some \<lparr>en_method = ''sms'', en_phone = ''555''\<rparr>) demo_auth)"

lemma trace_one: "second_factor_step g st e st' \<Longrightarrow> second_factor_trace g st [e] st'"
  using trace_step [OF trace_none] by fastforce

theorem second_factor_is_totp_witness:
  "map tf_method (st_two_factor sms_auth) = [''sms'']
   \<and> auth_status (fst (verify_2fa_setup (ss_config demo_setting) demo_totp (demo_env 2 [] (\<lambda>n. [])) demo_headers (Some ''000000'') sms_auth)) \<in> {400, 500}"
proof -
  have s: "second_factor_trace demo_setting demo_auth [SetUp] sms_auth"
    unfolding sms_auth_def
    by (rule trace_one, rule step_enable [where env = "demo_env 1 [] (\<lambda>n. [])" and h = demo_headers and b = "Some \<lparr>en_method = ''sms'', en_phone = ''555''\<rparr>"])
      (simp add: demo_setting_def prod_eq_iff)
  have rows: "st_two_factor sms_auth = [method_row (demo_env 1 [] (\<lambda>n. [])) 2 ''u'' ''sms'' None (Some ''555'')]"
    by (simp add: sms_auth_def enable_2fa_def has_2fa_enabled_def setup_sms_def store_code_def upsert_method_def method_row_def demo_state_defs Let_def)
  then have "order_desc tf_created_at (filter (\<lambda>r. tf_user_id r = ''u'' \<and> \<not> tf_enabled r) (st_two_factor sms_auth))
      = [method_row (demo_env 1 [] (\<lambda>n. [])) 2 ''u'' ''sms'' None (Some ''555'')]"
    by (simp add: method_row_def order_desc_def)
  with second_factor_is_totp [OF s] rows show ?thesis
    by (simp add: demo_auth_def empty_auth_def demo_headers_def method_row_def)
qed

definition totp_auth :: auth_state where
  "totp_auth = demo_auth\<lparr>st_two_factor := [(method_row (demo_env 1 [] (\<lambda>n. [])) 0 ''u'' ''totp'' (Some ''S'') None)\<lparr>tf_enabled := True\<rparr>]\<rparr>"

lemma totp_auth_on: "factor_on ''u'' totp_auth"
  by (simp add: factor_on_def totp_auth_def method_row_def)

theorem second_factor_locks_out_witness:
  "sessions_of ''u'' (snd (login demo_login_config demo_bcrypt demo_jwt demo_manager (demo_env 1 [] (\<lambda>n. [])) demo_headers
     (Some \<lparr>lr_email = ''u@x.io'', lr_password = ''secret'', lr_remember = False\<rparr>) totp_auth)) = [demo_session]"
proof -
  obtain a st' where l: "login demo_login_config demo_bcrypt demo_jwt demo_manager (demo_env 1 [] (\<lambda>n. [])) demo_headers
     (Some \<lparr>lr_email = ''u@x.io'', lr_password = ''secret'', lr_remember = False\<rparr>) totp_auth = (a, st')" by fastforce
  have "second_factor_trace demo_setting totp_auth [PasswordLogin a] st'"
    by (rule trace_one, rule step_login, unfold demo_setting_def second_factor_setting.select_convs, rule l)
  then have "sessions_of ''u'' st' = sessions_of ''u'' totp_auth"
    using second_factor_locks_out [OF _ _ totp_auth_on] by (simp add: demo_setting_def demo_login_config_def)
  with l show ?thesis by (simp add: sessions_of_def totp_auth_def demo_auth_def demo_session_def)
qed

theorem disable_without_code_witness:
  "\<exists>st'. disable_2fa (demo_env 2 [] (\<lambda>n. [])) demo_headers (Some \<lparr>dr_password = ''guess'', dr_code = ''000000''\<rparr>) totp_auth = (Responded 200 (), st')
     \<and> \<not> factor_on ''u'' st'"
proof -
  obtain st' where d: "disable_2fa (demo_env 2 [] (\<lambda>n. [])) demo_headers (Some \<lparr>dr_password = ''secret'', dr_code = ''123456''\<rparr>) totp_auth
      = (Responded 200 (), st')"
    by (simp add: disable_2fa_def totp_auth_def demo_state_defs Let_def)
  have h: "hh_user_id demo_headers = Some ''u''" by (simp add: demo_headers_def)
  have "disable_2fa (demo_env 2 [] (\<lambda>n. [])) demo_headers (Some \<lparr>dr_password = ''guess'', dr_code = ''000000''\<rparr>) totp_auth = (Responded 200 (), st')"
    using disable_without_code [OF d h] by blast
  moreover have "\<not> factor_on ''u'' st'"
    using d by (auto simp: disable_2fa_def totp_auth_def demo_state_defs method_row_def factor_on_def update_by_def Let_def)
  ultimately show ?thesis by blast
qed

definition demo_key_request :: key_request where
  "demo_key_request = \<lparr>kq_name = ''ci'', kq_description = [], kq_scopes = [''jobs'', ''wallet''], kq_expires_in = 0\<rparr>"

lemma demo_secret: "take 8 (key_secret (demo_env t s (\<lambda>n. []))) = ''AAAAAAAA''"
  by (simp add: key_secret_def buffer_def demo_env_def upt_rec url_digit_def base64_digits_def)

theorem api_key_usable_witness:
  "\<exists>a st'. create_api_key demo_bcrypt (demo_env 1 ''p'' (\<lambda>n. [])) demo_headers (Some demo_key_request) demo_auth = (Responded 201 a, st')
     \<and> validate_api_key demo_bcrypt (demo_env 2 [] (\<lambda>n. [])) (kr_key a) st' = Inr (''u'', [''jobs'', ''wallet''])"
proof -
  obtain a st' where c: "create_api_key demo_bcrypt (demo_env 1 ''p'' (\<lambda>n. [])) demo_headers (Some demo_key_request) demo_auth = (Responded 201 a, st')"
    and k: "kr_id a = ''u''" "kr_expires_at a = None" "list_ex (\<lambda>k. ky_id k = ''u'' \<and> ky_user_id k = ''u'') (st_keys st')"
    by (simp add: create_api_key_def generate_api_key_def hash_password_def length_key_secret key_expiry_def new_key_def demo_key_request_def
        demo_env_def demo_headers_def Let_def)
  obtain st'' where r: "revoke_api_key (demo_env 3 [] (\<lambda>n. [])) demo_headers (Some (kr_id a)) st' = (Responded 200 (), st'')"
    using k by (simp add: revoke_api_key_def demo_env_def demo_headers_def)
  have h: "hh_user_id demo_headers = Some ''u''" by (simp add: demo_headers_def)
  have "prefixes_ok demo_auth" "select_by ky_prefix (kr_prefix a) (st_keys demo_auth) = None"
    "\<forall>s \<in> set (kq_scopes demo_key_request). CHR '','' \<notin> set s" "\<not> ax_fail (demo_env 2 [] (\<lambda>n. [])) QKeySelect"
    "\<forall>t. kr_expires_at a = Some t \<longrightarrow> ax_clock (demo_env 2 [] (\<lambda>n. [])) 0 \<le> t"
    using k(2) by (simp_all add: prefixes_ok_def demo_state_defs demo_key_request_def)
  from api_key_usable [OF demo_bcrypt_ok c h this r] c show ?thesis
    by (auto simp: demo_secret demo_key_request_def)
qed

end
