(* ===== verification/Gateway.thy ===== *)
theory Gateway
  imports GoText
begin

text \<open>
  The API gateway (\<open>services/api-gateway\<close>): choice of an instance (\<open>internal/loadbalancer/balancer.go\<close>), the reverse proxy
  (\<open>internal/handlers/proxy.go\<close>, \<open>internal/consul/client.go\<close>), forwarding (\<open>internal/upstream/upstream.go\<close>), tokens and their guard
  (\<open>internal/auth/jwt.go\<close>, \<open>internal/middleware/auth.go\<close>), cross-origin rules (\<open>internal/middleware/cors.go\<close>), the authentication
  routes (\<open>internal/handlers/auth.go\<close>) and the entry of the log stream (\<open>internal/handlers/logs.go\<close>). Which texts parse as an address,
  the catalogue of services, the token library and the answers of other services are arguments.
\<close>

section \<open>Load balancing\<close>

record balanced_service =
  sn_id :: string
  sn_address :: string
  sn_node_address :: string
  sn_port :: int
  sn_meta :: "string \<rightharpoonup> string"
  sn_tags :: "string list"

record target_url =
  tu_scheme :: string
  tu_host :: string

definition service_scheme :: "balanced_service \<Rightarrow> string" where
  "service_scheme s =
     (case sn_meta s ''protocol'' of
        Some p \<Rightarrow> if to_lower p \<in> {''https'', ''http''} then to_lower p else ''http''
      | None \<Rightarrow> if list_ex (\<lambda>t. to_lower t = ''https'') (sn_tags s) then ''https'' else ''http'')"

definition service_target :: "balanced_service \<Rightarrow> target_url" where
  "service_target s =
     \<lparr>tu_scheme = service_scheme s,
      tu_host = (if sn_address s = [] then sn_node_address s else sn_address s) @ '':'' @ int_text (sn_port s)\<rparr>"

definition target_text :: "target_url \<Rightarrow> string" where
  "target_text t = tu_scheme t @ ''://'' @ tu_host t"

definition chosen_target :: "(string \<Rightarrow> bool) \<Rightarrow> balanced_service \<Rightarrow> string + target_url" where
  "chosen_target url_ok s =
     (let t = service_target s in
      if url_ok (target_text t) then Inr t
      else Inl (''failed to parse target URL '' @ target_text t @ '' for service '' @ sn_id s))"

text \<open>The counter wraps around at 64 bits.\<close>

definition next_instance :: "(string \<Rightarrow> bool) \<Rightarrow> u64 \<Rightarrow> balanced_service list \<Rightarrow> (string + target_url) \<times> u64" where
  "next_instance url_ok n ss =
     (if ss = [] then (Inl ''no available services for load balancing'', n)
      else (let idx = n + 1 in (chosen_target url_ok (ss ! unat (idx mod of_nat (length ss))), idx)))"

primrec next_instances :: "(string \<Rightarrow> bool) \<Rightarrow> nat \<Rightarrow> balanced_service list \<Rightarrow> u64 \<Rightarrow> (string + target_url) list \<times> u64" where
  "next_instances url_ok 0 ss n = ([], n)"
| "next_instances url_ok (Suc k) ss n =
     (case next_instance url_ok n ss of (r, n') \<Rightarrow> (case next_instances url_ok k ss n' of (rs, n'') \<Rightarrow> (r # rs, n'')))"

section \<open>Outgoing requests\<close>

record outgoing =
  og_method :: string
  og_url :: string
  og_headers :: "(string \<times> string) list"
  og_body :: string

datatype gw_answer = GwError nat string | GwRelay nat string | GwEmpty nat

fun gw_status :: "gw_answer \<Rightarrow> nat" where
  "gw_status (GwError n m) = n"
| "gw_status (GwRelay n b) = n"
| "gw_status (GwEmpty n) = n"

record gw_env =
  ge_url_ok :: "string \<Rightarrow> bool"
  ge_upstream :: "outgoing \<Rightarrow> string + nat \<times> string"
  ge_discover :: "string \<Rightarrow> string + balanced_service list"
  ge_proxied :: "target_url \<Rightarrow> outgoing \<Rightarrow> nat \<times> string"
  ge_now :: time

record gw_request =
  gq_method :: string
  gq_path :: string
  gq_content_type :: string
  gq_authorization :: string
  gq_origin :: string
  gq_body :: string

definition build_url :: "string \<Rightarrow> string \<Rightarrow> string" where
  "build_url base path = base @ path"

text \<open>The answer with the requests that were sent.\<close>

definition send_upstream :: "gw_env \<Rightarrow> outgoing \<Rightarrow> gw_answer \<times> outgoing list" where
  "send_upstream env o1 =
     (if \<not> ge_url_ok env (og_url o1) then (GwError 502 ''Bad gateway'', [])
      else case ge_upstream env o1 of
        Inl e \<Rightarrow> (GwError 502 ''Upstream service unavailable'', [o1])
      | Inr (code, body) \<Rightarrow> (GwRelay code body, [o1]))"

definition forward :: "gw_env \<Rightarrow> gw_request \<Rightarrow> string \<Rightarrow> gw_answer \<times> outgoing list" where
  "forward env r url =
     send_upstream env \<lparr>og_method = gq_method r, og_url = url,
       og_headers = (''Content-Type'', if gq_content_type r \<noteq> [] then gq_content_type r else ''application/json'')
         # (if gq_authorization r \<noteq> [] then [(''Authorization'', gq_authorization r)] else []),
       og_body = gq_body r\<rparr>"

definition get_json :: "gw_env \<Rightarrow> string \<Rightarrow> string \<Rightarrow> gw_answer \<times> outgoing list" where
  "get_json env url auth =
     send_upstream env \<lparr>og_method = ''GET'', og_url = url,
       og_headers = (if auth \<noteq> [] then [(''Authorization'', auth)] else []), og_body = []\<rparr>"

definition get_with_headers :: "gw_env \<Rightarrow> string \<Rightarrow> (string \<times> string) list \<Rightarrow> gw_answer \<times> outgoing list" where
  "get_with_headers env url hs =
     send_upstream env \<lparr>og_method = ''GET'', og_url = url, og_headers = filter (\<lambda>(k, v). v \<noteq> []) hs, og_body = []\<rparr>"

section \<open>The reverse proxy\<close>

definition trim_prefix :: "string \<Rightarrow> string \<Rightarrow> string" where
  "trim_prefix p s = (if take (length p) s = p then drop (length p) s else s)"

definition proxy_path :: "string \<Rightarrow> string \<Rightarrow> string" where
  "proxy_path service path =
     (let p = trim_prefix (''/services/'' @ service) path in if take 1 p = ''/'' then p else ''/'' @ p)"

definition discover_service :: "gw_env \<Rightarrow> string \<Rightarrow> string + balanced_service list" where
  "discover_service env service =
     (case ge_discover env service of
        Inl e \<Rightarrow> Inl (''failed to discover service '' @ service @ '' in Consul: '' @ e)
      | Inr ss \<Rightarrow> if ss = [] then Inl (''no healthy instances found for service '' @ service) else Inr ss)"

text \<open>The request goes on with its headers, the Authorization header among them if there is one.\<close>

definition serve_proxy :: "gw_env \<Rightarrow> string \<Rightarrow> gw_request \<Rightarrow> u64 \<Rightarrow> (gw_answer \<times> outgoing list) \<times> u64" where
  "serve_proxy env service r n =
     (if service = [] then ((GwError 400 ''Service name missing in path'', []), n)
      else case discover_service env service of
        Inl e \<Rightarrow> ((GwError 502 (''Service '' @ service @ '' not found or unhealthy: '' @ e), []), n)
      | Inr ss \<Rightarrow>
          (case next_instance (ge_url_ok env) n ss of
             (Inl e, n') \<Rightarrow> ((GwError 502 (''Failed to select instance for service '' @ service), []), n')
           | (Inr t, n') \<Rightarrow>
               (let o1 = \<lparr>og_method = gq_method r, og_url = target_text t @ proxy_path service (gq_path r),
                          og_headers = (if gq_authorization r \<noteq> [] then [(''Authorization'', gq_authorization r)] else []),
                          og_body = gq_body r\<rparr>;
                    (code, body) = ge_proxied env t o1
                in ((GwRelay code body, [o1]), n'))))"

section \<open>Tokens and the guard\<close>

record gw_user =
  gu_id :: string
  gu_username :: string
  gu_role :: string

record gw_claims =
  gc_user_id :: string
  gc_username :: string
  gc_role :: string
  gc_expires_at :: time
  gc_issued_at :: time
  gc_not_before :: time
  gc_subject :: string

record gw_jwt =
  gj_sign :: "string \<Rightarrow> gw_claims \<Rightarrow> string + string"
  gj_parse :: "time \<Rightarrow> string \<Rightarrow> string \<Rightarrow> string + gw_claims"

definition numeric_seconds :: "time \<Rightarrow> time" where
  "numeric_seconds t = t div second * second"

text \<open>A signed token is read back under its secret from its start until it expires.\<close>

definition gw_jwt_ok :: "gw_jwt \<Rightarrow> bool" where
  "gw_jwt_ok lib \<longleftrightarrow> (\<forall>sec c tok. gj_sign lib sec c = Inr tok \<longrightarrow>
     (\<forall>now. if gc_not_before c \<le> now \<and> now < gc_expires_at c then gj_parse lib now sec tok = Inr c else \<exists>e. gj_parse lib now sec tok = Inl e))"

definition gw_generate_jwt :: "gw_jwt \<Rightarrow> time \<Rightarrow> gw_user \<Rightarrow> string \<Rightarrow> duration \<Rightarrow> string + string \<times> time" where
  "gw_generate_jwt lib now u secret ttl =
     (case gj_sign lib secret \<lparr>gc_user_id = gu_id u, gc_username = gu_username u, gc_role = gu_role u,
          gc_expires_at = numeric_seconds (now + ttl), gc_issued_at = numeric_seconds now, gc_not_before = numeric_seconds now,
          gc_subject = gu_id u\<rparr> of
        Inl e \<Rightarrow> Inl e | Inr tok \<Rightarrow> Inr (tok, now + ttl))"

definition gw_validate_jwt :: "gw_jwt \<Rightarrow> time \<Rightarrow> string \<Rightarrow> string \<Rightarrow> string + gw_claims" where
  "gw_validate_jwt lib now tok secret = gj_parse lib now secret tok"

text \<open>\<open>strings.Split\<close> on a blank: exactly two parts, the first \<open>bearer\<close> in any case.\<close>

definition bearer_part :: "string \<Rightarrow> string option" where
  "bearer_part hdr =
     (case split_char CHR '' '' hdr of [a, b] \<Rightarrow> if to_lower a = ''bearer'' then Some b else None | _ \<Rightarrow> None)"

definition authenticator :: "gw_jwt \<Rightarrow> string \<Rightarrow> gw_env \<Rightarrow> string \<Rightarrow> gw_answer + gw_claims" where
  "authenticator lib secret env hdr =
     (if hdr = [] then Inl (GwError 401 ''Authorization header required'')
      else case bearer_part hdr of
        None \<Rightarrow> Inl (GwError 401 ''Invalid Authorization header format'')
      | Some tok \<Rightarrow>
          (case gw_validate_jwt lib (ge_now env) tok secret of
             Inl e \<Rightarrow> Inl (GwError 401 ''Invalid or expired token'')
           | Inr c \<Rightarrow> Inr c))"

section \<open>Authentication routes, origins, logs\<close>

record gw_config =
  gg_jwt_secret :: string
  gg_auth_url :: string
  gg_billing_url :: string
  gg_scheduler_url :: string
  gg_gpu_url :: string
  gg_origins :: "string list"

definition gw_login :: "gw_config \<Rightarrow> gw_env \<Rightarrow> gw_request \<Rightarrow> gw_answer \<times> outgoing list" where
  "gw_login cfg env r = forward env r (build_url (gg_auth_url cfg) ''/login'')"

definition gw_register :: "gw_config \<Rightarrow> gw_env \<Rightarrow> gw_request \<Rightarrow> gw_answer \<times> outgoing list" where
  "gw_register cfg env r = forward env r (build_url (gg_auth_url cfg) ''/register'')"

definition gw_profile :: "gw_config \<Rightarrow> gw_env \<Rightarrow> gw_claims option \<Rightarrow> gw_request \<Rightarrow> gw_answer \<times> outgoing list" where
  "gw_profile cfg env c r =
     (case c of None \<Rightarrow> (GwError 401 ''Authentication required'', [])
      | Some c \<Rightarrow> get_with_headers env (build_url (gg_auth_url cfg) ''/profile'')
          [(''X-User-ID'', gc_user_id c), (''Authorization'', gq_authorization r)])"

text \<open>Headers for the answer, and whether the request goes on.\<close>

definition cors :: "gw_request \<Rightarrow> (string \<times> string) list \<times> bool" where
  "cors r =
     ([(''Access-Control-Allow-Origin'', ''*''), (''Access-Control-Allow-Methods'', ''GET, POST, PUT, DELETE, OPTIONS''),
       (''Access-Control-Allow-Headers'', ''Accept, Content-Type, Content-Length, Accept-Encoding, X-CSRF-Token, Authorization'')],
      gq_method r \<noteq> ''OPTIONS'')"

definition cors_with_origins :: "string list \<Rightarrow> gw_request \<Rightarrow> (string \<times> string) list \<times> bool" where
  "cors_with_origins allowed r =
     ((if list_ex (\<lambda>a. gq_origin r = a) allowed \<or> gq_origin r \<in> {''http://localhost:3000'', ''http://localhost:3001''}
       then [(''Access-Control-Allow-Origin'', gq_origin r)] else []) @
      [(''Access-Control-Allow-Methods'', ''GET, POST, PUT, DELETE, OPTIONS''),
       (''Access-Control-Allow-Headers'', ''Accept, Content-Type, Content-Length, Accept-Encoding, X-CSRF-Token, Authorization''),
       (''Access-Control-Allow-Credentials'', ''true'')],
      gq_method r \<noteq> ''OPTIONS'')"

definition origin_allowed :: "string list \<Rightarrow> string \<Rightarrow> bool" where
  "origin_allowed allowed origin \<longleftrightarrow> origin = [] \<or> list_ex (\<lambda>a. origin = a) allowed"

text \<open>The checks before the connection is upgraded; what is streamed then is the same for every client.\<close>

definition stream_logs_entry :: "gw_jwt \<Rightarrow> gw_config \<Rightarrow> gw_env \<Rightarrow> string \<Rightarrow> string \<Rightarrow> gw_answer option" where
  "stream_logs_entry lib cfg env tok origin =
     (if tok = [] then Some (GwError 401 ''Authentication required'')
      else case gw_validate_jwt lib (ge_now env) tok (gg_jwt_secret cfg) of
        Inl e \<Rightarrow> Some (GwError 401 ''Invalid or expired token'')
      | Inr c \<Rightarrow> if origin_allowed (gg_origins cfg) origin then None else Some (GwError 403 ''Forbidden''))"

end
