(* ===== verification/GatewayBilling.thy ===== *)
theory GatewayBilling
  imports Gateway BillingHandlers
begin

text \<open>
  The billing routes of the gateway (\<open>internal/handlers/billing.go\<close>) with the client they use (\<open>internal/billing/client.go\<close>), over
  any HTTP transport to the billing service; and the transport that is the modelled billing service itself, with its routes
  (\<open>setupHTTPServer\<close> in \<open>billing-payment-service/cmd/main.go\<close>). Bodies are the values JSON carries.
\<close>

section \<open>The client\<close>

datatype billing_body =
    NoBody | WalletBody wallet_create_request | DepositBody deposit_request | WithdrawBody withdrawal_request
  | PricingBody "(string \<times> json) list"

datatype billing_payload =
    WalletPay wallet | BalancePay balance_response | TransactionPay transaction | RatesPay pricing_rates | PricingPay pricing_response
  | OtherPay

text \<open>A transport error, or a status with the payload when the body decodes.\<close>

type_synonym 's billing_http = "string \<Rightarrow> string \<Rightarrow> billing_body \<Rightarrow> 's \<Rightarrow> (string + nat \<times> billing_payload option) \<times> 's"

definition expect_status :: "nat \<Rightarrow> string \<Rightarrow> string + nat \<times> billing_payload option \<Rightarrow> string + billing_payload" where
  "expect_status code what a =
     (case a of Inl e \<Rightarrow> Inl (what @ '': '' @ e)
      | Inr (n, p) \<Rightarrow>
          if n \<noteq> code then Inl (''billing service returned status '' @ nat_text n)
          else (case p of None \<Rightarrow> Inl ''failed to decode response'' | Some x \<Rightarrow> Inr x))"

definition wallet_url :: "string \<Rightarrow> uuid \<Rightarrow> string \<Rightarrow> string" where
  "wallet_url base i op = base @ ''/api/v1/wallet/'' @ uuid_text i @ ''/'' @ op"

definition client_create_wallet :: "'s billing_http \<Rightarrow> string \<Rightarrow> wallet_create_request \<Rightarrow> 's \<Rightarrow> (string + billing_payload) \<times> 's" where
  "client_create_wallet http base r st =
     (case http ''POST'' (base @ ''/api/v1/wallet'') (WalletBody r) st of (a, st') \<Rightarrow> (expect_status 201 ''failed to create wallet'' a, st'))"

definition client_wallet_balance :: "'s billing_http \<Rightarrow> string \<Rightarrow> uuid \<Rightarrow> 's \<Rightarrow> (string + billing_payload) \<times> 's" where
  "client_wallet_balance http base i st =
     (case http ''GET'' (wallet_url base i ''balance'') NoBody st of (a, st') \<Rightarrow> (expect_status 200 ''failed to get wallet balance'' a, st'))"

definition client_deposit :: "'s billing_http \<Rightarrow> string \<Rightarrow> uuid \<Rightarrow> deposit_request \<Rightarrow> 's \<Rightarrow> (string + billing_payload) \<times> 's" where
  "client_deposit http base i r st =
     (case http ''POST'' (wallet_url base i ''deposit'') (DepositBody (r\<lparr>dr_wallet_id := i\<rparr>)) st of
        (a, st') \<Rightarrow> (expect_status 200 ''failed to deposit tokens'' a, st'))"

definition client_withdraw :: "'s billing_http \<Rightarrow> string \<Rightarrow> uuid \<Rightarrow> withdrawal_request \<Rightarrow> 's \<Rightarrow> (string + billing_payload) \<times> 's" where
  "client_withdraw http base i r st =
     (case http ''POST'' (wallet_url base i ''withdraw'') (WithdrawBody (r\<lparr>wr_wallet_id := i\<rparr>)) st of
        (a, st') \<Rightarrow> (expect_status 200 ''failed to withdraw tokens'' a, st'))"

definition client_pricing_rates :: "'s billing_http \<Rightarrow> string \<Rightarrow> 's \<Rightarrow> (string + billing_payload) \<times> 's" where
  "client_pricing_rates http base st =
     (case http ''GET'' (base @ ''/api/v1/pricing/rates'') NoBody st of (a, st') \<Rightarrow> (expect_status 200 ''failed to get pricing rates'' a, st'))"

definition client_calculate_pricing :: "'s billing_http \<Rightarrow> string \<Rightarrow> (string \<times> json) list \<Rightarrow> 's \<Rightarrow> (string + billing_payload) \<times> 's" where
  "client_calculate_pricing http base m st =
     (case http ''POST'' (base @ ''/api/v1/pricing/calculate'') (PricingBody m) st of
        (a, st') \<Rightarrow> (expect_status 200 ''failed to calculate pricing'' a, st'))"

section \<open>Handlers\<close>

datatype gw_reply = ReplyError nat string | Reply nat billing_payload | ReplyPage int int uuid

fun reply_status :: "gw_reply \<Rightarrow> nat" where
  "reply_status (ReplyError n m) = n"
| "reply_status (Reply n p) = n"
| "reply_status (ReplyPage l k i) = 200"

definition client_reply :: "nat \<Rightarrow> string \<Rightarrow> (string + billing_payload) \<times> 's \<Rightarrow> gw_reply \<times> 's" where
  "client_reply code what r = (case r of (Inl e, st) \<Rightarrow> (ReplyError 500 what, st) | (Inr p, st) \<Rightarrow> (Reply code p, st))"

definition gw_create_wallet :: "'s billing_http \<Rightarrow> string \<Rightarrow> string + wallet_create_request \<Rightarrow> 's \<Rightarrow> gw_reply \<times> 's" where
  "gw_create_wallet http base body st =
     (case body of Inl e \<Rightarrow> (ReplyError 400 ''Invalid request body'', st)
      | Inr r \<Rightarrow> client_reply 201 ''Failed to create wallet'' (client_create_wallet http base r st))"

definition gw_wallet_balance :: "(string \<Rightarrow> string + uuid) \<Rightarrow> 's billing_http \<Rightarrow> string \<Rightarrow> string \<Rightarrow> 's \<Rightarrow> gw_reply \<times> 's" where
  "gw_wallet_balance parse http base w st =
     (case parse w of Inl e \<Rightarrow> (ReplyError 400 ''Invalid wallet ID'', st)
      | Inr i \<Rightarrow> client_reply 200 ''Failed to get wallet balance'' (client_wallet_balance http base i st))"

definition gw_deposit_tokens ::
    "(string \<Rightarrow> string + uuid) \<Rightarrow> 's billing_http \<Rightarrow> string \<Rightarrow> string \<Rightarrow> string + deposit_request \<Rightarrow> 's \<Rightarrow> gw_reply \<times> 's" where
  "gw_deposit_tokens parse http base w body st =
     (case parse w of Inl e \<Rightarrow> (ReplyError 400 ''Invalid wallet ID'', st)
      | Inr i \<Rightarrow> (case body of Inl e \<Rightarrow> (ReplyError 400 ''Invalid request body'', st)
          | Inr r \<Rightarrow> client_reply 200 ''Failed to process deposit'' (client_deposit http base i r st)))"

definition gw_withdraw_tokens ::
    "(string \<Rightarrow> string + uuid) \<Rightarrow> 's billing_http \<Rightarrow> string \<Rightarrow> string \<Rightarrow> string + withdrawal_request \<Rightarrow> 's \<Rightarrow> gw_reply \<times> 's" where
  "gw_withdraw_tokens parse http base w body st =
     (case parse w of Inl e \<Rightarrow> (ReplyError 400 ''Invalid wallet ID'', st)
      | Inr i \<Rightarrow> (case body of Inl e \<Rightarrow> (ReplyError 400 ''Invalid request body'', st)
          | Inr r \<Rightarrow> client_reply 200 ''Failed to process withdrawal'' (client_withdraw http base i r st)))"

definition gw_pricing_rates :: "'s billing_http \<Rightarrow> string \<Rightarrow> 's \<Rightarrow> gw_reply \<times> 's" where
  "gw_pricing_rates http base st = client_reply 200 ''Failed to get pricing rates'' (client_pricing_rates http base st)"

definition gw_calculate_pricing :: "'s billing_http \<Rightarrow> string \<Rightarrow> string + (string \<times> json) list \<Rightarrow> 's \<Rightarrow> gw_reply \<times> 's" where
  "gw_calculate_pricing http base body st =
     (case body of Inl e \<Rightarrow> (ReplyError 400 ''Invalid request body'', st)
      | Inr m \<Rightarrow> client_reply 200 ''Failed to calculate pricing'' (client_calculate_pricing http base m st))"

record estimate_request =
  eq_gpu_model :: string
  eq_vram_required :: u64
  eq_hours :: rat
  eq_power :: u32

definition estimate_fields :: "estimate_request \<Rightarrow> (string \<times> json) list" where
  "estimate_fields r =
     [(''gpu_model'', JString (eq_gpu_model r)), (''requested_vram'', JNumber (of_nat (unat (eq_vram_required r)))),
      (''duration_hours'', JNumber (eq_hours r)), (''estimated_power_w'', JNumber (of_nat (unat (eq_power r))))]"

text \<open>The answer's fixed breakdown texts are left out.\<close>

definition gw_estimate_job_cost :: "'s billing_http \<Rightarrow> string \<Rightarrow> string + estimate_request \<Rightarrow> 's \<Rightarrow> gw_reply \<times> 's" where
  "gw_estimate_job_cost http base body st =
     (case body of Inl e \<Rightarrow> (ReplyError 400 ''Invalid request body'', st)
      | Inr r \<Rightarrow> client_reply 200 ''Failed to calculate pricing'' (client_calculate_pricing http base (estimate_fields r) st))"

definition gw_transaction_history :: "(string \<Rightarrow> string + uuid) \<Rightarrow> string \<Rightarrow> (string \<Rightarrow> string) \<Rightarrow> gw_reply" where
  "gw_transaction_history parse w query =
     (case parse w of Inl e \<Rightarrow> ReplyError 400 ''Invalid wallet ID''
      | Inr i \<Rightarrow> ReplyPage (parse_limit (query ''limit'')) (parse_offset (query ''offset'')) i)"

definition gw_user_wallet :: "gw_config \<Rightarrow> gw_env \<Rightarrow> string \<Rightarrow> gw_request \<Rightarrow> gw_answer \<times> outgoing list" where
  "gw_user_wallet cfg env user r =
     (if user = [] then (GwError 400 ''User ID is required'', [])
      else get_json env (build_url (gg_billing_url cfg) (''/api/v1/user/'' @ user @ ''/wallet'')) (gq_authorization r))"

definition gw_user_balance :: "gw_config \<Rightarrow> gw_env \<Rightarrow> string \<Rightarrow> gw_request \<Rightarrow> gw_answer \<times> outgoing list" where
  "gw_user_balance cfg env user r =
     (if user = [] then (GwError 400 ''User ID is required'', [])
      else get_json env (build_url (gg_billing_url cfg) (''/api/v1/user/'' @ user @ ''/balance'')) (gq_authorization r))"

definition gw_marketplace :: "gw_config \<Rightarrow> gw_env \<Rightarrow> string \<Rightarrow> gw_request \<Rightarrow> gw_answer \<times> outgoing list" where
  "gw_marketplace cfg env raw_query r =
     get_json env (build_url (gg_gpu_url cfg) (''/gpus'' @ (if raw_query \<noteq> [] then ''?'' @ raw_query else []))) (gq_authorization r)"

definition gw_provider_earnings :: "gw_config \<Rightarrow> gw_env \<Rightarrow> string \<Rightarrow> gw_request \<Rightarrow> gw_answer \<times> outgoing list" where
  "gw_provider_earnings cfg env p r =
     (if p = [] then (GwError 400 ''Provider ID is required'', [])
      else get_json env (build_url (gg_billing_url cfg) (''/api/v1/provider/'' @ p @ ''/earnings'')) (gq_authorization r))"

definition gw_provider_rates :: "gw_config \<Rightarrow> gw_env \<Rightarrow> string \<Rightarrow> gw_request \<Rightarrow> gw_answer \<times> outgoing list" where
  "gw_provider_rates cfg env p r =
     (if p = [] then (GwError 400 ''Provider ID is required'', [])
      else get_json env (build_url (gg_billing_url cfg) (''/api/v1/provider/'' @ p @ ''/rates'')) (gq_authorization r))"

definition gw_set_provider_rates :: "gw_config \<Rightarrow> gw_env \<Rightarrow> string \<Rightarrow> gw_request \<Rightarrow> gw_answer \<times> outgoing list" where
  "gw_set_provider_rates cfg env p r =
     (if p = [] then (GwError 400 ''Provider ID is required'', [])
      else forward env r (build_url (gg_billing_url cfg) (''/api/v1/provider/'' @ p @ ''/rates'')))"

definition gw_provider_payout :: "gw_config \<Rightarrow> gw_env \<Rightarrow> string \<Rightarrow> gw_request \<Rightarrow> gw_answer \<times> outgoing list" where
  "gw_provider_payout cfg env p r =
     (if p = [] then (GwError 400 ''Provider ID is required'', [])
      else forward env r (build_url (gg_billing_url cfg) (''/api/v1/provider/'' @ p @ ''/payout'')))"

section \<open>The billing service as the transport\<close>

definition route_answer :: "('a \<Rightarrow> billing_payload) \<Rightarrow> 'a http_response \<Rightarrow> string + nat \<times> billing_payload option" where
  "route_answer f r = (case r of JsonResponse n x \<Rightarrow> Inr (n, Some (f x)) | ErrorResponse n m d \<Rightarrow> Inr (n, None))"

text \<open>The routes for wallets and prices, by the segments of the path after their prefix. A handler that does not return is a transport error;
  the list of transactions is read without a query.\<close>

definition create_wallet_route ::
    "billing_env \<Rightarrow> billing_service \<Rightarrow> string \<Rightarrow> billing_body \<Rightarrow> billing_state \<Rightarrow> (string + nat \<times> billing_payload option) \<times> billing_state" where
  "create_wallet_route env sv meth body st =
     (if meth \<noteq> ''POST'' then (Inr (405, None), st)
      else case handle_create_wallet env sv (case body of WalletBody r \<Rightarrow> Inr r | _ \<Rightarrow> Inl ''json'') st of
        None \<Rightarrow> (Inl ''timeout'', st) | Some (r, st') \<Rightarrow> (route_answer WalletPay r, st'))"

definition wallet_routes ::
    "(string \<Rightarrow> string + uuid) \<Rightarrow> billing_env \<Rightarrow> billing_service \<Rightarrow> string \<Rightarrow> string list \<Rightarrow> billing_body \<Rightarrow> billing_state
     \<Rightarrow> (string + nat \<times> billing_payload option) \<times> billing_state" where
  "wallet_routes parse env sv meth segs body st =
     (case segs of
        [] \<Rightarrow> create_wallet_route env sv meth body st
      | [[]] \<Rightarrow> create_wallet_route env sv meth body st
      | [w, op] \<Rightarrow>
          if op \<notin> {''balance'', ''deposit'', ''withdraw'', ''transactions''} then (Inr (404, None), st)
          else if meth \<noteq> (if op \<in> {''balance'', ''transactions''} then ''GET'' else ''POST'') then (Inr (405, None), st)
          else if op = ''balance''
          then (case handle_get_wallet_balance parse env sv w st of (r, st') \<Rightarrow> (route_answer BalancePay r, st'))
          else if op = ''deposit''
          then (case handle_deposit_tokens parse env sv w (case body of DepositBody r \<Rightarrow> Inr r | _ \<Rightarrow> Inl ''json'') st of
                  None \<Rightarrow> (Inl ''timeout'', st) | Some (r, st') \<Rightarrow> (route_answer TransactionPay r, st'))
          else if op = ''withdraw''
          then (case handle_withdraw_tokens parse env sv w (case body of WithdrawBody r \<Rightarrow> Inr r | _ \<Rightarrow> Inl ''json'') st of
                  (r, st') \<Rightarrow> (route_answer TransactionPay r, st'))
          else (route_answer (\<lambda>_. OtherPay) (handle_transaction_history parse w (\<lambda>_. [])), st)
      | _ \<Rightarrow> (Inr (404, None), st))"

definition pricing_routes ::
    "billing_env \<Rightarrow> billing_service \<Rightarrow> string \<Rightarrow> string list \<Rightarrow> (string + pricing_request) \<Rightarrow> string + nat \<times> billing_payload option" where
  "pricing_routes env sv meth segs body =
     (if segs = [''calculate'']
      then (if meth = ''POST'' then route_answer PricingPay (handle_calculate_pricing env sv body) else Inr (405, None))
      else if segs = [''rates'']
      then (if meth = ''GET'' then route_answer RatesPay (handle_pricing_rates sv) else Inr (405, None))
      else Inr (404, None))"

text \<open>\<open>decode\<close> is how the body of a price request decodes; \<open>other\<close> serves the routes for users, sessions and providers.\<close>

definition billing_server ::
    "(string \<Rightarrow> string + uuid) \<Rightarrow> ((string \<times> json) list \<Rightarrow> string + pricing_request)
     \<Rightarrow> (string \<Rightarrow> string list \<Rightarrow> billing_body \<Rightarrow> billing_state \<Rightarrow> (string + nat \<times> billing_payload option) \<times> billing_state)
     \<Rightarrow> billing_env \<Rightarrow> billing_service \<Rightarrow> string \<Rightarrow> billing_state billing_http" where
  "billing_server parse decode other env sv base meth url body st =
     (if take (length base) url \<noteq> base then (Inl ''no such host'', st)
      else case split_char CHR ''/'' (drop (length base) url) of
        [] # p1 # p2 # p3 # segs \<Rightarrow>
          if p1 \<noteq> ''api'' \<or> p2 \<noteq> ''v1'' then (Inr (404, None), st)
          else if p3 = ''wallet'' then wallet_routes parse env sv meth segs body st
          else if p3 = ''pricing''
          then (pricing_routes env sv meth segs (case body of PricingBody m \<Rightarrow> decode m | _ \<Rightarrow> Inl ''json''), st)
          else if p3 \<in> {''user'', ''billing'', ''provider''} then other meth (p3 # segs) body st
          else (Inr (404, None), st)
      | _ \<Rightarrow> (Inr (404, None), st))"

end
