(* ===== verification/GatewayJobs.thy ===== *)
theory GatewayJobs
  imports Gateway Consumer
begin

text \<open>
  Job submission at the gateway (\<open>internal/handlers/job.go\<close>) and how the scheduler decodes what was published
  (the tags of \<open>models.Job\<close>): a field whose tag is \<open>-\<close> is not written, one with \<open>omitempty\<close> only when it is not zero.
\<close>

record submit_request =
  sq_type :: string
  sq_name :: string
  sq_description :: string
  sq_gpu_type :: string
  sq_gpu_count :: int
  sq_min_vram :: u64
  sq_min_power :: u64
  sq_priority :: int
  sq_params :: "(string \<times> json) list"
  sq_tags :: "string list"
  sq_user_id :: string

record job_accepted =
  ja_job_id :: string
  ja_status :: string
  ja_message :: string

datatype 'a job_answer = JobRefused nat string | JobAccepted nat 'a

definition unless_empty :: "bool \<Rightarrow> string \<Rightarrow> json \<Rightarrow> (string \<times> json) list" where
  "unless_empty zero k v = (if zero then [] else [(k, v)])"

definition marshal_submission :: "submit_request \<Rightarrow> string \<Rightarrow> (string \<times> json) list" where
  "marshal_submission r job_id =
     [(''type'', JString (sq_type r)), (''name'', JString (sq_name r))]
     @ unless_empty (sq_description r = []) ''description'' (JString (sq_description r))
     @ unless_empty (sq_gpu_type r = []) ''gpu_type'' (JString (sq_gpu_type r))
     @ unless_empty (sq_gpu_count r = 0) ''gpu_count'' (JNumber (of_int (sq_gpu_count r)))
     @ unless_empty (sq_min_vram r = 0) ''min_vram_mb'' (JNumber (of_nat (unat (sq_min_vram r))))
     @ unless_empty (sq_min_power r = 0) ''min_power_w'' (JNumber (of_nat (unat (sq_min_power r))))
     @ unless_empty (sq_priority r = 0) ''priority'' (JNumber (of_int (sq_priority r)))
     @ [(''params'', JObject (sq_params r))]
     @ unless_empty (sq_tags r = []) ''tags'' (JArray (map JString (sq_tags r)))
     @ [(''job_id'', JString job_id)]"

text \<open>The body is a decoding error or the request; \<open>claims\<close> is what the guard left in the context.\<close>

definition submit_job ::
    "gw_claims option \<Rightarrow> string \<Rightarrow> bool \<Rightarrow> string + submit_request \<Rightarrow> job_accepted job_answer \<times> (string \<times> (string \<times> json) list) list" where
  "submit_job c job_id publish_ok body =
     (case body of Inl e \<Rightarrow> (JobRefused 400 ''Invalid request body'', [])
      | Inr r \<Rightarrow>
      if sq_type r = [] \<or> sq_name r = [] \<or> sq_params r = [] then (JobRefused 400 ''Type, name, and params are required fields'', [])
      else case c of None \<Rightarrow> (JobRefused 401 ''Authentication required'', [])
      | Some c \<Rightarrow>
          (let r' = r\<lparr>sq_user_id := gc_user_id c\<rparr> in
           if \<not> publish_ok then (JobRefused 500 ''Failed to submit job via message queue'', [])
           else (JobAccepted 202 \<lparr>ja_job_id = job_id, ja_status = ''queued'', ja_message = ''Job submitted successfully''\<rparr>,
                 [(''jobs.submitted'', marshal_submission r' job_id)])))"

definition get_job_status :: "gw_config \<Rightarrow> gw_env \<Rightarrow> string \<Rightarrow> gw_request \<Rightarrow> gw_answer \<times> outgoing list" where
  "get_job_status cfg env job_id r =
     (if job_id = [] then (GwError 400 ''job id required'', [])
      else get_json env (build_url (gg_scheduler_url cfg) (''/api/v1/jobs/'' @ job_id)) (gq_authorization r))"

text \<open>Nothing is sent to anyone.\<close>

definition cancel_job :: "string \<Rightarrow> job_accepted job_answer \<times> (string \<times> (string \<times> json) list) list" where
  "cancel_job job_id =
     (JobAccepted 202 \<lparr>ja_job_id = job_id, ja_status = ''cancelling'', ja_message = ''Job cancellation requested for '' @ job_id\<rparr>, [])"

section \<open>What the scheduler reads\<close>

definition field :: "(string \<times> json) list \<Rightarrow> string \<Rightarrow> json option" where
  "field o1 k = map_of (rev o1) k"

definition string_field :: "(string \<times> json) list \<Rightarrow> string \<Rightarrow> string option" where
  "string_field o1 k = (case field o1 k of None \<Rightarrow> Some [] | Some (JString s) \<Rightarrow> Some s | Some JNull \<Rightarrow> Some [] | Some _ \<Rightarrow> None)"

definition int_field :: "(string \<times> json) list \<Rightarrow> string \<Rightarrow> int option" where
  "int_field o1 k =
     (case field o1 k of None \<Rightarrow> Some 0 | Some JNull \<Rightarrow> Some 0
      | Some (JNumber q) \<Rightarrow> if of_int \<lfloor>q\<rfloor> = q \<and> - (2 ^ 63) \<le> \<lfloor>q\<rfloor> \<and> \<lfloor>q\<rfloor> < 2 ^ 63 then Some \<lfloor>q\<rfloor> else None
      | Some _ \<Rightarrow> None)"

definition u64_field :: "(string \<times> json) list \<Rightarrow> string \<Rightarrow> u64 option" where
  "u64_field o1 k =
     (case field o1 k of None \<Rightarrow> Some 0 | Some JNull \<Rightarrow> Some 0
      | Some (JNumber q) \<Rightarrow> if of_int \<lfloor>q\<rfloor> = q \<and> 0 \<le> \<lfloor>q\<rfloor> \<and> \<lfloor>q\<rfloor> < 2 ^ 64 then Some (of_int \<lfloor>q\<rfloor>) else None
      | Some _ \<Rightarrow> None)"

fun json_strings :: "json list \<Rightarrow> string list option" where
  "json_strings [] = Some []"
| "json_strings (JString s # js) = map_option ((#) s) (json_strings js)"
| "json_strings (JNull # js) = map_option ((#) []) (json_strings js)"
| "json_strings _ = None"

text \<open>\<open>submitted_at\<close> is a text; which texts are times is an argument.\<close>

definition decode_job :: "(string \<Rightarrow> time option) \<Rightarrow> (string \<times> json) list \<Rightarrow> string + job" where
  "decode_job parse_time o1 =
     (case (string_field o1 ''job_id'', string_field o1 ''user_id'', string_field o1 ''type'', string_field o1 ''name'',
            string_field o1 ''description'', int_field o1 ''priority'', string_field o1 ''gpu_type'', int_field o1 ''gpu_count'',
            u64_field o1 ''min_vram_mb'', u64_field o1 ''min_power_w'') of
        (Some i, Some u, Some t, Some n, Some d, Some p, Some g, Some c, Some v, Some w) \<Rightarrow>
          (case (case field o1 ''submitted_at'' of None \<Rightarrow> Some zero_time | Some JNull \<Rightarrow> Some zero_time
                 | Some (JString s) \<Rightarrow> parse_time s | Some _ \<Rightarrow> None,
                 case field o1 ''params'' of None \<Rightarrow> Some None | Some JNull \<Rightarrow> Some None
                 | Some (JObject kvs) \<Rightarrow> Some (Some (map_of (rev kvs))) | Some _ \<Rightarrow> None,
                 case field o1 ''tags'' of None \<Rightarrow> Some [] | Some JNull \<Rightarrow> Some []
                 | Some (JArray js) \<Rightarrow> json_strings js | Some _ \<Rightarrow> None) of
             (Some sa, Some ps, Some tags) \<Rightarrow>
               Inr \<lparr>j_id = i, j_user_id = u, j_type = t, j_name = n, j_description = d, j_priority = p, j_submitted_at = sa,
                 j_gpu_type = g, j_gpu_count = c, j_min_vram = v, j_min_power = w, j_params = ps, j_tags = tags\<rparr>
           | _ \<Rightarrow> Inl ''cannot unmarshal'')
      | _ \<Rightarrow> Inl ''cannot unmarshal'')"

section \<open>A submitted job at the scheduler\<close>

lemma json_strings_map: "json_strings (map JString ss) = Some ss"
  by (induction ss) simp_all

lemma field_parts [simp]:
  "field [] k = None" "field ((k', v) # xs) k = (case field xs k of Some v \<Rightarrow> Some v | None \<Rightarrow> if k = k' then Some v else None)"
  "field (unless_empty zero k' v) k = (if \<not> zero \<and> k = k' then Some v else None)"
  "field (xs @ ys) k = (case field ys k of Some v \<Rightarrow> Some v | None \<Rightarrow> field xs k)"
  by (simp_all add: field_def unless_empty_def map_add_def split: option.split)

lemma decode_submission:
  assumes "- (2 ^ 63) \<le> sq_gpu_count r" "sq_gpu_count r < 2 ^ 63" "- (2 ^ 63) \<le> sq_priority r" "sq_priority r < 2 ^ 63"
  shows "decode_job parse_time (marshal_submission r job_id) =
    Inr \<lparr>j_id = job_id, j_user_id = [], j_type = sq_type r, j_name = sq_name r, j_description = sq_description r, j_priority = sq_priority r,
      j_submitted_at = zero_time, j_gpu_type = sq_gpu_type r, j_gpu_count = sq_gpu_count r, j_min_vram = sq_min_vram r,
      j_min_power = sq_min_power r, j_params = Some (map_of (rev (sq_params r))), j_tags = sq_tags r\<rparr>"
proof -
  have u: "\<lfloor>unsigned v :: rat\<rfloor> = uint v" "of_int (uint v) = (unsigned v :: rat)" "uint v < 2 ^ 64" "0 \<le> uint v" for v :: u64
  proof -
    show "of_int (uint v) = (unsigned v :: rat)" by (rule of_int_uint)
    then show "\<lfloor>unsigned v :: rat\<rfloor> = uint v" by (metis floor_of_int)
    show "uint v < 2 ^ 64" "0 \<le> uint v" using uint_bounded [of v] by simp_all
  qed
  let ?m = "marshal_submission r job_id"
  have "string_field ?m ''job_id'' = Some job_id" "string_field ?m ''user_id'' = Some []" "string_field ?m ''type'' = Some (sq_type r)"
    "string_field ?m ''name'' = Some (sq_name r)" "string_field ?m ''description'' = Some (sq_description r)"
    "string_field ?m ''gpu_type'' = Some (sq_gpu_type r)"
    by (simp_all add: marshal_submission_def string_field_def)
  moreover have "int_field ?m ''priority'' = Some (sq_priority r)" "int_field ?m ''gpu_count'' = Some (sq_gpu_count r)"
    using assms by (simp_all add: marshal_submission_def int_field_def)
  moreover have "u64_field ?m ''min_vram_mb'' = Some (sq_min_vram r)" "u64_field ?m ''min_power_w'' = Some (sq_min_power r)"
    using u [of "sq_min_vram r"] u [of "sq_min_power r"] by (simp_all add: marshal_submission_def u64_field_def)
  moreover have "field ?m ''submitted_at'' = None" "field ?m ''params'' = Some (JObject (sq_params r))"
    "field ?m ''tags'' = (if sq_tags r = [] then None else Some (JArray (map JString (sq_tags r))))"
    by (simp_all add: marshal_submission_def)
  ultimately show ?thesis by (simp add: decode_job_def json_strings_map)
qed

text \<open>A submitted job reaches the scheduler with everything the client asked for, but without its user and its time of submission:
  the field is never written, so every rental session the scheduler requests for the job names the empty user.\<close>

theorem submitted_job_loses_user:
  assumes "submit_job c job_id True (Inr r) = (JobAccepted 202 a, sent)"
    "- (2 ^ 63) \<le> sq_gpu_count r" "sq_gpu_count r < 2 ^ 63" "- (2 ^ 63) \<le> sq_priority r" "sq_priority r < 2 ^ 63"
  shows "\<exists>msg j. sent = [(''jobs.submitted'', msg)] \<and> decode_job parse_time msg = Inr j
    \<and> j_id j = ja_job_id a \<and> j_type j = sq_type r \<and> j_name j = sq_name r \<and> j_gpu_type j = sq_gpu_type r \<and> j_gpu_count j = sq_gpu_count r
    \<and> j_min_vram j = sq_min_vram r \<and> j_min_power j = sq_min_power r \<and> j_params j = Some (map_of (rev (sq_params r))) \<and> j_tags j = sq_tags r
    \<and> j_user_id j = [] \<and> j_submitted_at j = zero_time \<and> (\<forall>p. cs_user_id (session_request p j) = [])"
proof -
  obtain c' where c: "c = Some c'" "ja_job_id a = job_id" "sent = [(''jobs.submitted'', marshal_submission (r\<lparr>sq_user_id := gc_user_id c'\<rparr>) job_id)]"
    using assms(1) by (auto simp: submit_job_def Let_def split: if_splits option.splits)
  show ?thesis
    using decode_submission [of "r\<lparr>sq_user_id := gc_user_id c'\<rparr>" parse_time job_id] assms(2-)
    by (simp add: c session_request_def Let_def split: prod.split)
qed

end
