(* ===== verification/GatewayRoutes.thy ===== *)
theory GatewayRoutes
  imports GatewayBilling GatewayJobs
begin

text \<open>
  The gateway's router (\<open>cmd/main.go\<close>): which handler a method and a path reach and whether the token guard stands before it, and
  the wallet and price routes put together with their handlers.
\<close>

datatype gw_handler =
    HealthCheck | StreamLogs | Login | Register | Profile
  | SubmitJob | GetJobStatus string | CancelJob string
  | CreateWallet | GetWalletBalance string | DepositTokens string | WithdrawTokens string | GetTransactionHistory string
  | GetUserWallet string | GetUserBalance string
  | GetPricingRates | CalculatePricing | EstimateJobCost | GetGPUMarketplace
  | GetProviderEarnings string | GetProviderRates string | SetProviderRates string | RequestProviderPayout string
  | ServiceProxy string

definition billing_group :: "string \<Rightarrow> string list \<Rightarrow> gw_handler option" where
  "billing_group meth segs =
     (case segs of
        [a] \<Rightarrow>
          if (a, meth) = (''wallet'', ''POST'') then Some CreateWallet
          else if (a, meth) = (''marketplace'', ''GET'') then Some GetGPUMarketplace
          else None
      | [a, b] \<Rightarrow>
          if a \<noteq> ''pricing'' then None
          else if (b, meth) = (''rates'', ''GET'') then Some GetPricingRates
          else if (b, meth) = (''calculate'', ''POST'') then Some CalculatePricing
          else if (b, meth) = (''estimate'', ''POST'') then Some EstimateJobCost
          else None
      | [a, i, b] \<Rightarrow>
          if a = ''wallet'' then
            (if (b, meth) = (''balance'', ''GET'') then Some (GetWalletBalance i)
             else if (b, meth) = (''deposit'', ''POST'') then Some (DepositTokens i)
             else if (b, meth) = (''withdraw'', ''POST'') then Some (WithdrawTokens i)
             else if (b, meth) = (''transactions'', ''GET'') then Some (GetTransactionHistory i)
             else None)
          else if a = ''user'' then
            (if (b, meth) = (''wallet'', ''GET'') then Some (GetUserWallet i)
             else if (b, meth) = (''balance'', ''GET'') then Some (GetUserBalance i)
             else None)
          else if a = ''provider'' then
            (if (b, meth) = (''earnings'', ''GET'') then Some (GetProviderEarnings i)
             else if (b, meth) = (''rates'', ''GET'') then Some (GetProviderRates i)
             else if (b, meth) = (''rates'', ''PUT'') then Some (SetProviderRates i)
             else if (b, meth) = (''payout'', ''POST'') then Some (RequestProviderPayout i)
             else None)
          else None
      | _ \<Rightarrow> None)"

definition jobs_group :: "string \<Rightarrow> string list \<Rightarrow> gw_handler option" where
  "jobs_group meth segs =
     (case segs of
        [] \<Rightarrow> if meth = ''POST'' then Some SubmitJob else None
      | [i] \<Rightarrow> if i = [] then None else if meth = ''GET'' then Some (GetJobStatus i) else if meth = ''DELETE'' then Some (CancelJob i) else None
      | _ \<Rightarrow> None)"

definition auth_group :: "string \<Rightarrow> string \<Rightarrow> string list \<Rightarrow> (bool \<times> gw_handler) option" where
  "auth_group me meth segs =
     (if (segs, meth) = ([''login''], ''POST'') then Some (False, Login)
      else if (segs, meth) = ([''register''], ''POST'') then Some (False, Register)
      else if (segs, meth) = ([me], ''GET'') then Some (True, Profile)
      else None)"

text \<open>The segments of a path; the flag tells whether the guard is in front.\<close>

definition gateway_route :: "string \<Rightarrow> string \<Rightarrow> (bool \<times> gw_handler) option" where
  "gateway_route meth path =
     (case split_char CHR ''/'' path of
        [] # a # segs \<Rightarrow>
          if (a, segs, meth) = (''health'', [], ''GET'') then Some (False, HealthCheck)
          else if (a, segs, meth) = (''logs'', [''stream''], ''GET'') then Some (False, StreamLogs)
          else if a = ''auth'' then auth_group ''profile'' meth segs
          else if a = ''services'' then (case segs of s # _ # _ \<Rightarrow> Some (False, ServiceProxy s) | _ \<Rightarrow> None)
          else if a = ''api'' then
            (case segs of
               v # b # rest \<Rightarrow>
                 if v \<noteq> ''v1'' then None
                 else if b = ''auth'' then auth_group ''me'' meth rest
                 else if b = ''jobs'' then map_option (Pair True) (jobs_group meth rest)
                 else if b = ''billing'' then map_option (Pair True) (billing_group meth rest)
                 else None
             | _ \<Rightarrow> None)
          else None
      | _ \<Rightarrow> None)"

text \<open>How the bodies decode.\<close>

record gw_decoders =
  gd_wallet :: "string \<Rightarrow> string + wallet_create_request"
  gd_deposit :: "string \<Rightarrow> string + deposit_request"
  gd_withdrawal :: "string \<Rightarrow> string + withdrawal_request"
  gd_pricing :: "string \<Rightarrow> string + (string \<times> json) list"
  gd_estimate :: "string \<Rightarrow> string + estimate_request"
  gd_query :: "string \<Rightarrow> string"

text \<open>The wallet and price routes behind the guard; \<open>None\<close> for a request to another handler.\<close>

definition billing_handler ::
    "(string \<Rightarrow> string + uuid) \<Rightarrow> gw_decoders \<Rightarrow> 's billing_http \<Rightarrow> string \<Rightarrow> string \<Rightarrow> gw_handler \<Rightarrow> 's \<Rightarrow> (gw_reply \<times> 's) option" where
  "billing_handler parse d http base body h st =
     (case h of
        CreateWallet \<Rightarrow> Some (gw_create_wallet http base (gd_wallet d body) st)
      | GetWalletBalance w \<Rightarrow> Some (gw_wallet_balance parse http base w st)
      | DepositTokens w \<Rightarrow> Some (gw_deposit_tokens parse http base w (gd_deposit d body) st)
      | WithdrawTokens w \<Rightarrow> Some (gw_withdraw_tokens parse http base w (gd_withdrawal d body) st)
      | GetTransactionHistory w \<Rightarrow> Some (gw_transaction_history parse w (gd_query d), st)
      | GetPricingRates \<Rightarrow> Some (gw_pricing_rates http base st)
      | CalculatePricing \<Rightarrow> Some (gw_calculate_pricing http base (gd_pricing d body) st)
      | EstimateJobCost \<Rightarrow> Some (gw_estimate_job_cost http base (gd_estimate d body) st)
      | _ \<Rightarrow> None)"

definition refusal :: "gw_answer \<Rightarrow> gw_reply" where
  "refusal a = (case a of GwError n m \<Rightarrow> ReplyError n m | GwRelay n b \<Rightarrow> ReplyError n [] | GwEmpty n \<Rightarrow> ReplyError n [])"

definition gateway_billing ::
    "gw_jwt \<Rightarrow> gw_config \<Rightarrow> gw_env \<Rightarrow> (string \<Rightarrow> string + uuid) \<Rightarrow> gw_decoders \<Rightarrow> 's billing_http \<Rightarrow> gw_request \<Rightarrow> 's \<Rightarrow> (gw_reply \<times> 's) option" where
  "gateway_billing lib cfg env parse d http r st =
     (case gateway_route (gq_method r) (gq_path r) of
        Some (True, h) \<Rightarrow>
          (case authenticator lib (gg_jwt_secret cfg) env (gq_authorization r) of
             Inl a \<Rightarrow> if billing_handler parse d http (gg_billing_url cfg) (gq_body r) h st = None then None else Some (refusal a, st)
           | Inr c \<Rightarrow> billing_handler parse d http (gg_billing_url cfg) (gq_body r) h st)
      | _ \<Rightarrow> None)"

end
