(* ===== verification/GatewayFacts.thy ===== *)
theory GatewayFacts
  imports Gateway "HOL-Library.Multiset"
begin

text \<open>Load balancing is fair; the proxy's paths; what the guard lets through.\<close>

section \<open>Load balancing\<close>

lemma next_instances_map:
  assumes "ss \<noteq> []" "length ss < 2 ^ 64" "unat n + k < 2 ^ 64"
  shows "next_instances url_ok k ss n =
    (map (\<lambda>j. chosen_target url_ok (ss ! ((unat n + 1 + j) mod length ss))) [0..<k], n + of_nat k)"
  using assms(3)
proof (induction k arbitrary: n)
  case (Suc k)
  have n: "unat (n + 1) = unat n + 1" using Suc.prems by (simp add: unat_word_ariths)
  have i: "unat ((n + 1) mod of_nat (length ss)) = (unat n + 1) mod length ss"
    using assms(2) by (simp add: unat_mod n unat_of_nat)
  have "next_instances url_ok k ss (n + 1) =
      (map (\<lambda>j. chosen_target url_ok (ss ! ((unat (n + 1) + 1 + j) mod length ss))) [0..<k], n + 1 + of_nat k)"
    using Suc.prems by (intro Suc.IH) (simp add: n)
  moreover have "map (\<lambda>j. chosen_target url_ok (ss ! ((unat n + 1 + j) mod length ss))) [0..<Suc k] =
      chosen_target url_ok (ss ! ((unat n + 1) mod length ss))
        # map (\<lambda>j. chosen_target url_ok (ss ! ((unat (n + 1) + 1 + j) mod length ss))) [0..<k]"
    by (simp add: upt_conv_Cons map_Suc_upt [symmetric] n del: upt_Suc)
  ultimately show ?case using assms(1) i by (simp add: next_instance_def Let_def add.assoc del: upt_Suc)
qed simp

lemma mset_rotated: "mset (map (\<lambda>j. f (xs ! ((a + j) mod length xs))) [0..<length xs]) = mset (map f xs)"
proof -
  have "map (\<lambda>j. f (xs ! ((a + j) mod length xs))) [0..<length xs] = map f (rotate a xs)"
    by (rule nth_equalityI) (simp_all add: nth_rotate)
  moreover have "mset (rotate a xs) = mset xs"
    by (simp add: rotate_drop_take flip: mset_append) (metis append_take_drop_id mset_append union_commute)
  ultimately show ?thesis by simp
qed

lemma mset_rounds:
  "mset (map (\<lambda>j. f (xs ! ((a + j) mod length xs))) [0..<k * length xs]) = repeat_mset k (mset (map f xs))"
proof (induction k)
  case (Suc k)
  have "[0..<Suc k * length xs] = [0..<k * length xs] @ map (\<lambda>j. k * length xs + j) [0..<length xs]"
    using upt_add_eq_append [of 0 "k * length xs" "length xs"] by (simp add: map_add_upt add.commute)
  moreover have "mset (map (\<lambda>j. f (xs ! ((a + (k * length xs + j)) mod length xs))) [0..<length xs]) = mset (map f xs)"
    using mset_rotated [of f xs "a + k * length xs"] by (simp add: add.assoc)
  ultimately show ?case using Suc by (simp add: comp_def)
qed simp

text \<open>C28. The balancer is fair: over any number of full rounds of calls on the same instances, starting anywhere before the counter wraps
  around, every instance is chosen exactly once per round.\<close>

theorem round_robin_fair:
  assumes "ss \<noteq> []" "unat n + k * length ss < 2 ^ 64"
  shows "mset (fst (next_instances url_ok (k * length ss) ss n)) = repeat_mset k (mset (map (chosen_target url_ok) ss))
    \<and> snd (next_instances url_ok (k * length ss) ss n) = n + of_nat (k * length ss)"
proof (cases "k = 0")
  case False
  then have "length ss \<le> k * length ss" by simp
  with assms(2) have l: "length ss < 2 ^ 64" by linarith
  show ?thesis
    unfolding next_instances_map [OF assms(1) l assms(2)] fst_conv snd_conv
    using mset_rounds [of "chosen_target url_ok" ss "unat n + 1" k] by simp
qed simp

section \<open>Paths and guards\<close>

lemma proxy_path_strips: "proxy_path s (''/services/'' @ s @ ''/'' @ rest) = ''/'' @ rest"
  by (simp add: proxy_path_def trim_prefix_def)

lemma proxy_path_rooted: "take 1 (proxy_path s p) = ''/''"
  by (simp add: proxy_path_def Let_def)

lemma bearer_part_token: "CHR '' '' \<notin> set t \<Longrightarrow> bearer_part (''Bearer '' @ t) = Some t"
proof -
  assume t: "CHR '' '' \<notin> set t"
  have "char_of (98 :: nat) = CHR ''b''" by code_simp
  with t show ?thesis
    using split_char_first [of "CHR '' ''" "''Bearer''" t]
    by (simp add: bearer_part_def split_char_none to_lower_def lower_char_def)
qed

text \<open>A token the gateway made is accepted until the second its time to live ends in, and never after it.\<close>

theorem gateway_token_accepted:
  assumes "gw_jwt_ok lib" "gw_generate_jwt lib now u secret ttl = Inr (tok, expires)" "CHR '' '' \<notin> set tok" "now \<le> ge_now env"
  shows "(\<exists>c. authenticator lib secret env (''Bearer '' @ tok) = Inr c \<and> gc_user_id c = gu_id u \<and> gc_role c = gu_role u)
      \<longleftrightarrow> ge_now env < numeric_seconds expires"
proof -
  have b: "bearer_part (''Bearer '' @ tok) = Some tok" using bearer_part_token assms(3) by blast
  let ?c = "\<lparr>gc_user_id = gu_id u, gc_username = gu_username u, gc_role = gu_role u, gc_expires_at = numeric_seconds (now + ttl),
    gc_issued_at = numeric_seconds now, gc_not_before = numeric_seconds now, gc_subject = gu_id u\<rparr>"
  have s: "gj_sign lib secret ?c = Inr tok" "expires = now + ttl" using assms(2) by (auto simp: gw_generate_jwt_def split: sum.splits)
  have "numeric_seconds now \<le> now" by (simp add: numeric_seconds_def minus_mod_eq_div_mult [symmetric])
  with assms(4) have v: "numeric_seconds now \<le> ge_now env" by simp
  have "if ge_now env < numeric_seconds expires then gj_parse lib (ge_now env) secret tok = Inr ?c
      else \<exists>e. gj_parse lib (ge_now env) secret tok = Inl e"
    using assms(1) s v unfolding gw_jwt_ok_def by fastforce
  then show ?thesis using b by (auto simp: authenticator_def gw_validate_jwt_def split: if_splits)
qed

end
