(* ===== verification/GatewayClaims.thy ===== *)
theory GatewayClaims
  imports GatewayRoutes GatewayFacts
begin

text \<open>What a request through the gateway does to the billing service behind it.\<close>

section \<open>Paths\<close>

lemma hex_text_digits: "set (hex_text k n) \<subseteq> digit ` {..<16}"
  by (induction k arbitrary: n) auto

lemma digit_no_slash: "i < 16 \<Longrightarrow> digit i \<noteq> CHR ''/''"
proof
  assume i: "i < 16" "digit i = CHR ''/''"
  have "of_char (digit i) = (if i < 10 then 48 + i else 87 + i :: nat)" using i(1) by (auto simp: digit_def of_char_of)
  with i show False by (simp split: if_splits)
qed

lemma uuid_text_no_slash: "CHR ''/'' \<notin> set (uuid_text u)"
proof -
  have "CHR ''/'' \<notin> set (hex_text 32 n)" for n
  proof
    assume "CHR ''/'' \<in> set (hex_text 32 n)"
    then have "CHR ''/'' \<in> digit ` {..<16}" by (rule subsetD [OF hex_text_digits])
    then obtain k where "k < 16" "digit k = CHR ''/''" by auto
    then show False using digit_no_slash by blast
  qed
  then show ?thesis
    by (auto simp: uuid_text_def Let_def dest!: in_set_takeD in_set_dropD)
qed

text \<open>Paths whose segments hold no slash.\<close>

lemma split_slash: "CHR ''/'' \<notin> set p \<Longrightarrow> split_char CHR ''/'' (p @ ''/'' @ s) = p # split_char CHR ''/'' s"
  by (simp add: split_char_first)


lemma price_routes:
  "gateway_route ''POST'' ''/api/v1/billing/pricing/estimate'' = Some (True, EstimateJobCost)"
  "gateway_route ''POST'' ''/api/v1/billing/pricing/calculate'' = Some (True, CalculatePricing)"
  by (simp_all add: gateway_route_def billing_group_def)

lemma proxy_route:
  "CHR ''/'' \<notin> set name \<Longrightarrow> gateway_route m (''/services/'' @ name @ ''/'' @ rest) = Some (False, ServiceProxy name)"
proof -
  assume n: "CHR ''/'' \<notin> set name"
  have "split_char CHR ''/'' (''/services/'' @ name @ ''/'' @ rest) = [] # ''services'' # name # split_char CHR ''/'' rest"
    using split_slash [OF n, of rest] by simp
  then show ?thesis by (simp add: gateway_route_def auth_group_def split: list.splits)
qed

lemma instance_index: "ss \<noteq> [] \<Longrightarrow> unat ((n :: u64) mod of_nat (length ss)) < length ss"
proof (cases "(of_nat (length ss) :: u64) = 0")
  case True
  assume "ss \<noteq> []"
  with True have "2 ^ 64 \<le> length ss" by (auto simp: word_of_nat_eq_0_iff dest: dvd_imp_le)
  moreover have "unat n < 2 ^ 64" using unsigned_less [of n, where ?'a = nat] by simp
  ultimately show ?thesis using True by simp
next
  case False
  then have "unat (of_nat (length ss) :: u64) > 0" by (simp add: unat_gt_0)
  then have "unat (n mod of_nat (length ss)) < unat (of_nat (length ss) :: u64)" by (simp add: unat_mod)
  also have "\<dots> \<le> length ss" by (simp add: unat_of_nat)
  finally show ?thesis .
qed

section \<open>The billing service as seen through its routes\<close>

definition withdrawal_answer :: "go_error + transaction \<Rightarrow> string + nat \<times> billing_payload option" where
  "withdrawal_answer r = Inr (case r of Inl e \<Rightarrow> (handler_status e, None) | Inr t \<Rightarrow> (200, Some (TransactionPay t)))"

lemma billing_server_withdraw:
  assumes "CHR ''/'' \<notin> set w" "parse w = Inr i"
  shows "billing_server parse decode other benv sv base ''POST'' (base @ ''/api/v1/wallet/'' @ w @ ''/withdraw'') (WithdrawBody req) st =
    map_prod withdrawal_answer id (process_withdrawal benv sv (req\<lparr>wr_wallet_id := i\<rparr>) st)"
proof -
  have "split_char CHR ''/'' (''/api/v1/wallet/'' @ w @ ''/withdraw'') = [[], ''api'', ''v1'', ''wallet'', w, ''withdraw'']"
    using split_slash [OF assms(1), of "''withdraw''"] by simp
  then have "billing_server parse decode other benv sv base ''POST'' (base @ ''/api/v1/wallet/'' @ w @ ''/withdraw'') (WithdrawBody req) st =
      wallet_routes parse benv sv ''POST'' [w, ''withdraw''] (WithdrawBody req) st"
    by (simp add: billing_server_def)
  also have "\<dots> = (case handle_withdraw_tokens parse benv sv w (Inr req) st of (r, st') \<Rightarrow> (route_answer TransactionPay r, st'))"
    by (cases w) (simp_all add: wallet_routes_def)
  also have "\<dots> = map_prod withdrawal_answer id (process_withdrawal benv sv (req\<lparr>wr_wallet_id := i\<rparr>) st)"
    by (cases "process_withdrawal benv sv (req\<lparr>wr_wallet_id := i\<rparr>) st")
       (auto simp: handle_withdraw_tokens_def assms(2) route_answer_def error_response_def withdrawal_answer_def split: sum.splits)
  finally show ?thesis .
qed

lemma billing_server_price:
  "\<exists>n. billing_server parse decode other benv sv base ''POST'' (base @ ''/api/v1/pricing/calculate'') body st = (Inr (n, None), st)"
proof -
  have q: "\<exists>e. quote_pricing benv sv DynStruct = Inl e"
    by (simp add: quote_pricing_def with_pricing_defaults_def pricing_request_of_def validate_pricing_request_def Let_def)
  then have "\<exists>n m e. handle_calculate_pricing benv sv b = ErrorResponse n m e" for b
    by (cases b) (auto simp: handle_calculate_pricing_def invalid_body_def)
  then show ?thesis
    by (simp add: billing_server_def pricing_routes_def route_answer_def split: http_response.splits) (metis http_response.distinct(1))
qed

lemma expect_status_none: "\<exists>e. expect_status code what (Inr (n, None)) = Inl e"
  by (simp add: expect_status_def)

section \<open>Withdrawals\<close>




text \<open>C27. The proxy is a way around the guard: a withdrawal sent under \<open>/services/<name>/\<close> with no token is passed on to the chosen instance
  with the service's own path, and if that instance is the billing service it executes the withdrawal.\<close>

theorem proxy_bypasses_guard:
  assumes "CHR ''/'' \<notin> set name" "name \<noteq> []" "ge_discover env name = Inr ss" "ss \<noteq> []" "\<And>u. ge_url_ok env u"
    "gq_method r = ''POST''" "gq_path r = ''/services/'' @ name @ ''/api/v1/wallet/'' @ uuid_text i @ ''/withdraw''"
    "gq_authorization r = []" "parse (uuid_text i) = Inr i"
  shows "gateway_route (gq_method r) (gq_path r) = Some (False, ServiceProxy name) \<and>
    (\<exists>s o1 code body. s \<in> set ss \<and> fst (serve_proxy env name r n) = (GwRelay code body, [o1]) \<and> og_headers o1 = [] \<and> og_body o1 = gq_body r \<and>
       billing_server parse decode other benv sv (target_text (service_target s)) (og_method o1) (og_url o1) (WithdrawBody req) st =
         map_prod withdrawal_answer id (process_withdrawal benv sv (req\<lparr>wr_wallet_id := i\<rparr>) st))"
proof
  show "gateway_route (gq_method r) (gq_path r) = Some (False, ServiceProxy name)"
    using proxy_route [OF assms(1), of "gq_method r" "''api/v1/wallet/'' @ uuid_text i @ ''/withdraw''"] assms(7) by simp
  define s where "s = ss ! unat ((n + 1) mod of_nat (length ss))"
  show "\<exists>s o1 code body. s \<in> set ss \<and> fst (serve_proxy env name r n) = (GwRelay code body, [o1]) \<and> og_headers o1 = [] \<and> og_body o1 = gq_body r \<and>
      billing_server parse decode other benv sv (target_text (service_target s)) (og_method o1) (og_url o1) (WithdrawBody req) st =
        map_prod withdrawal_answer id (process_withdrawal benv sv (req\<lparr>wr_wallet_id := i\<rparr>) st)"
  proof (intro exI conjI)
    show "s \<in> set ss" unfolding s_def by (intro nth_mem instance_index assms(4))
    define o1 where "o1 = \<lparr>og_method = ''POST'', og_url = target_text (service_target s) @ ''/api/v1/wallet/'' @ uuid_text i @ ''/withdraw'',
      og_headers = [], og_body = gq_body r\<rparr>"
    have path: "proxy_path name (gq_path r) = ''/api/v1/wallet/'' @ uuid_text i @ ''/withdraw''"
      using proxy_path_strips [of name "''api/v1/wallet/'' @ uuid_text i @ ''/withdraw''"] by (simp add: assms(7))
    have "next_instance (ge_url_ok env) n ss = (Inr (service_target s), n + 1)"
      using assms(4,5) by (simp add: next_instance_def chosen_target_def Let_def s_def)
    then show "fst (serve_proxy env name r n) = (GwRelay (fst (ge_proxied env (service_target s) o1)) (snd (ge_proxied env (service_target s) o1)), [o1])"
      using assms(2,3,4,6,8) by (simp add: serve_proxy_def discover_service_def path o1_def Let_def split: prod.splits)
    show "og_headers o1 = []" "og_body o1 = gq_body r" by (simp_all add: o1_def)
    show "billing_server parse decode other benv sv (target_text (service_target s)) (og_method o1) (og_url o1) (WithdrawBody req) st =
        map_prod withdrawal_answer id (process_withdrawal benv sv (req\<lparr>wr_wallet_id := i\<rparr>) st)"
      using billing_server_withdraw [of "uuid_text i" parse i decode other benv sv "target_text (service_target s)" req st,
          OF uuid_text_no_slash assms(9)] by (simp add: o1_def)
  qed
qed

text \<open>Job costs are never estimated: the gateway's estimate and its price calculation, over the billing service's handler, answer every
  request with an error, 401 without a valid token, 400 for a body that does not decode, 500 otherwise, and change nothing.\<close>

theorem estimates_never_answered:
  assumes "gq_method r = ''POST''" "gq_path r \<in> {''/api/v1/billing/pricing/estimate'', ''/api/v1/billing/pricing/calculate''}"
  shows "\<exists>code what. gateway_billing lib cfg env parse d (billing_server parse decode other benv sv (gg_billing_url cfg)) r st =
    Some (ReplyError code what, st) \<and> code \<in> {400, 401, 500}"
proof -
  let ?http = "billing_server parse decode other benv sv (gg_billing_url cfg)"
  have c: "\<exists>e. client_calculate_pricing ?http (gg_billing_url cfg) m st = (Inl e, st)" for m
    using billing_server_price [of parse decode other benv sv "gg_billing_url cfg" "PricingBody m" st] expect_status_none
    by (fastforce simp: client_calculate_pricing_def)
  have "\<exists>code what. client_reply 200 ''Failed to calculate pricing'' (client_calculate_pricing ?http (gg_billing_url cfg) m st)
      = (ReplyError code what, st) \<and> code \<in> {400, 401, 500}" for m
    using c [of m] by (auto simp: client_reply_def)
  then have e: "\<exists>code what. gw_estimate_job_cost ?http (gg_billing_url cfg) b st = (ReplyError code what, st) \<and> code \<in> {400, 401, 500}"
    and p: "\<exists>code what. gw_calculate_pricing ?http (gg_billing_url cfg) b' st = (ReplyError code what, st) \<and> code \<in> {400, 401, 500}" for b b'
    by (cases b; cases b'; simp add: gw_estimate_job_cost_def gw_calculate_pricing_def)+
  have a: "\<exists>what. a = GwError 401 what" if "authenticator lib (gg_jwt_secret cfg) env (gq_authorization r) = Inl a" for a
    using that by (auto simp: authenticator_def split: if_splits option.splits sum.splits)
  show ?thesis
    using assms a e [of "gd_estimate d (gq_body r)"] p [of "gd_pricing d (gq_body r)"]
    by (auto simp: gateway_billing_def price_routes billing_handler_def refusal_def split: sum.splits)
qed

end
