(* ===== verification/GatewayHub.thy ===== *)
theory GatewayHub
  imports GoText "HOL-Library.AList" "HOL-Library.Multiset"
begin

text \<open>
  The hub of the gateway's websockets (\<open>internal/websocket/hub.go\<close>). A client object is a number; \<open>info\<close> gives its fixed
  fields, \<open>cap\<close> is the size of its send queue. A step is what one goroutine does between two points at which another may
  come in: the hub's loop registers or removes a client (with the lock to itself), takes a message, or serves one client of the
  message it holds; a call that walks through the clients under the read lock (\<open>BroadcastToUser\<close>, \<open>GetUserClientCount\<close>) fetches
  the next client or sends to the one it fetched; a client's reader answers a ping or ends; its writer takes a message, opens,
  fills and closes a frame. Read locks do not exclude each other, so the loop's broadcast, which closes queues and deletes
  entries, runs between the steps of the calls. Sending on a closed queue, closing it again and a fault of the runtime's check
  on concurrent use of a map end the program: the result of such a step is \<open>None\<close>.
\<close>

section \<open>State\<close>

record ws_message =
  wm_type :: string
  wm_data :: json_map
  wm_timestamp :: time

record ws_client =
  wc_id :: string
  wc_user_id :: string

record send_queue =
  wq_queued :: "ws_message list"
  wq_closed :: bool

text \<open>A writer waits, opens a frame for the message it took, or collects as many more messages as were queued when it
  counted them; it ends when the connection fails or its queue is closed and empty.\<close>

datatype ws_writer =
    WaitingWriter | OpeningFrame ws_message | CollectingFrame nat "ws_message list" | WriterEnded

text \<open>A call under the read lock: what it has still to visit, and the client it has fetched but not served.\<close>

datatype hub_call =
    UserCall string ws_message "nat option" "(string \<times> nat) list"
  | CountCall string nat "(string \<times> nat) list"

text \<open>\<open>hs_known\<close>: all clients there ever were; \<open>hs_reading\<close>: those whose reader runs; \<open>hs_sent\<close>: what a writer has
  written, \<open>hs_lost\<close>: what it had taken when it failed; \<open>hs_inbox\<close>: the hub's channel of broadcasts; \<open>hs_loop\<close>: the message
  the loop is broadcasting, with the clients still to serve; \<open>hs_calls\<close>: the calls under way.\<close>

record hub_state =
  hs_clients :: "(string \<times> nat) list"
  hs_queue :: "nat \<Rightarrow> send_queue"
  hs_known :: "nat list"
  hs_reading :: "nat list"
  hs_writer :: "nat \<Rightarrow> ws_writer"
  hs_sent :: "nat \<Rightarrow> ws_message list"
  hs_lost :: "nat \<Rightarrow> ws_message list"
  hs_inbox :: "ws_message list"
  hs_loop :: "(ws_message \<times> (string \<times> nat) list) option"
  hs_calls :: "hub_call list"

definition new_hub :: hub_state where
  "new_hub = \<lparr>hs_clients = [], hs_queue = (\<lambda>c. \<lparr>wq_queued = [], wq_closed = False\<rparr>), hs_known = [], hs_reading = [],
     hs_writer = (\<lambda>c. WaitingWriter), hs_sent = (\<lambda>c. []), hs_lost = (\<lambda>c. []), hs_inbox = [], hs_loop = None, hs_calls = []\<rparr>"

section \<open>Operations\<close>

definition close_queue :: "nat \<Rightarrow> hub_state \<Rightarrow> hub_state option" where
  "close_queue c st =
     (if wq_closed (hs_queue st c) then None
      else Some (st\<lparr>hs_queue := (hs_queue st)(c := (hs_queue st c)\<lparr>wq_closed := True\<rparr>)\<rparr>))"

definition enqueue :: "nat \<Rightarrow> ws_message \<Rightarrow> hub_state \<Rightarrow> hub_state" where
  "enqueue c m st = st\<lparr>hs_queue := (hs_queue st)(c := (hs_queue st c)\<lparr>wq_queued := wq_queued (hs_queue st c) @ [m]\<rparr>)\<rparr>"

definition has_room :: "nat \<Rightarrow> nat \<Rightarrow> hub_state \<Rightarrow> bool" where
  "has_room cap c st \<longleftrightarrow> length (wq_queued (hs_queue st c)) < cap"

definition hub_register :: "(nat \<Rightarrow> ws_client) \<Rightarrow> nat \<Rightarrow> hub_state \<Rightarrow> hub_state" where
  "hub_register info c st = st\<lparr>hs_clients := AList.update (wc_id (info c)) c (hs_clients st)\<rparr>"

definition hub_unregister :: "(nat \<Rightarrow> ws_client) \<Rightarrow> nat \<Rightarrow> hub_state \<Rightarrow> hub_state option" where
  "hub_unregister info c st =
     (if map_of (hs_clients st) (wc_id (info c)) = None then Some st
      else close_queue c (st\<lparr>hs_clients := AList.delete (wc_id (info c)) (hs_clients st)\<rparr>))"

text \<open>One client in the loop over the clients: a full queue is closed and its client removed.\<close>

definition broadcast_one :: "nat \<Rightarrow> ws_message \<Rightarrow> string \<times> nat \<Rightarrow> hub_state \<Rightarrow> hub_state option" where
  "broadcast_one cap m e st =
     (case e of (i, c) \<Rightarrow>
      if wq_closed (hs_queue st c) then None
      else if has_room cap c st then Some (enqueue c m st)
      else close_queue c (st\<lparr>hs_clients := AList.delete i (hs_clients st)\<rparr>))"

text \<open>The loop takes a message and will visit the clients in any order \<open>es\<close>.\<close>

definition hub_broadcast :: "ws_message \<Rightarrow> (string \<times> nat) list \<Rightarrow> hub_state \<Rightarrow> hub_state" where
  "hub_broadcast m es st = st\<lparr>hs_loop := Some (m, es)\<rparr>"

text \<open>A call starts with any order of the clients, too.\<close>

definition broadcast_to_user :: "string \<Rightarrow> ws_message \<Rightarrow> (string \<times> nat) list \<Rightarrow> hub_state \<Rightarrow> hub_state" where
  "broadcast_to_user user m es st = st\<lparr>hs_calls := hs_calls st @ [UserCall user m None es]\<rparr>"

definition get_user_client_count :: "string \<Rightarrow> (string \<times> nat) list \<Rightarrow> hub_state \<Rightarrow> hub_state" where
  "get_user_client_count user es st = st\<lparr>hs_calls := hs_calls st @ [CountCall user 0 es]\<rparr>"

definition user_send :: "nat \<Rightarrow> nat \<Rightarrow> ws_message \<Rightarrow> hub_state \<Rightarrow> hub_state option" where
  "user_send cap c m st =
     (if wq_closed (hs_queue st c) then None else Some (if has_room cap c st then enqueue c m st else st))"

text \<open>The next step of a call: an entry that was deleted before it is reached is not produced. A call that has visited all
  clients returns: it is gone.\<close>

fun call_step :: "(nat \<Rightarrow> ws_client) \<Rightarrow> nat \<Rightarrow> hub_call \<Rightarrow> hub_state \<Rightarrow> (hub_call option \<times> hub_state) option" where
  "call_step info cap (UserCall user m (Some c) es) st =
     map_option (\<lambda>st'. (Some (UserCall user m None es), st')) (user_send cap c m st)"
| "call_step info cap (UserCall user m None ((i, c) # es)) st =
     Some (Some (UserCall user m (if (i, c) \<in> set (hs_clients st) \<and> wc_user_id (info c) = user then Some c else None) es), st)"
| "call_step info cap (UserCall user m None []) st = Some (None, st)"
| "call_step info cap (CountCall user n ((i, c) # es)) st =
     Some (Some (CountCall user (if (i, c) \<in> set (hs_clients st) \<and> wc_user_id (info c) = user then n + 1 else n) es), st)"
| "call_step info cap (CountCall user n []) st = Some (None, st)"

definition set_call :: "nat \<Rightarrow> hub_call option \<Rightarrow> hub_state \<Rightarrow> hub_state" where
  "set_call k x st = st\<lparr>hs_calls := (case x of None \<Rightarrow> take k (hs_calls st) @ drop (Suc k) (hs_calls st) | Some a \<Rightarrow> (hs_calls st)[k := a])\<rparr>"

definition next_of_call :: "(nat \<Rightarrow> ws_client) \<Rightarrow> nat \<Rightarrow> nat \<Rightarrow> hub_state \<Rightarrow> hub_state option" where
  "next_of_call info cap k st = map_option (\<lambda>(x, st'). set_call k x st') (call_step info cap (hs_calls st ! k) st)"

text \<open>\<open>BroadcastToAll\<close> puts a message into the hub's channel and waits while that is full.\<close>

definition broadcast_to_all :: "ws_message \<Rightarrow> hub_state \<Rightarrow> hub_state option" where
  "broadcast_to_all m st = (if length (hs_inbox st) < 256 then Some (st\<lparr>hs_inbox := hs_inbox st @ [m]\<rparr>) else None)"

definition get_client_count :: "hub_state \<Rightarrow> nat" where
  "get_client_count st = length (hs_clients st)"

definition pong :: "time \<Rightarrow> ws_message" where
  "pong t = \<lparr>wm_type = ''pong'', wm_data = Map.empty, wm_timestamp = t\<rparr>"

text \<open>\<open>handleMessage\<close>: only a ping is answered; the send waits for room.\<close>

definition handle_client_message :: "nat \<Rightarrow> ws_message \<Rightarrow> time \<Rightarrow> hub_state \<Rightarrow> hub_state option" where
  "handle_client_message c m t st =
     (if wm_type m \<noteq> ''ping'' then Some st
      else if wq_closed (hs_queue st c) then None
      else Some (enqueue c (pong t) st))"

text \<open>A step of \<open>WritePump\<close>, \<open>None\<close> when it has to wait; \<open>up\<close> says whether the connection takes what is written. A message
  whose frame cannot be opened or closed is lost with the rest of the frame, and the writer ends.\<close>

definition set_writer :: "nat \<Rightarrow> ws_writer \<Rightarrow> hub_state \<Rightarrow> hub_state" where
  "set_writer c w st = st\<lparr>hs_writer := (hs_writer st)(c := w)\<rparr>"

definition dequeue :: "nat \<Rightarrow> hub_state \<Rightarrow> hub_state" where
  "dequeue c st = st\<lparr>hs_queue := (hs_queue st)(c := (hs_queue st c)\<lparr>wq_queued := tl (wq_queued (hs_queue st c))\<rparr>)\<rparr>"

definition writer_fails :: "nat \<Rightarrow> ws_message list \<Rightarrow> hub_state \<Rightarrow> hub_state" where
  "writer_fails c frame st = set_writer c WriterEnded (st\<lparr>hs_lost := (hs_lost st)(c := frame)\<rparr>)"

definition write_step :: "bool \<Rightarrow> nat \<Rightarrow> hub_state \<Rightarrow> hub_state option" where
  "write_step up c st =
     (case hs_writer st c of
        WaitingWriter \<Rightarrow>
          (case wq_queued (hs_queue st c) of
             m # ms \<Rightarrow> Some (set_writer c (OpeningFrame m) (dequeue c st))
           | [] \<Rightarrow> if wq_closed (hs_queue st c) then Some (set_writer c WriterEnded st) else None)
      | OpeningFrame m \<Rightarrow>
          Some (if up then set_writer c (CollectingFrame (length (wq_queued (hs_queue st c))) [m]) st else writer_fails c [m] st)
      | CollectingFrame 0 frame \<Rightarrow>
          Some (if up then set_writer c WaitingWriter (st\<lparr>hs_sent := (hs_sent st)(c := hs_sent st c @ frame)\<rparr>)
                else writer_fails c frame st)
      | CollectingFrame (Suc n) frame \<Rightarrow>
          (case wq_queued (hs_queue st c) of
             [] \<Rightarrow> None
           | m # ms \<Rightarrow> Some (set_writer c (CollectingFrame n (frame @ [m])) (dequeue c st)))
      | WriterEnded \<Rightarrow> None)"

text \<open>The ticker: a ping that cannot be written ends the writer.\<close>

definition ping_client :: "bool \<Rightarrow> nat \<Rightarrow> hub_state \<Rightarrow> hub_state option" where
  "ping_client up c st =
     (if hs_writer st c = WaitingWriter then Some (if up then st else writer_fails c [] st) else None)"

text \<open>The senders of the hub: a message with its type, to one user or, for a provider, into the channel of broadcasts.\<close>

definition job_status_message :: "string \<Rightarrow> string \<Rightarrow> (string \<times> json) list \<Rightarrow> time \<Rightarrow> ws_message" where
  "job_status_message job status d t =
     \<lparr>wm_type = ''job_status'', wm_data = [''job_id'' \<mapsto> JString job, ''status'' \<mapsto> JString status, ''data'' \<mapsto> JObject d], wm_timestamp = t\<rparr>"

definition send_job_status ::
    "string \<Rightarrow> string \<Rightarrow> string \<Rightarrow> (string \<times> json) list \<Rightarrow> time \<Rightarrow> (string \<times> nat) list \<Rightarrow> hub_state \<Rightarrow> hub_state" where
  "send_job_status user job status d t es st = broadcast_to_user user (job_status_message job status d t) es st"

definition send_job_logs :: "string \<Rightarrow> string \<Rightarrow> string list \<Rightarrow> time \<Rightarrow> (string \<times> nat) list \<Rightarrow> hub_state \<Rightarrow> hub_state" where
  "send_job_logs user job ls t es st = broadcast_to_user user
     \<lparr>wm_type = ''job_logs'', wm_data = [''job_id'' \<mapsto> JString job, ''logs'' \<mapsto> JArray (map JString ls)], wm_timestamp = t\<rparr> es st"

definition send_gpu_metrics :: "string \<Rightarrow> json_map \<Rightarrow> time \<Rightarrow> (string \<times> nat) list \<Rightarrow> hub_state \<Rightarrow> hub_state" where
  "send_gpu_metrics user d t es st = broadcast_to_user user \<lparr>wm_type = ''gpu_metrics'', wm_data = d, wm_timestamp = t\<rparr> es st"

definition send_notification :: "string \<Rightarrow> json_map \<Rightarrow> time \<Rightarrow> (string \<times> nat) list \<Rightarrow> hub_state \<Rightarrow> hub_state" where
  "send_notification user d t es st = broadcast_to_user user \<lparr>wm_type = ''notification'', wm_data = d, wm_timestamp = t\<rparr> es st"

definition send_billing_update :: "string \<Rightarrow> json_map \<Rightarrow> time \<Rightarrow> (string \<times> nat) list \<Rightarrow> hub_state \<Rightarrow> hub_state" where
  "send_billing_update user d t es st = broadcast_to_user user \<lparr>wm_type = ''billing_update'', wm_data = d, wm_timestamp = t\<rparr> es st"

definition send_provider_status :: "json_map \<Rightarrow> time \<Rightarrow> hub_state \<Rightarrow> hub_state option" where
  "send_provider_status d t st = broadcast_to_all \<lparr>wm_type = ''provider_status'', wm_data = d, wm_timestamp = t\<rparr> st"

section \<open>Steps\<close>

text \<open>The lock: the loop registers and removes clients only while it broadcasts nothing and no call is under way. A deletion by
  the loop while a call walks through the map may be detected by the runtime, which then ends the program.\<close>

datatype hub_event =
    Connect nat | Disconnect nat | Queued ws_message | BroadcastStart ws_message "(string \<times> nat) list" | BroadcastNext
  | UserStart string ws_message "(string \<times> nat) list" | CountStart string "(string \<times> nat) list" | CallNext nat
  | Incoming nat ws_message time | WriterStep nat bool | PingTick nat bool

inductive hub_step :: "(nat \<Rightarrow> ws_client) \<Rightarrow> nat \<Rightarrow> hub_state \<Rightarrow> hub_event \<Rightarrow> hub_state option \<Rightarrow> bool"
  for info :: "nat \<Rightarrow> ws_client" and cap :: nat where
  hub_connect: "c \<notin> set (hs_known st) \<Longrightarrow> hs_loop st = None \<Longrightarrow> hs_calls st = [] \<Longrightarrow>
     hub_step info cap st (Connect c) (Some ((hub_register info c st)\<lparr>hs_known := c # hs_known st, hs_reading := c # hs_reading st\<rparr>))"
| hub_disconnect: "c \<in> set (hs_reading st) \<Longrightarrow> hs_loop st = None \<Longrightarrow> hs_calls st = [] \<Longrightarrow>
     hub_step info cap st (Disconnect c) (hub_unregister info c (st\<lparr>hs_reading := removeAll c (hs_reading st)\<rparr>))"
| hub_queued: "broadcast_to_all m st = Some st' \<Longrightarrow> hub_step info cap st (Queued m) (Some st')"
| hub_message: "hs_loop st = None \<Longrightarrow> hs_inbox st = m # ms \<Longrightarrow> mset es = mset (hs_clients st) \<Longrightarrow>
     hub_step info cap st (BroadcastStart m es) (Some (hub_broadcast m es (st\<lparr>hs_inbox := ms\<rparr>)))"
| hub_turn: "hs_loop st = Some (m, e # es) \<Longrightarrow>
     hub_step info cap st BroadcastNext (broadcast_one cap m e (st\<lparr>hs_loop := Some (m, es)\<rparr>))"
| hub_map_fault: "hs_loop st = Some (m, (i, c) # es) \<Longrightarrow> \<not> has_room cap c st \<Longrightarrow> hs_calls st \<noteq> [] \<Longrightarrow>
     hub_step info cap st BroadcastNext None"
| hub_turn_end: "hs_loop st = Some (m, []) \<Longrightarrow> hub_step info cap st BroadcastNext (Some (st\<lparr>hs_loop := None\<rparr>))"
| hub_user_start: "mset es = mset (hs_clients st) \<Longrightarrow> hub_step info cap st (UserStart user m es) (Some (broadcast_to_user user m es st))"
| hub_count_start: "mset es = mset (hs_clients st) \<Longrightarrow> hub_step info cap st (CountStart user es) (Some (get_user_client_count user es st))"
| hub_call_next: "k < length (hs_calls st) \<Longrightarrow> hub_step info cap st (CallNext k) (next_of_call info cap k st)"
| hub_incoming: "c \<in> set (hs_reading st) \<Longrightarrow> wm_type m = ''ping'' \<longrightarrow> wq_closed (hs_queue st c) \<or> has_room cap c st \<Longrightarrow>
     hub_step info cap st (Incoming c m t) (handle_client_message c m t st)"
| hub_written: "c \<in> set (hs_known st) \<Longrightarrow> write_step up c st = Some st' \<Longrightarrow> hub_step info cap st (WriterStep c up) (Some st')"
| hub_pinged: "c \<in> set (hs_known st) \<Longrightarrow> ping_client up c st = Some st' \<Longrightarrow> hub_step info cap st (PingTick c up) (Some st')"

inductive_cases hub_stepE: "hub_step info cap st e r"

inductive hub_run :: "(nat \<Rightarrow> ws_client) \<Rightarrow> nat \<Rightarrow> hub_event list \<Rightarrow> hub_state \<Rightarrow> bool"
  for info :: "nat \<Rightarrow> ws_client" and cap :: nat where
  run_start: "hub_run info cap [] new_hub"
| run_step: "hub_run info cap es st \<Longrightarrow> hub_step info cap st e (Some st') \<Longrightarrow> hub_run info cap (es @ [e]) st'"

end
