(* ===== verification/GatewayHubFacts.thy ===== *)
theory GatewayHubFacts
  imports GatewayHub "HOL-Library.Sublist"
begin

text \<open>
  When the hub is safe: the invariant of its clients, its loop and its writers while every client has an identifier of its own, the
  steps that still end the program, and what a client receives.
\<close>

section \<open>The invariant\<close>

text \<open>Every entry is under its client's identifier with an open queue; a client that was connected and is no longer an entry has a closed
  queue, one that never was has an open one.\<close>

definition hub_ok :: "(nat \<Rightarrow> ws_client) \<Rightarrow> hub_state \<Rightarrow> bool" where
  "hub_ok info st \<longleftrightarrow> distinct (map fst (hs_clients st)) \<and> (\<forall>(i, c) \<in> set (hs_clients st). i = wc_id (info c) \<and> c \<in> set (hs_known st))
     \<and> (\<forall>c. wq_closed (hs_queue st c) \<longleftrightarrow> c \<in> set (hs_known st) \<and> c \<notin> snd ` set (hs_clients st)) \<and> set (hs_reading st) \<subseteq> set (hs_known st)"

lemma hub_ok_new: "hub_ok info new_hub"
  by (simp add: hub_ok_def new_hub_def)

lemma update_values: "snd ` set (AList.update k v xs) \<subseteq> insert v (snd ` set xs)"
  by (induction xs) auto

lemma assoc_update_new: "k \<notin> fst ` set xs \<Longrightarrow> AList.update k v xs = xs @ [(k, v)]"
  by (induction xs) auto

lemma hub_ok_connect:
  assumes "inj (\<lambda>c. wc_id (info c))" "hub_ok info st" "c \<notin> set (hs_known st)"
  shows "hub_ok info ((hub_register info c st)\<lparr>hs_known := c # hs_known st, hs_reading := c # hs_reading st\<rparr>)"
proof -
  have new: "wc_id (info c) \<notin> fst ` set (hs_clients st)"
  proof
    assume "wc_id (info c) \<in> fst ` set (hs_clients st)"
    then obtain b where b: "(wc_id (info c), b) \<in> set (hs_clients st)" by force
    with assms(2) have "wc_id (info c) = wc_id (info b)" "b \<in> set (hs_known st)" by (auto simp: hub_ok_def)
    with assms(1,3) show False by (auto dest: injD)
  qed
  then have "AList.update (wc_id (info c)) c (hs_clients st) = hs_clients st @ [(wc_id (info c), c)]"
    by (rule assoc_update_new)
  then show ?thesis
    using assms new by (auto simp: hub_ok_def hub_register_def)
qed


lemma entry_id:
  assumes "inj (\<lambda>c. wc_id (info c))" "hub_ok info st" "e \<in> set (hs_clients st)"
  shows "fst e = wc_id (info (snd e))" "fst e = wc_id (info c) \<longleftrightarrow> snd e = c"
proof -
  show *: "fst e = wc_id (info (snd e))" using assms(2,3) by (cases e) (auto simp: hub_ok_def)
  show "fst e = wc_id (info c) \<longleftrightarrow> snd e = c" unfolding * using injD [OF assms(1)] by auto
qed

lemma entry_queue:
  "hub_ok info st \<Longrightarrow> wq_closed (hs_queue st c) \<longleftrightarrow> c \<in> set (hs_known st) \<and> c \<notin> snd ` set (hs_clients st)"
  by (simp add: hub_ok_def)

text \<open>Clients can leave as long as their queues are closed.\<close>

lemma hub_ok_remove:
  assumes ok: "hub_ok info st" and cl: "hs_clients st' = filter (\<lambda>e. snd e \<notin> C) (hs_clients st)"
    and known: "C \<subseteq> set (hs_known st)" "hs_known st' = hs_known st" "set (hs_reading st') \<subseteq> set (hs_reading st)"
    and q: "\<And>c. wq_closed (hs_queue st' c) \<longleftrightarrow> c \<in> C \<or> wq_closed (hs_queue st c)"
  shows "hub_ok info st'"
proof -
  have img: "snd ` set (hs_clients st') = snd ` set (hs_clients st) - C" unfolding cl by auto
  have "distinct (map fst (hs_clients st'))" using ok unfolding cl hub_ok_def by (simp add: distinct_map_filter)
  moreover have "\<forall>(i, c) \<in> set (hs_clients st'). i = wc_id (info c) \<and> c \<in> set (hs_known st')"
    using ok known(2) unfolding cl hub_ok_def by auto
  moreover have "wq_closed (hs_queue st' c) \<longleftrightarrow> c \<in> set (hs_known st') \<and> c \<notin> snd ` set (hs_clients st')" for c
    unfolding q entry_queue [OF ok] img known(2) using known(1) by auto
  moreover have "set (hs_reading st') \<subseteq> set (hs_known st')" using ok known unfolding hub_ok_def by auto
  ultimately show ?thesis by (simp add: hub_ok_def)
qed

lemma hub_ok_same:
  "hub_ok info st \<Longrightarrow> hs_clients st' = hs_clients st \<Longrightarrow> hs_known st' = hs_known st \<Longrightarrow> set (hs_reading st') \<subseteq> set (hs_reading st) \<Longrightarrow>
   (\<And>c. wq_closed (hs_queue st' c) = wq_closed (hs_queue st c)) \<Longrightarrow> hub_ok info st'"
  by (auto simp: hub_ok_def)

text \<open>Closing the queue of an entry and deleting it, as the loop does for a removed client and for a full one.\<close>

definition drop_client :: "nat \<Rightarrow> hub_state \<Rightarrow> hub_state" where
  "drop_client c st = st\<lparr>hs_clients := filter (\<lambda>e. snd e \<noteq> c) (hs_clients st),
     hs_queue := (hs_queue st)(c := (hs_queue st c)\<lparr>wq_closed := True\<rparr>)\<rparr>"

lemma close_entry:
  assumes inj: "inj (\<lambda>c. wc_id (info c))" and ok: "hub_ok info st" and e: "(i, c) \<in> set (hs_clients st)"
  shows "close_queue c (st\<lparr>hs_clients := AList.delete i (hs_clients st)\<rparr>) = Some (drop_client c st)"
    and "hub_ok info (drop_client c st)" and "\<not> wq_closed (hs_queue st c)"
proof -
  have i: "i = wc_id (info c)" using entry_id(1) [OF inj ok e] by simp
  show opened: "\<not> wq_closed (hs_queue st c)" using imageI [OF e, of snd] unfolding entry_queue [OF ok] by simp
  have del: "AList.delete i (hs_clients st) = filter (\<lambda>e. snd e \<noteq> c) (hs_clients st)"
    unfolding AList.delete_eq
  proof (rule filter_cong)
    fix x assume "x \<in> set (hs_clients st)"
    then show "(case x of (k', _) \<Rightarrow> i \<noteq> k') = (snd x \<noteq> c)"
      using entry_id(2) [OF inj ok, of x c] unfolding i by (cases x) auto
  qed simp
  show "close_queue c (st\<lparr>hs_clients := AList.delete i (hs_clients st)\<rparr>) = Some (drop_client c st)"
    using opened by (simp add: close_queue_def del drop_client_def)
  have "c \<in> set (hs_known st)" using e ok by (auto simp: hub_ok_def)
  then show "hub_ok info (drop_client c st)"
    by (intro hub_ok_remove [OF ok, where C = "{c}"]) (auto simp: drop_client_def)
qed

lemma unregister_result:
  assumes "inj (\<lambda>c. wc_id (info c))" "hub_ok info st"
  shows "hub_unregister info c st = Some (if c \<in> snd ` set (hs_clients st) then drop_client c st else st)"
proof (cases "map_of (hs_clients st) (wc_id (info c))")
  case None
  then have no: "wc_id (info c) \<notin> fst ` set (hs_clients st)" by (simp add: map_of_eq_None_iff)
  have "snd e \<noteq> c" if "e \<in> set (hs_clients st)" for e
    using entry_id(1) [OF assms that] imageI [OF that, of fst] no by auto
  with None show ?thesis by (auto simp: hub_unregister_def)
next
  case (Some b)
  then have b: "(wc_id (info c), b) \<in> set (hs_clients st)" by (rule map_of_SomeD)
  have "b = c" using entry_id(2) [OF assms b, of c] by simp
  with b have e: "(wc_id (info c), c) \<in> set (hs_clients st)" by simp
  show ?thesis using Some close_entry(1) [OF assms e] imageI [OF e, of snd] by (simp add: hub_unregister_def)
qed

text \<open>The clients a broadcast has still to serve are registered, and a writer that runs has lost nothing.\<close>

definition loop_ok :: "hub_state \<Rightarrow> bool" where
  "loop_ok st \<longleftrightarrow> (case hs_loop st of None \<Rightarrow> True | Some (m, es) \<Rightarrow> distinct es \<and> set es \<subseteq> set (hs_clients st))"

definition writers_ok :: "hub_state \<Rightarrow> bool" where
  "writers_ok st \<longleftrightarrow> (\<forall>c. hs_writer st c \<noteq> WriterEnded \<longrightarrow> hs_lost st c = [])"

definition hub_inv :: "(nat \<Rightarrow> ws_client) \<Rightarrow> hub_state \<Rightarrow> bool" where
  "hub_inv info st \<longleftrightarrow> hub_ok info st \<and> loop_ok st \<and> writers_ok st"

lemma hub_inv_new: "hub_inv info new_hub"
  by (simp add: hub_inv_def hub_ok_new loop_ok_def writers_ok_def) (simp add: new_hub_def)

lemma hub_inv_same:
  "hub_inv info st \<Longrightarrow> hs_clients st' = hs_clients st \<Longrightarrow> hs_known st' = hs_known st \<Longrightarrow> hs_reading st' = hs_reading st \<Longrightarrow>
   hs_loop st' = hs_loop st \<Longrightarrow> writers_ok st' \<Longrightarrow> (\<And>c. wq_closed (hs_queue st' c) = wq_closed (hs_queue st c)) \<Longrightarrow> hub_inv info st'"
  using hub_ok_same [of info st st'] by (auto simp: hub_inv_def loop_ok_def split: option.splits)

lemma entry_other:
  assumes "inj (\<lambda>c. wc_id (info c))" "hub_ok info st" "distinct ((i, c) # es)" "set ((i, c) # es) \<subseteq> set (hs_clients st)"
  shows "c \<notin> snd ` set es"
proof
  assume "c \<in> snd ` set es"
  then obtain j where j: "(j, c) \<in> set es" by force
  then have "(j, c) \<in> set (hs_clients st)" "(i, c) \<in> set (hs_clients st)" using assms(4) by auto
  then have "j = i" using entry_id(1) [OF assms(1,2), of "(j, c)"] entry_id(1) [OF assms(1,2), of "(i, c)"] by simp
  with j assms(3) show False by simp
qed

lemma broadcast_turn:
  assumes inj: "inj (\<lambda>c. wc_id (info c))" and inv: "hub_inv info st" and l: "hs_loop st = Some (m, (i, c) # es)"
  shows "broadcast_one cap m (i, c) (st\<lparr>hs_loop := Some (m, es)\<rparr>) =
      Some (if has_room cap c st then enqueue c m (st\<lparr>hs_loop := Some (m, es)\<rparr>) else drop_client c (st\<lparr>hs_loop := Some (m, es)\<rparr>))"
    and "hub_inv info (if has_room cap c st then enqueue c m (st\<lparr>hs_loop := Some (m, es)\<rparr>) else drop_client c (st\<lparr>hs_loop := Some (m, es)\<rparr>))"
    and "c \<notin> snd ` set es"
proof -
  let ?st = "st\<lparr>hs_loop := Some (m, es)\<rparr>"
  have ok: "hub_ok info st" and d: "distinct ((i, c) # es)" "set ((i, c) # es) \<subseteq> set (hs_clients st)"
    using inv l by (auto simp: hub_inv_def loop_ok_def)
  have ok': "hub_ok info ?st" by (rule hub_ok_same [OF ok]) simp_all
  have e: "(i, c) \<in> set (hs_clients ?st)" using d by simp
  note close = close_entry [OF inj ok' e]
  show out: "c \<notin> snd ` set es" by (rule entry_other [OF inj ok d])
  show "broadcast_one cap m (i, c) ?st = Some (if has_room cap c st then enqueue c m ?st else drop_client c ?st)"
    using close(1,3) by (simp add: broadcast_one_def has_room_def)
  have "hub_ok info (enqueue c m ?st)" by (rule hub_ok_same [OF ok']) (auto simp: enqueue_def)
  moreover have "set es \<subseteq> set (filter (\<lambda>e. snd e \<noteq> c) (hs_clients st))" using d(2) out by (force simp: subset_iff image_iff)
  ultimately show "hub_inv info (if has_room cap c st then enqueue c m ?st else drop_client c ?st)"
    using close(2) d inv by (simp add: hub_inv_def loop_ok_def writers_ok_def) (simp add: drop_client_def enqueue_def)
qed

section \<open>Steps\<close>

lemma write_step_keeps:
  assumes "write_step up c st = Some st'"
  shows "hs_clients st' = hs_clients st" "hs_known st' = hs_known st" "hs_reading st' = hs_reading st" "hs_loop st' = hs_loop st"
    "wq_closed (hs_queue st' b) = wq_closed (hs_queue st b)" "writers_ok st \<Longrightarrow> writers_ok st'"
  using assms
  by (auto simp: write_step_def set_writer_def dequeue_def writer_fails_def writers_ok_def
      split: ws_writer.splits list.splits nat.splits if_splits)

lemma ping_client_keeps:
  assumes "ping_client up c st = Some st'"
  shows "hs_clients st' = hs_clients st" "hs_known st' = hs_known st" "hs_reading st' = hs_reading st" "hs_loop st' = hs_loop st"
    "wq_closed (hs_queue st' b) = wq_closed (hs_queue st b)" "writers_ok st \<Longrightarrow> writers_ok st'"
  using assms by (auto simp: ping_client_def set_writer_def writer_fails_def writers_ok_def split: if_splits)

lemma call_step_state:
  "call_step info cap a st = Some (x, st') \<Longrightarrow> st' = st \<or> (\<exists>c m. st' = enqueue c m st)"
  by (cases "(info, cap, a, st)" rule: call_step.cases) (auto simp: user_send_def split: if_splits)

lemma call_step_None:
  "call_step info cap a st = None \<longleftrightarrow> (\<exists>user m c es. a = UserCall user m (Some c) es \<and> wq_closed (hs_queue st c))"
  by (cases "(info, cap, a, st)" rule: call_step.cases) (auto simp: user_send_def)

lemma next_of_call_keeps:
  assumes "next_of_call info cap k st = Some st'"
  shows "hs_clients st' = hs_clients st" "hs_known st' = hs_known st" "hs_reading st' = hs_reading st" "hs_loop st' = hs_loop st"
    "wq_closed (hs_queue st' b) = wq_closed (hs_queue st b)" "hs_writer st' = hs_writer st" "hs_lost st' = hs_lost st" "hs_sent st' = hs_sent st"
    "\<exists>ms. wq_queued (hs_queue st' b) = wq_queued (hs_queue st b) @ ms"
proof -
  obtain x st1 where c: "call_step info cap (hs_calls st ! k) st = Some (x, st1)" and st': "st' = set_call k x st1"
    using assms by (auto simp: next_of_call_def)
  have "st1 = st \<or> (\<exists>c m. st1 = enqueue c m st)"
    by (rule call_step_state [OF c])
  then show "hs_clients st' = hs_clients st" "hs_known st' = hs_known st" "hs_reading st' = hs_reading st" "hs_loop st' = hs_loop st"
    "wq_closed (hs_queue st' b) = wq_closed (hs_queue st b)" "hs_writer st' = hs_writer st" "hs_lost st' = hs_lost st" "hs_sent st' = hs_sent st"
    "\<exists>ms. wq_queued (hs_queue st' b) = wq_queued (hs_queue st b) @ ms"
    by (auto simp: st' set_call_def enqueue_def split: if_splits)
qed

lemma next_of_call_None:
  "next_of_call info cap k st = None \<longleftrightarrow>
   (\<exists>user m c es. hs_calls st ! k = UserCall user m (Some c) es \<and> wq_closed (hs_queue st c))"
  by (simp add: next_of_call_def call_step_None)

lemma hub_step_inv:
  assumes inj: "inj (\<lambda>c. wc_id (info c))" and inv: "hub_inv info st" and step: "hub_step info cap st e (Some st')"
  shows "hub_inv info st'"
proof -
  have ok: "hub_ok info st" and lo: "loop_ok st" and wo: "writers_ok st" using inv by (simp_all add: hub_inv_def)
  from step show ?thesis
  proof (rule hub_stepE)
    fix c assume e: "e = Connect c" "Some st' = Some ((hub_register info c st)\<lparr>hs_known := c # hs_known st, hs_reading := c # hs_reading st\<rparr>)"
      "c \<notin> set (hs_known st)" "hs_loop st = None"
    then show ?thesis using hub_ok_connect [OF inj ok] wo
      by (simp add: hub_inv_def loop_ok_def writers_ok_def) (simp add: hub_register_def)
  next
    fix c assume e: "e = Disconnect c" "Some st' = hub_unregister info c (st\<lparr>hs_reading := removeAll c (hs_reading st)\<rparr>)"
      "hs_loop st = None"
    let ?st = "st\<lparr>hs_reading := removeAll c (hs_reading st)\<rparr>"
    have ok': "hub_ok info ?st" by (rule hub_ok_same [OF ok]) auto
    have "hub_ok info (drop_client c ?st)" if "c \<in> snd ` set (hs_clients ?st)"
      using that close_entry(2) [OF inj ok'] by fastforce
    then show ?thesis using e ok' wo unfolding unregister_result [OF inj ok']
      by (simp add: hub_inv_def loop_ok_def writers_ok_def split: if_splits) (simp add: drop_client_def)
  next
    fix m st1 assume "Some st' = Some st1" "broadcast_to_all m st = Some st1"
    then show ?thesis using wo by (intro hub_inv_same [OF inv]) (auto simp: broadcast_to_all_def writers_ok_def split: if_splits)
  next
    fix m es ms assume e: "Some st' = Some (hub_broadcast m es (st\<lparr>hs_inbox := ms\<rparr>))" "mset es = mset (hs_clients st)"
    have "distinct (hs_clients st)" using ok by (simp add: hub_ok_def distinct_map)
    then have "distinct es" "set es = set (hs_clients st)" using mset_eq_imp_distinct_iff [OF e(2)] mset_eq_setD [OF e(2)] by simp_all
    moreover have "hub_ok info st'" by (rule hub_ok_same [OF ok]) (use e(1) in \<open>simp_all add: hub_broadcast_def\<close>)
    ultimately show ?thesis using e(1) wo by (simp add: hub_inv_def loop_ok_def writers_ok_def hub_broadcast_def)
  next
    fix m x es assume e: "Some st' = broadcast_one cap m x (st\<lparr>hs_loop := Some (m, es)\<rparr>)" "hs_loop st = Some (m, x # es)"
    obtain i c where x: "x = (i, c)" by (cases x)
    show ?thesis using broadcast_turn(1,2) [OF inj inv e(2) [unfolded x], of cap] e(1) by (simp add: x split: if_splits)
  next
    fix m assume "Some st' = Some (st\<lparr>hs_loop := None\<rparr>)"
    then show ?thesis using hub_ok_same [OF ok, of st'] wo by (simp add: hub_inv_def loop_ok_def writers_ok_def)
  next
    fix user m es assume "Some st' = Some (broadcast_to_user user m es st)"
    then show ?thesis using wo by (intro hub_inv_same [OF inv]) (auto simp: broadcast_to_user_def writers_ok_def)
  next
    fix user es assume "Some st' = Some (get_user_client_count user es st)"
    then show ?thesis using wo by (intro hub_inv_same [OF inv]) (auto simp: get_user_client_count_def writers_ok_def)
  next
    fix k assume "Some st' = next_of_call info cap k st"
    from next_of_call_keeps [OF this [symmetric]] wo show ?thesis by (intro hub_inv_same [OF inv]) (simp_all add: writers_ok_def)
  next
    fix c m t assume "Some st' = handle_client_message c m t st"
    then show ?thesis using wo
      by (intro hub_inv_same [OF inv]) (auto simp: handle_client_message_def enqueue_def writers_ok_def split: if_splits)
  next
    fix c up st1 assume "Some st' = Some st1" "write_step up c st = Some st1"
    with write_step_keeps [of up c st st1] wo show ?thesis by (intro hub_inv_same [OF inv]) simp_all
  next
    fix c up st1 assume "Some st' = Some st1" "ping_client up c st = Some st1"
    with ping_client_keeps [of up c st st1] wo show ?thesis by (intro hub_inv_same [OF inv]) simp_all
  qed simp
qed

lemma hub_run_inv:
  "hub_run info cap es st \<Longrightarrow> inj (\<lambda>c. wc_id (info c)) \<Longrightarrow> hub_inv info st"
  by (induction rule: hub_run.induct) (auto intro: hub_inv_new hub_step_inv)

text \<open>The steps that end the program.\<close>

definition ping_on_closed :: "hub_event \<Rightarrow> hub_state \<Rightarrow> bool" where
  "ping_on_closed e st \<longleftrightarrow> (\<exists>c m t. e = Incoming c m t \<and> wm_type m = ''ping'' \<and> c \<in> set (hs_reading st) \<and> wq_closed (hs_queue st c))"

definition send_on_closed :: "hub_event \<Rightarrow> hub_state \<Rightarrow> bool" where
  "send_on_closed e st \<longleftrightarrow> (\<exists>k user m c es. e = CallNext k \<and> k < length (hs_calls st) \<and> hs_calls st ! k = UserCall user m (Some c) es
     \<and> wq_closed (hs_queue st c))"

definition map_fault :: "nat \<Rightarrow> hub_event \<Rightarrow> hub_state \<Rightarrow> bool" where
  "map_fault cap e st \<longleftrightarrow> (\<exists>m i c es. e = BroadcastNext \<and> hs_loop st = Some (m, (i, c) # es) \<and> \<not> has_room cap c st \<and> hs_calls st \<noteq> [])"

lemma hub_step_None:
  assumes inj: "inj (\<lambda>c. wc_id (info c))" and inv: "hub_inv info st" and step: "hub_step info cap st e None"
  shows "ping_on_closed e st \<or> send_on_closed e st \<or> map_fault cap e st"
  using step
proof (rule hub_stepE)
  fix c assume e: "None = hub_unregister info c (st\<lparr>hs_reading := removeAll c (hs_reading st)\<rparr>)"
  have "hub_ok info (st\<lparr>hs_reading := removeAll c (hs_reading st)\<rparr>)" using inv by (auto simp: hub_inv_def intro: hub_ok_same)
  with e show ?thesis using unregister_result [OF inj] by simp
next
  fix m x es assume e: "None = broadcast_one cap m x (st\<lparr>hs_loop := Some (m, es)\<rparr>)" "hs_loop st = Some (m, x # es)"
  obtain i c where x: "x = (i, c)" by (cases x)
  show ?thesis using broadcast_turn(1) [OF inj inv e(2) [unfolded x], of cap] e(1) by (simp add: x)
next
  fix m i c es assume "e = BroadcastNext" "hs_loop st = Some (m, (i, c) # es)" "\<not> has_room cap c st" "hs_calls st \<noteq> []"
  then show ?thesis by (auto simp: map_fault_def)
next
  fix k assume "e = CallNext k" "None = next_of_call info cap k st" "k < length (hs_calls st)"
  then show ?thesis using next_of_call_None [of info cap k st] by (auto simp: send_on_closed_def)
next
  fix c m t assume "e = Incoming c m t" "None = handle_client_message c m t st" "c \<in> set (hs_reading st)"
  then show ?thesis by (auto simp: ping_on_closed_def handle_client_message_def split: if_splits)
qed simp_all

lemma hub_step_panics:
  "ping_on_closed e st \<Longrightarrow> hub_step info cap st e None" "send_on_closed e st \<Longrightarrow> hub_step info cap st e None"
  "map_fault cap e st \<Longrightarrow> hub_step info cap st e None"
proof -
  show "hub_step info cap st e None" if "ping_on_closed e st"
  proof -
    obtain c m t where e: "e = Incoming c m t" "wm_type m = ''ping''" "c \<in> set (hs_reading st)" "wq_closed (hs_queue st c)"
      using \<open>ping_on_closed e st\<close> by (auto simp: ping_on_closed_def)
    then have "hub_step info cap st (Incoming c m t) (handle_client_message c m t st)" by (intro hub_incoming) simp_all
    with e show ?thesis by (simp add: handle_client_message_def)
  qed
  show "hub_step info cap st e None" if "send_on_closed e st"
  proof -
    obtain k where e: "e = CallNext k" "k < length (hs_calls st)" "next_of_call info cap k st = None"
      using \<open>send_on_closed e st\<close> unfolding send_on_closed_def next_of_call_None by blast
    show ?thesis using hub_call_next [OF e(2), of info cap] by (simp add: e(1,3))
  qed
  show "hub_step info cap st e None" if "map_fault cap e st"
    using that by (auto simp: map_fault_def intro: hub_map_fault)
qed

text \<open>C29. While every client has an identifier of its own, three steps of the hub can end the program, each of them does wherever it is
  possible, and no other step does: a ping read from a client whose queue a broadcast has closed because it was full (the answer is sent
  on a closed channel); a message to a user that had fetched its client when a broadcast closed that client's queue; and a broadcast that
  deletes a client while a call walks through the same map under its read lock. Registrations, removals and the sends and closes of a
  broadcast itself never panic.\<close>

theorem hub_panics_exactly:
  assumes "inj (\<lambda>c. wc_id (info c))" "hub_run info cap es st"
  shows "hub_step info cap st e None \<longleftrightarrow>
    (\<exists>c m t. e = Incoming c m t \<and> wm_type m = ''ping'' \<and> c \<in> set (hs_reading st) \<and> wq_closed (hs_queue st c))
    \<or> (\<exists>k user m c rest. e = CallNext k \<and> k < length (hs_calls st) \<and> hs_calls st ! k = UserCall user m (Some c) rest
         \<and> wq_closed (hs_queue st c))
    \<or> (\<exists>m i c rest. e = BroadcastNext \<and> hs_loop st = Some (m, (i, c) # rest) \<and> \<not> has_room cap c st \<and> hs_calls st \<noteq> [])"
  using hub_step_None [OF assms(1) hub_run_inv [OF assms(2,1)], of cap e] hub_step_panics [where e = e and st = st and info = info and cap = cap]
  unfolding ping_on_closed_def [symmetric] send_on_closed_def [symmetric] map_fault_def [symmetric] by blast

section \<open>What a client receives\<close>

fun broadcasts :: "hub_event list \<Rightarrow> ws_message list" where
  "broadcasts [] = []"
| "broadcasts (e # es) = (case e of BroadcastStart m _ \<Rightarrow> m # broadcasts es | _ \<Rightarrow> broadcasts es)"

lemma broadcasts_append: "broadcasts (es @ fs) = broadcasts es @ broadcasts fs"
  by (induction es) (auto split: hub_event.splits)

definition broadcasts_since :: "nat \<Rightarrow> hub_event list \<Rightarrow> ws_message list" where
  "broadcasts_since c es = broadcasts (dropWhile (\<lambda>e. e \<noteq> Connect c) es)"

lemma broadcasts_since_snoc:
  "broadcasts_since c (es @ [e]) = (if Connect c \<in> set es then broadcasts_since c es @ broadcasts [e] else [])"
proof (cases "Connect c \<in> set es")
  case True
  then show ?thesis by (simp add: broadcasts_since_def dropWhile_append1 [where x = "Connect c"] broadcasts_append)
next
  case False
  then have "dropWhile (\<lambda>e. e \<noteq> Connect c) (es @ [e]) = dropWhile (\<lambda>e. e \<noteq> Connect c) [e]" by (intro dropWhile_append2) auto
  with False show ?thesis by (simp add: broadcasts_since_def)
qed

text \<open>What a writer holds, and what the broadcast under way has still to queue for a client.\<close>

definition frame_of :: "ws_writer \<Rightarrow> ws_message list" where
  "frame_of w = (case w of OpeningFrame m \<Rightarrow> [m] | CollectingFrame n f \<Rightarrow> f | _ \<Rightarrow> [])"

definition still_to_queue :: "nat \<Rightarrow> hub_state \<Rightarrow> ws_message list" where
  "still_to_queue c st = (case hs_loop st of Some (m, es) \<Rightarrow> if c \<in> snd ` set es then [m] else [] | None \<Rightarrow> [])"

definition stream_of :: "nat \<Rightarrow> hub_state \<Rightarrow> ws_message list" where
  "stream_of c st = hs_sent st c @ hs_lost st c @ frame_of (hs_writer st c) @ wq_queued (hs_queue st c) @ still_to_queue c st"

lemma subseq_between: "subseq (a @ b @ c @ d @ e) (a @ b @ c @ d @ ms @ e)"
  by (intro list_emb_append_mono subseq_order.refl list_emb_append2 [of _ e e])

lemma stream_of_same:
  "hs_sent st' = hs_sent st \<Longrightarrow> hs_lost st' = hs_lost st \<Longrightarrow> hs_writer st' = hs_writer st \<Longrightarrow> hs_loop st' = hs_loop st \<Longrightarrow>
   wq_queued (hs_queue st' c) = wq_queued (hs_queue st c) @ ms \<Longrightarrow> subseq (stream_of c st) (stream_of c st')"
  by (simp add: stream_of_def still_to_queue_def del: subseq_append') (rule subseq_between)

lemma write_step_stream:
  "write_step up b st = Some st' \<Longrightarrow> writers_ok st \<Longrightarrow> stream_of c st' = stream_of c st"
  by (auto simp: write_step_def set_writer_def dequeue_def writer_fails_def writers_ok_def stream_of_def frame_of_def still_to_queue_def
      split: ws_writer.splits list.splits nat.splits if_splits)

lemma ping_client_stream:
  "ping_client up b st = Some st' \<Longrightarrow> writers_ok st \<Longrightarrow> stream_of c st' = stream_of c st"
  by (auto simp: ping_client_def set_writer_def writer_fails_def writers_ok_def stream_of_def frame_of_def still_to_queue_def split: if_splits)

lemma hub_step_stream:
  assumes inj: "inj (\<lambda>c. wc_id (info c))" and inv: "hub_inv info st" and step: "hub_step info cap st e (Some st')"
    and c: "c \<in> snd ` set (hs_clients st')"
  shows "e = Connect c \<or> c \<in> snd ` set (hs_clients st) \<and> subseq (stream_of c st @ broadcasts [e]) (stream_of c st')"
  using step
proof (rule hub_stepE)
  fix b assume e: "e = Connect b" "Some st' = Some ((hub_register info b st)\<lparr>hs_known := b # hs_known st, hs_reading := b # hs_reading st\<rparr>)"
  have "c \<in> snd ` set (AList.update (wc_id (info b)) b (hs_clients st))" using c e(2) by (simp add: hub_register_def)
  then have "c \<in> insert b (snd ` set (hs_clients st))" by (rule subsetD [OF update_values])
  moreover have "stream_of c st' = stream_of c st" using e(2) by (simp add: stream_of_def still_to_queue_def hub_register_def)
  ultimately show ?thesis using e(1) by auto
next
  fix b assume e: "e = Disconnect b" "Some st' = hub_unregister info b (st\<lparr>hs_reading := removeAll b (hs_reading st)\<rparr>)" "hs_loop st = None"
  have "hub_ok info (st\<lparr>hs_reading := removeAll b (hs_reading st)\<rparr>)" using inv by (auto simp: hub_inv_def intro: hub_ok_same)
  from e(2) [unfolded unregister_result [OF inj this]] c e(1)
  show ?thesis by (auto simp: stream_of_def still_to_queue_def drop_client_def split: if_splits)
next
  fix m st1 assume "e = Queued m" "Some st' = Some st1" "broadcast_to_all m st = Some st1"
  then show ?thesis using c by (auto simp: broadcast_to_all_def stream_of_def still_to_queue_def split: if_splits)
next
  fix m es ms assume e: "e = BroadcastStart m es" "Some st' = Some (hub_broadcast m es (st\<lparr>hs_inbox := ms\<rparr>))" "hs_loop st = None"
    "mset es = mset (hs_clients st)"
  have "set es = set (hs_clients st)" using e(4) by (rule mset_eq_setD)
  with c e show ?thesis by (simp add: stream_of_def still_to_queue_def hub_broadcast_def)
next
  fix m x es assume e: "e = BroadcastNext" "Some st' = broadcast_one cap m x (st\<lparr>hs_loop := Some (m, es)\<rparr>)" "hs_loop st = Some (m, x # es)"
  obtain i b where x: "x = (i, b)" by (cases x)
  note turn = broadcast_turn [OF inj inv e(3) [unfolded x]]
  have st': "st' = (if has_room cap b st then enqueue b m (st\<lparr>hs_loop := Some (m, es)\<rparr>) else drop_client b (st\<lparr>hs_loop := Some (m, es)\<rparr>))"
    using turn(1) [of cap] e(2) by (simp add: x)
  show ?thesis
  proof (cases "has_room cap b st")
    case True
    then have cl: "hs_clients st' = hs_clients st" by (simp add: st' enqueue_def)
    have "stream_of c st' = stream_of c st"
      using True turn(3) e(3) by (auto simp: st' x stream_of_def still_to_queue_def enqueue_def)
    then show ?thesis using c cl e(1) by simp
  next
    case False
    then have "c \<noteq> b" "c \<in> snd ` set (hs_clients st)" using c by (auto simp: st' drop_client_def)
    then show ?thesis using False e(1,3) by (auto simp: st' x stream_of_def still_to_queue_def drop_client_def)
  qed
next
  fix m assume "e = BroadcastNext" "Some st' = Some (st\<lparr>hs_loop := None\<rparr>)" "hs_loop st = Some (m, [])"
  then show ?thesis using c by (auto simp: stream_of_def still_to_queue_def)
next
  fix user m es assume "e = UserStart user m es" "Some st' = Some (broadcast_to_user user m es st)"
  then show ?thesis using c by (auto simp: stream_of_def still_to_queue_def broadcast_to_user_def)
next
  fix user es assume "e = CountStart user es" "Some st' = Some (get_user_client_count user es st)"
  then show ?thesis using c by (auto simp: stream_of_def still_to_queue_def get_user_client_count_def)
next
  fix k assume e: "e = CallNext k" "Some st' = next_of_call info cap k st"
  note keeps = next_of_call_keeps [OF e(2) [symmetric]]
  obtain ms where "wq_queued (hs_queue st' c) = wq_queued (hs_queue st c) @ ms" using keeps(9) [of c] by blast
  then have "subseq (stream_of c st) (stream_of c st')" by (rule stream_of_same [OF keeps(8,7,6,4)])
  then show ?thesis using c e(1) by (simp add: keeps(1))
next
  fix b m t assume e: "e = Incoming b m t" "Some st' = handle_client_message b m t st"
  then have "st' = st \<or> st' = enqueue b (pong t) st" by (auto simp: handle_client_message_def split: if_splits)
  then have cl: "hs_clients st' = hs_clients st" "hs_sent st' = hs_sent st" "hs_lost st' = hs_lost st" "hs_writer st' = hs_writer st"
    "hs_loop st' = hs_loop st" "\<exists>ms. wq_queued (hs_queue st' c) = wq_queued (hs_queue st c) @ ms"
    by (auto simp: enqueue_def)
  then have "subseq (stream_of c st) (stream_of c st')" using stream_of_same [OF cl(2-5)] by blast
  with cl(1) show ?thesis using c e(1) by simp
next
  fix b up st1 assume "e = WriterStep b up" "Some st' = Some st1" "write_step up b st = Some st1"
  then show ?thesis using c write_step_keeps(1) [of up b st st'] write_step_stream [of up b st st' c] inv by (simp add: hub_inv_def)
next
  fix b up st1 assume "e = PingTick b up" "Some st' = Some st1" "ping_client up b st = Some st1"
  then show ?thesis using c ping_client_keeps(1) [of up b st st'] ping_client_stream [of up b st st' c] inv by (simp add: hub_inv_def)
qed simp

lemma hub_step_known:
  assumes inj: "inj (\<lambda>c. wc_id (info c))" and inv: "hub_inv info st" and step: "hub_step info cap st e (Some st')"
  shows "hs_known st' = (case e of Connect c \<Rightarrow> c # hs_known st | _ \<Rightarrow> hs_known st)" and "e = Connect c \<Longrightarrow> c \<notin> set (hs_known st)"
proof -
  show "e = Connect c \<Longrightarrow> c \<notin> set (hs_known st)" using step by (auto elim: hub_stepE)
  show "hs_known st' = (case e of Connect c \<Rightarrow> c # hs_known st | _ \<Rightarrow> hs_known st)"
    using step
  proof (rule hub_stepE)
    fix m x es assume e: "e = BroadcastNext" "Some st' = broadcast_one cap m x (st\<lparr>hs_loop := Some (m, es)\<rparr>)"
    then show ?thesis by (auto simp: broadcast_one_def enqueue_def close_queue_def split: prod.splits if_splits)
  next
    fix k assume "e = CallNext k" "Some st' = next_of_call info cap k st"
    then show ?thesis using next_of_call_keeps(2) [of info cap k st st'] by simp
  qed (auto simp: hub_unregister_def close_queue_def handle_client_message_def enqueue_def broadcast_to_all_def hub_broadcast_def
      broadcast_to_user_def get_user_client_count_def write_step_keeps ping_client_keeps split: if_splits)
qed

lemma connected_known:
  "hub_run info cap es st \<Longrightarrow> inj (\<lambda>c. wc_id (info c)) \<Longrightarrow> Connect c \<in> set es \<Longrightarrow> c \<in> set (hs_known st)"
proof (induction rule: hub_run.induct)
  case (run_step es st e st')
  from hub_step_known(1) [OF run_step.prems(1) hub_run_inv [OF run_step.hyps(1) run_step.prems(1)] run_step.hyps(2)] run_step
  show ?case by (auto split: hub_event.splits)
qed simp

lemma hub_run_stream:
  "hub_run info cap es st \<Longrightarrow> inj (\<lambda>c. wc_id (info c)) \<Longrightarrow> c \<in> snd ` set (hs_clients st) \<Longrightarrow>
   Connect c \<in> set es \<and> subseq (broadcasts_since c es) (stream_of c st)"
proof (induction rule: hub_run.induct)
  case run_start
  then show ?case by (simp add: new_hub_def)
next
  case (run_step es st e st')
  note inv = hub_run_inv [OF run_step.hyps(1) run_step.prems(1)]
  from hub_step_stream [OF run_step.prems(1) inv run_step.hyps(2) run_step.prems(2)]
  show ?case
  proof
    assume e: "e = Connect c"
    have "c \<notin> set (hs_known st)" using hub_step_known(2) [OF run_step.prems(1) inv run_step.hyps(2) e] .
    then have "Connect c \<notin> set es" using connected_known [OF run_step.hyps(1) run_step.prems(1)] by blast
    with e show ?thesis by (simp add: broadcasts_since_snoc)
  next
    assume *: "c \<in> snd ` set (hs_clients st) \<and> subseq (stream_of c st @ broadcasts [e]) (stream_of c st')"
    with run_step have in_es: "Connect c \<in> set es" and sub: "subseq (broadcasts_since c es) (stream_of c st)" by auto
    have "subseq (broadcasts_since c es @ broadcasts [e]) (stream_of c st @ broadcasts [e])"
      using sub by (intro list_emb_append_mono) simp_all
    then have "subseq (broadcasts_since c es @ broadcasts [e]) (stream_of c st')"
      using * subseq_order.trans by blast
    with in_es show ?thesis by (simp add: broadcasts_since_snoc)
  qed
qed

text \<open>C30. A client that is still registered and whose writer runs has missed nothing that was broadcast since it connected: every
  broadcast is, in order, among what its writer has written, what it has taken for the frame it is writing, what waits in the queue, and
  what the broadcast under way has still to queue. Its queue is open; a client that would miss a broadcast is removed instead, and its
  queue closed. When writing a frame fails the messages of that one frame are lost and the writer ends, while the client stays registered
  until its reader ends.\<close>

theorem registered_client_misses_nothing:
  assumes "inj (\<lambda>c. wc_id (info c))" "hub_run info cap es st" "map_of (hs_clients st) i = Some c"
  shows "i = wc_id (info c) \<and> \<not> wq_closed (hs_queue st c)
    \<and> subseq (broadcasts_since c es)
        (hs_sent st c @ hs_lost st c @ frame_of (hs_writer st c) @ wq_queued (hs_queue st c) @ still_to_queue c st)
    \<and> (hs_writer st c \<noteq> WriterEnded \<longrightarrow> hs_lost st c = [])"
proof -
  have entry: "(i, c) \<in> set (hs_clients st)" using assms(3) by (rule map_of_SomeD)
  have inv: "hub_inv info st" by (rule hub_run_inv [OF assms(2,1)])
  then have ok: "hub_ok info st" by (simp add: hub_inv_def)
  have c: "c \<in> snd ` set (hs_clients st)" using imageI [OF entry, of snd] by simp
  show ?thesis
    using entry_id(1) [OF assms(1) ok entry] entry_queue [OF ok, of c] c hub_run_stream [OF assms(2,1) c] inv
    by (simp add: stream_of_def hub_inv_def writers_ok_def)
qed

text \<open>The hub does not check that identifiers are unique. Of two clients with one identifier the second takes the first one's entry. When
  the first ends, that entry is removed; the second stays connected with an open queue and no entry, so it receives nothing
  more, and its own removal will close nothing.\<close>

lemma shared_identifier_never_closes:
  assumes "wc_id (info a) = wc_id (info b)" "a \<noteq> b" "map_of (hs_clients st) (wc_id (info a)) = Some b" "\<not> wq_closed (hs_queue st a)"
    "hub_unregister info a st = Some st'"
  shows "map_of (hs_clients st') (wc_id (info b)) = None \<and> wq_closed (hs_queue st' a) \<and> wq_closed (hs_queue st' b) = wq_closed (hs_queue st b)"
  using assms by (auto simp: hub_unregister_def close_queue_def delete_conv split: if_splits)

section \<open>A run\<close>

definition demo_info :: "nat \<Rightarrow> ws_client" where
  "demo_info c = \<lparr>wc_id = replicate c CHR ''x'', wc_user_id = ''alice''\<rparr>"

definition demo_message :: ws_message where
  "demo_message = \<lparr>wm_type = ''provider_status'', wm_data = Map.empty, wm_timestamp = 0\<rparr>"

lemma demo_info_inj: "inj (\<lambda>c. wc_id (demo_info c))"
proof (rule injI)
  fix x y assume "wc_id (demo_info x) = wc_id (demo_info y)"
  then have "length (wc_id (demo_info x)) = length (wc_id (demo_info y))" by simp
  then show "x = y" by (simp add: demo_info_def)
qed

text \<open>Queues with room for one message. A client gets one broadcast; before its writer takes it a second one starts, while a message to
  its user has fetched it; then the second broadcast finds its queue full.\<close>

abbreviation demo_entries :: "(string \<times> nat) list" where
  "demo_entries \<equiv> [(''xx'', 2)]"

definition demo_hub :: "ws_message list \<Rightarrow> (ws_message \<times> (string \<times> nat) list) option \<Rightarrow> ws_message list \<Rightarrow> hub_call list \<Rightarrow> hub_state" where
  "demo_hub queued lp inbox calls = new_hub\<lparr>hs_clients := demo_entries,
     hs_queue := (\<lambda>c. \<lparr>wq_queued = [], wq_closed = False\<rparr>)(2 := \<lparr>wq_queued = queued, wq_closed = False\<rparr>),
     hs_known := [2], hs_reading := [2], hs_inbox := inbox, hs_loop := lp, hs_calls := calls\<rparr>"

definition demo_full :: hub_state where
  "demo_full = demo_hub [demo_message] (Some (demo_message, demo_entries)) [] [UserCall ''alice'' demo_message (Some 2) []]"

definition demo_closed_queue :: hub_state where
  "demo_closed_queue = drop_client 2 (demo_full\<lparr>hs_loop := Some (demo_message, [])\<rparr>)"

lemma demo_hub_fields [simp]:
  "hs_clients (demo_hub q l i k) = demo_entries" "hs_loop (demo_hub q l i k) = l" "hs_inbox (demo_hub q l i k) = i"
  "hs_calls (demo_hub q l i k) = k" "hs_known (demo_hub q l i k) = [2]" "hs_reading (demo_hub q l i k) = [2]"
  "hs_queue (demo_hub q l i k) 2 = \<lparr>wq_queued = q, wq_closed = False\<rparr>"
  by (simp_all add: demo_hub_def)

lemma demo_hub_updates [simp]:
  "(demo_hub q l i k)\<lparr>hs_inbox := i'\<rparr> = demo_hub q l i' k" "(demo_hub q l i k)\<lparr>hs_loop := l'\<rparr> = demo_hub q l' i k"
  "(demo_hub q l i k)\<lparr>hs_calls := k'\<rparr> = demo_hub q l i k'" "enqueue 2 m (demo_hub q l i k) = demo_hub (q @ [m]) l i k"
  by (simp_all add: demo_hub_def enqueue_def fun_eq_iff)

lemma demo_steps:
  "hub_step demo_info 1 new_hub (Connect 2) (Some (demo_hub [] None [] []))"
  "hub_step demo_info 1 (demo_hub q l [] k) (Queued m) (Some (demo_hub q l [m] k))"
  "hub_step demo_info 1 (demo_hub q None [m] k) (BroadcastStart m demo_entries) (Some (demo_hub q (Some (m, demo_entries)) [] k))"
  "hub_step demo_info 1 (demo_hub [] (Some (m, demo_entries)) [] k) BroadcastNext (Some (demo_hub [m] (Some (m, [])) [] k))"
  "hub_step demo_info 1 (demo_hub q (Some (m, [])) [] k) BroadcastNext (Some (demo_hub q None [] k))"
  "hub_step demo_info 1 (demo_hub q l [] []) (UserStart ''alice'' m demo_entries) (Some (demo_hub q l [] [UserCall ''alice'' m None demo_entries]))"
  "hub_step demo_info 1 (demo_hub q l [] [UserCall ''alice'' m None demo_entries]) (CallNext 0)
     (Some (demo_hub q l [] [UserCall ''alice'' m (Some 2) []]))"
proof -
  have "(hub_register demo_info 2 new_hub)\<lparr>hs_known := [2], hs_reading := [2]\<rparr> = demo_hub [] None [] []"
    by (simp add: demo_hub_def hub_register_def new_hub_def demo_info_def numeral_2_eq_2 fun_eq_iff)
  then show "hub_step demo_info 1 new_hub (Connect 2) (Some (demo_hub [] None [] []))"
    using hub_connect [of 2 new_hub demo_info 1] by (simp add: new_hub_def)
  show "hub_step demo_info 1 (demo_hub q l [] k) (Queued m) (Some (demo_hub q l [m] k))"
    by (rule hub_queued) (simp add: broadcast_to_all_def)
  show "hub_step demo_info 1 (demo_hub q None [m] k) (BroadcastStart m demo_entries) (Some (demo_hub q (Some (m, demo_entries)) [] k))"
    using hub_message [of "demo_hub q None [m] k" m "[]" demo_entries] by (simp add: hub_broadcast_def)
  show "hub_step demo_info 1 (demo_hub [] (Some (m, demo_entries)) [] k) BroadcastNext (Some (demo_hub [m] (Some (m, [])) [] k))"
    using hub_turn [of "demo_hub [] (Some (m, demo_entries)) [] k" m "(''xx'', 2)" "[]" demo_info 1]
    by (simp add: broadcast_one_def has_room_def)
  show "hub_step demo_info 1 (demo_hub q (Some (m, [])) [] k) BroadcastNext (Some (demo_hub q None [] k))"
    using hub_turn_end [of "demo_hub q (Some (m, [])) [] k" m] by simp
  show "hub_step demo_info 1 (demo_hub q l [] []) (UserStart ''alice'' m demo_entries) (Some (demo_hub q l [] [UserCall ''alice'' m None demo_entries]))"
    using hub_user_start [of demo_entries "demo_hub q l [] []"] by (simp add: broadcast_to_user_def)
  show "hub_step demo_info 1 (demo_hub q l [] [UserCall ''alice'' m None demo_entries]) (CallNext 0)
     (Some (demo_hub q l [] [UserCall ''alice'' m (Some 2) []]))"
    using hub_call_next [of 0 "demo_hub q l [] [UserCall ''alice'' m None demo_entries]" demo_info 1]
    by (simp add: next_of_call_def set_call_def demo_info_def)
qed

lemmas run_on = hub_run.run_step

lemma demo_client_run:
  "hub_run demo_info 1 [Connect 2, Queued demo_message, BroadcastStart demo_message demo_entries, BroadcastNext]
     (demo_hub [demo_message] (Some (demo_message, [])) [] [])"
  using run_on [OF run_on [OF run_on [OF run_on [OF run_start demo_steps(1)] demo_steps(2)] demo_steps(3)] demo_steps(4)] by simp

lemma demo_full_run:
  "hub_run demo_info 1 [Connect 2, Queued demo_message, BroadcastStart demo_message demo_entries, BroadcastNext, BroadcastNext,
     Queued demo_message, BroadcastStart demo_message demo_entries, UserStart ''alice'' demo_message demo_entries, CallNext 0] demo_full"
  unfolding demo_full_def
  using run_on [OF run_on [OF run_on [OF run_on [OF run_on [OF demo_client_run demo_steps(5)] demo_steps(2)] demo_steps(3)]
    demo_steps(6)] demo_steps(7)] by simp

lemma demo_closed_run:
  "hub_run demo_info 1 [Connect 2, Queued demo_message, BroadcastStart demo_message demo_entries, BroadcastNext, BroadcastNext,
     Queued demo_message, BroadcastStart demo_message demo_entries, UserStart ''alice'' demo_message demo_entries, CallNext 0, BroadcastNext]
     demo_closed_queue"
proof -
  have inv: "hub_inv demo_info demo_full" by (rule hub_run_inv [OF demo_full_run demo_info_inj])
  have l: "hs_loop demo_full = Some (demo_message, (''xx'', 2) # [])" by (simp add: demo_full_def)
  have "\<not> has_room 1 2 demo_full" by (simp add: demo_full_def has_room_def)
  then have "hub_step demo_info 1 demo_full BroadcastNext (Some demo_closed_queue)"
    using hub_turn [OF l, of demo_info 1] broadcast_turn(1) [OF demo_info_inj inv l, of 1] by (simp add: demo_closed_queue_def)
  from run_on [OF demo_full_run this] show ?thesis by simp
qed

theorem hub_panics_exactly_witness:
  "hub_step demo_info 1 demo_full BroadcastNext None \<and> hub_step demo_info 1 demo_closed_queue (CallNext 0) None
   \<and> hub_step demo_info 1 demo_closed_queue (Incoming 2 \<lparr>wm_type = ''ping'', wm_data = Map.empty, wm_timestamp = 0\<rparr> 0) None"
  unfolding hub_panics_exactly [OF demo_info_inj demo_full_run] hub_panics_exactly [OF demo_info_inj demo_closed_run]
  by (simp add: demo_closed_queue_def drop_client_def demo_full_def has_room_def)

theorem registered_client_misses_nothing_witness:
  "\<exists>st. st = demo_hub [demo_message] (Some (demo_message, [])) [] [] \<and> \<not> wq_closed (hs_queue st 2)
   \<and> subseq (broadcasts_since 2 [Connect 2, Queued demo_message, BroadcastStart demo_message demo_entries, BroadcastNext])
       (hs_sent st 2 @ hs_lost st 2 @ frame_of (hs_writer st 2) @ wq_queued (hs_queue st 2) @ still_to_queue 2 st)"
  using registered_client_misses_nothing [OF demo_info_inj demo_client_run, of "''xx''" 2] by auto

end
