(* ===== verification/GatewayDemo.thy ===== *)
theory GatewayDemo
  imports GatewayClaims GatewayHubFacts BillingDemo
begin

text \<open>The gateway's properties at concrete requests.\<close>

section \<open>A job\<close>

definition demo_claims :: gw_claims where
  "demo_claims = \<lparr>gc_user_id = ''u'', gc_username = ''bob'', gc_role = ''user'', gc_expires_at = hour, gc_issued_at = 0, gc_not_before = 0,
     gc_subject = ''u''\<rparr>"

definition demo_submission :: submit_request where
  "demo_submission = \<lparr>sq_type = ''train'', sq_name = ''n'', sq_description = [], sq_gpu_type = [], sq_gpu_count = 2, sq_min_vram = 0,
     sq_min_power = 0, sq_priority = 0, sq_params = [(''image'', JString ''x'')], sq_tags = [], sq_user_id = []\<rparr>"

theorem submitted_job_loses_user_witness:
  "\<exists>msg j. snd (submit_job (Some demo_claims) ''job-1'' True (Inr demo_submission)) = [(''jobs.submitted'', msg)]
     \<and> decode_job (\<lambda>_. None) msg = Inr j \<and> j_gpu_count j = 2 \<and> j_user_id j = []"
proof -
  have s: "submit_job (Some demo_claims) ''job-1'' True (Inr demo_submission) =
      (JobAccepted 202 \<lparr>ja_job_id = ''job-1'', ja_status = ''queued'', ja_message = ''Job submitted successfully''\<rparr>,
       snd (submit_job (Some demo_claims) ''job-1'' True (Inr demo_submission)))"
    by (simp add: submit_job_def demo_submission_def)
  have "- (2 ^ 63) \<le> sq_gpu_count demo_submission" "sq_gpu_count demo_submission < 2 ^ 63"
    "- (2 ^ 63) \<le> sq_priority demo_submission" "sq_priority demo_submission < 2 ^ 63" "sq_gpu_count demo_submission = 2"
    by (simp_all add: demo_submission_def)
  with submitted_job_loses_user [OF s, of "\<lambda>_. None"] show ?thesis by auto
qed

section \<open>A withdrawal\<close>

text \<open>Wallet 1, read with the identifier's own text; one token that is valid; one instance of the billing service.\<close>

definition demo_parse :: "string \<Rightarrow> string + uuid" where
  "demo_parse s = (if s = uuid_text 1 then Inr 1 else Inl ''invalid UUID'')"

definition demo_decoders :: gw_decoders where
  "demo_decoders = \<lparr>gd_wallet = (\<lambda>_. Inl ''json''), gd_deposit = (\<lambda>_. Inl ''json''), gd_withdrawal = (\<lambda>_. Inr demo_withdrawal),
     gd_pricing = Inr \<circ> (\<lambda>_. []), gd_estimate = (\<lambda>_. Inl ''json''), gd_query = (\<lambda>_. [])\<rparr>"

definition demo_library :: gw_jwt where
  "demo_library = \<lparr>gj_sign = (\<lambda>k c. Inr ''tok''), gj_parse = (\<lambda>now k t. if t = ''tok'' then Inr demo_claims else Inl ''invalid'')\<rparr>"

definition demo_gateway :: gw_config where
  "demo_gateway = \<lparr>gg_jwt_secret = ''k'', gg_auth_url = ''http://auth'', gg_billing_url = ''http://billing'', gg_scheduler_url = [],
     gg_gpu_url = [], gg_origins = []\<rparr>"

definition demo_instance :: balanced_service where
  "demo_instance = \<lparr>sn_id = ''b1'', sn_address = ''10.0.0.1'', sn_node_address = [], sn_port = 8080, sn_meta = Map.empty, sn_tags = []\<rparr>"

definition demo_gw_env :: gw_env where
  "demo_gw_env = \<lparr>ge_url_ok = (\<lambda>_. True), ge_upstream = (\<lambda>_. Inl ''refused''), ge_discover = (\<lambda>_. Inr [demo_instance]),
     ge_proxied = (\<lambda>t o1. (200, [])), ge_now = 0\<rparr>"

definition demo_gw_request :: "string \<Rightarrow> string \<Rightarrow> gw_request" where
  "demo_gw_request path auth = \<lparr>gq_method = ''POST'', gq_path = path, gq_content_type = [], gq_authorization = auth, gq_origin = [], gq_body = []\<rparr>"

lemma demo_token: "authenticator demo_library ''k'' demo_gw_env ''Bearer tok'' = Inr demo_claims"
  using bearer_part_token [of "''tok''"] by (simp add: authenticator_def gw_validate_jwt_def demo_library_def)

lemma demo_refused: "authenticator demo_library ''k'' demo_gw_env [] = Inl (GwError 401 ''Authorization header required'')"
  by (simp add: authenticator_def)

theorem round_robin_fair_witness:
  "mset (fst (next_instances (\<lambda>_. True) (3 * length [demo_instance, demo_instance\<lparr>sn_port := 8081\<rparr>])
       [demo_instance, demo_instance\<lparr>sn_port := 8081\<rparr>] 7)) =
     repeat_mset 3 (mset (map (chosen_target (\<lambda>_. True)) [demo_instance, demo_instance\<lparr>sn_port := 8081\<rparr>]))"
  using round_robin_fair [of "[demo_instance, demo_instance\<lparr>sn_port := 8081\<rparr>]" 7 3 "\<lambda>_. True"] by simp

abbreviation demo_billing :: "string \<Rightarrow> billing_state billing_http" where
  "demo_billing base \<equiv> billing_server demo_parse (\<lambda>_. Inl ''json'') (\<lambda>m segs b st. (Inr (404, None), st)) demo_env (demo_service None) base"


theorem proxy_bypasses_guard_witness:
  "\<exists>t st o1. process_withdrawal demo_env (demo_service None) demo_withdrawal demo_state = (Inr t, st) \<and>
     fst (serve_proxy demo_gw_env ''billing'' (demo_gw_request (''/services/billing/api/v1/wallet/'' @ uuid_text 1 @ ''/withdraw'') []) 0)
       = (GwRelay 200 [], [o1]) \<and>
     demo_billing (target_text (service_target demo_instance)) (og_method o1) (og_url o1) (WithdrawBody demo_withdrawal) demo_state =
       (Inr (200, Some (TransactionPay t)), st)"
proof -
  obtain t st where r: "process_withdrawal demo_env (demo_service None) demo_withdrawal demo_state = (Inr t, st)"
    using demo_withdraws by blast
  have w: "demo_withdrawal\<lparr>wr_wallet_id := 1\<rparr> = demo_withdrawal" by (simp add: demo_withdrawal_def)
  let ?r = "demo_gw_request (''/services/billing/api/v1/wallet/'' @ uuid_text 1 @ ''/withdraw'') []"
  have h: "CHR ''/'' \<notin> set ''billing''" "''billing'' \<noteq> []" "ge_discover demo_gw_env ''billing'' = Inr [demo_instance]"
    "[demo_instance] \<noteq> []" "\<And>u. ge_url_ok demo_gw_env u" "gq_method ?r = ''POST''"
    "gq_path ?r = ''/services/'' @ ''billing'' @ ''/api/v1/wallet/'' @ uuid_text 1 @ ''/withdraw''"
    "gq_authorization ?r = []" "demo_parse (uuid_text 1) = Inr 1"
    by (simp_all add: demo_gw_env_def demo_gw_request_def demo_parse_def)
  have p: "ge_proxied demo_gw_env x y = (200, [])" for x y by (simp add: demo_gw_env_def)
  obtain o1 code body where "fst (serve_proxy demo_gw_env ''billing'' ?r 0) = (GwRelay code body, [o1])"
    "demo_billing (target_text (service_target demo_instance)) (og_method o1) (og_url o1) (WithdrawBody demo_withdrawal) demo_state =
       (Inr (200, Some (TransactionPay t)), st)"
    using proxy_bypasses_guard [where i = 1 and parse = demo_parse and n = 0 and decode = "\<lambda>_. Inl ''json''" and other = "\<lambda>m segs b st. (Inr (404, None), st)" and benv = demo_env
        and sv = "demo_service None" and req = demo_withdrawal and st = demo_state, OF h]
    by (auto simp: r w withdrawal_answer_def)
  moreover from this(1) have "code = 200 \<and> body = []" using h by (auto simp: serve_proxy_def p Let_def split: if_splits sum.splits prod.splits)
  ultimately show ?thesis using r by auto
qed

theorem estimates_never_answered_witness:
  "\<exists>code what. gateway_billing demo_library demo_gateway demo_gw_env demo_parse demo_decoders (demo_billing ''http://billing'')
      (demo_gw_request ''/api/v1/billing/pricing/calculate'' ''Bearer tok'') demo_state = Some (ReplyError code what, demo_state) \<and> code \<in> {400, 401, 500}"
proof -
  have h: "gq_method (demo_gw_request ''/api/v1/billing/pricing/calculate'' ''Bearer tok'') = ''POST''"
    "gq_path (demo_gw_request ''/api/v1/billing/pricing/calculate'' ''Bearer tok'') \<in> {''/api/v1/billing/pricing/estimate'', ''/api/v1/billing/pricing/calculate''}"
    by (simp_all add: demo_gw_request_def)
  have g: "gg_billing_url demo_gateway = ''http://billing''" by (simp add: demo_gateway_def)
  show ?thesis using estimates_never_answered [OF h, where cfg = demo_gateway] unfolding g by blast
qed

end
