(* ===== verification/GoPath.thy ===== *)
theory GoPath
  imports GoText
begin

text \<open>
  Lexical paths (\<open>path/filepath\<close>) and \<open>strings.Split\<close> with a longer separator, as the daemon uses them: \<open>Clean\<close> drops empty
  and dot segments and resolves a double dot against the segment before it.
\<close>

section \<open>Splitting by a string\<close>

fun split_skip :: "string \<Rightarrow> nat \<Rightarrow> string \<Rightarrow> string list" where
  "split_skip sep k [] = [[]]"
| "split_skip sep (Suc k) (c # s) = split_skip sep k s"
| "split_skip sep 0 (c # s) =
     (if prefix sep (c # s) then [] # split_skip sep (length sep - 1) s
      else case split_skip sep 0 s of [] \<Rightarrow> [[c]] | p # ps \<Rightarrow> (c # p) # ps)"

definition split_str :: "string \<Rightarrow> string \<Rightarrow> string list" where
  "split_str sep s = split_skip sep 0 s"

lemma split_skip_nonempty [simp]: "split_skip sep k s \<noteq> []"
  by (induction sep k s rule: split_skip.induct) (auto split: list.split)

lemma split_skip_drop: "split_skip sep k s = split_skip sep 0 (drop k s)"
  by (induction sep k s rule: split_skip.induct) (auto split: list.split)

lemma split_str_sep: "sep \<noteq> [] \<Longrightarrow> split_str sep (sep @ s) = [] # split_str sep s"
  by (cases sep) (simp_all add: split_str_def split_skip_drop [of _ "length _"])

text \<open>A part that does not hold the separator's first character is found as it is.\<close>

lemma split_str_part:
  "CHR '','' \<notin> set p \<Longrightarrow> split_str '', '' (p @ '', '' @ s) = p # split_str '', '' s"
proof (induction p)
  case Nil
  then show ?case using split_str_sep [of "'', ''" s] by simp
next
  case (Cons c p)
  then have "split_skip '', '' 0 (p @ '', '' @ s) = p # split_str '', '' s" by (simp add: split_str_def)
  moreover have "\<not> prefix '', '' (c # p @ '', '' @ s)" using Cons.prems by auto
  ultimately show ?case by (simp add: split_str_def)
qed

lemma split_str_none: "CHR '','' \<notin> set p \<Longrightarrow> split_str '', '' p = [p]"
  by (induction p) (auto simp: split_str_def)

section \<open>Paths\<close>

fun clean_segments :: "bool \<Rightarrow> string list \<Rightarrow> string list \<Rightarrow> string list" where
  "clean_segments rooted acc [] = rev acc"
| "clean_segments rooted acc (s # ss) =
     (if s = [] \<or> s = ''.'' then clean_segments rooted acc ss
      else if s \<noteq> ''..'' then clean_segments rooted (s # acc) ss
      else case acc of
        [] \<Rightarrow> clean_segments rooted (if rooted then [] else [s]) ss
      | a # as \<Rightarrow> clean_segments rooted (if a = ''..'' then s # acc else as) ss)"

definition clean_path :: "string \<Rightarrow> string" where
  "clean_path p =
     (let rooted = (take 1 p = ''/'');
          body = join_with ''/'' (clean_segments rooted [] (split_char CHR ''/'' p));
          t = (if rooted then ''/'' else []) @ body
      in if t = [] then ''.'' else t)"

definition path_join :: "string list \<Rightarrow> string" where
  "path_join ps = (let qs = filter (\<lambda>p. p \<noteq> []) ps in if qs = [] then [] else clean_path (join_with ''/'' qs))"

text \<open>Names: segments that stay as they are.\<close>

definition plain_segment :: "string \<Rightarrow> bool" where
  "plain_segment s \<longleftrightarrow> s \<noteq> [] \<and> s \<noteq> ''.'' \<and> s \<noteq> ''..'' \<and> CHR ''/'' \<notin> set s"

definition absolute :: "string list \<Rightarrow> string" where
  "absolute ss = ''/'' @ join_with ''/'' ss"

definition climb :: "nat \<Rightarrow> string list \<Rightarrow> string" where
  "climb n ss = join_with ''/'' (replicate n ''..'' @ ss)"

lemma clean_segments_plain:
  "\<forall>s \<in> set ss. plain_segment s \<Longrightarrow> clean_segments r acc (ss @ rest) = clean_segments r (rev ss @ acc) rest"
  by (induction ss arbitrary: acc) (auto simp: plain_segment_def)

lemma clean_segments_climb:
  "\<forall>s \<in> set acc. plain_segment s \<Longrightarrow> length acc \<le> n \<Longrightarrow>
   clean_segments True acc (replicate n ''..'' @ rest) = clean_segments True [] rest"
proof (induction n arbitrary: acc)
  case (Suc n)
  then show ?case by (cases acc) (auto simp: plain_segment_def)
qed simp

lemma join_with_append:
  "xs \<noteq> [] \<Longrightarrow> ys \<noteq> [] \<Longrightarrow> join_with sep (xs @ ys) = join_with sep xs @ sep @ join_with sep ys"
proof (induction sep xs rule: join_with.induct)
  case (2 sep x)
  then show ?case by (cases ys) auto
qed auto

lemma join_with_Cons: "join_with sep (x # xs) = x @ (if xs = [] then [] else sep @ join_with sep xs)"
  by (cases xs) auto

lemma climb_nonempty:
  assumes "\<forall>s \<in> set target. plain_segment s" "target \<noteq> []"
  shows "climb n target \<noteq> []"
proof (cases n)
  case 0
  then show ?thesis using assms by (cases target) (auto simp: climb_def join_with_Cons plain_segment_def)
next
  case (Suc m)
  then show ?thesis by (simp add: climb_def join_with_Cons)
qed

lemma split_absolute:
  assumes "\<forall>s \<in> set ss. CHR ''/'' \<notin> set s" "ss \<noteq> []"
  shows "split_char CHR ''/'' (absolute ss) = [] # ss"
  using split_char_join [OF assms(2,1)] split_char_first [of "CHR ''/''" "[]" "join_with ''/'' ss"]
  by (simp add: absolute_def)

lemma plain_no_slash: "plain_segment s \<Longrightarrow> CHR ''/'' \<notin> set s"
  by (simp add: plain_segment_def)

lemma climb_no_slash:
  assumes "\<forall>s \<in> set dir. plain_segment s" "\<forall>s \<in> set target. plain_segment s"
  shows "\<forall>s \<in> set (dir @ replicate n ''..'' @ target). CHR ''/'' \<notin> set s"
proof
  fix s assume "s \<in> set (dir @ replicate n ''..'' @ target)"
  then consider "s \<in> set dir" | "s = ''..''" | "s \<in> set target" by fastforce
  then show "CHR ''/'' \<notin> set s"
  proof cases
    case 2
    then show ?thesis by simp
  qed (use assms plain_no_slash in blast)+
qed

text \<open>Enough double dots lead from any directory to any file.\<close>

lemma path_join_climb:
  assumes "\<forall>s \<in> set dir. plain_segment s" "\<forall>s \<in> set target. plain_segment s" "target \<noteq> []" "dir \<noteq> []" "length dir \<le> n"
  shows "path_join [absolute dir, climb n target] = absolute target"
proof -
  let ?ss = "dir @ replicate n ''..'' @ target"
  have n: "replicate n ''..'' @ target \<noteq> []" using assms(3) by simp
  have slash: "\<forall>s \<in> set ?ss. CHR ''/'' \<notin> set s" by (rule climb_no_slash [OF assms(1,2)])
  have "climb n target \<noteq> []" by (rule climb_nonempty [OF assms(2,3)])
  then have "path_join [absolute dir, climb n target] = clean_path (absolute dir @ ''/'' @ climb n target)"
    by (simp add: path_join_def absolute_def)
  also have "absolute dir @ ''/'' @ climb n target = absolute ?ss"
    using join_with_append [OF assms(4) n, of "''/''"] by (simp add: absolute_def climb_def)
  also have "clean_path (absolute ?ss) = ''/'' @ join_with ''/'' (clean_segments True [] ([] # ?ss))"
    using split_absolute [OF slash] assms(4) by (simp add: clean_path_def Let_def absolute_def)
  also have "clean_segments True [] ([] # ?ss) = clean_segments True (rev dir) (replicate n ''..'' @ target)"
    using clean_segments_plain [OF assms(1), of True "[]" "replicate n ''..'' @ target"] by simp
  also have "\<dots> = clean_segments True [] target"
    using assms(1,5) by (intro clean_segments_climb) auto
  also have "\<dots> = target" using clean_segments_plain [OF assms(2), of True "[]" "[]"] by simp
  finally show ?thesis by (simp add: absolute_def)
qed

lemma path_join_plain:
  assumes "\<forall>s \<in> set dir. plain_segment s" "plain_segment f" "dir \<noteq> []"
  shows "path_join [absolute dir, f] = absolute (dir @ [f])"
proof -
  have "\<forall>s \<in> set (dir @ [f]). CHR ''/'' \<notin> set s" using assms(1,2) plain_no_slash by auto
  then have "clean_path (absolute (dir @ [f])) = ''/'' @ join_with ''/'' (clean_segments True [] ([] # dir @ [f]))"
    using split_absolute [of "dir @ [f]"] by (simp add: clean_path_def Let_def absolute_def)
  moreover have "clean_segments True [] ([] # dir @ [f]) = dir @ [f]"
    using clean_segments_plain [of "dir @ [f]" True "[]" "[]"] assms(1,2) by simp
  moreover have "path_join [absolute dir, f] = clean_path (absolute (dir @ [f]))"
    using assms(2) join_with_append [OF assms(3), of "[f]" "''/''"] by (simp add: path_join_def absolute_def plain_segment_def)
  ultimately show ?thesis by (simp add: absolute_def)
qed

end
