(* ===== verification/DaemonGpu.thy ===== *)
theory DaemonGpu
  imports GoPath
begin

text \<open>
  GPU detection and health of the provider daemon (\<open>provider-daemon/internal/gpu/detector.go\<close>, \<open>health.go\<close>) and the
  metrics it gives the billing monitor (\<open>cmd/daemon/main.go\<close>). The outputs of the vendors' tools are fields of the environment; maps
  are lists in the order Go enumerates them; how a text parses as a floating-point number is an argument.
\<close>

section \<open>Data\<close>

record detected_gpu =
  dg_id :: string
  dg_name :: string
  dg_vendor :: string
  dg_model :: string
  dg_vram_total :: u64
  dg_vram_free :: u64
  dg_vram_used :: u64
  dg_power_draw :: u32
  dg_power_limit :: u32
  dg_temperature :: u8
  dg_utilization :: u8
  dg_driver :: string
  dg_cuda :: string
  dg_capability :: string
  dg_pci_bus :: string
  dg_available :: bool

record gpu_reading =
  gm_id :: string
  gm_timestamp :: time
  gm_utilization :: u8
  gm_vram_used :: u64
  gm_vram_total :: u64
  gm_power_draw :: u32
  gm_temperature :: u8
  gm_fan_speed :: u8
  gm_clock_core :: u32
  gm_clock_memory :: u32

record intel_card =
  ic_name :: string
  ic_vendor :: "string option"
  ic_device :: "string option"
  ic_lmem :: "string option"

record detector_env =
  dv_path :: string
  dv_available :: "string \<Rightarrow> bool"
  dv_nvidia_query :: "string \<Rightarrow> string option"
  dv_nvidia_readings :: "string \<Rightarrow> string option"
  dv_cuda :: "string \<Rightarrow> string option"
  dv_rocm :: "string + (string \<times> (string \<times> json) list) list"
  dv_os :: string
  dv_profiler :: "string + (string \<times> json) list"
  dv_memsize :: "string option"
  dv_ioreg :: "string option"
  dv_intel :: "intel_card list"
  dv_float :: "nat \<Rightarrow> string \<Rightarrow> rat option"
  dv_show :: "json \<Rightarrow> string"
  dv_now :: time

definition no_gpu :: detected_gpu where
  "no_gpu = \<lparr>dg_id = [], dg_name = [], dg_vendor = [], dg_model = [], dg_vram_total = 0, dg_vram_free = 0, dg_vram_used = 0,
     dg_power_draw = 0, dg_power_limit = 0, dg_temperature = 0, dg_utilization = 0, dg_driver = [], dg_cuda = [], dg_capability = [],
     dg_pci_bus = [], dg_available = False\<rparr>"

definition no_reading :: "time \<Rightarrow> gpu_reading" where
  "no_reading t = \<lparr>gm_id = [], gm_timestamp = t, gm_utilization = 0, gm_vram_used = 0, gm_vram_total = 0, gm_power_draw = 0,
     gm_temperature = 0, gm_fan_speed = 0, gm_clock_core = 0, gm_clock_memory = 0\<rparr>"

text \<open>The conversion of a floating-point number to an integer drops the fraction.\<close>

definition truncated :: "rat \<Rightarrow> int" where
  "truncated q = (if q < 0 then - \<lfloor>- q\<rfloor> else \<lfloor>q\<rfloor>)"

section \<open>NVIDIA\<close>

text \<open>A field that is no number within the width, \<open>[N/A]\<close> among them, leaves zero.\<close>

definition nvidia_uint :: "nat \<Rightarrow> string \<Rightarrow> nat" where
  "nvidia_uint bits f = (case parse_uint bits (trim_space f) of None \<Rightarrow> 0 | Some n \<Rightarrow> n)"

definition nvidia_watts :: "detector_env \<Rightarrow> string \<Rightarrow> u32" where
  "nvidia_watts env f =
     (if trim_space f = ''[N/A]'' then 0
      else case dv_float env 32 (trim_space f) of None \<Rightarrow> 0 | Some q \<Rightarrow> of_int (truncated q))"

definition nvidia_id :: "string \<Rightarrow> string" where
  "nvidia_id f = (if trim_space f = [] then [] else ''nvidia-'' @ trim_space f)"

definition nvidia_command :: "detector_env \<Rightarrow> string" where
  "nvidia_command env = (if dv_path env = [] then ''nvidia-smi'' else dv_path env)"

definition cuda_version :: "detector_env \<Rightarrow> string option" where
  "cuda_version env = map_option trim_space (dv_cuda env (nvidia_command env))"

definition compute_capability :: "string \<Rightarrow> string" where
  "compute_capability gpu_id = ''8.6''"

definition nvidia_line :: "detector_env \<Rightarrow> string \<Rightarrow> detected_gpu option" where
  "nvidia_line env line =
     (let f = split_str '', '' line in
      if length f < 11 then None
      else Some \<lparr>dg_id = nvidia_id (f ! 0), dg_name = trim_space (f ! 1), dg_vendor = ''NVIDIA'', dg_model = trim_space (f ! 1),
        dg_vram_total = of_nat (nvidia_uint 64 (f ! 2)), dg_vram_free = of_nat (nvidia_uint 64 (f ! 3)),
        dg_vram_used = of_nat (nvidia_uint 64 (f ! 4)), dg_power_draw = nvidia_watts env (f ! 5), dg_power_limit = nvidia_watts env (f ! 6),
        dg_temperature = of_nat (nvidia_uint 8 (f ! 7)), dg_utilization = of_nat (nvidia_uint 8 (f ! 8)),
        dg_driver = trim_space (f ! 9), dg_cuda = (case cuda_version env of None \<Rightarrow> [] | Some v \<Rightarrow> v),
        dg_capability = compute_capability (nvidia_id (f ! 0)), dg_pci_bus = trim_space (f ! 10), dg_available = True\<rparr>)"

definition output_lines :: "string \<Rightarrow> string list" where
  "output_lines out = filter (\<lambda>l. l \<noteq> []) (split_char (char_of (10 :: nat)) (trim_space out))"

definition detect_nvidia :: "detector_env \<Rightarrow> string + detected_gpu list" where
  "detect_nvidia env =
     (if \<not> dv_available env (nvidia_command env) then Inl ''nvidia-smi command not found''
      else case dv_nvidia_query env (nvidia_command env) of
        None \<Rightarrow> Inl (''failed to run '' @ nvidia_command env)
      | Some out \<Rightarrow> Inr (List.map_filter (nvidia_line env) (output_lines out)))"

definition nvidia_reading :: "detector_env \<Rightarrow> string \<Rightarrow> gpu_reading option" where
  "nvidia_reading env line =
     (let f = split_str '', '' line in
      if length f < 9 then None
      else Some \<lparr>gm_id = nvidia_id (f ! 0), gm_timestamp = dv_now env, gm_utilization = of_nat (nvidia_uint 8 (f ! 1)),
        gm_vram_used = of_nat (nvidia_uint 64 (f ! 2)), gm_vram_total = of_nat (nvidia_uint 64 (f ! 3)),
        gm_power_draw = nvidia_watts env (f ! 4), gm_temperature = of_nat (nvidia_uint 8 (f ! 5)),
        gm_fan_speed = of_nat (nvidia_uint 8 (f ! 6)), gm_clock_core = of_nat (nvidia_uint 32 (f ! 7)),
        gm_clock_memory = of_nat (nvidia_uint 32 (f ! 8))\<rparr>)"

definition nvidia_readings :: "detector_env \<Rightarrow> string + gpu_reading list" where
  "nvidia_readings env =
     (if \<not> dv_available env (nvidia_command env) then Inl ''nvidia-smi not available''
      else case dv_nvidia_readings env (nvidia_command env) of
        None \<Rightarrow> Inl ''nvidia-smi failed''
      | Some out \<Rightarrow> Inr (List.map_filter (nvidia_reading env) (output_lines out)))"

section \<open>AMD\<close>

definition rocm_cards :: "detector_env \<Rightarrow> string + (string \<times> (string \<times> json) list) list" where
  "rocm_cards env =
     (case dv_rocm env of Inl e \<Rightarrow> Inl e | Inr cs \<Rightarrow> Inr (filter (\<lambda>(k, v). prefix ''card'' (to_lower k)) cs))"

definition amd_field :: "detector_env \<Rightarrow> (string \<times> json) list \<Rightarrow> string list \<Rightarrow> string" where
  "amd_field env fs subs =
     (case find (\<lambda>(k, v). list_ex (\<lambda>s. str_contains (to_lower k) (to_lower s)) subs) fs of
        None \<Rightarrow> [] | Some (k, v) \<Rightarrow> trim_space (dv_show env v))"

definition amd_mb :: "detector_env \<Rightarrow> string \<Rightarrow> u64" where
  "amd_mb env s =
     (if s = [] then 0 else case dv_float env 64 (trim_space s) of None \<Rightarrow> 0 | Some q \<Rightarrow> of_int (truncated (q / (1024 * 1024))))"

definition amd_float :: "detector_env \<Rightarrow> string \<Rightarrow> rat" where
  "amd_float env s = (if s = [] then 0 else case dv_float env 64 (trim_space s) of None \<Rightarrow> 0 | Some q \<Rightarrow> q)"

definition amd_id :: "string \<Rightarrow> string" where
  "amd_id k = ''amd-'' @ (if prefix ''card'' (to_lower k) then drop 4 (to_lower k) else to_lower k)"

definition amd_gpu :: "detector_env \<Rightarrow> string \<times> (string \<times> json) list \<Rightarrow> detected_gpu" where
  "amd_gpu env crd =
     (let fs = snd crd; get = amd_field env fs;
          name = (let n = get [''Device Name'', ''Card series'', ''Card model'', ''Card SKU''] in if n = [] then ''AMD GPU'' else n);
          total = amd_mb env (get [''VRAM Total Memory'']); used = amd_mb env (get [''VRAM Total Used Memory''])
      in no_gpu\<lparr>dg_id := amd_id (fst crd), dg_vendor := ''AMD'', dg_name := name, dg_model := name, dg_available := True,
           dg_pci_bus := get [''PCI Bus'', ''GPU ID''], dg_vram_total := total, dg_vram_used := used,
           dg_vram_free := (if used \<le> total then total - used else 0),
           dg_temperature := of_int (truncated (amd_float env (get [''Temperature (Sensor edge)'', ''Temperature (Sensor junction)'', ''Temperature'']))),
           dg_power_draw := of_int (truncated (amd_float env
             (get [''Average Graphics Package Power'', ''Current Socket Graphics Package Power'', ''Power'']))),
           dg_utilization := of_int (truncated (amd_float env (get [''GPU use (%)'', ''GPU use''])))\<rparr>)"

definition detect_amd :: "detector_env \<Rightarrow> string + detected_gpu list" where
  "detect_amd env =
     (if \<not> dv_available env ''rocm-smi'' then Inl ''rocm-smi not found''
      else case rocm_cards env of Inl e \<Rightarrow> Inl e | Inr cs \<Rightarrow> Inr (map (amd_gpu env) cs))"

definition amd_reading :: "detector_env \<Rightarrow> string \<times> (string \<times> json) list \<Rightarrow> gpu_reading" where
  "amd_reading env crd =
     (let get = amd_field env (snd crd) in
      (no_reading (dv_now env))\<lparr>gm_id := amd_id (fst crd),
        gm_utilization := of_int (truncated (amd_float env (get [''GPU use (%)'', ''GPU use'']))),
        gm_vram_used := amd_mb env (get [''VRAM Total Used Memory'']), gm_vram_total := amd_mb env (get [''VRAM Total Memory'']),
        gm_power_draw := of_int (truncated (amd_float env (get [''Average Graphics Package Power'', ''Power'']))),
        gm_temperature := of_int (truncated (amd_float env (get [''Temperature (Sensor edge)'', ''Temperature''])))\<rparr>)"

definition amd_readings :: "detector_env \<Rightarrow> string + gpu_reading list" where
  "amd_readings env =
     (if \<not> dv_available env ''rocm-smi'' then Inr []
      else case rocm_cards env of Inl e \<Rightarrow> Inl e | Inr cs \<Rightarrow> Inr (map (amd_reading env) cs))"

section \<open>Apple and Intel\<close>

definition unified_memory_mb :: "detector_env \<Rightarrow> u64" where
  "unified_memory_mb env =
     (case dv_memsize env of None \<Rightarrow> 0
      | Some out \<Rightarrow> (case parse_uint 64 (trim_space out) of None \<Rightarrow> 0 | Some n \<Rightarrow> of_nat (n div (1024 * 1024))))"

definition estimate_vram_by_name :: "string \<Rightarrow> u64" where
  "estimate_vram_by_name name =
     (let size = (\<lambda>(ultra :: u64) max_mb plain. if str_contains name ''Ultra'' then ultra * 1024
          else if str_contains name ''Max'' then max_mb * 1024 else plain * 1024)
      in if str_contains name ''M1'' then size 128 64 16
         else if str_contains name ''M2'' then size 192 96 24
         else if str_contains name ''M3'' \<or> str_contains name ''M4'' then size 256 128 32
         else 16 * 1024)"

definition apple_gpu :: "detector_env \<Rightarrow> nat \<Rightarrow> json \<Rightarrow> detected_gpu option" where
  "apple_gpu env i d =
     (case d of
        JObject fs \<Rightarrow>
          (let name = (case map_of (rev fs) ''_name'' of Some (JString s) \<Rightarrow> s | _ \<Rightarrow> []);
               vram = (if unified_memory_mb env > 0 then unified_memory_mb env else estimate_vram_by_name name)
           in Some (no_gpu\<lparr>dg_id := ''apple-'' @ nat_text i, dg_vendor := ''Apple'', dg_available := True, dg_name := name, dg_model := name,
                dg_vram_total := vram, dg_vram_free := vram\<rparr>))
      | _ \<Rightarrow> None)"

definition detect_apple :: "detector_env \<Rightarrow> string + detected_gpu list" where
  "detect_apple env =
     (if dv_os env \<noteq> ''darwin'' then Inl ''Apple GPU detection only supported on macOS''
      else case dv_profiler env of
        Inl e \<Rightarrow> Inl e
      | Inr d \<Rightarrow>
          (case map_of (rev d) ''SPDisplaysDataType'' of
             Some (JArray ds) \<Rightarrow> Inr (List.map_filter (\<lambda>(i, x). apple_gpu env i x) (zip [0..<length ds] ds))
           | _ \<Rightarrow> Inr []))"

fun after_marker :: "string \<Rightarrow> string \<Rightarrow> string option" where
  "after_marker m [] = (if m = [] then Some [] else None)"
| "after_marker m (c # s) = (if prefix m (c # s) then Some (drop (length m) (c # s)) else after_marker m s)"

text \<open>\<open>None\<close> is the code's -1.\<close>

definition ioreg_number :: "detector_env \<Rightarrow> string \<Rightarrow> string \<Rightarrow> rat option" where
  "ioreg_number env t marker =
     (case after_marker marker t of None \<Rightarrow> None
      | Some rest \<Rightarrow>
          (let ds = takeWhile (\<lambda>c. digit_value c \<noteq> None \<or> c = CHR ''.'') rest in
           if ds = [] then None else dv_float env 64 ds))"

definition quoted :: "string \<Rightarrow> string" where
  "quoted s = [char_of (34 :: nat)] @ s @ [char_of (34 :: nat)] @ ''=''"

definition apple_readings :: "detector_env \<Rightarrow> gpu_reading list" where
  "apple_readings env =
     (if dv_os env \<noteq> ''darwin'' then []
      else case dv_ioreg env of None \<Rightarrow> []
      | Some t \<Rightarrow>
          (let m = (no_reading (dv_now env))\<lparr>gm_id := ''apple-0''\<rparr>;
               m = (case ioreg_number env t (quoted ''Device Utilization %'') of None \<Rightarrow> m
                    | Some v \<Rightarrow> m\<lparr>gm_utilization := of_int (truncated v)\<rparr>);
               m = (case ioreg_number env t (quoted ''In use system memory'') of None \<Rightarrow> m
                    | Some v \<Rightarrow> m\<lparr>gm_vram_used := of_int (truncated v) div (1024 * 1024)\<rparr>)
           in [m]))"

definition intel_gpu :: "intel_card \<Rightarrow> detected_gpu option" where
  "intel_gpu c =
     (if map_option trim_space (ic_vendor c) \<noteq> Some ''0x8086'' then None
      else (let name = (case ic_device c of None \<Rightarrow> ''Intel GPU'' | Some d \<Rightarrow> ''Intel GPU '' @ trim_space d);
                vram = (case ic_lmem c of None \<Rightarrow> 0
                        | Some t \<Rightarrow> (case parse_uint 64 (trim_space t) of None \<Rightarrow> 0 | Some b \<Rightarrow> b div (1024 * 1024)))
            in Some (no_gpu\<lparr>dg_id := ''intel-'' @ (if prefix ''card'' (ic_name c) then drop 4 (ic_name c) else ic_name c),
                 dg_name := name, dg_model := name, dg_vendor := ''Intel'', dg_available := True, dg_vram_total := of_nat vram\<rparr>)))"

definition detect_intel :: "detector_env \<Rightarrow> string + detected_gpu list" where
  "detect_intel env =
     (if dv_os env \<noteq> ''linux'' then Inl ''Intel GPU sysfs detection only supported on Linux''
      else (let gs = List.map_filter intel_gpu (dv_intel env) in if gs = [] then Inl ''no Intel GPU found'' else Inr gs))"

section \<open>All GPUs\<close>

definition found :: "string + 'a list \<Rightarrow> 'a list" where
  "found r = (case r of Inl e \<Rightarrow> [] | Inr xs \<Rightarrow> xs)"

text \<open>A vendor whose detection fails is passed over: there is no error.\<close>

definition detect_gpus :: "detector_env \<Rightarrow> detected_gpu list" where
  "detect_gpus env =
     found (detect_nvidia env) @ found (detect_amd env) @ (if dv_os env = ''darwin'' then found (detect_apple env) else []) @ found (detect_intel env)"

definition get_metrics :: "detector_env \<Rightarrow> gpu_reading list" where
  "get_metrics env =
     found (nvidia_readings env) @ found (amd_readings env) @ (if dv_os env = ''darwin'' then apple_readings env else [])"

record billing_metrics =
  bm_utilization :: u8
  bm_vram_utilization :: u8
  bm_power_draw :: u32
  bm_temperature :: u8

definition billing_reading :: "gpu_reading \<Rightarrow> billing_metrics" where
  "billing_reading m =
     \<lparr>bm_utilization = gm_utilization m,
      bm_vram_utilization = (if gm_vram_total m > 0 then ucast (gm_vram_used m * 100 div gm_vram_total m) else 0),
      bm_power_draw = gm_power_draw m, bm_temperature = gm_temperature m\<rparr>"

definition metrics_provider :: "detector_env \<Rightarrow> string \<Rightarrow> string + billing_metrics" where
  "metrics_provider env gpu_id =
     (let ms = get_metrics env in
      if ms = [] then Inl ''no GPU metrics available''
      else Inr (billing_reading (case find (\<lambda>m. gm_id m = gpu_id) ms of None \<Rightarrow> ms ! 0 | Some m \<Rightarrow> m)))"

section \<open>Health\<close>

record health_monitor =
  hm_interval :: duration
  hm_threshold :: int
  hm_healthy :: bool
  hm_fails :: int
  hm_last_check :: time
  hm_gpu_count :: nat

definition new_health_monitor :: "duration \<Rightarrow> int \<Rightarrow> health_monitor" where
  "new_health_monitor interval threshold =
     \<lparr>hm_interval = (if interval \<le> 0 then 30 * second else interval), hm_threshold = (if threshold \<le> 0 then 3 else threshold),
      hm_healthy = True, hm_fails = 0, hm_last_check = 0, hm_gpu_count = 0\<rparr>"

definition check_health :: "detected_gpu list \<Rightarrow> time \<Rightarrow> health_monitor \<Rightarrow> health_monitor" where
  "check_health gpus now h =
     (let h = h\<lparr>hm_last_check := now\<rparr> in
      if gpus = [] then
        (let h = h\<lparr>hm_fails := hm_fails h + 1\<rparr> in
         if hm_healthy h \<and> hm_fails h \<ge> hm_threshold h then h\<lparr>hm_healthy := False\<rparr> else h)
      else h\<lparr>hm_gpu_count := length gpus, hm_healthy := True, hm_fails := 0\<rparr>)"

fun run_checks :: "(detected_gpu list \<times> time) list \<Rightarrow> health_monitor \<Rightarrow> health_monitor" where
  "run_checks [] h = h"
| "run_checks ((gpus, t) # cs) h = run_checks cs (check_health gpus t h)"

end
