(* ===== verification/DaemonGpuFacts.thy ===== *)
theory DaemonGpuFacts
  imports DaemonGpu
begin

text \<open>What the detector reads from a tool's line, which GPU the billing monitor reports, and when the daemon counts as offline.\<close>

section \<open>Health\<close>

definition failing :: "(detected_gpu list \<times> time) list \<Rightarrow> nat" where
  "failing cs = length (takeWhile (\<lambda>(gpus, t). gpus = []) (rev cs))"

lemma failing_snoc: "failing (cs @ [(gpus, t)]) = (if gpus = [] then Suc (failing cs) else 0)"
  by (simp add: failing_def)

lemma run_checks_append: "run_checks (cs @ ds) h = run_checks ds (run_checks cs h)"
  by (induction cs arbitrary: h) auto

lemma threshold_positive: "0 < hm_threshold (new_health_monitor i n)"
  by (simp add: new_health_monitor_def)

lemma run_checks_state:
  "hm_threshold (run_checks cs (new_health_monitor i n)) = hm_threshold (new_health_monitor i n)
   \<and> hm_fails (run_checks cs (new_health_monitor i n)) = int (failing cs)
   \<and> (hm_healthy (run_checks cs (new_health_monitor i n)) \<longleftrightarrow> int (failing cs) < hm_threshold (new_health_monitor i n))"
proof (induction cs rule: rev_induct)
  case Nil
  then show ?case using threshold_positive by (simp add: failing_def) (simp add: new_health_monitor_def)
next
  case (snoc c cs)
  obtain gpus t where c: "c = (gpus, t)" by (cases c)
  show ?case
    using snoc threshold_positive [of i n] unfolding c run_checks_append failing_snoc
    by (auto simp: check_health_def Let_def)
qed

text \<open>The daemon is offline exactly while the last checks, at least as many as the threshold says and no fewer than one, all found no GPU:
  one successful check brings it back, and fewer failures in a row never take it down.\<close>

theorem offline_exactly:
  "hm_healthy (run_checks cs (new_health_monitor i n)) \<longleftrightarrow>
     int (length (takeWhile (\<lambda>(gpus, t). gpus = []) (rev cs))) < (if n \<le> 0 then 3 else n)"
  using run_checks_state [of cs i n] by (simp add: failing_def new_health_monitor_def)

section \<open>A line of nvidia-smi\<close>

lemma trim_space_same: "\<forall>c \<in> set s. \<not> is_space c \<Longrightarrow> trim_space s = s"
proof -
  assume s: "\<forall>c \<in> set s. \<not> is_space c"
  have "dropWhile is_space t = t" if "\<forall>c \<in> set t. \<not> is_space c" for t using that by (cases t) auto
  from this [of s] this [of "rev s"] s show ?thesis by (simp add: trim_space_def)
qed

lemma digit_class: "d < 10 \<Longrightarrow> \<not> is_space (digit d) \<and> digit d \<noteq> CHR '',''"
proof
  assume d: "d < 10"
  have v: "(of_char (digit d) :: nat) = 48 + d" using d by (simp add: digit_def of_char_of)
  show "\<not> is_space (digit d)" using d by (simp add: is_space_def v)
  show "digit d \<noteq> CHR '',''"
  proof
    assume "digit d = CHR '',''"
    then have "(of_char (digit d) :: nat) = 44" by simp
    with v show False by simp
  qed
qed

lemma nat_text_class: "\<forall>c \<in> set (nat_text n). \<not> is_space c \<and> c \<noteq> CHR '',''"
proof (induction n rule: nat_text.induct)
  case (1 n)
  show ?case
  proof (cases "n < 10")
    case True
    then show ?thesis using digit_class [of n] by (simp add: nat_text.simps [of n])
  next
    case False
    then show ?thesis using 1 digit_class [of "n mod 10"] by (auto simp: nat_text.simps [of n])
  qed
qed

lemma trim_nat_text [simp]: "trim_space (nat_text n) = nat_text n"
  using nat_text_class by (intro trim_space_same) blast

lemma nvidia_uint_text: "n < 2 ^ bits \<Longrightarrow> nvidia_uint bits (nat_text n) = n"
  by (simp add: nvidia_uint_def parse_uint_nat_text)

lemma split_str_join:
  "xs \<noteq> [] \<Longrightarrow> \<forall>x \<in> set xs. CHR '','' \<notin> set x \<Longrightarrow> split_str '', '' (join_with '', '' xs) = xs"
proof (induction xs)
  case (Cons x xs)
  show ?case
  proof (cases xs)
    case Nil
    then show ?thesis using Cons.prems by (simp add: split_str_none)
  next
    case (Cons y ys)
    then have "join_with '', '' (x # xs) = x @ '', '' @ join_with '', '' xs" by simp
    then show ?thesis using Cons.IH Cons.prems Cons split_str_part [of x] by simp
  qed
qed simp

definition nvidia_text :: "nat \<Rightarrow> string \<Rightarrow> u64 \<Rightarrow> u64 \<Rightarrow> u64 \<Rightarrow> string \<Rightarrow> string \<Rightarrow> u8 \<Rightarrow> u8 \<Rightarrow> string \<Rightarrow> string \<Rightarrow> string" where
  "nvidia_text i name vram free used draw limit temp util driver bus = join_with '', ''
     [nat_text i, name, nat_text (unat vram), nat_text (unat free), nat_text (unat used), draw, limit,
      nat_text (unat temp), nat_text (unat util), driver, bus]"

definition clean_field :: "string \<Rightarrow> bool" where
  "clean_field s \<longleftrightarrow> trim_space s = s \<and> CHR '','' \<notin> set s"

text \<open>A line printed by nvidia-smi for a GPU is read back as that GPU: index, name, memory, temperature, load, driver and bus are the ones printed,
  the two power figures are cut to whole watts.\<close>

theorem nvidia_line_reads_back:
  assumes "clean_field name" "clean_field draw" "clean_field limit" "clean_field driver" "clean_field bus"
    "dv_float env 32 draw = Some p" "dv_float env 32 limit = Some l" "draw \<noteq> ''[N/A]''" "limit \<noteq> ''[N/A]''"
  shows "\<exists>g. nvidia_line env (nvidia_text i name vram free used draw limit temp util driver bus) = Some g
    \<and> dg_id g = ''nvidia-'' @ nat_text i \<and> dg_name g = name \<and> dg_model g = name \<and> dg_vendor g = ''NVIDIA'' \<and> dg_available g
    \<and> dg_vram_total g = vram \<and> dg_vram_free g = free \<and> dg_vram_used g = used \<and> dg_power_draw g = of_int (truncated p)
    \<and> dg_power_limit g = of_int (truncated l) \<and> dg_temperature g = temp \<and> dg_utilization g = util \<and> dg_driver g = driver \<and> dg_pci_bus g = bus"
proof -
  have sep: "split_str '', '' (nvidia_text i name vram free used draw limit temp util driver bus) =
      [nat_text i, name, nat_text (unat vram), nat_text (unat free), nat_text (unat used), draw, limit,
       nat_text (unat temp), nat_text (unat util), driver, bus]"
    unfolding nvidia_text_def using assms(1-5) nat_text_class by (intro split_str_join) (auto simp: clean_field_def)
  have w64: "of_nat (nvidia_uint 64 (nat_text (unat x))) = x" for x :: u64
    using unsigned_less [of x, where ?'a = nat] by (subst nvidia_uint_text) simp_all
  have w8: "of_nat (nvidia_uint 8 (nat_text (unat x))) = x" for x :: u8
    using unsigned_less [of x, where ?'a = nat] by (subst nvidia_uint_text) simp_all
  have watts: "nvidia_watts env draw = of_int (truncated p)" "nvidia_watts env limit = of_int (truncated l)"
    using assms by (simp_all add: nvidia_watts_def clean_field_def)
  show ?thesis
    using assms(1-5) by (simp add: nvidia_line_def sep Let_def w64 w8 watts nvidia_id_def clean_field_def)
qed

definition demo_detector :: detector_env where
  "demo_detector = \<lparr>dv_path = [], dv_available = (\<lambda>_. True), dv_nvidia_query = (\<lambda>_. None), dv_nvidia_readings = (\<lambda>_. None),
     dv_cuda = (\<lambda>_. Some ''550.54''), dv_rocm = Inl ''none'', dv_os = ''linux'', dv_profiler = Inl ''none'', dv_memsize = None, dv_ioreg = None,
     dv_intel = [], dv_float = (\<lambda>_ s. if s = ''61.52'' then Some (6152 / 100) else if s = ''450.00'' then Some 450 else None),
     dv_show = (\<lambda>_. []), dv_now = 0\<rparr>"

theorem nvidia_line_reads_back_witness:
  "\<exists>g. nvidia_line demo_detector (nvidia_text 0 ''RTX 4090'' 24564 20000 4564 ''61.52'' ''450.00'' 41 7 ''550.54'' ''00:01.0'') = Some g
    \<and> dg_name g = ''RTX 4090'' \<and> dg_vram_total g = 24564 \<and> dg_power_draw g = 61"
proof -
  have c: "clean_field ''RTX 4090''" "clean_field ''61.52''" "clean_field ''450.00''" "clean_field ''550.54''" "clean_field ''00:01.0''"
    by (simp_all add: clean_field_def trim_space_def is_space_def)
  have f: "dv_float demo_detector 32 ''61.52'' = Some (6152 / 100)" "dv_float demo_detector 32 ''450.00'' = Some 450"
    by (simp_all add: demo_detector_def)
  have "truncated (6152 / 100) = 61" by (simp add: truncated_def floor_eq_iff)
  with nvidia_line_reads_back [OF c f, of 0 24564 20000 4564 41 7] show ?thesis by auto
qed

section \<open>The GPU that is billed\<close>

lemma map_filter_image: "y \<in> set (List.map_filter f xs) \<Longrightarrow> \<exists>x \<in> set xs. f x = Some y"
  by (force simp: List.map_filter_def)

lemma metric_ids:
  assumes "m \<in> set (get_metrics env)"
  shows "gm_id m \<noteq> ''gpu-0''"
proof -
  consider "m \<in> set (found (nvidia_readings env))" | "m \<in> set (found (amd_readings env))" | "m \<in> set (apple_readings env)"
    using assms by (auto simp: get_metrics_def split: if_splits)
  then show ?thesis
  proof cases
    case 1
    then obtain l where "nvidia_reading env l = Some m"
      by (auto simp: found_def nvidia_readings_def split: if_splits option.splits dest!: map_filter_image)
    then have "\<exists>f. gm_id m = nvidia_id f" by (auto simp: nvidia_reading_def Let_def split: if_splits)
    then show ?thesis by (auto simp: nvidia_id_def split: if_splits)
  next
    case 2
    then have "\<exists>k. gm_id m = amd_id k"
      by (auto simp: found_def amd_readings_def amd_reading_def Let_def split: if_splits sum.splits)
    then show ?thesis by (auto simp: amd_id_def)
  next
    case 3
    then show ?thesis by (auto simp: apple_readings_def Let_def split: if_splits option.splits)
  qed
qed

lemma find_none: "(\<And>x. x \<in> set xs \<Longrightarrow> \<not> P x) \<Longrightarrow> find P xs = None"
  by (simp add: find_None_iff)

text \<open>The docker executor meters its sessions under the name gpu-0, which no reading has: on every machine the usage reported for billing is
  that of the first GPU listed, whichever GPU the container uses.\<close>

theorem billing_meters_first_gpu:
  "metrics_provider env ''gpu-0'' =
     (if get_metrics env = [] then Inl ''no GPU metrics available'' else Inr (billing_reading (hd (get_metrics env))))"
proof (cases "get_metrics env = []")
  case False
  have "find (\<lambda>m. gm_id m = ''gpu-0'') (get_metrics env) = None" using metric_ids by (intro find_none) blast
  with False show ?thesis by (simp add: metrics_provider_def Let_def hd_conv_nth)
qed (simp add: metrics_provider_def)

end
