(* ===== verification/DaemonExec.thy ===== *)
theory DaemonExec
  imports GoPath Jobs
begin

text \<open>
  Tasks as the daemon receives them (\<open>provider-daemon/internal/models/task.go\<close>) and the two executors
  (\<open>internal/executor/executor.go\<close>). What the operating system and the Docker daemon answer is an environment; what is done to them is
  the list of effects. A nil Docker executor inside the interface value panics when its client is used: \<open>None\<close>.
\<close>

section \<open>Tasks\<close>

record selected_gpu =
  sg_instance_id :: string
  sg_price_per_hour :: rat

record daemon_task =
  dt_job_id :: string
  dt_user_id :: string
  dt_job_type :: string
  dt_job_name :: string
  dt_job_params :: "json_map option"
  dt_execution_type :: string
  dt_gpu_type_needed :: string
  dt_gpu_count_needed :: int
  dt_assigned_provider_id :: string
  dt_dispatched_at :: time
  dt_selected_gpu :: "selected_gpu option"

text \<open>The scheduler's task, written and read again: the two structs share the tags of these fields, and the scheduler's has no
  \<open>execution_type\<close> and no \<open>selected_gpu\<close>.\<close>

definition received_task :: "task \<Rightarrow> daemon_task" where
  "received_task t =
     \<lparr>dt_job_id = tk_job_id t, dt_user_id = tk_user_id t, dt_job_type = tk_job_type t, dt_job_name = tk_job_name t,
      dt_job_params = tk_job_params t, dt_execution_type = [], dt_gpu_type_needed = tk_gpu_type_needed t,
      dt_gpu_count_needed = tk_gpu_count_needed t, dt_assigned_provider_id = tk_assigned_provider_id t,
      dt_dispatched_at = tk_dispatched_at t, dt_selected_gpu = None\<rparr>"

definition param :: "daemon_task \<Rightarrow> string \<Rightarrow> json option" where
  "param t k = (case dt_job_params t of None \<Rightarrow> None | Some m \<Rightarrow> m k)"

text \<open>A parameter that is a text, and one that holds more than blanks.\<close>

definition text_param :: "daemon_task \<Rightarrow> string \<Rightarrow> string option" where
  "text_param t k = (case param t k of Some (JString s) \<Rightarrow> Some s | _ \<Rightarrow> None)"

definition filled_param :: "daemon_task \<Rightarrow> string \<Rightarrow> string option" where
  "filled_param t k = (case text_param t k of None \<Rightarrow> None | Some s \<Rightarrow> if trim_space s = [] then None else Some s)"

definition timeout_param :: "daemon_task \<Rightarrow> duration option" where
  "timeout_param t = (case param t ''timeout_seconds'' of Some (JNumber q) \<Rightarrow> if q > 0 then Some (\<lfloor>q\<rfloor> * second) else None | _ \<Rightarrow> None)"

record execution_result =
  er_stdout :: string
  er_stderr :: string
  er_exit_code :: int
  er_error :: "string option"

definition failed_execution :: "int \<Rightarrow> string \<Rightarrow> execution_result" where
  "failed_execution code e = \<lparr>er_stdout = [], er_stderr = [], er_exit_code = code, er_error = Some e\<rparr>"

section \<open>Scripts\<close>

text \<open>How a process ends: well, with an exit code, or not run at all (with the deadline passed or not).\<close>

datatype process_end = Finished | Exited int string | NotRun string bool

record process_env =
  px_write :: "string \<Rightarrow> string \<Rightarrow> string option"
  px_run :: "string \<Rightarrow> string \<Rightarrow> string \<Rightarrow> duration option \<Rightarrow> process_end \<times> string \<times> string"

datatype exec_effect =
    FileWritten string string
  | ProcessRun string string string "duration option"
  | ImagePulled string
  | ContainerCreated string
  | ContainerStarted string
  | MeteringStarted string string
  | ContainerStopped string
  | ContainerRemoved string

definition python :: "string \<Rightarrow> bool" where
  "python i \<longleftrightarrow> i = ''python'' \<or> i = ''python3''"

definition script_interpreter :: "daemon_task \<Rightarrow> string" where
  "script_interpreter t = (case filled_param t ''script_interpreter'' of None \<Rightarrow> ''/bin/sh'' | Some i \<Rightarrow> i)"

definition script_filename :: "string \<Rightarrow> daemon_task \<Rightarrow> string" where
  "script_filename d t =
     (case filled_param t ''script_filename'' of Some f \<Rightarrow> f
      | None \<Rightarrow> if python (script_interpreter t) then ''main.py'' else d)"

definition script_execute :: "process_env \<Rightarrow> daemon_task \<Rightarrow> string \<Rightarrow> execution_result \<times> exec_effect list" where
  "script_execute px t ws =
     (case filled_param t ''script_content'' of
        None \<Rightarrow> (failed_execution (-1) ''script_content is required and cannot be empty'', [])
      | Some content \<Rightarrow>
          (let i = script_interpreter t; p = path_join [ws, script_filename ''task_script.sh'' t] in
           case px_write px p content of
             Some e \<Rightarrow> (failed_execution (-1) (''failed to write script file: '' @ e), [])
           | None \<Rightarrow>
               (let (pe, out, err) = px_run px i p ws (timeout_param t);
                    es = [FileWritten p content, ProcessRun i p ws (timeout_param t)];
                    r = \<lparr>er_stdout = out, er_stderr = err, er_exit_code = 0, er_error = None\<rparr>
                in (case pe of
                      Finished \<Rightarrow> r
                    | Exited code e \<Rightarrow> r\<lparr>er_exit_code := code, er_error := Some (''script exited with code '' @ int_text code @ '': '' @ e)\<rparr>
                    | NotRun e late \<Rightarrow>
                        if late then r\<lparr>er_exit_code := -2, er_error := Some ''script execution timed out''\<rparr>
                        else r\<lparr>er_exit_code := -1, er_error := Some (''script execution failed: '' @ e)\<rparr>, es))))"

section \<open>Containers\<close>

datatype device_request = GpuCount int | GpuDevices "string list"

text \<open>The \<open>docker_gpus\<close> parameter: all, a list of identifiers whose first is no number, or a positive number.\<close>

definition gpu_request_of :: "(string \<Rightarrow> rat option) \<Rightarrow> string \<Rightarrow> device_request option" where
  "gpu_request_of float s =
     (let v = to_lower (trim_space s); ids = split_char CHR '','' v in
      if s = [] then None
      else if v = ''all'' then Some (GpuCount (-1))
      else if hd ids = [] \<or> float (hd ids) = None
      then (let valid = filter (\<lambda>x. x \<noteq> []) (map trim_space ids) in if valid = [] then None else Some (GpuDevices valid))
      else (case atoi v of None \<Rightarrow> None | Some n \<Rightarrow> if n > 0 then Some (GpuCount n) else None))"

record container_spec =
  cn_image :: string
  cn_cmd :: "string list"
  cn_env :: "string list"
  cn_binds :: "string list"
  cn_gpus :: "device_request option"
  cn_name :: string

datatype wait_end = WaitFailed string bool | WaitNil | WaitStatus int

record docker_env =
  dk_float :: "string \<Rightarrow> rat option"
  dk_write :: "string \<Rightarrow> string \<Rightarrow> string option"
  dk_pull :: "string \<Rightarrow> string option"
  dk_stamp :: string
  dk_create :: "container_spec \<Rightarrow> string + string"
  dk_start :: "string \<Rightarrow> string option"
  dk_wait :: "string \<Rightarrow> duration option \<Rightarrow> wait_end"
  dk_logs :: "string \<Rightarrow> (string \<times> string) option"
  dk_inspect :: "string \<Rightarrow> string + int"

definition docker_command :: "daemon_task \<Rightarrow> string list" where
  "docker_command t =
     (case param t ''docker_command'' of
        Some (JArray cs) \<Rightarrow> List.map_filter (\<lambda>c. case c of JString s \<Rightarrow> Some s | _ \<Rightarrow> None) cs
      | _ \<Rightarrow> [])"

definition docker_variables :: "daemon_task \<Rightarrow> string list" where
  "docker_variables t =
     (case param t ''docker_env_vars'' of
        Some (JObject vs) \<Rightarrow> List.map_filter (\<lambda>(k, v). case v of JString s \<Rightarrow> Some (k @ ''='' @ s) | _ \<Rightarrow> None) vs
      | _ \<Rightarrow> [])"

text \<open>The script to put into the workspace, with its path and the command that runs it.\<close>

definition docker_script :: "daemon_task \<Rightarrow> string \<Rightarrow> (string \<times> string \<times> string list) option" where
  "docker_script t ws =
     (case filled_param t ''script_content'' of None \<Rightarrow> None
      | Some content \<Rightarrow>
          (let f = script_filename ''container_script.sh'' t in
           Some (path_join [ws, f], content, [script_interpreter t, path_join [''/workspace'', f]])))"

definition wait_result :: "docker_env \<Rightarrow> string \<Rightarrow> duration option \<Rightarrow> int \<times> string option \<times> exec_effect list" where
  "wait_result dk i limit =
     (case dk_wait dk i limit of
        WaitFailed e late \<Rightarrow>
          if late then (137, Some (''container execution timed out: '' @ e), [ContainerStopped i])
          else (-1, Some (''error waiting for container '' @ i @ '': '' @ e), [])
      | WaitNil \<Rightarrow> (-1, None, [])
      | WaitStatus n \<Rightarrow> (n, None, []))"

definition exit_status :: "docker_env \<Rightarrow> string \<Rightarrow> int \<Rightarrow> string option \<Rightarrow> int \<times> string option" where
  "exit_status dk i code err =
     (if code = -1 \<and> err = None
      then (case dk_inspect dk i of
              Inl e \<Rightarrow> (code, Some (''failed to inspect container '' @ i @ '': '' @ e))
            | Inr n \<Rightarrow> (n, None))
      else (code, err))"

text \<open>A created container: start, metering of a session whose identifier parses, wait, logs, exit code, removal.\<close>

definition run_container ::
    "docker_env \<Rightarrow> bool \<Rightarrow> (string \<Rightarrow> string + uuid) \<Rightarrow> daemon_task \<Rightarrow> string \<Rightarrow> execution_result \<times> exec_effect list" where
  "run_container dk metered parse t i =
     (case dk_start dk i of
        Some e \<Rightarrow> (failed_execution (-1) (''failed to start container '' @ i @ '': '' @ e), [ContainerRemoved i])
      | None \<Rightarrow>
          (let metering = (case text_param t ''session_id'' of
                  None \<Rightarrow> []
                | Some s \<Rightarrow> if s \<noteq> [] \<and> is_ok (parse s) \<and> metered then [MeteringStarted s ''gpu-0''] else []);
               (code, err, stops) = wait_result dk i (timeout_param t);
               (out, errs) = (case dk_logs dk i of None \<Rightarrow> ([], []) | Some l \<Rightarrow> l);
               (code, err) = exit_status dk i code err
           in (\<lparr>er_stdout = out, er_stderr = errs, er_exit_code = code,
                er_error = (case err of Some e \<Rightarrow> Some e
                  | None \<Rightarrow> if code \<noteq> 0 then Some (''container '' @ i @ '' exited with code '' @ int_text code) else None)\<rparr>,
               [ContainerStarted i] @ metering @ stops @ [ContainerRemoved i])))"

definition docker_container :: "docker_env \<Rightarrow> daemon_task \<Rightarrow> string \<Rightarrow> string \<Rightarrow> string list \<Rightarrow> container_spec" where
  "docker_container dk t img ws cmd =
     \<lparr>cn_image = img, cn_cmd = cmd, cn_env = docker_variables t, cn_binds = [ws @ '':/workspace:rw''],
      cn_gpus = (case text_param t ''docker_gpus'' of None \<Rightarrow> None | Some g \<Rightarrow> gpu_request_of (dk_float dk) g),
      cn_name = ''dante-task-'' @ dt_job_id t @ ''-'' @ dk_stamp dk\<rparr>"

definition with_image ::
    "docker_env \<Rightarrow> bool \<Rightarrow> (string \<Rightarrow> string + uuid) \<Rightarrow> daemon_task \<Rightarrow> string \<Rightarrow> string \<Rightarrow> string list \<Rightarrow> execution_result \<times> exec_effect list" where
  "with_image dk metered parse t img ws cmd =
     (case dk_pull dk img of
        Some e \<Rightarrow> (failed_execution (-1) (''failed to pull image '' @ img @ '': '' @ e), [])
      | None \<Rightarrow>
          (case dk_create dk (docker_container dk t img ws cmd) of
             Inl e \<Rightarrow> (failed_execution (-1) (''failed to create container: '' @ e), [ImagePulled img])
           | Inr i \<Rightarrow> (case run_container dk metered parse t i of (r, es) \<Rightarrow> (r, ImagePulled img # ContainerCreated i # es))))"

text \<open>The executor is \<open>None\<close> for the nil pointer; the script is written before its client is used.\<close>

definition docker_execute ::
    "docker_env \<Rightarrow> bool \<Rightarrow> bool \<Rightarrow> (string \<Rightarrow> string + uuid) \<Rightarrow> daemon_task \<Rightarrow> string \<Rightarrow> (execution_result \<times> exec_effect list) option" where
  "docker_execute dk nil metered parse t ws =
     (case text_param t ''docker_image'' of
        None \<Rightarrow> Some (failed_execution (-1) ''docker_image is required'', [])
      | Some img \<Rightarrow>
          if img = [] then Some (failed_execution (-1) ''docker_image is required'', [])
          else (case docker_script t ws of
            None \<Rightarrow> if nil then None else Some (with_image dk metered parse t img ws (docker_command t))
          | Some (p, content, cmd) \<Rightarrow>
              (case dk_write dk p content of
                 Some e \<Rightarrow> Some (failed_execution (-1) (''failed to write script_content to workspace: '' @ e), [])
               | None \<Rightarrow>
                   if nil then None
                   else (case with_image dk metered parse t img ws cmd of (r, es) \<Rightarrow> Some (r, FileWritten p content # es)))))"

section \<open>Facts\<close>

text \<open>A task chooses where its script is written: for any workspace and any absolute path there is a file name that makes the script executor
  write the task's text to that path and run it, outside the workspace.\<close>

theorem script_written_anywhere:
  assumes "\<forall>s \<in> set dir. plain_segment s" "dir \<noteq> []" "\<forall>s \<in> set target. plain_segment s" "target \<noteq> []"
    "filled_param t ''script_content'' = Some content" "filled_param t ''script_filename'' = Some (climb (length dir) target)"
    "px_write px (absolute target) content = None"
  shows "\<exists>i limit es. snd (script_execute px t (absolute dir)) = FileWritten (absolute target) content # ProcessRun i (absolute target) (absolute dir) limit # es"
proof -
  have "path_join [absolute dir, script_filename ''task_script.sh'' t] = absolute target"
    using path_join_climb [OF assms(1,3,4,2) le_refl] assms(6) by (simp add: script_filename_def)
  then show ?thesis using assms(5,7) by (simp add: script_execute_def Let_def split: prod.split)
qed

text \<open>A container that was created is removed, on every path.\<close>

lemma container_removed: "ContainerCreated i \<in> set (snd (with_image dk metered parse t img ws cmd)) \<Longrightarrow>
   ContainerRemoved i \<in> set (snd (with_image dk metered parse t img ws cmd))"
  by (auto simp: with_image_def run_container_def wait_result_def Let_def split: option.splits sum.splits prod.splits if_splits wait_end.splits)

lemma digits_value_bad: "c \<in> set s \<Longrightarrow> digit_value c = None \<Longrightarrow> digits_value a s = None"
  by (induction s arbitrary: a) (auto split: option.split)

lemma atoi_comma: "CHR '','' \<in> set s \<Longrightarrow> atoi s = None"
proof -
  assume c: "CHR '','' \<in> set s"
  have d: "digit_value CHR '','' = None" by (simp add: digit_value_def)
  obtain x xs where s: "s = x # xs" using c by (cases s) auto
  show ?thesis
  proof (cases "x = CHR ''-'' \<or> x = CHR ''+''")
    case True
    then have "CHR '','' \<in> set xs" using c by (auto simp: s)
    then show ?thesis using True digits_value_bad [OF _ d, of xs 0] by (auto simp: atoi_def s)
  next
    case False
    then show ?thesis using digits_value_bad [OF c d, of 0] by (simp add: atoi_def s)
  qed
qed

text \<open>A list of GPU numbers requests no GPU: as soon as the first entry of the list is a number, the whole parameter is read as one number,
  which a list is not, and the container is created without any GPU.\<close>

theorem numbered_gpus_ignored:
  assumes "CHR '','' \<in> set (to_lower (trim_space s))" "split_char CHR '','' (to_lower (trim_space s)) = i # is" "i \<noteq> []" "dk_float dk i \<noteq> None"
    "text_param t ''docker_gpus'' = Some s"
  shows "cn_gpus (docker_container dk t img ws cmd) = None"
proof -
  have "to_lower (trim_space s) \<noteq> ''all''"
  proof
    assume "to_lower (trim_space s) = ''all''"
    with assms(1) show False by simp
  qed
  then show ?thesis
    using assms atoi_comma [OF assms(1)] by (auto simp: docker_container_def gpu_request_of_def Let_def)
qed

end
