(* ===== verification/DaemonConfig.thy ===== *)
theory DaemonConfig
  imports DaemonGpu
begin

text \<open>
  The daemon's configuration (\<open>provider-daemon/internal/config/config.go\<close>) and the commands that show and change it
  (\<open>cmd/daemon/main.go\<close>, shapes of \<open>internal/models/cli_responses.go\<close>). The file holds the value its YAML carries; a list that is empty
  is not written. How a number is rounded to 32 bits is the argument \<open>to32\<close>.
\<close>

section \<open>Data\<close>

record nats_config =
  nc_url :: string
  nc_connect_timeout :: duration
  nc_reconnect_wait :: duration
  nc_max_reconnects :: int
  nc_subject_prefix :: string
  nc_dispatch_pattern :: string
  nc_status_prefix :: string
  nc_stream_prefix :: string
  nc_consumer_prefix :: string
  nc_pull_max_waiting :: int
  nc_ack_wait :: duration
  nc_max_deliver :: int

record gpu_rental =
  gl_gpu_id :: string
  gl_available :: bool
  gl_rate :: rat

record daemon_config =
  dc_instance_id :: string
  dc_log_level :: string
  dc_request_timeout :: duration
  dc_nats :: nats_config
  dc_executor_type :: string
  dc_docker_endpoint :: string
  dc_detection_interval :: duration
  dc_nvidia_path :: string
  dc_registry_service :: string
  dc_registry_url :: string
  dc_heartbeat_interval :: duration
  dc_workspace :: string
  dc_managed_gpus :: "string list"
  dc_max_jobs :: u32
  dc_currency :: string
  dc_rate :: rat
  dc_min_minutes :: u32
  dc_rentals :: "gpu_rental list option"
  dc_billing_url :: string
  dc_billing_timeout :: duration

definition default_nats :: nats_config where
  "default_nats =
     \<lparr>nc_url = ''nats://localhost:4222'', nc_connect_timeout = 5 * second, nc_reconnect_wait = 5 * second, nc_max_reconnects = -1,
      nc_subject_prefix = ''tasks.dispatch'', nc_dispatch_pattern = ''tasks.dispatch.%s.*'', nc_status_prefix = ''dante.provider.status'',
      nc_stream_prefix = ''DANTE_TASKS_'', nc_consumer_prefix = ''provider_daemon_'', nc_pull_max_waiting = 5,
      nc_ack_wait = 30 * second, nc_max_deliver = 5\<rparr>"

definition default_config :: "string \<Rightarrow> string \<Rightarrow> daemon_config" where
  "default_config host tmp =
     \<lparr>dc_instance_id = (if host = [] then ''provider-daemon-unknown'' else ''provider-'' @ host), dc_log_level = ''info'',
      dc_request_timeout = 30 * second, dc_nats = default_nats, dc_executor_type = ''docker'',
      dc_docker_endpoint = ''unix:///var/run/docker.sock'', dc_detection_interval = minute, dc_nvidia_path = ''nvidia-smi'',
      dc_registry_service = ''provider-registry'', dc_registry_url = [], dc_heartbeat_interval = 30 * second,
      dc_workspace = path_join [tmp, ''dante_tasks''], dc_managed_gpus = [], dc_max_jobs = 1, dc_currency = ''DGPU'', dc_rate = 1,
      dc_min_minutes = 5, dc_rentals = Some [], dc_billing_url = ''http://localhost:8081/api/v1/billing'', dc_billing_timeout = 0\<rparr>"

section \<open>Loading and saving\<close>

definition filled :: "'a \<Rightarrow> 'a \<Rightarrow> 'a \<Rightarrow> 'a" where
  "filled zero d x = (if x = zero then d else x)"

definition nats_defaults :: "nats_config \<Rightarrow> nats_config \<Rightarrow> nats_config" where
  "nats_defaults c d =
     \<lparr>nc_url = filled [] (nc_url d) (nc_url c), nc_connect_timeout = filled 0 (nc_connect_timeout d) (nc_connect_timeout c),
      nc_reconnect_wait = filled 0 (nc_reconnect_wait d) (nc_reconnect_wait c),
      nc_max_reconnects = (if nc_max_reconnects c = 0 \<and> nc_max_reconnects d \<noteq> 0 then nc_max_reconnects d else nc_max_reconnects c),
      nc_subject_prefix = filled [] (nc_subject_prefix d) (nc_subject_prefix c),
      nc_dispatch_pattern = filled [] (nc_dispatch_pattern d) (nc_dispatch_pattern c),
      nc_status_prefix = filled [] (nc_status_prefix d) (nc_status_prefix c),
      nc_stream_prefix = filled [] (nc_stream_prefix d) (nc_stream_prefix c),
      nc_consumer_prefix = filled [] (nc_consumer_prefix d) (nc_consumer_prefix c),
      nc_pull_max_waiting = filled 0 (nc_pull_max_waiting d) (nc_pull_max_waiting c),
      nc_ack_wait = filled 0 (nc_ack_wait d) (nc_ack_wait c), nc_max_deliver = filled 0 (nc_max_deliver d) (nc_max_deliver c)\<rparr>"

definition apply_defaults :: "daemon_config \<Rightarrow> daemon_config \<Rightarrow> daemon_config" where
  "apply_defaults d c =
     c\<lparr>dc_instance_id := filled [] (dc_instance_id d) (dc_instance_id c), dc_log_level := filled [] (dc_log_level d) (dc_log_level c),
       dc_request_timeout := filled 0 (dc_request_timeout d) (dc_request_timeout c), dc_nats := nats_defaults (dc_nats c) (dc_nats d),
       dc_executor_type := filled [] (dc_executor_type d) (dc_executor_type c),
       dc_docker_endpoint := (if dc_docker_endpoint c = [] \<and> dc_docker_endpoint d \<noteq> [] then dc_docker_endpoint d else dc_docker_endpoint c),
       dc_detection_interval := filled 0 (dc_detection_interval d) (dc_detection_interval c),
       dc_nvidia_path := filled [] (dc_nvidia_path d) (dc_nvidia_path c),
       dc_registry_service := (if dc_registry_service c = [] \<and> dc_registry_url c = [] then dc_registry_service d else dc_registry_service c),
       dc_heartbeat_interval := filled 0 (dc_heartbeat_interval d) (dc_heartbeat_interval c),
       dc_workspace := filled [] (dc_workspace d) (dc_workspace c), dc_max_jobs := filled 0 (dc_max_jobs d) (dc_max_jobs c),
       dc_currency := filled [] (dc_currency d) (dc_currency c),
       dc_rentals := filled None (dc_rentals d) (dc_rentals c), dc_billing_url := filled [] (dc_billing_url d) (dc_billing_url c),
       dc_rate := (if dc_rate c = 0 \<and> dc_rate d \<noteq> 0 then dc_rate d else dc_rate c),
       dc_min_minutes := (if dc_min_minutes c = 0 \<and> dc_min_minutes d \<noteq> 0 then dc_min_minutes d else dc_min_minutes c)\<rparr>"

datatype config_file = NoFile | NoAccess | NotYaml | Yaml daemon_config

definition written :: "daemon_config \<Rightarrow> config_file" where
  "written c = Yaml (if dc_rentals c = Some [] then c\<lparr>dc_rentals := None\<rparr> else c)"

text \<open>\<open>can_write\<close>: whether directory and file can be written. A first start writes the defaults.\<close>

definition load_config :: "daemon_config \<Rightarrow> bool \<Rightarrow> config_file \<Rightarrow> (string + daemon_config) \<times> config_file" where
  "load_config d can_write file =
     (case file of
        NoFile \<Rightarrow> if can_write then (Inr d, written d) else (Inl ''failed to write default config file'', NoFile)
      | NoAccess \<Rightarrow> (Inl ''failed to check config file'', NoAccess)
      | NotYaml \<Rightarrow> (Inl ''failed to unmarshal config data'', NotYaml)
      | Yaml c \<Rightarrow> (Inr (apply_defaults d c), file))"

definition save_config :: "daemon_config \<Rightarrow> bool \<Rightarrow> config_file \<Rightarrow> (string + unit) \<times> config_file" where
  "save_config c can_write file =
     (if can_write then (Inr (), written c) else (Inl ''failed to write config file'', file))"

section \<open>Commands\<close>

datatype 'a cli_output = CliOk 'a | CliError string

record cli_gpu_info =
  ci_id :: string
  ci_name :: string
  ci_model :: string
  ci_vram_total :: u32
  ci_vram_free :: u32
  ci_utilization :: "u32 option"
  ci_temperature :: "u32 option"
  ci_power_draw :: "u32 option"
  ci_for_rent :: bool
  ci_rate :: "rat option"

definition cli_gpu :: "gpu_rental list \<Rightarrow> detected_gpu \<Rightarrow> cli_gpu_info" where
  "cli_gpu rentals g =
     (let entry = map_of (rev (map (\<lambda>r. (gl_gpu_id r, r)) rentals)) (dg_id g) in
      \<lparr>ci_id = dg_id g, ci_name = dg_name g, ci_model = dg_model g, ci_vram_total = ucast (dg_vram_total g), ci_vram_free = ucast (dg_vram_free g),
       ci_utilization = (if dg_utilization g > 0 then Some (ucast (dg_utilization g)) else None),
       ci_temperature = (if dg_temperature g > 0 then Some (ucast (dg_temperature g)) else None),
       ci_power_draw = (if dg_power_draw g > 0 then Some (dg_power_draw g) else None),
       ci_for_rent = (case entry of None \<Rightarrow> False | Some r \<Rightarrow> gl_available r),
       ci_rate = (case entry of None \<Rightarrow> None | Some r \<Rightarrow> if gl_available r \<and> gl_rate r > 0 then Some (gl_rate r) else None)\<rparr>)"

definition rentals_of :: "daemon_config \<Rightarrow> gpu_rental list" where
  "rentals_of c = (case dc_rentals c of None \<Rightarrow> [] | Some rs \<Rightarrow> rs)"

definition get_gpus_json :: "detector_env \<Rightarrow> daemon_config \<Rightarrow> cli_gpu_info list cli_output" where
  "get_gpus_json env c = CliOk (map (cli_gpu (rentals_of c)) (detect_gpus env))"

record provider_settings =
  ps_rate :: rat
  ps_currency :: string
  ps_min_minutes :: u32
  ps_max_jobs :: u32

definition get_settings_json :: "(rat \<Rightarrow> rat) \<Rightarrow> daemon_config \<Rightarrow> provider_settings cli_output" where
  "get_settings_json to32 c =
     CliOk \<lparr>ps_rate = to32 (dc_rate c), ps_currency = dc_currency c, ps_min_minutes = dc_min_minutes c, ps_max_jobs = dc_max_jobs c\<rparr>"

definition update_settings_json ::
    "string + provider_settings \<Rightarrow> bool \<Rightarrow> daemon_config \<Rightarrow> config_file \<Rightarrow> string cli_output \<times> config_file" where
  "update_settings_json body can_write c file =
     (case body of
        Inl e \<Rightarrow> (CliError (''Failed to unmarshal settings JSON: '' @ e), file)
      | Inr s \<Rightarrow>
          (case save_config (c\<lparr>dc_rate := ps_rate s, dc_currency := ps_currency s, dc_min_minutes := ps_min_minutes s,
                               dc_max_jobs := ps_max_jobs s\<rparr>) can_write file of
             (Inl e, f) \<Rightarrow> (CliError (''Failed to save configuration: '' @ e), f)
           | (Inr _, f) \<Rightarrow> (CliOk ''Settings updated and saved successfully.'', f)))"

text \<open>\<open>strconv.ParseBool\<close> of a text in lower case.\<close>

definition parse_bool_lower :: "string \<Rightarrow> bool option" where
  "parse_bool_lower s =
     (if s \<in> {''1'', ''t'', ''true''} then Some True else if s \<in> {''0'', ''f'', ''false''} then Some False else None)"

fun change_first :: "('a \<Rightarrow> bool) \<Rightarrow> ('a \<Rightarrow> 'a) \<Rightarrow> 'a list \<Rightarrow> 'a list option" where
  "change_first p f [] = None"
| "change_first p f (x # xs) = (if p x then Some (f x # xs) else map_option ((#) x) (change_first p f xs))"

definition changed_rental :: "(rat \<Rightarrow> rat) \<Rightarrow> rat \<Rightarrow> bool option \<Rightarrow> gpu_rental \<Rightarrow> gpu_rental" where
  "changed_rental to32 rate avail r =
     (let r = (case avail of None \<Rightarrow> r | Some b \<Rightarrow> r\<lparr>gl_available := b\<rparr>) in
      if rate \<ge> 0 then r\<lparr>gl_rate := to32 rate\<rparr> else r)"

definition set_gpu_rental ::
    "(rat \<Rightarrow> rat) \<Rightarrow> string \<Rightarrow> rat \<Rightarrow> string \<Rightarrow> bool \<Rightarrow> daemon_config \<Rightarrow> config_file \<Rightarrow> string cli_output \<times> config_file" where
  "set_gpu_rental to32 gpu rate avail can_write c file =
     (if gpu = [] then (CliError ''--gpu-id is required for --set-gpu-config-json'', file)
      else if rate < 0 \<and> avail = [] then (CliError ''At least one of --rate or --available must be provided'', file)
      else if avail \<noteq> [] \<and> parse_bool_lower (to_lower avail) = None then (CliError (''Invalid value for --available: '' @ avail), file)
      else
        (let b = (if avail = [] then None else parse_bool_lower (to_lower avail));
             rs = (case change_first (\<lambda>r. gl_gpu_id r = gpu) (changed_rental to32 rate b) (rentals_of c) of
                     Some rs \<Rightarrow> rs
                   | None \<Rightarrow> rentals_of c @ [changed_rental to32 rate b \<lparr>gl_gpu_id = gpu, gl_available = False, gl_rate = 0\<rparr>])
         in case save_config (c\<lparr>dc_rentals := Some rs\<rparr>) can_write file of
              (Inl e, f) \<Rightarrow> (CliError (''Failed to save configuration for GPU '' @ gpu), f)
            | (Inr _, f) \<Rightarrow> (CliOk (''GPU '' @ gpu @ '' rental configuration updated and saved.''), f)))"

text \<open>The command cannot reach the running daemon: the list is always empty.\<close>

definition get_local_jobs_json :: "unit \<Rightarrow> string list cli_output" where
  "get_local_jobs_json _ = CliOk []"

section \<open>What a start reads\<close>

lemma load_written: "load_config d w (written c) = (Inr (apply_defaults d (if dc_rentals c = Some [] then c\<lparr>dc_rentals := None\<rparr> else c)), written c)"
  by (simp add: load_config_def written_def)

text \<open>Settings that were saved are the settings of the next start, except that a rate, a number of jobs, a duration or a currency that was set to
  nothing comes back as its default: a provider cannot offer for free.\<close>

theorem settings_after_restart:
  assumes "update_settings_json (Inr s) can_write c file = (CliOk m, file')"
  shows "\<exists>c'. fst (load_config (default_config host tmp) w file') = Inr c' \<and> get_settings_json id c' =
    CliOk \<lparr>ps_rate = (if ps_rate s = 0 then 1 else ps_rate s), ps_currency = (if ps_currency s = [] then ''DGPU'' else ps_currency s),
      ps_min_minutes = (if ps_min_minutes s = 0 then 5 else ps_min_minutes s), ps_max_jobs = (if ps_max_jobs s = 0 then 1 else ps_max_jobs s)\<rparr>"
proof -
  have "file' = written (c\<lparr>dc_rate := ps_rate s, dc_currency := ps_currency s, dc_min_minutes := ps_min_minutes s, dc_max_jobs := ps_max_jobs s\<rparr>)"
    using assms by (auto simp: update_settings_json_def save_config_def split: if_splits)
  then show ?thesis by (simp add: load_written apply_defaults_def get_settings_json_def filled_def default_config_def)
qed

lemma change_first_find:
  assumes "\<And>x. key (f x) = key x" "change_first (\<lambda>x. key x = k) f xs = Some ys"
  shows "find (\<lambda>x. key x = k) ys = map_option f (find (\<lambda>x. key x = k) xs) \<and> find (\<lambda>x. key x = k) xs \<noteq> None
    \<and> (\<forall>j. j \<noteq> k \<longrightarrow> find (\<lambda>x. key x = j) ys = find (\<lambda>x. key x = j) xs)"
  using assms(2)
proof (induction xs arbitrary: ys)
  case (Cons x xs)
  show ?case
  proof (cases "key x = k")
    case True
    with Cons.prems show ?thesis by (auto simp: assms(1))
  next
    case False
    with Cons.prems obtain zs where "change_first (\<lambda>x. key x = k) f xs = Some zs" "ys = x # zs" by auto
    with Cons.IH [of zs] False show ?thesis by simp
  qed
qed simp

lemma change_first_none: "change_first p f xs = None \<longleftrightarrow> find p xs = None"
  by (induction xs) auto

lemma find_append: "find p (xs @ ys) = (case find p xs of None \<Rightarrow> find p ys | Some x \<Rightarrow> Some x)"
  by (induction xs) auto

lemma changed_rental_fields:
  "gl_gpu_id (changed_rental to32 rate b r) = gl_gpu_id r"
  "gl_available (changed_rental to32 rate b r) = (case b of None \<Rightarrow> gl_available r | Some v \<Rightarrow> v)"
  "gl_rate (changed_rental to32 rate b r) = (if rate \<ge> 0 then to32 rate else gl_rate r)"
  by (auto simp: changed_rental_def Let_def split: option.split)

text \<open>After a GPU's rental terms were set, the next start finds for this GPU what was given, and for what was not given the old value, or not
  available at rate zero for a GPU that had no entry; the entries of the other GPUs are as before.\<close>

theorem rental_after_restart:
  assumes "set_gpu_rental to32 gpu rate avail can_write c file = (CliOk m, file')"
  shows "\<exists>c' r. fst (load_config (default_config host tmp) w file') = Inr c' \<and> find (\<lambda>r. gl_gpu_id r = gpu) (rentals_of c') = Some r
    \<and> (let old = (case find (\<lambda>r. gl_gpu_id r = gpu) (rentals_of c) of None \<Rightarrow> \<lparr>gl_gpu_id = gpu, gl_available = False, gl_rate = 0\<rparr> | Some r \<Rightarrow> r)
       in gl_available r = (if avail = [] then gl_available old else the (parse_bool_lower (to_lower avail)))
        \<and> gl_rate r = (if rate \<ge> 0 then to32 rate else gl_rate old))
    \<and> (\<forall>g. g \<noteq> gpu \<longrightarrow> find (\<lambda>r. gl_gpu_id r = g) (rentals_of c') = find (\<lambda>r. gl_gpu_id r = g) (rentals_of c))"
proof -
  let ?b = "if avail = [] then None else parse_bool_lower (to_lower avail)"
  let ?new = "changed_rental to32 rate ?b \<lparr>gl_gpu_id = gpu, gl_available = False, gl_rate = 0\<rparr>"
  let ?ch = "change_first (\<lambda>r. gl_gpu_id r = gpu) (changed_rental to32 rate ?b) (rentals_of c)"
  define rs where "rs = (case ?ch of Some rs \<Rightarrow> rs | None \<Rightarrow> rentals_of c @ [?new])"
  have avail: "avail = [] \<or> (\<exists>v. parse_bool_lower (to_lower avail) = Some v)" and file': "file' = written (c\<lparr>dc_rentals := Some rs\<rparr>)"
    using assms by (auto simp: set_gpu_rental_def save_config_def Let_def rs_def split: if_splits option.splits)
  define c' where "c' = apply_defaults (default_config host tmp) (if rs = [] then c\<lparr>dc_rentals := None\<rparr> else c\<lparr>dc_rentals := Some rs\<rparr>)"
  have load: "fst (load_config (default_config host tmp) w file') = Inr c'"
    unfolding file' load_written c'_def by simp
  have rentals: "rentals_of c' = rs"
    by (simp add: c'_def rentals_of_def apply_defaults_def filled_def default_config_def)
  show ?thesis
  proof (cases ?ch)
    case None
    then have "find (\<lambda>r. gl_gpu_id r = gpu) (rentals_of c) = None" by (simp add: change_first_none)
    with None avail load rentals show ?thesis
      by (auto simp: rs_def find_append changed_rental_fields Let_def split: option.split)
  next
    case (Some ys)
    with change_first_find [of gl_gpu_id "changed_rental to32 rate ?b" gpu "rentals_of c" ys] avail load rentals show ?thesis
      by (auto simp: rs_def changed_rental_fields Let_def)
  qed
qed

section \<open>At concrete settings\<close>

theorem settings_after_restart_witness:
  "\<exists>c'. fst (load_config (default_config ''rig'' ''/tmp'') True (snd (update_settings_json
      (Inr \<lparr>ps_rate = 0, ps_currency = ''USDC'', ps_min_minutes = 10, ps_max_jobs = 2\<rparr>) True (default_config ''rig'' ''/tmp'') NoFile))) = Inr c'
    \<and> get_settings_json id c' = CliOk \<lparr>ps_rate = 1, ps_currency = ''USDC'', ps_min_minutes = 10, ps_max_jobs = 2\<rparr>"
proof -
  let ?s = "\<lparr>ps_rate = 0, ps_currency = ''USDC'', ps_min_minutes = 10, ps_max_jobs = 2\<rparr>"
  have "update_settings_json (Inr ?s) True (default_config ''rig'' ''/tmp'') NoFile = (CliOk ''Settings updated and saved successfully.'',
      snd (update_settings_json (Inr ?s) True (default_config ''rig'' ''/tmp'') NoFile))"
    by (simp add: update_settings_json_def save_config_def)
  from settings_after_restart [OF this, of "''rig''" "''/tmp''" True] show ?thesis by simp
qed

theorem rental_after_restart_witness:
  "\<exists>c' r. fst (load_config (default_config ''rig'' ''/tmp'') True (snd (set_gpu_rental id ''nvidia-0'' (5 / 2) ''true'' True
      (default_config ''rig'' ''/tmp'') NoFile))) = Inr c' \<and> find (\<lambda>r. gl_gpu_id r = ''nvidia-0'') (rentals_of c') = Some r \<and> gl_rate r = 5 / 2"
proof -
  have l: "to_lower ''true'' = ''true''" by code_simp
  have "set_gpu_rental id ''nvidia-0'' (5 / 2) ''true'' True (default_config ''rig'' ''/tmp'') NoFile =
      (CliOk ''GPU nvidia-0 rental configuration updated and saved.'',
       snd (set_gpu_rental id ''nvidia-0'' (5 / 2) ''true'' True (default_config ''rig'' ''/tmp'') NoFile))"
    by (simp add: set_gpu_rental_def save_config_def parse_bool_lower_def l Let_def)
  from rental_after_restart [OF this, of "''rig''" "''/tmp''" True] show ?thesis by (auto simp: Let_def)
qed

end
