(* ===== verification/DaemonTasks.thy ===== *)
theory DaemonTasks
  imports DaemonExec DaemonConfig "HOL-Library.AList"
begin

text \<open>
  The daemon's task handler (\<open>provider-daemon/internal/tasks/handler.go\<close>), its queue client (\<open>internal/nats/client.go\<close>), its billing
  client (\<open>internal/billing/client.go\<close>) and the status messages (\<open>internal/models/status.go\<close>). A task runs on its own goroutine: taking a
  message and running a task are separate steps. A panic in a goroutine ends the daemon.
\<close>

section \<open>Messages\<close>

datatype task_status = TaskPreparing | TaskInProgress | TaskCompleted | TaskFailed | TaskCancelled | TaskTimeout

definition task_status_text :: "task_status \<Rightarrow> string" where
  "task_status_text s = (case s of
      TaskPreparing \<Rightarrow> ''preparing'' | TaskInProgress \<Rightarrow> ''in_progress'' | TaskCompleted \<Rightarrow> ''completed''
    | TaskFailed \<Rightarrow> ''failed'' | TaskCancelled \<Rightarrow> ''cancelled'' | TaskTimeout \<Rightarrow> ''timeout'')"

record status_update =
  su_job_id :: string
  su_provider_id :: string
  su_status :: task_status
  su_timestamp :: time
  su_message :: string
  su_exit_code :: "int option"
  su_log :: string

definition new_task_status_update :: "time \<Rightarrow> string \<Rightarrow> string \<Rightarrow> task_status \<Rightarrow> string \<Rightarrow> status_update" where
  "new_task_status_update now job provider s m =
     \<lparr>su_job_id = job, su_provider_id = provider, su_status = s, su_timestamp = now, su_message = m, su_exit_code = None, su_log = []\<rparr>"

section \<open>The billing client\<close>

record usage_update =
  uu_session_id :: uuid
  uu_metrics :: billing_metrics
  uu_timestamp :: time

record daemon_session =
  ds_status :: string
  ds_balance :: rat

datatype daemon_body = UsageBody usage_update | EndBody uuid string | EmptyBody

text \<open>A transport error, or the status with the session when the body decodes.\<close>

type_synonym daemon_http = "string \<Rightarrow> string \<Rightarrow> daemon_body \<Rightarrow> string + nat \<times> daemon_session option"

definition send_usage_update :: "daemon_http \<Rightarrow> string \<Rightarrow> usage_update \<Rightarrow> string option" where
  "send_usage_update http base u =
     (case http ''POST'' (base @ ''/api/v1/billing/usage-update'') (UsageBody u) of
        Inl e \<Rightarrow> Some (''failed to send usage update: '' @ e)
      | Inr (n, s) \<Rightarrow> if n \<noteq> 200 then Some (''billing service returned status '' @ nat_text n) else None)"

definition daemon_current_usage :: "daemon_http \<Rightarrow> string \<Rightarrow> uuid \<Rightarrow> string + daemon_session" where
  "daemon_current_usage http base i =
     (case http ''GET'' (base @ ''/api/v1/billing/current-usage/'' @ uuid_text i) EmptyBody of
        Inl e \<Rightarrow> Inl (''failed to get current usage: '' @ e)
      | Inr (n, s) \<Rightarrow>
          if n \<noteq> 200 then Inl (''billing service returned status '' @ nat_text n)
          else (case s of None \<Rightarrow> Inl ''failed to decode response'' | Some x \<Rightarrow> Inr x))"

definition check_session_status :: "daemon_http \<Rightarrow> string \<Rightarrow> uuid \<Rightarrow> string + bool" where
  "check_session_status http base i =
     (case daemon_current_usage http base i of Inl e \<Rightarrow> Inl e | Inr s \<Rightarrow> Inr (ds_status s = ''active'' \<and> ds_balance s > 0))"

definition end_session_url :: "string \<Rightarrow> string" where
  "end_session_url base = base @ ''/api/v1/billing/end-session''"

definition stop_billing :: "daemon_http \<Rightarrow> string \<Rightarrow> uuid \<Rightarrow> string \<Rightarrow> string option" where
  "stop_billing http base i reason =
     (case http ''POST'' (end_session_url base) (EndBody i reason) of
        Inl e \<Rightarrow> Some (''failed to end session: '' @ e)
      | Inr (n, s) \<Rightarrow> if n \<noteq> 200 then Some (''billing service returned status '' @ nat_text n @ '' ending session'') else None)"

text \<open>One tick of the monitor: the updates sent; a failure is not repeated.\<close>

definition monitor_tick :: "(string \<Rightarrow> string + billing_metrics) option \<Rightarrow> time \<Rightarrow> uuid \<Rightarrow> string \<Rightarrow> usage_update list" where
  "monitor_tick provider now i gpu =
     (case provider of None \<Rightarrow> []
      | Some f \<Rightarrow> (case f gpu of Inl e \<Rightarrow> [] | Inr m \<Rightarrow> [\<lparr>uu_session_id = i, uu_metrics = m, uu_timestamp = now\<rparr>]))"

text \<open>Fixed figures for every provider; the payout is dated a day ago.\<close>

record financial_summary =
  fs_total_earned :: rat
  fs_pending_payout :: rat
  fs_current_balance :: rat
  fs_last_payout :: rat
  fs_last_payout_at :: time

definition stub_balance :: "string \<Rightarrow> rat" where
  "stub_balance provider = 12345 / 100"

definition get_financial_summary :: "time \<Rightarrow> string \<Rightarrow> financial_summary" where
  "get_financial_summary now provider =
     \<lparr>fs_total_earned = stub_balance provider + 1000, fs_pending_payout = stub_balance provider, fs_current_balance = stub_balance provider,
      fs_last_payout = 500, fs_last_payout_at = now - 24 * hour\<rparr>"

section \<open>The handler\<close>

datatype docker_slot = NoDocker | DockerPointer bool docker_env

record handler_env =
  hn_config :: daemon_config
  hn_now :: time
  hn_reporter :: bool
  hn_connected :: bool
  hn_publish :: "string \<Rightarrow> status_update \<Rightarrow> string option"
  hn_health :: "bool option"
  hn_mkdir :: "string \<Rightarrow> string option"
  hn_script :: "process_env option"
  hn_docker :: docker_slot
  hn_http :: "daemon_http option"
  hn_parse :: "string \<Rightarrow> string + uuid"
  hn_nak_fails :: bool

datatype daemon_effect =
    StatusSent string status_update
  | WorkspaceMade string
  | WorkspaceRemoved string
  | Executed exec_effect
  | SessionEnd string uuid string
  | TaskAck
  | TaskAckSync
  | TaskNak duration

type_synonym active_jobs = "(string \<times> daemon_task) list"

definition publish_status :: "handler_env \<Rightarrow> status_update \<Rightarrow> string option \<times> daemon_effect list" where
  "publish_status env u =
     (if \<not> hn_connected env then (Some (''NATS client not connected, cannot publish status for job '' @ su_job_id u), [])
      else (let subj = nc_status_prefix (dc_nats (hn_config env)) @ ''.'' @ su_job_id u in
            case hn_publish env subj u of
              Some e \<Rightarrow> (Some (''failed to publish status update for job '' @ su_job_id u @ '': '' @ e), [])
            | None \<Rightarrow> (None, [StatusSent subj u])))"

definition terminal_status :: "task_status \<Rightarrow> bool" where
  "terminal_status s \<longleftrightarrow> s = TaskFailed \<or> s = TaskCompleted \<or> s = TaskCancelled"

definition status_of :: "handler_env \<Rightarrow> string \<Rightarrow> task_status \<Rightarrow> string \<Rightarrow> int option \<Rightarrow> string \<Rightarrow> status_update" where
  "status_of env job s m code l =
     \<lparr>su_job_id = job, su_provider_id = dc_instance_id (hn_config env), su_status = s, su_timestamp = hn_now env, su_message = m,
      su_exit_code = code, su_log = l\<rparr>"

definition report_task_status ::
    "handler_env \<Rightarrow> string \<Rightarrow> task_status \<Rightarrow> string \<Rightarrow> int option \<Rightarrow> string \<Rightarrow> active_jobs \<Rightarrow> (string option \<times> daemon_effect list) \<times> active_jobs" where
  "report_task_status env job s m code l active =
     (if \<not> hn_reporter env then ((Some ''reporter not available'', []), active)
      else (publish_status env (status_of env job s m code l), if terminal_status s then AList.delete job active else active))"

text \<open>The error, the effects, the active jobs and whether the task was started.\<close>

definition handle_task :: "handler_env \<Rightarrow> daemon_task \<Rightarrow> active_jobs \<Rightarrow> string option \<times> daemon_effect list \<times> active_jobs \<times> bool" where
  "handle_task env t active =
     (if hn_health env = Some False then
        (case report_task_status env (dt_job_id t) TaskFailed ''Provider GPU is offline; task rejected'' None [] active of
           ((e, es), active') \<Rightarrow> (Some (''provider offline, task '' @ dt_job_id t @ '' rejected''), es, active', False))
      else
        (case report_task_status env (dt_job_id t) TaskPreparing ''Task received by provider daemon'' None []
                (AList.update (dt_job_id t) t active) of
           ((e, es), active') \<Rightarrow> (None, es, active', True)))"

definition execute_task :: "handler_env \<Rightarrow> daemon_task \<Rightarrow> string \<Rightarrow> (execution_result \<times> exec_effect list) option" where
  "execute_task env t ws =
     (if dt_execution_type t = ''script'' then
        (case hn_script env of
           None \<Rightarrow> Some (\<lparr>er_stdout = [], er_stderr = ''ScriptExecutor not initialized on this provider daemon.'', er_exit_code = -1,
                      er_error = Some ''ScriptExecutor not available''\<rparr>, [])
         | Some px \<Rightarrow> Some (script_execute px t ws))
      else if dt_execution_type t = ''docker'' then
        (case hn_docker env of
           NoDocker \<Rightarrow> Some (\<lparr>er_stdout = [], er_stderr = ''DockerExecutor not initialized on this provider daemon, or failed to initialize.'',
                         er_exit_code = -1, er_error = Some ''DockerExecutor not available''\<rparr>, [])
         | DockerPointer nil dk \<Rightarrow> docker_execute dk nil (hn_http env \<noteq> None) (hn_parse env) t ws)
      else Some (\<lparr>er_stdout = [], er_stderr = ''Task specified an unsupported execution type: '' @ dt_execution_type t, er_exit_code = -1,
                  er_error = Some (''unknown execution type: '' @ dt_execution_type t)\<rparr>, []))"

definition final_status :: "execution_result \<Rightarrow> task_status \<times> string \<times> string" where
  "final_status r =
     (let nl = [char_of (10 :: nat)]; log = ''Stdout:'' @ nl @ er_stdout r @ nl @ ''Stderr:'' @ nl @ er_stderr r in
      case er_error r of
        Some e \<Rightarrow> (TaskFailed, ''Task execution failed: '' @ e @ ''. Stderr: '' @ er_stderr r, log)
      | None \<Rightarrow>
          if er_exit_code r \<noteq> 0
          then (TaskFailed, ''Task failed with exit code '' @ int_text (er_exit_code r) @ ''. Stderr: '' @ er_stderr r, log)
          else (TaskCompleted, ''Task completed successfully'', []))"

definition end_billing_session :: "handler_env \<Rightarrow> daemon_task \<Rightarrow> task_status \<Rightarrow> daemon_effect list" where
  "end_billing_session env t s =
     (case hn_http env of None \<Rightarrow> []
      | Some http \<Rightarrow>
          (case text_param t ''session_id'' of None \<Rightarrow> []
           | Some sid \<Rightarrow>
               if sid = [] then []
               else (case hn_parse env sid of Inl e \<Rightarrow> []
                | Inr i \<Rightarrow> [SessionEnd (end_session_url (dc_billing_url (hn_config env))) i (if s = TaskFailed then ''job_failed'' else ''job_finished'')])))"

definition workspace_path :: "handler_env \<Rightarrow> string \<Rightarrow> string" where
  "workspace_path env job = path_join [dc_workspace (hn_config env), job]"

definition cleanup_workspace :: "handler_env \<Rightarrow> string \<Rightarrow> daemon_effect list" where
  "cleanup_workspace env ws = (if dc_executor_type (hn_config env) = ''docker'' then [] else [WorkspaceRemoved ws])"

definition run_task :: "handler_env \<Rightarrow> daemon_task \<Rightarrow> active_jobs \<Rightarrow> (daemon_effect list \<times> active_jobs) option" where
  "run_task env t active =
     (let ws = workspace_path env (dt_job_id t) in
      case hn_mkdir env ws of
        Some e \<Rightarrow>
          (case report_task_status env (dt_job_id t) TaskFailed (''Failed to prepare workspace: '' @ e) None [] active of
             ((e', es), active') \<Rightarrow> Some (es, active'))
      | None \<Rightarrow>
          (case report_task_status env (dt_job_id t) TaskInProgress ''Task execution started'' None [] active of
             ((e1, es1), active1) \<Rightarrow>
               (case execute_task env t ws of
                  None \<Rightarrow> None
                | Some (r, xs) \<Rightarrow>
                    (case final_status r of (s, m, l) \<Rightarrow>
                      (case report_task_status env (dt_job_id t) s m (Some (er_exit_code r)) l active1 of
                         ((e2, es2), active2) \<Rightarrow>
                           Some (WorkspaceMade ws # es1 @ map Executed xs @ es2 @ end_billing_session env t s @ cleanup_workspace env ws,
                                 active2))))))"

definition active_jobs_for_cli :: "active_jobs \<Rightarrow> (string \<times> string \<times> string) list" where
  "active_jobs_for_cli active = map (\<lambda>(j, t). (j, dt_job_name t, ''Processing/Unknown'')) active"

section \<open>The queue\<close>

text \<open>The pattern holds one \<open>%s\<close>.\<close>

fun sprintf_one :: "string \<Rightarrow> string \<Rightarrow> string" where
  "sprintf_one [] x = []"
| "sprintf_one (c # s) x = (if c = CHR ''%'' \<and> take 1 s = ''s'' then x @ drop 1 s else c # sprintf_one s x)"

definition task_subject :: "daemon_config \<Rightarrow> string" where
  "task_subject c = sprintf_one (nc_dispatch_pattern (dc_nats c)) (dc_instance_id c)"

definition durable_name :: "daemon_config \<Rightarrow> string" where
  "durable_name c =
     ''pd_'' @ to_lower (map (\<lambda>x. if x = CHR ''.'' \<or> x = CHR ''-'' then CHR ''_'' else x) (dc_instance_id c)) @ ''_taskconsumer''"

definition handle_task_message ::
    "handler_env \<Rightarrow> string + daemon_task \<Rightarrow> active_jobs \<Rightarrow> daemon_effect list \<times> active_jobs \<times> daemon_task list" where
  "handle_task_message env msg active =
     (case msg of
        Inl e \<Rightarrow> ([TaskAck], active, [])
      | Inr t \<Rightarrow>
          if dt_assigned_provider_id t \<noteq> dc_instance_id (hn_config env) then ([TaskAck], active, [])
          else (case handle_task env t active of
            (Some e, es, active', started) \<Rightarrow>
              (es @ (if hn_nak_fails env then [TaskNak (30 * second), TaskAck] else [TaskNak (30 * second)]), active', [])
          | (None, es, active', started) \<Rightarrow> (es @ [TaskAckSync], active', if started then [t] else [])))"

text \<open>The messages the fetch loop hands on: over its rounds, until a shutdown.\<close>

datatype fetch_round = FetchShutdown | SubscriptionLost | FetchEmpty | FetchError | FetchedTasks "(string + daemon_task) list"

fun fetched_messages :: "fetch_round list \<Rightarrow> (string + daemon_task) list" where
  "fetched_messages [] = []"
| "fetched_messages (FetchShutdown # rs) = []"
| "fetched_messages (FetchedTasks ms # rs) = ms @ fetched_messages rs"
| "fetched_messages (r # rs) = fetched_messages rs"

text \<open>The client's connection (\<open>None\<close> before it is made), its subscription with whether it is valid, and the fetch loops it has started.\<close>

record queue_client =
  qc_connected :: "bool option"
  qc_server_url :: string
  qc_last_error :: "string option"
  qc_stream :: bool
  qc_subscription :: "bool option"
  qc_loops :: nat

definition new_queue_client :: "(string \<Rightarrow> string + bool \<times> string \<times> string option) \<Rightarrow> string option \<Rightarrow> daemon_config \<Rightarrow> string + queue_client" where
  "new_queue_client connect stream c =
     (case connect (nc_url (dc_nats c)) of
        Inl e \<Rightarrow> Inl (''failed to connect to NATS at '' @ nc_url (dc_nats c) @ '': '' @ e)
      | Inr (up, url, err) \<Rightarrow>
          (case stream of
             Some e \<Rightarrow> Inl (''failed to get JetStream context: '' @ e)
           | None \<Rightarrow> Inr \<lparr>qc_connected = Some up, qc_server_url = url, qc_last_error = err, qc_stream = True, qc_subscription = None, qc_loops = 0\<rparr>))"

text \<open>\<open>pull\<close>: what the server answers to a subject and a consumer name. A subscription that is refused replaces the old one.\<close>

definition start_subscription :: "(string \<Rightarrow> string \<Rightarrow> string option) \<Rightarrow> daemon_config \<Rightarrow> queue_client \<Rightarrow> string option \<times> queue_client" where
  "start_subscription pull c q =
     (if \<not> qc_stream q then (Some ''JetStream context is not available to start subscription'', q)
      else (case pull (task_subject c) (durable_name c) of
              Some e \<Rightarrow> (Some (''failed to create pull subscription for tasks: '' @ e), q\<lparr>qc_subscription := None\<rparr>)
            | None \<Rightarrow> (None, q\<lparr>qc_subscription := Some True, qc_loops := qc_loops q + 1\<rparr>)))"

text \<open>The reconnect handler, and a round of the fetch loop that finds its subscription lost: both subscribe again.\<close>

definition resubscribe :: "(string \<Rightarrow> string \<Rightarrow> string option) \<Rightarrow> daemon_config \<Rightarrow> queue_client \<Rightarrow> queue_client" where
  "resubscribe pull c q = snd (start_subscription pull c q)"

record network_status =
  ns_connected :: bool
  ns_server_url :: string
  ns_last_error :: string
  ns_subscriptions :: nat

definition is_connected :: "queue_client \<Rightarrow> bool" where
  "is_connected q = (qc_connected q = Some True)"

definition connection_url :: "daemon_config \<Rightarrow> queue_client \<Rightarrow> string" where
  "connection_url c q = (if qc_connected q = Some True then qc_server_url q else nc_url (dc_nats c))"

definition last_error_str :: "queue_client \<Rightarrow> string" where
  "last_error_str q =
     (if qc_connected q = None then ''NATS client not initialized'' else case qc_last_error q of None \<Rightarrow> [] | Some e \<Rightarrow> e)"

definition active_subscription_count :: "queue_client \<Rightarrow> nat" where
  "active_subscription_count q = (if qc_subscription q = Some True then 1 else 0)"

definition get_network_status_json :: "daemon_config \<Rightarrow> string + queue_client \<Rightarrow> network_status cli_output" where
  "get_network_status_json c client =
     CliOk (case client of
        Inl e \<Rightarrow> \<lparr>ns_connected = False, ns_server_url = nc_url (dc_nats c), ns_last_error = ''Failed to initialize NATS client: '' @ e,
                  ns_subscriptions = 0\<rparr>
      | Inr q \<Rightarrow> \<lparr>ns_connected = is_connected q, ns_server_url = connection_url c q, ns_last_error = last_error_str q,
                  ns_subscriptions = active_subscription_count q\<rparr>)"

record cli_financial_summary =
  cf_current_balance :: rat
  cf_total_earned :: rat
  cf_pending_payout :: rat
  cf_last_payout_at :: "time option"

definition get_financial_summary_json :: "time \<Rightarrow> daemon_config \<Rightarrow> cli_financial_summary cli_output" where
  "get_financial_summary_json now c =
     (let f = get_financial_summary now (dc_instance_id c) in
      CliOk \<lparr>cf_current_balance = fs_current_balance f, cf_total_earned = fs_total_earned f, cf_pending_payout = fs_pending_payout f,
             cf_last_payout_at = Some (fs_last_payout_at f)\<rparr>)"

lemma resubscribe_adds_loop:
  assumes "qc_stream q" "pull (task_subject c) (durable_name c) = None"
  shows "qc_loops ((resubscribe pull c ^^ n) q) = qc_loops q + n \<and> qc_stream ((resubscribe pull c ^^ n) q)"
  using assms by (induction n) (auto simp: resubscribe_def start_subscription_def)

text \<open>Every subscription that is made again starts a fetch loop beside those that already run: after \<open>n\<close> reconnections the daemon fetches on
  \<open>n + 1\<close> loops at once, and reports one subscription.\<close>

theorem reconnections_add_loops:
  assumes "new_queue_client connect stream c = Inr q" "pull (task_subject c) (durable_name c) = None"
  shows "qc_loops ((resubscribe pull c ^^ n) (snd (start_subscription pull c q))) = n + 1
    \<and> active_subscription_count ((resubscribe pull c ^^ n) (snd (start_subscription pull c q))) = 1"
proof -
  have q: "qc_stream q" "qc_loops q = 0"
    using assms(1) by (auto simp: new_queue_client_def split: sum.splits option.splits)
  have s: "resubscribe pull c ((resubscribe pull c ^^ n) q) = (resubscribe pull c ^^ Suc n) q" for n by simp
  have "qc_subscription ((resubscribe pull c ^^ Suc n) q) = Some True"
    using resubscribe_adds_loop [where pull = pull and c = c and q = q and n = n, OF q(1) assms(2)] assms(2)
    by (simp add: resubscribe_def [of pull c "(resubscribe pull c ^^ n) q"] start_subscription_def)
  moreover have "(resubscribe pull c ^^ n) (snd (start_subscription pull c q)) = (resubscribe pull c ^^ Suc n) q"
    by (simp add: resubscribe_def [symmetric] funpow_swap1)
  ultimately show ?thesis
    using resubscribe_adds_loop [where pull = pull and c = c and q = q and n = "Suc n", OF q(1) assms(2)] q(2) by (simp add: active_subscription_count_def)
qed

section \<open>Steps\<close>

record daemon_state =
  da_active :: active_jobs
  da_running :: "daemon_task list"

inductive daemon_step :: "handler_env \<Rightarrow> daemon_state \<Rightarrow> daemon_effect list \<Rightarrow> daemon_state option \<Rightarrow> bool" where
  take_message: "handle_task_message env msg (da_active st) = (es, active', started) \<Longrightarrow>
     daemon_step env st es (Some \<lparr>da_active = active', da_running = da_running st @ started\<rparr>)"
| finish_task: "da_running st = xs @ t # ys \<Longrightarrow> run_task env t (da_active st) = Some (es, active') \<Longrightarrow>
     daemon_step env st es (Some \<lparr>da_active = active', da_running = xs @ ys\<rparr>)"
| task_panics: "t \<in> set (da_running st) \<Longrightarrow> run_task env t (da_active st) = None \<Longrightarrow> daemon_step env st [] None"

inductive_cases daemon_stepE: "daemon_step env st es r"

text \<open>The daemon listens only after its reporter is set.\<close>

inductive daemon_reaches :: "daemon_state \<Rightarrow> bool" where
  daemon_start: "daemon_reaches \<lparr>da_active = [], da_running = []\<rparr>"
| daemon_next: "daemon_reaches st \<Longrightarrow> hn_reporter env \<Longrightarrow> daemon_step env st es (Some st') \<Longrightarrow> daemon_reaches st'"

end
