(* ===== verification/DaemonFacts.thy ===== *)
theory DaemonFacts
  imports DaemonTasks Consumer
begin

text \<open>What the daemon does with a task: which are active, how a run ends, and what becomes of the tasks the scheduler sends.\<close>

section \<open>Active jobs\<close>

lemma delete_keys: "fst ` set (AList.delete k xs) = fst ` set xs - {k}"
  by (auto simp: AList.delete_eq)

lemma update_keys: "fst ` set (AList.update k v xs) = insert k (fst ` set xs)"
  by (induction xs) auto

lemma report_keys:
  "fst ` set (snd (report_task_status env job s m c l active)) =
     (if hn_reporter env \<and> terminal_status s then fst ` set active - {job} else fst ` set active)"
  by (simp add: report_task_status_def delete_keys)

lemma handle_task_keys:
  assumes "handle_task env t active = (e, es, active', started)"
  shows "fst ` set active' \<subseteq> fst ` set active \<union> (if started then {dt_job_id t} else {}) \<and> (started \<longleftrightarrow> e = None)"
  using assms report_keys [of env "dt_job_id t" TaskFailed "''Provider GPU is offline; task rejected''" None "[]" active]
    report_keys [of env "dt_job_id t" TaskPreparing "''Task received by provider daemon''" None "[]" "AList.update (dt_job_id t) t active"]
  by (auto simp: handle_task_def update_keys terminal_status_def split: prod.splits if_splits)

lemma run_task_keys:
  assumes "run_task env t active = Some (es, active')" "hn_reporter env"
  shows "fst ` set active' \<subseteq> fst ` set active - {dt_job_id t}"
proof -
  have final: "terminal_status s" if "final_status r = (s, m, l)" for r s m l
    using that by (auto simp: final_status_def terminal_status_def Let_def split: option.splits if_splits)
  show ?thesis
    using assms
    by (auto simp: run_task_def report_task_status_def Let_def delete_keys image_iff AList.delete_eq terminal_status_def
        split: option.splits prod.splits if_splits dest!: final)
qed

lemma handle_message_keys:
  assumes "handle_task_message env msg active = (es, active', started)"
  shows "fst ` set active' \<subseteq> fst ` set active \<union> dt_job_id ` set started"
proof (cases msg)
  case (Inr t)
  obtain e es1 active1 st1 where h: "handle_task env t active = (e, es1, active1, st1)" by (metis prod_cases4)
  show ?thesis
    using assms handle_task_keys [OF h] by (auto simp: Inr handle_task_message_def h split: if_splits option.splits)
qed (use assms in \<open>auto simp: handle_task_message_def\<close>)

text \<open>C33. The list of active jobs never names a job that is not running: every path of a task that was taken, failures included, takes its job from
  the list before the task is gone.\<close>

theorem active_jobs_are_running:
  "daemon_reaches st \<Longrightarrow> fst ` set (da_active st) \<subseteq> dt_job_id ` set (da_running st)"
proof (induction rule: daemon_reaches.induct)
  case (daemon_next st env es st')
  from daemon_next.hyps(3) show ?case
  proof (rule daemon_stepE)
    fix msg active' started
    assume "Some st' = Some \<lparr>da_active = active', da_running = da_running st @ started\<rparr>"
      "handle_task_message env msg (da_active st) = (es, active', started)"
    with handle_message_keys [of env msg "da_active st" es active' started] daemon_next.IH show ?thesis
      by (simp add: image_Un) blast
  next
    fix xs t ys active'
    assume "Some st' = Some \<lparr>da_active = active', da_running = xs @ ys\<rparr>" "da_running st = xs @ t # ys"
      "run_task env t (da_active st) = Some (es, active')"
    then have "fst ` set active' \<subseteq> dt_job_id ` set (da_running st) - {dt_job_id t}"
      using run_task_keys [of env t "da_active st" es active'] daemon_next.IH daemon_next.hyps(2) by blast
    also have "\<dots> \<subseteq> dt_job_id ` set (xs @ ys)" unfolding \<open>da_running st = xs @ t # ys\<close> by auto
    finally show ?thesis using \<open>Some st' = Some \<lparr>da_active = active', da_running = xs @ ys\<rparr>\<close> by simp
  qed simp
qed simp

section \<open>Taking tasks\<close>

lemma healthy_task_taken:
  fixes env :: handler_env
  assumes "hn_health env \<noteq> Some False" "dt_assigned_provider_id t = dc_instance_id (hn_config env)"
  shows "\<exists>es active'. handle_task_message env (Inr t) active = (es @ [TaskAckSync], active', [t])"
  using assms by (auto simp: handle_task_message_def handle_task_def split: prod.split)

text \<open>The number of jobs the provider configured is no limit: a healthy daemon takes every task addressed to it and acknowledges it, however
  many are running.\<close>

theorem jobs_without_limit:
  fixes env :: handler_env
  assumes "hn_health env \<noteq> Some False" "hn_reporter env" "\<forall>t \<in> set ts. dt_assigned_provider_id t = dc_instance_id (hn_config env)"
  shows "\<exists>st. daemon_reaches st \<and> da_running st = ts"
  using assms(3)
proof (induction ts rule: rev_induct)
  case Nil
  show ?case using daemon_start by fastforce
next
  case (snoc t ts)
  then obtain st where st: "daemon_reaches st" "da_running st = ts" by auto
  from snoc.prems obtain es active' where "handle_task_message env (Inr t) (da_active st) = (es @ [TaskAckSync], active', [t])"
    using healthy_task_taken [OF assms(1), of t "da_active st"] by auto
  from daemon_next [OF st(1) assms(2) take_message [OF this]] st(2) show ?case by fastforce
qed

section \<open>Billing sessions\<close>

fun ends_session :: "daemon_effect \<Rightarrow> bool" where
  "ends_session (SessionEnd url i reason) = True"
| "ends_session e = False"

lemma report_no_session: "filter ends_session (snd (fst (report_task_status env job s m c l active))) = []"
  by (auto simp: report_task_status_def publish_status_def Let_def split: option.split)

lemma report_no_session_prod:
  "report_task_status env job s m c l active = ((e, es), active') \<Longrightarrow> filter ends_session es = []"
  using report_no_session [of env job s m c l active] by simp

lemma executed_no_session: "filter ends_session (map Executed xs) = []"
  by (induction xs) auto

lemma cleanup_no_session: "filter ends_session (cleanup_workspace env ws) = []"
  by (simp add: cleanup_workspace_def)

lemma run_task_effects:
  assumes "run_task env t active = Some (es, active')" "hn_mkdir env (workspace_path env (dt_job_id t)) = None"
    "execute_task env t (workspace_path env (dt_job_id t)) = Some (r, xs)"
  shows "filter ends_session es = filter ends_session (end_billing_session env t (fst (final_status r)))"
  using assms report_no_session_prod executed_no_session cleanup_no_session
  by (auto simp: run_task_def Let_def split: prod.splits)

lemma final_status_exact:
  "fst (final_status r) = (if er_error r = None \<and> er_exit_code r = 0 then TaskCompleted else TaskFailed)"
  by (auto simp: final_status_def Let_def split: option.split)

text \<open>C32. A task that was executed ends its rental session exactly once, whatever it was and however it went: as finished when it left no error and the
  exit code zero, as failed otherwise.\<close>

theorem executed_task_ends_session:
  assumes "run_task env t active = Some (es, active')" "hn_mkdir env (workspace_path env (dt_job_id t)) = None"
    "execute_task env t (workspace_path env (dt_job_id t)) = Some (r, xs)"
    "hn_http env \<noteq> None" "text_param t ''session_id'' = Some sid" "sid \<noteq> []" "hn_parse env sid = Inr i"
  shows "filter ends_session es = [SessionEnd (end_session_url (dc_billing_url (hn_config env))) i
    (if er_error r = None \<and> er_exit_code r = 0 then ''job_finished'' else ''job_failed'')]"
  using run_task_effects [OF assms(1-3)] assms(4-7) final_status_exact [of r] by (auto simp: end_billing_session_def)

text \<open>Two failures leave the session of a task open, and so billed: a task refused because the GPUs are offline, and one whose workspace cannot be
  made. Both are reported as failed; the first goes back to the queue, so it can run after it was reported as failed.\<close>

theorem failures_keep_session:
  assumes "dt_assigned_provider_id t = dc_instance_id (hn_config env)" "hn_reporter env" "hn_connected env" "\<And>s u. hn_publish env s u = None"
  shows "(hn_health env = Some False \<longrightarrow> (\<exists>es active' u. handle_task_message env (Inr t) active = (es, active', [])
      \<and> filter ends_session es = [] \<and> TaskNak (30 * second) \<in> set es \<and> StatusSent (nc_status_prefix (dc_nats (hn_config env)) @ ''.'' @ dt_job_id t) u \<in> set es
      \<and> su_status u = TaskFailed))
    \<and> (hn_mkdir env (workspace_path env (dt_job_id t)) \<noteq> None \<longrightarrow> (\<exists>es active' u. run_task env t active = Some (es, active')
      \<and> filter ends_session es = [] \<and> StatusSent (nc_status_prefix (dc_nats (hn_config env)) @ ''.'' @ dt_job_id t) u \<in> set es \<and> su_status u = TaskFailed))"
  using assms
  by (auto simp: handle_task_message_def handle_task_def report_task_status_def publish_status_def Let_def status_of_def run_task_def)

end
