(* ===== verification/DaemonClaims.thy ===== *)
theory DaemonClaims
  imports DaemonFacts
begin

text \<open>
  The daemon behind the scheduler and in front of the billing service: what becomes of dispatched tasks, of a missing Docker daemon, and of the
  end of a session. \<open>session_route\<close> are the routes of \<open>/api/v1/billing\<close> in \<open>billing-payment-service/cmd/main.go\<close>.
\<close>

section \<open>Dispatched tasks\<close>

lemma reported:
  fixes env :: handler_env
  assumes "hn_reporter env" "hn_connected env" "\<And>s u. hn_publish env s u = None"
  shows "fst (report_task_status env job s m c l active) =
    (None, [StatusSent (nc_status_prefix (dc_nats (hn_config env)) @ ''.'' @ job) (status_of env job s m c l)])"
  using assms by (simp add: report_task_status_def publish_status_def Let_def status_of_def)

lemma reported_prod:
  fixes env :: handler_env
  assumes "hn_reporter env" "hn_connected env" "\<And>s u. hn_publish env s u = None"
  shows "\<exists>active'. report_task_status env job s m c l active =
    ((None, [StatusSent (nc_status_prefix (dc_nats (hn_config env)) @ ''.'' @ job) (status_of env job s m c l)]), active')"
  using reported [OF assms] by (metis prod.collapse)

fun executes :: "daemon_effect \<Rightarrow> bool" where
  "executes (Executed e) = True"
| "executes e = False"

fun completes :: "daemon_effect \<Rightarrow> bool" where
  "completes (StatusSent s u) = (su_status u = TaskCompleted)"
| "completes e = False"

text \<open>A task without a kind of execution.\<close>

lemma kindless_task_fails:
  fixes env :: handler_env
  assumes "dt_execution_type t \<noteq> ''script''" "dt_execution_type t \<noteq> ''docker''" "hn_mkdir env (workspace_path env (dt_job_id t)) = None"
    "hn_reporter env" "hn_connected env" "\<And>s u. hn_publish env s u = None"
  shows "\<exists>es active' u. run_task env t active = Some (es, active') \<and> filter executes es = [] \<and> filter completes es = []
    \<and> StatusSent (nc_status_prefix (dc_nats (hn_config env)) @ ''.'' @ dt_job_id t) u \<in> set es \<and> su_status u = TaskFailed \<and> su_exit_code u = Some (-1)
    \<and> filter ends_session es = end_billing_session env t TaskFailed"
proof -
  obtain r where x: "execute_task env t (workspace_path env (dt_job_id t)) = Some (r, [])" "er_error r \<noteq> None" "er_exit_code r = -1"
    using assms(1,2) by (simp add: execute_task_def)
  obtain m l where f: "final_status r = (TaskFailed, m, l)" using x(2) by (auto simp: final_status_def Let_def)
  obtain a1 where r1: "report_task_status env (dt_job_id t) TaskInProgress ''Task execution started'' None [] active =
      ((None, [StatusSent (nc_status_prefix (dc_nats (hn_config env)) @ ''.'' @ dt_job_id t)
        (status_of env (dt_job_id t) TaskInProgress ''Task execution started'' None [])]), a1)"
    using reported_prod [OF assms(4,5,6)] by blast
  obtain a2 where r2: "report_task_status env (dt_job_id t) TaskFailed m (Some (-1)) l a1 =
      ((None, [StatusSent (nc_status_prefix (dc_nats (hn_config env)) @ ''.'' @ dt_job_id t)
        (status_of env (dt_job_id t) TaskFailed m (Some (-1)) l)]), a2)"
    using reported_prod [OF assms(4,5,6)] by blast
  have e: "filter executes (end_billing_session env t TaskFailed) = []" "filter completes (end_billing_session env t TaskFailed) = []"
    "filter ends_session (end_billing_session env t TaskFailed) = end_billing_session env t TaskFailed"
    by (auto simp: end_billing_session_def split: option.splits sum.splits)
  define subj where "subj = nc_status_prefix (dc_nats (hn_config env)) @ ''.'' @ dt_job_id t"
  define u where "u = status_of env (dt_job_id t) TaskFailed m (Some (-1)) l"
  have run: "run_task env t active = Some (WorkspaceMade (workspace_path env (dt_job_id t))
      # StatusSent subj (status_of env (dt_job_id t) TaskInProgress ''Task execution started'' None [])
      # StatusSent subj u # end_billing_session env t TaskFailed @ cleanup_workspace env (workspace_path env (dt_job_id t)), a2)"
    using assms(3) x f r1 r2 by (simp add: run_task_def Let_def subj_def u_def)
  have c: "filter executes (cleanup_workspace env ws) = []" "filter completes (cleanup_workspace env ws) = []"
    "filter ends_session (cleanup_workspace env ws) = []" for ws
    by (simp_all add: cleanup_workspace_def)
  have u: "su_status u = TaskFailed" "su_exit_code u = Some (-1)" by (simp_all add: u_def status_of_def)
  have s: "su_status (status_of env (dt_job_id t) TaskInProgress ''Task execution started'' None []) = TaskInProgress"
    by (simp add: status_of_def)
  define es where "es = WorkspaceMade (workspace_path env (dt_job_id t))
      # StatusSent subj (status_of env (dt_job_id t) TaskInProgress ''Task execution started'' None [])
      # StatusSent subj u # end_billing_session env t TaskFailed @ cleanup_workspace env (workspace_path env (dt_job_id t))"
  have "filter executes es = []" "filter completes es = []" "filter ends_session es = end_billing_session env t TaskFailed"
    "StatusSent subj u \<in> set es"
    by (simp_all add: es_def c e s u)
  with run u show ?thesis unfolding subj_def [symmetric] es_def [symmetric] by blast
qed

text \<open>C31. No task the scheduler dispatches is ever executed: its message carries no execution type, so the provider it was dispatched to takes it,
  acknowledges it, runs nothing, reports it as failed with exit code -1, and ends the session the scheduler opened for it as failed.\<close>

theorem dispatched_task_never_runs:
  fixes env :: handler_env and cenv :: consumer_env
  assumes "t = received_task (job_task cenv j p sid)" "dc_instance_id (hn_config env) = uuid_text (lp_id p)" "hn_health env \<noteq> Some False"
    "hn_mkdir env (workspace_path env (j_id j)) = None" "hn_reporter env" "hn_connected env" "\<And>s u. hn_publish env s u = None"
  shows "\<exists>es1 active1 es2 active2 u. handle_task_message env (Inr t) active = (es1 @ [TaskAckSync], active1, [t])
    \<and> run_task env t active1 = Some (es2, active2) \<and> filter executes es2 = [] \<and> filter completes es2 = []
    \<and> StatusSent (nc_status_prefix (dc_nats (hn_config env)) @ ''.'' @ j_id j) u \<in> set es2 \<and> su_status u = TaskFailed \<and> su_exit_code u = Some (-1)
    \<and> (hn_http env \<noteq> None \<and> sid = uuid_text i \<and> hn_parse env sid = Inr i \<longrightarrow>
         filter ends_session es2 = [SessionEnd (end_session_url (dc_billing_url (hn_config env))) i ''job_failed''])"
proof -
  have t: "dt_execution_type t = []" "dt_job_id t = j_id j" "dt_assigned_provider_id t = dc_instance_id (hn_config env)"
    by (simp_all add: assms(1,2) received_task_def job_task_def new_task_def Let_def)
  have sid: "text_param t ''session_id'' = Some sid" if "sid \<noteq> []"
    using that by (simp add: assms(1) received_task_def job_task_def with_session_def text_param_def param_def Let_def)
  have nonempty: "uuid_text i \<noteq> []" by (simp add: uuid_text_def Let_def)
  obtain es1 active1 where m: "handle_task_message env (Inr t) active = (es1 @ [TaskAckSync], active1, [t])"
    using healthy_task_taken [OF assms(3) t(3)] by blast
  have k: "dt_execution_type t \<noteq> ''script''" "dt_execution_type t \<noteq> ''docker''" "hn_mkdir env (workspace_path env (dt_job_id t)) = None"
    using t assms(4) by simp_all
  obtain es2 active2 u where r: "run_task env t active1 = Some (es2, active2)" "filter executes es2 = []" "filter completes es2 = []"
    "StatusSent (nc_status_prefix (dc_nats (hn_config env)) @ ''.'' @ j_id j) u \<in> set es2" "su_status u = TaskFailed" "su_exit_code u = Some (-1)"
    "filter ends_session es2 = end_billing_session env t TaskFailed"
    using kindless_task_fails [OF k assms(5-7), of active1] unfolding t by blast
  have "filter ends_session es2 = [SessionEnd (end_session_url (dc_billing_url (hn_config env))) i ''job_failed'']"
    if "hn_http env \<noteq> None" "sid = uuid_text i" "hn_parse env sid = Inr i"
    using that r(7) sid nonempty by (auto simp: end_billing_session_def)
  with m r show ?thesis by blast
qed

section \<open>A missing Docker daemon\<close>

text \<open>When the Docker client cannot be made, the handler is given a nil pointer that it does not recognise as missing: the first container task
  with an image and no script ends the daemon instead of being reported as failed, and with it every other task that is running.\<close>

theorem missing_docker_ends_daemon:
  fixes env :: handler_env
  assumes "hn_docker env = DockerPointer True dk" "dt_execution_type t = ''docker''" "text_param t ''docker_image'' = Some img" "img \<noteq> []"
    "filled_param t ''script_content'' = None" "hn_mkdir env (workspace_path env (dt_job_id t)) = None" "t \<in> set (da_running st)"
  shows "daemon_step env st [] None \<and>
    (\<exists>es active'. run_task (env\<lparr>hn_docker := NoDocker\<rparr>) t (da_active st) = Some (es, active'))"
proof
  have "execute_task env t ws = None" for ws
    using assms(1-5) by (simp add: execute_task_def docker_execute_def docker_script_def)
  then have "run_task env t (da_active st) = None"
    using assms(6) by (simp add: run_task_def Let_def split: prod.split)
  then show "daemon_step env st [] None" using assms(7) by (rule task_panics [rotated])
  show "\<exists>es active'. run_task (env\<lparr>hn_docker := NoDocker\<rparr>) t (da_active st) = Some (es, active')"
    using assms(2,6) by (auto simp: run_task_def Let_def execute_task_def workspace_path_def split: prod.split)
qed

section \<open>The end of a session\<close>

datatype session_handler = StartSession | EndSession | DisputeSessionRoute | UsageUpdate | CurrentUsage string | BillingHistory

definition session_group :: "string \<Rightarrow> string list \<Rightarrow> session_handler option" where
  "session_group meth segs =
     (case segs of
        [a] \<Rightarrow>
          if (a, meth) = (''start-session'', ''POST'') then Some StartSession
          else if (a, meth) = (''end-session'', ''POST'') then Some EndSession
          else if (a, meth) = (''dispute'', ''POST'') then Some DisputeSessionRoute
          else if (a, meth) = (''usage-update'', ''POST'') then Some UsageUpdate
          else if (a, meth) = (''history'', ''GET'') then Some BillingHistory
          else None
      | [a, i] \<Rightarrow> if (a, meth) = (''current-usage'', ''GET'') \<and> i \<noteq> [] then Some (CurrentUsage i) else None
      | _ \<Rightarrow> None)"

definition session_route :: "string \<Rightarrow> string \<Rightarrow> session_handler option" where
  "session_route meth path =
     (case split_char CHR ''/'' path of
        [] # a # b # c # segs \<Rightarrow> if (a, b, c) = (''api'', ''v1'', ''billing'') then session_group meth segs else None
      | _ \<Rightarrow> None)"

text \<open>With the configuration a daemon writes for itself no session is ever ended: the default address of the billing service already holds the
  path the client adds, and no route of the service matches the doubled path; with the address alone the end of a session is reached.\<close>

theorem default_address_ends_nothing:
  "\<exists>p. end_session_url (dc_billing_url (default_config host tmp)) = ''http://localhost:8081'' @ p \<and> session_route ''POST'' p = None
    \<and> (\<exists>q. end_session_url ''http://localhost:8081'' = ''http://localhost:8081'' @ q \<and> session_route ''POST'' q = Some EndSession)"
proof (intro exI conjI)
  show "end_session_url (dc_billing_url (default_config host tmp)) = ''http://localhost:8081'' @ ''/api/v1/billing/api/v1/billing/end-session''"
    by (simp add: end_session_url_def default_config_def)
  show "session_route ''POST'' ''/api/v1/billing/api/v1/billing/end-session'' = None"
    by (simp add: session_route_def session_group_def)
  show "end_session_url ''http://localhost:8081'' = ''http://localhost:8081'' @ ''/api/v1/billing/end-session''"
    by (simp add: end_session_url_def)
  show "session_route ''POST'' ''/api/v1/billing/end-session'' = Some EndSession"
    by (simp add: session_route_def session_group_def)
qed

end
