(* ===== verification/DaemonDemo.thy ===== *)
theory DaemonDemo
  imports DaemonClaims ConsumerDemo
begin

text \<open>One daemon, its tasks, and the witnesses on them.\<close>

definition rig_config :: daemon_config where
  "rig_config = (default_config ''rig'' ''/tmp'')\<lparr>dc_instance_id := uuid_text 7, dc_executor_type := ''script'', dc_workspace := ''/w''\<rparr>"

definition rig_process :: process_env where
  "rig_process = \<lparr>px_write = (\<lambda>_ _. None), px_run = (\<lambda>_ _ _ _. (Finished, ''done'', []))\<rparr>"

definition rig_parse :: "string \<Rightarrow> string + uuid" where
  "rig_parse s = (if s = uuid_text 42 then Inr 42 else Inl ''invalid UUID'')"

definition rig_docker :: docker_env where
  "rig_docker = \<lparr>dk_float = (\<lambda>s. if s = ''0'' then Some 0 else None), dk_write = (\<lambda>_ _. None), dk_pull = (\<lambda>_. None), dk_stamp = ''t'',
     dk_create = (\<lambda>_. Inr ''c1''), dk_start = (\<lambda>_. None), dk_wait = (\<lambda>_ _. WaitStatus 0), dk_logs = (\<lambda>_. None), dk_inspect = (\<lambda>_. Inr 0)\<rparr>"

definition rig_env :: handler_env where
  "rig_env = \<lparr>hn_config = rig_config, hn_now = 0, hn_reporter = True, hn_connected = True, hn_publish = (\<lambda>_ _. None), hn_health = Some True,
     hn_mkdir = (\<lambda>_. None), hn_script = Some rig_process, hn_docker = DockerPointer True rig_docker, hn_http = Some (\<lambda>_ _ _. Inr (200, None)),
     hn_parse = rig_parse, hn_nak_fails = False\<rparr>"

definition rig_task :: "string \<Rightarrow> json_map \<Rightarrow> daemon_task" where
  "rig_task kind ps = \<lparr>dt_job_id = ''job-1'', dt_user_id = ''u'', dt_job_type = ''train'', dt_job_name = ''n'', dt_job_params = Some ps,
     dt_execution_type = kind, dt_gpu_type_needed = [], dt_gpu_count_needed = 0, dt_assigned_provider_id = uuid_text 7, dt_dispatched_at = 0,
     dt_selected_gpu = None\<rparr>"

lemma rig_simps [simp]:
  "hn_config rig_env = rig_config" "hn_reporter rig_env" "hn_connected rig_env" "hn_publish rig_env s u = None" "hn_health rig_env = Some True"
  "hn_mkdir rig_env ws = None" "hn_script rig_env = Some rig_process" "hn_docker rig_env = DockerPointer True rig_docker" "hn_parse rig_env = rig_parse"
  "hn_http rig_env = Some (\<lambda>_ _ _. Inr (200, None))"
  "dc_instance_id rig_config = uuid_text 7" "dc_executor_type rig_config = ''script''"
  "dt_execution_type (rig_task k ps) = k" "dt_job_id (rig_task k ps) = ''job-1''" "dt_assigned_provider_id (rig_task k ps) = uuid_text 7"
  "text_param (rig_task k ps) x = (case ps x of Some (JString s) \<Rightarrow> Some s | _ \<Rightarrow> None)"
  by (simp_all add: rig_env_def rig_config_def rig_task_def text_param_def param_def)

section \<open>A script\<close>

definition script_params :: json_map where
  "script_params = [''script_content'' \<mapsto> JString ''echo'', ''script_filename'' \<mapsto> JString ''../../etc/x'', ''session_id'' \<mapsto> JString (uuid_text 42)]"

lemma script_filled:
  "filled_param (rig_task k script_params) ''script_content'' = Some ''echo''"
  "filled_param (rig_task k script_params) ''script_filename'' = Some (climb 2 [''etc'', ''x''])"
  by (simp_all add: filled_param_def script_params_def climb_def numeral_2_eq_2 trim_space_def is_space_def)

theorem script_written_anywhere_witness:
  "\<exists>i limit es. snd (script_execute rig_process (rig_task ''script'' script_params) ''/w/job-1'') =
     FileWritten ''/etc/x'' ''echo'' # ProcessRun i ''/etc/x'' ''/w/job-1'' limit # es"
proof -
  have a: "\<forall>s \<in> set [''w'', ''job-1'']. plain_segment s" "[''w'', ''job-1''] \<noteq> []" "\<forall>s \<in> set [''etc'', ''x'']. plain_segment s" "[''etc'', ''x''] \<noteq> []"
    by (simp_all add: plain_segment_def)
  have f: "filled_param (rig_task ''script'' script_params) ''script_filename'' = Some (climb (length [''w'', ''job-1'']) [''etc'', ''x''])"
    using script_filled(2) by (simp add: numeral_2_eq_2)
  have w: "px_write rig_process (absolute [''etc'', ''x'']) ''echo'' = None" by (simp add: rig_process_def)
  from script_written_anywhere [OF a script_filled(1) f w] show ?thesis by (simp add: absolute_def)
qed

lemma rig_workspace: "workspace_path rig_env ''job-1'' = ''/w/job-1''"
proof -
  have "path_join [absolute [''w''], ''job-1''] = absolute ([''w''] @ [''job-1''])"
    by (rule path_join_plain) (simp_all add: plain_segment_def)
  then show ?thesis by (simp add: workspace_path_def rig_config_def absolute_def)
qed

lemma script_runs:
  "\<exists>xs. execute_task rig_env (rig_task ''script'' script_params) ws = Some (\<lparr>er_stdout = ''done'', er_stderr = [], er_exit_code = 0, er_error = None\<rparr>, xs)"
  by (simp add: execute_task_def script_execute_def script_filled Let_def) (simp add: rig_process_def)

lemma run_task_total:
  fixes env :: handler_env
  assumes "hn_mkdir env (workspace_path env (dt_job_id t)) = None" "execute_task env t (workspace_path env (dt_job_id t)) = Some (r, xs)"
  shows "\<exists>es active'. run_task env t active = Some (es, active')"
  using assms by (auto simp: run_task_def Let_def split: prod.split)

theorem executed_task_ends_session_witness:
  "\<exists>es active'. run_task rig_env (rig_task ''script'' script_params) [] = Some (es, active')
     \<and> filter ends_session es = [SessionEnd (end_session_url (dc_billing_url rig_config)) 42 ''job_finished'']"
proof -
  obtain xs where x: "execute_task rig_env (rig_task ''script'' script_params) (workspace_path rig_env (dt_job_id (rig_task ''script'' script_params)))
      = Some (\<lparr>er_stdout = ''done'', er_stderr = [], er_exit_code = 0, er_error = None\<rparr>, xs)"
    using script_runs by blast
  obtain es active' where r: "run_task rig_env (rig_task ''script'' script_params) [] = Some (es, active')"
    using run_task_total [OF _ x, of "[]"] by auto
  have h: "hn_mkdir rig_env (workspace_path rig_env (dt_job_id (rig_task ''script'' script_params))) = None" "hn_http rig_env \<noteq> None"
    "text_param (rig_task ''script'' script_params) ''session_id'' = Some (uuid_text 42)" "uuid_text 42 \<noteq> []" "hn_parse rig_env (uuid_text 42) = Inr 42"
    by (simp_all add: script_params_def rig_parse_def uuid_text_def Let_def)
  from executed_task_ends_session [OF r h(1) x h(2-)] r show ?thesis by simp
qed

section \<open>Failures\<close>

theorem failures_keep_session_witness:
  "\<exists>es active' u. handle_task_message (rig_env\<lparr>hn_health := Some False\<rparr>) (Inr (rig_task ''script'' script_params)) [] = (es, active', [])
     \<and> filter ends_session es = [] \<and> TaskNak (30 * second) \<in> set es
     \<and> StatusSent (nc_status_prefix (dc_nats rig_config) @ ''.job-1'') u \<in> set es \<and> su_status u = TaskFailed"
proof -
  let ?e = "rig_env\<lparr>hn_health := Some False\<rparr>"
  have h: "dt_assigned_provider_id (rig_task ''script'' script_params) = dc_instance_id (hn_config ?e)" "hn_reporter ?e" "hn_connected ?e"
    "\<And>s u. hn_publish ?e s u = None"
    by simp_all
  from failures_keep_session [of "rig_task ''script'' script_params" ?e, OF h] show ?thesis by simp
qed

section \<open>Steps\<close>

theorem active_jobs_are_running_witness:
  "\<exists>st. daemon_reaches st \<and> da_running st = [rig_task ''script'' script_params] \<and> fst ` set (da_active st) \<subseteq> {''job-1''}"
proof -
  let ?t = "rig_task ''script'' script_params"
  obtain es active' where "handle_task_message rig_env (Inr ?t) [] = (es @ [TaskAckSync], active', [?t])"
    using healthy_task_taken [of rig_env ?t "[]"] by auto
  then have "handle_task_message rig_env (Inr ?t) (da_active \<lparr>da_active = [], da_running = []\<rparr>) = (es @ [TaskAckSync], active', [?t])" by simp
  from daemon_next [OF daemon_start _ take_message [OF this]]
  have r: "daemon_reaches \<lparr>da_active = active', da_running = [?t]\<rparr>" by simp
  from active_jobs_are_running [OF r] r show ?thesis by fastforce
qed

theorem missing_docker_ends_daemon_witness:
  "daemon_step rig_env \<lparr>da_active = [], da_running = [rig_task ''docker'' [''docker_image'' \<mapsto> JString ''ubuntu'']]\<rparr> [] None"
proof -
  let ?t = "rig_task ''docker'' [''docker_image'' \<mapsto> JString ''ubuntu'']"
  have h: "hn_docker rig_env = DockerPointer True rig_docker" "dt_execution_type ?t = ''docker''" "text_param ?t ''docker_image'' = Some ''ubuntu''"
    "''ubuntu'' \<noteq> []" "filled_param ?t ''script_content'' = None" "hn_mkdir rig_env (workspace_path rig_env (dt_job_id ?t)) = None"
    "?t \<in> set (da_running \<lparr>da_active = [], da_running = [?t]\<rparr>)"
    by (simp_all add: filled_param_def)
  from missing_docker_ends_daemon [OF h] show ?thesis by simp
qed

section \<open>A dispatched task\<close>

theorem dispatched_task_never_runs_witness:
  "\<exists>es1 active1 es2 active2.
     handle_task_message rig_env (Inr (received_task (job_task sched_env sched_job sched_rig (uuid_text 42)))) [] =
       (es1 @ [TaskAckSync], active1, [received_task (job_task sched_env sched_job sched_rig (uuid_text 42))])
     \<and> run_task rig_env (received_task (job_task sched_env sched_job sched_rig (uuid_text 42))) active1 = Some (es2, active2)
     \<and> filter executes es2 = []
     \<and> filter ends_session es2 = [SessionEnd (end_session_url (dc_billing_url rig_config)) 42 ''job_failed'']"
proof -
  have i: "dc_instance_id (hn_config rig_env) = uuid_text (lp_id sched_rig)" by (simp add: sched_rig_def demo_provider_def)
  have h: "hn_health rig_env \<noteq> Some False" "hn_mkdir rig_env (workspace_path rig_env (j_id sched_job)) = None" "hn_reporter rig_env"
    "hn_connected rig_env" "\<And>s u. hn_publish rig_env s u = None"
    by simp_all
  have "hn_parse rig_env (uuid_text 42) = Inr 42" "hn_http rig_env \<noteq> None" by (simp_all add: rig_parse_def)
  with dispatched_task_never_runs [OF refl i h, where active = "[]" and sid = "uuid_text 42" and i = 42 and cenv = sched_env] show ?thesis
    by simp blast
qed

end
