(* ===== verification/Redis.thy ===== *)
theory Redis
  imports GoText
begin

text \<open>
  The commands of the Redis server that the services send, with their documented effect: a key holds a value and possibly the instant it
  expires at; a key that has expired is absent. The locale \<open>expiring_store\<close> is what the clients rely on. A call of a service is
  sent at one instant of the server's clock; a command that is not answered (\<open>rx_fail\<close>, by its place in the call) changes nothing.
\<close>

section \<open>The server\<close>

text \<open>A value: what a service writes, a counter, or a set (its members in the order the server lists them).\<close>

datatype 'v redis_value = RText 'v | RCount int | RSet "string list"

type_synonym 'v redis = "string \<Rightarrow> ('v redis_value \<times> time option) option"

text \<open>\<open>rx_now\<close> is the server's clock, \<open>rx_client\<close> the clock of the service that calls it.\<close>

record redis_env =
  rx_now :: time
  rx_client :: time
  rx_fail :: "nat \<Rightarrow> string option"

definition look :: "time \<Rightarrow> 'v redis \<Rightarrow> string \<Rightarrow> 'v redis_value option" where
  "look now db k = (case db k of None \<Rightarrow> None
     | Some (v, e) \<Rightarrow> (case e of None \<Rightarrow> Some v | Some t \<Rightarrow> if now < t then Some v else None))"

definition put :: "time \<Rightarrow> string \<Rightarrow> 'v redis_value \<Rightarrow> duration \<Rightarrow> 'v redis \<Rightarrow> 'v redis" where
  "put now k v ttl db = db(k \<mapsto> (v, Some (now + ttl)))"

text \<open>A write that keeps the expiry the key has.\<close>

definition rewrite :: "time \<Rightarrow> string \<Rightarrow> 'v redis_value \<Rightarrow> 'v redis \<Rightarrow> 'v redis" where
  "rewrite now k v db = db(k \<mapsto> (v, if look now db k = None then None else snd (the (db k))))"

definition touch :: "time \<Rightarrow> string \<Rightarrow> duration \<Rightarrow> 'v redis \<Rightarrow> 'v redis" where
  "touch now k ttl db = (case look now db k of None \<Rightarrow> db | Some v \<Rightarrow> db(k \<mapsto> (v, Some (now + ttl))))"

definition drop_key :: "string \<Rightarrow> 'v redis \<Rightarrow> 'v redis" where
  "drop_key k db = db(k := None)"

definition members :: "time \<Rightarrow> 'v redis \<Rightarrow> string \<Rightarrow> string list" where
  "members now db k = (case look now db k of Some (RSet xs) \<Rightarrow> xs | _ \<Rightarrow> [])"

definition is_set :: "time \<Rightarrow> 'v redis \<Rightarrow> string \<Rightarrow> bool" where
  "is_set now db k = (case look now db k of None \<Rightarrow> True | Some (RSet xs) \<Rightarrow> True | _ \<Rightarrow> False)"

definition add_member :: "time \<Rightarrow> string \<Rightarrow> string \<Rightarrow> 'v redis \<Rightarrow> 'v redis" where
  "add_member now k x db =
     (let xs = members now db k in rewrite now k (RSet (if x \<in> set xs then xs else xs @ [x])) db)"

definition remove_member :: "time \<Rightarrow> string \<Rightarrow> string \<Rightarrow> 'v redis \<Rightarrow> 'v redis" where
  "remove_member now k x db =
     (let xs = filter (\<lambda>y. y \<noteq> x) (members now db k) in
      if look now db k = None then db else if xs = [] then drop_key k db else rewrite now k (RSet xs) db)"

definition wrong_type :: string where
  "wrong_type = ''WRONGTYPE Operation against a key holding the wrong kind of value''"

section \<open>Commands\<close>

definition later_env :: "nat \<Rightarrow> redis_env \<Rightarrow> redis_env" where
  "later_env n env = env\<lparr>rx_fail := (\<lambda>i. rx_fail env (n + i))\<rparr>"

text \<open>The \<open>i\<close>th command of a call, answered unless it fails.\<close>

definition answered :: "redis_env \<Rightarrow> nat \<Rightarrow> (string + 'a) \<times> 'v redis \<Rightarrow> 'v redis \<Rightarrow> (string + 'a) \<times> 'v redis" where
  "answered env i r db = (case rx_fail env i of Some e \<Rightarrow> (Inl e, db) | None \<Rightarrow> r)"

text \<open>The client sends a time to live to SET in whole seconds when it is such, else in whole milliseconds, at least one; to EXPIRE
  always in whole seconds, cut towards zero, a positive one under a second as one. (SET is only sent with a positive one; EXPIRE
  with one that is not positive deletes the key.)\<close>

definition precise_ttl :: "duration \<Rightarrow> duration" where
  "precise_ttl d = max 1000000 (d div 1000000 * 1000000)"

definition whole_seconds :: "duration \<Rightarrow> duration" where
  "whole_seconds d = (if 0 < d \<and> d < second then second else sgn d * (\<bar>d\<bar> div second * second))"

definition get_cmd :: "redis_env \<Rightarrow> nat \<Rightarrow> string \<Rightarrow> 'v redis \<Rightarrow> string + 'v redis_value option" where
  "get_cmd env i k db =
     fst (answered env i (case look (rx_now env) db k of Some (RSet xs) \<Rightarrow> Inl wrong_type | v \<Rightarrow> Inr v, db) db)"

definition set_cmd :: "redis_env \<Rightarrow> nat \<Rightarrow> string \<Rightarrow> 'v \<Rightarrow> duration \<Rightarrow> 'v redis \<Rightarrow> (string + unit) \<times> 'v redis" where
  "set_cmd env i k v ttl db = answered env i (Inr (), put (rx_now env) k (RText v) (precise_ttl ttl) db) db"

definition del_cmd :: "redis_env \<Rightarrow> nat \<Rightarrow> string list \<Rightarrow> 'v redis \<Rightarrow> (string + unit) \<times> 'v redis" where
  "del_cmd env i ks db = answered env i (Inr (), fold drop_key ks db) db"

definition exists_cmd :: "redis_env \<Rightarrow> nat \<Rightarrow> string \<Rightarrow> 'v redis \<Rightarrow> string + bool" where
  "exists_cmd env i k db = fst (answered env i (Inr (look (rx_now env) db k \<noteq> None), db) db)"

definition expire_cmd :: "redis_env \<Rightarrow> nat \<Rightarrow> string \<Rightarrow> duration \<Rightarrow> 'v redis \<Rightarrow> (string + unit) \<times> 'v redis" where
  "expire_cmd env i k ttl db = answered env i (Inr (), touch (rx_now env) k (whole_seconds ttl) db) db"

definition incr_cmd :: "redis_env \<Rightarrow> nat \<Rightarrow> string \<Rightarrow> 'v redis \<Rightarrow> (string + int) \<times> 'v redis" where
  "incr_cmd env i k db =
     answered env i
       (case look (rx_now env) db k of
          None \<Rightarrow> (Inr 1, rewrite (rx_now env) k (RCount 1) db)
        | Some (RCount n) \<Rightarrow> (Inr (n + 1), rewrite (rx_now env) k (RCount (n + 1)) db)
        | Some (RSet xs) \<Rightarrow> (Inl wrong_type, db)
        | Some (RText v) \<Rightarrow> (Inl ''ERR value is not an integer or out of range'', db)) db"

definition sadd_cmd :: "redis_env \<Rightarrow> nat \<Rightarrow> string \<Rightarrow> string \<Rightarrow> 'v redis \<Rightarrow> (string + unit) \<times> 'v redis" where
  "sadd_cmd env i k x db =
     answered env i (if is_set (rx_now env) db k then (Inr (), add_member (rx_now env) k x db) else (Inl wrong_type, db)) db"

definition srem_cmd :: "redis_env \<Rightarrow> nat \<Rightarrow> string \<Rightarrow> string \<Rightarrow> 'v redis \<Rightarrow> (string + unit) \<times> 'v redis" where
  "srem_cmd env i k x db =
     answered env i (if is_set (rx_now env) db k then (Inr (), remove_member (rx_now env) k x db) else (Inl wrong_type, db)) db"

definition smembers_cmd :: "redis_env \<Rightarrow> nat \<Rightarrow> string \<Rightarrow> 'v redis \<Rightarrow> string + string list" where
  "smembers_cmd env i k db =
     fst (answered env i (if is_set (rx_now env) db k then Inr (members (rx_now env) db k) else Inl wrong_type, db) db)"

lemmas redis_cmds = answered_def get_cmd_def set_cmd_def del_cmd_def exists_cmd_def expire_cmd_def sadd_cmd_def srem_cmd_def
  smembers_cmd_def

lemma precise_ttl_bounds: "0 < d \<Longrightarrow> 0 < precise_ttl d \<and> precise_ttl d \<le> max 1000000 d \<and> d < precise_ttl d + 1000000"
  using mult_div_mod_eq [of 1000000 d] pos_mod_bound [of 1000000 d] pos_mod_sign [of 1000000 d] by (simp add: precise_ttl_def) linarith

lemma whole_seconds_bounds: "0 < d \<Longrightarrow> 0 < whole_seconds d \<and> (second \<le> d \<longrightarrow> whole_seconds d \<le> d \<and> d < whole_seconds d + second)"
  using mult_div_mod_eq [of second d] pos_mod_bound [of second d] pos_mod_sign [of second d] by (simp add: whole_seconds_def) linarith

section \<open>What clients rely on\<close>

locale expiring_store =
  fixes lookup :: "time \<Rightarrow> 'db \<Rightarrow> string \<Rightarrow> 'v option"
    and save :: "time \<Rightarrow> string \<Rightarrow> 'v \<Rightarrow> duration \<Rightarrow> 'db \<Rightarrow> 'db"
    and renew :: "time \<Rightarrow> string \<Rightarrow> duration \<Rightarrow> 'db \<Rightarrow> 'db"
    and erase :: "string \<Rightarrow> 'db \<Rightarrow> 'db"
  assumes lookup_save: "lookup t (save t0 k v ttl db) k' = (if k' = k then if t < t0 + ttl then Some v else None else lookup t db k')"
    and lookup_renew: "t0 \<le> t \<Longrightarrow> lookup t (renew t0 k ttl db) k' =
      (if k' = k then if t < t0 + ttl then lookup t0 db k else None else lookup t db k')"
    and lookup_erase: "lookup t (erase k db) k' = (if k' = k then None else lookup t db k')"
    and lookup_later: "t \<le> t' \<Longrightarrow> lookup t' db k = Some v \<Longrightarrow> lookup t db k = Some v"
begin

lemma written: "t < t0 + ttl \<Longrightarrow> lookup t (save t0 k v ttl db) k = Some v"
  by (simp add: lookup_save)

lemma expired: "t0 + ttl \<le> t \<Longrightarrow> lookup t (save t0 k v ttl db) k = None"
  by (simp add: lookup_save)

lemma gone_stays: "lookup t db k = None \<Longrightarrow> t \<le> t' \<Longrightarrow> lookup t' db k = None"
  using lookup_later by (cases "lookup t' db k") auto

text \<open>A value that is renewed before it expires is there until the last renewal has run out, and not longer.\<close>

lemma renewed:
  assumes "lookup t0 db k = Some v" "t0 \<le> t"
  shows "lookup t (renew t0 k ttl db) k = (if t < t0 + ttl then Some v else None)"
  using assms by (simp add: lookup_renew)

text \<open>Erasing many keys.\<close>

lemma lookup_erase_all: "lookup t (fold erase ks db) k = (if k \<in> set ks then None else lookup t db k)"
  by (induction ks arbitrary: db) (simp_all add: lookup_erase)

end

lemma touch_law:
  assumes "t0 \<le> t"
  shows "look t (touch t0 k ttl db) k' = (if k' = k then if t < t0 + ttl then look t0 db k else None else look t db k')"
proof (cases "look t0 db k")
  case None
  then have "look t db k = None" using assms by (auto simp: look_def split: option.splits if_splits)
  with None show ?thesis by (simp add: touch_def)
qed (simp add: touch_def look_def)

interpretation redis: expiring_store look put touch drop_key
  by unfold_locales
    (auto simp: touch_law, auto simp: look_def put_def drop_key_def split: option.splits if_splits)

lemma other_keys [simp]:
  assumes "k' \<noteq> k"
  shows "put t k v ttl db k' = db k'" "touch t k ttl db k' = db k'" "rewrite t k v db k' = db k'" "add_member t k x db k' = db k'"
  using assms by (simp_all add: put_def touch_def rewrite_def add_member_def Let_def split: option.split)

lemma touch_there: "look t db k = Some v \<Longrightarrow> touch t k ttl db k = Some (v, Some (t + ttl))"
  by (simp add: touch_def)

lemma members_cong: "db k = db' k \<Longrightarrow> look t db k = look t db' k \<and> members t db k = members t db' k \<and> is_set t db k = is_set t db' k"
  by (simp add: members_def is_set_def look_def)

lemma look_touch_other [simp]: "k' \<noteq> k \<Longrightarrow> look t (touch t0 k ttl db) k' = look t db k'"
  by (simp add: touch_def look_def split: option.split)

section \<open>Sets and counters\<close>

lemma look_rewrite_other [simp]: "k' \<noteq> k \<Longrightarrow> look t (rewrite t0 k v db) k' = look t db k'"
  by (simp add: rewrite_def look_def)

lemma look_rewrite [simp]: "look t (rewrite t k v db) k = Some v"
  by (auto simp: rewrite_def look_def split: option.splits if_splits)

text \<open>A rewritten key expires when the value it replaces would have.\<close>

lemma look_rewrite_later:
  assumes "t0 \<le> t" "look t0 db k \<noteq> None"
  shows "look t (rewrite t0 k v db) k = (if look t db k = None then None else Some v)"
  using assms by (auto simp: rewrite_def look_def split: option.splits if_splits)

lemma look_rewrite_new: "look t0 db k = None \<Longrightarrow> look t (rewrite t0 k v db) k = Some v"
  by (simp add: rewrite_def look_def)

lemma look_add_other [simp]: "k' \<noteq> k \<Longrightarrow> look t (add_member t0 k x db) k' = look t db k'"
  by (simp add: add_member_def Let_def)

lemma look_add: "look t (add_member t k x db) k = Some (RSet (if x \<in> set (members t db k) then members t db k else members t db k @ [x]))"
  by (simp add: add_member_def Let_def)

lemma members_add: "set (members t (add_member t k x db) k) = insert x (set (members t db k))"
  by (auto simp: members_def [of t "add_member t k x db"] look_add)

lemma look_remove_other [simp]: "k' \<noteq> k \<Longrightarrow> look t (remove_member t0 k x db) k' = look t db k'"
  by (simp add: remove_member_def Let_def redis.lookup_erase)

lemma look_remove:
  assumes "look t db k = Some (RSet ys)"
  shows "look t (remove_member t k x db) k = (let xs = filter (\<lambda>y. y \<noteq> x) ys in if xs = [] then None else Some (RSet xs))"
  using assms by (simp add: remove_member_def Let_def members_def redis.lookup_erase)

lemma members_remove:
  assumes "is_set t db k"
  shows "set (members t (remove_member t k x db) k) = set (members t db k) - {x}"
proof (cases "look t db k")
  case None
  then show ?thesis by (simp add: remove_member_def Let_def members_def)
next
  case (Some v)
  then obtain ys where ys: "look t db k = Some (RSet ys)" using assms by (auto simp: is_set_def split: redis_value.splits)
  show ?thesis
  proof (cases "filter (\<lambda>y. y \<noteq> x) ys = []")
    case True
    then have "look t (remove_member t k x db) k = None" using look_remove [OF ys] by (simp add: Let_def)
    with True show ?thesis by (auto simp: members_def ys filter_empty_conv)
  next
    case False
    then have "look t (remove_member t k x db) k = Some (RSet (filter (\<lambda>y. y \<noteq> x) ys))" using look_remove [OF ys] by (simp add: Let_def)
    then show ?thesis by (auto simp: members_def ys)
  qed
qed

end
