(* ===== verification/SessionStore.thy ===== *)
theory SessionStore
  imports Redis
begin

text \<open>
  The Redis stores of the authentication service (\<open>auth-service/internal/session/redis_store.go\<close>): sessions with the set of a
  user's sessions, the rate limiter and the list of revoked tokens. A session is stored as the object that its struct tags describe,
  with what JSON does to its strings.
\<close>

section \<open>Sessions\<close>

record redis_session =
  sn_id :: string
  sn_user_id :: string
  sn_email :: string
  sn_roles :: "string list"
  sn_refresh_token :: string
  sn_ip_address :: string
  sn_user_agent :: string
  sn_created_at :: time
  sn_last_activity :: time
  sn_expires_at :: time

text \<open>JSON texts are UTF-8: \<open>json.Marshal\<close> replaces each byte that starts no rune by U+FFFD. \<open>rune_width\<close> is the number of bytes of
  the first rune, 0 when there is none.\<close>

definition continuation :: "nat \<Rightarrow> bool" where
  "continuation b \<longleftrightarrow> 0x80 \<le> b \<and> b \<le> 0xBF"

fun rune_width :: "nat list \<Rightarrow> nat" where
  "rune_width [] = 0"
| "rune_width (a # bs) =
     (if a < 0x80 then 1
      else if 0xC2 \<le> a \<and> a \<le> 0xDF then (case bs of b # _ \<Rightarrow> if continuation b then 2 else 0 | _ \<Rightarrow> 0)
      else if 0xE0 \<le> a \<and> a \<le> 0xEF
      then (case bs of b # c # _ \<Rightarrow>
              if (if a = 0xE0 then 0xA0 else 0x80) \<le> b \<and> b \<le> (if a = 0xED then 0x9F else 0xBF) \<and> continuation c then 3 else 0
            | _ \<Rightarrow> 0)
      else if 0xF0 \<le> a \<and> a \<le> 0xF4
      then (case bs of b # c # d # _ \<Rightarrow>
              if (if a = 0xF0 then 0x90 else 0x80) \<le> b \<and> b \<le> (if a = 0xF4 then 0x8F else 0xBF) \<and> continuation c \<and> continuation d then 4 else 0
            | _ \<Rightarrow> 0)
      else 0)"

function json_text :: "string \<Rightarrow> string" where
  "json_text [] = []"
| "json_text (c # s) =
     (let n = rune_width (map of_char (c # s)) in
      if n = 0 then CHR 0xEF # CHR 0xBF # CHR 0xBD # json_text s else take n (c # s) @ json_text (drop n (c # s)))"
  by pat_completeness auto
termination by (relation "measure length") auto

datatype session_field = FieldText string | FieldTexts "string list" | FieldTime time

type_synonym session_object = "(string \<times> session_field) list"

datatype store_value = SessionText session_object | RevokedMark

text \<open>A time marshals when its year has four digits (here in UTC), to the nanosecond.\<close>

definition json_year_ok :: "time \<Rightarrow> bool" where
  "json_year_ok t \<longleftrightarrow> - 62167219200 * second \<le> t \<and> t < 253402300800 * second"

definition unset_time :: time where
  "unset_time = - 62135596800 * second"

definition marshal_session :: "redis_session \<Rightarrow> session_object option" where
  "marshal_session s =
     (if json_year_ok (sn_created_at s) \<and> json_year_ok (sn_last_activity s) \<and> json_year_ok (sn_expires_at s)
      then Some
        [(''id'', FieldText (json_text (sn_id s))), (''user_id'', FieldText (json_text (sn_user_id s))),
         (''email'', FieldText (json_text (sn_email s))), (''roles'', FieldTexts (map json_text (sn_roles s))),
         (''refresh_token'', FieldText (json_text (sn_refresh_token s))), (''ip_address'', FieldText (json_text (sn_ip_address s))),
         (''user_agent'', FieldText (json_text (sn_user_agent s))), (''created_at'', FieldTime (sn_created_at s)),
         (''last_activity'', FieldTime (sn_last_activity s)), (''expires_at'', FieldTime (sn_expires_at s))]
      else None)"

text \<open>Each field is looked up under its tag; an absent one stays zero, one of another kind is an error.\<close>

definition text_field :: "session_object \<Rightarrow> string \<Rightarrow> string option" where
  "text_field o1 k = (case map_of o1 k of None \<Rightarrow> Some [] | Some (FieldText s) \<Rightarrow> Some s | Some _ \<Rightarrow> None)"

definition texts_field :: "session_object \<Rightarrow> string \<Rightarrow> string list option" where
  "texts_field o1 k = (case map_of o1 k of None \<Rightarrow> Some [] | Some (FieldTexts xs) \<Rightarrow> Some xs | Some _ \<Rightarrow> None)"

definition time_field :: "session_object \<Rightarrow> string \<Rightarrow> time option" where
  "time_field o1 k = (case map_of o1 k of None \<Rightarrow> Some unset_time | Some (FieldTime t) \<Rightarrow> Some t | Some _ \<Rightarrow> None)"

definition unmarshal_session :: "session_object \<Rightarrow> redis_session option" where
  "unmarshal_session o1 =
     (case (text_field o1 ''id'', text_field o1 ''user_id'', text_field o1 ''email'', texts_field o1 ''roles'', text_field o1 ''refresh_token'') of
        (Some i, Some u, Some e, Some rs, Some rt) \<Rightarrow>
          (case (text_field o1 ''ip_address'', text_field o1 ''user_agent'', time_field o1 ''created_at'', time_field o1 ''last_activity'',
                 time_field o1 ''expires_at'') of
             (Some ip, Some ua, Some c, Some l, Some x) \<Rightarrow>
               Some \<lparr>sn_id = i, sn_user_id = u, sn_email = e, sn_roles = rs, sn_refresh_token = rt, sn_ip_address = ip, sn_user_agent = ua,
                     sn_created_at = c, sn_last_activity = l, sn_expires_at = x\<rparr>
           | _ \<Rightarrow> None)
      | _ \<Rightarrow> None)"

type_synonym session_db = "store_value redis"

definition session_key :: "string \<Rightarrow> string" where
  "session_key i = ''session:'' @ i"

definition user_sessions_key :: "string \<Rightarrow> string" where
  "user_sessions_key u = ''session:'' @ ''user:'' @ u @ '':sessions''"

definition session_create :: "redis_env \<Rightarrow> redis_session \<Rightarrow> session_db \<Rightarrow> (string + unit) \<times> session_db" where
  "session_create env s db =
     (case marshal_session s of
        None \<Rightarrow> (Inl ''failed to marshal session'', db)
      | Some data \<Rightarrow>
          (let ttl = sn_expires_at s - rx_client env; uk = user_sessions_key (sn_user_id s) in
           if ttl \<le> 0 then (Inl ''session already expired'', db)
           else (case set_cmd env 0 (session_key (sn_id s)) (SessionText data) ttl db of
                   (Inl e, db) \<Rightarrow> (Inl (''failed to store session: '' @ e), db)
                 | (Inr _, db) \<Rightarrow>
                     (case sadd_cmd env 1 uk (sn_id s) db of
                        (Inl e, db) \<Rightarrow> (Inl (''failed to add session to user set: '' @ e), db)
                      | (Inr _, db) \<Rightarrow> (Inr (), snd (expire_cmd env 2 uk ttl db))))))"

definition session_get :: "redis_env \<Rightarrow> string \<Rightarrow> session_db \<Rightarrow> string + redis_session" where
  "session_get env i db =
     (case get_cmd env 0 (session_key i) db of
        Inl e \<Rightarrow> Inl (''failed to get session: '' @ e)
      | Inr None \<Rightarrow> Inl ''session not found''
      | Inr (Some (RText (SessionText data))) \<Rightarrow>
          (case unmarshal_session data of None \<Rightarrow> Inl ''failed to unmarshal session'' | Some s \<Rightarrow> Inr s)
      | Inr (Some v) \<Rightarrow> Inl ''failed to unmarshal session'')"

definition session_exists :: "redis_env \<Rightarrow> string \<Rightarrow> session_db \<Rightarrow> string + bool" where
  "session_exists env i db =
     (case exists_cmd env 0 (session_key i) db of
        Inl e \<Rightarrow> Inl (''failed to check session existence: '' @ e)
      | Inr b \<Rightarrow> Inr b)"

definition session_update :: "redis_env \<Rightarrow> redis_session \<Rightarrow> session_db \<Rightarrow> (string + unit) \<times> session_db" where
  "session_update env s db =
     (case session_exists env (sn_id s) db of
        Inl e \<Rightarrow> (Inl e, db)
      | Inr b \<Rightarrow> if \<not> b then (Inl ''session not found'', db) else session_create (later_env 1 env) s db)"

definition session_delete :: "redis_env \<Rightarrow> string \<Rightarrow> session_db \<Rightarrow> (string + unit) \<times> session_db" where
  "session_delete env i db =
     (case session_get env i db of
        Inl e \<Rightarrow> (Inl e, db)
      | Inr s \<Rightarrow>
          (case del_cmd env 1 [session_key i] db of
             (Inl e, db) \<Rightarrow> (Inl (''failed to delete session: '' @ e), db)
           | (Inr _, db) \<Rightarrow>
               (case srem_cmd env 2 (user_sessions_key (sn_user_id s)) i db of
                  (Inl e, db) \<Rightarrow> (Inl (''failed to remove session from user set: '' @ e), db)
                | (Inr _, db) \<Rightarrow> (Inr (), db))))"

text \<open>The answers to the single deletions are not looked at.\<close>

fun delete_each :: "redis_env \<Rightarrow> nat \<Rightarrow> string list \<Rightarrow> session_db \<Rightarrow> session_db" where
  "delete_each env n [] db = db"
| "delete_each env n (i # is) db = delete_each env (n + 1) is (snd (del_cmd env n [session_key i] db))"

definition session_delete_all :: "redis_env \<Rightarrow> string \<Rightarrow> session_db \<Rightarrow> (string + unit) \<times> session_db" where
  "session_delete_all env u db =
     (case smembers_cmd env 0 (user_sessions_key u) db of
        Inl e \<Rightarrow> (Inl (''failed to get user sessions: '' @ e), db)
      | Inr is \<Rightarrow>
          (case del_cmd env (length is + 1) [user_sessions_key u] (delete_each env 1 is db) of
             (Inl e, db) \<Rightarrow> (Inl (''failed to delete user sessions set: '' @ e), db)
           | (Inr _, db) \<Rightarrow> (Inr (), db)))"

fun sessions_found :: "redis_env \<Rightarrow> nat \<Rightarrow> string list \<Rightarrow> session_db \<Rightarrow> redis_session list" where
  "sessions_found env n [] db = []"
| "sessions_found env n (i # is) db =
     (case session_get (later_env n env) i db of
        Inl e \<Rightarrow> sessions_found env (n + 1) is db
      | Inr s \<Rightarrow> s # sessions_found env (n + 1) is db)"

definition session_list :: "redis_env \<Rightarrow> string \<Rightarrow> session_db \<Rightarrow> string + redis_session list" where
  "session_list env u db =
     (case smembers_cmd env 0 (user_sessions_key u) db of
        Inl e \<Rightarrow> Inl (''failed to get user sessions: '' @ e)
      | Inr is \<Rightarrow> Inr (sessions_found env 1 is db))"

definition session_activity :: "redis_env \<Rightarrow> string \<Rightarrow> session_db \<Rightarrow> (string + unit) \<times> session_db" where
  "session_activity env i db =
     (case session_get env i db of
        Inl e \<Rightarrow> (Inl e, db)
      | Inr s \<Rightarrow> session_update (later_env 1 env) (s\<lparr>sn_last_activity := rx_client env\<rparr>) db)"

definition session_extend :: "redis_env \<Rightarrow> string \<Rightarrow> duration \<Rightarrow> session_db \<Rightarrow> (string + unit) \<times> session_db" where
  "session_extend env i d db =
     (case session_get env i db of
        Inl e \<Rightarrow> (Inl e, db)
      | Inr s \<Rightarrow> session_update (later_env 1 env) (s\<lparr>sn_expires_at := rx_client env + d\<rparr>) db)"

definition session_count :: "redis_env \<Rightarrow> string \<Rightarrow> session_db \<Rightarrow> string + nat" where
  "session_count env u db =
     (case smembers_cmd env 0 (user_sessions_key u) db of
        Inl e \<Rightarrow> Inl (''failed to count user sessions: '' @ e)
      | Inr is \<Rightarrow> Inr (length is))"

definition cleanup_expired_sessions :: "session_db \<Rightarrow> nat \<times> session_db" where
  "cleanup_expired_sessions db = (0, db)"

section \<open>The rate limiter\<close>

definition limiter_allow :: "redis_env \<Rightarrow> string \<Rightarrow> int \<Rightarrow> duration \<Rightarrow> session_db \<Rightarrow> (string + bool) \<times> session_db" where
  "limiter_allow env k limit window db =
     (let rk = ''ratelimit:'' @ k in
      case incr_cmd env 0 rk db of
        (Inl e, db) \<Rightarrow> (Inl (''failed to increment rate limit counter: '' @ e), db)
      | (Inr n, db) \<Rightarrow> (Inr (n \<le> limit), if n = 1 then snd (expire_cmd env 1 rk window db) else db))"

definition limiter_remaining :: "redis_env \<Rightarrow> string \<Rightarrow> int \<Rightarrow> session_db \<Rightarrow> string + int" where
  "limiter_remaining env k limit db =
     (case get_cmd env 0 (''ratelimit:'' @ k) db of
        Inl e \<Rightarrow> Inl (''failed to get rate limit count: '' @ e)
      | Inr None \<Rightarrow> Inr limit
      | Inr (Some (RCount n)) \<Rightarrow> Inr (if limit - n < 0 then 0 else limit - n)
      | Inr (Some v) \<Rightarrow> Inl ''failed to get rate limit count'')"

definition limiter_reset :: "redis_env \<Rightarrow> string \<Rightarrow> session_db \<Rightarrow> (string + unit) \<times> session_db" where
  "limiter_reset env k db =
     (case del_cmd env 0 [''ratelimit:'' @ k] db of
        (Inl e, db) \<Rightarrow> (Inl (''failed to reset rate limit: '' @ e), db)
      | (Inr _, db) \<Rightarrow> (Inr (), db))"

section \<open>Revoked tokens\<close>

definition blacklist_add :: "redis_env \<Rightarrow> string \<Rightarrow> time \<Rightarrow> session_db \<Rightarrow> (string + unit) \<times> session_db" where
  "blacklist_add env tok expires db =
     (let ttl = expires - rx_client env in
      if ttl \<le> 0 then (Inr (), db)
      else (case set_cmd env 0 (''blacklist:'' @ tok) RevokedMark ttl db of
              (Inl e, db) \<Rightarrow> (Inl (''failed to blacklist token: '' @ e), db)
            | (Inr _, db) \<Rightarrow> (Inr (), db)))"

definition is_blacklisted :: "redis_env \<Rightarrow> string \<Rightarrow> session_db \<Rightarrow> string + bool" where
  "is_blacklisted env tok db =
     (case exists_cmd env 0 (''blacklist:'' @ tok) db of
        Inl e \<Rightarrow> Inl (''failed to check token blacklist: '' @ e)
      | Inr b \<Rightarrow> Inr b)"

definition blacklist_remove :: "redis_env \<Rightarrow> string \<Rightarrow> session_db \<Rightarrow> (string + unit) \<times> session_db" where
  "blacklist_remove env tok db =
     (case del_cmd env 0 [''blacklist:'' @ tok] db of
        (Inl e, db) \<Rightarrow> (Inl (''failed to remove token from blacklist: '' @ e), db)
      | (Inr _, db) \<Rightarrow> (Inr (), db))"

end
