(* ===== verification/SessionFacts.thy ===== *)
theory SessionFacts
  imports SessionStore
begin

text \<open>What the Redis stores of sessions, limits and revoked tokens promise over time, and where they do not keep it.\<close>

section \<open>Sessions\<close>

text \<open>What JSON leaves of a session: its strings as UTF-8; a session of UTF-8 strings as it is.\<close>

definition session_back :: "redis_session \<Rightarrow> redis_session" where
  "session_back s = s\<lparr>sn_id := json_text (sn_id s), sn_user_id := json_text (sn_user_id s), sn_email := json_text (sn_email s),
     sn_roles := map json_text (sn_roles s), sn_refresh_token := json_text (sn_refresh_token s),
     sn_ip_address := json_text (sn_ip_address s), sn_user_agent := json_text (sn_user_agent s)\<rparr>"

function valid_utf8 :: "string \<Rightarrow> bool" where
  "valid_utf8 [] = True"
| "valid_utf8 (c # s) = (let n = rune_width (map of_char (c # s)) in if n = 0 then False else valid_utf8 (drop n (c # s)))"
  by pat_completeness auto
termination by (relation "measure length") (auto simp del: rune_width.simps)

declare json_text.simps(2) [simp del] valid_utf8.simps(2) [simp del] rune_width.simps(2) [simp del]

lemma json_text_valid: "valid_utf8 s \<Longrightarrow> json_text s = s"
proof (induction s rule: json_text.induct)
  case (2 c s)
  define n where "n = rune_width (map of_char (c # s))"
  have n: "n \<noteq> 0" "valid_utf8 (drop n (c # s))" using 2(3) by (simp_all add: valid_utf8.simps(2) Let_def n_def split: if_splits)
  then have "json_text (drop n (c # s)) = drop n (c # s)" using 2(2) unfolding n_def by blast
  then have "take n (c # s) @ json_text (drop n (c # s)) = c # s" by (simp only: append_take_drop_id)
  then show ?case using n(1) by (simp add: json_text.simps(2) Let_def n_def)
qed simp

lemma ascii_valid: "\<forall>c \<in> set s. of_char c < (0x80 :: nat) \<Longrightarrow> valid_utf8 s"
  by (induction s) (simp_all add: valid_utf8.simps(2) rune_width.simps(2))

definition session_texts :: "redis_session \<Rightarrow> string list" where
  "session_texts s = [sn_id s, sn_user_id s, sn_email s, sn_refresh_token s, sn_ip_address s, sn_user_agent s] @ sn_roles s"

lemma session_back_valid: "\<forall>x \<in> set (session_texts s). valid_utf8 x \<Longrightarrow> session_back s = s"
  by (simp add: session_back_def session_texts_def json_text_valid map_idI)

lemma unmarshal_marshal: "marshal_session s = Some data \<Longrightarrow> unmarshal_session data = Some (session_back s)"
  by (auto simp: marshal_session_def unmarshal_session_def text_field_def texts_field_def time_field_def session_back_def split: if_splits)

text \<open>A session that was stored: its key, apart from the key of its user's set.\<close>

lemma created:
  assumes "session_create env s db = (Inr (), db')"
  shows "\<exists>data. marshal_session s = Some data \<and> rx_client env < sn_expires_at s \<and> user_sessions_key (sn_user_id s) \<noteq> session_key (sn_id s)
    \<and> db' = snd (expire_cmd env 2 (user_sessions_key (sn_user_id s)) (sn_expires_at s - rx_client env)
        (add_member (rx_now env) (user_sessions_key (sn_user_id s)) (sn_id s)
          (put (rx_now env) (session_key (sn_id s)) (RText (SessionText data)) (precise_ttl (sn_expires_at s - rx_client env)) db)))"
proof -
  obtain data where data: "marshal_session s = Some data" using assms by (auto simp: session_create_def split: option.splits)
  define ttl where "ttl = sn_expires_at s - rx_client env"
  define db1 where "db1 = put (rx_now env) (session_key (sn_id s)) (RText (SessionText data)) (precise_ttl ttl) db"
  have pos: "0 < ttl" using assms data by (auto simp: session_create_def ttl_def Let_def split: if_splits)
  have "look (rx_now env) db1 (session_key (sn_id s)) = Some (RText (SessionText data))"
    using precise_ttl_bounds [OF pos] by (simp add: db1_def redis.lookup_save)
  then have no: "\<not> is_set (rx_now env) db1 (session_key (sn_id s))" by (simp add: is_set_def)
  have "is_set (rx_now env) db1 (user_sessions_key (sn_user_id s))
      \<and> db' = snd (expire_cmd env 2 (user_sessions_key (sn_user_id s)) ttl (add_member (rx_now env) (user_sessions_key (sn_user_id s)) (sn_id s) db1))"
    using assms data pos
    by (auto simp: session_create_def set_cmd_def sadd_cmd_def answered_def Let_def db1_def ttl_def split: option.splits if_splits)
  moreover from this no have "user_sessions_key (sn_user_id s) \<noteq> session_key (sn_id s)" by metis
  ultimately show ?thesis using data pos by (auto simp: db1_def ttl_def)
qed

text \<open>How long a stored session lives, on the server's clock.\<close>

definition session_end :: "redis_env \<Rightarrow> redis_session \<Rightarrow> time" where
  "session_end env s = rx_now env + precise_ttl (sn_expires_at s - rx_client env)"

lemma look_created:
  assumes "session_create env s db = (Inr (), db')" "k \<noteq> user_sessions_key (sn_user_id s)"
  shows "look t db' k =
    (if k = session_key (sn_id s) then if t < session_end env s then map_option (RText \<circ> SessionText) (marshal_session s) else None
     else look t db k)"
  using created [OF assms(1)] assms(2)
  by (auto simp: expire_cmd_def answered_def redis.lookup_save session_end_def split: option.split)

lemma get_created:
  assumes "session_create env s db = (Inr (), db')" "rx_fail env' 0 = None"
  shows "session_get env' (sn_id s) db' = (if rx_now env' < session_end env s then Inr (session_back s) else Inl ''session not found'')"
proof -
  obtain data where data: "marshal_session s = Some data" "session_key (sn_id s) \<noteq> user_sessions_key (sn_user_id s)"
    using created [OF assms(1)] by metis
  from look_created [OF assms(1) data(2), of "rx_now env'"] assms(2) data(1) unmarshal_marshal [OF data(1)] show ?thesis
    by (simp add: session_get_def get_cmd_def answered_def)
qed

text \<open>C36. A session that was stored is read back, and after its time not found any more: its time is what was left of it on the clock of
  the service when it stored it, in whole milliseconds (at least one, and less than one too short), counted on the server's clock. It
  comes back as it was when its strings are UTF-8; in others each byte that is not is replaced by U+FFFD.\<close>

theorem session_readable_until_expiry:
  assumes "session_create env s db = (Inr (), db')" "rx_fail env' 0 = None"
  shows "session_get env' (sn_id s) db' =
      (if rx_now env' < rx_now env + precise_ttl (sn_expires_at s - rx_client env) then Inr (session_back s) else Inl ''session not found'')
    \<and> ((\<forall>x \<in> set (session_texts s). valid_utf8 x) \<longrightarrow> session_back s = s)
    \<and> sn_expires_at s - rx_client env < precise_ttl (sn_expires_at s - rx_client env) + 1000000
    \<and> (1000000 \<le> sn_expires_at s - rx_client env \<longrightarrow> precise_ttl (sn_expires_at s - rx_client env) \<le> sn_expires_at s - rx_client env)"
proof -
  have "0 < sn_expires_at s - rx_client env" using created [OF assms(1)] by auto
  from precise_ttl_bounds [OF this] get_created [OF assms] session_back_valid [of s] show ?thesis by (auto simp: session_end_def)
qed

text \<open>A session that was deleted is not found again.\<close>

theorem deleted_session_gone:
  assumes "session_delete env i db = (Inr (), db')" "rx_now env \<le> rx_now env'" "rx_fail env' 0 = None"
  shows "session_get env' i db' = Inl ''session not found''"
proof -
  obtain s where s: "session_get env i db = Inr s" using assms(1) by (auto simp: session_delete_def split: sum.splits)
  define uk where "uk = user_sessions_key (sn_user_id s)"
  have d: "db' = remove_member (rx_now env) uk i (drop_key (session_key i) db)" "is_set (rx_now env) (drop_key (session_key i) db) uk"
    using assms(1) s by (auto simp: session_delete_def redis_cmds uk_def split: option.splits if_splits)
  have "look (rx_now env') db' (session_key i) = None"
  proof (cases "session_key i = uk")
    case True
    then show ?thesis unfolding d by (simp add: remove_member_def Let_def redis.lookup_erase)
  next
    case False
    then show ?thesis unfolding d by (simp add: redis.lookup_erase)
  qed
  then show ?thesis using assms(3) by (simp add: session_get_def get_cmd_def answered_def)
qed

text \<open>Ending all sessions of a user can miss one: the set of a user's sessions expires with the session that was stored last, so once a shorter
  session has run out after a longer one of the same user was stored, nothing names the longer one: it survives the deletion and no list shows it.\<close>

theorem logout_everywhere_misses_session:
  assumes "session_create env1 s1 db = (Inr (), db1)" "session_create env2 s2 db1 = (Inr (), db2)"
    "sn_user_id s2 = sn_user_id s1" "sn_id s2 \<noteq> sn_id s1" "rx_fail env2 2 = None" "rx_now env2 \<le> rx_now env3"
    "rx_now env2 + whole_seconds (sn_expires_at s2 - rx_client env2) \<le> rx_now env3"
    "rx_now env3 < rx_now env1 + precise_ttl (sn_expires_at s1 - rx_client env1)" "rx_fail env3 0 = None" "rx_fail env3 1 = None"
  shows "\<exists>db3. session_delete_all env3 (sn_user_id s1) db2 = (Inr (), db3) \<and> session_get env3 (sn_id s1) db3 = Inr (session_back s1)
    \<and> session_list env3 (sn_user_id s1) db2 = Inr []"
proof -
  define uk where "uk = user_sessions_key (sn_user_id s1)"
  define ttl where "ttl = sn_expires_at s2 - rx_client env2"
  obtain data2 where d2: "db2 = snd (expire_cmd env2 2 (user_sessions_key (sn_user_id s2)) (sn_expires_at s2 - rx_client env2)
        (add_member (rx_now env2) (user_sessions_key (sn_user_id s2)) (sn_id s2)
          (put (rx_now env2) (session_key (sn_id s2)) (RText (SessionText data2)) (precise_ttl (sn_expires_at s2 - rx_client env2)) db1)))"
    using created [OF assms(2)] by blast
  define db1' where "db1' = add_member (rx_now env2) uk (sn_id s2)
    (put (rx_now env2) (session_key (sn_id s2)) (RText (SessionText data2)) (precise_ttl ttl) db1)"
  have db2: "db2 = touch (rx_now env2) uk (whole_seconds ttl) db1'"
    using d2 assms(3,5) by (simp add: uk_def ttl_def db1'_def expire_cmd_def answered_def)
  have "look (rx_now env3) db2 uk = None"
    unfolding db2 using redis.lookup_renew [of "rx_now env2" "rx_now env3" uk "whole_seconds ttl" db1' uk] assms(6,7) by (simp add: ttl_def)
  moreover obtain data1 where data1: "marshal_session s1 = Some data1" and key: "session_key (sn_id s1) \<noteq> uk"
    using created [OF assms(1)] by (metis uk_def)
  moreover have "look (rx_now env3) db2 (session_key (sn_id s1)) = Some (RText (SessionText data1))"
    using look_created [OF assms(2), of "session_key (sn_id s1)" "rx_now env3"] look_created [OF assms(1), of "session_key (sn_id s1)" "rx_now env3"]
      key assms(3,4,8) data1 by (simp add: uk_def session_key_def session_end_def)
  ultimately show ?thesis
    using assms(9,10) unmarshal_marshal [OF data1]
    by (simp add: session_delete_all_def session_list_def redis_cmds is_set_def members_def uk_def session_get_def redis.lookup_erase)
qed

text \<open>The count of a user's sessions counts those that have expired; the list does not.\<close>

lemma sessions_found_le: "length (sessions_found env n is db) \<le> length is"
  by (induction "is" arbitrary: n) (auto split: sum.split simp: le_SucI)

theorem count_covers_list: "session_list env u db = Inr ss \<Longrightarrow> session_count env u db = Inr n \<Longrightarrow> length ss \<le> n"
  using sessions_found_le by (auto simp: session_list_def session_count_def split: sum.splits)

section \<open>The rate limiter\<close>

fun limiter_state :: "redis_env list \<Rightarrow> string \<Rightarrow> int \<Rightarrow> duration \<Rightarrow> session_db \<Rightarrow> session_db" where
  "limiter_state [] k limit window db = db"
| "limiter_state (env # envs) k limit window db = limiter_state envs k limit window (snd (limiter_allow env k limit window db))"

fun limiter_run :: "redis_env list \<Rightarrow> string \<Rightarrow> int \<Rightarrow> duration \<Rightarrow> session_db \<Rightarrow> (string + bool) list" where
  "limiter_run [] k limit window db = []"
| "limiter_run (env # envs) k limit window db =
     (case limiter_allow env k limit window db of (r, db') \<Rightarrow> r # limiter_run envs k limit window db')"

text \<open>A counter above zero is counted on, whatever its expiry, as long as it is there.\<close>

lemma limiter_counts_on:
  assumes "db (''ratelimit:'' @ k) = Some (RCount n, e)" "n \<ge> 1"
    "\<forall>env \<in> set envs. rx_fail env 0 = None \<and> (\<forall>x. e = Some x \<longrightarrow> rx_now env < x)"
  shows "limiter_run envs k limit window db = map (\<lambda>i. Inr (n + 1 + int i \<le> limit)) [0..<length envs]
    \<and> (\<exists>m. limiter_state envs k limit window db (''ratelimit:'' @ k) = Some (RCount m, e))"
  using assms
proof (induction envs arbitrary: n db)
  case (Cons env envs)
  let ?rk = "''ratelimit:'' @ k"
  have l: "look (rx_now env) db ?rk = Some (RCount n)" using Cons.prems(1,3) by (auto simp: look_def split: option.split)
  define db' where "db' = rewrite (rx_now env) ?rk (RCount (n + 1)) db"
  have a: "limiter_allow env k limit window db = (Inr (n + 1 \<le> limit), db')"
    using Cons.prems(2,3) l by (simp add: limiter_allow_def incr_cmd_def answered_def Let_def db'_def)
  have "db' ?rk = Some (RCount (n + 1), e)" using Cons.prems(1) l by (simp add: db'_def rewrite_def)
  from Cons.IH [where db = db' and n = "n + 1", OF this] Cons.prems(2,3)
  have "limiter_run envs k limit window db' = map (\<lambda>i. Inr (n + 1 + 1 + int i \<le> limit)) [0..<length envs]
    \<and> (\<exists>m. limiter_state envs k limit window db' (''ratelimit:'' @ k) = Some (RCount m, e))" by simp
  then show ?case using a by (simp add: map_upt_Suc ac_simps del: upt_Suc)
qed simp

lemma limiter_first:
  assumes "look (rx_now env) db (''ratelimit:'' @ k) = None" "rx_fail env 0 = None"
  shows "fst (limiter_allow env k limit window db) = Inr (1 \<le> limit)
    \<and> snd (limiter_allow env k limit window db) (''ratelimit:'' @ k) =
        Some (RCount 1, if rx_fail env 1 = None then Some (rx_now env + whole_seconds window) else None)"
proof -
  have "look (rx_now env) (rewrite (rx_now env) (''ratelimit:'' @ k) (RCount 1) db) (''ratelimit:'' @ k) = Some (RCount 1)"
    by simp
  then show ?thesis
    using assms by (auto simp: limiter_allow_def incr_cmd_def answered_def expire_cmd_def touch_def rewrite_def Let_def split: option.split)
qed

text \<open>C37. The window that counts is the configured one in whole seconds, cut (a positive one under a second counts as one second),
  because the expiry is set in seconds. As long as the server answers and has set that expiry with the first request: of the
  requests that come within this window after the first one exactly the first \<open>limit\<close> are allowed, however many there are; the first
  request after it starts a new count. So with a window of a second and a half a request is counted afresh after one second.\<close>

theorem limiter_exact:
  assumes "look (rx_now env) db (''ratelimit:'' @ k) = None" "rx_fail env 0 = None" "rx_fail env 1 = None"
    "\<forall>e \<in> set envs. rx_fail e 0 = None \<and> rx_now e < rx_now env + whole_seconds window"
    "rx_now env + whole_seconds window \<le> rx_now env'" "rx_fail env' 0 = None"
  shows "limiter_run (env # envs) k limit window db = map (\<lambda>i. Inr (int i < limit)) [0..<Suc (length envs)]
    \<and> fst (limiter_allow env' k limit window (limiter_state (env # envs) k limit window db)) = Inr (1 \<le> limit)"
proof -
  obtain r db' where a: "limiter_allow env k limit window db = (r, db')" by fastforce
  with limiter_first [OF assms(1,2), of limit window] assms(3)
  have r: "r = Inr (1 \<le> limit)" "db' (''ratelimit:'' @ k) = Some (RCount 1, Some (rx_now env + whole_seconds window))" by simp_all
  with limiter_counts_on [of db' k 1 "Some (rx_now env + whole_seconds window)" envs limit window] assms(4)
  obtain m where m: "limiter_run envs k limit window db' = map (\<lambda>i. Inr (1 + 1 + int i \<le> limit)) [0..<length envs]"
    "limiter_state envs k limit window db' (''ratelimit:'' @ k) = Some (RCount m, Some (rx_now env + whole_seconds window))" by auto
  then have "look (rx_now env') (limiter_state envs k limit window db') (''ratelimit:'' @ k) = None"
    using assms(5) by (simp add: look_def)
  with limiter_first [of env' "limiter_state envs k limit window db'" k limit window] assms(6)
  have "fst (limiter_allow env' k limit window (limiter_state (env # envs) k limit window db)) = Inr (1 \<le> limit)" by (simp add: a)
  with m(1) r(1) a show ?thesis by (auto simp: map_upt_Suc simp del: upt_Suc)
qed

text \<open>When the expiry of a fresh counter is not set, which the code does not look at, the counter never ends: after \<open>limit\<close> requests every
  further one is refused, however much later it comes.\<close>

theorem lost_expiry_locks_out:
  assumes "look (rx_now env) db (''ratelimit:'' @ k) = None" "rx_fail env 0 = None" "rx_fail env 1 \<noteq> None"
    "\<forall>e \<in> set envs. rx_fail e 0 = None" "limit \<le> int n" "n < length (env # envs)"
  shows "limiter_run (env # envs) k limit window db ! n = Inr False"
proof -
  obtain r db' where a: "limiter_allow env k limit window db = (r, db')" by fastforce
  with limiter_first [OF assms(1,2), of limit window] assms(3)
  have "r = Inr (1 \<le> limit)" "db' (''ratelimit:'' @ k) = Some (RCount 1, None)" by auto
  with limiter_counts_on [of db' k 1 None envs limit window] assms(4,5,6) a show ?thesis
    by (cases n) auto
qed

section \<open>Revoked tokens\<close>

text \<open>A token is listed as revoked exactly for the time it had left, in whole milliseconds, on the server's clock.\<close>

theorem blacklist_exact:
  assumes "look (rx_now env') db (''blacklist:'' @ tok) = None" "blacklist_add env tok e db = (Inr (), db')" "rx_fail env' 0 = None"
  shows "is_blacklisted env' tok db' = Inr (rx_client env < e \<and> rx_now env' < rx_now env + precise_ttl (e - rx_client env))"
  using assms by (auto simp: blacklist_add_def is_blacklisted_def redis_cmds Let_def redis.lookup_save split: option.splits if_splits)

end
