(* ===== verification/CacheService.thy ===== *)
theory CacheService
  imports Redis
begin

text \<open>
  The cache of the marketplace (\<open>services/redis-cache-service/main.go\<close>): GPU availability, user sessions, prices, job states, statistics
  and a rate limit, as keys that expire. A cached value decodes to what was cached; JSON numbers and floating point numbers are rationals.
\<close>

section \<open>Data\<close>

record gpu_availability =
  ga_gpu_id :: string
  ga_provider_id :: string
  ga_is_available :: bool
  ga_utilization :: int
  ga_utilization_memory :: int
  ga_memory_free :: int
  ga_memory_total :: int
  ga_temperature :: int
  ga_power_draw :: int
  ga_rate_dgpu :: rat
  ga_rate_usd :: rat
  ga_last_updated :: time
  ga_active_jobs :: int
  ga_queued_jobs :: int
  ga_estimated_wait :: int

record user_session_cache =
  uc_user_id :: string
  uc_username :: string
  uc_role :: string
  uc_permissions :: "string list"
  uc_preferences :: json_map
  uc_last_active :: time

record pricing_cache =
  pc_gpu_model :: string
  pc_base_dgpu :: rat
  pc_base_usd :: rat
  pc_demand :: rat
  pc_supply :: rat
  pc_peak_hour :: rat
  pc_final_dgpu :: rat
  pc_final_usd :: rat
  pc_last_updated :: time

record job_status_cache =
  jc_job_id :: string
  jc_user_id :: string
  jc_status :: string
  jc_progress :: int
  jc_estimated_end :: time
  jc_cost_dgpu :: rat
  jc_cost_usd :: rat
  jc_last_updated :: time

datatype cache_value =
    GpuEntry gpu_availability
  | SessionEntry user_session_cache
  | PricingEntry pricing_cache
  | JobEntry job_status_cache
  | StatsEntry json_map

type_synonym cache_db = "cache_value redis"

definition gpu_availability_key :: "string \<Rightarrow> string" where
  "gpu_availability_key g = ''gpu:availability:'' @ g"

definition available_gpus_key :: string where
  "available_gpus_key = ''gpus:available''"

definition gpus_by_model_key :: "string \<Rightarrow> string" where
  "gpus_by_model_key m = ''gpus:model:'' @ m"

definition user_session_key :: "string \<Rightarrow> string" where
  "user_session_key u = ''user:session:'' @ u"

definition user_jobs_key :: "string \<Rightarrow> string" where
  "user_jobs_key u = ''user:jobs:active:'' @ u"

definition pricing_key :: "string \<Rightarrow> string" where
  "pricing_key m = ''pricing:model:'' @ m"

definition job_status_key :: "string \<Rightarrow> string" where
  "job_status_key j = ''job:status:'' @ j"

definition rate_limit_key :: "string \<Rightarrow> string \<Rightarrow> string" where
  "rate_limit_key u endpoint = ''rate_limit:'' @ u @ '':'' @ endpoint"

definition ttl_gpu :: duration where "ttl_gpu = 5 * second"

definition ttl_rate_limit :: duration where "ttl_rate_limit = 60 * second"

section \<open>GPU availability\<close>

text \<open>What the index commands answer is not looked at.\<close>

definition set_gpu_availability :: "redis_env \<Rightarrow> string \<Rightarrow> gpu_availability \<Rightarrow> cache_db \<Rightarrow> (string + unit) \<times> cache_db" where
  "set_gpu_availability env g d db =
     (case set_cmd env 0 (gpu_availability_key g) (GpuEntry d) ttl_gpu db of
        (Inl e, db) \<Rightarrow> (Inl (''failed to cache GPU availability: '' @ e), db)
      | (Inr _, db) \<Rightarrow>
          (let (n, db) =
             (if ga_is_available d
              then (3, snd (expire_cmd env 2 available_gpus_key ttl_gpu (snd (sadd_cmd env 1 available_gpus_key g db))))
              else (2, snd (srem_cmd env 1 available_gpus_key g db)));
               mk = gpus_by_model_key (ga_provider_id d)
           in (Inr (), snd (expire_cmd env (n + 1) mk ttl_gpu (snd (sadd_cmd env n mk g db))))))"

definition get_gpu_availability :: "redis_env \<Rightarrow> string \<Rightarrow> cache_db \<Rightarrow> string + gpu_availability option" where
  "get_gpu_availability env g db =
     (case get_cmd env 0 (gpu_availability_key g) db of
        Inl e \<Rightarrow> Inl (''failed to get GPU availability from cache: '' @ e)
      | Inr None \<Rightarrow> Inr None
      | Inr (Some (RText (GpuEntry d))) \<Rightarrow> Inr (Some d)
      | Inr (Some v) \<Rightarrow> Inl ''failed to unmarshal GPU availability data'')"

definition get_available_gpus :: "redis_env \<Rightarrow> cache_db \<Rightarrow> string + string list" where
  "get_available_gpus env db =
     (case smembers_cmd env 0 available_gpus_key db of
        Inl e \<Rightarrow> Inl (''failed to get available GPUs: '' @ e)
      | Inr gs \<Rightarrow> Inr gs)"

section \<open>Sessions, prices, jobs, statistics\<close>

definition set_user_session :: "redis_env \<Rightarrow> string \<Rightarrow> user_session_cache \<Rightarrow> cache_db \<Rightarrow> (string + unit) \<times> cache_db" where
  "set_user_session env u s db = set_cmd env 0 (user_session_key u) (SessionEntry s) (3600 * second) db"

definition get_user_session :: "redis_env \<Rightarrow> string \<Rightarrow> cache_db \<Rightarrow> string + user_session_cache option" where
  "get_user_session env u db =
     (case get_cmd env 0 (user_session_key u) db of
        Inl e \<Rightarrow> Inl e
      | Inr None \<Rightarrow> Inr None
      | Inr (Some (RText (SessionEntry s))) \<Rightarrow> Inr (Some s)
      | Inr (Some v) \<Rightarrow> Inl ''json: cannot unmarshal'')"

definition set_pricing :: "redis_env \<Rightarrow> string \<Rightarrow> pricing_cache \<Rightarrow> cache_db \<Rightarrow> (string + unit) \<times> cache_db" where
  "set_pricing env m p db = set_cmd env 0 (pricing_key m) (PricingEntry p) (300 * second) db"

definition get_pricing :: "redis_env \<Rightarrow> string \<Rightarrow> cache_db \<Rightarrow> string + pricing_cache option" where
  "get_pricing env m db =
     (case get_cmd env 0 (pricing_key m) db of
        Inl e \<Rightarrow> Inl e
      | Inr None \<Rightarrow> Inr None
      | Inr (Some (RText (PricingEntry p))) \<Rightarrow> Inr (Some p)
      | Inr (Some v) \<Rightarrow> Inl ''json: cannot unmarshal'')"

definition set_job_status :: "redis_env \<Rightarrow> string \<Rightarrow> job_status_cache \<Rightarrow> cache_db \<Rightarrow> (string + unit) \<times> cache_db" where
  "set_job_status env j s db =
     (case set_cmd env 0 (job_status_key j) (JobEntry s) (10 * second) db of
        (Inl e, db) \<Rightarrow> (Inl e, db)
      | (Inr _, db) \<Rightarrow>
          (Inr (),
           if jc_status s = ''running'' \<or> jc_status s = ''queued''
           then snd (expire_cmd env 2 (user_jobs_key (jc_user_id s)) (10 * second)
                  (snd (sadd_cmd env 1 (user_jobs_key (jc_user_id s)) j db)))
           else db))"

definition cached_job_status :: "redis_env \<Rightarrow> string \<Rightarrow> cache_db \<Rightarrow> string + job_status_cache option" where
  "cached_job_status env j db =
     (case get_cmd env 0 (job_status_key j) db of
        Inl e \<Rightarrow> Inl e
      | Inr None \<Rightarrow> Inr None
      | Inr (Some (RText (JobEntry s))) \<Rightarrow> Inr (Some s)
      | Inr (Some v) \<Rightarrow> Inl ''json: cannot unmarshal'')"

definition set_system_stats :: "redis_env \<Rightarrow> json_map \<Rightarrow> cache_db \<Rightarrow> (string + unit) \<times> cache_db" where
  "set_system_stats env m db = set_cmd env 0 ''system:stats'' (StatsEntry m) (30 * second) db"

definition get_system_stats :: "redis_env \<Rightarrow> cache_db \<Rightarrow> string + json_map option" where
  "get_system_stats env db =
     (case get_cmd env 0 ''system:stats'' db of
        Inl e \<Rightarrow> Inl e
      | Inr None \<Rightarrow> Inr None
      | Inr (Some (RText (StatsEntry m))) \<Rightarrow> Inr (Some m)
      | Inr (Some v) \<Rightarrow> Inl ''json: cannot unmarshal'')"

section \<open>Rate limit\<close>

text \<open>The counter is read first and counted up by a second message to the server, in which counting and expiry go together.\<close>

definition rate_limit_read :: "redis_env \<Rightarrow> string \<Rightarrow> cache_db \<Rightarrow> string + int" where
  "rate_limit_read env k db =
     (case get_cmd env 0 k db of
        Inl e \<Rightarrow> Inl e
      | Inr None \<Rightarrow> Inr 0
      | Inr (Some (RCount n)) \<Rightarrow> Inr n
      | Inr (Some v) \<Rightarrow> Inl ''strconv.Atoi: parsing: invalid syntax'')"

definition rate_limit_count :: "redis_env \<Rightarrow> string \<Rightarrow> int \<Rightarrow> int \<Rightarrow> cache_db \<Rightarrow> (string + bool \<times> int) \<times> cache_db" where
  "rate_limit_count env k limit current db =
     (if current \<ge> limit then (Inr (False, current), db)
      else (case incr_cmd env 1 k db of
              (Inl e, db) \<Rightarrow> (Inl e, db)
            | (Inr n, db) \<Rightarrow> (Inr (True, current + 1), touch (rx_now env) k ttl_rate_limit db)))"

definition check_rate_limit :: "redis_env \<Rightarrow> string \<Rightarrow> string \<Rightarrow> int \<Rightarrow> cache_db \<Rightarrow> (string + bool \<times> int) \<times> cache_db" where
  "check_rate_limit env u endpoint limit db =
     (let k = rate_limit_key u endpoint in
      case rate_limit_read env k db of
        Inl e \<Rightarrow> (Inl e, db)
      | Inr n \<Rightarrow> rate_limit_count env k limit n db)"

section \<open>Invalidation and statistics of the cache\<close>

text \<open>\<open>ks\<close>: the keys the server lists for the pattern \<open>user:*:\<close> and the user. Without any, nothing more is sent.\<close>

definition invalidate_user_cache :: "string list \<Rightarrow> redis_env \<Rightarrow> cache_db \<Rightarrow> (string + unit) \<times> cache_db" where
  "invalidate_user_cache ks env db =
     (case rx_fail env 0 of
        Some e \<Rightarrow> (Inl e, db)
      | None \<Rightarrow> if ks = [] then (Inr (), db) else del_cmd env 1 ks db)"

definition invalidate_gpu_cache :: "redis_env \<Rightarrow> string \<Rightarrow> cache_db \<Rightarrow> (string + unit) \<times> cache_db" where
  "invalidate_gpu_cache env g db = del_cmd env 0 [gpu_availability_key g, ''gpu:utilization:'' @ g] db"

datatype stat_value = StatInt int | StatFloat rat | StatText string

definition info_line :: "(string \<Rightarrow> rat option) \<Rightarrow> string \<Rightarrow> (string \<times> stat_value) option" where
  "info_line float line =
     (case split_char CHR '':'' line of
        [a, b] \<Rightarrow>
          (let v = trim_space b in
           Some (trim_space a,
             case atoi v of Some n \<Rightarrow> StatInt n
             | None \<Rightarrow> (case float v of Some q \<Rightarrow> StatFloat q | None \<Rightarrow> StatText v)))
      | _ \<Rightarrow> None)"

definition get_cache_stats :: "(string \<Rightarrow> rat option) \<Rightarrow> string + string \<Rightarrow> string + (string \<Rightarrow> stat_value option)" where
  "get_cache_stats float info =
     (case info of
        Inl e \<Rightarrow> Inl e
      | Inr t \<Rightarrow> Inr (map_of (rev (List.map_filter (info_line float) (split_char (CHR 0x0A) t)))))"

end
