(* ===== verification/CacheFacts.thy ===== *)
theory CacheFacts
  imports CacheService
begin

text \<open>How long a cached value is read back, which GPUs the cache calls available, and what its rate limit limits.\<close>

section \<open>GPU availability\<close>

lemma keys_apart [simp]:
  "gpu_availability_key g \<noteq> available_gpus_key" "available_gpus_key \<noteq> gpu_availability_key g"
  "gpus_by_model_key m \<noteq> available_gpus_key" "available_gpus_key \<noteq> gpus_by_model_key m"
  "gpu_availability_key g \<noteq> gpus_by_model_key m" "gpus_by_model_key m \<noteq> gpu_availability_key g"
  "gpu_availability_key g = gpu_availability_key g' \<longleftrightarrow> g = g'"
  by (simp_all add: gpu_availability_key_def available_gpus_key_def gpus_by_model_key_def)

lemma ttls_exact [simp]:
  "precise_ttl ttl_gpu = ttl_gpu" "whole_seconds ttl_gpu = ttl_gpu"
  "precise_ttl ttl_rate_limit = ttl_rate_limit" "whole_seconds ttl_rate_limit = ttl_rate_limit"
  by (simp_all add: ttl_gpu_def ttl_rate_limit_def precise_ttl_def whole_seconds_def)

lemma look_gpu_entry:
  assumes "set_gpu_availability env g d db = (Inr (), db')"
  shows "look t db' (gpu_availability_key h) =
    (if h = g then if t < rx_now env + ttl_gpu then Some (RText (GpuEntry d)) else None else look t db (gpu_availability_key h))"
  using assms
  by (auto simp: set_gpu_availability_def redis_cmds Let_def redis.lookup_save split: option.splits if_splits prod.splits)

text \<open>The availability of a GPU is read back as it was cached for five seconds and is a miss from then on, whatever is cached for other
  GPUs meanwhile.\<close>

theorem availability_read_back:
  assumes "set_gpu_availability env g d db = (Inr (), db')" "set_gpu_availability env2 h d2 db' = (Inr (), db2)" "h \<noteq> g" "rx_fail env' 0 = None"
  shows "get_gpu_availability env' g db2 = Inr (if rx_now env' < rx_now env + ttl_gpu then Some d else None)"
  using assms(3,4) look_gpu_entry [OF assms(1)] look_gpu_entry [OF assms(2)]
  by (simp add: get_gpu_availability_def get_cmd_def answered_def)

text \<open>The set of available GPUs after one more is cached as available.\<close>

lemma available_entry:
  assumes "ga_is_available d" "\<And>i. rx_fail env i = None" "is_set (rx_now env) db available_gpus_key"
  shows "snd (set_gpu_availability env g d db) available_gpus_key =
    Some (RSet (let ys = members (rx_now env) db available_gpus_key in if g \<in> set ys then ys else ys @ [g]), Some (rx_now env + ttl_gpu))"
proof -
  define db1 where "db1 = put (rx_now env) (gpu_availability_key g) (RText (GpuEntry d)) ttl_gpu db"
  define db2 where "db2 = touch (rx_now env) available_gpus_key ttl_gpu (add_member (rx_now env) available_gpus_key g db1)"
  have "db1 available_gpus_key = db available_gpus_key" by (simp add: db1_def)
  from members_cong [where db = db1 and db' = db and k = available_gpus_key and t = "rx_now env", OF this] assms(3)
  have m: "is_set (rx_now env) db1 available_gpus_key"
    "members (rx_now env) db1 available_gpus_key = members (rx_now env) db available_gpus_key" by simp_all
  have "db2 available_gpus_key = Some (RSet (let ys = members (rx_now env) db available_gpus_key in if g \<in> set ys then ys else ys @ [g]), Some (rx_now env + ttl_gpu))"
    unfolding db2_def by (rule touch_there) (simp add: look_add m(2) Let_def)
  moreover have "snd (set_gpu_availability env g d db) available_gpus_key = db2 available_gpus_key"
    using assms(1,2) m(1) by (simp add: set_gpu_availability_def redis_cmds Let_def db1_def db2_def)
  ultimately show ?thesis by simp
qed

lemma set_succeeds:
  assumes "\<And>i. rx_fail env i = None"
  shows "set_gpu_availability env g d db = (Inr (), snd (set_gpu_availability env g d db))"
  using assms by (simp add: set_gpu_availability_def redis_cmds Let_def split: prod.split)

fun refreshes :: "(redis_env \<times> string \<times> gpu_availability) list \<Rightarrow> cache_db \<Rightarrow> cache_db" where
  "refreshes [] db = db"
| "refreshes ((env, g, d) # rs) db = refreshes rs (snd (set_gpu_availability env g d db))"

text \<open>No more than the lifetime passes from one instant to the next.\<close>

fun in_time :: "duration \<Rightarrow> time \<Rightarrow> time list \<Rightarrow> bool" where
  "in_time d t [] = True"
| "in_time d t (u # us) = (t \<le> u \<and> u < t + d \<and> in_time d u us)"

lemma listed_stays:
  assumes "\<exists>xs. db available_gpus_key = Some (RSet xs, Some (t + ttl_gpu)) \<and> a \<in> set xs"
    "\<forall>(env, g, d) \<in> set rs. g \<noteq> a \<and> ga_is_available d \<and> (\<forall>i. rx_fail env i = None)"
    "in_time ttl_gpu t (map (\<lambda>r. rx_now (fst r)) rs @ [now])"
  shows "(\<exists>xs. look now (refreshes rs db) available_gpus_key = Some (RSet xs) \<and> a \<in> set xs)
    \<and> look u (refreshes rs db) (gpu_availability_key a) = look u db (gpu_availability_key a)"
  using assms
proof (induction rs arbitrary: db t)
  case Nil
  then show ?case by (auto simp: look_def)
next
  case (Cons r rs)
  obtain env g d where r: "r = (env, g, d)" by (cases r)
  obtain xs where xs: "db available_gpus_key = Some (RSet xs, Some (t + ttl_gpu))" "a \<in> set xs" using Cons.prems(1) by blast
  have p: "g \<noteq> a" "ga_is_available d" "\<And>i. rx_fail env i = None" "t \<le> rx_now env" "rx_now env < t + ttl_gpu"
    "in_time ttl_gpu (rx_now env) (map (\<lambda>r. rx_now (fst r)) rs @ [now])"
    using Cons.prems(2,3) by (auto simp: r)
  have l: "look (rx_now env) db available_gpus_key = Some (RSet xs)" using xs p(5) by (simp add: look_def)
  define db' where "db' = snd (set_gpu_availability env g d db)"
  note ok = set_succeeds [OF p(3), of g d db, folded db'_def]
  have "is_set (rx_now env) db available_gpus_key" "members (rx_now env) db available_gpus_key = xs"
    using l by (simp_all add: is_set_def members_def)
  then have "\<exists>ys. db' available_gpus_key = Some (RSet ys, Some (rx_now env + ttl_gpu)) \<and> a \<in> set ys"
    using available_entry [OF p(2,3), of db g] xs(2) by (simp add: db'_def Let_def)
  from Cons.IH [where db = db' and t = "rx_now env", OF this _ p(6)] Cons.prems(2) have
    "(\<exists>xs. look now (refreshes rs db') available_gpus_key = Some (RSet xs) \<and> a \<in> set xs)
     \<and> look u (refreshes rs db') (gpu_availability_key a) = look u db' (gpu_availability_key a)" by simp
  moreover have "look u db' (gpu_availability_key a) = look u db (gpu_availability_key a)"
    using look_gpu_entry [OF ok, of u a] p(1) by simp
  ultimately show ?case by (simp add: r db'_def)
qed

text \<open>The set of available GPUs outlives what it is about: as long as some other GPU is cached as available every five seconds, a GPU that was
  cached once stays listed as available, although nothing is known of it any more.\<close>

theorem silent_gpu_stays_available:
  assumes "ga_is_available d" "is_set (rx_now env) db available_gpus_key" "\<And>i. rx_fail env i = None"
    "\<forall>(e, g, d') \<in> set rs. g \<noteq> a \<and> ga_is_available d' \<and> (\<forall>i. rx_fail e i = None)"
    "in_time ttl_gpu (rx_now env) (map (\<lambda>r. rx_now (fst r)) rs @ [rx_now env'])"
    "rx_now env + ttl_gpu \<le> rx_now env'" "rx_fail env' 0 = None"
  shows "\<exists>gs. get_available_gpus env' (refreshes ((env, a, d) # rs) db) = Inr gs \<and> a \<in> set gs
    \<and> get_gpu_availability env' a (refreshes ((env, a, d) # rs) db) = Inr None"
proof -
  define db' where "db' = snd (set_gpu_availability env a d db)"
  note ok = set_succeeds [OF assms(3), of a d db, folded db'_def]
  have "\<exists>xs. db' available_gpus_key = Some (RSet xs, Some (rx_now env + ttl_gpu)) \<and> a \<in> set xs"
    using available_entry [OF assms(1,3,2), of a] by (simp add: db'_def Let_def)
  from listed_stays [where db = db' and t = "rx_now env" and u = "rx_now env'" and a = a and rs = rs, OF this assms(4,5)] obtain gs where
    "look (rx_now env') (refreshes rs db') available_gpus_key = Some (RSet gs)" "a \<in> set gs"
    "look (rx_now env') (refreshes rs db') (gpu_availability_key a) = look (rx_now env') db' (gpu_availability_key a)" by blast
  with look_gpu_entry [OF ok, of "rx_now env'" a] assms(6,7) show ?thesis
    by (simp add: db'_def get_available_gpus_def get_gpu_availability_def redis_cmds is_set_def members_def)
qed

section \<open>Rate limit\<close>

fun limit_run :: "redis_env list \<Rightarrow> string \<Rightarrow> string \<Rightarrow> int \<Rightarrow> cache_db \<Rightarrow> (string + bool \<times> int) list" where
  "limit_run [] u endpoint limit db = []"
| "limit_run (env # envs) u endpoint limit db =
     (case check_rate_limit env u endpoint limit db of (r, db') \<Rightarrow> r # limit_run envs u endpoint limit db')"

definition limit_state :: "string \<Rightarrow> int \<Rightarrow> time \<Rightarrow> cache_db \<Rightarrow> bool" where
  "limit_state k n t db \<longleftrightarrow> (n = 0 \<and> look t db k = None) \<or> (n > 0 \<and> db k = Some (RCount n, Some (t + ttl_rate_limit)))"

lemma limit_step:
  assumes "limit_state (rate_limit_key u ep) n t db" "n \<ge> 0" "t \<le> rx_now env" "rx_now env < t + ttl_rate_limit" "\<And>i. rx_fail env i = None"
  shows "fst (check_rate_limit env u ep limit db) = Inr (if n < limit then (True, n + 1) else (False, n))
    \<and> limit_state (rate_limit_key u ep) (if n < limit then n + 1 else n) (if n < limit then rx_now env else t) (snd (check_rate_limit env u ep limit db))"
proof (cases "n = 0")
  case True
  then have l: "look (rx_now env) db (rate_limit_key u ep) = None"
    using assms(1,3) redis.gone_stays by (auto simp: limit_state_def)
  have "touch (rx_now env) k ttl_rate_limit (rewrite (rx_now env) k (RCount 1) db) k = Some (RCount 1, Some (rx_now env + ttl_rate_limit))" for k
    by (simp add: touch_def)
  moreover have "limit_state (rate_limit_key u ep) 0 t db" using assms(1) True by simp
  ultimately show ?thesis using True l assms(5)
    by (simp add: check_rate_limit_def rate_limit_read_def rate_limit_count_def get_cmd_def incr_cmd_def answered_def Let_def limit_state_def)
next
  case False
  then have d: "db (rate_limit_key u ep) = Some (RCount n, Some (t + ttl_rate_limit))" "n > 0"
    using assms(1,2) by (auto simp: limit_state_def)
  then have l: "look (rx_now env) db (rate_limit_key u ep) = Some (RCount n)" using assms(4) by (simp add: look_def)
  have "touch (rx_now env) k ttl_rate_limit (rewrite (rx_now env) k (RCount (n + 1)) db) k = Some (RCount (n + 1), Some (rx_now env + ttl_rate_limit))" for k
    by (simp add: touch_def)
  then show ?thesis using l d assms(5)
    by (simp add: check_rate_limit_def rate_limit_read_def rate_limit_count_def get_cmd_def incr_cmd_def answered_def Let_def limit_state_def)
qed

lemma limit_run_state:
  assumes "limit_state (rate_limit_key u ep) n t db" "n \<ge> 0" "in_time ttl_rate_limit t (map rx_now envs)"
    "\<forall>env \<in> set envs. \<forall>i. rx_fail env i = None" "n + int (length envs) \<le> limit + 1" "envs \<noteq> []" "n \<le> limit"
  shows "last (limit_run envs u ep limit db) =
    Inr (if n + int (length envs) \<le> limit then (True, n + int (length envs)) else (False, limit))"
  using assms
proof (induction envs arbitrary: n t db)
  case (Cons env envs)
  obtain r db' where c: "check_rate_limit env u ep limit db = (r, db')" by fastforce
  have p: "t \<le> rx_now env" "rx_now env < t + ttl_rate_limit" "in_time ttl_rate_limit (rx_now env) (map rx_now envs)" "\<And>i. rx_fail env i = None"
    using Cons.prems(3,4) by auto
  note st = limit_step [OF Cons.prems(1,2) p(1,2,4), of limit]
  show ?case
  proof (cases "envs = []")
    case True
    then show ?thesis using st Cons.prems(7) by (auto simp: c)
  next
    case False
    then have "n < limit" using Cons.prems(5) by (cases envs) auto
    with st have s: "limit_state (rate_limit_key u ep) (n + 1) (rx_now env) db'" by (simp add: c)
    have "last (limit_run envs u ep limit db') =
        Inr (if n + 1 + int (length envs) \<le> limit then (True, n + 1 + int (length envs)) else (False, limit))"
      using Cons.IH [where n = "n + 1" and t = "rx_now env" and db = db', OF s _ p(3)] Cons.prems(2,4,5) False \<open>n < limit\<close> by simp
    moreover have "limit_run envs u ep limit db' \<noteq> []" using False by (cases envs) (auto split: prod.split)
    ultimately show ?thesis by (simp add: c ac_simps)
  qed
qed simp

text \<open>The limit is not one on requests per minute: every request that is let through starts the minute again, so of requests that come one by one
  a little less than a minute apart the first \<open>limit\<close> are let through and the next one is refused.\<close>

theorem slow_client_refused:
  assumes "look (rx_now env) db (rate_limit_key u ep) = None" "in_time ttl_rate_limit (rx_now env) (map rx_now envs)"
    "\<forall>e \<in> set (env # envs). \<forall>i. rx_fail e i = None" "int (length envs) = limit"
  shows "last (limit_run (env # envs) u ep limit db) = Inr (False, limit)"
  using limit_run_state [where n = 0 and t = "rx_now env" and db = db and envs = "env # envs" and u = u and ep = ep and limit = limit] assms
  by (simp add: limit_state_def ttl_rate_limit_def)

fun counts :: "redis_env list \<Rightarrow> string \<Rightarrow> int \<Rightarrow> int \<Rightarrow> cache_db \<Rightarrow> (string + bool \<times> int) list \<times> cache_db" where
  "counts [] k limit n db = ([], db)"
| "counts (env # envs) k limit n db =
     (case rate_limit_count env k limit n db of (r, db') \<Rightarrow> (case counts envs k limit n db' of (rs, db'') \<Rightarrow> (r # rs, db'')))"

text \<open>Requests that read the counter before any of them has counted are all let through, however many they are and however little the
  limit leaves.\<close>

theorem concurrent_requests_pass:
  assumes "n < limit" "\<forall>env \<in> set envs. rx_now env = t \<and> rx_fail env 1 = None" "look t db k \<in> {None, Some (RCount m)}"
  shows "fst (counts envs k limit n db) = replicate (length envs) (Inr (True, n + 1))"
  using assms(2,3)
proof (induction envs arbitrary: db m)
  case (Cons env envs)
  have now: "rx_now env = t" "rx_fail env 1 = None" using Cons.prems(1) by simp_all
  have l: "look t (touch t k ttl_rate_limit (rewrite t k (RCount j) db)) k = Some (RCount j)" for j
    by (simp add: touch_law ttl_rate_limit_def)
  obtain db' j where c: "rate_limit_count env k limit n db = (Inr (True, n + 1), db')" "look t db' k = Some (RCount j)"
  proof (cases "look t db k = None")
    case True
    then show thesis using that [OF _ l [of 1]] assms(1) now by (simp add: rate_limit_count_def incr_cmd_def answered_def)
  next
    case False
    then have "look t db k = Some (RCount m)" using Cons.prems(2) by auto
    then show thesis using that [OF _ l [of "m + 1"]] assms(1) now by (simp add: rate_limit_count_def incr_cmd_def answered_def)
  qed
  have "fst (counts envs k limit n db') = replicate (length envs) (Inr (True, n + 1))"
    using Cons.IH [where db = db' and m = j] Cons.prems(1) c(2) by simp
  then show ?case by (simp add: c(1) case_prod_beta)
qed simp

section \<open>Invalidation\<close>

text \<open>A session is not read back after its user's entries were invalidated, when the server lists the keys that match: whatever is there under the
  pattern.\<close>

theorem invalidated_session_gone:
  assumes "invalidate_user_cache ks env db = (Inr (), db')" "look (rx_now env) db (user_session_key u) \<noteq> None \<longrightarrow> user_session_key u \<in> set ks"
    "rx_now env \<le> rx_now env'" "rx_fail env' 0 = None"
  shows "get_user_session env' u db' = Inr None"
proof -
  have "look (rx_now env') db' (user_session_key u) = None"
  proof (cases "user_session_key u \<in> set ks")
    case True
    then have "db' = fold drop_key ks db" using assms(1)
      by (auto simp: invalidate_user_cache_def del_cmd_def answered_def split: option.splits if_splits)
    then show ?thesis using True by (simp add: redis.lookup_erase_all)
  next
    case False
    with assms(2) have "look (rx_now env) db (user_session_key u) = None" by blast
    from redis.gone_stays [OF this assms(3)] have n: "look (rx_now env') db (user_session_key u) = None" .
    have "db' = db \<or> db' = fold drop_key ks db" using assms(1)
      by (auto simp: invalidate_user_cache_def del_cmd_def answered_def split: option.splits if_splits)
    with n show ?thesis by (auto simp: redis.lookup_erase_all)
  qed
  then show ?thesis using assms(4) by (simp add: get_user_session_def get_cmd_def answered_def)
qed

text \<open>A job that was running stays among its user's active jobs when it is finished: only the expiry of the whole set removes it.\<close>

theorem finished_job_stays_active:
  assumes "jc_status s \<noteq> ''running''" "jc_status s \<noteq> ''queued''"
  shows "look t (snd (set_job_status env j s db)) (user_jobs_key u) = look t db (user_jobs_key u)"
  using assms by (simp add: set_job_status_def redis_cmds redis.lookup_save user_jobs_key_def job_status_key_def split: option.split)

end
