(* ===== verification/RentalService.thy ===== *)
theory RentalService
  imports GoText Decimal Table
begin

text \<open>
  The stand-alone rental service (\<open>services/rental-service/main.go\<close>) and the GPU list (\<open>services/gpu-service/main.go\<close>) over the tables of
  \<open>database/migrations/001_initial_schema.sql\<close>. Floating point numbers are rationals; a column \<open>DECIMAL(p, s)\<close> rounds what is written to it
  or refuses it. A statement fails when the environment says so or when an identifier is no UUID. A query whose rows are read one by one is
  sent before the server looks at its arguments: an argument it refuses, or a connection that breaks after \<open>rl_cut\<close> rows, ends the rows early,
  which the code does not look at.
\<close>

section \<open>Tables\<close>

record rental_user =
  ru_id :: uuid
  ru_balance :: rat

record gpu_instance =
  gi_id :: uuid
  gi_provider_id :: uuid
  gi_model_id :: uuid
  gi_instance_id :: string
  gi_price :: rat
  gi_status :: string
  gi_location :: "string option"
  gi_specs :: "json option"

record rental_row =
  rr_id :: uuid
  rr_user_id :: uuid
  rr_gpu_id :: uuid
  rr_status :: string
  rr_start :: "time option"
  rr_end :: "time option"
  rr_duration :: "rat option"
  rr_price :: rat
  rr_total_cost :: "rat option"
  rr_payment :: string
  rr_connection :: "json option"
  rr_created :: time

record rental_db =
  rd_users :: "rental_user list"
  rd_gpus :: "gpu_instance list"
  rd_rentals :: "rental_row list"

record rental_env =
  rl_now :: time
  rl_fresh :: uuid
  rl_parse :: "string \<Rightarrow> uuid option"
  rl_fail :: "nat \<Rightarrow> bool"
  rl_cut :: "nat option"

datatype rental_reply =
    RentalRefused nat string
  | RentalMade rental_row
  | RentalStarted json
  | RentalStopped rat rat time
  | RentalList "rental_row list"

section \<open>A rental is made\<close>

text \<open>What is checked before the transaction: the GPU's and the user's identifier and the price.\<close>

definition rental_check :: "rental_env \<Rightarrow> string \<Rightarrow> string \<times> rat \<Rightarrow> rental_db \<Rightarrow> rental_reply + uuid \<times> uuid \<times> rat" where
  "rental_check env user req db =
     (case (if rl_fail env 0 then None else Option.bind (rl_parse env (fst req)) (\<lambda>g. find (\<lambda>r. gi_id r = g) (rd_gpus db))) of
        None \<Rightarrow> Inl (RentalRefused 404 ''GPU not found'')
      | Some g \<Rightarrow>
          if gi_status g \<noteq> ''available'' then Inl (RentalRefused 409 ''GPU not available'')
          else (case (if rl_fail env 1 then None else Option.bind (rl_parse env user) (\<lambda>u. find (\<lambda>r. ru_id r = u) (rd_users db))) of
                  None \<Rightarrow> Inl (RentalRefused 404 ''User not found'')
                | Some u \<Rightarrow>
                    if ru_balance u < snd req * gi_price g then Inl (RentalRefused 402 ''Insufficient balance'')
                    else Inr (ru_id u, gi_id g, gi_price g)))"

definition set_gpu_status :: "uuid \<Rightarrow> string \<Rightarrow> rental_db \<Rightarrow> rental_db" where
  "set_gpu_status g s db = db\<lparr>rd_gpus := map (\<lambda>r. if gi_id r = g then r\<lparr>gi_status := s\<rparr> else r) (rd_gpus db)\<rparr>"

text \<open>The transaction: the row, the GPU's state, the commit.\<close>

definition rental_insert :: "rental_env \<Rightarrow> uuid \<times> uuid \<times> rat \<Rightarrow> rental_db \<Rightarrow> rental_reply \<times> rental_db" where
  "rental_insert env x db =
     (case x of (u, g, price) \<Rightarrow>
      if rl_fail env 2 then (RentalRefused 500 ''Database error'', db)
      else
        (let row = \<lparr>rr_id = rl_fresh env, rr_user_id = u, rr_gpu_id = g, rr_status = ''pending'', rr_start = None, rr_end = None,
                    rr_duration = None, rr_price = price, rr_total_cost = None, rr_payment = ''pending'', rr_connection = None,
                    rr_created = rl_now env\<rparr>
         in if rl_fail env 3 \<or> u \<notin> ru_id ` set (rd_users db) \<or> g \<notin> gi_id ` set (rd_gpus db)
            then (RentalRefused 500 ''Failed to create rental'', db)
            else if rl_fail env 4 then (RentalRefused 500 ''Failed to update GPU status'', db)
            else if rl_fail env 5 then (RentalRefused 500 ''Failed to commit transaction'', db)
            else (RentalMade row, set_gpu_status g ''busy'' (db\<lparr>rd_rentals := rd_rentals db @ [row]\<rparr>))))"

definition create_rental :: "rental_env \<Rightarrow> string \<Rightarrow> (string \<times> rat) option \<Rightarrow> rental_db \<Rightarrow> rental_reply \<times> rental_db" where
  "create_rental env user body db =
     (if user = [] then (RentalRefused 401 ''Unauthorized'', db)
      else (case body of None \<Rightarrow> (RentalRefused 400 ''Invalid request body'', db)
      | Some req \<Rightarrow>
          (case rental_check env user req db of
             Inl r \<Rightarrow> (r, db)
           | Inr x \<Rightarrow> rental_insert env x db)))"

section \<open>A rental is started and stopped\<close>

definition connection_info :: json where
  "connection_info =
     JObject [(''ssh_host'', JString ''gpu-instance.dantegpu.com''), (''ssh_port'', JNumber 22), (''ssh_username'', JString ''ubuntu''),
              (''ssh_password'', JString ''generated_password_123''), (''jupyter_url'', JString ''https://jupyter.dantegpu.com/lab''),
              (''vnc_url'', JString ''https://vnc.dantegpu.com'')]"

definition start_rental :: "rental_env \<Rightarrow> string \<Rightarrow> string \<Rightarrow> rental_db \<Rightarrow> rental_reply \<times> rental_db" where
  "start_rental env user rid db =
     (if user = [] then (RentalRefused 401 ''Unauthorized'', db)
      else if rl_fail env 0 then (RentalRefused 500 ''Database error'', db)
      else (case (rl_parse env rid, rl_parse env user) of
              (Some i, Some u) \<Rightarrow>
                if rl_fail env 1 then (RentalRefused 500 ''Failed to start rental'', db)
                else
                  (let rows = map (\<lambda>r. if rr_id r = i \<and> rr_user_id r = u \<and> rr_status r = ''pending''
                                      then r\<lparr>rr_status := ''running'', rr_start := Some (rl_now env), rr_payment := ''paid''\<rparr> else r) (rd_rentals db);
                       rows = map (\<lambda>r. if rr_id r = i then r\<lparr>rr_connection := Some connection_info\<rparr> else r) rows
                   in if rl_fail env 2 then (RentalRefused 500 ''Failed to update connection info'', db)
                      else if rl_fail env 3 then (RentalRefused 500 ''Failed to commit transaction'', db)
                      else (RentalStarted connection_info, db\<lparr>rd_rentals := rows\<rparr>))
            | _ \<Rightarrow> (RentalRefused 500 ''Failed to start rental'', db)))"

definition rental_hours :: "time \<Rightarrow> time \<Rightarrow> rat" where
  "rental_hours start now = of_int (now - start) / of_int hour"

text \<open>The user's row with the cost taken off; a result that does not fit the column is an error.\<close>

definition charged_users :: "uuid \<Rightarrow> rat \<Rightarrow> rental_user list \<Rightarrow> rental_user list option" where
  "charged_users u cost us =
     (if \<exists>r \<in> set us. ru_id r = u \<and> numeric 10 2 (ru_balance r - cost) = None then None
      else Some (map (\<lambda>r. if ru_id r = u then r\<lparr>ru_balance := the (numeric 10 2 (ru_balance r - cost))\<rparr> else r) us))"

definition stop_rental :: "rental_env \<Rightarrow> string \<Rightarrow> string \<Rightarrow> rental_db \<Rightarrow> rental_reply \<times> rental_db" where
  "stop_rental env user rid db =
     (if user = [] then (RentalRefused 401 ''Unauthorized'', db)
      else if rl_fail env 0 then (RentalRefused 500 ''Database error'', db)
      else (case (if rl_fail env 1 then None else
                    (case (rl_parse env rid, rl_parse env user) of
                       (Some i, Some u) \<Rightarrow> find (\<lambda>r. rr_id r = i \<and> rr_user_id r = u \<and> rr_status r = ''running'') (rd_rentals db)
                     | _ \<Rightarrow> None)) of
              None \<Rightarrow> (RentalRefused 404 ''Rental not found or not running'', db)
            | Some row \<Rightarrow>
                (case rr_start row of
                   None \<Rightarrow> (RentalRefused 404 ''Rental not found or not running'', db)
                 | Some start \<Rightarrow>
                     (let now = rl_now env; hours = rental_hours start now; cost = hours * rr_price row in
                      if rl_fail env 2 \<or> numeric 8 4 hours = None \<or> numeric 10 2 cost = None
                      then (RentalRefused 500 ''Failed to stop rental'', db)
                      else
                        (let rows = map (\<lambda>r. if rr_id r = rr_id row
                                            then r\<lparr>rr_status := ''completed'', rr_end := Some now, rr_duration := numeric 8 4 hours,
                                                   rr_total_cost := numeric 10 2 cost\<rparr> else r) (rd_rentals db)
                         in if rl_fail env 3 then (RentalRefused 500 ''Failed to update GPU status'', db)
                            else if rl_fail env 4 then (RentalRefused 500 ''Failed to update user balance'', db)
                            else (case charged_users (rr_user_id row) cost (rd_users db) of
                                    None \<Rightarrow> (RentalRefused 500 ''Failed to update user balance'', db)
                                  | Some us \<Rightarrow>
                                      if rl_fail env 5 then (RentalRefused 500 ''Failed to commit transaction'', db)
                                      else (RentalStopped hours cost now,
                                            set_gpu_status (rr_gpu_id row) ''available'' (db\<lparr>rd_rentals := rows, rd_users := us\<rparr>))))))))"

definition get_user_rentals :: "rental_env \<Rightarrow> string \<Rightarrow> rental_db \<Rightarrow> rental_reply" where
  "get_user_rentals env user db =
     (if user = [] then RentalRefused 401 ''Unauthorized''
      else if rl_fail env 0 then RentalRefused 500 ''Database error''
      else (case rl_parse env user of
              None \<Rightarrow> RentalList []
            | Some u \<Rightarrow> RentalList (rows_read (rl_cut env) (rev (sort_key rr_created (filter (\<lambda>r. rr_user_id r = u) (rd_rentals db)))))))"

section \<open>The list of GPUs\<close>

record gpu_provider_row =
  gp_id :: uuid
  gp_name :: string
  gp_location :: string
  gp_contact_email :: "string option"
  gp_status :: "string option"

record gpu_model_row =
  gm_id :: uuid
  gm_name :: string
  gm_manufacturer :: string
  gm_architecture :: "string option"
  gm_memory_gb :: int
  gm_memory_type :: "string option"
  gm_bandwidth :: "rat option"
  gm_cuda_cores :: "int option"
  gm_tensor_cores :: "int option"
  gm_base_clock :: "int option"
  gm_boost_clock :: "int option"
  gm_power :: "int option"
  gm_pcie_version :: "string option"
  gm_features :: "json option"
  gm_benchmarks :: "json option"

type_synonym joined_gpu = "gpu_instance \<times> gpu_provider_row \<times> gpu_model_row"

definition joined_gpus :: "gpu_provider_row list \<Rightarrow> gpu_model_row list \<Rightarrow> gpu_instance list \<Rightarrow> joined_gpu list" where
  "joined_gpus ps ms gs = [(g, p, m). g \<leftarrow> gs, p \<leftarrow> ps, gp_id p = gi_provider_id g, m \<leftarrow> ms, gm_id m = gi_model_id g]"

text \<open>A NULL does not scan into a field that is no pointer.\<close>

definition scans :: "joined_gpu \<Rightarrow> bool" where
  "scans x = (case x of (g, p, m) \<Rightarrow>
     gi_location g \<noteq> None \<and> gp_contact_email p \<noteq> None \<and> gp_status p \<noteq> None \<and> gm_architecture m \<noteq> None \<and> gm_memory_type m \<noteq> None
     \<and> gm_bandwidth m \<noteq> None \<and> gm_cuda_cores m \<noteq> None)"

definition query_number :: "string \<Rightarrow> int \<Rightarrow> int" where
  "query_number s d = (if s = [] then d else case atoi s of None \<Rightarrow> 0 | Some n \<Rightarrow> n)"

text \<open>\<open>ordered\<close> is the order by price the database chooses, \<open>brk\<close> the rows that arrive before the connection breaks; the server
  refuses a negative page.\<close>

definition get_gpus ::
    "(joined_gpu list \<Rightarrow> joined_gpu list) \<Rightarrow> bool \<Rightarrow> nat option \<Rightarrow> string \<Rightarrow> string \<Rightarrow> string \<Rightarrow> joined_gpu list \<Rightarrow> string + joined_gpu list" where
  "get_gpus ordered fails brk status lmt off rows =
     (let l = query_number lmt 20; n = query_number off 0;
          rows = (if status = [] then rows else filter (\<lambda>(g, p, m). gi_status g = status) rows)
      in if fails then Inl ''Database error''
         else if l < 0 \<or> n < 0 then Inr []
         else (let page = rows_read brk (take (nat l) (drop (nat n) (ordered rows))) in
               if list_all scans page then Inr page else Inl ''Scan error''))"

definition get_gpu :: "uuid option \<Rightarrow> joined_gpu list \<Rightarrow> string + joined_gpu" where
  "get_gpu i rows =
     (case find (\<lambda>(g, p, m). i = Some (gi_id g)) rows of
        None \<Rightarrow> Inl ''GPU not found''
      | Some x \<Rightarrow> if scans x then Inr x else Inl ''GPU not found'')"

end
