(* ===== verification/RentalFacts.thy ===== *)
theory RentalFacts
  imports RentalService
begin

text \<open>What the rental service keeps when its requests are handled one after another, what it does not keep when they overlap, and what it charges.\<close>

section \<open>One request after another\<close>

datatype rental_call = CallCreate string "(string \<times> rat) option" | CallStart string string | CallStop string string

definition rental_call_step :: "rental_env \<Rightarrow> rental_call \<Rightarrow> rental_db \<Rightarrow> rental_reply \<times> rental_db" where
  "rental_call_step env c db =
     (case c of CallCreate u b \<Rightarrow> create_rental env u b db | CallStart u i \<Rightarrow> start_rental env u i db | CallStop u i \<Rightarrow> stop_rental env u i db)"

inductive rentals_reach :: "rental_db \<Rightarrow> rental_db \<Rightarrow> bool" for db where
  reach_none: "rentals_reach db db"
| reach_call: "rentals_reach db db1 \<Longrightarrow> rl_fresh env \<notin> rr_id ` set (rd_rentals db1) \<Longrightarrow> rentals_reach db (snd (rental_call_step env c db1))"

definition open_rental :: "rental_row \<Rightarrow> bool" where
  "open_rental r \<longleftrightarrow> rr_status r = ''pending'' \<or> rr_status r = ''running''"

text \<open>A GPU has at most one open rental, and while it has one it is busy.\<close>

definition rentals_ok :: "rental_db \<Rightarrow> bool" where
  "rentals_ok db \<longleftrightarrow>
     distinct (map rr_id (rd_rentals db)) \<and>
     (\<forall>g. length (filter (\<lambda>r. open_rental r \<and> rr_gpu_id r = g) (rd_rentals db)) \<le> 1) \<and>
     (\<forall>r \<in> set (rd_rentals db). open_rental r \<longrightarrow> (\<forall>g \<in> set (rd_gpus db). gi_id g = rr_gpu_id r \<longrightarrow> gi_status g = ''busy''))"

lemma filter_map_same:
  assumes "\<And>r. r \<in> set rs \<Longrightarrow> P (f r) = P r"
  shows "length (filter P (map f rs)) = length (filter P rs)"
  using assms by (induction rs) auto

lemma rentals_ok_map:
  assumes "rentals_ok db" "\<And>r. rr_id (f r) = rr_id r \<and> rr_gpu_id (f r) = rr_gpu_id r \<and> open_rental (f r) = open_rental r"
  shows "rentals_ok (db\<lparr>rd_rentals := map f (rd_rentals db)\<rparr>)"
proof -
  have "map rr_id (map f (rd_rentals db)) = map rr_id (rd_rentals db)" using assms(2) by simp
  moreover have "length (filter (\<lambda>r. open_rental r \<and> rr_gpu_id r = g) (map f (rd_rentals db)))
      = length (filter (\<lambda>r. open_rental r \<and> rr_gpu_id r = g) (rd_rentals db))" for g
    by (rule filter_map_same) (simp add: assms(2))
  ultimately show ?thesis using assms by (simp add: rentals_ok_def comp_def)
qed

lemma start_keeps:
  assumes "rentals_ok db"
  shows "rentals_ok (snd (start_rental env user rid db))"
proof (cases "snd (start_rental env user rid db) = db")
  case False
  then obtain i u where r: "rl_parse env rid = Some i" "rl_parse env user = Some u"
    and d: "snd (start_rental env user rid db) = db\<lparr>rd_rentals :=
      map (\<lambda>r. if rr_id r = i then r\<lparr>rr_connection := Some connection_info\<rparr> else r)
        (map (\<lambda>r. if rr_id r = i \<and> rr_user_id r = u \<and> rr_status r = ''pending''
             then r\<lparr>rr_status := ''running'', rr_start := Some (rl_now env), rr_payment := ''paid''\<rparr> else r) (rd_rentals db))\<rparr>"
    by (auto simp: start_rental_def Let_def split: if_splits option.splits)
  have "rentals_ok (db\<lparr>rd_rentals := map (\<lambda>r. if rr_id r = i \<and> rr_user_id r = u \<and> rr_status r = ''pending''
             then r\<lparr>rr_status := ''running'', rr_start := Some (rl_now env), rr_payment := ''paid''\<rparr> else r) (rd_rentals db)\<rparr>)"
    by (rule rentals_ok_map [OF assms]) (simp add: open_rental_def)
  from rentals_ok_map [OF this, of "\<lambda>r. if rr_id r = i then r\<lparr>rr_connection := Some connection_info\<rparr> else r"] d
  show ?thesis by (simp add: open_rental_def)
qed (use assms in simp)

text \<open>The GPU found available has no open rental.\<close>

lemma create_cases:
  assumes "snd (create_rental env user body db) \<noteq> db"
  shows "\<exists>req u g price row. body = Some req \<and> rental_check env user req db = Inr (u, g, price)
    \<and> create_rental env user body db = (RentalMade row, set_gpu_status g ''busy'' (db\<lparr>rd_rentals := rd_rentals db @ [row]\<rparr>))
    \<and> rr_id row = rl_fresh env \<and> rr_gpu_id row = g \<and> rr_status row = ''pending'' \<and> rr_user_id row = u \<and> rr_price row = price"
  using assms by (auto simp: create_rental_def rental_insert_def Let_def split: if_splits option.splits sum.splits)

lemma check_available:
  assumes "rental_check env user req db = Inr (u, g, price)"
  shows "\<exists>r \<in> set (rd_gpus db). gi_id r = g \<and> gi_status r = ''available'' \<and> gi_price r = price"
proof -
  from assms obtain r where "Option.bind (rl_parse env (fst req)) (\<lambda>g. find (\<lambda>r. gi_id r = g) (rd_gpus db)) = Some r"
    "gi_status r = ''available''" "gi_id r = g" "gi_price r = price"
    by (auto simp: rental_check_def split: if_splits option.splits)
  then show ?thesis by (auto simp: bind_eq_Some_conv dest: find_SomeD)
qed

lemma create_keeps:
  assumes "rentals_ok db" "rl_fresh env \<notin> rr_id ` set (rd_rentals db)"
  shows "rentals_ok (snd (create_rental env user body db))"
proof (cases "snd (create_rental env user body db) = db")
  case False
  then obtain req u g price row where c: "rental_check env user req db = Inr (u, g, price)"
    "snd (create_rental env user body db) = set_gpu_status g ''busy'' (db\<lparr>rd_rentals := rd_rentals db @ [row]\<rparr>)"
    "rr_id row = rl_fresh env" "rr_gpu_id row = g" "rr_status row = ''pending''"
    using create_cases [OF False] by auto
  obtain gr where gr: "gr \<in> set (rd_gpus db)" "gi_id gr = g" "gi_status gr = ''available''" using check_available [OF c(1)] by blast
  have "\<not> (open_rental r \<and> rr_gpu_id r = g)" if "r \<in> set (rd_rentals db)" for r
    using assms(1) that gr by (auto simp: rentals_ok_def)
  then have none: "filter (\<lambda>r. open_rental r \<and> rr_gpu_id r = g) (rd_rentals db) = []" by (simp add: filter_empty_conv)
  show ?thesis
    unfolding c(2) rentals_ok_def set_gpu_status_def
  proof (intro conjI allI ballI impI)
    show "distinct (map rr_id (rd_rentals ((db\<lparr>rd_rentals := rd_rentals db @ [row]\<rparr>)
        \<lparr>rd_gpus := map (\<lambda>r. if gi_id r = g then r\<lparr>gi_status := ''busy''\<rparr> else r) (rd_gpus (db\<lparr>rd_rentals := rd_rentals db @ [row]\<rparr>))\<rparr>)))"
      using assms c(3) by (simp add: rentals_ok_def)
  next
    fix h
    have "length (filter (\<lambda>r. open_rental r \<and> rr_gpu_id r = h) (rd_rentals db)) \<le> 1" using assms(1) by (simp add: rentals_ok_def)
    then show "length (filter (\<lambda>r. open_rental r \<and> rr_gpu_id r = h) (rd_rentals ((db\<lparr>rd_rentals := rd_rentals db @ [row]\<rparr>)
        \<lparr>rd_gpus := map (\<lambda>r. if gi_id r = g then r\<lparr>gi_status := ''busy''\<rparr> else r) (rd_gpus (db\<lparr>rd_rentals := rd_rentals db @ [row]\<rparr>))\<rparr>))) \<le> 1"
      using none c(4) by (cases "h = g") auto
  next
    fix r h
    assume "r \<in> set (rd_rentals ((db\<lparr>rd_rentals := rd_rentals db @ [row]\<rparr>)
        \<lparr>rd_gpus := map (\<lambda>r. if gi_id r = g then r\<lparr>gi_status := ''busy''\<rparr> else r) (rd_gpus (db\<lparr>rd_rentals := rd_rentals db @ [row]\<rparr>))\<rparr>))"
      "open_rental r" "h \<in> set (rd_gpus ((db\<lparr>rd_rentals := rd_rentals db @ [row]\<rparr>)
        \<lparr>rd_gpus := map (\<lambda>r. if gi_id r = g then r\<lparr>gi_status := ''busy''\<rparr> else r) (rd_gpus (db\<lparr>rd_rentals := rd_rentals db @ [row]\<rparr>))\<rparr>))"
      "gi_id h = rr_gpu_id r"
    then show "gi_status h = ''busy''" using assms(1) c(4) by (auto simp: rentals_ok_def)
  qed
qed (use assms in simp)

text \<open>What a successful stop does.\<close>

fun stopped :: "rental_reply \<Rightarrow> bool" where
  "stopped (RentalStopped h c t) = True"
| "stopped r = False"

lemma stop_refused: "\<not> stopped (fst (stop_rental env user rid db)) \<Longrightarrow> snd (stop_rental env user rid db) = db"
  by (auto simp: stop_rental_def Let_def split: if_splits option.splits)

lemma stop_cases:
  assumes "stopped (fst (stop_rental env user rid db))"
  shows "\<exists>i u row start us. rl_parse env rid = Some i \<and> rl_parse env user = Some u \<and> row \<in> set (rd_rentals db) \<and> rr_id row = i \<and> rr_user_id row = u
    \<and> rr_status row = ''running'' \<and> rr_start row = Some start \<and> charged_users u (rental_hours start (rl_now env) * rr_price row) (rd_users db) = Some us
    \<and> stop_rental env user rid db = (RentalStopped (rental_hours start (rl_now env)) (rental_hours start (rl_now env) * rr_price row) (rl_now env),
        set_gpu_status (rr_gpu_id row) ''available''
          (db\<lparr>rd_rentals := map (\<lambda>r. if rr_id r = rr_id row
              then r\<lparr>rr_status := ''completed'', rr_end := Some (rl_now env), rr_duration := numeric 8 4 (rental_hours start (rl_now env)),
                     rr_total_cost := numeric 10 2 (rental_hours start (rl_now env) * rr_price row)\<rparr> else r) (rd_rentals db), rd_users := us\<rparr>))"
  using assms by (auto simp: stop_rental_def Let_def split: if_splits option.splits dest!: find_SomeD)

lemma filter_map_le:
  assumes "\<And>r. r \<in> set rs \<Longrightarrow> P (f r) \<Longrightarrow> P r"
  shows "length (filter P (map f rs)) \<le> length (filter P rs)"
  using assms by (induction rs) (auto simp: le_SucI)

lemma at_most_one:
  assumes "length (filter P xs) \<le> 1" "x \<in> set xs" "y \<in> set xs" "P x" "P y"
  shows "x = y"
proof -
  have "x \<in> set (filter P xs)" "y \<in> set (filter P xs)" using assms by simp_all
  with assms(1) show ?thesis by (cases "filter P xs") (auto simp: le_Suc_eq)
qed

definition completed_row :: "rental_env \<Rightarrow> rental_row \<Rightarrow> rat \<Rightarrow> rental_row \<Rightarrow> rental_row" where
  "completed_row env row h r =
     (if rr_id r = rr_id row
      then r\<lparr>rr_status := ''completed'', rr_end := Some (rl_now env), rr_duration := numeric 8 4 h, rr_total_cost := numeric 10 2 (h * rr_price row)\<rparr>
      else r)"

lemma completed_fields [simp]:
  "rr_id (completed_row env row h r) = rr_id r" "rr_gpu_id (completed_row env row h r) = rr_gpu_id r"
  "open_rental (completed_row env row h r) \<longleftrightarrow> open_rental r \<and> rr_id r \<noteq> rr_id row"
  by (simp_all add: completed_row_def open_rental_def)

lemma stop_keeps:
  assumes "rentals_ok db"
  shows "rentals_ok (snd (stop_rental env user rid db))"
proof (cases "stopped (fst (stop_rental env user rid db))")
  case True
  then obtain row start us where row: "row \<in> set (rd_rentals db)" "rr_status row = ''running''"
    and d: "snd (stop_rental env user rid db) = set_gpu_status (rr_gpu_id row) ''available''
      (db\<lparr>rd_rentals := map (completed_row env row (rental_hours start (rl_now env))) (rd_rentals db), rd_users := us\<rparr>)"
    using stop_cases [OF True] unfolding completed_row_def by auto
  let ?f = "completed_row env row (rental_hours start (rl_now env))"
  have op: "open_rental row" using row(2) by (simp add: open_rental_def)
  have one: "length (filter (\<lambda>r. open_rental r \<and> rr_gpu_id r = g) (rd_rentals db)) \<le> 1" for g using assms by (simp add: rentals_ok_def)
  have dist: "map rr_id (map ?f (rd_rentals db)) = map rr_id (rd_rentals db)" by simp
  have le: "length (filter (\<lambda>r. open_rental r \<and> rr_gpu_id r = g) (map ?f (rd_rentals db))) \<le> 1" for g
  proof -
    have "length (filter (\<lambda>r. open_rental r \<and> rr_gpu_id r = g) (map ?f (rd_rentals db)))
        \<le> length (filter (\<lambda>r. open_rental r \<and> rr_gpu_id r = g) (rd_rentals db))" by (rule filter_map_le) simp
    with one [of g] show ?thesis by linarith
  qed
  have busy: "rr_gpu_id r \<noteq> rr_gpu_id row \<and> (\<forall>h \<in> set (rd_gpus db). gi_id h = rr_gpu_id r \<longrightarrow> gi_status h = ''busy'')"
    if "r \<in> set (rd_rentals db)" "open_rental r" "rr_id r \<noteq> rr_id row" for r
    using at_most_one [OF one [of "rr_gpu_id row"] that(1) row(1)] that assms op by (auto simp: rentals_ok_def)
  show ?thesis
    unfolding d using le dist busy assms
    by (auto simp: rentals_ok_def set_gpu_status_def comp_def) blast
qed (use assms stop_refused [of env user rid db] in simp)

text \<open>C34. Over any sequence of requests that are handled one after another, each with a fresh identifier for a new row, no GPU ever has two open
  rentals, and a GPU with an open rental is busy.\<close>

theorem rentals_exclusive:
  "rentals_reach db db' \<Longrightarrow> rentals_ok db \<Longrightarrow> rentals_ok db'"
proof (induction rule: rentals_reach.induct)
  case (reach_call db1 env c)
  then show ?case
    using create_keeps start_keeps stop_keeps by (cases c) (auto simp: rental_call_step_def)
qed simp

section \<open>Requests that overlap\<close>

lemma set_gpu_status_fields [simp]:
  "gi_id ` set (rd_gpus (set_gpu_status g s db)) = gi_id ` set (rd_gpus db)" "rd_users (set_gpu_status g s db) = rd_users db"
  "rd_rentals (set_gpu_status g s db) = rd_rentals db"
proof -
  have "map gi_id (rd_gpus (set_gpu_status g s db)) = map gi_id (rd_gpus db)" by (simp add: set_gpu_status_def)
  from arg_cong [OF this, of set] show "gi_id ` set (rd_gpus (set_gpu_status g s db)) = gi_id ` set (rd_gpus db)" by simp
qed (simp_all add: set_gpu_status_def)

lemma insert_succeeds:
  assumes "\<And>i. i \<ge> 2 \<Longrightarrow> \<not> rl_fail env i" "u \<in> ru_id ` set (rd_users db)" "g \<in> gi_id ` set (rd_gpus db)"
  shows "\<exists>row. rental_insert env (u, g, price) db = (RentalMade row, set_gpu_status g ''busy'' (db\<lparr>rd_rentals := rd_rentals db @ [row]\<rparr>))
    \<and> rr_id row = rl_fresh env \<and> rr_gpu_id row = g \<and> rr_user_id row = u \<and> open_rental row"
  using assms by (simp add: rental_insert_def Let_def open_rental_def)

lemma check_user:
  assumes "rental_check env user req db = Inr (u, g, price)"
  shows "u \<in> ru_id ` set (rd_users db) \<and> g \<in> gi_id ` set (rd_gpus db)"
proof -
  from assms obtain r where "Option.bind (rl_parse env user) (\<lambda>u. find (\<lambda>r. ru_id r = u) (rd_users db)) = Some r" "ru_id r = u"
    by (auto simp: rental_check_def split: if_splits option.splits)
  then have "u \<in> ru_id ` set (rd_users db)" by (auto simp: bind_eq_Some_conv dest!: find_SomeD)
  moreover have "g \<in> gi_id ` set (rd_gpus db)" using check_available [OF assms] by auto
  ultimately show ?thesis by blast
qed

text \<open>Two requests for one GPU that are both checked before either writes both succeed: the availability is read outside the transaction that
  takes the GPU, so it ends with two open rentals.\<close>

theorem overlapping_requests_double_book:
  assumes "rental_check env1 user1 req1 db = Inr (u1, g, p1)" "rental_check env2 user2 req2 db = Inr (u2, g, p2)"
    "\<And>i. i \<ge> 2 \<Longrightarrow> \<not> rl_fail env1 i" "\<And>i. i \<ge> 2 \<Longrightarrow> \<not> rl_fail env2 i" "rl_fresh env1 \<noteq> rl_fresh env2"
  shows "\<exists>r1 r2 db1 db2. rental_insert env1 (u1, g, p1) db = (RentalMade r1, db1) \<and> rental_insert env2 (u2, g, p2) db1 = (RentalMade r2, db2)
    \<and> r1 \<noteq> r2 \<and> {r1, r2} \<subseteq> set (rd_rentals db2) \<and> rr_gpu_id r1 = g \<and> rr_gpu_id r2 = g \<and> open_rental r1 \<and> open_rental r2"
proof -
  note c = check_user [OF assms(1)] check_user [OF assms(2)]
  obtain r1 where r1: "rental_insert env1 (u1, g, p1) db = (RentalMade r1, set_gpu_status g ''busy'' (db\<lparr>rd_rentals := rd_rentals db @ [r1]\<rparr>))"
    "rr_id r1 = rl_fresh env1" "rr_gpu_id r1 = g" "open_rental r1"
    using insert_succeeds [OF assms(3), of u1 db g p1] c by auto
  define db1 where "db1 = set_gpu_status g ''busy'' (db\<lparr>rd_rentals := rd_rentals db @ [r1]\<rparr>)"
  have "u2 \<in> ru_id ` set (rd_users db1)" "g \<in> gi_id ` set (rd_gpus db1)"
    using c by (simp_all add: db1_def)
  then obtain r2 where r2: "rental_insert env2 (u2, g, p2) db1 = (RentalMade r2, set_gpu_status g ''busy'' (db1\<lparr>rd_rentals := rd_rentals db1 @ [r2]\<rparr>))"
    "rr_id r2 = rl_fresh env2" "rr_gpu_id r2 = g" "open_rental r2"
    using insert_succeeds [OF assms(4), of u2 db1 g p2] by auto
  have "r1 \<noteq> r2" using r1(2) r2(2) assms(5) by auto
  moreover have "{r1, r2} \<subseteq> set (rd_rentals (set_gpu_status g ''busy'' (db1\<lparr>rd_rentals := rd_rentals db1 @ [r2]\<rparr>)))"
    by (simp add: set_gpu_status_def db1_def)
  ultimately show ?thesis using r1 r2 unfolding db1_def by blast
qed

section \<open>Charges\<close>

text \<open>C35. A successful stop charges the user the hours that passed since the start times the price the rental was made at, rounded to the column, and
  nobody else, and the same rental cannot be stopped, and so charged, again.\<close>

theorem stop_charges_once:
  assumes "stop_rental env user rid db = (RentalStopped h c now, db')" "distinct (map rr_id (rd_rentals db))"
  shows "\<exists>u row start. rl_parse env user = Some u \<and> row \<in> set (rd_rentals db) \<and> rl_parse env rid = Some (rr_id row) \<and> rr_user_id row = u
    \<and> rr_status row = ''running'' \<and> rr_start row = Some start \<and> h = rental_hours start (rl_now env) \<and> c = h * rr_price row
    \<and> rd_users db' = map (\<lambda>x. if ru_id x = u then x\<lparr>ru_balance := round_at 2 (ru_balance x - c)\<rparr> else x) (rd_users db)
    \<and> (\<forall>env2. rl_parse env2 = rl_parse env \<and> \<not> rl_fail env2 0 \<longrightarrow>
         stop_rental env2 user rid db' = (RentalRefused 404 ''Rental not found or not running'', db'))"
proof -
  have user: "user \<noteq> []" using assms(1) by (auto simp: stop_rental_def)
  obtain i u row start us where s: "rl_parse env rid = Some i" "rl_parse env user = Some u" "row \<in> set (rd_rentals db)" "rr_id row = i"
    "rr_user_id row = u" "rr_status row = ''running''" "rr_start row = Some start"
    "charged_users u (rental_hours start (rl_now env) * rr_price row) (rd_users db) = Some us"
    "h = rental_hours start (rl_now env)" "c = rental_hours start (rl_now env) * rr_price row"
    "db' = set_gpu_status (rr_gpu_id row) ''available''
      (db\<lparr>rd_rentals := map (completed_row env row (rental_hours start (rl_now env))) (rd_rentals db), rd_users := us\<rparr>)"
  proof -
    have "stopped (fst (stop_rental env user rid db))" using assms(1) by simp
    from stop_cases [OF this] show thesis using that assms(1) unfolding completed_row_def by auto
  qed
  have us: "us = map (\<lambda>x. if ru_id x = u then x\<lparr>ru_balance := round_at 2 (ru_balance x - c)\<rparr> else x) (rd_users db)"
    using s(8) unfolding s(10) [symmetric]
    by (auto simp: charged_users_def numeric_def Let_def split: if_splits)
  have "find (\<lambda>r. rr_id r = i \<and> rr_user_id r = u \<and> rr_status r = ''running'') (rd_rentals db') = None"
  proof -
    have "rr_status (completed_row env row x r) = ''completed''" if "rr_id r = i" for x r
      using that s(4) by (simp add: completed_row_def)
    moreover have "rd_rentals db' = map (completed_row env row (rental_hours start (rl_now env))) (rd_rentals db)"
      unfolding s(11) by simp
    ultimately show ?thesis unfolding find_None_iff by auto
  qed
  then have "stop_rental env2 user rid db' = (RentalRefused 404 ''Rental not found or not running'', db')"
    if "rl_parse env2 = rl_parse env" "\<not> rl_fail env2 0" for env2
    using that s(1,2) user by (simp add: stop_rental_def)
  moreover have "rd_users db' = us" unfolding s(11) by simp
  ultimately show ?thesis using s us by blast
qed

text \<open>The duration that was asked for is compared with the balance and then forgotten.\<close>

theorem requested_duration_forgotten:
  assumes "is_ok (rental_check env user (g, h1) db)" "is_ok (rental_check env user (g, h2) db)"
  shows "create_rental env user (Some (g, h1)) db = create_rental env user (Some (g, h2)) db"
proof -
  have "rental_check env user (g, h1) db = rental_check env user (g, h2) db"
    using assms by (auto simp: rental_check_def is_ok_def split: if_splits option.splits)
  then show ?thesis by (simp add: create_rental_def)
qed

text \<open>A start answers anybody with the connection of any rental, also of one that is not his or that does not exist, and overwrites the
  connection of the rental it names.\<close>

theorem start_answers_anybody:
  assumes "user \<noteq> []" "rl_parse env rid = Some i" "rl_parse env user = Some u" "\<And>j. \<not> rl_fail env j"
  shows "\<exists>db'. start_rental env user rid db = (RentalStarted connection_info, db')
    \<and> (\<forall>r \<in> set (rd_rentals db). rr_id r = i \<and> rr_user_id r \<noteq> u \<longrightarrow> r\<lparr>rr_connection := Some connection_info\<rparr> \<in> set (rd_rentals db'))"
  using assms by (force simp: start_rental_def Let_def image_iff)

section \<open>The list of GPUs\<close>

text \<open>One row with a missing location makes its whole page fail.\<close>

theorem null_column_fails_page:
  assumes "x \<in> set (take (nat (query_number lmt 20)) (drop (nat (query_number off 0)) (ordered rows)))" "gi_location (fst x) = None"
    "query_number lmt 20 \<ge> 0" "query_number off 0 \<ge> 0"
  shows "get_gpus ordered False None [] lmt off rows = Inl ''Scan error''"
proof -
  have "\<not> scans x" using assms(2) by (auto simp: scans_def split: prod.split)
  then have "\<not> list_all scans (take (nat (query_number lmt 20)) (drop (nat (query_number off 0)) (ordered rows)))"
    using assms(1) by (auto simp: list_all_iff)
  then show ?thesis using assms(3,4) by (simp add: get_gpus_def rows_read_def Let_def)
qed

text \<open>A page size that is no number, a negative one, or a user that is no identifier, is answered with success and nothing.\<close>

theorem unusable_request_lists_nothing:
  "(lmt \<noteq> [] \<and> atoi lmt = None) \<or> query_number lmt 20 < 0 \<Longrightarrow> get_gpus ordered False brk status lmt off rows = Inr []"
  "user \<noteq> [] \<and> rl_parse env user = None \<and> \<not> rl_fail env 0 \<Longrightarrow> get_user_rentals env user db = RentalList []"
  by (auto simp: get_gpus_def get_user_rentals_def rows_read_def query_number_def Let_def split: option.split)

end
