(* ===== verification/StorageApi.thy ===== *)
theory StorageApi
  imports GoText
begin

text \<open>
  The storage service: the client of the object store (\<open>storage-service/internal/storage/minio.go\<close>) over the calls of its library, and the
  handlers and routes in front of it (\<open>internal/api/handlers.go\<close>). A handler sees the parameters the router found, as a list of names and
  values; a read or write outside that list panics, which the server answers with 500.
\<close>

section \<open>The object store\<close>

record object_info =
  oi_key :: string
  oi_size :: int
  oi_modified :: time
  oi_type :: string
  oi_etag :: string

text \<open>A request's body as the library reads it: what it yields and the error it ends with.\<close>

datatype body_reader = BodyReader string "string option"

record 's minio =
  mo_bucket_exists :: "string \<Rightarrow> 's \<Rightarrow> string + bool"
  mo_make_bucket :: "string \<Rightarrow> string \<Rightarrow> 's \<Rightarrow> string option \<times> 's"
  mo_put :: "string \<Rightarrow> string \<Rightarrow> body_reader \<Rightarrow> int \<Rightarrow> string \<Rightarrow> 's \<Rightarrow> (string + string \<times> int \<times> string) \<times> 's"
  mo_get :: "string \<Rightarrow> string \<Rightarrow> 's \<Rightarrow> string + string"
  mo_stat :: "string \<Rightarrow> string \<Rightarrow> 's \<Rightarrow> string + object_info"
  mo_remove :: "string \<Rightarrow> string \<Rightarrow> 's \<Rightarrow> string option \<times> 's"
  mo_list :: "string \<Rightarrow> string \<Rightarrow> bool \<Rightarrow> 's \<Rightarrow> (string + object_info) list"
  mo_presign_get :: "string \<Rightarrow> string \<Rightarrow> duration \<Rightarrow> string + string"
  mo_presign_put :: "string \<Rightarrow> string \<Rightarrow> duration \<Rightarrow> string + string"

text \<open>The client: its library, its default bucket and the instant of the call.\<close>

record 's minio_client =
  mc_api :: "'s minio"
  mc_default :: string
  mc_now :: time

definition no_bucket :: string where
  "no_bucket = ''bucket name is not specified and no default bucket is configured''"

definition target_bucket :: "'s minio_client \<Rightarrow> string \<Rightarrow> string" where
  "target_bucket mc b = (if b = [] then mc_default mc else b)"

definition ensure_bucket :: "'s minio_client \<Rightarrow> string \<Rightarrow> string \<Rightarrow> 's \<Rightarrow> string option \<times> 's" where
  "ensure_bucket mc b region st =
     (case mo_bucket_exists (mc_api mc) b st of
        Inl e \<Rightarrow> (Some (''failed to check for bucket '' @ b @ '': '' @ e), st)
      | Inr True \<Rightarrow> (None, st)
      | Inr False \<Rightarrow>
          (case mo_make_bucket (mc_api mc) b region st of
             (Some e, st') \<Rightarrow> (Some (''failed to create bucket '' @ b @ '': '' @ e), st')
           | (None, st') \<Rightarrow> (None, st')))"

definition upload :: "'s minio_client \<Rightarrow> string \<Rightarrow> string \<Rightarrow> body_reader \<Rightarrow> int \<Rightarrow> string \<Rightarrow> 's \<Rightarrow> (string + object_info) \<times> 's" where
  "upload mc b k body len ctype st =
     (let t = target_bucket mc b in
      if t = [] then (Inl no_bucket, st)
      else (case mo_put (mc_api mc) t k body len ctype st of
              (Inl e, st') \<Rightarrow> (Inl (''failed to upload to '' @ t @ ''/'' @ k @ '': '' @ e), st')
            | (Inr (key, n, etag), st') \<Rightarrow>
                (Inr \<lparr>oi_key = key, oi_size = n, oi_modified = mc_now mc, oi_type = ctype, oi_etag = etag\<rparr>, st')))"

definition download :: "'s minio_client \<Rightarrow> string \<Rightarrow> string \<Rightarrow> 's \<Rightarrow> string + string \<times> object_info" where
  "download mc b k st =
     (let t = target_bucket mc b in
      if t = [] then Inl no_bucket
      else (case mo_get (mc_api mc) t k st of
              Inl e \<Rightarrow> Inl (''failed to get object '' @ t @ ''/'' @ k @ '': '' @ e)
            | Inr content \<Rightarrow>
                (case mo_stat (mc_api mc) t k st of
                   Inl e \<Rightarrow> Inl (''failed to get object stats for '' @ t @ ''/'' @ k @ '': '' @ e)
                 | Inr i \<Rightarrow> Inr (content, i))))"

definition delete_object :: "'s minio_client \<Rightarrow> string \<Rightarrow> string \<Rightarrow> 's \<Rightarrow> string option \<times> 's" where
  "delete_object mc b k st =
     (let t = target_bucket mc b in
      if t = [] then (Some no_bucket, st)
      else (case mo_remove (mc_api mc) t k st of
              (Some e, st') \<Rightarrow> (Some (''failed to delete object '' @ t @ ''/'' @ k @ '': '' @ e), st')
            | (None, st') \<Rightarrow> (None, st')))"

fun collect_objects :: "string \<Rightarrow> (string + object_info) list \<Rightarrow> string + object_info list" where
  "collect_objects t [] = Inr []"
| "collect_objects t (Inl e # xs) = Inl (''error during object listing in '' @ t @ '': '' @ e)"
| "collect_objects t (Inr i # xs) = (case collect_objects t xs of Inl e \<Rightarrow> Inl e | Inr is \<Rightarrow> Inr (i # is))"

definition list_objects :: "'s minio_client \<Rightarrow> string \<Rightarrow> string \<Rightarrow> bool \<Rightarrow> 's \<Rightarrow> string + object_info list" where
  "list_objects mc b p r st =
     (let t = target_bucket mc b in
      if t = [] then Inl no_bucket else collect_objects t (mo_list (mc_api mc) t p r st))"

definition get_object_info :: "'s minio_client \<Rightarrow> string \<Rightarrow> string \<Rightarrow> 's \<Rightarrow> string + object_info" where
  "get_object_info mc b k st =
     (let t = target_bucket mc b in
      if t = [] then Inl no_bucket
      else (case mo_stat (mc_api mc) t k st of
              Inl e \<Rightarrow> Inl (''failed to get object info for '' @ t @ ''/'' @ k @ '': '' @ e)
            | Inr i \<Rightarrow> Inr i))"

definition get_presigned_url :: "'s minio_client \<Rightarrow> string \<Rightarrow> string \<Rightarrow> string \<Rightarrow> duration \<Rightarrow> string + string" where
  "get_presigned_url mc b k meth expiry =
     (let t = target_bucket mc b; d = (if expiry \<le> 0 then 7 * 24 * hour else expiry) in
      if t = [] then Inl no_bucket
      else if meth = ''GET'' then
        (case mo_presign_get (mc_api mc) t k d of Inl e \<Rightarrow> Inl (''failed to generate presigned URL for GET '' @ t @ ''/'' @ k @ '': '' @ e) | Inr u \<Rightarrow> Inr u)
      else if meth = ''PUT'' then
        (case mo_presign_put (mc_api mc) t k d of Inl e \<Rightarrow> Inl (''failed to generate presigned URL for PUT '' @ t @ ''/'' @ k @ '': '' @ e) | Inr u \<Rightarrow> Inr u)
      else Inl (''unsupported HTTP method for presigned URL: '' @ meth))"

section \<open>Handlers\<close>

type_synonym url_params = "(string \<times> string) list"

text \<open>The last value of a name, or nothing.\<close>

definition url_param :: "url_params \<Rightarrow> string \<Rightarrow> string" where
  "url_param ps k = (case map_of (rev ps) k of None \<Rightarrow> [] | Some v \<Rightarrow> v)"

definition object_key :: "url_params \<Rightarrow> string" where
  "object_key ps = url_param ps ''*''"

record storage_request =
  sq_type :: string
  sq_length :: string
  sq_body :: string
  sq_prefix :: string
  sq_recursive :: string
  sq_presign :: "(string \<times> string) option"

datatype storage_reply =
    StorageError nat string
  | StorageMade string
  | StorageStored object_info
  | StorageContent string object_info
  | StorageInfo object_info
  | StorageDeleted
  | StorageListed "object_info list"
  | StorageUrl string string string string

definition max_upload_size :: int where
  "max_upload_size = 5 * 1024 * 1024 * 1024"

text \<open>\<open>filepath.Ext\<close>, on the reversed path.\<close>

fun extension_of :: "string \<Rightarrow> string \<Rightarrow> string" where
  "extension_of acc [] = []"
| "extension_of acc (c # cs) = (if c = CHR ''/'' then [] else if c = CHR ''.'' then c # acc else extension_of (c # acc) cs)"

text \<open>\<open>mime\<close>: the type the library knows for an extension.\<close>

definition content_type :: "(string \<Rightarrow> string) \<Rightarrow> string \<Rightarrow> string \<Rightarrow> string" where
  "content_type mime header key =
     (if header \<noteq> [] then header
      else (let t = mime (extension_of [] (rev key)) in if t = [] then ''application/octet-stream'' else t))"

definition limited_body :: "string \<Rightarrow> body_reader" where
  "limited_body s =
     (if int (length s) > max_upload_size then BodyReader (take (nat max_upload_size) s) (Some ''http: request body too large'')
      else BodyReader s None)"

definition ensure_bucket_handler :: "'s minio_client \<Rightarrow> url_params \<Rightarrow> 's \<Rightarrow> storage_reply \<times> 's" where
  "ensure_bucket_handler mc ps st =
     (let b = url_param ps ''bucketName'' in
      if b = [] then (StorageError 400 ''Bucket name is required'', st)
      else (case ensure_bucket mc b [] st of
              (Some e, st') \<Rightarrow> (StorageError 500 ''Failed to ensure bucket'', st')
            | (None, st') \<Rightarrow> (StorageMade b, st')))"

definition key_required :: storage_reply where
  "key_required = StorageError 400 ''Object key is required in the path''"

definition upload_object_handler :: "(string \<Rightarrow> string) \<Rightarrow> 's minio_client \<Rightarrow> url_params \<Rightarrow> storage_request \<Rightarrow> 's \<Rightarrow> storage_reply \<times> 's" where
  "upload_object_handler mime mc ps q st =
     (if object_key ps = [] then (key_required, st)
      else (case upload mc (url_param ps ''bucketName'') (object_key ps) (limited_body (sq_body q)) (int_despite_error (sq_length q))
                   (content_type mime (sq_type q) (object_key ps)) st of
              (Inl e, st') \<Rightarrow>
                (if str_contains e ''http.MaxBytesReader'' then StorageError 413 ''Upload exceeds maximum allowed size''
                 else StorageError 500 ''Failed to upload object'', st')
            | (Inr i, st') \<Rightarrow> (StorageStored i, st')))"

definition download_object_handler :: "'s minio_client \<Rightarrow> url_params \<Rightarrow> 's \<Rightarrow> storage_reply" where
  "download_object_handler mc ps st =
     (if object_key ps = [] then key_required
      else (case download mc (url_param ps ''bucketName'') (object_key ps) st of
              Inl e \<Rightarrow> StorageError 500 ''Failed to download object''
            | Inr (s, i) \<Rightarrow> StorageContent s i))"

definition delete_object_handler :: "'s minio_client \<Rightarrow> url_params \<Rightarrow> 's \<Rightarrow> storage_reply \<times> 's" where
  "delete_object_handler mc ps st =
     (if object_key ps = [] then (key_required, st)
      else (case delete_object mc (url_param ps ''bucketName'') (object_key ps) st of
              (Some e, st') \<Rightarrow> (StorageError 500 ''Failed to delete object'', st')
            | (None, st') \<Rightarrow> (StorageDeleted, st')))"

definition object_info_handler :: "'s minio_client \<Rightarrow> url_params \<Rightarrow> 's \<Rightarrow> storage_reply" where
  "object_info_handler mc ps st =
     (if object_key ps = [] then key_required
      else (case get_object_info mc (url_param ps ''bucketName'') (object_key ps) st of
              Inl e \<Rightarrow> StorageError 404 ''Object not found or failed to get info''
            | Inr i \<Rightarrow> StorageInfo i))"

definition list_objects_handler :: "'s minio_client \<Rightarrow> url_params \<Rightarrow> storage_request \<Rightarrow> 's \<Rightarrow> storage_reply" where
  "list_objects_handler mc ps q st =
     (case list_objects mc (url_param ps ''bucketName'') (sq_prefix q) (sq_recursive q \<noteq> ''false'') st of
        Inl e \<Rightarrow> StorageError 500 ''Failed to list objects''
      | Inr is \<Rightarrow> StorageListed is)"

text \<open>The duration a request asks for; \<open>parse\<close> is \<open>time.ParseDuration\<close>.\<close>

definition presign_expiry :: "(string \<Rightarrow> duration option) \<Rightarrow> string \<Rightarrow> duration option" where
  "presign_expiry parse s =
     (if s = [] then Some (15 * minute)
      else (case parse s of None \<Rightarrow> None | Some d \<Rightarrow> Some (if d > 0 then d else 15 * minute)))"

definition presigned_url_handler :: "(string \<Rightarrow> duration option) \<Rightarrow> 's minio_client \<Rightarrow> url_params \<Rightarrow> storage_request \<Rightarrow> storage_reply" where
  "presigned_url_handler parse mc ps q =
     (let b = url_param ps ''bucketName''; k = object_key ps in
      if k = [] then key_required
      else (case sq_presign q of
              None \<Rightarrow> StorageError 400 ''Invalid request body''
            | Some (meth, expiry) \<Rightarrow>
                if meth \<noteq> ''GET'' \<and> meth \<noteq> ''PUT'' then StorageError 400 ''Invalid method for presigned URL. Must be GET or PUT.''
                else (case presign_expiry parse expiry of
                        None \<Rightarrow> StorageError 400 ''Invalid expiry duration format''
                      | Some d \<Rightarrow>
                          (case get_presigned_url mc b k meth d of
                             Inl e \<Rightarrow> StorageError 500 ''Failed to generate presigned URL''
                           | Inr u \<Rightarrow> StorageUrl u meth k b))))"

section \<open>Routes\<close>

datatype storage_endpoint = EnsureBucket | Download | Upload | Delete | Info | Listing | Presign

text \<open>The method, the pattern, the handler, and whether it is the wrapper for the default bucket.\<close>

definition storage_routes :: "(string \<times> string \<times> storage_endpoint \<times> bool) list" where
  "storage_routes =
     [(''POST'', ''/buckets/{bucketName}'', EnsureBucket, False),
      (''GET'', ''/objects/{bucketName}/*'', Download, False),
      (''PUT'', ''/objects/{bucketName}/*'', Upload, False),
      (''DELETE'', ''/objects/{bucketName}/*'', Delete, False),
      (''HEAD'', ''/objects/{bucketName}/*'', Info, False),
      (''GET'', ''/objects/{bucketName}/list'', Listing, False),
      (''POST'', ''/presigned-url/{bucketName}/*'', Presign, False),
      (''GET'', ''/objects/*'', Download, True),
      (''PUT'', ''/objects/*'', Upload, True),
      (''DELETE'', ''/objects/*'', Delete, True),
      (''HEAD'', ''/objects/*'', Info, True),
      (''GET'', ''/objects/list'', Listing, True),
      (''POST'', ''/presigned-url/*'', Presign, True)]"

text \<open>The names a pattern gives its parts, in their order.\<close>

definition segment_name :: "string \<Rightarrow> string option" where
  "segment_name s =
     (if s = ''*'' then Some ''*'' else if take 1 s = ''{'' \<and> last s = CHR ''}'' then Some (butlast (drop 1 s)) else None)"

definition pattern_names :: "string \<Rightarrow> string list" where
  "pattern_names p = List.map_filter segment_name (split_char CHR ''/'' p)"

text \<open>The wrappers overwrite the first parameter; without one they panic.\<close>

definition default_params :: "url_params \<Rightarrow> url_params option" where
  "default_params ps = (case ps of [] \<Rightarrow> None | p # qs \<Rightarrow> Some ((''bucketName'', []) # qs))"

definition run_endpoint ::
    "(string \<Rightarrow> string) \<Rightarrow> (string \<Rightarrow> duration option) \<Rightarrow> 's minio_client \<Rightarrow> storage_endpoint \<Rightarrow> url_params \<Rightarrow> storage_request \<Rightarrow> 's \<Rightarrow> storage_reply \<times> 's" where
  "run_endpoint mime parse mc ep ps q st =
     (case ep of
        EnsureBucket \<Rightarrow> ensure_bucket_handler mc ps st
      | Download \<Rightarrow> (download_object_handler mc ps st, st)
      | Upload \<Rightarrow> upload_object_handler mime mc ps q st
      | Delete \<Rightarrow> delete_object_handler mc ps st
      | Info \<Rightarrow> (object_info_handler mc ps st, st)
      | Listing \<Rightarrow> (list_objects_handler mc ps q st, st)
      | Presign \<Rightarrow> (presigned_url_handler parse mc ps q, st))"

text \<open>\<open>None\<close>: the handler panics.\<close>

definition serve_route ::
    "(string \<Rightarrow> string) \<Rightarrow> (string \<Rightarrow> duration option) \<Rightarrow> 's minio_client \<Rightarrow> storage_endpoint \<times> bool \<Rightarrow> url_params \<Rightarrow> storage_request \<Rightarrow> 's
     \<Rightarrow> (storage_reply \<times> 's) option" where
  "serve_route mime parse mc r ps q st =
     (case r of (ep, dflt) \<Rightarrow>
        if dflt then map_option (\<lambda>ps. run_endpoint mime parse mc ep ps q st) (default_params ps)
        else Some (run_endpoint mime parse mc ep ps q st))"

section \<open>Properties\<close>

text \<open>No route of the default bucket ever reaches the object store: overwriting the first parameter overwrites the object's key, which these routes
  have as their only one, so every request is refused as one without a key, and the list, whose route has no parameter at all, panics.\<close>

theorem default_bucket_unreachable:
  assumes "(meth, p, ep, True) \<in> set storage_routes" "map fst ps = pattern_names p"
  shows "serve_route mime parse mc (ep, True) ps q st = (if ep = Listing then None else Some (key_required, st))"
proof -
  have n: "pattern_names ''/objects/*'' = [''*'']" "pattern_names ''/objects/list'' = []" "pattern_names ''/presigned-url/*'' = [''*'']"
    by (simp_all add: pattern_names_def segment_name_def List.map_filter_simps)
  from assms n have "(ep = Listing \<and> ps = []) \<or> (ep \<in> {Download, Upload, Delete, Info, Presign} \<and> (\<exists>v. ps = [(''*'', v)]))"
    by (auto simp: storage_routes_def Cons_eq_map_conv map_eq_Cons_conv)
  then show ?thesis
    by (auto simp: serve_route_def default_params_def run_endpoint_def download_object_handler_def upload_object_handler_def
        delete_object_handler_def object_info_handler_def presigned_url_handler_def object_key_def url_param_def Let_def)
qed

text \<open>An upload whose length is not declared, as every chunked one, is stored exactly as one that declares to be empty.\<close>

theorem undeclared_length_is_empty:
  "upload_object_handler mime mc ps (q\<lparr>sq_length := []\<rparr>) st = upload_object_handler mime mc ps (q\<lparr>sq_length := ''0''\<rparr>) st"
  by (simp add: upload_object_handler_def int_despite_error_def digit_value_def Let_def)

text \<open>A presigned address is asked for with a positive duration, so the longer default of the client is never used.\<close>

theorem presign_expiry_positive: "presign_expiry parse s = Some d \<Longrightarrow> d > 0"
  by (auto simp: presign_expiry_def split: if_splits option.splits)

text \<open>What is kept for a bucket is read back through the handlers, when the library reads back what it put.\<close>

theorem uploaded_object_downloads:
  assumes "upload_object_handler mime mc ps q st = (StorageStored i, st')" "int (length (sq_body q)) \<le> max_upload_size"
    "\<And>b k s n t r. mo_put (mc_api mc) b k (BodyReader s None) n t st = (Inr r, st') \<Longrightarrow>
       mo_get (mc_api mc) b k st' = Inr (take (nat n) s) \<and> (\<exists>j. mo_stat (mc_api mc) b k st' = Inr j)"
  shows "\<exists>j. download_object_handler mc ps st' = StorageContent (take (nat (int_despite_error (sq_length q))) (sq_body q)) j"
proof -
  have b: "limited_body (sq_body q) = BodyReader (sq_body q) None" using assms(2) by (simp add: limited_body_def)
  obtain r where k: "object_key ps \<noteq> []" "target_bucket mc (url_param ps ''bucketName'') \<noteq> []"
    "mo_put (mc_api mc) (target_bucket mc (url_param ps ''bucketName'')) (object_key ps) (BodyReader (sq_body q) None) (int_despite_error (sq_length q))
       (content_type mime (sq_type q) (object_key ps)) st = (Inr r, st')"
    using assms(1) by (auto simp: upload_object_handler_def upload_def key_required_def Let_def b split: if_splits prod.splits sum.splits)
  from assms(3) [OF k(3)] k(1,2) show ?thesis
    by (auto simp: download_object_handler_def download_def Let_def)
qed

end
