(* ===== verification/DevicePlugin.thy ===== *)
theory DevicePlugin
  imports GoText
begin

text \<open>
  The Kubernetes device plugin (\<open>services/dantegpu-device-plugin/main.go\<close>): devices, their list and its updates, preferred and final
  allocation, preparation of device files. A slice with a negative capacity panics: \<open>None\<close>.
\<close>

section \<open>Devices\<close>

record plugin_device =
  pd_id :: string
  pd_healthy :: bool

record device_plugin =
  dp_devices :: "plugin_device list"
  dp_gpu_count :: int

definition new_device_plugin :: "int \<Rightarrow> device_plugin" where
  "new_device_plugin n = \<lparr>dp_devices = [], dp_gpu_count = n\<rparr>"

definition fraction_id :: "nat \<Rightarrow> nat \<Rightarrow> string" where
  "fraction_id i j = ''gpu-'' @ nat_text i @ ''-fraction-'' @ nat_text j"

definition initialize_devices :: "device_plugin \<Rightarrow> device_plugin option" where
  "initialize_devices dp =
     (if dp_gpu_count dp < 0 then None
      else Some (dp\<lparr>dp_devices := [\<lparr>pd_id = fraction_id i j, pd_healthy = True\<rparr>. i \<leftarrow> [0..<nat (dp_gpu_count dp)], j \<leftarrow> [0..<10]]\<rparr>))"

record plugin_options =
  po_pre_start :: bool
  po_preferred :: bool

definition device_plugin_options :: plugin_options where
  "device_plugin_options = \<lparr>po_pre_start = False, po_preferred = True\<rparr>"

text \<open>What the plugin registers with: its name and its options.\<close>

definition plugin_register_request :: "string \<times> plugin_options" where
  "plugin_register_request = (''dante.ai/gpu'', \<lparr>po_pre_start = True, po_preferred = False\<rparr>)"

section \<open>The list and its updates\<close>

datatype watch_event = WatchStop | HealthReport plugin_device

fun change_health :: "plugin_device \<Rightarrow> plugin_device list \<Rightarrow> plugin_device list" where
  "change_health d [] = []"
| "change_health d (x # xs) = (if pd_id x = pd_id d then x\<lparr>pd_healthy := pd_healthy d\<rparr> # xs else x # change_health d xs)"

text \<open>The lists sent, and the error that ended the stream; \<open>fails\<close> tells which send is refused.\<close>

fun watch_loop :: "(nat \<Rightarrow> string option) \<Rightarrow> nat \<Rightarrow> watch_event list \<Rightarrow> plugin_device list \<Rightarrow> plugin_device list list \<times> string option" where
  "watch_loop fails n [] ds = ([], None)"
| "watch_loop fails n (WatchStop # es) ds = ([], None)"
| "watch_loop fails n (HealthReport d # es) ds =
     (let ds' = change_health d ds in
      case fails n of Some e \<Rightarrow> ([], Some e)
      | None \<Rightarrow> (case watch_loop fails (n + 1) es ds' of (sent, r) \<Rightarrow> (ds' # sent, r)))"

definition list_and_watch :: "(nat \<Rightarrow> string option) \<Rightarrow> watch_event list \<Rightarrow> plugin_device list \<Rightarrow> plugin_device list list \<times> string option" where
  "list_and_watch fails es ds =
     (case fails 0 of Some e \<Rightarrow> ([], Some e)
      | None \<Rightarrow> (case watch_loop fails 1 es ds of (sent, r) \<Rightarrow> (ds # sent, r)))"

definition is_device_healthy :: "string \<Rightarrow> bool" where
  "is_device_healthy i = True"

text \<open>A round of the health check: the devices, and those reported as unhealthy.\<close>

definition health_round :: "plugin_device list \<Rightarrow> plugin_device list \<times> plugin_device list" where
  "health_round ds =
     (let ds' = map (\<lambda>d. d\<lparr>pd_healthy := is_device_healthy (pd_id d)\<rparr>) ds in (ds', filter (\<lambda>d. \<not> pd_healthy d) ds'))"

section \<open>Allocation\<close>

fun fill_devices :: "int \<Rightarrow> string list \<Rightarrow> string list \<Rightarrow> string list" where
  "fill_devices needed [] chosen = chosen"
| "fill_devices needed (d # ds) chosen =
     (if needed \<le> 0 then chosen
      else if d \<in> set chosen then fill_devices needed ds chosen
      else fill_devices (needed - 1) ds (chosen @ [d]))"

text \<open>A container's request: the devices that must be included, the available ones, the number.\<close>

definition preferred_devices :: "string list \<times> string list \<times> int \<Rightarrow> string list" where
  "preferred_devices req = (case req of (must, avail, n) \<Rightarrow> fill_devices (n - int (length must)) avail must)"

definition get_preferred_allocation :: "(string list \<times> string list \<times> int) list \<Rightarrow> string list list" where
  "get_preferred_allocation reqs = map preferred_devices reqs"

record container_allocation =
  ca_envs :: "(string \<times> string) list"
  ca_devices :: "(string \<times> string \<times> string) list"
  ca_annotations :: "(string \<times> string) list"
  ca_mounts :: "(string \<times> string \<times> bool) list"

definition allocate_container :: "string list \<Rightarrow> container_allocation" where
  "allocate_container is =
     \<lparr>ca_envs = [(''DANTE_GPU_DEVICES'', ''['' @ join_with '' '' is @ '']''), (''DANTE_GPU_COUNT'', nat_text (length is))],
      ca_devices = map (\<lambda>(n, i). (''/dev/dante-gpu'' @ nat_text n, ''/dev/dante-gpu-'' @ i, ''rw'')) (enumerate 0 is),
      ca_annotations = map (\<lambda>(n, i). (''dante.ai/gpu-'' @ nat_text n @ ''-id'', i)) (enumerate 0 is),
      ca_mounts = [(''/usr/local/dante'', ''/usr/local/dante'', True)]\<rparr>"

definition allocate :: "string list list \<Rightarrow> container_allocation list" where
  "allocate reqs = map allocate_container reqs"

section \<open>Device files\<close>

datatype device_effect = DeviceCreated string | DeviceOpened string

record device_files =
  df_missing :: "string \<Rightarrow> bool"
  df_create :: "string \<Rightarrow> string option"
  df_chmod :: "string \<Rightarrow> string option"

definition prepare_device :: "device_files \<Rightarrow> string \<Rightarrow> string option \<times> device_effect list" where
  "prepare_device df i =
     (let p = ''/dev/dante-gpu-'' @ i in
      if \<not> df_missing df p then (None, [])
      else (case df_create df p of
              Some e \<Rightarrow> (Some (''failed to create device file '' @ p @ '': '' @ e), [])
            | None \<Rightarrow>
                (case df_chmod df p of
                   Some e \<Rightarrow> (Some (''failed to set permissions on device file '' @ p @ '': '' @ e), [DeviceCreated p])
                 | None \<Rightarrow> (None, [DeviceCreated p, DeviceOpened p]))))"

fun pre_start_container :: "device_files \<Rightarrow> string list \<Rightarrow> string option \<times> device_effect list" where
  "pre_start_container df [] = (None, [])"
| "pre_start_container df (i # is) =
     (case prepare_device df i of
        (Some e, es) \<Rightarrow> (Some e, es)
      | (None, es) \<Rightarrow> (case pre_start_container df is of (r, fs) \<Rightarrow> (r, es @ fs)))"

section \<open>Properties\<close>

lemma fill_devices_exact:
  assumes "distinct chosen" "distinct avail"
  shows "\<exists>added. fill_devices needed avail chosen = chosen @ added \<and> distinct (chosen @ added) \<and> set added \<subseteq> set avail
    \<and> length added = min (nat needed) (card (set avail - set chosen))"
  using assms
proof (induction needed avail chosen rule: fill_devices.induct)
  case (2 needed d ds chosen)
  consider "needed \<le> 0" | "\<not> needed \<le> 0" "d \<in> set chosen" | "\<not> needed \<le> 0" "d \<notin> set chosen" by blast
  then show ?case
  proof cases
    case 1
    then show ?thesis using 2(3) by simp
  next
    case 2
    have "set (d # ds) - set chosen = set ds - set chosen" using 2(2) by auto
    moreover obtain added where "fill_devices needed ds chosen = chosen @ added" "distinct (chosen @ added)" "set added \<subseteq> set ds"
      "length added = min (nat needed) (card (set ds - set chosen))"
      using "2.IH"(1) [OF 2] "2.prems" by auto
    ultimately show ?thesis using 2 by (intro exI [of _ added]) auto
  next
    case 3
    then obtain added where a: "fill_devices (needed - 1) ds (chosen @ [d]) = (chosen @ [d]) @ added" "distinct ((chosen @ [d]) @ added)"
      "set added \<subseteq> set ds" "length added = min (nat (needed - 1)) (card (set ds - set (chosen @ [d])))"
      using "2.IH"(2) [OF 3] "2.prems" by auto
    have "set ds - set (chosen @ [d]) = set ds - set chosen" using "2.prems"(2) by auto
    moreover have "card (set (d # ds) - set chosen) = Suc (card (set ds - set chosen))"
      using 3 "2.prems"(2) by (simp add: insert_Diff_if)
    ultimately have "length (d # added) = min (nat needed) (card (set (d # ds) - set chosen))"
      using a(4) 3 by (simp add: nat_diff_distrib)
    with a 3 show ?thesis by (intro exI [of _ "d # added"]) auto
  qed
qed simp

text \<open>The preferred devices of a request are the ones that must be included, in their order, and after them as many of the available ones as are
  asked for and not yet taken, none twice, as far as there are enough.\<close>

theorem preferred_devices_exact:
  assumes "distinct must" "distinct avail"
  shows "\<exists>added. preferred_devices (must, avail, n) = must @ added \<and> distinct (must @ added) \<and> set added \<subseteq> set avail
    \<and> length added = min (nat (n - int (length must))) (card (set avail - set must))"
  using fill_devices_exact [OF assms, of "n - int (length must)"] by (simp add: preferred_devices_def)

lemma fraction_id_inj: "fraction_id i j = fraction_id i' j' \<longleftrightarrow> i = i' \<and> j = j'"
proof
  assume e: "fraction_id i j = fraction_id i' j'"
  have d: "CHR ''-'' \<notin> set (nat_text n)" for n
    using nat_text_digits [of "CHR ''-''" n] by (auto simp: digit_value_def)
  have "split_char CHR ''-'' (nat_text i @ ''-fraction-'' @ nat_text j) = split_char CHR ''-'' (nat_text i' @ ''-fraction-'' @ nat_text j')"
    using e by (simp add: fraction_id_def)
  moreover have "split_char CHR ''-'' (nat_text n @ ''-fraction-'' @ nat_text m) = [nat_text n, ''fraction'', nat_text m]" for n m
    using split_char_first [OF d, of n "''fraction-'' @ nat_text m"] split_char_none [OF d, of m] by simp
  ultimately show "i = i' \<and> j = j'" by (simp add: nat_text_inj)
qed simp

text \<open>Ten devices for each GPU, all different and healthy; a negative number ends the plugin.\<close>

theorem devices_distinct:
  assumes "initialize_devices (new_device_plugin n) = Some dp"
  shows "n \<ge> 0 \<and> distinct (map pd_id (dp_devices dp)) \<and> length (dp_devices dp) = 10 * nat n \<and> list_all pd_healthy (dp_devices dp)"
proof -
  have d: "dp_devices dp = concat (map (\<lambda>i. map (\<lambda>j. \<lparr>pd_id = fraction_id i j, pd_healthy = True\<rparr>) [0..<10]) [0..<nat n])" "n \<ge> 0"
    using assms by (auto simp: initialize_devices_def new_device_plugin_def split: if_splits)
  have "distinct (map pd_id (concat (map (\<lambda>i. map (\<lambda>j. \<lparr>pd_id = fraction_id i j, pd_healthy = True\<rparr>) [0..<10]) [0..<m])))
      \<and> length (concat (map (\<lambda>i. map (\<lambda>j. \<lparr>pd_id = fraction_id i j, pd_healthy = True\<rparr>) [0..<10]) [0..<m])) = 10 * m" for m
  proof (induction m)
    case (Suc m)
    have "distinct (map (\<lambda>j. fraction_id m j) [0..<10])" by (simp add: distinct_map inj_on_def fraction_id_inj del: upt_rec_numeral)
    with Suc show ?case by (auto simp: comp_def fraction_id_inj simp del: upt_rec_numeral)
  qed simp
  then show ?thesis using d by (auto simp: list_all_iff)
qed

text \<open>The watch never has anything to report: every round of the health check leaves every device healthy and reports none.\<close>

theorem health_rounds_report_nothing:
  "snd (health_round ds) = [] \<and> list_all pd_healthy (fst (health_round ds)) \<and> map pd_id (fst (health_round ds)) = map pd_id ds"
  by (simp add: health_round_def is_device_healthy_def Let_def list_all_iff)

text \<open>The options it registers with are not the options it answers with.\<close>

theorem registered_options_differ: "snd plugin_register_request \<noteq> device_plugin_options"
  by (simp add: plugin_register_request_def device_plugin_options_def)

text \<open>Each device of a container is mapped from its own file, in the order asked for.\<close>

lemma allocated_paths: "map (\<lambda>(c, h, p). h) (ca_devices (allocate_container is)) = map (\<lambda>i. ''/dev/dante-gpu-'' @ i) is"
proof -
  have "map (\<lambda>(c, h, p). h) (map (\<lambda>(n, i). (''/dev/dante-gpu'' @ nat_text n, ''/dev/dante-gpu-'' @ i, ''rw'')) (enumerate k is))
      = map (\<lambda>i. ''/dev/dante-gpu-'' @ i) is" for k
    by (induction "is" arbitrary: k) simp_all
  then show ?thesis by (simp add: allocate_container_def)
qed

end
