(* ===== verification/GpuMonitor.thy ===== *)
theory GpuMonitor
  imports GoPath "HOL-Library.AList"
begin

text \<open>
  The GPU monitor (\<open>services/gpu-monitoring-service/main.go\<close>): the table of GPUs read from the text \<open>nvidia-smi\<close> prints, its stand-in when
  the command fails, the statistics, the allocations and the connected clients. The table is a list with one entry per GPU, in the order the
  map is enumerated in.
\<close>

section \<open>Data\<close>

record gpu_process =
  gx_pid :: int
  gx_name :: string
  gx_user :: string
  gx_memory :: int
  gx_usage :: int
  gx_start :: string
  gx_command :: string

record gpu_allocation =
  gz_user_id :: string
  gz_user_name :: string
  gz_job_id :: string
  gz_job_name :: string
  gz_allocated_at :: time
  gz_memory_slice :: int
  gz_fraction :: rat
  gz_status :: string
  gz_priority :: int
  gz_estimated_end :: time

record monitored_gpu =
  mg_id :: string
  mg_name :: string
  mg_model :: string
  mg_uuid :: string
  mg_memory_total :: int
  mg_memory_used :: int
  mg_memory_free :: int
  mg_util :: int
  mg_util_memory :: int
  mg_temperature :: int
  mg_power_draw :: int
  mg_power_limit :: int
  mg_fan :: int
  mg_processes :: "gpu_process list"
  mg_allocations :: "gpu_allocation list"
  mg_available :: bool
  mg_updated :: time
  mg_metadata :: "(string \<times> string) list"

type_synonym gpu_table = "(string \<times> monitored_gpu) list"

section \<open>Reading\<close>

definition new_monitored_gpu :: "string \<Rightarrow> monitored_gpu" where
  "new_monitored_gpu i =
     \<lparr>mg_id = i, mg_name = [], mg_model = [], mg_uuid = [], mg_memory_total = 0, mg_memory_used = 0, mg_memory_free = 0, mg_util = 0,
      mg_util_memory = 0, mg_temperature = 0, mg_power_draw = 0, mg_power_limit = 0, mg_fan = 0, mg_processes = [], mg_allocations = [],
      mg_available = False, mg_updated = 0, mg_metadata = []\<rparr>"

text \<open>\<open>memTotal*80/100\<close> on int64.\<close>

definition memory_threshold :: "int \<Rightarrow> int" where
  "memory_threshold t =
     (let p = sint (of_int (t * 80) :: 64 word) in if p \<ge> 0 then p div 100 else - ((- p) div 100))"

definition mock_processes :: "gpu_process list" where
  "mock_processes =
     [\<lparr>gx_pid = 1234, gx_name = ''python'', gx_user = ''alice'', gx_memory = 2048, gx_usage = 45, gx_start = ''2024-01-15 10:30:00'',
       gx_command = ''python train_model.py''\<rparr>,
      \<lparr>gx_pid = 5678, gx_name = ''pytorch'', gx_user = ''bob'', gx_memory = 1024, gx_usage = 25, gx_start = ''2024-01-15 11:15:00'',
       gx_command = ''python inference.py''\<rparr>]"

definition mock_allocations :: "time \<Rightarrow> gpu_allocation list" where
  "mock_allocations now =
     [\<lparr>gz_user_id = ''user-123'', gz_user_name = ''alice'', gz_job_id = ''job-456'', gz_job_name = ''Model Training'',
       gz_allocated_at = now - 2 * hour, gz_memory_slice = 8192, gz_fraction = 1 / 2, gz_status = ''active'', gz_priority = 1,
       gz_estimated_end = now + hour\<rparr>,
      \<lparr>gz_user_id = ''user-789'', gz_user_name = ''bob'', gz_job_id = ''job-101'', gz_job_name = ''Inference Task'',
       gz_allocated_at = now - 30 * minute, gz_memory_slice = 4096, gz_fraction = 1 / 4, gz_status = ''active'', gz_priority = 2,
       gz_estimated_end = now + 30 * minute\<rparr>]"

definition read_field :: "string \<Rightarrow> int" where
  "read_field s = int_despite_error (trim_space s)"

definition process_line :: "string \<Rightarrow> string \<Rightarrow> gpu_process option" where
  "process_line stamp line =
     (if line = [] then None
      else (case split_str '', '' line of
              p # n # m # rest \<Rightarrow> Some \<lparr>gx_pid = read_field p, gx_name = trim_space n, gx_user = [], gx_memory = read_field m, gx_usage = 0,
                                      gx_start = stamp, gx_command = []\<rparr>
            | _ \<Rightarrow> None))"

definition gpu_processes :: "(string \<Rightarrow> string option) \<Rightarrow> string \<Rightarrow> string \<Rightarrow> gpu_process list" where
  "gpu_processes query stamp i =
     (case query i of None \<Rightarrow> mock_processes
      | Some out \<Rightarrow> List.map_filter (process_line stamp) (split_char (CHR 0x0A) (trim_space out)))"

text \<open>A line of the query: the GPU it is about and its readings.\<close>

definition read_gpu_line :: "(string \<Rightarrow> string option) \<Rightarrow> string \<Rightarrow> time \<Rightarrow> string \<Rightarrow> gpu_table \<Rightarrow> gpu_table" where
  "read_gpu_line query stamp now line tab =
     (case (if line = [] then [] else split_str '', '' line) of
        f0 # f1 # f2 # f3 # f4 # f5 # f6 # f7 # f8 # f9 # f10 # f11 # rest \<Rightarrow>
          (let i = trim_space f0;
               g = (case map_of tab i of None \<Rightarrow> new_monitored_gpu i | Some g \<Rightarrow> g);
               total = read_field f3; used = read_field f4; util = read_field f6
           in AList.update i
                (g\<lparr>mg_name := trim_space f1, mg_model := trim_space f1, mg_uuid := trim_space f2, mg_memory_total := total,
                   mg_memory_used := used, mg_memory_free := read_field f5, mg_util := util, mg_util_memory := read_field f7,
                   mg_temperature := read_field f8, mg_power_draw := read_field f9, mg_power_limit := read_field f10, mg_fan := read_field f11,
                   mg_available := (util < 80 \<and> used < memory_threshold total), mg_updated := now,
                   mg_processes := gpu_processes query stamp (mg_id g)\<rparr>) tab)
      | _ \<Rightarrow> tab)"

definition mock_gpu :: "time \<Rightarrow> string \<times> string \<times> string \<Rightarrow> monitored_gpu" where
  "mock_gpu now x =
     (case x of (i, name, model) \<Rightarrow> let t = now div second in
      \<lparr>mg_id = i, mg_name = name, mg_model = model, mg_uuid = ''GPU-'' @ i @ ''-UUID'', mg_memory_total = 24576,
       mg_memory_used = 2048 + (t mod 10) * 1024, mg_memory_free = 22528, mg_util = 30 + t mod 50, mg_util_memory = 20 + t mod 40,
       mg_temperature = 45 + t mod 25, mg_power_draw = 150 + t mod 200, mg_power_limit = 450, mg_fan = 40 + t mod 40,
       mg_processes = mock_processes, mg_allocations = mock_allocations now, mg_available = True, mg_updated = now,
       mg_metadata = [(''driver_version'', ''535.104.05''), (''cuda_version'', ''12.2''), (''architecture'', ''Ada Lovelace'')]\<rparr>)"

definition update_mock_gpus :: "time \<Rightarrow> gpu_table \<Rightarrow> gpu_table" where
  "update_mock_gpus now tab =
     fold (\<lambda>x. AList.update (fst x) (mock_gpu now x))
       [(''0'', ''NVIDIA RTX 4090'', ''RTX4090''), (''1'', ''NVIDIA RTX 4080'', ''RTX4080''), (''2'', ''Apple M4 Max'', ''M4-Max'')] tab"

definition update_gpu_table :: "string option \<Rightarrow> (string \<Rightarrow> string option) \<Rightarrow> string \<Rightarrow> time \<Rightarrow> gpu_table \<Rightarrow> gpu_table" where
  "update_gpu_table output query stamp now tab =
     (case output of
        None \<Rightarrow> update_mock_gpus now tab
      | Some out \<Rightarrow> fold (read_gpu_line query stamp now) (split_char (CHR 0x0A) (trim_space out)) tab)"

section \<open>Requests\<close>

definition get_gpu_entry :: "string \<Rightarrow> gpu_table \<Rightarrow> monitored_gpu option" where
  "get_gpu_entry i tab = map_of tab i"

definition all_allocations :: "gpu_table \<Rightarrow> gpu_allocation list" where
  "all_allocations tab = concat (map (\<lambda>(i, g). mg_allocations g) tab)"

text \<open>The answer's status; neither request changes anything.\<close>

definition create_allocation :: "gpu_allocation option \<Rightarrow> gpu_table \<Rightarrow> nat \<times> gpu_table" where
  "create_allocation body tab = (case body of None \<Rightarrow> (400, tab) | Some a \<Rightarrow> (200, tab))"

definition delete_allocation :: "string \<Rightarrow> gpu_table \<Rightarrow> nat \<times> gpu_table" where
  "delete_allocation i tab = (200, tab)"

record system_stats =
  sy_total :: nat
  sy_available :: nat
  sy_total_memory :: int
  sy_used_memory :: int
  sy_average_util :: rat
  sy_active_users :: nat
  sy_active_jobs :: nat
  sy_queued_jobs :: nat
  sy_load :: rat
  sy_uptime :: string
  sy_updated :: time
  sy_breakdown :: "(string \<times> nat) list"

definition active_allocations :: "monitored_gpu \<Rightarrow> gpu_allocation list" where
  "active_allocations g = filter (\<lambda>a. gz_status a = ''active'') (mg_allocations g)"

text \<open>One GPU after the other; the memory sums are on int64.\<close>

definition count_model :: "string \<Rightarrow> (string \<times> nat) list \<Rightarrow> (string \<times> nat) list" where
  "count_model m b = AList.update m ((case map_of b m of None \<Rightarrow> 0 | Some n \<Rightarrow> n) + 1) b"

definition add64 :: "int \<Rightarrow> int \<Rightarrow> int" where
  "add64 a b = sint (of_int (a + b) :: 64 word)"

definition system_stats_of :: "time \<Rightarrow> gpu_table \<Rightarrow> system_stats" where
  "system_stats_of now tab =
     (let gs = map snd tab in
      \<lparr>sy_total = length gs, sy_available = length (filter mg_available gs), sy_total_memory = fold (\<lambda>g s. add64 s (mg_memory_total g)) gs 0,
       sy_used_memory = fold (\<lambda>g s. add64 s (mg_memory_used g)) gs 0,
       sy_average_util = (if gs = [] then 0 else sum_list (map (\<lambda>g. of_int (mg_util g)) gs) / of_nat (length gs)),
       sy_active_users = card (set (concat (map (\<lambda>g. map gz_user_id (active_allocations g)) gs))),
       sy_active_jobs = length (concat (map active_allocations gs)), sy_queued_jobs = 0, sy_load = 1 / 2, sy_uptime = ''24h 30m'',
       sy_updated = now, sy_breakdown = fold (\<lambda>g. count_model (mg_model g)) gs []\<rparr>)"

section \<open>Clients\<close>

text \<open>A broadcast writes to every client and drops those the write fails for; \<open>fails\<close> tells which.\<close>

definition broadcast_clients :: "(nat \<Rightarrow> bool) \<Rightarrow> nat list \<Rightarrow> nat list" where
  "broadcast_clients fails cs = filter (\<lambda>c. \<not> fails c) cs"

definition connect_client :: "nat \<Rightarrow> nat list \<Rightarrow> nat list" where
  "connect_client c cs = List.insert c cs"

definition disconnect_client :: "nat \<Rightarrow> nat list \<Rightarrow> nat list" where
  "disconnect_client c cs = filter (\<lambda>x. x \<noteq> c) cs"

section \<open>Properties\<close>

lemma trim_space_keeps:
  assumes "c \<in> set s" "\<not> is_space c"
  shows "c \<in> set (trim_space s)"
proof -
  have d: "c \<in> set (dropWhile is_space xs)" if "c \<in> set xs" for xs
    using that assms(2) by (induction xs) auto
  show ?thesis unfolding trim_space_def using d [of s] d [of "rev (dropWhile is_space s)"] assms(1) by simp
qed

text \<open>A power reading with a decimal point, as \<open>nvidia-smi\<close> prints all of them, is recorded as zero watts.\<close>

theorem decimal_power_reads_zero:
  assumes "split_str '', '' line = [f0, f1, f2, f3, f4, f5, f6, f7, f8, f9, f10, f11]" "line \<noteq> []" "CHR ''.'' \<in> set f9"
  shows "\<exists>g. map_of (read_gpu_line query stamp now line tab) (trim_space f0) = Some g \<and> mg_power_draw g = 0"
proof -
  have d: "digit_value CHR ''.'' = None" by (simp add: digit_value_def)
  have "CHR ''.'' \<in> set (trim_space f9)" by (rule trim_space_keeps [OF assms(3)]) (simp add: is_space_def)
  from int_despite_error_bad [OF this d] have "read_field f9 = 0" by (simp add: read_field_def)
  then show ?thesis using assms(1,2) by (simp add: read_gpu_line_def Let_def update_conv')
qed

lemma read_line_other:
  assumes "\<And>f fs. split_str '', '' line = f # fs \<Longrightarrow> trim_space f \<noteq> i"
  shows "map_of (read_gpu_line query stamp now line tab) i = map_of tab i"
  using assms by (auto simp: read_gpu_line_def Let_def update_conv' split: list.split)

text \<open>A GPU that is no longer listed stays in the table as it was read last, available if it was: over any output that does not name it nothing
  of its entry changes.\<close>

theorem vanished_gpu_stays:
  assumes "\<forall>line \<in> set (split_char (CHR 0x0A) (trim_space out)). \<forall>f fs. split_str '', '' line = f # fs \<longrightarrow> trim_space f \<noteq> i"
    "map_of tab i = Some g"
  shows "map_of (update_gpu_table (Some out) query stamp now tab) i = Some g"
proof -
  have "map_of (fold (read_gpu_line query stamp now) ls tab) i = map_of tab i"
    if "\<forall>line \<in> set ls. \<forall>f fs. split_str '', '' line = f # fs \<longrightarrow> trim_space f \<noteq> i" for ls
    using that by (induction ls arbitrary: tab) (simp_all add: read_line_other)
  then show ?thesis using assms by (simp add: update_gpu_table_def)
qed

lemma count_model_sum: "sum_list (map snd (count_model m b)) = Suc (sum_list (map snd b))"
proof -
  have "sum_list (map snd (AList.update m n b)) + (case map_of b m of None \<Rightarrow> 0 | Some k \<Rightarrow> k) = sum_list (map snd b) + n" for n :: nat
    by (induction b) auto
  from this [of "(case map_of b m of None \<Rightarrow> 0 | Some n \<Rightarrow> n) + 1"] show ?thesis by (simp add: count_model_def)
qed

text \<open>The statistics agree with each other: no more GPUs are available than there are, no more users are active than jobs, and the models add up
  to all the GPUs.\<close>

theorem stats_consistent:
  "sy_available (system_stats_of now tab) \<le> sy_total (system_stats_of now tab)
   \<and> sy_active_users (system_stats_of now tab) \<le> sy_active_jobs (system_stats_of now tab)
   \<and> sum_list (map snd (sy_breakdown (system_stats_of now tab))) = sy_total (system_stats_of now tab)"
proof (intro conjI)
  show "sy_available (system_stats_of now tab) \<le> sy_total (system_stats_of now tab)"
    by (simp add: system_stats_of_def Let_def)
  have "card (set xs) \<le> length xs" for xs :: "string list" by (rule card_length)
  moreover have "length (concat (map (\<lambda>g. map gz_user_id (active_allocations g)) gs)) = length (concat (map active_allocations gs))" for gs
    by (simp add: length_concat comp_def)
  ultimately show "sy_active_users (system_stats_of now tab) \<le> sy_active_jobs (system_stats_of now tab)"
    unfolding system_stats_of_def Let_def system_stats.simps by (metis (no_types))
  have "sum_list (map snd (fold (\<lambda>g. count_model (mg_model g)) gs b)) = length gs + sum_list (map snd b)" for gs b
    by (induction gs arbitrary: b) (simp_all add: count_model_sum)
  from this [of "map snd tab" "[]"] show "sum_list (map snd (sy_breakdown (system_stats_of now tab))) = sy_total (system_stats_of now tab)"
    by (simp add: system_stats_of_def Let_def)
qed

text \<open>What is read from the GPUs never allocates anything: a table without allocations has none after any output, while one failed command fills it
  with invented ones, although nothing was allocated.\<close>

lemma read_line_allocations:
  assumes "\<forall>(i, g) \<in> set tab. mg_allocations g = []"
  shows "\<forall>(i, g) \<in> set (read_gpu_line query stamp now line tab). mg_allocations g = []"
proof -
  have u: "set (AList.update i g tab) \<subseteq> insert (i, g) (set tab)" for i g by (induction tab) auto
  have m: "mg_allocations (case map_of tab i of None \<Rightarrow> new_monitored_gpu i | Some g \<Rightarrow> g) = []" for i
    using assms by (auto simp: new_monitored_gpu_def split: option.split dest!: map_of_SomeD)
  show ?thesis
    using assms m by (auto simp: read_gpu_line_def Let_def split: list.split dest!: subsetD [OF u])
qed

theorem failed_command_invents_allocations:
  "all_allocations (update_gpu_table (Some out) query stamp now []) = [] \<and> length (all_allocations (update_gpu_table None query stamp now [])) = 6"
proof
  have "\<forall>(i, g) \<in> set (fold (read_gpu_line query stamp now) ls tab). mg_allocations g = []"
    if "\<forall>(i, g) \<in> set tab. mg_allocations g = []" for ls tab
    using that
  proof (induction ls arbitrary: tab)
    case (Cons l ls)
    from Cons.IH [OF read_line_allocations [OF Cons.prems]] show ?case by simp
  qed simp
  from this [of "[]"] show "all_allocations (update_gpu_table (Some out) query stamp now []) = []"
    by (fastforce simp: all_allocations_def update_gpu_table_def)
  show "length (all_allocations (update_gpu_table None query stamp now [])) = 6"
    by (simp add: all_allocations_def update_gpu_table_def update_mock_gpus_def mock_gpu_def mock_allocations_def Let_def)
qed

end
