(* ===== verification/ServicesDemo.thy ===== *)
theory ServicesDemo
  imports SessionFacts CacheFacts RentalFacts StorageApi DevicePlugin GpuMonitor
begin

text \<open>Concrete stores, clocks and tables for the small services, and the instances of their properties on them.\<close>

section \<open>Sessions\<close>

definition demo_call :: "time \<Rightarrow> redis_env" where
  "demo_call t = \<lparr>rx_now = t, rx_client = t, rx_fail = (\<lambda>i. None)\<rparr>"

definition demo_redis_session :: "string \<Rightarrow> time \<Rightarrow> redis_session" where
  "demo_redis_session i e =
     \<lparr>sn_id = i, sn_user_id = ''alice'', sn_email = ''alice@example.org'', sn_roles = [''user''], sn_refresh_token = ''t'', sn_ip_address = ''10.0.0.1'',
      sn_user_agent = ''agent'', sn_created_at = 0, sn_last_activity = 0, sn_expires_at = e\<rparr>"

lemma demo_marshals: "json_year_ok e \<Longrightarrow> marshal_session (demo_redis_session i e) \<noteq> None"
  by (simp add: marshal_session_def demo_redis_session_def) (simp add: json_year_ok_def)

lemma demo_created:
  assumes "t < e" "i = ''a'' \<or> i = ''b''" "is_set t db (user_sessions_key ''alice'')" "json_year_ok e"
  shows "\<exists>db'. session_create (demo_call t) (demo_redis_session i e) db = (Inr (), db')"
proof -
  have k: "session_key i \<noteq> user_sessions_key ''alice''" using assms(2) by (auto simp: session_key_def user_sessions_key_def)
  obtain data where data: "marshal_session (demo_redis_session i e) = Some data" using demo_marshals [OF assms(4)] by blast
  have "is_set t (put t (session_key i) v ttl db) (user_sessions_key ''alice'')" for v ttl
    using assms(3) k by (simp add: is_set_def redis.lookup_save)
  then show ?thesis using assms(1)
    by (simp add: session_create_def data redis_cmds demo_call_def Let_def) (simp add: demo_redis_session_def)
qed

lemma demo_set_kept:
  assumes "session_create (demo_call t) (demo_redis_session i e) (\<lambda>_. None) = (Inr (), db')" "t \<le> u"
  shows "is_set u db' (user_sessions_key ''alice'')"
proof -
  obtain data where d: "db' = touch t (user_sessions_key ''alice'') (whole_seconds (e - t)) (add_member t (user_sessions_key ''alice'') i
      (put t (session_key i) (RText (SessionText data)) (precise_ttl (e - t)) (\<lambda>_. None)))"
    using created [OF assms(1)] by (auto simp: expire_cmd_def answered_def demo_call_def demo_redis_session_def)
  define db1 where "db1 = put t (session_key i) (RText (SessionText data)) (precise_ttl (e - t)) (\<lambda>_. None)"
  have "look u db' (user_sessions_key ''alice'') =
      (if u < t + whole_seconds (e - t) then look t (add_member t (user_sessions_key ''alice'') i db1) (user_sessions_key ''alice'') else None)"
    unfolding d db1_def by (simp only: redis.lookup_renew [OF assms(2)] if_True refl)
  then show ?thesis using look_add [of t "user_sessions_key ''alice''" i db1] by (simp add: is_set_def)
qed

lemma demo_text_valid: "session_back (demo_redis_session ''a'' e) = demo_redis_session ''a'' e"
  by (rule session_back_valid) (simp add: session_texts_def demo_redis_session_def ascii_valid)

text \<open>A session that ends 100.5 milliseconds after it is stored lives for 100.\<close>

theorem session_readable_until_expiry_witness:
  "\<exists>db'. session_create (demo_call 0) (demo_redis_session ''a'' 100500000) (\<lambda>_. None) = (Inr (), db')
     \<and> session_get (demo_call 99999999) ''a'' db' = Inr (demo_redis_session ''a'' 100500000)
     \<and> session_get (demo_call 100000000) ''a'' db' = Inl ''session not found''"
proof -
  obtain db' where c: "session_create (demo_call 0) (demo_redis_session ''a'' 100500000) (\<lambda>_. None) = (Inr (), db')"
    using demo_created [of 0 100500000 "''a''" "\<lambda>_. None"] by (auto simp: is_set_def look_def json_year_ok_def)
  have f: "rx_fail (demo_call t) 0 = None" for t by (simp add: demo_call_def)
  have e: "sn_id (demo_redis_session ''a'' x) = ''a''" "sn_expires_at (demo_redis_session ''a'' x) = x" "rx_now (demo_call y) = y"
    "rx_client (demo_call y) = y" for x y by (simp_all add: demo_redis_session_def demo_call_def)
  show ?thesis
    using c session_readable_until_expiry [OF c f, of 99999999] session_readable_until_expiry [OF c f, of 100000000]
    by (simp add: e demo_text_valid precise_ttl_def)
qed

theorem logout_everywhere_misses_session_witness:
  "\<exists>db1 db2 db3. session_create (demo_call 0) (demo_redis_session ''a'' (100 * second)) (\<lambda>_. None) = (Inr (), db1)
     \<and> session_create (demo_call second) (demo_redis_session ''b'' (10 * second)) db1 = (Inr (), db2)
     \<and> session_delete_all (demo_call (20 * second)) ''alice'' db2 = (Inr (), db3)
     \<and> session_get (demo_call (20 * second)) ''a'' db3 = Inr (demo_redis_session ''a'' (100 * second))"
proof -
  obtain db1 where c1: "session_create (demo_call 0) (demo_redis_session ''a'' (100 * second)) (\<lambda>_. None) = (Inr (), db1)"
    using demo_created [of 0 "100 * second" "''a''" "\<lambda>_. None"] by (auto simp: is_set_def look_def json_year_ok_def)
  obtain db2 where c2: "session_create (demo_call second) (demo_redis_session ''b'' (10 * second)) db1 = (Inr (), db2)"
    using demo_created [of second "10 * second" "''b''" db1] demo_set_kept [OF c1, of second] by (auto simp: json_year_ok_def)
  have "\<exists>db3. session_delete_all (demo_call (20 * second)) (sn_user_id (demo_redis_session ''a'' (100 * second))) db2 = (Inr (), db3)
      \<and> session_get (demo_call (20 * second)) (sn_id (demo_redis_session ''a'' (100 * second))) db3 = Inr (session_back (demo_redis_session ''a'' (100 * second)))
      \<and> session_list (demo_call (20 * second)) (sn_user_id (demo_redis_session ''a'' (100 * second))) db2 = Inr []"
    by (rule logout_everywhere_misses_session [OF c1 c2])
       (simp_all add: demo_call_def demo_redis_session_def whole_seconds_def precise_ttl_def)
  with c1 c2 show ?thesis unfolding demo_text_valid by (auto simp: demo_redis_session_def)
qed

text \<open>A window of a second and a half.\<close>

theorem limiter_exact_witness:
  "limiter_run [demo_call 0, demo_call 1, demo_call 999999999] ''login'' 2 1500000000 (\<lambda>_. None) = [Inr True, Inr True, Inr False]
   \<and> fst (limiter_allow (demo_call 1200000000) ''login'' 2 1500000000
       (limiter_state [demo_call 0, demo_call 1, demo_call 999999999] ''login'' 2 1500000000 (\<lambda>_. None))) = Inr True"
proof -
  have w: "whole_seconds 1500000000 = second" by (simp add: whole_seconds_def)
  have e: "rx_now (demo_call t) = t" "rx_fail (demo_call t) i = None" for t i by (simp_all add: demo_call_def)
  show ?thesis
    using limiter_exact [of "demo_call 0" "\<lambda>_. None" "''login''" "[demo_call 1, demo_call 999999999]" 1500000000 "demo_call 1200000000" 2]
    by (simp add: e w look_def upt_rec_numeral del: limiter_run.simps limiter_state.simps)
qed

section \<open>Cache\<close>

definition demo_availability :: gpu_availability where
  "demo_availability =
     \<lparr>ga_gpu_id = ''g'', ga_provider_id = ''p'', ga_is_available = True, ga_utilization = 0, ga_utilization_memory = 0, ga_memory_free = 1,
      ga_memory_total = 1, ga_temperature = 40, ga_power_draw = 100, ga_rate_dgpu = 1, ga_rate_usd = 1, ga_last_updated = 0, ga_active_jobs = 0,
      ga_queued_jobs = 0, ga_estimated_wait = 0\<rparr>"

theorem silent_gpu_stays_available_witness:
  "\<exists>gs. get_available_gpus (demo_call (8 * second)) (refreshes [(demo_call 0, ''a'', demo_availability), (demo_call (4 * second), ''b'', demo_availability)]
       (\<lambda>_. None)) = Inr gs \<and> ''a'' \<in> set gs
     \<and> get_gpu_availability (demo_call (8 * second)) ''a'' (refreshes [(demo_call 0, ''a'', demo_availability),
         (demo_call (4 * second), ''b'', demo_availability)] (\<lambda>_. None)) = Inr None"
  by (rule silent_gpu_stays_available)
    (simp_all add: demo_call_def demo_availability_def is_set_def look_def ttl_gpu_def)

theorem slow_client_refused_witness:
  "last (limit_run [demo_call 0, demo_call (59 * second), demo_call (118 * second)] ''u'' ''e'' 2 (\<lambda>_. None)) = Inr (False, 2)"
  using slow_client_refused [of "demo_call 0" "\<lambda>_. None" "''u''" "''e''" "[demo_call (59 * second), demo_call (118 * second)]" 2]
  by (simp add: demo_call_def look_def ttl_rate_limit_def del: limit_run.simps)

section \<open>Rentals\<close>

definition demo_rentals :: rental_db where
  "demo_rentals =
     \<lparr>rd_users = [\<lparr>ru_id = 1, ru_balance = 100\<rparr>, \<lparr>ru_id = 2, ru_balance = 50\<rparr>],
      rd_gpus = [\<lparr>gi_id = 7, gi_provider_id = 3, gi_model_id = 4, gi_instance_id = ''i'', gi_price = 2, gi_status = ''available'', gi_location = None,
                  gi_specs = None\<rparr>],
      rd_rentals = []\<rparr>"

definition demo_uuid :: "string \<Rightarrow> uuid option" where
  "demo_uuid s = map_of [(''u1'', 1), (''u2'', 2), (''g'', 7), (''r1'', 11), (''r2'', 12)] s"

definition demo_rental_env :: "uuid \<Rightarrow> time \<Rightarrow> rental_env" where
  "demo_rental_env f t = \<lparr>rl_now = t, rl_fresh = f, rl_parse = demo_uuid, rl_fail = (\<lambda>i. False), rl_cut = None\<rparr>"

theorem rentals_exclusive_witness:
  "rentals_ok demo_rentals \<and> rentals_reach demo_rentals (snd (rental_call_step (demo_rental_env 11 0) (CallCreate ''u1'' (Some (''g'', 1))) demo_rentals))
     \<and> rentals_ok (snd (rental_call_step (demo_rental_env 11 0) (CallCreate ''u1'' (Some (''g'', 1))) demo_rentals))"
proof -
  have ok: "rentals_ok demo_rentals" by (simp add: rentals_ok_def demo_rentals_def)
  have r: "rentals_reach demo_rentals (snd (rental_call_step (demo_rental_env 11 0) (CallCreate ''u1'' (Some (''g'', 1))) demo_rentals))"
    by (rule reach_call [OF reach_none]) (simp add: demo_rentals_def)
  show ?thesis using ok r rentals_exclusive [OF r ok] by blast
qed

theorem overlapping_requests_double_book_witness:
  "\<exists>r1 r2 db1 db2. rental_insert (demo_rental_env 11 0) (1, 7, 2) demo_rentals = (RentalMade r1, db1)
     \<and> rental_insert (demo_rental_env 12 0) (2, 7, 2) db1 = (RentalMade r2, db2)
     \<and> r1 \<noteq> r2 \<and> {r1, r2} \<subseteq> set (rd_rentals db2) \<and> rr_gpu_id r1 = 7 \<and> rr_gpu_id r2 = 7 \<and> open_rental r1 \<and> open_rental r2"
  by (rule overlapping_requests_double_book [of "demo_rental_env 11 0" "''u1''" "(''g'', 1)" demo_rentals 1 7 2 "demo_rental_env 12 0" "''u2''" "(''g'', 1)" 2 2])
    (simp_all add: rental_check_def demo_rental_env_def demo_uuid_def demo_rentals_def)

definition demo_running :: rental_db where
  "demo_running = demo_rentals\<lparr>rd_rentals :=
     [\<lparr>rr_id = 11, rr_user_id = 1, rr_gpu_id = 7, rr_status = ''running'', rr_start = Some 0, rr_end = None, rr_duration = None, rr_price = 2,
       rr_total_cost = None, rr_payment = ''paid'', rr_connection = None, rr_created = 0\<rparr>]\<rparr>"

theorem stop_charges_once_witness:
  "\<exists>db'. stop_rental (demo_rental_env 0 (3 * hour)) ''u1'' ''r1'' demo_running = (RentalStopped 3 6 (3 * hour), db')
     \<and> ru_balance (hd (rd_users db')) = round_at 2 94
     \<and> stop_rental (demo_rental_env 0 (4 * hour)) ''u1'' ''r1'' db' = (RentalRefused 404 ''Rental not found or not running'', db')"
proof -
  have n: "numeric 8 4 3 = Some 3" "numeric 10 2 6 = Some 6" "numeric 10 2 94 = Some 94"
    using numeric_column.col_stored [OF numeric_columnI, of 4 8 3] numeric_column.col_stored [OF numeric_columnI, of 2 10 6]
      numeric_column.col_stored [OF numeric_columnI, of 2 10 94] on_grid_int [of 4 3] on_grid_int [of 2 6] on_grid_int [of 2 94] by simp_all
  have "stopped (fst (stop_rental (demo_rental_env 0 (3 * hour)) ''u1'' ''r1'' demo_running))"
    using n by (simp add: stop_rental_def demo_rental_env_def demo_uuid_def demo_running_def demo_rentals_def Let_def rental_hours_def charged_users_def)
  moreover have "fst (stop_rental (demo_rental_env 0 (3 * hour)) ''u1'' ''r1'' demo_running) = RentalStopped 3 6 (3 * hour)"
    using n by (simp add: stop_rental_def demo_rental_env_def demo_uuid_def demo_running_def demo_rentals_def Let_def rental_hours_def charged_users_def)
  ultimately obtain db' where s: "stop_rental (demo_rental_env 0 (3 * hour)) ''u1'' ''r1'' demo_running = (RentalStopped 3 6 (3 * hour), db')"
    by (metis prod.collapse)
  have d: "distinct (map rr_id (rd_rentals demo_running))" by (simp add: demo_running_def)
  from stop_charges_once [OF s d] obtain u where u: "rl_parse (demo_rental_env 0 (3 * hour)) ''u1'' = Some u"
    "rd_users db' = map (\<lambda>x. if ru_id x = u then x\<lparr>ru_balance := round_at 2 (ru_balance x - 6)\<rparr> else x) (rd_users demo_running)"
    "\<forall>env2. rl_parse env2 = rl_parse (demo_rental_env 0 (3 * hour)) \<and> \<not> rl_fail env2 0 \<longrightarrow>
       stop_rental env2 ''u1'' ''r1'' db' = (RentalRefused 404 ''Rental not found or not running'', db')" by blast
  have "stop_rental (demo_rental_env 0 (4 * hour)) ''u1'' ''r1'' db' = (RentalRefused 404 ''Rental not found or not running'', db')"
    using u(3) [rule_format, of "demo_rental_env 0 (4 * hour)"] by (simp add: demo_rental_env_def)
  moreover have "ru_balance (hd (rd_users db')) = round_at 2 94"
    using u(1,2) by (simp add: demo_rental_env_def demo_uuid_def demo_running_def demo_rentals_def)
  ultimately show ?thesis using s by blast
qed

section \<open>Storage\<close>

definition demo_minio :: "unit minio_client" where
  "demo_minio =
     \<lparr>mc_api = \<lparr>mo_bucket_exists = (\<lambda>b s. Inr True), mo_make_bucket = (\<lambda>b r s. (None, s)), mo_put = (\<lambda>b k r n t s. (Inr (k, n, []), s)),
        mo_get = (\<lambda>b k s. Inl []), mo_stat = (\<lambda>b k s. Inl []), mo_remove = (\<lambda>b k s. (None, s)), mo_list = (\<lambda>b p r s. []),
        mo_presign_get = (\<lambda>b k d. Inl []), mo_presign_put = (\<lambda>b k d. Inl [])\<rparr>,
      mc_default = ''main'', mc_now = 0\<rparr>"

definition demo_upload :: storage_request where
  "demo_upload = \<lparr>sq_type = [], sq_length = [], sq_body = ''x'', sq_prefix = [], sq_recursive = [], sq_presign = None\<rparr>"

theorem default_bucket_unreachable_witness:
  "serve_route (\<lambda>e. []) (\<lambda>s. None) demo_minio (Upload, True) [(''*'', ''a.txt'')] demo_upload () = Some (key_required, ())
   \<and> serve_route (\<lambda>e. []) (\<lambda>s. None) demo_minio (Listing, True) [] demo_upload () = None"
proof
  show "serve_route (\<lambda>e. []) (\<lambda>s. None) demo_minio (Upload, True) [(''*'', ''a.txt'')] demo_upload () = Some (key_required, ())"
    by (subst default_bucket_unreachable [of "''PUT''" "''/objects/*''"])
      (simp_all add: storage_routes_def pattern_names_def segment_name_def List.map_filter_simps)
  show "serve_route (\<lambda>e. []) (\<lambda>s. None) demo_minio (Listing, True) [] demo_upload () = None"
    by (subst default_bucket_unreachable [of "''GET''" "''/objects/list''"])
      (simp_all add: storage_routes_def pattern_names_def segment_name_def List.map_filter_simps)
qed

end
