(* ===== verification/SimpleGateway.thy ===== *)
theory SimpleGateway
  imports GoText Table
begin

text \<open>
  The stand-alone gateway (\<open>services/api-gateway/main-simple.go\<close>): GPUs, wallets and rentals in an SQLite file, which does not enforce foreign
  keys. Every statement is a transaction of its own. A request carries the user it claims to be of; what fails of its statements is in the
  environment, and so is the number of rows that arrive before a result breaks off. Floating point numbers are rationals.
\<close>

section \<open>Tables\<close>

record simple_gpu =
  pu_id :: string
  pu_model :: string
  pu_vram :: string
  pu_cores :: int
  pu_price :: rat
  pu_provider_id :: string
  pu_provider_name :: string
  pu_location :: string
  pu_status :: string
  pu_utilization :: int
  pu_temperature :: int

record simple_rental =
  pr_id :: string
  pr_gpu_id :: string
  pr_user_id :: string
  pr_escrow :: rat
  pr_rate :: rat
  pr_status :: string
  pr_started :: time
  pr_end :: time

record simple_wallet =
  pw_id :: string
  pw_user_id :: string
  pw_address :: string
  pw_balance :: rat
  pw_available :: rat
  pw_locked :: rat
  pw_network :: string
  pw_created :: time

record simple_db =
  pd_gpus :: "simple_gpu list"
  pd_rentals :: "simple_rental list"
  pd_wallets :: "simple_wallet list"

record simple_env =
  pe_clock :: clock
  pe_fail :: "nat \<Rightarrow> bool"
  pe_cut :: "nat option"

datatype simple_reply =
    SimpleError nat string
  | SimpleGpus "simple_gpu list"
  | SimpleGpu simple_gpu
  | SimpleWalletMade simple_wallet
  | SimpleBalance rat rat rat
  | SimpleRented simple_rental
  | SimpleRentals "(simple_rental \<times> string \<times> rat \<times> rat) list"
  | SimpleStats nat rat rat rat

definition sample_gpu :: "string \<Rightarrow> string \<Rightarrow> string \<Rightarrow> int \<Rightarrow> rat \<Rightarrow> string \<times> string \<times> string \<Rightarrow> int \<Rightarrow> simple_gpu" where
  "sample_gpu i m v c p x t =
     \<lparr>pu_id = i, pu_model = m, pu_vram = v, pu_cores = c, pu_price = p, pu_provider_id = fst x, pu_provider_name = fst (snd x),
      pu_location = snd (snd x), pu_status = ''available'', pu_utilization = 0, pu_temperature = t\<rparr>"

definition sample_gpus :: "simple_gpu list" where
  "sample_gpus =
     [sample_gpu ''gpu_001'' ''NVIDIA RTX 4090'' ''24GB'' 16384 (5 / 2) (''provider_001'', ''TechProvider Inc.'', ''US-West'') 45,
      sample_gpu ''gpu_002'' ''NVIDIA A100'' ''40GB'' 6912 5 (''provider_002'', ''CloudGPU Ltd.'', ''EU-Central'') 42,
      sample_gpu ''gpu_003'' ''NVIDIA RTX 3090'' ''24GB'' 10496 (9 / 5) (''provider_003'', ''GPUFarm Co.'', ''Asia-East'') 48,
      sample_gpu ''gpu_004'' ''NVIDIA H100'' ''80GB'' 16896 8 (''provider_004'', ''AI Compute Inc.'', ''US-East'') 40,
      sample_gpu ''gpu_005'' ''NVIDIA A40'' ''48GB'' 10752 (7 / 2) (''provider_005'', ''DataCenter Pro'', ''EU-West'') 43]"

text \<open>\<open>INSERT OR IGNORE\<close>: a row whose key is there is left as it is.\<close>

definition init_simple_db :: "simple_db \<Rightarrow> simple_db" where
  "init_simple_db db =
     db\<lparr>pd_gpus := fold (\<lambda>g gs. if select_by pu_id (pu_id g) gs = None then gs @ [g] else gs) sample_gpus (pd_gpus db)\<rparr>"

section \<open>GPUs\<close>

text \<open>\<open>ordered\<close> is an order by price.\<close>

definition list_simple_gpus :: "(simple_gpu list \<Rightarrow> simple_gpu list) \<Rightarrow> simple_env \<Rightarrow> simple_db \<Rightarrow> simple_reply" where
  "list_simple_gpus ordered env db =
     (if pe_fail env 0 then SimpleError 500 ''Database error''
      else SimpleGpus (rows_read (pe_cut env) (ordered (filter (\<lambda>g. pu_status g = ''available'') (pd_gpus db)))))"

definition get_simple_gpu :: "simple_env \<Rightarrow> string \<Rightarrow> simple_db \<Rightarrow> simple_reply" where
  "get_simple_gpu env i db =
     (if pe_fail env 0 then SimpleError 500 ''Database error''
      else (case select_by pu_id i (pd_gpus db) of
              None \<Rightarrow> SimpleError 404 ''GPU not found''
            | Some g \<Rightarrow> SimpleGpu g))"

section \<open>Wallets\<close>

definition accepts_simple_wallet :: "simple_wallet list \<Rightarrow> simple_wallet \<Rightarrow> bool" where
  "accepts_simple_wallet ws w \<longleftrightarrow> pw_id w \<notin> pw_id ` set ws \<and> pw_user_id w \<notin> pw_user_id ` set ws \<and> pw_address w \<notin> pw_address ` set ws"

text \<open>\<open>CURRENT_TIMESTAMP\<close> has whole seconds.\<close>

definition timestamp :: "time \<Rightarrow> time" where
  "timestamp t = t - t mod second"

definition create_simple_wallet :: "simple_env \<Rightarrow> string \<Rightarrow> simple_db \<Rightarrow> simple_reply \<times> simple_db" where
  "create_simple_wallet env user db =
     (if user = [] then (SimpleError 401 ''Unauthorized'', db)
      else if pe_fail env 0 then (SimpleError 500 ''Database error'', db)
      else if select_by pw_user_id user (pd_wallets db) \<noteq> None then (SimpleError 409 ''Wallet already exists'', db)
      else
        (let w = \<lparr>pw_id = ''wallet_'' @ int_text (pe_clock env 0), pw_user_id = user,
                  pw_address = ''7xUV6YR3rZMfExPqZiovQSUxpnHxr2KJJqFg1bFrpump'', pw_balance = 1000, pw_available = 1000, pw_locked = 0,
                  pw_network = ''solana-mainnet'', pw_created = timestamp (pe_clock env 1)\<rparr>
         in if pe_fail env 1 \<or> \<not> accepts_simple_wallet (pd_wallets db) w then (SimpleError 500 ''Failed to create wallet'', db)
            else (SimpleWalletMade (w\<lparr>pw_created := pe_clock env 2\<rparr>), db\<lparr>pd_wallets := pd_wallets db @ [w]\<rparr>)))"

definition simple_balance :: "simple_env \<Rightarrow> string \<Rightarrow> simple_db \<Rightarrow> simple_reply" where
  "simple_balance env user db =
     (if user = [] then SimpleError 401 ''Unauthorized''
      else if pe_fail env 0 then SimpleError 500 ''Database error''
      else (case select_by pw_user_id user (pd_wallets db) of
              None \<Rightarrow> SimpleError 404 ''Wallet not found''
            | Some w \<Rightarrow> SimpleBalance (pw_balance w) (pw_available w) (pw_locked w)))"

section \<open>Rentals\<close>

text \<open>The GPU, the escrow and the hours a request asks for.\<close>

type_synonym rent_request = "string \<times> rat \<times> int"

text \<open>A duration is an int64 of nanoseconds.\<close>

definition rent_duration :: "int \<Rightarrow> duration" where
  "rent_duration h = sint (of_int (h * hour) :: 64 word)"

text \<open>A failed lookup of the GPU or of the wallet leaves the value zero and is not looked at, unlike a missing row.\<close>

definition rent_status :: "simple_env \<Rightarrow> string \<Rightarrow> simple_db \<Rightarrow> (string \<times> rat) option" where
  "rent_status env g db =
     (if pe_fail env 0 then Some ([], 0)
      else map_option (\<lambda>r. (pu_status r, pu_price r)) (select_by pu_id g (pd_gpus db)))"

definition rent_funds :: "simple_env \<Rightarrow> string \<Rightarrow> simple_db \<Rightarrow> rat option" where
  "rent_funds env user db = (if pe_fail env 1 then Some 0 else map_option pw_available (select_by pw_user_id user (pd_wallets db)))"

definition lock_escrow :: "string \<Rightarrow> rat \<Rightarrow> simple_wallet list \<Rightarrow> simple_wallet list" where
  "lock_escrow user x = update_by pw_user_id user (\<lambda>w. w\<lparr>pw_available := pw_available w - x, pw_locked := pw_locked w + x\<rparr>)"

text \<open>What the three statements leave after a new row.\<close>

definition rent_writes :: "simple_env \<Rightarrow> string \<Rightarrow> string \<Rightarrow> rat \<Rightarrow> simple_rental \<Rightarrow> simple_db \<Rightarrow> simple_db" where
  "rent_writes env user g x r db =
     db\<lparr>pd_rentals := pd_rentals db @ [r],
        pd_gpus := (if pe_fail env 3 then pd_gpus db else update_by pu_id g (\<lambda>r. r\<lparr>pu_status := ''rented''\<rparr>) (pd_gpus db)),
        pd_wallets := (if pe_fail env 4 then pd_wallets db else lock_escrow user x (pd_wallets db))\<rparr>"

definition create_simple_rental :: "simple_env \<Rightarrow> string \<Rightarrow> rent_request option \<Rightarrow> simple_db \<Rightarrow> simple_reply \<times> simple_db" where
  "create_simple_rental env user body db =
     (if user = [] then (SimpleError 401 ''Unauthorized'', db)
      else (case body of None \<Rightarrow> (SimpleError 400 ''Invalid request body'', db)
      | Some (g, x, h) \<Rightarrow>
          (case rent_status env g db of
             None \<Rightarrow> (SimpleError 404 ''GPU not found'', db)
           | Some (st, price) \<Rightarrow>
               if st \<noteq> ''available'' then (SimpleError 409 ''GPU is not available'', db)
               else (case rent_funds env user db of
                       None \<Rightarrow> (SimpleError 404 ''Wallet not found'', db)
                     | Some a \<Rightarrow>
                         if a < x then (SimpleError 402 ''Insufficient balance'', db)
                         else
                           (let i = ''rental_'' @ int_text (pe_clock env 0);
                                r = \<lparr>pr_id = i, pr_gpu_id = g, pr_user_id = user, pr_escrow = x, pr_rate = price, pr_status = ''active'',
                                     pr_started = timestamp (pe_clock env 2), pr_end = pe_clock env 1 + rent_duration h\<rparr>
                            in if pe_fail env 2 \<or> i \<in> pr_id ` set (pd_rentals db) then (SimpleError 500 ''Failed to create rental'', db)
                               else (SimpleRented (r\<lparr>pr_started := pe_clock env 3\<rparr>), rent_writes env user g x r db))))))"

definition used_hours :: "time \<Rightarrow> time \<Rightarrow> rat" where
  "used_hours a b = of_int (b - a) / of_int hour"

text \<open>\<open>ordered\<close> is an order by start, latest first.\<close>

definition list_simple_rentals ::
    "((simple_rental \<times> string) list \<Rightarrow> (simple_rental \<times> string) list) \<Rightarrow> simple_env \<Rightarrow> string \<Rightarrow> simple_db \<Rightarrow> simple_reply" where
  "list_simple_rentals ordered env user db =
     (if user = [] then SimpleError 401 ''Unauthorized''
      else if pe_fail env 0 then SimpleError 500 ''Database error''
      else
        (let rows = [(r, pu_model g). r \<leftarrow> filter (\<lambda>r. pr_user_id r = user) (pd_rentals db), g \<leftarrow> filter (\<lambda>g. pu_id g = pr_gpu_id r) (pd_gpus db)]
         in SimpleRentals
              (map (\<lambda>(i, r, m). let h = used_hours (pr_started r) (pe_clock env i) in (r, m, h, h * pr_rate r))
                 (enumerate 0 (rows_read (pe_cut env) (take 10 (ordered rows)))))))"

definition rental_use :: "time \<Rightarrow> simple_rental \<Rightarrow> rat" where
  "rental_use now r = used_hours (pr_started r) (if pr_status r = ''active'' then now else pr_end r)"

definition simple_user_stats :: "simple_env \<Rightarrow> string \<Rightarrow> simple_db \<Rightarrow> simple_reply" where
  "simple_user_stats env user db =
     (if user = [] then SimpleError 401 ''Unauthorized''
      else
        (let own = filter (\<lambda>r. pr_user_id r = user) (pd_rentals db);
             active = (if pe_fail env 0 then 0 else length (filter (\<lambda>r. pr_status r = ''active'') own));
             rows = enumerate 0 (if pe_fail env 1 then [] else rows_read (pe_cut env) own);
             hours = sum_list (map (\<lambda>(i, r). rental_use (pe_clock env i) r) rows);
             spent = sum_list (map (\<lambda>(i, r). rental_use (pe_clock env i) r * pr_rate r) rows)
         in SimpleStats active spent hours (spent / 10)))"

section \<open>Sequences of requests\<close>

datatype simple_call = CallWallet string | CallRent string "rent_request option"

fun simple_step :: "simple_env \<Rightarrow> simple_call \<Rightarrow> simple_db \<Rightarrow> simple_reply \<times> simple_db" where
  "simple_step env (CallWallet user) db = create_simple_wallet env user db"
| "simple_step env (CallRent user body) db = create_simple_rental env user body db"

text \<open>The requests that change anything, one after the other, each in an environment that \<open>ok\<close> allows.\<close>

inductive simple_reach :: "(simple_env \<Rightarrow> bool) \<Rightarrow> simple_db \<Rightarrow> simple_db \<Rightarrow> bool" for ok db where
  simple_none: "simple_reach ok db db"
| simple_call: "simple_reach ok db db1 \<Longrightarrow> ok env \<Longrightarrow> simple_reach ok db (snd (simple_step env c db1))"

section \<open>Properties\<close>

interpretation simple_wallets: keyed_table pw_address accepts_simple_wallet
  by unfold_locales (auto simp: accepts_simple_wallet_def)

text \<open>What a request leaves: nothing new, a wallet, or a rental with the writes that did not fail.\<close>

lemma create_wallet_snd:
  "snd (create_simple_wallet env user db) = db
   \<or> (\<exists>w. accepts_simple_wallet (pd_wallets db) w \<and> pw_user_id w = user \<and> pw_balance w = 1000 \<and> pw_available w = 1000 \<and> pw_locked w = 0
        \<and> pw_address w = ''7xUV6YR3rZMfExPqZiovQSUxpnHxr2KJJqFg1bFrpump''
        \<and> snd (create_simple_wallet env user db) = db\<lparr>pd_wallets := pd_wallets db @ [w]\<rparr>)"
proof -
  define w where "w = \<lparr>pw_id = ''wallet_'' @ int_text (pe_clock env 0), pw_user_id = user,
    pw_address = ''7xUV6YR3rZMfExPqZiovQSUxpnHxr2KJJqFg1bFrpump'', pw_balance = 1000, pw_available = 1000, pw_locked = 0,
    pw_network = ''solana-mainnet'', pw_created = timestamp (pe_clock env 1)\<rparr>"
  have "snd (create_simple_wallet env user db) = db
      \<or> accepts_simple_wallet (pd_wallets db) w \<and> snd (create_simple_wallet env user db) = db\<lparr>pd_wallets := pd_wallets db @ [w]\<rparr>"
    by (simp add: create_simple_wallet_def Let_def w_def)
  then show ?thesis by (auto simp: w_def)
qed

lemma create_rental_snd:
  "snd (create_simple_rental env user body db) = db
   \<or> (\<exists>g x h r. body = Some (g, x, h) \<and> pr_gpu_id r = g \<and> pr_user_id r = user \<and> pr_escrow r = x \<and> \<not> pe_fail env 0
        \<and> rent_status env g db = Some (''available'', pr_rate r) \<and> rent_funds env user db \<noteq> None
        \<and> snd (create_simple_rental env user body db) = rent_writes env user g x r db)"
proof (cases body)
  case (Some q)
  obtain g x h where q: "q = (g, x, h)" by (cases q)
  show ?thesis
  proof (cases "snd (create_simple_rental env user body db) = db")
    case False
    then obtain st price a where r: "rent_status env g db = Some (st, price)" "st = ''available''" "rent_funds env user db = Some a"
      by (auto simp: create_simple_rental_def Some q Let_def split: if_splits option.splits)
    define r where "r = \<lparr>pr_id = ''rental_'' @ int_text (pe_clock env 0), pr_gpu_id = g, pr_user_id = user, pr_escrow = x, pr_rate = price,
      pr_status = ''active'', pr_started = timestamp (pe_clock env 2), pr_end = pe_clock env 1 + rent_duration h\<rparr>"
    have "snd (create_simple_rental env user body db) = rent_writes env user g x r db"
      using False r by (auto simp: create_simple_rental_def Some q Let_def r_def split: if_splits)
    moreover have "\<not> pe_fail env 0" using r by (auto simp: rent_status_def)
    ultimately show ?thesis using r by (auto simp: Some q r_def intro!: exI [of _ r])
  qed simp
qed (simp add: create_simple_rental_def)

lemma simple_step_cases:
  obtains (same) "snd (simple_step env c db) = db"
  | (wallet) user w where "c = CallWallet user" "accepts_simple_wallet (pd_wallets db) w" "pw_user_id w = user" "pw_balance w = 1000" "pw_available w = 1000"
      "pw_locked w = 0" "pw_address w = ''7xUV6YR3rZMfExPqZiovQSUxpnHxr2KJJqFg1bFrpump''"
      "snd (simple_step env c db) = db\<lparr>pd_wallets := pd_wallets db @ [w]\<rparr>"
  | (rent) user g x h r where "c = CallRent user (Some (g, x, h))" "\<not> pe_fail env 0" "pr_gpu_id r = g" "pr_user_id r = user" "pr_escrow r = x"
      "rent_status env g db = Some (''available'', pr_rate r)" "snd (simple_step env c db) = rent_writes env user g x r db"
      "rent_funds env user db \<noteq> None"
proof (cases c)
  case (CallWallet user)
  then show thesis using create_wallet_snd [of env user db] same wallet by (simp only: simple_step.simps) metis
next
  case (CallRent user body)
  then show thesis using create_rental_snd [of env user body db] same rent by (simp only: simple_step.simps) metis
qed

lemma simple_reachI:
  assumes "simple_reach ok db db'" "P db" "\<And>env c d. ok env \<Longrightarrow> P d \<Longrightarrow> P (snd (simple_step env c d))"
  shows "P db'"
  using assms(1) by (induction rule: simple_reach.induct) (use assms(2,3) in auto)

lemma lock_escrow_addresses: "(\<forall>w \<in> set (lock_escrow user x ws). pw_address w = a) \<longleftrightarrow> (\<forall>w \<in> set ws. pw_address w = a)"
proof -
  have same: "pw_address ` set (lock_escrow user x ws) = pw_address ` set ws" unfolding lock_escrow_def by (rule keys_update_by) simp
  have all: "(\<forall>w \<in> S. pw_address w = a) \<longleftrightarrow> (\<forall>y \<in> pw_address ` S. y = a)" for S by blast
  show ?thesis unfolding all same ..
qed

text \<open>What of a wallet no request changes.\<close>

definition wallet_identity :: "simple_wallet \<Rightarrow> string \<times> string \<times> string" where
  "wallet_identity w = (pw_id w, pw_user_id w, pw_address w)"

text \<open>C38. Over any sequence of requests with any failing statements there is never more than one wallet, and once there is one it stays, with its
  user: the address every new wallet gets is a constant in a unique column, so every user but the first is refused for good.\<close>

theorem one_wallet_for_all:
  assumes "simple_reach ok db db'" "length (pd_wallets db) \<le> 1"
    "\<forall>w \<in> set (pd_wallets db). pw_address w = ''7xUV6YR3rZMfExPqZiovQSUxpnHxr2KJJqFg1bFrpump''"
  shows "length (pd_wallets db') \<le> 1
    \<and> (pd_wallets db \<noteq> [] \<longrightarrow> map wallet_identity (pd_wallets db') = map wallet_identity (pd_wallets db))
    \<and> (\<forall>env user w. w \<in> set (pd_wallets db') \<and> user \<noteq> [] \<and> user \<noteq> pw_user_id w \<and> \<not> pe_fail env 0
         \<longrightarrow> fst (create_simple_wallet env user db') = SimpleError 500 ''Failed to create wallet'')"
proof -
  let ?a = "''7xUV6YR3rZMfExPqZiovQSUxpnHxr2KJJqFg1bFrpump''"
  let ?P = "\<lambda>d. length (pd_wallets d) \<le> 1 \<and> (\<forall>w \<in> set (pd_wallets d). pw_address w = ?a)
    \<and> (pd_wallets db \<noteq> [] \<longrightarrow> map wallet_identity (pd_wallets d) = map wallet_identity (pd_wallets db))"
  have inv: "?P db'"
  proof (rule simple_reachI [OF assms(1), where P = ?P])
    fix env :: simple_env and c and d :: simple_db
    assume i: "?P d"
    show "?P (snd (simple_step env c d))"
    proof (cases rule: simple_step_cases [of env c d])
      case (wallet user w)
      from simple_wallets.accepts_fresh [OF wallet(2)] i wallet(7) have e: "pd_wallets d = []" by (cases "pd_wallets d") auto
      with i have "pd_wallets db = []" by auto
      with wallet e show ?thesis by simp
    next
      case (rent user g x h r)
      have "map wallet_identity (lock_escrow user x ws) = map wallet_identity ws" for ws
        by (simp add: lock_escrow_def wallet_identity_def map_update_by)
      moreover from this have "length (lock_escrow user x ws) = length ws" for ws by (metis length_map)
      ultimately show ?thesis using i rent(7) by (simp add: rent_writes_def lock_escrow_addresses)
    qed (use i in simp)
  qed (use assms(2,3) in simp)
  have "fst (create_simple_wallet env user db') = SimpleError 500 ''Failed to create wallet''"
    if "w \<in> set (pd_wallets db')" "user \<noteq> []" "user \<noteq> pw_user_id w" "\<not> pe_fail env 0" for env user w
  proof -
    from inv that(1) have ws: "pd_wallets db' = [w]" "pw_address w = ?a" by (cases "pd_wallets db'"; auto)+
    then show ?thesis using that(2-4) by (simp add: create_simple_wallet_def accepts_simple_wallet_def Let_def)
  qed
  with inv show ?thesis by blast
qed

definition wallet_sound :: "simple_db \<Rightarrow> bool" where
  "wallet_sound db \<longleftrightarrow> distinct (map pw_user_id (pd_wallets db))
     \<and> (\<forall>w \<in> set (pd_wallets db). pw_balance w = 1000 \<and> pw_available w + pw_locked w = pw_balance w)"

text \<open>Whatever is requested and whatever fails, what a wallet has available and what is locked in it add up to its balance, which never changes:
  nothing is ever paid.\<close>

theorem simple_money_conserved:
  assumes "simple_reach ok db db'" "wallet_sound db"
  shows "wallet_sound db'"
proof (rule simple_reachI [OF assms(1), where P = wallet_sound])
  fix env :: simple_env and c and d :: simple_db
  assume i: "wallet_sound d"
  show "wallet_sound (snd (simple_step env c d))"
  proof (cases rule: simple_step_cases [of env c d])
    case (wallet user w)
    then show ?thesis using i by (auto simp: wallet_sound_def accepts_simple_wallet_def)
  next
    case (rent user g x h r)
    have "map pw_user_id (lock_escrow user x (pd_wallets d)) = map pw_user_id (pd_wallets d)" by (simp add: lock_escrow_def map_update_by)
    then have "distinct (map pw_user_id (lock_escrow user x (pd_wallets d)))" using i by (simp only: wallet_sound_def)
    moreover have "pw_balance w = 1000 \<and> pw_available w + pw_locked w = pw_balance w" if "w \<in> set (lock_escrow user x (pd_wallets d))" for w
      using i set_update_by [OF that [unfolded lock_escrow_def]] by (auto simp: wallet_sound_def)
    ultimately show ?thesis using i rent(7) by (auto simp: wallet_sound_def rent_writes_def)
  qed (use i in simp)
qed (rule assms(2))

definition gpu_rentals :: "string \<Rightarrow> simple_db \<Rightarrow> simple_rental list" where
  "gpu_rentals g db = filter (\<lambda>r. pr_gpu_id r = g) (pd_rentals db)"

definition rented_for_good :: "simple_db \<Rightarrow> bool" where
  "rented_for_good db \<longleftrightarrow> (\<forall>g. length (gpu_rentals g db) \<le> 1)
     \<and> (\<forall>g \<in> set (pd_gpus db). gpu_rentals (pu_id g) db \<noteq> [] \<longrightarrow> pu_status g = ''rented'')"

text \<open>When the write to the table of GPUs does not fail, a GPU is rented at most once, ever: nothing sets it free again.\<close>

theorem gpu_rented_at_most_once:
  assumes "simple_reach (\<lambda>env. \<not> pe_fail env 3) db db'" "rented_for_good db"
  shows "rented_for_good db'"
proof (rule simple_reachI [OF assms(1), where P = rented_for_good])
  fix env :: simple_env and c and d :: simple_db
  assume ok: "\<not> pe_fail (env :: simple_env) 3" and i: "rented_for_good d"
  show "rented_for_good (snd (simple_step env c d))"
  proof (cases rule: simple_step_cases [of env c d])
    case (wallet user w)
    then show ?thesis using i by (auto simp: rented_for_good_def gpu_rentals_def)
  next
    case (rent user g x h r)
    from rent(2,6) obtain u where u: "u \<in> set (pd_gpus d)" "pu_id u = g" "pu_status u = ''available''"
      by (auto simp: rent_status_def dest: select_by_SomeD)
    then have none: "gpu_rentals g d = []" using i by (auto simp: rented_for_good_def)
    have new: "gpu_rentals k (rent_writes env user g x r d) = gpu_rentals k d @ (if k = g then [r] else [])" for k
      using rent(3) by (auto simp: gpu_rentals_def rent_writes_def)
    have "length (gpu_rentals k (rent_writes env user g x r d)) \<le> 1" for k
      using i none by (auto simp: new rented_for_good_def)
    moreover have "pu_status v = ''rented''"
      if "v \<in> set (pd_gpus (rent_writes env user g x r d))" "gpu_rentals (pu_id v) (rent_writes env user g x r d) \<noteq> []" for v
    proof -
      from that(1) ok obtain v0 where v: "v0 \<in> set (pd_gpus d)" "v = (if pu_id v0 = g then v0\<lparr>pu_status := ''rented''\<rparr> else v0)"
        by (auto simp: rent_writes_def update_by_def)
      show ?thesis
      proof (cases "pu_id v0 = g")
        case False
        then have "gpu_rentals (pu_id v0) d \<noteq> []" using that(2) v(2) by (simp add: new)
        with i v False show ?thesis by (simp add: rented_for_good_def)
      qed (use v in simp)
    qed
    ultimately show ?thesis using rent(7) by (simp add: rented_for_good_def)
  qed (use i in simp)
qed (rule assms(2))

text \<open>A rental with a negative escrow is accepted and gives the user that much more to spend than there is in the wallet.\<close>

theorem negative_escrow_gives_funds:
  assumes "x < 0" "user \<noteq> []" "select_by pu_id g (pd_gpus db) = Some u" "pu_status u = ''available''"
    "select_by pw_user_id user (pd_wallets db) = Some w" "0 \<le> pw_available w" "\<And>i. \<not> pe_fail env i"
    "''rental_'' @ int_text (pe_clock env 0) \<notin> pr_id ` set (pd_rentals db)"
  shows "\<exists>r db'. create_simple_rental env user (Some (g, x, h)) db = (SimpleRented r, db')
    \<and> map_option pw_available (select_by pw_user_id user (pd_wallets db')) = Some (pw_available w - x)"
proof -
  have s: "select_by pw_user_id user (lock_escrow user x (pd_wallets db)) =
      Some (w\<lparr>pw_available := pw_available w - x, pw_locked := pw_locked w + x\<rparr>)"
    unfolding lock_escrow_def by (subst select_update_same) (simp_all add: assms(5))
  show ?thesis
    using assms by (simp add: create_simple_rental_def rent_status_def rent_funds_def Let_def rent_writes_def s)
qed

text \<open>When the write to the wallet fails the rental is answered as made and nothing is locked: the GPU is used for nothing.\<close>

theorem failed_lock_rents_for_free:
  assumes "pe_fail env 4" "create_simple_rental env user body db = (SimpleRented r, db')"
  shows "pd_wallets db' = pd_wallets db \<and> (\<exists>q \<in> set (pd_rentals db'). pr_user_id q = user \<and> pr_escrow q = pr_escrow r \<and> pr_status q = ''active'')"
  using assms by (auto simp: create_simple_rental_def rent_writes_def Let_def split: if_splits option.splits)

text \<open>Without failing writes what is locked in a wallet is the sum of the escrows of its user's rentals.\<close>

definition locks_match :: "simple_db \<Rightarrow> bool" where
  "locks_match db \<longleftrightarrow> (\<forall>w \<in> set (pd_wallets db). pw_locked w =
     sum_list (map pr_escrow (filter (\<lambda>r. pr_user_id r = pw_user_id w) (pd_rentals db))))
   \<and> (\<forall>r \<in> set (pd_rentals db). pr_user_id r \<in> pw_user_id ` set (pd_wallets db))"

theorem locked_is_sum_of_escrows:
  assumes "simple_reach (\<lambda>env. \<not> pe_fail env 1 \<and> \<not> pe_fail env 4) db db'" "locks_match db"
  shows "locks_match db'"
proof (rule simple_reachI [OF assms(1), where P = locks_match])
  fix env :: simple_env and c and d :: simple_db
  assume ok: "\<not> pe_fail (env :: simple_env) 1 \<and> \<not> pe_fail env 4" and i: "locks_match d"
  show "locks_match (snd (simple_step env c d))"
  proof (cases rule: simple_step_cases [of env c d])
    case (wallet u w)
    have "filter (\<lambda>r. pr_user_id r = u) (pd_rentals d) = []"
      using i wallet(2,3) unfolding locks_match_def accepts_simple_wallet_def filter_empty_conv by metis
    then show ?thesis using i wallet by (auto simp: locks_match_def)
  next
    case (rent user g x h r)
    have "select_by pw_user_id user (pd_wallets d) \<noteq> None" using rent(8) ok by (auto simp: rent_funds_def)
    then have own: "user \<in> pw_user_id ` set (pd_wallets d)" unfolding select_by_None by blast
    have ids: "pw_user_id ` set (lock_escrow user x (pd_wallets d)) = pw_user_id ` set (pd_wallets d)"
      unfolding lock_escrow_def by (rule keys_update_by) simp
    have "pw_locked w = sum_list (map pr_escrow (filter (\<lambda>q. pr_user_id q = pw_user_id w) (pd_rentals d @ [r])))"
      if w: "w \<in> set (lock_escrow user x (pd_wallets d))" for w
    proof -
      from w obtain v where "v \<in> set (pd_wallets d)"
        "w = (if pw_user_id v = user then v\<lparr>pw_available := pw_available v - x, pw_locked := pw_locked v + x\<rparr> else v)"
        by (auto simp: lock_escrow_def update_by_def)
      then show ?thesis using i by (simp add: locks_match_def rent(4,5))
    qed
    then show ?thesis
      using i ok own ids unfolding rent(7) by (auto simp: locks_match_def rent_writes_def rent(4))
  qed (use i in simp)
qed (rule assms(2))

section \<open>Two users\<close>

definition quiet_env :: simple_env where
  "quiet_env = \<lparr>pe_clock = (\<lambda>n. 1700000000000000000 + int n), pe_fail = (\<lambda>n. False), pe_cut = None\<rparr>"

definition empty_simple_db :: simple_db where
  "empty_simple_db = \<lparr>pd_gpus = [], pd_rentals = [], pd_wallets = []\<rparr>"

theorem one_wallet_for_all_witness:
  "fst (create_simple_wallet quiet_env ''bob'' (snd (simple_step quiet_env (CallWallet ''ann'') empty_simple_db)))
    = SimpleError 500 ''Failed to create wallet''"
proof -
  let ?d = "snd (simple_step quiet_env (CallWallet ''ann'') empty_simple_db)"
  have reach: "simple_reach (\<lambda>env. True) empty_simple_db ?d" by (rule simple_call [OF simple_none]) simp
  obtain w where w: "w \<in> set (pd_wallets ?d)" "pw_user_id w = ''ann''"
    by (auto simp: quiet_env_def empty_simple_db_def create_simple_wallet_def select_by_def accepts_simple_wallet_def Let_def)
  have start: "length (pd_wallets empty_simple_db) \<le> 1"
    "\<forall>w \<in> set (pd_wallets empty_simple_db). pw_address w = ''7xUV6YR3rZMfExPqZiovQSUxpnHxr2KJJqFg1bFrpump''"
    by (simp_all add: empty_simple_db_def)
  have other: "''bob'' \<noteq> []" "''bob'' \<noteq> pw_user_id w" "\<not> pe_fail quiet_env 0" using w(2) by (simp_all add: quiet_env_def)
  show ?thesis using one_wallet_for_all [OF reach start] w(1) other by blast
qed

end
