(* ===== verification/KratosSession.thy ===== *)
theory KratosSession
  imports Redis
begin

text \<open>
  The session guard in front of Ory Kratos (\<open>services/ory-kratos-integration/main.go\<close>): sessions read from Kratos and kept in Redis, the two
  guards, the handlers and the routes. What Kratos answers is a parameter: a session for a cookie, a flow for a return address. A cached
  session decodes to the session that was cached.
\<close>

section \<open>Data\<close>

record verifiable_address =
  va_id :: string
  va_value :: string
  va_verified :: bool
  va_via :: string
  va_status :: string

record recovery_address =
  ra_id :: string
  ra_value :: string
  ra_via :: string

text \<open>Of an identity and a session only what is ever set.\<close>

record identity_info =
  ii_id :: string
  ii_schema_id :: string
  ii_schema_url :: string
  ii_state :: string
  ii_traits :: "(string \<times> json) list"
  ii_verifiable :: "verifiable_address list"
  ii_recovery :: "recovery_address list"

record session_info =
  si_id :: string
  si_active :: bool
  si_expires_at :: string
  si_authenticated_at :: string
  si_identity :: identity_info
  si_aal :: string
  si_amr :: "string list"

text \<open>What the library reads from Kratos; the traits are any value.\<close>

record kratos_identity =
  ki_id :: string
  ki_schema_id :: string
  ki_schema_url :: string
  ki_state :: string
  ki_traits :: "json option"
  ki_verifiable :: "verifiable_address list"
  ki_recovery :: "recovery_address list"

record kratos_session =
  ks_id :: string
  ks_active :: bool
  ks_expires_at :: string
  ks_authenticated_at :: string
  ks_aal :: string
  ks_methods :: "string list"
  ks_identity :: kratos_identity

type_synonym kratos_db = "session_info redis"

section \<open>Sessions\<close>

definition kratos_traits :: "json option \<Rightarrow> (string \<times> json) list" where
  "kratos_traits t = (case t of Some (JObject m) \<Rightarrow> m | _ \<Rightarrow> [])"

definition identity_of :: "kratos_identity \<Rightarrow> identity_info" where
  "identity_of k =
     \<lparr>ii_id = ki_id k, ii_schema_id = ki_schema_id k, ii_schema_url = ki_schema_url k, ii_state = ki_state k,
      ii_traits = kratos_traits (ki_traits k), ii_verifiable = ki_verifiable k, ii_recovery = ki_recovery k\<rparr>"

definition session_of :: "kratos_session \<Rightarrow> session_info" where
  "session_of k =
     \<lparr>si_id = ks_id k, si_active = ks_active k, si_expires_at = ks_expires_at k, si_authenticated_at = ks_authenticated_at k,
      si_identity = identity_of (ks_identity k), si_aal = ks_aal k, si_amr = ks_methods k\<rparr>"

definition kratos_key :: "string \<Rightarrow> string" where
  "kratos_key i = ''kratos:session:'' @ i"

text \<open>The text before the first bar.\<close>

definition extract_session_id :: "string \<Rightarrow> string" where
  "extract_session_id token = hd (split_char CHR ''|'' token)"

text \<open>Cached without an expiry.\<close>

definition cache_session :: "redis_env \<Rightarrow> nat \<Rightarrow> session_info \<Rightarrow> kratos_db \<Rightarrow> kratos_db" where
  "cache_session env i s db = (case rx_fail env i of Some e \<Rightarrow> db | None \<Rightarrow> db(kratos_key (si_id s) \<mapsto> (RText s, None)))"

definition cached_session :: "redis_env \<Rightarrow> string \<Rightarrow> kratos_db \<Rightarrow> session_info option" where
  "cached_session env token db =
     (let i = extract_session_id token in
      if i = [] then None
      else (case get_cmd env 0 (kratos_key i) db of
              Inr (Some (RText s)) \<Rightarrow> Some s
            | _ \<Rightarrow> None))"

definition validate_session :: "(string \<Rightarrow> string + kratos_session) \<Rightarrow> redis_env \<Rightarrow> string option \<Rightarrow> kratos_db \<Rightarrow> string + session_info" where
  "validate_session kratos env cookie db =
     (case cookie of
        None \<Rightarrow> Inl ''no session cookie found: http: named cookie not present''
      | Some token \<Rightarrow>
          (case cached_session env token db of
             Some s \<Rightarrow> Inr s
           | None \<Rightarrow>
               (case kratos token of
                  Inl e \<Rightarrow> Inl (''session validation failed: '' @ e)
                | Inr k \<Rightarrow> Inr (session_of k))))"

section \<open>Guards\<close>

definition trait_text :: "string \<Rightarrow> string \<Rightarrow> (string \<times> json) list \<Rightarrow> string" where
  "trait_text k d traits = (case map_of traits k of Some (JString s) \<Rightarrow> s | _ \<Rightarrow> d)"

definition extract_email :: "(string \<times> json) list \<Rightarrow> string" where
  "extract_email traits = trait_text ''email'' [] traits"

definition extract_role :: "(string \<times> json) list \<Rightarrow> string" where
  "extract_role traits = trait_text ''role'' ''user'' traits"

text \<open>What a guard tells the handlers.\<close>

record session_context =
  sx_session :: session_info
  sx_user_id :: string
  sx_email :: string
  sx_role :: string

definition session_context_of :: "session_info \<Rightarrow> session_context" where
  "session_context_of s =
     \<lparr>sx_session = s, sx_user_id = ii_id (si_identity s), sx_email = extract_email (ii_traits (si_identity s)),
      sx_role = extract_role (ii_traits (si_identity s))\<rparr>"

datatype guard_result = GuardRefused string | GuardPassed session_context

definition session_guard ::
    "(string \<Rightarrow> string + kratos_session) \<Rightarrow> redis_env \<Rightarrow> string option \<Rightarrow> kratos_db \<Rightarrow> guard_result \<times> kratos_db" where
  "session_guard kratos env cookie db =
     (case validate_session kratos env cookie db of
        Inl e \<Rightarrow> (GuardRefused ''unauthorized'', db)
      | Inr s \<Rightarrow>
          if \<not> si_active s then (GuardRefused ''session_inactive'', db)
          else (GuardPassed (session_context_of s), cache_session env 1 s db))"

definition optional_session_guard ::
    "(string \<Rightarrow> string + kratos_session) \<Rightarrow> redis_env \<Rightarrow> string option \<Rightarrow> kratos_db \<Rightarrow> session_context option \<times> kratos_db" where
  "optional_session_guard kratos env cookie db =
     (case validate_session kratos env cookie db of
        Inr s \<Rightarrow> if si_active s then (Some (session_context_of s), cache_session env 1 s db) else (None, db)
      | Inl e \<Rightarrow> (None, db))"

section \<open>Handlers\<close>

datatype 'f kratos_reply = KratosError nat string | KratosUser identity_info session_info | KratosFlow 'f | KratosStatus "string option"

definition kratos_user_info :: "session_context option \<Rightarrow> 'f kratos_reply" where
  "kratos_user_info c = (case c of None \<Rightarrow> KratosError 401 ''no session found'' | Some x \<Rightarrow> KratosUser (si_identity (sx_session x)) (sx_session x))"

text \<open>A flow is asked for with the return address, if there is one; the cookie of the request is not passed on.\<close>

definition return_address :: "string \<Rightarrow> string option" where
  "return_address s = (if s = [] then None else Some s)"

definition create_login_flow :: "(string option \<Rightarrow> string + 'f) \<Rightarrow> string \<Rightarrow> 'f kratos_reply" where
  "create_login_flow api return_to =
     (case api (return_address return_to) of Inl e \<Rightarrow> KratosError 500 ''failed to create login flow'' | Inr f \<Rightarrow> KratosFlow f)"

definition create_registration_flow :: "(string option \<Rightarrow> string + 'f) \<Rightarrow> string \<Rightarrow> 'f kratos_reply" where
  "create_registration_flow api return_to =
     (case api (return_address return_to) of Inl e \<Rightarrow> KratosError 500 ''failed to create registration flow'' | Inr f \<Rightarrow> KratosFlow f)"

definition create_logout_flow :: "(string option \<Rightarrow> string + 'f) \<Rightarrow> string \<Rightarrow> 'f kratos_reply" where
  "create_logout_flow api return_to =
     (case api (return_address return_to) of Inl e \<Rightarrow> KratosError 500 ''failed to create logout flow'' | Inr f \<Rightarrow> KratosFlow f)"

definition create_settings_flow :: "(string option \<Rightarrow> string + 'f) \<Rightarrow> string \<Rightarrow> 'f kratos_reply" where
  "create_settings_flow api return_to =
     (case api (return_address return_to) of Inl e \<Rightarrow> KratosError 500 ''failed to create settings flow'' | Inr f \<Rightarrow> KratosFlow f)"

text \<open>The status code, and what is disconnected.\<close>

definition kratos_health :: "string option \<Rightarrow> string option \<Rightarrow> nat \<times> string option" where
  "kratos_health version ping =
     (case version of Some e \<Rightarrow> (503, Some ''kratos'')
      | None \<Rightarrow> (case ping of Some e \<Rightarrow> (503, Some ''redis'') | None \<Rightarrow> (200, None)))"

definition public_status :: "session_context option \<Rightarrow> 'f kratos_reply" where
  "public_status c = KratosStatus (map_option sx_user_id c)"

section \<open>Properties\<close>

lemma extract_id:
  "extract_session_id s = takeWhile (\<lambda>c. c \<noteq> CHR ''|'') s"
proof -
  have "hd (split_char c s) = takeWhile (\<lambda>x. x \<noteq> c) s" for c s
    by (induction s) (auto split: list.split)
  then show ?thesis by (simp add: extract_session_id_def)
qed

lemma extract_plain: "CHR ''|'' \<notin> set i \<Longrightarrow> extract_session_id i = i"
  unfolding extract_id by (rule takeWhile_eq_all_conv [THEN iffD2]) auto

lemma cached_lookup:
  assumes "db (kratos_key (extract_session_id token)) = Some (RText s, None)" "extract_session_id token \<noteq> []" "rx_fail env 0 = None"
  shows "validate_session kratos env (Some token) db = Inr s"
  using assms by (simp add: validate_session_def cached_session_def get_cmd_def answered_def look_def Let_def)

text \<open>Requests, each with what Kratos says at the time and any failures.\<close>

type_synonym kratos_call = "(string \<Rightarrow> string + kratos_session) \<times> redis_env \<times> string option"

fun kratos_calls :: "kratos_call list \<Rightarrow> kratos_db \<Rightarrow> kratos_db" where
  "kratos_calls [] db = db"
| "kratos_calls ((kratos, env, cookie) # cs) db = kratos_calls cs (snd (session_guard kratos env cookie db))"

text \<open>An entry of the cache: active, without an expiry, under its own key.\<close>

definition cache_entries :: "kratos_db \<Rightarrow> bool" where
  "cache_entries db \<longleftrightarrow> (\<forall>k v. db k = Some v \<longrightarrow> (\<exists>s. v = (RText s, None) \<and> si_active s \<and> k = kratos_key (si_id s)))"

lemma guard_passes:
  "session_guard kratos env cookie db = (GuardPassed x, db') \<longleftrightarrow>
   (\<exists>s. validate_session kratos env cookie db = Inr s \<and> si_active s \<and> x = session_context_of s \<and> db' = cache_session env 1 s db)"
  by (auto simp: session_guard_def split: sum.split)

lemma guard_entries:
  assumes "cache_entries db"
  shows "cache_entries (snd (session_guard kratos env cookie db))"
  using assms by (auto simp: session_guard_def cache_session_def cache_entries_def split: sum.split option.split)

lemma validated_entry:
  assumes "cache_entries db" "validate_session kratos env (Some token) db = Inr s" "db (kratos_key i) = Some (RText s0, None)" "si_id s = i"
    "\<And>k. kratos token = Inr k \<Longrightarrow> ks_id k \<noteq> i"
  shows "s = s0"
proof (cases "cached_session env token db")
  case (Some t)
  then have "s = t" using assms(2) by (simp add: validate_session_def)
  have "db (kratos_key (extract_session_id token)) = Some (RText t, None)"
    using Some assms(1)
    by (auto simp: cached_session_def get_cmd_def answered_def look_def Let_def cache_entries_def
        split: if_splits option.splits sum.splits redis_value.splits)
  moreover from this assms(1) have "kratos_key (extract_session_id token) = kratos_key (si_id t)" by (auto simp: cache_entries_def)
  ultimately show ?thesis using assms(3,4) \<open>s = t\<close> by simp
next
  case None
  then show ?thesis using assms(2,4,5) by (auto simp: validate_session_def session_of_def split: sum.splits)
qed

text \<open>Once a session was let through, a request whose cookie is no more than the identifier of the session is let through as its user, whatever
  was requested meanwhile and whatever Kratos answers by then: the identifier, which the service hands out, is as good as the secret, and
  neither a logout nor the end of the session is ever noticed.\<close>

theorem session_never_ends:
  assumes "session_guard kratos env cookie db = (GuardPassed x, db1)" "rx_fail env 1 = None" "cache_entries db"
    "i = si_id (sx_session x)" "i \<noteq> []" "CHR ''|'' \<notin> set i"
    "\<forall>(kr, e, c) \<in> set calls. \<forall>t k. kr t = Inr k \<longrightarrow> ks_id k \<noteq> i" "rx_fail env2 0 = None"
  shows "\<exists>db2. session_guard kratos2 env2 (Some i) (kratos_calls calls db1) = (GuardPassed x, db2)"
proof -
  obtain s where s: "si_active s" "x = session_context_of s" "db1 = cache_session env 1 s db"
    using assms(1) by (auto simp: guard_passes)
  then have i: "i = si_id s" using assms(4) by (simp add: session_context_of_def)
  have e1: "cache_entries db1" "db1 (kratos_key i) = Some (RText s, None)"
    using assms(2,3) s i by (auto simp: cache_session_def cache_entries_def)
  have "cache_entries (kratos_calls cs d) \<and> kratos_calls cs d (kratos_key i) = Some (RText s, None)"
    if "cache_entries d" "d (kratos_key i) = Some (RText s, None)" "\<forall>(kr, e, c) \<in> set cs. \<forall>t k. kr t = Inr k \<longrightarrow> ks_id k \<noteq> i" for cs d
    using that
  proof (induction cs arbitrary: d)
    case (Cons c cs)
    obtain kr e t where c: "c = (kr, e, t)" by (cases c)
    define d' where "d' = snd (session_guard kr e t d)"
    have "d' (kratos_key i) = Some (RText s, None)"
    proof (cases "fst (session_guard kr e t d)")
      case (GuardPassed y)
      then have "session_guard kr e t d = (GuardPassed y, d')" by (simp add: d'_def prod_eq_iff)
      then obtain r where r: "validate_session kr e t d = Inr r" "d' = cache_session e 1 r d" by (auto simp: guard_passes)
      then obtain token where t: "t = Some token" by (cases t) (auto simp: validate_session_def)
      show ?thesis
      proof (cases "si_id r = i")
        case True
        have k: "\<And>k. kr token = Inr k \<Longrightarrow> ks_id k \<noteq> i" using Cons.prems(3) c by auto
        have "r = s" by (rule validated_entry [OF Cons.prems(1) r(1) [unfolded t] Cons.prems(2) True k])
        with r(2) Cons.prems(2) i show ?thesis by (simp add: cache_session_def split: option.split)
      next
        case False
        with r(2) Cons.prems(2) show ?thesis by (auto simp: cache_session_def kratos_key_def split: option.split)
      qed
    next
      case (GuardRefused m)
      then have "d' = d" by (auto simp: d'_def session_guard_def split: sum.splits if_splits)
      with Cons.prems(2) show ?thesis by simp
    qed
    moreover have "cache_entries d'" unfolding d'_def by (rule guard_entries [OF Cons.prems(1)])
    ultimately have "cache_entries (kratos_calls cs d') \<and> kratos_calls cs d' (kratos_key i) = Some (RText s, None)"
      using Cons.IH [of d'] Cons.prems(3) by simp
    then show ?case by (simp add: c d'_def)
  qed simp
  from this [OF e1 assms(7)] have "kratos_calls calls db1 (kratos_key i) = Some (RText s, None)" by blast
  then have "validate_session kratos2 env2 (Some i) (kratos_calls calls db1) = Inr s"
    using assms(5,6,8) by (intro cached_lookup) (simp_all add: extract_plain)
  then show ?thesis using s(1,2) by (simp add: session_guard_def)
qed

text \<open>A request whose cookie names no cached session passes the guard exactly when Kratos knows an active session for it, and as that session's
  identity.\<close>

theorem uncached_guard_is_kratos:
  assumes "db (kratos_key (extract_session_id token)) = None"
  shows "(\<exists>db'. session_guard kratos env (Some token) db = (GuardPassed x, db')) \<longleftrightarrow>
    (\<exists>k. kratos token = Inr k \<and> ks_active k \<and> x = session_context_of (session_of k))"
proof -
  have "cached_session env token db = None"
    using assms by (simp add: cached_session_def get_cmd_def answered_def look_def Let_def split: option.split)
  then show ?thesis by (auto simp: guard_passes validate_session_def session_of_def split: sum.split)
qed

text \<open>No request without the cookie is ever let through; the optional guard lets it through without a session.\<close>

theorem guards_without_cookie:
  "session_guard kratos env None db = (GuardRefused ''unauthorized'', db) \<and> optional_session_guard kratos env None db = (None, db)"
  by (simp add: session_guard_def optional_session_guard_def validate_session_def)

text \<open>Whoever the two guards let through, they agree on.\<close>

theorem guards_agree:
  "(\<exists>db'. session_guard kratos env cookie db = (GuardPassed x, db')) \<longleftrightarrow> fst (optional_session_guard kratos env cookie db) = Some x"
  by (auto simp: session_guard_def optional_session_guard_def split: sum.split)

end
