(* ===== verification/SimpleAuth.thy ===== *)
theory SimpleAuth
  imports AuthBase
begin

text \<open>
  The two stand-alone servers of the authentication service: \<open>auth-service/main-sqlite.go\<close> over an SQLite file and \<open>auth-service/main.go\<close>
  over PostgreSQL. Both keep users with a balance, log them in and show a profile. Claims are a list of names and values; signing them is a
  library's. Whether a flag is set is the number 1 in the first and a boolean in the second, here 1 as well.
\<close>

section \<open>Users and tokens\<close>

record simple_user =
  mu_id :: string
  mu_email :: string
  mu_hash :: string
  mu_name :: string
  mu_avatar :: "string option"
  mu_balance :: rat
  mu_verified :: int

record user_view =
  uv_id :: string
  uv_email :: string
  uv_name :: string
  uv_avatar :: "string option"
  uv_balance :: rat
  uv_verified :: bool

definition view_of :: "simple_user \<Rightarrow> user_view" where
  "view_of u =
     \<lparr>uv_id = mu_id u, uv_email = mu_email u, uv_name = mu_name u, uv_avatar = mu_avatar u, uv_balance = mu_balance u,
      uv_verified = (mu_verified u = 1)\<rparr>"

type_synonym map_claims = "(string \<times> json) list"

record map_jwt =
  mj_sign :: "string \<Rightarrow> map_claims \<Rightarrow> string + string"
  mj_parse :: "time \<Rightarrow> string \<Rightarrow> string \<Rightarrow> string + map_claims"

text \<open>A signed token is read under its own secret until the second in its claim \<open>exp\<close>, and carries what was signed.\<close>

definition map_jwt_ok :: "map_jwt \<Rightarrow> bool" where
  "map_jwt_ok lib \<longleftrightarrow> (\<forall>sec cs tok e. mj_sign lib sec cs = Inr tok \<and> map_of cs ''exp'' = Some (JNumber (of_int e)) \<longrightarrow>
     (\<forall>now. mj_parse lib now sec tok = (if now < e * second then Inr cs else Inl ''token has invalid claims: token is expired'')))"

record simple_auth_env =
  me_clock :: clock
  me_fail :: "nat \<Rightarrow> bool"
  me_salt :: string
  me_fresh :: string

text \<open>A refusal, a token with its user, or a profile.\<close>

datatype simple_auth_reply = AuthRefused nat string | AuthGranted nat string user_view | AuthProfile user_view

definition unix_seconds :: "time \<Rightarrow> int" where
  "unix_seconds t = t div second"

section \<open>The server over SQLite\<close>

definition sqlite_token :: "map_jwt \<Rightarrow> string \<Rightarrow> time \<Rightarrow> time \<Rightarrow> string \<Rightarrow> string + string" where
  "sqlite_token lib secret now now' user =
     mj_sign lib secret
       [(''user_id'', JString user), (''exp'', JNumber (of_int (unix_seconds (now + 24 * hour)))), (''iat'', JNumber (of_int (unix_seconds now')))]"

text \<open>\<open>bcrypt\<close> refuses more than 72 bytes.\<close>

definition simple_hash :: "bcrypt_lib \<Rightarrow> simple_auth_env \<Rightarrow> string \<Rightarrow> string option" where
  "simple_hash bc env p = (if 72 < length p then None else Some (bc_hash bc (me_salt env) p))"

definition sqlite_login ::
    "map_jwt \<Rightarrow> string \<Rightarrow> bcrypt_lib \<Rightarrow> simple_auth_env \<Rightarrow> (string \<times> string) option \<Rightarrow> simple_user list \<Rightarrow> simple_auth_reply" where
  "sqlite_login lib secret bc env body us =
     (case body of None \<Rightarrow> AuthRefused 400 ''Invalid request body''
      | Some (email, p) \<Rightarrow>
          if email = [] \<or> p = [] then AuthRefused 400 ''Email and password are required''
          else if me_fail env 0 then AuthRefused 500 ''Database error''
          else (case select_by mu_email email us of
                  None \<Rightarrow> AuthRefused 401 ''Invalid credentials''
                | Some u \<Rightarrow>
                    if \<not> bc_matches bc (mu_hash u) p then AuthRefused 401 ''Invalid credentials''
                    else (case sqlite_token lib secret (me_clock env 0) (me_clock env 1) (mu_id u) of
                            Inl e \<Rightarrow> AuthRefused 500 ''Failed to generate token''
                          | Inr t \<Rightarrow> AuthGranted 200 t (view_of u))))"

definition accepts_simple_user :: "simple_user list \<Rightarrow> simple_user \<Rightarrow> bool" where
  "accepts_simple_user us u \<longleftrightarrow> mu_id u \<notin> mu_id ` set us \<and> mu_email u \<notin> mu_email ` set us"

text \<open>Email, password and name.\<close>

type_synonym simple_registration = "string \<times> string \<times> string"

definition sqlite_register ::
    "map_jwt \<Rightarrow> string \<Rightarrow> bcrypt_lib \<Rightarrow> simple_auth_env \<Rightarrow> simple_registration option \<Rightarrow> simple_user list \<Rightarrow> simple_auth_reply \<times> simple_user list" where
  "sqlite_register lib secret bc env body us =
     (case body of None \<Rightarrow> (AuthRefused 400 ''Invalid request body'', us)
      | Some (email, p, name) \<Rightarrow>
          if email = [] \<or> p = [] \<or> name = [] then (AuthRefused 400 ''Email, password, and name are required'', us)
          else if me_fail env 0 then (AuthRefused 500 ''Database error'', us)
          else if select_by mu_email email us \<noteq> None then (AuthRefused 409 ''User already exists'', us)
          else (case simple_hash bc env p of
                  None \<Rightarrow> (AuthRefused 500 ''Failed to hash password'', us)
                | Some h \<Rightarrow>
                    (let u = \<lparr>mu_id = ''user_'' @ int_text (me_clock env 0), mu_email = email, mu_hash = h, mu_name = name, mu_avatar = None,
                              mu_balance = 1000, mu_verified = 0\<rparr>
                     in if me_fail env 1 \<or> \<not> accepts_simple_user us u then (AuthRefused 500 ''Failed to create user'', us)
                        else (case sqlite_token lib secret (me_clock env 1) (me_clock env 2) (mu_id u) of
                                Inl e \<Rightarrow> (AuthRefused 500 ''Failed to generate token'', us @ [u])
                              | Inr t \<Rightarrow> (AuthGranted 201 t (view_of u), us @ [u])))))"

definition bearer_text :: "string \<Rightarrow> string" where
  "bearer_text h = (if 7 < length h \<and> take 7 h = ''Bearer '' then drop 7 h else h)"

text \<open>The user a profile is asked for: the header that names one, else the token's.\<close>

definition profile_user :: "map_jwt \<Rightarrow> string \<Rightarrow> simple_auth_env \<Rightarrow> string \<Rightarrow> string \<Rightarrow> simple_auth_reply + string" where
  "profile_user lib secret env user_header auth_header =
     (if user_header \<noteq> [] then Inr user_header
      else if auth_header = [] then Inl (AuthRefused 401 ''Unauthorized'')
      else (case mj_parse lib (me_clock env 0) secret (bearer_text auth_header) of
              Inl e \<Rightarrow> Inl (AuthRefused 401 ''Invalid token'')
            | Inr cs \<Rightarrow> (case map_of cs ''user_id'' of
                           Some (JString u) \<Rightarrow> Inr u
                         | _ \<Rightarrow> Inl (AuthRefused 401 ''Invalid user ID in token''))))"

definition sqlite_profile :: "map_jwt \<Rightarrow> string \<Rightarrow> simple_auth_env \<Rightarrow> string \<Rightarrow> string \<Rightarrow> simple_user list \<Rightarrow> simple_auth_reply" where
  "sqlite_profile lib secret env user_header auth_header us =
     (case profile_user lib secret env user_header auth_header of
        Inl r \<Rightarrow> r
      | Inr i \<Rightarrow>
          if me_fail env 0 then AuthRefused 500 ''Database error''
          else (case select_by mu_id i us of
                  None \<Rightarrow> AuthRefused 404 ''User not found''
                | Some u \<Rightarrow> AuthProfile (view_of u)))"

section \<open>The server over PostgreSQL\<close>

definition pg_token :: "map_jwt \<Rightarrow> string \<Rightarrow> time \<Rightarrow> string \<Rightarrow> string + string" where
  "pg_token lib secret now user =
     mj_sign lib secret [(''user_id'', JString user), (''exp'', JNumber (of_int (unix_seconds (now + 24 * hour))))]"

definition pg_login ::
    "map_jwt \<Rightarrow> string \<Rightarrow> bcrypt_lib \<Rightarrow> simple_auth_env \<Rightarrow> (string \<times> string) option \<Rightarrow> simple_user list \<Rightarrow> simple_auth_reply" where
  "pg_login lib secret bc env body us =
     (case body of None \<Rightarrow> AuthRefused 400 ''Invalid request body''
      | Some (email, p) \<Rightarrow>
          (case (if me_fail env 0 then None else select_by mu_email email us) of
             None \<Rightarrow> AuthRefused 401 ''Invalid credentials''
           | Some u \<Rightarrow>
               if \<not> bc_matches bc (mu_hash u) p then AuthRefused 401 ''Invalid credentials''
               else (case pg_token lib secret (me_clock env 0) (mu_id u) of
                       Inl e \<Rightarrow> AuthRefused 500 ''Failed to generate token''
                     | Inr t \<Rightarrow> AuthGranted 200 t (view_of u))))"

text \<open>The columns hold 255 characters.\<close>

definition pg_register ::
    "map_jwt \<Rightarrow> string \<Rightarrow> bcrypt_lib \<Rightarrow> simple_auth_env \<Rightarrow> simple_registration option \<Rightarrow> simple_user list \<Rightarrow> simple_auth_reply \<times> simple_user list" where
  "pg_register lib secret bc env body us =
     (case body of None \<Rightarrow> (AuthRefused 400 ''Invalid request body'', us)
      | Some (email, p, name) \<Rightarrow>
          if me_fail env 0 then (AuthRefused 500 ''Database error'', us)
          else if select_by mu_email email us \<noteq> None then (AuthRefused 409 ''User already exists'', us)
          else (case simple_hash bc env p of
                  None \<Rightarrow> (AuthRefused 500 ''Failed to hash password'', us)
                | Some h \<Rightarrow>
                    (let u = \<lparr>mu_id = me_fresh env, mu_email = email, mu_hash = h, mu_name = name, mu_avatar = None, mu_balance = 0, mu_verified = 0\<rparr>
                     in if me_fail env 1 \<or> \<not> accepts_simple_user us u \<or> 255 < length email \<or> 255 < length h \<or> 255 < length name
                        then (AuthRefused 500 ''Failed to create user'', us)
                        else (case pg_token lib secret (me_clock env 0) (mu_id u) of
                                Inl e \<Rightarrow> (AuthRefused 500 ''Failed to generate token'', us @ [u])
                              | Inr t \<Rightarrow> (AuthGranted 200 t (view_of u), us @ [u])))))"

definition pg_profile :: "simple_auth_env \<Rightarrow> string \<Rightarrow> simple_user list \<Rightarrow> simple_auth_reply" where
  "pg_profile env user_header us =
     (if user_header = [] then AuthRefused 401 ''Unauthorized''
      else (case (if me_fail env 0 then None else select_by mu_id user_header us) of
              None \<Rightarrow> AuthRefused 404 ''User not found''
            | Some u \<Rightarrow> AuthProfile (view_of u)))"

section \<open>Properties\<close>

interpretation simple_users: keyed_table mu_email accepts_simple_user
  by unfold_locales (simp add: accepts_simple_user_def)

interpretation simple_user_ids: keyed_table mu_id accepts_simple_user
  by unfold_locales (simp add: accepts_simple_user_def)

definition users_distinct :: "simple_user list \<Rightarrow> bool" where
  "users_distinct us \<longleftrightarrow> distinct (map mu_email us) \<and> distinct (map mu_id us)"

text \<open>What a registration leaves: the table as it was, or a new accepted user.\<close>

lemma simple_registered:
  "snd (sqlite_register lib secret bc env body us) = us \<or> (\<exists>u. accepts_simple_user us u \<and> snd (sqlite_register lib secret bc env body us) = us @ [u])"
  "snd (pg_register lib secret bc env body us) = us \<or> (\<exists>u. accepts_simple_user us u \<and> snd (pg_register lib secret bc env body us) = us @ [u])"
  by (auto simp: sqlite_register_def pg_register_def Let_def split: option.split sum.split)

text \<open>No two users ever share an address or an identifier, whatever fails.\<close>

theorem users_stay_distinct:
  assumes "users_distinct us"
  shows "users_distinct (snd (sqlite_register lib secret bc env body us)) \<and> users_distinct (snd (pg_register lib secret bc env body us))"
proof -
  have "users_distinct (us @ [u])" if "accepts_simple_user us u" for u
    using simple_users.insert_distinct [OF that] simple_user_ids.insert_distinct [OF that] assms by (simp add: users_distinct_def)
  then show ?thesis using simple_registered [of lib secret bc env body us] assms by metis
qed

text \<open>The user a successful registration adds.\<close>

lemma sqlite_granted:
  assumes "sqlite_register lib secret bc env (Some (email, p, name)) us = (AuthGranted c t v, us')"
  shows "\<exists>u. us' = us @ [u] \<and> accepts_simple_user us u \<and> mu_email u = email \<and> mu_hash u = bc_hash bc (me_salt env) p \<and> v = view_of u
    \<and> email \<noteq> [] \<and> p \<noteq> [] \<and> sqlite_token lib secret (me_clock env 1) (me_clock env 2) (mu_id u) = Inr t"
  using assms by (auto simp: sqlite_register_def simple_hash_def Let_def split: if_splits sum.splits option.splits)

text \<open>A user who registered logs in with the same password from then on, and is shown as he was registered.\<close>

theorem simple_register_login:
  assumes "sqlite_register lib secret bc env (Some (email, p, name)) us = (AuthGranted c t v, us')" "bcrypt_ok bc" "\<not> me_fail env' 0"
    "\<And>cs. \<exists>tok. mj_sign lib secret cs = Inr tok"
  shows "\<exists>t'. sqlite_login lib secret bc env' (Some (email, p)) us' = AuthGranted 200 t' v"
proof -
  obtain u where u: "us' = us @ [u]" "accepts_simple_user us u" "mu_email u = email" "mu_hash u = bc_hash bc (me_salt env) p" "v = view_of u"
    "email \<noteq> []" "p \<noteq> []"
    using sqlite_granted [OF assms(1)] by blast
  have "select_by mu_email email us' = Some u" using simple_users.insert_lookup [OF u(2)] u(1,3) by simp
  moreover have "bc_matches bc (mu_hash u) p" using assms(2) by (simp add: bcrypt_ok_def u(4))
  moreover obtain t' where "sqlite_token lib secret (me_clock env' 0) (me_clock env' 1) (mu_id u) = Inr t'"
    using assms(4) by (auto simp: sqlite_token_def)
  ultimately show ?thesis using assms(3) u by (simp add: sqlite_login_def)
qed

text \<open>The token a registration hands out shows the user's profile until a day later, to the second, and nothing after that.\<close>

theorem simple_token_day:
  assumes "sqlite_register lib secret bc env (Some (email, p, name)) us = (AuthGranted c t v, us')" "map_jwt_ok lib" "\<not> me_fail env' 0"
    "t \<noteq> []"
  shows "sqlite_profile lib secret env' [] (''Bearer '' @ t) us' =
    (if me_clock env' 0 < unix_seconds (me_clock env 1 + 24 * hour) * second then AuthProfile v else AuthRefused 401 ''Invalid token'')"
proof -
  obtain u where u: "us' = us @ [u]" "accepts_simple_user us u" "v = view_of u"
    "sqlite_token lib secret (me_clock env 1) (me_clock env 2) (mu_id u) = Inr t"
    using sqlite_granted [OF assms(1)] by blast
  let ?cs = "[(''user_id'', JString (mu_id u)), (''exp'', JNumber (of_int (unix_seconds (me_clock env 1 + 24 * hour)))),
    (''iat'', JNumber (of_int (unix_seconds (me_clock env 2))))]"
  have "mj_sign lib secret ?cs = Inr t" using u(4) by (simp add: sqlite_token_def)
  moreover have "map_of ?cs ''exp'' = Some (JNumber (of_int (unix_seconds (me_clock env 1 + 24 * hour))))" by simp
  ultimately have "mj_parse lib (me_clock env' 0) secret t =
      (if me_clock env' 0 < unix_seconds (me_clock env 1 + 24 * hour) * second then Inr ?cs
       else Inl ''token has invalid claims: token is expired'')"
    using assms(2) unfolding map_jwt_ok_def by blast
  moreover have "select_by mu_id (mu_id u) us' = Some u" using simple_user_ids.insert_lookup [OF u(2)] u(1) by simp
  ultimately show ?thesis
    using assms(3,4) u(3) by (simp add: sqlite_profile_def profile_user_def bearer_text_def)
qed

text \<open>Any user's profile is shown to whoever names the user in a header: no token is looked at, in neither server.\<close>

theorem profile_of_anybody:
  assumes "select_by mu_id i us = Some u" "i \<noteq> []" "\<not> me_fail env 0"
  shows "sqlite_profile lib secret env i auth us = AuthProfile (view_of u) \<and> pg_profile env i us = AuthProfile (view_of u)"
  using assms by (simp add: sqlite_profile_def profile_user_def pg_profile_def)

text \<open>When the token of a registration cannot be made the user was stored all the same: the registration is answered as failed, and its
  repetition as one of an existing user.\<close>

theorem failed_token_keeps_user:
  assumes "sqlite_register lib secret bc env (Some (email, p, name)) us = (AuthRefused 500 ''Failed to generate token'', us')" "\<not> me_fail env' 0"
  shows "fst (sqlite_register lib secret bc env' (Some (email, p, name)) us') = AuthRefused 409 ''User already exists''"
proof -
  obtain u where u: "us' = us @ [u]" "mu_email u = email" "email \<noteq> []" "p \<noteq> []" "name \<noteq> []"
    using assms(1) by (auto simp: sqlite_register_def Let_def split: if_splits sum.splits option.splits)
  have "select_by mu_email email us' \<noteq> None" unfolding select_by_None using u by simp
  then show ?thesis using u assms(2) by (auto simp: sqlite_register_def)
qed

text \<open>The server over PostgreSQL registers a user without an address, a name or a password, and logs him in.\<close>

theorem empty_user_registers:
  assumes "select_by mu_email [] us = None" "\<not> me_fail env 0" "\<not> me_fail env 1" "me_fresh env \<notin> mu_id ` set us"
    "length (bc_hash bc (me_salt env) []) \<le> 255" "\<And>cs. \<exists>tok. mj_sign lib secret cs = Inr tok" "bcrypt_ok bc" "\<not> me_fail env' 0"
  shows "\<exists>t v t' us'. pg_register lib secret bc env (Some ([], [], [])) us = (AuthGranted 200 t v, us')
    \<and> pg_login lib secret bc env' (Some ([], [])) us' = AuthGranted 200 t' v"
proof -
  define u where "u = \<lparr>mu_id = me_fresh env, mu_email = [], mu_hash = bc_hash bc (me_salt env) [], mu_name = [], mu_avatar = None, mu_balance = 0,
    mu_verified = 0\<rparr>"
  have a: "accepts_simple_user us u" using assms(1,4) by (simp add: accepts_simple_user_def u_def select_by_None)
  obtain t t' where t: "pg_token lib secret (me_clock env 0) (me_fresh env) = Inr t" "pg_token lib secret (me_clock env' 0) (me_fresh env) = Inr t'"
    using assms(6) by (metis pg_token_def)
  have "pg_register lib secret bc env (Some ([], [], [])) us = (AuthGranted 200 t (view_of u), us @ [u])"
    using assms(1-5) a t(1) by (simp add: pg_register_def simple_hash_def Let_def flip: u_def) (simp add: u_def)
  moreover have "select_by mu_email [] (us @ [u]) = Some u" using simple_users.insert_lookup [OF a] by (simp add: u_def)
  then have "pg_login lib secret bc env' (Some ([], [])) (us @ [u]) = AuthGranted 200 t' (view_of u)"
    using assms(7,8) t(2) by (simp add: pg_login_def bcrypt_ok_def) (simp add: u_def)
  ultimately show ?thesis by blast
qed

end
