(* ===== verification/ProviderWorker.thy ===== *)
theory ProviderWorker
  imports GoPath Decimal
begin

text \<open>
  The stand-alone provider (\<open>cmd/provider/main.go\<close>): what one of its workers does with a task, from the workspace to the end of the billing
  session, its metering, its GPUs and its heartbeat, and the environment's defaults. A panic of a goroutine ends the program. What the machine and the other services answer is an environment; what is done to them
  is the list of effects. The goroutine that meters a task and the one that reads a container's log run beside the worker: the first is
  \<open>send_worker_usage\<close>, of the second only what it has read when the container ends, or that it panics. Floating point numbers are rationals.
\<close>

section \<open>Tasks\<close>

record volume_mount =
  vm_source :: string
  vm_target :: string
  vm_read_only :: bool
  vm_type :: string

record file_transfer =
  ft_url :: string
  ft_path :: string
  ft_checksum :: string
  ft_compression :: string
  ft_headers :: "(string \<times> string) list"

text \<open>Of a task everything that is read.\<close>

record worker_task =
  wt_job_id :: string
  wt_user_id :: string
  wt_session_id :: uuid
  wt_execution_type :: string
  wt_docker_image :: string
  wt_docker_command :: "string list"
  wt_docker_environment :: "(string \<times> string) list"
  wt_docker_volumes :: "volume_mount list"
  wt_gpu_access :: bool
  wt_script :: string
  wt_script_language :: string
  wt_script_environment :: "(string \<times> string) list"
  wt_gpu_model :: string
  wt_gpu_memory :: nat
  wt_max_minutes :: int
  wt_input_files :: "file_transfer list"
  wt_output_files :: "file_transfer list"
  wt_cleanup :: bool
  wt_max_cost :: rat

record provider_gpu =
  vg_model :: string
  vg_vram :: nat
  vg_driver :: string
  vg_compute :: string
  vg_power :: nat
  vg_healthy :: bool
  vg_available :: bool
  vg_checked :: time

datatype worker_status =
  JobReceived | JobValidating | JobStarting | JobRunning | JobCompleted | JobFailed | JobCanceled | JobTimedOut

definition worker_status_text :: "worker_status \<Rightarrow> string" where
  "worker_status_text s = (case s of
      JobReceived \<Rightarrow> ''received'' | JobValidating \<Rightarrow> ''validating'' | JobStarting \<Rightarrow> ''starting'' | JobRunning \<Rightarrow> ''running''
    | JobCompleted \<Rightarrow> ''completed'' | JobFailed \<Rightarrow> ''failed'' | JobCanceled \<Rightarrow> ''canceled'' | JobTimedOut \<Rightarrow> ''timeout'')"

text \<open>The session of the billing service: its identifier and what it has cost.\<close>

record active_job =
  aj_task :: worker_task
  aj_workspace :: string
  aj_status :: worker_status
  aj_progress :: rat
  aj_billing :: "(uuid \<times> rat) option"
  aj_container :: string
  aj_stdout :: string
  aj_stderr :: string
  aj_errors :: "(string \<times> string) list"

section \<open>The world around a worker\<close>

record worker_session_request =
  wq_user_id :: string
  wq_provider_id :: uuid
  wq_job_id :: string
  wq_session_id :: uuid
  wq_gpu_model :: string
  wq_vram :: nat
  wq_power :: nat
  wq_max_cost :: rat

record worker_container =
  wc_image :: string
  wc_command :: "string list"
  wc_environment :: "string list"
  wc_binds :: "string list"
  wc_memory :: int
  wc_nano_cpus :: int
  wc_all_gpus :: bool

text \<open>How the wait for a container ends, and how a process does.\<close>

datatype container_end = ContainerExited int | WaitError string | WaitClosed | WaitCancelled

datatype script_end = ScriptFinished | ScriptExited int | ScriptNotRun string

record container_service =
  cs_pull :: "string \<Rightarrow> string option"
  cs_create :: "worker_container \<Rightarrow> string + string"
  cs_start :: "string \<Rightarrow> string option"
  cs_wait :: "string \<Rightarrow> duration \<Rightarrow> container_end"
  cs_log :: "string \<Rightarrow> string list"

record worker_update =
  wu_job_id :: string
  wu_provider_id :: string
  wu_session_id :: uuid
  wu_status :: worker_status
  wu_progress :: rat
  wu_stage :: string
  wu_message :: string
  wu_error :: string
  wu_cost :: rat

record worker_env =
  we_billing_url :: string
  we_provider_id :: uuid
  we_workspace :: string
  we_connected :: bool
  we_publish :: "worker_update \<Rightarrow> bool"
  we_gpus :: "provider_gpu list"
  we_mkdir :: "string \<Rightarrow> string option"
  we_bad_url :: "string \<Rightarrow> string option"
  we_start :: "string \<Rightarrow> worker_session_request \<Rightarrow> string + nat \<times> string \<times> (uuid \<times> rat) option"
  we_end :: "string \<Rightarrow> string + nat"
  we_fetch :: "string \<Rightarrow> (string \<times> string) list \<Rightarrow> string + nat \<times> string \<times> string option"
  we_create :: "string \<Rightarrow> string option"
  we_missing :: "string \<Rightarrow> bool"
  we_open :: "string \<Rightarrow> string + string"
  we_put :: "string \<Rightarrow> (string \<times> string) list \<Rightarrow> string \<Rightarrow> string + nat"
  we_docker :: "container_service option"
  we_memory_mb :: u64
  we_cpus :: int
  we_interpreter :: "string \<Rightarrow> bool"
  we_write :: "string \<Rightarrow> string \<Rightarrow> string option"
  we_run :: "string \<Rightarrow> string \<Rightarrow> string \<Rightarrow> (string \<times> string) list \<Rightarrow> duration \<Rightarrow> script_end \<times> string \<times> string"

datatype worker_effect =
    StatusSent worker_update
  | WorkspaceMade string
  | WorkspaceRemoved string
  | SessionRequested string worker_session_request
  | SessionEnded string
  | FileFetched string string
  | FileSent string string
  | ContainerRun worker_container
  | ContainerGone string
  | ScriptRun string string string

section \<open>Status and billing\<close>

text \<open>Without a connection to the queue nothing is sent, and nothing of a status that cannot be written as JSON or that the connection does not
  take (\<open>we_publish\<close> is false); neither is reported.\<close>

definition status_update_of :: "worker_env \<Rightarrow> active_job \<Rightarrow> string \<Rightarrow> string \<Rightarrow> worker_update" where
  "status_update_of env j m e =
     \<lparr>wu_job_id = wt_job_id (aj_task j), wu_provider_id = uuid_text (we_provider_id env), wu_session_id = wt_session_id (aj_task j),
      wu_status = aj_status j, wu_progress = aj_progress j, wu_stage = worker_status_text (aj_status j), wu_message = m, wu_error = e,
      wu_cost = (case aj_billing j of None \<Rightarrow> 0 | Some (i, c) \<Rightarrow> c)\<rparr>"

definition publish_task_status :: "worker_env \<Rightarrow> active_job \<Rightarrow> string \<Rightarrow> string \<Rightarrow> worker_effect list" where
  "publish_task_status env j m e =
     (let u = status_update_of env j m e in if we_connected env \<and> we_publish env u then [StatusSent u] else [])"

definition suits_task :: "worker_task \<Rightarrow> provider_gpu \<Rightarrow> bool" where
  "suits_task t g \<longleftrightarrow> vg_available g \<and> vg_healthy g
     \<and> (wt_gpu_model t = [] \<or> str_contains (to_lower (vg_model g)) (to_lower (wt_gpu_model t))) \<and> wt_gpu_memory t \<le> vg_vram g"

definition worker_start_path :: string where
  "worker_start_path = ''/api/v1/billing/sessions/start''"

definition start_billing_session :: "worker_env \<Rightarrow> active_job \<Rightarrow> (string + active_job) \<times> worker_effect list" where
  "start_billing_session env j =
     (if we_billing_url env = [] then (Inr j, [])
      else (case find (suits_task (aj_task j)) (we_gpus env) of
              None \<Rightarrow> (Inl ''no suitable GPU available for task requirements'', [])
            | Some g \<Rightarrow>
                (let t = aj_task j; url = we_billing_url env @ worker_start_path;
                     q = \<lparr>wq_user_id = wt_user_id t, wq_provider_id = we_provider_id env, wq_job_id = wt_job_id t, wq_session_id = wt_session_id t,
                          wq_gpu_model = vg_model g, wq_vram = wt_gpu_memory t, wq_power = vg_power g, wq_max_cost = wt_max_cost t\<rparr>
                 in (case we_start env url q of
                       Inl e \<Rightarrow> Inl (''failed to start billing session: '' @ e)
                     | Inr (n, body, r) \<Rightarrow>
                         if n \<noteq> 201 then Inl (''billing service returned status '' @ nat_text n @ '': '' @ body)
                         else (case r of None \<Rightarrow> Inl ''failed to decode billing response'' | Some s \<Rightarrow> Inr (j\<lparr>aj_billing := Some s\<rparr>)),
                     [SessionRequested url q]))))"

text \<open>An answer other than 200 is no error.\<close>

definition worker_end_url :: "worker_env \<Rightarrow> uuid \<Rightarrow> string" where
  "worker_end_url env i = we_billing_url env @ ''/api/v1/billing/sessions/'' @ uuid_text i @ ''/end''"

definition worker_end_session :: "worker_env \<Rightarrow> active_job \<Rightarrow> string option \<times> worker_effect list" where
  "worker_end_session env j =
     (case aj_billing j of
        None \<Rightarrow> (None, [])
      | Some (i, c) \<Rightarrow>
          (let url = worker_end_url env i in
           case we_bad_url env url of
             Some e \<Rightarrow> (Some (''failed to create billing end request: '' @ e), [])
           | None \<Rightarrow>
               (case we_end env url of Inl e \<Rightarrow> Some (''failed to end billing session: '' @ e) | Inr n \<Rightarrow> None, [SessionEnded url])))"

definition handle_task_error :: "worker_env \<Rightarrow> active_job \<Rightarrow> string \<Rightarrow> string \<Rightarrow> active_job \<times> worker_effect list" where
  "handle_task_error env j stage e =
     (let j = j\<lparr>aj_errors := aj_errors j @ [(stage, e)], aj_status := JobFailed\<rparr> in
      (j, publish_task_status env j (''Task failed at '' @ stage) e @ (if aj_billing j = None then [] else snd (worker_end_session env j))))"

section \<open>Files\<close>

definition path_dir :: "string \<Rightarrow> string" where
  "path_dir p = clean_path (rev (dropWhile (\<lambda>c. c \<noteq> CHR ''/'') (rev p)))"

definition download_file :: "worker_env \<Rightarrow> file_transfer \<Rightarrow> string \<Rightarrow> string option \<times> worker_effect list" where
  "download_file env f ws =
     (case we_bad_url env (ft_url f) of
        Some e \<Rightarrow> (Some (''failed to create request: '' @ e), [])
      | None \<Rightarrow>
          (case we_fetch env (ft_url f) (ft_headers f) of
             Inl e \<Rightarrow> (Some (''failed to download file: '' @ e), [])
           | Inr (n, content, broken) \<Rightarrow>
               if n \<noteq> 200 then (Some (''download failed with status '' @ nat_text n), [])
               else
                 (let p = path_join [ws, ft_path f] in
                  case we_mkdir env (path_dir p) of
                    Some e \<Rightarrow> (Some (''failed to create directory: '' @ e), [])
                  | None \<Rightarrow>
                      (case we_create env p of
                         Some e \<Rightarrow> (Some (''failed to create destination file: '' @ e), [])
                       | None \<Rightarrow>
                           (case broken of Some e \<Rightarrow> Some (''failed to write file: '' @ e) | None \<Rightarrow> None, [FileFetched p content])))))"

text \<open>The files from the \<open>i\<close>th on, of \<open>n\<close>.\<close>

fun download_each :: "worker_env \<Rightarrow> nat \<Rightarrow> nat \<Rightarrow> file_transfer list \<Rightarrow> active_job \<Rightarrow> (string + active_job) \<times> worker_effect list" where
  "download_each env i n [] j = (Inr j, [])"
| "download_each env i n (f # fs) j =
     (case download_file env f (aj_workspace j) of
        (Some e, es) \<Rightarrow> (Inl (''failed to download file '' @ ft_url f @ '': '' @ e), es)
      | (None, es) \<Rightarrow>
          (let j = j\<lparr>aj_progress := of_nat (i + 1) / of_nat n * (1 / 5)\<rparr>;
               ps = publish_task_status env j (''Downloaded '' @ nat_text (i + 1) @ ''/'' @ nat_text n @ '' input files'') []
           in (case download_each env (i + 1) n fs j of (r, fs) \<Rightarrow> (r, es @ ps @ fs))))"

definition download_input_files :: "worker_env \<Rightarrow> active_job \<Rightarrow> (string + active_job) \<times> worker_effect list" where
  "download_input_files env j =
     (let fs = wt_input_files (aj_task j) in
      if fs = [] then (Inr j, [])
      else (case download_each env 0 (length fs) fs j of (r, es) \<Rightarrow> (r, publish_task_status env j ''Downloading input files'' [] @ es)))"

definition upload_file :: "worker_env \<Rightarrow> file_transfer \<Rightarrow> string \<Rightarrow> string option \<times> worker_effect list" where
  "upload_file env f p =
     (case we_open env p of
        Inl e \<Rightarrow> (Some (''failed to open source file: '' @ e), [])
      | Inr content \<Rightarrow>
          (case we_bad_url env (ft_url f) of
             Some e \<Rightarrow> (Some (''failed to create upload request: '' @ e), [])
           | None \<Rightarrow>
               (case we_put env (ft_url f) (ft_headers f) content of
                  Inl e \<Rightarrow> Some (''failed to upload file: '' @ e)
                | Inr n \<Rightarrow> if n < 200 \<or> 300 \<le> n then Some (''upload failed with status '' @ nat_text n) else None,
                [FileSent (ft_url f) content])))"

text \<open>A missing file and a failed upload are passed over.\<close>

definition upload_output_files :: "worker_env \<Rightarrow> active_job \<Rightarrow> worker_effect list" where
  "upload_output_files env j =
     (let fs = wt_output_files (aj_task j) in
      if fs = [] then []
      else publish_task_status env j ''Uploading output files'' []
        @ concat (map (\<lambda>f. let p = path_join [aj_workspace j, ft_path f] in if we_missing env p then [] else snd (upload_file env f p)) fs))"

section \<open>Execution\<close>

text \<open>What a run hands back, which the worker does not look at.\<close>

record task_result =
  tr_success :: bool
  tr_exit_code :: int
  tr_output :: string
  tr_error :: string

text \<open>Every piece of a container's log is taken for one with a header of eight bytes: a shorter one panics.\<close>

fun read_log :: "string list \<Rightarrow> string option" where
  "read_log [] = Some []"
| "read_log (c # cs) =
     (if c = [] then read_log cs
      else if length c < 8 then None
      else map_option (\<lambda>s. drop 8 c @ s) (read_log cs))"

definition has_available_gpu :: "provider_gpu list \<Rightarrow> bool" where
  "has_available_gpu gs \<longleftrightarrow> (\<exists>g \<in> set gs. vg_available g \<and> vg_healthy g)"

definition map_to_slice :: "(string \<times> string) list \<Rightarrow> string list" where
  "map_to_slice m = map (\<lambda>(k, v). k @ ''='' @ v) m"

definition worker_container_of :: "worker_env \<Rightarrow> active_job \<Rightarrow> worker_container" where
  "worker_container_of env j =
     (let t = aj_task j in
      \<lparr>wc_image = wt_docker_image t, wc_command = wt_docker_command t, wc_environment = map_to_slice (wt_docker_environment t),
       wc_binds = (aj_workspace j @ '':/workspace'') # map (\<lambda>v. vm_source v @ '':'' @ vm_target v) (wt_docker_volumes t),
       wc_memory = sint (we_memory_mb env * 1024 * 1024), wc_nano_cpus = sint (of_int (we_cpus env * 1000000000) :: 64 word),
       wc_all_gpus = (wt_gpu_access t \<and> has_available_gpu (we_gpus env))\<rparr>)"

text \<open>The time a task is given, an int64 of nanoseconds.\<close>

definition task_deadline :: "worker_task \<Rightarrow> duration" where
  "task_deadline t = sint (of_int (wt_max_minutes t * minute) :: 64 word)"

datatype 'a run_outcome = RunPanics | RunEnds "string + 'a"

definition execute_docker_task :: "worker_env \<Rightarrow> active_job \<Rightarrow> task_result run_outcome \<times> active_job \<times> worker_effect list" where
  "execute_docker_task env j =
     (case we_docker env of
        None \<Rightarrow> (RunEnds (Inl ''Docker not available''), j, [])
      | Some cs \<Rightarrow>
          (let c = worker_container_of env j; pull = publish_task_status env j ''Pulling Docker image'' [] in
           case cs_pull cs (wc_image c) of
             Some e \<Rightarrow> (RunEnds (Inl (''failed to pull Docker image: '' @ e)), j, pull)
           | None \<Rightarrow>
               (case cs_create cs c of
                  Inl e \<Rightarrow> (RunEnds (Inl (''failed to create container: '' @ e)), j, pull)
                | Inr i \<Rightarrow>
                    (let j = j\<lparr>aj_container := i\<rparr> in
                     case cs_start cs i of
                       Some e \<Rightarrow> (RunEnds (Inl (''failed to start container: '' @ e)), j, pull @ [ContainerGone i])
                     | None \<Rightarrow>
                         (let started = pull @ [ContainerRun c] @ publish_task_status env j ''Container started'' [] in
                          case read_log (cs_log cs i) of
                            None \<Rightarrow> (RunPanics, j, started)
                          | Some out \<Rightarrow>
                              (let j = j\<lparr>aj_stdout := aj_stdout j @ out\<rparr> in
                               (RunEnds (case cs_wait cs i (task_deadline (aj_task j)) of
                                  ContainerExited n \<Rightarrow>
                                    Inr \<lparr>tr_success = (n = 0), tr_exit_code = n, tr_output = aj_stdout j, tr_error = (if n = 0 then [] else aj_stderr j)\<rparr>
                                | WaitError e \<Rightarrow> Inl (''container wait error: '' @ e)
                                | WaitClosed \<Rightarrow> Inl ''unexpected container execution end''
                                | WaitCancelled \<Rightarrow> Inl ''task execution timeout or cancelled''), j, started @ [ContainerGone i])))))))"

text \<open>The interpreter and the extension of a script.\<close>

definition script_language :: "worker_task \<Rightarrow> string \<times> string" where
  "script_language t =
     (if wt_execution_type t = ''python'' then (''python3'', ''.py'')
      else if wt_execution_type t = ''bash'' then (''bash'', ''.sh'')
      else (let l = to_lower (wt_script_language t) in
            if l = ''python'' \<or> l = ''python3'' then (''python3'', ''.py'')
            else if l = ''bash'' \<or> l = ''shell'' \<or> l = ''sh'' then (''bash'', ''.sh'')
            else if l = ''node'' \<or> l = ''nodejs'' \<or> l = ''javascript'' then (''node'', ''.js'')
            else if l = ''ruby'' then (''ruby'', ''.rb'')
            else (''bash'', ''.sh'')))"

definition execute_script_task :: "worker_env \<Rightarrow> active_job \<Rightarrow> task_result run_outcome \<times> active_job \<times> worker_effect list" where
  "execute_script_task env j =
     (let t = aj_task j in
      if wt_script t = [] then (RunEnds (Inl ''no script provided''), j, [])
      else
        (let (interp, ext) = script_language t; p = path_join [aj_workspace j, ''script'' @ ext] in
         if \<not> we_interpreter env interp then (RunEnds (Inl (''interpreter '' @ interp @ '' not found'')), j, [])
         else (case we_write env p (wt_script t) of
                 Some e \<Rightarrow> (RunEnds (Inl (''failed to write script file: '' @ e)), j, [])
               | None \<Rightarrow>
                   (case we_run env interp p (aj_workspace j) (wt_script_environment t) (task_deadline t) of
                      (pe, out, err) \<Rightarrow>
                        (RunEnds (Inr \<lparr>tr_success = (pe = ScriptFinished),
                                       tr_exit_code = (case pe of ScriptFinished \<Rightarrow> 0 | ScriptExited n \<Rightarrow> n | ScriptNotRun e \<Rightarrow> 1),
                                       tr_output = out, tr_error = err\<rparr>),
                         j\<lparr>aj_stdout := aj_stdout j @ out, aj_stderr := aj_stderr j @ err\<rparr>,
                         publish_task_status env j ''Starting script execution'' [] @ [ScriptRun interp p (wt_script t)])))))"

definition execute_by_type :: "worker_env \<Rightarrow> active_job \<Rightarrow> task_result run_outcome \<times> active_job \<times> worker_effect list" where
  "execute_by_type env j =
     (if wt_execution_type (aj_task j) = ''docker'' then execute_docker_task env j
      else if wt_execution_type (aj_task j) = ''script'' then execute_script_task env j
      else (RunEnds (Inl (''unsupported execution type: '' @ wt_execution_type (aj_task j))), j, []))"

section \<open>A whole task\<close>

datatype worker_outcome = ProviderEnds | TaskEnds active_job

definition new_active_job :: "worker_task \<Rightarrow> active_job" where
  "new_active_job t =
     \<lparr>aj_task = t, aj_workspace = [], aj_status = JobStarting, aj_progress = 0, aj_billing = None, aj_container = [], aj_stdout = [],
      aj_stderr = [], aj_errors = []\<rparr>"

definition job_workspace :: "worker_env \<Rightarrow> worker_task \<Rightarrow> string" where
  "job_workspace env t = path_join [we_workspace env, wt_job_id t]"

text \<open>What follows a successful execution.\<close>

definition finish_task :: "worker_env \<Rightarrow> active_job \<Rightarrow> active_job \<times> worker_effect list" where
  "finish_task env j =
     (let j' = j\<lparr>aj_status := JobCompleted, aj_progress := 1\<rparr> in
      (j', upload_output_files env j @ publish_task_status env j' ''Task completed successfully'' [] @ snd (worker_end_session env j')
        @ (if wt_cleanup (aj_task j) then [WorkspaceRemoved (job_workspace env (aj_task j))] else [])))"

text \<open>What follows the files.\<close>

definition run_active_job :: "worker_env \<Rightarrow> active_job \<Rightarrow> worker_outcome \<times> worker_effect list" where
  "run_active_job env j =
     (let j = j\<lparr>aj_status := JobRunning\<rparr>; es = publish_task_status env j ''Task execution started'' [] in
      case execute_by_type env j of
        (RunPanics, j, fs) \<Rightarrow> (ProviderEnds, es @ fs)
      | (RunEnds (Inl e), j, fs) \<Rightarrow> (case handle_task_error env j ''execution'' e of (j, gs) \<Rightarrow> (TaskEnds j, es @ fs @ gs))
      | (RunEnds (Inr r), j, fs) \<Rightarrow> (case finish_task env j of (j, gs) \<Rightarrow> (TaskEnds j, es @ fs @ gs)))"

definition worker_task_run :: "worker_env \<Rightarrow> worker_task \<Rightarrow> worker_outcome \<times> worker_effect list" where
  "worker_task_run env t =
     (let j = new_active_job t; ws = job_workspace env t;
          failed = (\<lambda>j stage e es. case handle_task_error env j stage e of (j, fs) \<Rightarrow> (TaskEnds j, es @ fs))
      in case we_mkdir env ws of
           Some e \<Rightarrow> failed j ''workspace_creation'' e []
         | None \<Rightarrow>
             (let j = j\<lparr>aj_workspace := ws\<rparr> in
              case start_billing_session env j of
                (Inl e, es) \<Rightarrow> failed j ''billing_start'' e (WorkspaceMade ws # es)
              | (Inr j, es) \<Rightarrow>
                  (case download_input_files env j of
                     (Inl e, fs) \<Rightarrow> failed j ''input_download'' e (WorkspaceMade ws # es @ fs)
                   | (Inr j, fs) \<Rightarrow> (case run_active_job env j of (r, gs) \<Rightarrow> (r, WorkspaceMade ws # es @ fs @ gs)))))"

section \<open>Metering\<close>

text \<open>
  \<open>strconv.ParseUint\<close> whose error is not looked at: zero for a text that is no number, the largest number as soon as the digits so far
  exceed it.
\<close>

fun uint_prefix :: "nat \<Rightarrow> nat \<Rightarrow> string \<Rightarrow> nat" where
  "uint_prefix most n [] = n"
| "uint_prefix most n (c # cs) =
     (case digit_value c of None \<Rightarrow> 0
      | Some d \<Rightarrow> if most < 10 * n + nat d then most else uint_prefix most (10 * n + nat d) cs)"

definition uint_despite_error :: "nat \<Rightarrow> string \<Rightarrow> nat" where
  "uint_despite_error bits s = uint_prefix (2 ^ bits - 1) 0 s"

record card_reading =
  gr_index :: int
  gr_uuid :: string
  gr_name :: string
  gr_util :: nat
  gr_util_memory :: nat
  gr_memory_total :: nat
  gr_memory_used :: nat
  gr_memory_free :: nat
  gr_temperature :: nat
  gr_power :: nat
  gr_clock_core :: nat
  gr_clock_memory :: nat
  gr_fan :: nat

definition reading_line :: "string \<Rightarrow> card_reading option" where
  "reading_line line =
     (if trim_space line = [] then None
      else (case map trim_space (split_char CHR '','' line) of
              f0 # f1 # f2 # f3 # f4 # f5 # f6 # f7 # f8 # f9 # f10 # f11 # f12 # rest \<Rightarrow>
                Some \<lparr>gr_index = int_despite_error f0, gr_uuid = f1, gr_name = f2, gr_util = uint_despite_error 8 f3,
                      gr_util_memory = uint_despite_error 8 f4, gr_memory_total = uint_despite_error 64 f5,
                      gr_memory_used = uint_despite_error 64 f6, gr_memory_free = uint_despite_error 64 f7,
                      gr_temperature = uint_despite_error 8 f8, gr_power = uint_despite_error 32 f9,
                      gr_clock_core = uint_despite_error 32 f10, gr_clock_memory = uint_despite_error 32 f11, gr_fan = uint_despite_error 8 f12\<rparr>
            | _ \<Rightarrow> None))"

text \<open>\<open>output\<close>: what the command prints, when it is there and succeeds.\<close>

definition collect_readings :: "string option \<Rightarrow> card_reading list" where
  "collect_readings output =
     (case output of None \<Rightarrow> [] | Some t \<Rightarrow> List.map_filter reading_line (split_char (CHR 0x0A) (trim_space t)))"

record worker_usage =
  wv_session_id :: uuid
  wv_job_id :: string
  wv_util :: nat
  wv_util_memory :: nat
  wv_power :: nat
  wv_temperature :: nat
  wv_energy :: decimal

text \<open>\<open>hours\<close>: the interval of the metering as a decimal.\<close>

definition energy_used :: "decimal \<Rightarrow> card_reading list \<Rightarrow> decimal" where
  "energy_used hours rs = (if rs = [] then 0 else div16 (of_nat (sum_list (map gr_power rs)) * hours) 1000)"

definition worker_usage_of :: "decimal \<Rightarrow> uuid \<Rightarrow> string \<Rightarrow> card_reading list \<Rightarrow> worker_usage" where
  "worker_usage_of hours i job rs =
     (let u = \<lparr>wv_session_id = i, wv_job_id = job, wv_util = 0, wv_util_memory = 0, wv_power = 0, wv_temperature = 0, wv_energy = energy_used hours rs\<rparr>
      in case rs of [] \<Rightarrow> u
         | r # _ \<Rightarrow> u\<lparr>wv_util := gr_util r, wv_util_memory := gr_util_memory r, wv_power := gr_power r, wv_temperature := gr_temperature r\<rparr>)"

definition send_worker_usage :: "worker_env \<Rightarrow> decimal \<Rightarrow> active_job \<Rightarrow> card_reading list \<Rightarrow> (string \<times> worker_usage) option" where
  "send_worker_usage env hours j rs =
     (case aj_billing j of
        None \<Rightarrow> None
      | Some (i, c) \<Rightarrow>
          if we_billing_url env = [] then None
          else Some (we_billing_url env @ ''/api/v1/billing/sessions/'' @ uuid_text i @ ''/usage'',
                     worker_usage_of hours i (wt_job_id (aj_task j)) rs))"

section \<open>GPUs\<close>

definition estimate_power :: "string \<Rightarrow> nat" where
  "estimate_power name =
     (let has = str_contains (to_lower name) in
      if has ''rtx 4090'' then 450 else if has ''rtx 4080'' then 320 else if has ''rtx 4070'' then 200
      else if has ''rtx 3090'' then 350 else if has ''rtx 3080'' then 320 else if has ''rtx 3070'' then 220
      else if has ''a100'' then 400 else if has ''h100'' then 700 else if has ''v100'' then 300
      else if has ''6900 xt'' then 300 else if has ''6800 xt'' then 250
      else if has ''m3 ultra'' then 100 else if has ''m3 max'' then 70 else if has ''m2 ultra'' then 100 else if has ''m1 ultra'' then 90
      else 150)"

definition found_gpu :: "time \<Rightarrow> string \<Rightarrow> nat \<Rightarrow> string \<Rightarrow> string \<Rightarrow> provider_gpu" where
  "found_gpu now m v d c =
     \<lparr>vg_model = m, vg_vram = v, vg_driver = d, vg_compute = c, vg_power = 0, vg_healthy = True, vg_available = True, vg_checked = now\<rparr>"

definition nvidia_gpu_line :: "time \<Rightarrow> string \<Rightarrow> provider_gpu option" where
  "nvidia_gpu_line now line =
     (if trim_space line = [] then None
      else (case map trim_space (split_char CHR '','' line) of
              f0 # f1 # f2 # f3 # f4 # rest \<Rightarrow> Some (found_gpu now f1 (case parse_uint 64 f2 of None \<Rightarrow> 0 | Some n \<Rightarrow> n) f3 f4)
            | _ \<Rightarrow> None))"

text \<open>\<open>vendors\<close>: the vendor files of the cards that can be read.\<close>

definition vendor_gpus :: "time \<Rightarrow> string \<Rightarrow> string \<Rightarrow> nat \<Rightarrow> string list \<Rightarrow> provider_gpu list" where
  "vendor_gpus now vendor name vram vendors = map (\<lambda>v. found_gpu now name vram [] []) (filter (\<lambda>v. trim_space v = vendor) vendors)"

record gpu_machine =
  gmx_nvidia :: "string option"
  gmx_linux :: bool
  gmx_darwin :: bool
  gmx_intel_tool :: bool
  gmx_vendors :: "string list"
  gmx_displays :: "string option"

definition detect_nvidia_gpus :: "time \<Rightarrow> gpu_machine \<Rightarrow> provider_gpu list" where
  "detect_nvidia_gpus now m =
     (case gmx_nvidia m of None \<Rightarrow> [] | Some t \<Rightarrow> List.map_filter (nvidia_gpu_line now) (split_char (CHR 0x0A) (trim_space t)))"

definition detect_amd_gpus :: "time \<Rightarrow> gpu_machine \<Rightarrow> provider_gpu list" where
  "detect_amd_gpus now m = (if gmx_linux m then vendor_gpus now ''0x1002'' ''AMD GPU'' 8192 (gmx_vendors m) else [])"

definition detect_intel_gpus :: "time \<Rightarrow> gpu_machine \<Rightarrow> provider_gpu list" where
  "detect_intel_gpus now m =
     (if gmx_intel_tool m \<and> gmx_linux m then vendor_gpus now ''0x8086'' ''Intel GPU'' 4096 (gmx_vendors m) else [])"

definition detect_apple_gpus :: "time \<Rightarrow> gpu_machine \<Rightarrow> provider_gpu list" where
  "detect_apple_gpus now m =
     (if gmx_darwin m then (case gmx_displays m of
        Some t \<Rightarrow> if str_contains t ''Apple'' then [found_gpu now ''Apple Silicon GPU'' 8192 [] []] else [] | None \<Rightarrow> []) else [])"

definition detect_provider_gpus :: "time \<Rightarrow> gpu_machine \<Rightarrow> string + provider_gpu list" where
  "detect_provider_gpus now m =
     (let gs = detect_nvidia_gpus now m @ detect_amd_gpus now m @ detect_intel_gpus now m @ detect_apple_gpus now m
      in if gs = [] then Inl ''no GPUs detected'' else Inr gs)"

section \<open>Heartbeat\<close>

text \<open>The error, and the GPUs as they are kept and sent; \<open>post\<close> is the registry's answer.\<close>

definition heartbeat_gpus :: "time \<Rightarrow> provider_gpu list \<Rightarrow> provider_gpu list" where
  "heartbeat_gpus now gs = map (\<lambda>g. g\<lparr>vg_available := True, vg_checked := now\<rparr>) gs"

definition send_provider_heartbeat ::
    "(string \<Rightarrow> string option) \<Rightarrow> (string \<Rightarrow> provider_gpu list \<Rightarrow> string + nat) \<Rightarrow> string \<Rightarrow> uuid \<Rightarrow> time \<Rightarrow> provider_gpu list
     \<Rightarrow> string option \<times> provider_gpu list" where
  "send_provider_heartbeat bad_url post base i now gs =
     (let gs = heartbeat_gpus now gs; url = base @ ''/api/v1/providers/'' @ uuid_text i @ ''/heartbeat'' in
      (case bad_url url of
         Some e \<Rightarrow> Some (''failed to create heartbeat request: '' @ e)
       | None \<Rightarrow>
           (case post url gs of
              Inl e \<Rightarrow> Some (''failed to send heartbeat: '' @ e)
            | Inr n \<Rightarrow> if n \<noteq> 200 then Some (''heartbeat failed with status: '' @ nat_text n) else None), gs))"

definition health_checked_gpus :: "time \<Rightarrow> provider_gpu list \<Rightarrow> provider_gpu list" where
  "health_checked_gpus now gs = map (\<lambda>g. g\<lparr>vg_healthy := True, vg_checked := now\<rparr>) gs"

section \<open>Defaults\<close>

text \<open>\<open>getenv\<close>: an environment variable, empty when it is not set.\<close>

definition getenv_default :: "(string \<Rightarrow> string) \<Rightarrow> string \<Rightarrow> string \<Rightarrow> string" where
  "getenv_default getenv k d = (if getenv k \<noteq> [] then getenv k else d)"

definition getenv_int_default :: "(string \<Rightarrow> string) \<Rightarrow> string \<Rightarrow> int \<Rightarrow> int" where
  "getenv_int_default getenv k d = (if getenv k \<noteq> [] then (case atoi (getenv k) of Some n \<Rightarrow> n | None \<Rightarrow> d) else d)"

definition parse_bool :: "string \<Rightarrow> bool option" where
  "parse_bool s =
     (if s \<in> {''1'', ''t'', ''T'', ''TRUE'', ''true'', ''True''} then Some True
      else if s \<in> {''0'', ''f'', ''F'', ''FALSE'', ''false'', ''False''} then Some False else None)"

definition getenv_bool_default :: "(string \<Rightarrow> string) \<Rightarrow> string \<Rightarrow> bool \<Rightarrow> bool" where
  "getenv_bool_default getenv k d = (if getenv k \<noteq> [] then (case parse_bool (getenv k) of Some b \<Rightarrow> b | None \<Rightarrow> d) else d)"

definition location_from_environment :: "(string \<Rightarrow> string) \<Rightarrow> string option \<Rightarrow> string" where
  "location_from_environment getenv host =
     (if getenv ''PROVIDER_LOCATION'' \<noteq> [] then getenv ''PROVIDER_LOCATION''
      else if getenv ''AWS_REGION'' \<noteq> [] then ''aws-'' @ getenv ''AWS_REGION''
      else if getenv ''GCP_ZONE'' \<noteq> [] then ''gcp-'' @ getenv ''GCP_ZONE''
      else if getenv ''AZURE_REGION'' \<noteq> [] then ''azure-'' @ getenv ''AZURE_REGION''
      else (case host of Some h \<Rightarrow> h | None \<Rightarrow> ''unknown''))"

end
