(* ===== verification/ProviderFacts.thy ===== *)
theory ProviderFacts
  imports ProviderWorker
begin

text \<open>
  What the stand-alone provider's tasks come to: the status a task ends with, its billing session, its log, its workspace and its metering.
\<close>

section \<open>The parts of a task\<close>

definition session_ends :: "worker_effect list \<Rightarrow> string list" where
  "session_ends es = List.map_filter (\<lambda>e. case e of SessionEnded u \<Rightarrow> Some u | _ \<Rightarrow> None) es"

definition final_statuses :: "worker_effect list \<Rightarrow> worker_update list" where
  "final_statuses es = List.map_filter
     (\<lambda>e. case e of StatusSent u \<Rightarrow> if wu_status u \<in> {JobCompleted, JobFailed} then Some u else None | _ \<Rightarrow> None) es"

definition scripts_run :: "worker_effect list \<Rightarrow> string list" where
  "scripts_run es = List.map_filter (\<lambda>e. case e of ScriptRun i p s \<Rightarrow> Some s | _ \<Rightarrow> None) es"

lemmas effect_parts = session_ends_def final_statuses_def scripts_run_def List.map_filter_simps

lemma parts_append [simp]:
  "session_ends (xs @ ys) = session_ends xs @ session_ends ys"
  "final_statuses (xs @ ys) = final_statuses xs @ final_statuses ys"
  "scripts_run (xs @ ys) = scripts_run xs @ scripts_run ys"
  by (simp_all add: session_ends_def final_statuses_def scripts_run_def List.map_filter_def)

lemma parts_simps [simp]:
  "session_ends [] = []" "final_statuses [] = []" "scripts_run [] = []"
  "session_ends (e # es) = (case e of SessionEnded u \<Rightarrow> [u] | _ \<Rightarrow> []) @ session_ends es"
  "final_statuses (e # es) =
     (case e of StatusSent u \<Rightarrow> if wu_status u \<in> {JobCompleted, JobFailed} then [u] else [] | _ \<Rightarrow> []) @ final_statuses es"
  "scripts_run (e # es) = (case e of ScriptRun i p s \<Rightarrow> [s] | _ \<Rightarrow> []) @ scripts_run es"
  by (auto simp: effect_parts split: worker_effect.split)

lemma published_parts [simp]:
  "session_ends (publish_task_status env j m e) = []"
  "scripts_run (publish_task_status env j m e) = []"
  "final_statuses (publish_task_status env j m e) =
     (let u = status_update_of env j m e in
      if we_connected env \<and> we_publish env u \<and> aj_status j \<in> {JobCompleted, JobFailed} then [u] else [])"
  by (simp_all add: publish_task_status_def status_update_of_def Let_def)

text \<open>\<open>quiet es\<close>: neither a final status nor the end of a session is among them.\<close>

definition quiet :: "worker_effect list \<Rightarrow> bool" where
  "quiet es \<longleftrightarrow> session_ends es = [] \<and> final_statuses es = []"

lemma quiet_simps [simp]:
  "quiet []" "quiet (xs @ ys) \<longleftrightarrow> quiet xs \<and> quiet ys"
  by (auto simp: quiet_def)

lemma quiet_publish: "aj_status j \<notin> {JobCompleted, JobFailed} \<Longrightarrow> quiet (publish_task_status env j m e)"
  by (simp add: quiet_def Let_def)

lemma download_file_quiet: "quiet (snd (download_file env f ws)) \<and> scripts_run (snd (download_file env f ws)) = []"
  by (auto simp: download_file_def quiet_def Let_def split: option.split sum.split)

lemma upload_file_quiet: "quiet (snd (upload_file env f p)) \<and> scripts_run (snd (upload_file env f p)) = []"
  by (auto simp: upload_file_def quiet_def split: option.split sum.split)

lemma download_each_parts:
  "aj_status j \<notin> {JobCompleted, JobFailed} \<Longrightarrow>
   quiet (snd (download_each env i n fs j)) \<and> scripts_run (snd (download_each env i n fs j)) = []"
proof (induction fs arbitrary: i j)
  case (Cons f fs)
  obtain e ds where d: "download_file env f (aj_workspace j) = (e, ds)" by fastforce
  have ds: "quiet ds" "scripts_run ds = []" using download_file_quiet [of env f "aj_workspace j"] d by simp_all
  define j2 where "j2 = j\<lparr>aj_progress := of_nat (i + 1) / of_nat n * (1 / 5)\<rparr>"
  have st: "aj_status j2 \<notin> {JobCompleted, JobFailed}" using Cons.prems by (simp add: j2_def)
  obtain r2 es2 where rest: "download_each env (i + 1) n fs j2 = (r2, es2)" by fastforce
  have es2: "quiet es2" "scripts_run es2 = []" using Cons.IH [OF st, of "i + 1"] rest by simp_all
  show ?case
    using d ds es2 quiet_publish [OF st] rest by (cases e) (simp_all add: j2_def Let_def)
qed simp

lemma download_each_job: "fst (download_each env i n fs j) = Inr j' \<Longrightarrow> \<exists>p. j' = j\<lparr>aj_progress := p\<rparr>"
proof (induction fs arbitrary: i j)
  case Nil
  then show ?case by (auto intro: exI [of _ "aj_progress j"])
next
  case (Cons f fs)
  define j2 where "j2 = j\<lparr>aj_progress := of_nat (i + 1) / of_nat n * (1 / 5)\<rparr>"
  obtain r2 es2 where rest: "download_each env (i + 1) n fs j2 = (r2, es2)" by fastforce
  have "fst (download_each env (i + 1) n fs j2) = Inr j'"
    using Cons.prems rest by (simp add: j2_def Let_def split: prod.splits option.splits)
  then obtain p where "j' = j2\<lparr>aj_progress := p\<rparr>" using Cons.IH by blast
  then show ?case by (auto simp: j2_def)
qed

lemma download_input_parts:
  assumes "aj_status j \<notin> {JobCompleted, JobFailed}"
  shows "quiet (snd (download_input_files env j)) \<and> scripts_run (snd (download_input_files env j)) = []"
  using quiet_publish [OF assms] download_each_parts [OF assms, of env 0 "length (wt_input_files (aj_task j))" "wt_input_files (aj_task j)"]
  by (auto simp: download_input_files_def Let_def split: prod.split)

lemma download_input_job: "fst (download_input_files env j) = Inr j' \<Longrightarrow> \<exists>p. j' = j\<lparr>aj_progress := p\<rparr>"
  using download_each_job [of env 0 "length (wt_input_files (aj_task j))" "wt_input_files (aj_task j)" j j']
  by (auto simp: download_input_files_def Let_def split: prod.splits if_splits intro: exI [of _ "aj_progress j"])

lemma start_session_parts:
  "quiet (snd (start_billing_session env j)) \<and> scripts_run (snd (start_billing_session env j)) = []"
  by (auto simp: start_billing_session_def quiet_def Let_def split: option.split)

lemma start_session_job: "fst (start_billing_session env j) = Inr j' \<Longrightarrow> \<exists>b. j' = j\<lparr>aj_billing := b\<rparr>"
  by (auto simp: start_billing_session_def Let_def split: option.splits sum.splits if_splits prod.splits intro: exI [of _ "aj_billing j"])

lemma upload_output_parts:
  assumes "aj_status j \<notin> {JobCompleted, JobFailed}"
  shows "quiet (upload_output_files env j)"
proof -
  have "quiet (concat (map (\<lambda>f. let p = path_join [aj_workspace j, ft_path f] in if we_missing env p then [] else snd (upload_file env f p)) fs))"
    for fs :: "file_transfer list"
    using upload_file_quiet by (induction fs) (auto simp: Let_def)
  then show ?thesis using quiet_publish [OF assms] by (auto simp: upload_output_files_def Let_def)
qed

text \<open>An execution leaves of a job all but its container and its output.\<close>

lemma execute_script_parts:
  assumes "aj_status j \<notin> {JobCompleted, JobFailed}" "execute_script_task env j = (r, j', es)"
  shows "quiet es \<and> (\<exists>out err. j' = j\<lparr>aj_stdout := out, aj_stderr := err\<rparr>) \<and> (scripts_run es \<noteq> [] \<longrightarrow> (\<exists>x. r = RunEnds (Inr x)))"
proof -
  have [simp]: "quiet (publish_task_status env j m e)" for m e using quiet_publish [OF assms(1)] .
  have keep: "\<exists>out err. j = j\<lparr>aj_stdout := out, aj_stderr := err\<rparr>" by (rule exI [of _ "aj_stdout j"], rule exI [of _ "aj_stderr j"]) simp
  have [simp]: "quiet [ScriptRun i p s]" for i p s by (simp add: quiet_def)
  show ?thesis
    using assms(2) keep by (auto simp: execute_script_task_def Let_def split: prod.splits if_splits option.splits)
qed

lemma execute_docker_parts:
  assumes "aj_status j \<notin> {JobCompleted, JobFailed}" "execute_docker_task env j = (r, j', es)"
  shows "quiet es \<and> (\<exists>i out. j' = j\<lparr>aj_container := i, aj_stdout := out\<rparr>) \<and> scripts_run es = []"
proof -
  have pub: "\<forall>m e. quiet (publish_task_status env j m e)" using quiet_publish [OF assms(1)] by blast
  have [simp]: "quiet (publish_task_status env (j\<lparr>aj_container := i\<rparr>) m e)" for m e i
    using quiet_publish [of "j\<lparr>aj_container := i\<rparr>"] assms(1) by simp
  have keep: "\<exists>i out. j = j\<lparr>aj_container := i, aj_stdout := out\<rparr>" by (rule exI [of _ "aj_container j"], rule exI [of _ "aj_stdout j"]) simp
  have made: "\<exists>i' out. j\<lparr>aj_container := i\<rparr> = j\<lparr>aj_container := i', aj_stdout := out\<rparr>" for i
    by (rule exI [of _ i], rule exI [of _ "aj_stdout j"]) simp
  have [simp]: "quiet [ContainerGone i]" "quiet [ContainerRun c]" for i c by (simp_all add: quiet_def)
  have [simp]: "quiet (ContainerRun c # es)" if "quiet es" for c es using that by (simp add: quiet_def)
  show ?thesis
    using assms(2) keep made pub by (auto simp: execute_docker_task_def Let_def split: option.splits sum.splits)
qed

lemma execute_parts:
  assumes "aj_status j \<notin> {JobCompleted, JobFailed}" "execute_by_type env j = (r, j', es)"
  shows "quiet es" "aj_billing j' = aj_billing j" "aj_errors j' = aj_errors j" "aj_task j' = aj_task j"
    "aj_status j' = aj_status j" "scripts_run es \<noteq> [] \<longrightarrow> (\<exists>x. r = RunEnds (Inr x))"
  using assms execute_docker_parts [OF assms(1), of env r j' es] execute_script_parts [OF assms(1), of env r j' es]
  by (auto simp: execute_by_type_def split: if_splits)

text \<open>The end of a session, when it has begun and its address can be written.\<close>

definition session_end_of :: "worker_env \<Rightarrow> active_job \<Rightarrow> string list" where
  "session_end_of env j =
     (case aj_billing j of None \<Rightarrow> [] | Some (i, c) \<Rightarrow> if we_bad_url env (worker_end_url env i) = None then [worker_end_url env i] else [])"

lemma end_session_parts [simp]:
  "session_ends (snd (worker_end_session env j)) = session_end_of env j"
  "final_statuses (snd (worker_end_session env j)) = []"
  "scripts_run (snd (worker_end_session env j)) = []"
  by (auto simp: worker_end_session_def session_end_of_def Let_def split: option.split)

text \<open>The status a job ends with: what is sent of it says how it ended, and of a failed one the last error and its stage.\<close>

definition last_update :: "worker_env \<Rightarrow> active_job \<Rightarrow> worker_update" where
  "last_update env j =
     (if aj_errors j = [] then status_update_of env j ''Task completed successfully'' []
      else status_update_of env j (''Task failed at '' @ fst (last (aj_errors j))) (snd (last (aj_errors j))))"

definition last_sent :: "worker_env \<Rightarrow> active_job \<Rightarrow> worker_update list" where
  "last_sent env j = (if we_connected env \<and> we_publish env (last_update env j) then [last_update env j] else [])"

lemma error_parts:
  assumes "handle_task_error env j stage e = (j', es)"
  shows "session_ends es = session_end_of env j'" "final_statuses es = last_sent env j'"
    "aj_status j' = JobFailed" "scripts_run es = []" "aj_errors j' = aj_errors j @ [(stage, e)]"
  using assms by (auto simp: handle_task_error_def Let_def session_end_of_def last_sent_def last_update_def)

lemma finish_parts:
  assumes "finish_task env j = (j', es)" "aj_status j \<notin> {JobCompleted, JobFailed}" "aj_errors j = []"
  shows "session_ends es = session_end_of env j'" "final_statuses es = last_sent env j'"
    "aj_status j' = JobCompleted" "aj_errors j' = aj_errors j"
  using assms upload_output_parts [OF assms(2), of env] by (auto simp: finish_task_def Let_def quiet_def last_sent_def last_update_def)

section \<open>A whole task\<close>

text \<open>What holds of every task that ends, from what each of its ways to an end gives.\<close>

definition task_stages :: "string list" where
  "task_stages = [''workspace_creation'', ''billing_start'', ''input_download'', ''execution'']"

definition ended_well :: "worker_env \<Rightarrow> active_job \<Rightarrow> worker_effect list \<Rightarrow> bool" where
  "ended_well env j es \<longleftrightarrow>
     session_ends es = session_end_of env j \<and> final_statuses es = last_sent env j
     \<and> (aj_status j = JobCompleted \<and> aj_errors j = [] \<or> aj_status j = JobFailed \<and> (\<exists>stage \<in> set task_stages. \<exists>e. aj_errors j = [(stage, e)]))
     \<and> (scripts_run es \<noteq> [] \<longrightarrow> aj_errors j = [])"

lemma error_ends_well:
  assumes "handle_task_error env j stage e = (j', fs)" "quiet es" "scripts_run es = []" "aj_errors j = []" "stage \<in> set task_stages"
  shows "ended_well env j' (es @ fs)"
  using error_parts [OF assms(1)] assms(2-5) by (simp add: ended_well_def quiet_def)

lemma finish_ends_well:
  assumes "finish_task env j = (j', fs)" "aj_status j \<notin> {JobCompleted, JobFailed}" "aj_errors j = []" "quiet es"
  shows "ended_well env j' (es @ fs)"
  using finish_parts [OF assms(1-3)] assms(3,4) by (simp add: ended_well_def quiet_def)

lemma run_ends_well:
  assumes "run_active_job env j = (TaskEnds j', gs)" "aj_errors j = []" "quiet es" "scripts_run es = []"
  shows "ended_well env j' (es @ gs)"
proof -
  define k where "k = j\<lparr>aj_status := JobRunning\<rparr>"
  have k: "aj_status k \<notin> {JobCompleted, JobFailed}" by (simp add: k_def)
  obtain r k' fs where ex: "execute_by_type env k = (r, k', fs)" by (cases "execute_by_type env k") auto
  note parts = execute_parts [OF k ex]
  have before: "quiet (es @ publish_task_status env k ''Task execution started'' [] @ fs)"
    using quiet_publish [OF k] parts(1) assms(3) by simp
  have k': "aj_status k' \<notin> {JobCompleted, JobFailed}" "aj_errors k' = []" using parts k assms(2) by (simp_all add: k_def)
  note run = assms(1) [unfolded run_active_job_def Let_def, folded k_def, unfolded ex]
  show ?thesis
  proof (cases r)
    case RunPanics
    then show ?thesis using run by simp
  next
    case (RunEnds x)
    show ?thesis
    proof (cases x)
      case (Inl e)
      obtain hs where "handle_task_error env k' ''execution'' e = (j', hs)"
        "gs = publish_task_status env k ''Task execution started'' [] @ fs @ hs"
        using run RunEnds Inl by (auto split: prod.splits)
      moreover have "scripts_run (es @ publish_task_status env k ''Task execution started'' [] @ fs) = []"
        using parts(6) RunEnds Inl assms(4) by auto
      ultimately show ?thesis using error_ends_well [OF _ before _ k'(2)] by (fastforce simp: task_stages_def)
    next
      case (Inr y)
      obtain hs where "finish_task env k' = (j', hs)" "gs = publish_task_status env k ''Task execution started'' [] @ fs @ hs"
        using run RunEnds Inr by (auto split: prod.splits)
      then show ?thesis using finish_ends_well [OF _ k' before] by fastforce
    qed
  qed
qed

lemma task_ends_well:
  assumes "worker_task_run env t = (TaskEnds j', es)"
  shows "ended_well env j' es"
proof -
  define j0 where "j0 = (new_active_job t)\<lparr>aj_workspace := job_workspace env t\<rparr>"
  have j0: "aj_status j0 \<notin> {JobCompleted, JobFailed}" "aj_errors j0 = []" by (simp_all add: j0_def new_active_job_def)
  have made: "quiet (WorkspaceMade w # xs) \<longleftrightarrow> quiet xs" for w xs by (simp add: quiet_def)
  note run = assms [unfolded worker_task_run_def Let_def, folded j0_def]
  obtain r1 e1 where st: "start_billing_session env j0 = (r1, e1)" by fastforce
  have e1: "quiet e1" "scripts_run e1 = []" using start_session_parts [of env j0] st by simp_all
  show ?thesis
  proof (cases "we_mkdir env (job_workspace env t)")
    case (Some e)
    then show ?thesis using run error_ends_well [of env "new_active_job t" "''workspace_creation''" e j' _ "[]"]
      by (auto simp: task_stages_def new_active_job_def split: prod.splits)
  next
    case made_dir: None
    show ?thesis
    proof (cases r1)
      case (Inl e)
      obtain fs where "handle_task_error env j0 ''billing_start'' e = (j', fs)" "es = (WorkspaceMade (job_workspace env t) # e1) @ fs"
        using run made_dir st Inl by (auto split: prod.splits)
      then show ?thesis using error_ends_well [of env j0 _ e j' fs "WorkspaceMade (job_workspace env t) # e1"] e1 j0(2)
        by (simp add: made task_stages_def)
    next
      case (Inr j1)
      obtain b where j1: "j1 = j0\<lparr>aj_billing := b\<rparr>" using start_session_job [of env j0 j1] st Inr by auto
      have s1: "aj_status j1 \<notin> {JobCompleted, JobFailed}" "aj_errors j1 = []" using j0 by (simp_all add: j1)
      obtain r2 e2 where dl: "download_input_files env j1 = (r2, e2)" by fastforce
      let ?pre = "WorkspaceMade (job_workspace env t) # e1 @ e2"
      have pre: "quiet ?pre" "scripts_run ?pre = []" using download_input_parts [OF s1(1), of env] dl e1 by (simp_all add: made)
      show ?thesis
      proof (cases r2)
        case (Inl e)
        obtain fs where "handle_task_error env j1 ''input_download'' e = (j', fs)" "es = ?pre @ fs"
          using run made_dir st Inr dl Inl by (auto split: prod.splits)
        then show ?thesis using error_ends_well [OF _ pre s1(2)] by (simp add: task_stages_def)
      next
        case (Inr j2)
        obtain p where "j2 = j1\<lparr>aj_progress := p\<rparr>" using download_input_job [of env j1 j2] dl Inr by auto
        then have s2: "aj_errors j2 = []" using s1 by simp
        obtain gs where "run_active_job env j2 = (TaskEnds j', gs)" "es = ?pre @ gs"
          using run made_dir st \<open>r1 = Inr j1\<close> dl Inr by (auto split: prod.splits)
        then show ?thesis using run_ends_well [OF _ s2 pre] by simp
      qed
    qed
  qed
qed

text \<open>C39. A task that ends without ending the provider is completed and has no error, or failed with the error of exactly one stage: the
  workspace, the start of the billing session, the input files or the execution. A failed upload, a failed end of the session and however
  a started script ends are no error. It has asked once for the end of its billing session if it has one and the request can be made
  (the address parses), and never otherwise. Of its last status, which names the job, the status, the stage and the error, one message
  is sent if the provider is connected to the queue, which the program never is, and the message can be published; no other message says
  that the task completed or failed.\<close>

theorem provider_task_settles:
  assumes "worker_task_run env t = (TaskEnds j, es)"
  shows "(aj_status j = JobCompleted \<and> aj_errors j = []
      \<or> aj_status j = JobFailed \<and> (\<exists>stage e. aj_errors j = [(stage, e)]
          \<and> stage \<in> {''workspace_creation'', ''billing_start'', ''input_download'', ''execution''}))
    \<and> session_ends es =
        (case aj_billing j of
           None \<Rightarrow> []
         | Some (i, c) \<Rightarrow>
             let url = we_billing_url env @ ''/api/v1/billing/sessions/'' @ uuid_text i @ ''/end'' in if we_bad_url env url = None then [url] else [])
    \<and> final_statuses es =
        (let u = (case aj_errors j of
                    [] \<Rightarrow> status_update_of env j ''Task completed successfully'' []
                  | (stage, e) # _ \<Rightarrow> status_update_of env j (''Task failed at '' @ stage) e)
         in if we_connected env \<and> we_publish env u then [u] else [])"
proof -
  note w = task_ends_well [OF assms, unfolded ended_well_def]
  have ts: "{''workspace_creation'', ''billing_start'', ''input_download'', ''execution''} = set task_stages"
    by (simp only: task_stages_def list.set)
  have "session_end_of env j = (case aj_billing j of None \<Rightarrow> [] | Some (i, c) \<Rightarrow>
      let url = we_billing_url env @ ''/api/v1/billing/sessions/'' @ uuid_text i @ ''/end'' in if we_bad_url env url = None then [url] else [])"
    by (simp only: session_end_of_def worker_end_url_def Let_def)
  moreover have "last_sent env j = (let u = (case aj_errors j of
        [] \<Rightarrow> status_update_of env j ''Task completed successfully'' []
      | (stage, e) # _ \<Rightarrow> status_update_of env j (''Task failed at '' @ stage) e) in if we_connected env \<and> we_publish env u then [u] else [])"
    if "length (aj_errors j) \<le> 1"
    using that by (cases "aj_errors j") (simp_all only: last_sent_def last_update_def Let_def split: prod.split, auto)
  moreover have "length (aj_errors j) \<le> 1" using w by auto
  moreover have "aj_status j = JobCompleted \<and> aj_errors j = [] \<or> aj_status j = JobFailed \<and> (\<exists>stage e. aj_errors j = [(stage, e)]
      \<and> stage \<in> {''workspace_creation'', ''billing_start'', ''input_download'', ''execution''})"
    unfolding ts using w by blast
  ultimately show ?thesis using w by simp
qed

text \<open>A script that was started is reported as completed, however it ended: its result is thrown away.\<close>

theorem started_script_never_fails:
  assumes "worker_task_run env t = (TaskEnds j, es)" "scripts_run es \<noteq> []"
  shows "aj_status j = JobCompleted \<and> aj_errors j = []
    \<and> final_statuses es = (let u = status_update_of env j ''Task completed successfully'' [] in if we_connected env \<and> we_publish env u then [u] else [])"
  using task_ends_well [OF assms(1)] assms(2) by (auto simp: ended_well_def last_sent_def last_update_def Let_def)

section \<open>The log of a container\<close>

text \<open>A piece of one to seven bytes, and nothing else, makes the reader panic.\<close>

theorem log_panics_iff_short_piece:
  "read_log cs = None \<longleftrightarrow> (\<exists>c \<in> set cs. 0 < length c \<and> length c < 8)"
  by (induction cs rule: read_log.induct) auto

text \<open>What is read of pieces that hold eight bytes or more is what follows the eight in each: a piece without a header loses its start.\<close>

lemma read_log_long: "\<forall>c \<in> set cs. 8 \<le> length c \<Longrightarrow> read_log cs = Some (concat (map (drop 8) cs))"
  by (induction cs rule: read_log.induct) auto

text \<open>Such a piece ends the provider, with every task it runs; the container is left running.\<close>

theorem short_log_piece_ends_provider:
  assumes "we_docker env = Some cs" "cs_pull cs (wt_docker_image (aj_task j)) = None" "cs_create cs (worker_container_of env j) = Inr i"
    "cs_start cs i = None" "c \<in> set (cs_log cs i)" "0 < length c" "length c < 8" "wt_execution_type (aj_task j) = ''docker''"
  shows "\<exists>es. run_active_job env j = (ProviderEnds, es) \<and> session_ends es = [] \<and> ContainerGone i \<notin> set es"
proof -
  have "read_log (cs_log cs i) = None" using log_panics_iff_short_piece assms(5-7) by blast
  moreover have "worker_container_of env (j\<lparr>aj_status := s\<rparr>) = worker_container_of env j" for s by (simp add: worker_container_of_def Let_def)
  moreover have "wc_image (worker_container_of env j) = wt_docker_image (aj_task j)" by (simp add: worker_container_of_def Let_def)
  moreover have "ContainerGone i \<notin> set (publish_task_status env k m e)" for k m e by (simp add: publish_task_status_def Let_def)
  ultimately show ?thesis
    using assms(1-4,8) by (simp add: run_active_job_def execute_by_type_def execute_docker_task_def Let_def)
qed

section \<open>The container and the workspace\<close>

text \<open>A volume that was to be read only is mounted like any other.\<close>

theorem read_only_is_ignored:
  "worker_container_of env (j\<lparr>aj_task := (aj_task j)\<lparr>wt_docker_volumes := map (\<lambda>v. v\<lparr>vm_read_only := b\<rparr>) (wt_docker_volumes (aj_task j))\<rparr>\<rparr>)
   = worker_container_of env j"
  by (simp add: worker_container_of_def Let_def comp_def)

text \<open>A task without a job id works in, and then removes, the workspace of all tasks; one called \<open>..\<close> the directory that holds it.\<close>

lemma completed_cleanup:
  assumes "wt_cleanup (aj_task j)"
  shows "WorkspaceRemoved (job_workspace env (aj_task j)) \<in> set (snd (finish_task env j))"
  using assms by (simp add: finish_task_def Let_def)

lemma clean_absolute:
  assumes "\<forall>s \<in> set ss. CHR ''/'' \<notin> set s" "ss \<noteq> []"
  shows "clean_path (absolute ss) = absolute (clean_segments True [] ss)"
  using split_absolute [OF assms] by (simp add: clean_path_def Let_def absolute_def)

theorem cleanup_removes_all_workspaces:
  assumes "we_workspace env = absolute (dir @ [d])" "\<forall>s \<in> set (dir @ [d]). plain_segment s" "dir \<noteq> []" "wt_cleanup (aj_task j)"
    "wt_job_id (aj_task j) = [] \<and> ws = dir @ [d] \<or> wt_job_id (aj_task j) = ''..'' \<and> ws = dir"
  shows "WorkspaceRemoved (absolute ws) \<in> set (snd (finish_task env j))"
proof -
  have plain: "clean_segments True [] (dir @ [d] @ rest) = clean_segments True (rev (dir @ [d])) rest" for rest
    using clean_segments_plain [of "dir @ [d]" True "[]" rest] assms(2) by simp
  have slash: "\<forall>s \<in> set (dir @ [d]). CHR ''/'' \<notin> set s" using assms(2) plain_no_slash by blast
  have joined: "absolute (dir @ [d]) @ ''/'' @ ''..'' = absolute (dir @ [d] @ [''..''])"
    using join_with_append [of "dir @ [d]" "[''..'']" "''/''"] by (simp add: absolute_def)
  have "d \<noteq> ''..''" using assms(2) by (simp add: plain_segment_def)
  then have "job_workspace env (aj_task j) = absolute ws"
    using assms(1,5) clean_absolute [OF slash] clean_absolute [of "dir @ [d] @ [''..'']"] slash plain [of "[]"] plain [of "[''..'']"] joined
    by (auto simp: job_workspace_def path_join_def absolute_def)
  then show ?thesis using completed_cleanup [OF assms(4), of env] by simp
qed

section \<open>Metering\<close>

text \<open>A power with decimals, as the tool prints it, is no power; its card uses no energy.\<close>

lemma uint_prefix_point:
  assumes "digit_value x = None" "(n + 1) * 10 ^ length p \<le> most"
  shows "uint_prefix most n (p @ x # rest) = 0"
  using assms(2)
proof (induction p arbitrary: n)
  case Nil
  then show ?case using assms(1) by simp
next
  case (Cons c p)
  show ?case
  proof (cases "digit_value c")
    case (Some d)
    then have "nat d \<le> 9" by (auto simp: digit_value_def Let_def split: if_splits)
    then have "(10 * n + nat d + 1) * 10 ^ length p \<le> (10 * (n + 1)) * 10 ^ length p" by (intro mult_right_mono) simp_all
    also have "\<dots> \<le> most" using Cons.prems by (simp add: algebra_simps)
    finally have le: "(10 * n + nat d + 1) * 10 ^ length p \<le> most" .
    have "(10 * n + nat d + 1) * 1 \<le> (10 * n + nat d + 1) * 10 ^ length p" by (rule mult_le_mono2) simp
    with le have "(10 * n + nat d + 1) * 1 \<le> most" by (rule order_trans [rotated])
    then have "10 * n + nat d \<le> most" by simp
    then show ?thesis using Some Cons.IH [OF le] by simp
  qed simp
qed

lemma decimal_power_is_zero: "length p \<le> 9 \<Longrightarrow> uint_despite_error 32 (p @ CHR ''.'' # rest) = 0"
proof -
  assume "length p \<le> 9"
  then have "(10::nat) ^ length p \<le> 10 ^ 9" by (intro power_increasing) simp_all
  then show ?thesis
    unfolding uint_despite_error_def by (intro uint_prefix_point) (simp_all add: digit_value_def)
qed

text \<open>The energy a task is billed for is none at all when the tool prints the power of its cards with decimals.\<close>

lemma no_power_no_energy: "\<forall>r \<in> set rs. gr_power r = 0 \<Longrightarrow> energy_used hours rs = 0"
proof -
  assume "\<forall>r \<in> set rs. gr_power r = 0"
  then have "map gr_power rs = map (\<lambda>r. 0) rs" by simp
  then have "sum_list (map gr_power rs) = 0" by simp
  moreover have "div16 0 1000 = 0" by (simp add: div16_def round_at_def floor_eq_iff)
  ultimately show ?thesis by (simp add: energy_used_def del: sum_list_eq_0_iff)
qed

theorem decimal_power_costs_nothing:
  assumes "map trim_space (split_char CHR '','' line) = fs" "13 \<le> length fs" "fs ! 9 = p @ CHR ''.'' # rest" "length p \<le> 9"
    "reading_line line = Some r"
  shows "energy_used hours [r] = 0"
proof -
  have "gr_power r = uint_despite_error 32 (fs ! 9)"
    using assms(1,5) by (auto simp: reading_line_def split: if_splits list.splits)
  then show ?thesis using decimal_power_is_zero [OF assms(4)] assms(3) no_power_no_energy [of "[r]"] by simp
qed

end
