(* ===== verification/ProviderClaims.thy ===== *)
theory ProviderClaims
  imports ProviderFacts DaemonClaims
begin

text \<open>
  The stand-alone provider in front of the billing service, whose routes are \<open>session_route\<close> of \<open>DaemonClaims\<close>, and its properties at concrete
  tasks.
\<close>

section \<open>The billing service\<close>

lemma worker_start_is_no_route: "session_route ''POST'' worker_start_path = None"
  by (simp add: session_route_def session_group_def worker_start_path_def)

text \<open>Behind the billing service of this repository no task of the stand-alone provider is ever executed: it starts the billing session at a path
  the service has no route for, so every task fails before its files are fetched, and nothing of it is run.\<close>

theorem provider_never_starts_session:
  assumes "\<And>p q. session_route ''POST'' p = None \<Longrightarrow> we_start env (we_billing_url env @ p) q = Inr (404, body, None)"
    "we_billing_url env \<noteq> []" "we_mkdir env (job_workspace env t) = None"
  shows "\<exists>j es. worker_task_run env t = (TaskEnds j, es) \<and> aj_status j = JobFailed \<and> map fst (aj_errors j) = [''billing_start'']
    \<and> scripts_run es = [] \<and> (\<forall>c. ContainerRun c \<notin> set es) \<and> session_ends es = []"
proof -
  let ?j = "(new_active_job t)\<lparr>aj_workspace := job_workspace env t\<rparr>"
  have "\<exists>e es. start_billing_session env ?j = (Inl e, es) \<and> (\<forall>c. ContainerRun c \<notin> set es)"
    using assms(2) assms(1) [OF worker_start_is_no_route]
    by (cases "find (suits_task t) (we_gpus env)") (auto simp: start_billing_session_def new_active_job_def Let_def)
  then obtain e es where st: "start_billing_session env ?j = (Inl e, es)" and es: "\<forall>c. ContainerRun c \<notin> set es" by blast
  obtain j fs where er: "handle_task_error env ?j ''billing_start'' e = (j, fs)" by fastforce
  have fs: "ContainerRun c \<notin> set fs" for c
    using er by (auto simp: handle_task_error_def publish_task_status_def new_active_job_def Let_def split: if_splits)
  have b: "aj_billing j = None" using er by (auto simp: handle_task_error_def new_active_job_def Let_def)
  have run: "worker_task_run env t = (TaskEnds j, worker_effect.WorkspaceMade (job_workspace env t) # es @ fs)"
    using assms(3) st er by (simp add: worker_task_run_def Let_def)
  moreover have "aj_errors j = [(''billing_start'', e)]" using error_parts(5) [OF er] by (simp add: new_active_job_def)
  moreover have "scripts_run es = []" "session_ends es = []" using start_session_parts [of env ?j] st by (simp_all add: quiet_def)
  ultimately show ?thesis
    using task_ends_well [OF run] error_parts [OF er] es fs b by (auto simp: session_end_of_def)
qed

section \<open>Concrete tasks\<close>

definition sample_task :: worker_task where
  "sample_task =
     \<lparr>wt_job_id = ''job-1'', wt_user_id = ''alice'', wt_session_id = 7, wt_execution_type = ''script'', wt_docker_image = [], wt_docker_command = [],
      wt_docker_environment = [], wt_docker_volumes = [], wt_gpu_access = False, wt_script = ''exit 3'', wt_script_language = ''bash'',
      wt_script_environment = [], wt_gpu_model = [], wt_gpu_memory = 0, wt_max_minutes = 10, wt_input_files = [], wt_output_files = [],
      wt_cleanup = True, wt_max_cost = 0\<rparr>"

definition sample_worker_env :: worker_env where
  "sample_worker_env =
     \<lparr>we_billing_url = [], we_provider_id = 1, we_workspace = ''/tmp/dante-workspace'', we_connected = True, we_publish = (\<lambda>u. True), we_gpus = [],
      we_mkdir = (\<lambda>p. None), we_bad_url = (\<lambda>u. None), we_start = (\<lambda>u q. Inr (404, ''404 page not found'', None)), we_end = (\<lambda>u. Inr 404),
      we_fetch = (\<lambda>u h. Inl ''no route''), we_create = (\<lambda>p. None), we_missing = (\<lambda>p. True), we_open = (\<lambda>p. Inl ''no file''),
      we_put = (\<lambda>u h c. Inl ''no route''), we_docker = None, we_memory_mb = 8192, we_cpus = 4, we_interpreter = (\<lambda>i. True),
      we_write = (\<lambda>p c. None), we_run = (\<lambda>i p w e d. (ScriptExited 3, [], ''no such file''))\<rparr>"

text \<open>The script ends with status 3, and the task is completed; the provider is then placed behind the billing service.\<close>

lemma sample_run:
  "\<exists>j es. worker_task_run sample_worker_env sample_task = (TaskEnds j, es) \<and> scripts_run es = [''exit 3'']"
  by (simp add: worker_task_run_def sample_task_def sample_worker_env_def start_billing_session_def new_active_job_def download_input_files_def
      run_active_job_def execute_by_type_def execute_script_task_def script_language_def to_lower_def finish_task_def upload_output_files_def
      worker_end_session_def publish_task_status_def Let_def)

theorem started_script_never_fails_witness:
  "\<exists>j es. worker_task_run sample_worker_env sample_task = (TaskEnds j, es) \<and> aj_status j = JobCompleted \<and> length (final_statuses es) = 1"
proof -
  obtain j es where run: "worker_task_run sample_worker_env sample_task = (TaskEnds j, es)" "scripts_run es = [''exit 3'']"
    using sample_run by blast
  have "scripts_run es \<noteq> []" using run(2) by simp
  moreover have "we_connected sample_worker_env" "we_publish sample_worker_env u" for u by (simp_all add: sample_worker_env_def)
  ultimately show ?thesis using started_script_never_fails [OF run(1)] run(1) by (auto simp: Let_def)
qed

theorem provider_task_settles_witness:
  "\<exists>j es. worker_task_run sample_worker_env sample_task = (TaskEnds j, es) \<and> length (final_statuses es) = 1"
proof -
  obtain j es where run: "worker_task_run sample_worker_env sample_task = (TaskEnds j, es)" using sample_run by blast
  have "we_connected sample_worker_env" "we_publish sample_worker_env u" for u by (simp_all add: sample_worker_env_def)
  then show ?thesis using provider_task_settles [OF run] run by (auto simp: Let_def split: list.splits prod.splits)
qed

theorem provider_never_starts_session_witness:
  "\<exists>j es. worker_task_run (sample_worker_env\<lparr>we_billing_url := ''http://localhost:8003''\<rparr>) sample_task = (TaskEnds j, es) \<and> aj_status j = JobFailed"
  using provider_never_starts_session
    [of "sample_worker_env\<lparr>we_billing_url := ''http://localhost:8003''\<rparr>" "''404 page not found''" sample_task]
  by (auto simp: sample_worker_env_def)

end
