(* ===== verification/RentalClient.thy ===== *)
theory RentalClient
  imports Decimal GoPath
begin

text \<open>
  The renter's command-line client (\<open>cmd/rental/main.go\<close>): login, token refresh, wallet, jobs, the commands and the two dialogues that submit a job.
  The gateway and the registry are a function that answers a request and moves a state; of an answer there is its status and what its body decodes
  to as each type the client asks for. Prices are rationals; what is printed of them is kept as a value.
\<close>

section \<open>Data\<close>

record client_config =
  kc_gateway :: string
  kc_registry :: string
  kc_username :: string
  kc_password :: string

record renter_login =
  la_token :: string
  la_refresh :: string
  la_expires :: time
  la_user :: string

record client_balance =
  cb_available :: decimal
  cb_locked :: decimal
  cb_total :: decimal

record listed_gpu =
  lg_model :: string
  lg_vram :: nat
  lg_architecture :: string
  lg_power :: nat
  lg_healthy :: bool

record shown_provider =
  ld_id :: uuid
  ld_name :: string
  ld_location :: string
  ld_status :: string
  ld_gpus :: "listed_gpu list"

record client_estimate =
  ce_gpu_model :: string
  ce_vram :: int
  ce_power :: nat
  ce_hours :: decimal

text \<open>Of a submission what the client ever fills.\<close>

record client_submission =
  cx_type :: string
  cx_name :: string
  cx_description :: string
  cx_script :: string
  cx_script_language :: string
  cx_gpu_model :: string
  cx_gpu_memory :: u64
  cx_cpu_cores :: int
  cx_memory :: u64
  cx_max_cost :: decimal
  cx_max_minutes :: int
  cx_params :: "(string \<times> string) list"

record submitted_job =
  sb_id :: string
  sb_status :: string
  sb_cost :: decimal

record client_job =
  cj_id :: string
  cj_status :: string
  cj_progress :: rat
  cj_error :: string

datatype client_payload =
  NoPayload | LoginPayload string string | RefreshPayload string | WalletPayload string | EstimatePayload client_estimate | JobPayload client_submission

record client_request =
  ct_method :: string
  ct_url :: string
  ct_bearer :: "string option"
  ct_payload :: client_payload

record client_answer =
  an_status :: nat
  an_login :: "string + renter_login"
  an_profile :: "string + string"
  an_wallet :: "string + uuid"
  an_balance :: "string + client_balance"
  an_providers :: "string + shown_provider list"
  an_estimate :: "string + decimal"
  an_submitted :: "string + submitted_job"
  an_job :: "string + client_job"

type_synonym 's client_http = "client_request \<Rightarrow> 's \<Rightarrow> (string + client_answer) \<times> 's"

record client_state =
  ks_token :: string
  ks_refresh :: string
  ks_expiry :: time
  ks_user :: string
  ks_wallet :: uuid
  ks_profile :: "string option"

section \<open>Requests\<close>

text \<open>A request whose answer must have one status; every other status is the error \<open>what\<close> with its number.\<close>

definition ask ::
    "'s client_http \<Rightarrow> client_request \<Rightarrow> nat \<Rightarrow> string \<Rightarrow> (client_answer \<Rightarrow> string + 'a) \<Rightarrow> 's \<Rightarrow> (string + 'a) \<times> 's" where
  "ask http r expected what decoded s =
     (case http r s of
        (Inl e, s) \<Rightarrow> (Inl e, s)
      | (Inr a, s) \<Rightarrow> (if an_status a \<noteq> expected then Inl (what @ '' '' @ nat_text (an_status a)) else decoded a, s))"

definition gateway_request :: "client_config \<Rightarrow> client_state \<Rightarrow> string \<Rightarrow> string \<Rightarrow> client_payload \<Rightarrow> client_request" where
  "gateway_request cfg k meth path p =
     \<lparr>ct_method = meth, ct_url = kc_gateway cfg @ path, ct_bearer = Some (''Bearer '' @ ks_token k), ct_payload = p\<rparr>"

definition client_login :: "'s client_http \<Rightarrow> client_config \<Rightarrow> client_state \<Rightarrow> 's \<Rightarrow> (string + client_state) \<times> 's" where
  "client_login http cfg k s =
     ask http \<lparr>ct_method = ''POST'', ct_url = kc_gateway cfg @ ''/auth/login'', ct_bearer = None,
               ct_payload = LoginPayload (kc_username cfg) (kc_password cfg)\<rparr> 200 ''authentication failed with status''
       (\<lambda>a. map_sum id (\<lambda>l. k\<lparr>ks_token := la_token l, ks_refresh := la_refresh l, ks_expiry := la_expires l, ks_user := la_user l\<rparr>) (an_login a)) s"

definition refresh_token_if_needed ::
    "'s client_http \<Rightarrow> client_config \<Rightarrow> time \<Rightarrow> client_state \<Rightarrow> 's \<Rightarrow> (string + client_state) \<times> 's" where
  "refresh_token_if_needed http cfg now k s =
     (if ks_expiry k - now > 5 * minute then (Inr k, s)
      else (case http \<lparr>ct_method = ''POST'', ct_url = kc_gateway cfg @ ''/auth/refresh'', ct_bearer = None, ct_payload = RefreshPayload (ks_refresh k)\<rparr> s of
              (Inl e, s) \<Rightarrow> (Inl (''failed to refresh token: '' @ e), s)
            | (Inr a, s) \<Rightarrow>
                (if an_status a \<noteq> 200 then Inl (''token refresh failed with status '' @ nat_text (an_status a))
                 else (case an_login a of
                         Inl e \<Rightarrow> Inl (''failed to decode refresh response: '' @ e)
                       | Inr l \<Rightarrow> Inr (k\<lparr>ks_token := la_token l, ks_refresh := la_refresh l, ks_expiry := la_expires l\<rparr>)), s)))"

text \<open>The refreshed token is kept whatever becomes of the request.\<close>

definition client_profile ::
    "'s client_http \<Rightarrow> client_config \<Rightarrow> time \<Rightarrow> client_state \<Rightarrow> 's \<Rightarrow> string option \<times> client_state \<times> 's" where
  "client_profile http cfg now k s =
     (case refresh_token_if_needed http cfg now k s of
        (Inl e, s) \<Rightarrow> (Some (''failed to get user profile: failed to refresh token: '' @ e), k, s)
      | (Inr k, s) \<Rightarrow>
          (case http (gateway_request cfg k ''GET'' ''/auth/profile'' NoPayload) s of
             (Inl e, s) \<Rightarrow> (Some (''failed to get user profile: '' @ e), k, s)
           | (Inr a, s) \<Rightarrow>
               if an_status a \<noteq> 200 then (Some (''get profile failed with status '' @ nat_text (an_status a)), k, s)
               else (case an_profile a of
                       Inl e \<Rightarrow> (Some (''failed to decode profile response: '' @ e), k, s)
                     | Inr p \<Rightarrow> (None, k\<lparr>ks_profile := Some p\<rparr>, s))))"

definition client_wallet :: "'s client_http \<Rightarrow> client_config \<Rightarrow> client_state \<Rightarrow> 's \<Rightarrow> (string + uuid) \<times> 's" where
  "client_wallet http cfg k = ask http (gateway_request cfg k ''GET'' ''/billing/wallet'' NoPayload) 200 ''failed to get wallet: status'' an_wallet"

text \<open>The address the client sends is the same for everybody.\<close>

definition client_new_wallet :: "'s client_http \<Rightarrow> client_config \<Rightarrow> client_state \<Rightarrow> 's \<Rightarrow> (string + uuid) \<times> 's" where
  "client_new_wallet http cfg k =
     ask http (gateway_request cfg k ''POST'' ''/billing/wallet'' (WalletPayload (ks_user k))) 201 ''failed to create wallet: status'' an_wallet"

definition client_setup_wallet :: "'s client_http \<Rightarrow> client_config \<Rightarrow> client_state \<Rightarrow> 's \<Rightarrow> (string + client_state) \<times> 's" where
  "client_setup_wallet http cfg k s =
     (case client_wallet http cfg k s of
        (Inr i, s) \<Rightarrow> (Inr (k\<lparr>ks_wallet := i\<rparr>), s)
      | (Inl e, s) \<Rightarrow> (case client_new_wallet http cfg k s of
                        (Inl e, s) \<Rightarrow> (Inl e, s)
                      | (Inr i, s) \<Rightarrow> (Inr (k\<lparr>ks_wallet := i\<rparr>), s)))"

definition client_initialize :: "'s client_http \<Rightarrow> client_config \<Rightarrow> client_state \<Rightarrow> 's \<Rightarrow> (string + client_state) \<times> 's" where
  "client_initialize http cfg k s =
     (case client_login http cfg k s of
        (Inl e, s) \<Rightarrow> (Inl (''authentication failed: '' @ e), s)
      | (Inr k, s) \<Rightarrow> (case client_setup_wallet http cfg k s of
                        (Inl e, s) \<Rightarrow> (Inl (''wallet setup failed: '' @ e), s)
                      | (Inr k, s) \<Rightarrow> (Inr k, s)))"

definition renter_balance :: "'s client_http \<Rightarrow> client_config \<Rightarrow> client_state \<Rightarrow> 's \<Rightarrow> (string + client_balance) \<times> 's" where
  "renter_balance http cfg k =
     ask http (gateway_request cfg k ''GET'' ''/billing/wallet/balance'' NoPayload) 200 ''failed to get balance: status'' an_balance"

text \<open>\<open>query\<close>: the filters as they are encoded, with the question mark.\<close>

definition renter_providers :: "'s client_http \<Rightarrow> client_config \<Rightarrow> string \<Rightarrow> 's \<Rightarrow> (string + shown_provider list) \<times> 's" where
  "renter_providers http cfg query =
     ask http \<lparr>ct_method = ''GET'', ct_url = kc_registry cfg @ ''/api/providers'' @ query, ct_bearer = None, ct_payload = NoPayload\<rparr>
       200 ''failed to list providers: status'' an_providers"

definition client_estimate_cost :: "'s client_http \<Rightarrow> client_config \<Rightarrow> client_state \<Rightarrow> client_estimate \<Rightarrow> 's \<Rightarrow> (string + decimal) \<times> 's" where
  "client_estimate_cost http cfg k e =
     ask http (gateway_request cfg k ''POST'' ''/billing/estimate'' (EstimatePayload e)) 200 ''failed to estimate cost: status'' an_estimate"

definition client_submit_job :: "'s client_http \<Rightarrow> client_config \<Rightarrow> client_state \<Rightarrow> client_submission \<Rightarrow> 's \<Rightarrow> (string + submitted_job) \<times> 's" where
  "client_submit_job http cfg k r =
     ask http (gateway_request cfg k ''POST'' ''/jobs'' (JobPayload r)) 201 ''failed to submit job: status'' an_submitted"

definition client_job_status :: "'s client_http \<Rightarrow> client_config \<Rightarrow> client_state \<Rightarrow> string \<Rightarrow> 's \<Rightarrow> (string + client_job) \<times> 's" where
  "client_job_status http cfg k i =
     ask http (gateway_request cfg k ''GET'' (''/jobs/'' @ i) NoPayload) 200 ''failed to get job status: status'' an_job"

definition client_cancel_job :: "'s client_http \<Rightarrow> client_config \<Rightarrow> client_state \<Rightarrow> string \<Rightarrow> 's \<Rightarrow> (string + unit) \<times> 's" where
  "client_cancel_job http cfg k i =
     ask http (gateway_request cfg k ''DELETE'' (''/jobs/'' @ i) NoPayload) 200 ''failed to cancel job: status'' (\<lambda>a. Inr ())"

text \<open>The wait for a job: \<open>None\<close> when it never ends.\<close>

definition job_is_over :: "client_job \<Rightarrow> bool" where
  "job_is_over j \<longleftrightarrow> cj_status j \<in> {''completed'', ''failed'', ''cancelled''}"

partial_function (option) wait_for_job ::
    "'s client_http \<Rightarrow> client_config \<Rightarrow> client_state \<Rightarrow> string \<Rightarrow> 's \<Rightarrow> ((string + client_job) \<times> 's) option" where
  "wait_for_job http cfg k i s =
     (case client_job_status http cfg k i s of
        (Inl e, s) \<Rightarrow> Some (Inl e, s)
      | (Inr j, s) \<Rightarrow> if job_is_over j then Some (Inr j, s) else wait_for_job http cfg k i s)"

section \<open>Dialogues\<close>

text \<open>\<open>fmt.Scanln\<close> of one word: the blanks before it, the word, and the end of its line. An empty line gives no word; after a second word has begun,
  only its first character is taken.\<close>

definition blank :: "char \<Rightarrow> bool" where
  "blank c \<longleftrightarrow> c \<in> {CHR '' '', CHR 0x09, CHR 0x0B, CHR 0x0C, CHR 0x0D}"

definition newline :: char where
  "newline = CHR 0x0A"

definition end_of_line :: "string \<Rightarrow> string" where
  "end_of_line s = drop 1 (dropWhile blank s)"

definition scanln :: "string \<Rightarrow> string \<times> string" where
  "scanln s =
     (case dropWhile blank s of
        [] \<Rightarrow> ([], [])
      | c # cs \<Rightarrow>
          if c = newline then ([], cs)
          else (let inside = (\<lambda>d. \<not> blank d \<and> d \<noteq> newline) in (takeWhile inside (c # cs), end_of_line (dropWhile inside (c # cs)))))"

text \<open>\<open>parse\<close>: \<open>decimal.NewFromString\<close>, whose error leaves zero.\<close>

definition ai_training_job :: "(string \<Rightarrow> decimal option) \<Rightarrow> string \<Rightarrow> client_submission \<times> string" where
  "ai_training_job parse inp =
     (let (name, inp) = scanln inp; (gpu, inp) = scanln inp; (vram, inp) = scanln inp; (cost, inp) = scanln inp; (hours, inp) = scanln inp
      in (\<lparr>cx_type = ''ai-training'', cx_name = name, cx_description = ''AI model training job'', cx_script = [], cx_script_language = [],
           cx_gpu_model = gpu, cx_gpu_memory = of_int (int_despite_error vram * 1024), cx_cpu_cores = 4, cx_memory = 8192,
           cx_max_cost = (case parse cost of Some d \<Rightarrow> d | None \<Rightarrow> 0),
           cx_max_minutes = sint (of_int (int_despite_error hours * 60) :: 64 word),
           cx_params = [(''framework'', ''pytorch''), (''model_type'', ''transformer''), (''dataset_size'', ''large'')]\<rparr>, inp))"

definition custom_script_job :: "string \<Rightarrow> client_submission \<times> string" where
  "custom_script_job inp =
     (let (name, inp) = scanln inp; (lang, inp) = scanln inp; (script, inp) = scanln inp; (gpu, inp) = scanln inp; (vram, inp) = scanln inp
      in (\<lparr>cx_type = ''script-execution'', cx_name = name, cx_description = ''Custom script execution'', cx_script = script,
           cx_script_language = lang, cx_gpu_model = gpu, cx_gpu_memory = of_int (int_despite_error vram * 1024), cx_cpu_cores = 2,
           cx_memory = 4096, cx_max_cost = 5, cx_max_minutes = 120, cx_params = []\<rparr>, inp))"

section \<open>Commands\<close>

definition truth_text :: "bool \<Rightarrow> string" where
  "truth_text b = (if b then ''true'' else ''false'')"

definition gpu_lines :: "nat \<Rightarrow> listed_gpu \<Rightarrow> string list" where
  "gpu_lines j g =
     [''     '' @ nat_text (j + 1) @ ''. '' @ lg_model g, ''        VRAM: '' @ nat_text (lg_vram g) @ '' MB'',
      ''        Architecture: '' @ lg_architecture g, ''        Power: '' @ nat_text (lg_power g) @ '' W'',
      ''        Healthy: '' @ truth_text (lg_healthy g)]"

definition provider_lines :: "nat \<Rightarrow> shown_provider \<Rightarrow> string list" where
  "provider_lines i p =
     [[], nat_text (i + 1) @ ''. Provider: '' @ ld_name p, ''   ID: '' @ uuid_text (ld_id p), ''   Location: '' @ ld_location p,
      ''   Status: '' @ ld_status p, ''   GPUs:''] @ concat (map (case_prod gpu_lines) (List.enumerate 0 (ld_gpus p)))"

definition print_providers :: "shown_provider list \<Rightarrow> string list" where
  "print_providers ps = [[], ''=== Available GPU Providers ===''] @ concat (map (case_prod provider_lines) (List.enumerate 0 ps)) @ [[]]"

definition quick_job :: "string \<Rightarrow> client_submission" where
  "quick_job name =
     \<lparr>cx_type = ''ai-training'', cx_name = name, cx_description = ''Command line submitted job'', cx_script = [], cx_script_language = [],
      cx_gpu_model = ''any'', cx_gpu_memory = 4096, cx_cpu_cores = 2, cx_memory = 4096, cx_max_cost = 0, cx_max_minutes = 0,
      cx_params = [(''framework'', ''pytorch'')]\<rparr>"

datatype client_shown =
  ShownText "string list" | ShownBalance decimal | ShownJob string | ShownStatus string rat | ShownError string

text \<open>How the program ends: its exit status, a panic, or the menu it goes on with.\<close>

datatype client_end = ClientExit nat | ClientPanics | ClientMenu

definition renter_command ::
    "'s client_http \<Rightarrow> client_config \<Rightarrow> client_state \<Rightarrow> string list \<Rightarrow> 's \<Rightarrow> (client_end \<times> client_shown list) \<times> 's" where
  "renter_command http cfg k args s =
     (case args of
        [] \<Rightarrow> ((ClientMenu, []), s)
      | c # cs \<Rightarrow>
          if c = ''providers'' then
            (case renter_providers http cfg [] s of
               (Inl e, s) \<Rightarrow> ((ClientExit 1, [ShownError e]), s) | (Inr ps, s) \<Rightarrow> ((ClientExit 0, [ShownText (print_providers ps)]), s))
          else if c = ''balance'' then
            (case renter_balance http cfg k s of
               (Inl e, s) \<Rightarrow> ((ClientExit 1, [ShownError e]), s) | (Inr b, s) \<Rightarrow> ((ClientExit 0, [ShownBalance (cb_available b)]), s))
          else if c = ''submit'' then
            (case cs of
               [] \<Rightarrow> ((ClientPanics, []), s)
             | name # _ \<Rightarrow>
                 (case client_submit_job http cfg k (quick_job name) s of
                    (Inl e, s) \<Rightarrow> ((ClientExit 1, [ShownError e]), s) | (Inr j, s) \<Rightarrow> ((ClientExit 0, [ShownJob (sb_id j)]), s)))
          else if c = ''status'' then
            (case cs of
               [] \<Rightarrow> ((ClientExit 1, [ShownText [''Usage: rental status <job_id>'']]), s)
             | i # _ \<Rightarrow>
                 (case client_job_status http cfg k i s of
                    (Inl e, s) \<Rightarrow> ((ClientExit 1, [ShownError e]), s)
                  | (Inr j, s) \<Rightarrow> ((ClientExit 0, [ShownStatus (cj_status j) (cj_progress j)]), s)))
          else ((ClientExit 1, [ShownText [''Unknown command: '' @ c, ''Available commands: providers, balance, submit, status'']]), s))"

definition fresh_client :: client_state where
  "fresh_client = \<lparr>ks_token = [], ks_refresh = [], ks_expiry = 0, ks_user = [], ks_wallet = 0, ks_profile = None\<rparr>"

definition client_main :: "'s client_http \<Rightarrow> client_config \<Rightarrow> string list \<Rightarrow> 's \<Rightarrow> (client_end \<times> client_shown list) \<times> 's" where
  "client_main http cfg args s =
     (case client_initialize http cfg fresh_client s of
        (Inl e, s) \<Rightarrow> ((ClientExit 1, [ShownText [''Failed to initialize client: '' @ e]]), s)
      | (Inr k, s) \<Rightarrow> renter_command http cfg k args s)"

end
