(* ===== verification/RentalClientFacts.thy ===== *)
theory RentalClientFacts
  imports GatewayRoutes RentalClient
begin

text \<open>
  What the renter's client does: when its wait for a job ends, what its dialogue makes of a script of two words, and how far it comes at the gateway of
  this repository, whose routes are \<open>gateway_route\<close>.
\<close>

section \<open>The wait for a job\<close>

definition stops_waiting :: "(string + client_job) \<times> 's \<Rightarrow> bool" where
  "stops_waiting r = (case fst r of Inl e \<Rightarrow> True | Inr j \<Rightarrow> job_is_over j)"

fun polled :: "'s client_http \<Rightarrow> client_config \<Rightarrow> client_state \<Rightarrow> string \<Rightarrow> nat \<Rightarrow> 's \<Rightarrow> 's" where
  "polled http cfg k i 0 s = s"
| "polled http cfg k i (Suc n) s = polled http cfg k i n (snd (client_job_status http cfg k i s))"

lemma wait_step:
  "wait_for_job http cfg k i s =
     (let r = client_job_status http cfg k i s in if stops_waiting r then Some r else wait_for_job http cfg k i (snd r))"
  by (subst wait_for_job.simps) (simp add: stops_waiting_def Let_def split: prod.split sum.split)

lemma wait_of_first:
  "stops_waiting (client_job_status http cfg k i (polled http cfg k i n s)) \<Longrightarrow>
   \<forall>m < n. \<not> stops_waiting (client_job_status http cfg k i (polled http cfg k i m s)) \<Longrightarrow>
   wait_for_job http cfg k i s = Some (client_job_status http cfg k i (polled http cfg k i n s))"
proof (induction n arbitrary: s)
  case 0
  then show ?case by (subst wait_step) simp
next
  case (Suc n)
  have "\<not> stops_waiting (client_job_status http cfg k i s)" using Suc.prems(2) by (metis polled.simps(1) zero_less_Suc)
  moreover have "\<forall>m < n. \<not> stops_waiting (client_job_status http cfg k i (polled http cfg k i m (snd (client_job_status http cfg k i s))))"
    using Suc.prems(2) by (metis polled.simps(2) Suc_less_eq)
  ultimately show ?case using Suc.IH Suc.prems(1) by (subst wait_step) simp
qed

lemma stop_of_wait:
  assumes "wait_for_job http cfg k i s = Some r"
  shows "\<exists>n. stops_waiting (client_job_status http cfg k i (polled http cfg k i n s))"
  using assms
proof (rule wait_for_job.raw_induct
    [where P = "\<lambda>http cfg k i s r. \<exists>n. stops_waiting (client_job_status http cfg k i (polled http cfg k i n s))", rotated])
  fix wait :: "'a client_http \<Rightarrow> client_config \<Rightarrow> client_state \<Rightarrow> string \<Rightarrow> 'a \<Rightarrow> ((string + client_job) \<times> 'a) option"
    and http :: "'a client_http" and cfg k i s r
  let ?r = "client_job_status http cfg k i s"
  assume ih: "\<And>http cfg k i s r. wait http cfg k i s = Some r \<Longrightarrow>
      \<exists>n. stops_waiting (client_job_status http cfg k i (polled http cfg k i n s))"
    and eq: "(case ?r of (Inl e, s) \<Rightarrow> Some (Inl e, s) | (Inr j, s) \<Rightarrow> if job_is_over j then Some (Inr j, s) else wait http cfg k i s) = Some r"
  show "\<exists>n. stops_waiting (client_job_status http cfg k i (polled http cfg k i n s))"
  proof (cases "stops_waiting ?r")
    case True
    then show ?thesis by (intro exI [of _ 0]) simp
  next
    case False
    then have "wait http cfg k i (snd ?r) = Some r"
      using eq by (auto simp: stops_waiting_def split: prod.splits sum.splits if_splits)
    then obtain n where "stops_waiting (client_job_status http cfg k i (polled http cfg k i n (snd ?r)))" using ih by blast
    then show ?thesis by (intro exI [of _ "Suc n"]) simp
  qed
qed

lemma wait_first:
  "wait_for_job http cfg k i s = Some r \<longleftrightarrow>
     (\<exists>n. client_job_status http cfg k i (polled http cfg k i n s) = r \<and> stops_waiting r
        \<and> (\<forall>m < n. \<not> stops_waiting (client_job_status http cfg k i (polled http cfg k i m s))))"
proof
  let ?stops = "\<lambda>n. stops_waiting (client_job_status http cfg k i (polled http cfg k i n s))"
  assume w: "wait_for_job http cfg k i s = Some r"
  obtain n where "?stops n" using stop_of_wait [OF w] by blast
  then have "?stops (LEAST n. ?stops n)" "\<forall>m < (LEAST n. ?stops n). \<not> ?stops m" by (auto intro: LeastI dest: not_less_Least)
  then show "\<exists>n. client_job_status http cfg k i (polled http cfg k i n s) = r \<and> stops_waiting r \<and> (\<forall>m < n. \<not> ?stops m)"
    using wait_of_first [of http cfg k i "LEAST n. ?stops n" s] w by auto
qed (auto dest: wait_of_first)

lemma wait_ends:
  "wait_for_job http cfg k i s = None \<longleftrightarrow> (\<forall>n. \<not> stops_waiting (client_job_status http cfg k i (polled http cfg k i n s)))"
  (is "_ \<longleftrightarrow> (\<forall>n. \<not> ?stops n)")
proof
  assume w: "wait_for_job http cfg k i s = None"
  show "\<forall>n. \<not> ?stops n"
  proof (rule ccontr)
    assume "\<not> (\<forall>n. \<not> ?stops n)"
    then obtain n where "?stops n" by blast
    then have "?stops (LEAST n. ?stops n)" "\<forall>m < (LEAST n. ?stops n). \<not> ?stops m" by (auto intro: LeastI dest: not_less_Least)
    then show False using wait_of_first w by fastforce
  qed
next
  assume never: "\<forall>n. \<not> ?stops n"
  show "wait_for_job http cfg k i s = None"
  proof (cases "wait_for_job http cfg k i s")
    case (Some r)
    then show ?thesis using stop_of_wait [OF Some] never by blast
  qed simp
qed

section \<open>What the scheduler says of a job\<close>

text \<open>The scheduler's answer to a question for the status of a job, which the gateway relays; \<open>time_text\<close> writes a time.\<close>

definition scheduler_status_json :: "(time \<Rightarrow> string) \<Rightarrow> job_record \<Rightarrow> (string \<times> json) list" where
  "scheduler_status_json time_text rec =
     [(''job_id'', JString (jr_job_id rec)), (''user_id'', JString (jr_user_id rec)), (''state'', JString (job_state_text (jr_state rec))),
      (''provider_id'', JString (jr_provider_id rec)), (''attempts'', JNumber (of_int (jr_attempts rec))),
      (''last_error'', JString (jr_last_error rec)), (''job_name'', JString (jr_job_name rec)),
      (''received_at'', JString (time_text (jr_received_at rec))), (''updated_at'', JString (time_text (jr_updated_at rec)))]"

definition number_field :: "(string \<times> json) list \<Rightarrow> string \<Rightarrow> rat option" where
  "number_field o1 k = (case field o1 k of None \<Rightarrow> Some 0 | Some JNull \<Rightarrow> Some 0 | Some (JNumber q) \<Rightarrow> Some q | Some _ \<Rightarrow> None)"

text \<open>
  How the client decodes it, by the tags of \<open>JobStatusResponse\<close> and whatever the case of a key: what of the fields is read, and whether the others have
  their types, which is an argument (\<open>rest_ok\<close>); so is which texts are identifiers.
\<close>

definition decode_client_job ::
    "(string \<Rightarrow> bool) \<Rightarrow> ((string \<times> json) list \<Rightarrow> bool) \<Rightarrow> (string \<times> json) list \<Rightarrow> string + client_job" where
  "decode_client_job is_id rest_ok o1 =
     (let o2 = map (\<lambda>(k, v). (to_lower k, v)) o1 in
      case (string_field o2 ''job_id'', string_field o2 ''status'', number_field o2 ''progress'', string_field o2 ''error'') of
        (Some i, Some st, Some p, Some e) \<Rightarrow>
          if (case field o2 ''provider_id'' of None \<Rightarrow> True | Some JNull \<Rightarrow> True | Some (JString u) \<Rightarrow> is_id u | Some _ \<Rightarrow> False) \<and> rest_ok o2
          then Inr \<lparr>client_job.cj_id = i, cj_status = st, cj_progress = p, cj_error = e\<rparr> else Inl ''cannot unmarshal''
      | _ \<Rightarrow> Inl ''cannot unmarshal'')"

lemma scheduler_status_is_empty:
  "decode_client_job is_id rest_ok (scheduler_status_json time_text rec) = Inr j \<Longrightarrow> cj_status j = []"
  by (auto simp: decode_client_job_def scheduler_status_json_def string_field_def number_field_def to_lower_def lower_char_def Let_def
      split: if_splits)

text \<open>Every answer about the job is an error, or is decoded from what the scheduler says of some state of a job.\<close>

definition answers_from_scheduler ::
    "(string \<Rightarrow> bool) \<Rightarrow> ((string \<times> json) list \<Rightarrow> bool) \<Rightarrow> (time \<Rightarrow> string) \<Rightarrow> 's client_http \<Rightarrow> client_config \<Rightarrow> client_state \<Rightarrow> string \<Rightarrow> bool" where
  "answers_from_scheduler is_id rest_ok time_text http cfg k i \<longleftrightarrow>
     (\<forall>s a s'. http (gateway_request cfg k ''GET'' (''/jobs/'' @ i) NoPayload) s = (Inr a, s') \<and> an_status a = 200 \<longrightarrow>
        (\<exists>e. an_job a = Inl e) \<or> (\<exists>rec. an_job a = decode_client_job is_id rest_ok (scheduler_status_json time_text rec)))"

lemma no_status_from_scheduler:
  assumes "answers_from_scheduler is_id rest_ok time_text http cfg k i" "fst (client_job_status http cfg k i s) = Inr j"
  shows "cj_status j = []"
proof -
  obtain a s' where a: "http (gateway_request cfg k ''GET'' (''/jobs/'' @ i) NoPayload) s = (Inr a, s')" "an_status a = 200" "an_job a = Inr j"
    using assms(2) by (auto simp: client_job_status_def ask_def split: prod.splits sum.splits if_splits)
  then obtain rec where "an_job a = decode_client_job is_id rest_ok (scheduler_status_json time_text rec)"
    using assms(1) unfolding answers_from_scheduler_def by fastforce
  then show ?thesis using scheduler_status_is_empty a(3) by metis
qed

text \<open>C40. The wait for a job returns the first poll that fails or whose status is completed, failed or cancelled, and nothing else; a wait
  without such a poll never ends. The scheduler of this repository names the state of a job \<open>state\<close> and the client reads \<open>status\<close>: from its
  answers no wait ever returns a job, whatever becomes of the job, and a wait whose polls all succeed never ends.\<close>

theorem wait_never_sees_the_end:
  "(wait_for_job http cfg k i s = Some (r, s') \<longleftrightarrow>
      (\<exists>n. client_job_status http cfg k i (polled http cfg k i n s) = (r, s')
         \<and> (case r of Inl e \<Rightarrow> True | Inr j \<Rightarrow> cj_status j \<in> {''completed'', ''failed'', ''cancelled''})
         \<and> (\<forall>m < n. \<exists>j. fst (client_job_status http cfg k i (polled http cfg k i m s)) = Inr j
               \<and> cj_status j \<notin> {''completed'', ''failed'', ''cancelled''})))
   \<and> (answers_from_scheduler is_id rest_ok time_text http cfg k i \<longrightarrow>
        wait_for_job http cfg k i s \<noteq> Some (Inr j', s')
        \<and> (wait_for_job http cfg k i s = None \<longleftrightarrow> (\<forall>n. \<exists>j. fst (client_job_status http cfg k i (polled http cfg k i n s)) = Inr j)))"
proof -
  have st: "stops_waiting p \<longleftrightarrow> (case fst p of Inl e \<Rightarrow> True | Inr j \<Rightarrow> cj_status j \<in> {''completed'', ''failed'', ''cancelled''})"
    "\<not> stops_waiting p \<longleftrightarrow> (\<exists>j. fst p = Inr j \<and> cj_status j \<notin> {''completed'', ''failed'', ''cancelled''})" for p :: "(string + client_job) \<times> 's"
    by (auto simp: stops_waiting_def job_is_over_def split: sum.split)
  have first: "wait_for_job http cfg k i s = Some q \<longleftrightarrow> (\<exists>n. client_job_status http cfg k i (polled http cfg k i n s) = q \<and> stops_waiting q
      \<and> (\<forall>m < n. \<not> stops_waiting (client_job_status http cfg k i (polled http cfg k i m s))))" for q by (rule wait_first)
  have empty: "stops_waiting (client_job_status http cfg k i t) \<longleftrightarrow> (\<exists>e. fst (client_job_status http cfg k i t) = Inl e)"
    if "answers_from_scheduler is_id rest_ok time_text http cfg k i" for t
    using no_status_from_scheduler [OF that, of t] by (cases "fst (client_job_status http cfg k i t)") (auto simp: st(1))
  have "wait_for_job http cfg k i s \<noteq> Some (Inr j', s')" if a: "answers_from_scheduler is_id rest_ok time_text http cfg k i"
  proof
    assume "wait_for_job http cfg k i s = Some (Inr j', s')"
    then obtain n where n: "client_job_status http cfg k i (polled http cfg k i n s) = (Inr j', s')" "stops_waiting (Inr j' :: string + client_job, s')"
      using first [of "(Inr j', s')"] by blast
    show False using empty [OF a, of "polled http cfg k i n s"] n by simp
  qed
  moreover have "wait_for_job http cfg k i s = None \<longleftrightarrow> (\<forall>n. \<exists>j. fst (client_job_status http cfg k i (polled http cfg k i n s)) = Inr j)"
    if a: "answers_from_scheduler is_id rest_ok time_text http cfg k i"
    using wait_ends [of http cfg k i s] empty [OF a] by (metis sum.exhaust sum.distinct(1))
  ultimately show ?thesis using first [of "(r, s')", unfolded st(2), unfolded st(1) fst_conv] by blast
qed

section \<open>A script of two words\<close>

definition word_text :: "string \<Rightarrow> bool" where
  "word_text w \<longleftrightarrow> w \<noteq> [] \<and> (\<forall>c \<in> set w. \<not> blank c \<and> c \<noteq> newline)"

lemma scanln_word:
  assumes "word_text w"
  shows "scanln (w @ newline # rest) = (w, rest)"
proof -
  obtain c cs where w: "w = c # cs" "\<not> blank c" "c \<noteq> newline" using assms by (cases w) (auto simp: word_text_def)
  have "takeWhile (\<lambda>d. \<not> blank d \<and> d \<noteq> newline) (w @ newline # rest) = w" "dropWhile (\<lambda>d. \<not> blank d \<and> d \<noteq> newline) (w @ newline # rest) = newline # rest"
    using assms by (auto simp: word_text_def takeWhile_append dropWhile_append)
  moreover have "\<not> blank newline" by (simp add: blank_def newline_def)
  ultimately show ?thesis using w by (simp add: scanln_def Let_def end_of_line_def)
qed

lemma scanln_two_words:
  assumes "word_text w" "word_text (c # v)"
  shows "scanln (w @ CHR '' '' # c # v @ rest) = (w, v @ rest)"
proof -
  obtain d ds where w: "w = d # ds" "\<not> blank d" "d \<noteq> newline" using assms(1) by (cases w) (auto simp: word_text_def)
  have sp: "blank CHR '' ''" by (simp add: blank_def)
  have "takeWhile (\<lambda>d. \<not> blank d \<and> d \<noteq> newline) (w @ CHR '' '' # c # v @ rest) = w"
    "dropWhile (\<lambda>d. \<not> blank d \<and> d \<noteq> newline) (w @ CHR '' '' # c # v @ rest) = CHR '' '' # c # v @ rest"
    using assms(1) sp by (auto simp: word_text_def takeWhile_append dropWhile_append)
  moreover have "\<not> blank c" using assms(2) by (simp add: word_text_def)
  ultimately show ?thesis using w sp by (simp add: scanln_def Let_def end_of_line_def)
qed

text \<open>A script of two words loses the second: without its first character it becomes the GPU that is asked for, and the GPU's line the memory.\<close>

theorem second_word_becomes_gpu:
  assumes "word_text name" "word_text lang" "word_text w" "word_text (c # v)" "word_text v" "word_text gpu"
  shows "\<exists>q. custom_script_job (name @ newline # lang @ newline # w @ CHR '' '' # c # v @ newline # gpu @ newline # rest) = (q, rest)
    \<and> cx_script q = w \<and> cx_gpu_model q = v \<and> cx_gpu_memory q = of_int (int_despite_error gpu * 1024)"
  using scanln_word [OF assms(1)] scanln_word [OF assms(2)] scanln_two_words [OF assms(3,4)] scanln_word [OF assms(5)] scanln_word [OF assms(6)]
  by (simp add: custom_script_job_def Let_def)

section \<open>At the gateway\<close>

definition answers_like_gateway :: "'s client_http \<Rightarrow> client_config \<Rightarrow> bool" where
  "answers_like_gateway http cfg \<longleftrightarrow>
     (\<forall>r s path. ct_url r = kc_gateway cfg @ path \<and> gateway_route (ct_method r) path = None \<longrightarrow>
        (\<exists>a. http r s = (Inr a, s) \<and> an_status a \<in> {404, 405}))"

lemma unrouted:
  assumes "answers_like_gateway http cfg" "gateway_route (ct_method r) path = None" "ct_url r = kc_gateway cfg @ path" "n < 400"
  shows "\<exists>e. ask http r n what d s = (Inl e, s)"
proof -
  obtain a where "http r s = (Inr a, s)" "an_status a \<in> {404, 405}"
    using assms(1-3) unfolding answers_like_gateway_def by blast
  then show ?thesis using assms(4) by (auto simp: ask_def)
qed

text \<open>With the gateway's address alone the client never gets past its start: the gateway has no route for a wallet there, neither to find nor to make
  one, so whatever the command, the client ends with an error.\<close>

theorem client_never_starts:
  assumes "answers_like_gateway http cfg"
  shows "\<exists>e s'. client_main http cfg args s = ((ClientExit 1, [ShownText [''Failed to initialize client: '' @ e]]), s')"
proof -
  have wallet: "\<exists>e. client_wallet http cfg k s = (Inl e, s)" "\<exists>e. client_new_wallet http cfg k s = (Inl e, s)" for k s
    unfolding client_wallet_def client_new_wallet_def gateway_request_def
    by (rule unrouted [OF assms, of _ "''/billing/wallet''"]; simp add: gateway_route_def)+
  have no_wallet: "\<exists>e. client_setup_wallet http cfg k s = (Inl e, s)" for k s
    using wallet [of k s] by (auto simp: client_setup_wallet_def)
  have "\<exists>e s'. client_initialize http cfg fresh_client s = (Inl e, s')"
  proof (cases "client_login http cfg fresh_client s")
    case (Pair r s1)
    then show ?thesis using no_wallet [of "projr r" s1] by (cases r) (auto simp: client_initialize_def)
  qed
  then show ?thesis by (auto simp: client_main_def)
qed

text \<open>What the client writes of a submission, in the order of its fields; \<open>txt\<close> is the text of a price.\<close>

definition submission_fields :: "(decimal \<Rightarrow> string) \<Rightarrow> client_submission \<Rightarrow> (string \<times> json) list" where
  "submission_fields txt r =
     [(''type'', JString (cx_type r)), (''name'', JString (cx_name r))]
     @ unless_empty (cx_description r = []) ''description'' (JString (cx_description r))
     @ [(''execution_type'', JString [])]
     @ unless_empty (cx_script r = []) ''script'' (JString (cx_script r))
     @ unless_empty (cx_script_language r = []) ''script_language'' (JString (cx_script_language r))
     @ [(''requirements'', JObject
           (unless_empty (cx_gpu_model r = []) ''gpu_model'' (JString (cx_gpu_model r))
            @ [(''gpu_memory_mb'', JNumber (of_nat (unat (cx_gpu_memory r)))), (''min_gpu_memory_mb'', JNumber 0),
               (''cpu_cores'', JNumber (of_int (cx_cpu_cores r))), (''memory_mb'', JNumber (of_nat (unat (cx_memory r)))),
               (''disk_space_mb'', JNumber 0), (''network_bandwidth_mb'', JNumber 0)])),
        (''constraints'', JObject
           [(''max_cpu_usage_percent'', JNumber 0), (''max_memory_usage_percent'', JNumber 0), (''max_gpu_usage_percent'', JNumber 0),
            (''max_network_usage_mb'', JNumber 0), (''allow_network_access'', JBool False), (''allow_filesystem_access'', JBool False),
            (''isolation_level'', JString [])]),
        (''max_cost_dgpu'', JString (txt (cx_max_cost r))), (''max_duration_minutes'', JNumber (of_int (cx_max_minutes r))),
        (''require_gpu_access'', JBool False)]
     @ unless_empty (cx_params r = []) ''custom_params'' (JObject (map (\<lambda>(k, v). (k, JString v)) (cx_params r)))"

text \<open>At the right address a submission is still refused: the gateway asks for \<open>params\<close>, which the client does not send under any spelling.\<close>

theorem client_jobs_are_refused:
  assumes "\<And>o1 q. dec o1 = Inr q \<Longrightarrow> (\<forall>k \<in> fst ` set o1. to_lower k \<noteq> ''params'') \<Longrightarrow> sq_params q = []"
  shows "\<exists>m. submit_job c i publish_ok (dec (submission_fields txt r)) = (JobRefused 400 m, [])"
proof -
  have "\<forall>k \<in> fst ` set (submission_fields txt r). to_lower k \<noteq> ''params''"
    by (auto simp: submission_fields_def unless_empty_def to_lower_def lower_char_def)
  then have "sq_params q = []" if "dec (submission_fields txt r) = Inr q" for q using assms that by blast
  then show ?thesis by (cases "dec (submission_fields txt r)") (auto simp: submit_job_def)
qed

section \<open>A concrete gateway\<close>

definition sample_client_config :: client_config where
  "sample_client_config = \<lparr>kc_gateway = ''http://localhost:8080'', kc_registry = ''http://localhost:8001'', kc_username = ''ada'', kc_password = ''pw''\<rparr>"

definition sample_gateway :: "nat client_http" where
  "sample_gateway r n =
     (let login = (ct_method r = ''POST'' \<and> ct_url r = ''http://localhost:8080/auth/login'')
      in (Inr \<lparr>an_status = (if login then 200 else 404),
               an_login = Inr \<lparr>la_token = ''t'', la_refresh = ''r'', la_expires = 900, la_user = ''u1''\<rparr>, an_profile = Inl ''EOF'',
               an_wallet = Inl ''EOF'', an_balance = Inl ''EOF'', an_providers = Inl ''EOF'', an_estimate = Inl ''EOF'', an_submitted = Inl ''EOF'',
               an_job = Inl ''EOF''\<rparr>, if login then n + 1 else n))"

lemma sample_gateway_answers: "answers_like_gateway sample_gateway sample_client_config"
proof -
  have "gateway_route ''POST'' ''/auth/login'' \<noteq> None" by (simp add: gateway_route_def auth_group_def)
  then show ?thesis
    by (fastforce simp: answers_like_gateway_def sample_gateway_def sample_client_config_def Let_def)
qed

text \<open>A scheduler whose job is completed, and its client.\<close>

definition completed_job :: job_record where
  "completed_job =
     \<lparr>jr_job_id = ''job-1'', jr_user_id = ''ada'',
      jr_job_details = \<lparr>j_id = ''job-1'', j_user_id = ''ada'', j_type = ''script'', j_name = ''n'', j_description = [], j_priority = 0, j_submitted_at = 0,
        j_gpu_type = [], j_gpu_count = 1, j_min_vram = 0, j_min_power = 0, j_params = None, j_tags = []\<rparr>,
      jr_state = JobStateCompleted, jr_provider_id = ''p1'', jr_attempts = 1, jr_last_error = [], jr_received_at = 0, jr_updated_at = 0,
      jr_submitted_at = 0, jr_job_name = ''n'', jr_job_type = ''script'', jr_gpu_type = [], jr_priority = 0\<rparr>"

definition sample_scheduler :: "nat client_http" where
  "sample_scheduler r n =
     (Inr \<lparr>an_status = 200, an_login = Inl ''EOF'', an_profile = Inl ''EOF'',
           an_wallet = Inl ''EOF'', an_balance = Inl ''EOF'', an_providers = Inl ''EOF'', an_estimate = Inl ''EOF'', an_submitted = Inl ''EOF'',
           an_job = decode_client_job (\<lambda>t. True) (\<lambda>o1. True) (scheduler_status_json (\<lambda>t. ''1970-01-01T00:00:00Z'') completed_job)\<rparr>, n + 1)"

theorem wait_never_sees_the_end_witness:
  "wait_for_job sample_scheduler sample_client_config fresh_client ''job-1'' 0 = None"
proof -
  have a: "answers_from_scheduler (\<lambda>t. True) (\<lambda>o1. True) (\<lambda>t. ''1970-01-01T00:00:00Z'') sample_scheduler sample_client_config fresh_client ''job-1''"
    by (auto simp: answers_from_scheduler_def sample_scheduler_def)
  have "\<exists>j. decode_client_job (\<lambda>t. True) (\<lambda>o1. True) (scheduler_status_json (\<lambda>t. ''1970-01-01T00:00:00Z'') completed_job) = Inr j"
    by (simp add: decode_client_job_def scheduler_status_json_def string_field_def number_field_def to_lower_def lower_char_def Let_def)
  then have "\<exists>j. fst (client_job_status sample_scheduler sample_client_config fresh_client ''job-1'' t) = Inr j" for t
    by (auto simp: client_job_status_def ask_def sample_scheduler_def)
  then show ?thesis using wait_never_sees_the_end [where k = fresh_client and i = "''job-1''" and s = 0] a by blast
qed

theorem client_never_starts_witness:
  "\<exists>e s'. client_main sample_gateway sample_client_config [''balance''] 0 = ((ClientExit 1, [ShownText [''Failed to initialize client: '' @ e]]), s')"
  by (rule client_never_starts [OF sample_gateway_answers])

end
