(* ===== verification/RentalProof.thy ===== *)
theory RentalProof
  imports PostgresStore Pricing GoText "HOL-Library.List_Lexorder" "HOL-Library.Char_ord" "HOL-Library.Multiset"
begin

text \<open>
  The command that proves a rental (\<open>billing-payment-service/cmd/rental-proof/main.go\<close>): it prices a detected GPU with the engine, optionally takes a
  session through the store from its wallet to its settlement, and writes a receipt, whose canonical text is hashed. The texts of prices and times
  are parameters.
\<close>

section \<open>Pricing\<close>

record daemon_gpu =
  dg_id :: string
  dg_name :: string
  dg_model :: string
  dg_vram_total :: u64
  dg_vram_free :: u64
  dg_vendor :: string

definition normalize_model :: "string \<Rightarrow> string" where
  "normalize_model name = map (\<lambda>c. if c = CHR '' '' then CHR ''-'' else c) (to_lower (trim_space name))"

definition proof_config :: pricing_config where
  "proof_config = \<lparr>vram_rate_per_gb = 1 / 50, power_multiplier = 1 / 1000, platform_fee_percent = 5, minimum_session_minutes = 1,
                   maximum_session_hours = 720\<rparr>"

definition proof_rates :: "(string \<times> decimal) list" where
  "proof_rates = [(''nvidia-tesla-h100'', 4), (''nvidia-tesla-a100'', 2), (''nvidia-geforce-rtx-4090'', 1 / 2), (''apple-m3-max'', 7 / 20),
                  (''default'', 1 / 4)]"

definition proof_request :: "daemon_gpu \<Rightarrow> u32 \<Rightarrow> decimal \<Rightarrow> pricing_request" where
  "proof_request g watts hours =
     \<lparr>pr_gpu_model = normalize_model (dg_model g), pr_requested_vram = dg_vram_total g, pr_total_vram = dg_vram_total g,
      pr_estimated_power_w = watts, pr_duration_hours = hours\<rparr>"

section \<open>A session through the store\<close>

text \<open>The clock is read in the order of its indices; \<open>ids\<close>: the wallet, the session, the provider, the renter, the usage record.\<close>

record proof_ids =
  pi_wallet :: uuid
  pi_session :: uuid
  pi_provider :: uuid
  pi_renter :: uuid
  pi_usage :: uuid

definition proof_wallet_request :: "proof_ids \<Rightarrow> wallet_create_request" where
  "proof_wallet_request ids =
     \<lparr>wcr_user_id = uuid_text (pi_renter ids), wcr_wallet_type = WalletTypeUser,
      wcr_solana_address = ''Dpr00fRenterWa11et'' @ take 8 (uuid_text (pi_renter ids))\<rparr>"

definition proof_session :: "proof_ids \<Rightarrow> time \<Rightarrow> daemon_gpu \<Rightarrow> pricing_request \<Rightarrow> pricing_response \<Rightarrow> rental_session" where
  "proof_session ids now g req p =
     \<lparr>rs_id = pi_session ids, rs_user_id = uuid_text (pi_renter ids), rs_provider_id = pi_provider ids,
      rs_job_id = Some (''rental-proof-'' @ take 8 (uuid_text (pi_session ids))), rs_status = SessionStatusActive, rs_gpu_model = dg_model g,
      rs_allocated_vram = dg_vram_total g, rs_total_vram = dg_vram_total g, rs_vram_percentage = 100, rs_hourly_rate = base_hourly_rate p,
      rs_vram_rate = 1 / 50, rs_power_rate = 1 / 1000, rs_platform_fee_rate = 5, rs_estimated_power_w = pr_estimated_power_w req,
      rs_actual_power_w = None, rs_started_at = now, rs_ended_at = None, rs_last_billed_at = now, rs_total_cost = 0, rs_platform_fee = 0,
      rs_provider_earnings = 0, rs_metadata = Some [''source'' \<mapsto> ''rental-proof'', ''detection'' \<mapsto> ''provider-daemon''],
      rs_created_at = now, rs_updated_at = now\<rparr>"

definition proof_usage :: "(decimal \<Rightarrow> decimal \<Rightarrow> decimal) \<Rightarrow> proof_ids \<Rightarrow> clock \<Rightarrow> pricing_request \<Rightarrow> pricing_response \<Rightarrow> usage_record" where
  "proof_usage dv ids clk req p =
     \<lparr>ur_id = pi_usage ids, ur_session_id = pi_session ids, ur_recorded_at = clk 3, ur_gpu_utilization = 0, ur_vram_utilization = 0,
      ur_power_draw = pr_estimated_power_w req, ur_temperature = 0, ur_period_minutes = 1, ur_period_cost = dv (total_hourly_rate p) 60,
      ur_created_at = clk 4\<rparr>"

definition settled :: "time \<Rightarrow> pricing_response \<Rightarrow> rental_session \<Rightarrow> rental_session" where
  "settled ended p s =
     s\<lparr>rs_ended_at := Some ended, rs_status := SessionStatusCompleted, rs_total_cost := total_cost p, rs_platform_fee := platform_fee p,
       rs_provider_earnings := provider_earnings p, rs_updated_at := ended\<rparr>"

text \<open>\<open>opened\<close>: the error of the connection or of the schema, when there is one.\<close>

definition persist_session ::
    "(decimal \<Rightarrow> decimal \<Rightarrow> decimal) \<Rightarrow> sql_env \<Rightarrow> go_error option \<times> go_error option \<Rightarrow> proof_ids \<Rightarrow> clock \<Rightarrow> daemon_gpu \<Rightarrow> pricing_request
     \<Rightarrow> pricing_response \<Rightarrow> billing_db \<Rightarrow> (go_error + rental_session) \<times> billing_db" where
  "persist_session dv env opened ids clk g req p db =
     (case opened of
        (Some e, _) \<Rightarrow> (Inl (Wrapped ''connecting to postgres'' e), db)
      | (None, Some e) \<Rightarrow> (Inl (Wrapped ''initializing schema'' e), db)
      | (None, None) \<Rightarrow>
     (case create_wallet_row env (pi_wallet ids) clk (proof_wallet_request ids) db of
        (Inl e, db) \<Rightarrow> (Inl (Wrapped ''creating wallet'' e), db)
      | (Inr w, db) \<Rightarrow>
     (let s = proof_session ids (clk 2) g req p in
      case create_rental_session env s db of
        (Inl e, db) \<Rightarrow> (Inl (Wrapped ''creating session'' e), db)
      | (Inr u, db) \<Rightarrow>
     (case create_usage_record env (proof_usage dv ids clk req p) db of
        (Inl e, db) \<Rightarrow> (Inl (Wrapped ''creating usage record'' e), db)
      | (Inr u, db) \<Rightarrow>
     (case update_rental_session env (clk 6) (settled (clk 5) p s) db of
        (Inl e, db) \<Rightarrow> (Inl (Wrapped ''settling session'' e), db)
      | (Inr u, db) \<Rightarrow>
          (case get_rental_session env (pi_session ids) db of
             Inl e \<Rightarrow> Inl (Wrapped ''reading session back'' e)
           | Inr stored \<Rightarrow> Inr stored, db))))))"

section \<open>The receipt\<close>

text \<open>A receipt as its keys with the texts of their values. \<open>fixed\<close> and \<open>plain\<close> are the texts of a price with six places and of a number, \<open>stamp\<close>
  that of a time.\<close>

record receipt_texts =
  rt_fixed :: "decimal \<Rightarrow> string"
  rt_plain :: "decimal \<Rightarrow> string"
  rt_stamp :: "time \<Rightarrow> string"

type_synonym receipt = "(string \<times> string) list"

definition build_receipt ::
    "receipt_texts \<Rightarrow> daemon_gpu \<Rightarrow> pricing_request \<Rightarrow> pricing_response \<Rightarrow> uuid \<Rightarrow> proof_ids \<Rightarrow> time \<Rightarrow> time \<Rightarrow> receipt" where
  "build_receipt tx g req p job ids started finished =
     [(''schema'', ''dantegpu.rental.receipt/v1''), (''job_id'', uuid_text job), (''session_id'', uuid_text (pi_session ids)),
      (''provider_id'', uuid_text (pi_provider ids)), (''renter_id'', uuid_text (pi_renter ids)), (''gpu_model'', dg_model g),
      (''gpu_vram_mb'', nat_text (unat (dg_vram_total g))), (''gpu_detected_id'', dg_id g), (''pricing_model_key'', pr_gpu_model req),
      (''duration_hours'', rt_plain tx (pr_duration_hours req)), (''total_hourly_rate'', rt_fixed tx (total_hourly_rate p)),
      (''subtotal_usdc'', rt_fixed tx (subtotal_cost p)), (''platform_fee_usdc'', rt_fixed tx (platform_fee p)),
      (''total_cost_usdc'', rt_fixed tx (total_cost p)), (''provider_earn_usdc'', rt_fixed tx (provider_earnings p)),
      (''currency'', ''USDC''), (''settlement'', ''Solana / Covenant Phase 1 (fixed-duration escrow)''),
      (''started_at'', rt_stamp tx started), (''finished_at'', rt_stamp tx finished)]"

definition session_status_text :: "session_status \<Rightarrow> string" where
  "session_status_text s = (case s of
      SessionStatusActive \<Rightarrow> ''active'' | SessionStatusCompleted \<Rightarrow> ''completed'' | SessionStatusCancelled \<Rightarrow> ''cancelled''
    | SessionStatusSuspended \<Rightarrow> ''suspended'' | SessionStatusTerminated \<Rightarrow> ''terminated'')"

definition stored_fields :: "receipt_texts \<Rightarrow> int \<Rightarrow> rental_session \<Rightarrow> receipt" where
  "stored_fields tx seconds s =
     [(''db_session_id'', uuid_text (rs_id s)), (''db_status'', session_status_text (rs_status s)),
      (''db_total_cost_usdc'', rt_fixed tx (rs_total_cost s)), (''db_metered_seconds'', int_text seconds), (''db_read_back'', ''true'')]"

text \<open>The insertion sort of the keys: \<open>place\<close> moves a key from the end of the sorted keys, which stand last first, to its place.\<close>

fun place :: "string \<Rightarrow> string list \<Rightarrow> string list" where
  "place k [] = [k]"
| "place k (x # xs) = (if x > k then x # place k xs else k # x # xs)"

definition sorted_keys :: "string list \<Rightarrow> string list" where
  "sorted_keys ks = rev (foldl (\<lambda>acc k. place k acc) [] ks)"

definition receipt_line :: "receipt \<Rightarrow> string \<Rightarrow> string" where
  "receipt_line r k = k @ ''='' @ the (map_of r k) @ [CHR 0x0A]"

definition canonical_receipt :: "receipt \<Rightarrow> string" where
  "canonical_receipt r = concat (map (receipt_line r) (sorted_keys (filter (\<lambda>k. k \<noteq> ''receipt_sha256'') (map fst r))))"

text \<open>\<open>hash\<close>: the hexadecimal text of the SHA-256 of a text.\<close>

definition sealed_receipt :: "(string \<Rightarrow> string) \<Rightarrow> receipt \<Rightarrow> receipt" where
  "sealed_receipt hash r = r @ [(''receipt_sha256'', hash (canonical_receipt r))]"

definition short_id :: "string \<Rightarrow> string \<Rightarrow> string" where
  "short_id dots i = (if length i \<le> 13 then i else take 6 i @ dots @ drop (length i - 4) i)"

section \<open>Properties\<close>

text \<open>The loop sorts: whatever the order of the keys, the result is the sorted one, so the canonical text is one of the receipt as a map.\<close>

lemma place_keeps: "mset (place k xs) = add_mset k (mset xs)"
  by (induction xs) auto

lemma place_sorted: "sorted_wrt (\<ge>) xs \<Longrightarrow> sorted_wrt (\<ge>) (place k xs)"
proof (induction xs)
  case (Cons x xs)
  have "set (place k xs) = insert k (set xs)" by (metis place_keeps set_mset_add_mset_insert set_mset_mset)
  with Cons show ?case by auto
qed simp

lemma sorted_keys_sort: "sorted_keys ks = sort ks"
proof -
  have "mset (foldl (\<lambda>acc k. place k acc) acc ks) = mset acc + mset ks
      \<and> (sorted_wrt (\<ge>) acc \<longrightarrow> sorted_wrt (\<ge>) (foldl (\<lambda>acc k. place k acc) acc ks))" for acc
    by (induction ks arbitrary: acc) (auto simp: place_keeps place_sorted)
  from this [of "[]"] have "mset (sorted_keys ks) = mset ks" "sorted (sorted_keys ks)"
    by (simp_all add: sorted_keys_def sorted_wrt_rev)
  then show ?thesis by (metis properties_for_sort)
qed

theorem canonical_ignores_order:
  assumes "distinct (map fst r)" "mset r = mset r'"
  shows "canonical_receipt r = canonical_receipt r'"
proof -
  have fsts: "mset (map fst r) = mset (map fst r')" using assms(2) by (simp add: mset_map)
  then have keys: "mset (filter (\<lambda>k. k \<noteq> ''receipt_sha256'') (map fst r)) = mset (filter (\<lambda>k. k \<noteq> ''receipt_sha256'') (map fst r'))"
    by (simp only: mset_filter)
  have "sort (filter (\<lambda>k. k \<noteq> ''receipt_sha256'') (map fst r)) = sort (filter (\<lambda>k. k \<noteq> ''receipt_sha256'') (map fst r'))"
    by (rule properties_for_sort) (simp_all only: mset_sort keys sorted_sort)
  moreover have "distinct (map fst r')" using mset_eq_imp_distinct_iff [OF fsts] assms(1) by simp
  then have "map_of r = map_of r'" using map_of_inject_set [OF assms(1)] mset_eq_setD [OF assms(2)] by simp
  then have "receipt_line r = receipt_line r'" by (simp add: receipt_line_def fun_eq_iff)
  ultimately show ?thesis unfolding canonical_receipt_def sorted_keys_sort by simp
qed

text \<open>The seal is over everything but itself.\<close>

theorem seal_verifies:
  assumes "''receipt_sha256'' \<notin> fst ` set r"
  shows "map_of (sealed_receipt hash r) ''receipt_sha256'' = Some (hash (canonical_receipt (sealed_receipt hash r)))"
proof -
  have own: "filter (\<lambda>k. k \<noteq> ''receipt_sha256'') (map fst r) = map fst r" by (intro filter_True) (use assms in force)
  then have keys: "filter (\<lambda>k. k \<noteq> ''receipt_sha256'') (map fst (sealed_receipt hash r)) = map fst r"
    by (simp add: sealed_receipt_def)
  have "map_of (sealed_receipt hash r) k = map_of r k" if "k \<in> fst ` set r" for k
  proof -
    have "map_of r k \<noteq> None" using that by (simp add: map_of_eq_None_iff)
    then obtain v where "map_of r k = Some v" by blast
    then show ?thesis by (simp add: sealed_receipt_def)
  qed
  then have "canonical_receipt (sealed_receipt hash r) = canonical_receipt r"
    unfolding canonical_receipt_def keys own receipt_line_def
    by (intro arg_cong [where f = concat] map_cong refl) (simp_all add: sorted_keys_sort)
  moreover have "map_of r ''receipt_sha256'' = None" using assms by (simp add: map_of_eq_None_iff)
  ultimately show ?thesis by (simp add: sealed_receipt_def map_add_def)
qed

text \<open>Receipts that differ in any value have different texts, as long as no key holds an equals sign and no value a line break.\<close>

definition plain_receipt :: "receipt \<Rightarrow> bool" where
  "plain_receipt r \<longleftrightarrow> distinct (map fst r)
     \<and> (\<forall>(k, v) \<in> set r. CHR ''='' \<notin> set k \<and> CHR 0x0A \<notin> set k \<and> CHR 0x0A \<notin> set v)"

lemma cut_at:
  "x \<notin> set a \<Longrightarrow> x \<notin> set b \<Longrightarrow> a @ x # c = b @ x # d \<longleftrightarrow> a = b \<and> c = d"
proof (induction a arbitrary: b)
  case Nil
  then show ?case by (cases b) auto
next
  case (Cons y a)
  then show ?case by (cases b) auto
qed

definition pair_line :: "string \<times> string \<Rightarrow> string" where
  "pair_line p = fst p @ CHR ''='' # snd p @ CHR 0x0A # []"

lemma pair_line_conv: "pair_line (k, v) = k @ CHR ''='' # v @ CHR 0x0A # []"
  by (simp add: pair_line_def)

lemma pair_lines_inj:
  assumes "\<forall>(k, v) \<in> set xs. CHR ''='' \<notin> set k \<and> CHR 0x0A \<notin> set v" "\<forall>(k, v) \<in> set ys. CHR ''='' \<notin> set k \<and> CHR 0x0A \<notin> set v"
    "concat (map pair_line xs) = concat (map pair_line ys)"
  shows "xs = ys"
  using assms
proof (induction xs arbitrary: ys)
  case Nil
  then show ?case by (cases ys) (auto simp: pair_line_def)
next
  case (Cons x xs)
  obtain k v where x: "x = (k, v)" by fastforce
  obtain y zs where ys: "ys = y # zs" using Cons.prems(3) by (cases ys) (auto simp: pair_line_def)
  obtain k' v' where y: "y = (k', v')" by fastforce
  have eq: "k @ CHR ''='' # v @ CHR 0x0A # concat (map pair_line xs) = k' @ CHR ''='' # v' @ CHR 0x0A # concat (map pair_line zs)"
    using Cons.prems(3) by (simp add: x ys y pair_line_conv)
  have "CHR ''='' \<notin> set k" "CHR ''='' \<notin> set k'" "CHR 0x0A \<notin> set v" "CHR 0x0A \<notin> set v'" using Cons.prems(1,2) by (simp_all add: x ys y)
  then have "k = k'" "v = v'" "concat (map pair_line xs) = concat (map pair_line zs)"
    using eq cut_at [of "CHR ''=''" k k'] cut_at [of "CHR 0x0A" v v'] by simp_all
  then show ?case using Cons.IH [of zs] Cons.prems(1,2) by (simp add: x ys y)
qed

lemma canonical_as_pairs:
  "canonical_receipt r = concat (map pair_line (map (\<lambda>k. (k, the (map_of r k))) (sort (filter (\<lambda>k. k \<noteq> ''receipt_sha256'') (map fst r)))))"
proof -
  have "receipt_line r = (\<lambda>k. pair_line (k, the (map_of r k)))" by (simp add: fun_eq_iff receipt_line_def pair_line_conv)
  then show ?thesis by (simp add: canonical_receipt_def sorted_keys_sort comp_def)
qed

lemma plain_value:
  assumes "plain_receipt r" "k \<in> fst ` set r"
  shows "CHR ''='' \<notin> set k \<and> CHR 0x0A \<notin> set (the (map_of r k))"
proof -
  obtain v where "(k, v) \<in> set r" using assms(2) by force
  then show ?thesis using assms(1) by (auto simp: plain_receipt_def)
qed

theorem receipts_told_apart:
  assumes "plain_receipt r" "plain_receipt r'" "canonical_receipt r = canonical_receipt r'" "k \<noteq> ''receipt_sha256''"
  shows "map_of r k = map_of r' k"
proof -
  define pairs where "pairs = (\<lambda>q. map (\<lambda>k. (k, the (map_of q k))) (sort (filter (\<lambda>k. k \<noteq> ''receipt_sha256'') (map fst q))) :: receipt)"
  have plain: "\<forall>(k, v) \<in> set (pairs q). CHR ''='' \<notin> set k \<and> CHR 0x0A \<notin> set v" if "plain_receipt q" for q
    using plain_value [OF that] by (auto simp: pairs_def)
  have "pairs r = pairs r'"
    by (rule pair_lines_inj [OF plain plain]) (use assms(1-3) in \<open>simp_all add: canonical_as_pairs pairs_def\<close>)
  moreover have "map_of q k = map_of (pairs q) k" if "plain_receipt q" for q
  proof (cases "k \<in> fst ` set q")
    case True
    then have "map_of q k \<noteq> None" by (simp add: map_of_eq_None_iff)
    then obtain v where "map_of q k = Some v" by blast
    then show ?thesis using True assms(4) by (simp add: pairs_def map_of_map_restrict restrict_map_def)
  next
    case False
    then have "map_of q k = None" by (simp add: map_of_eq_None_iff)
    then show ?thesis using False by (simp add: pairs_def map_of_map_restrict restrict_map_def)
  qed
  ultimately show ?thesis using assms(1,2) by simp
qed

section \<open>What is read back\<close>

text \<open>The session that is read back is the completed one with the price that was quoted, whatever time it ran.\<close>

lemma select_after_update:
  "select_by key k (update_by key k f rs) = map_option f (select_by key k rs)" if "\<And>r. key (f r) = key r"
  using that by (induction rs) (auto simp: update_by_def)

theorem proof_reads_back_price:
  assumes "persist_session dv env opened ids clk g req p db = (Inr s, db')"
  shows "rs_id s = pi_session ids \<and> rs_status s = SessionStatusCompleted \<and> money_col env (total_cost p) = Some (rs_total_cost s)
    \<and> money_col env (platform_fee p) = Some (rs_platform_fee s) \<and> money_col env (provider_earnings p) = Some (rs_provider_earnings s)"
proof -
  obtain d d' where up: "update_rental_session env (clk 6) (settled (clk 5) p (proof_session ids (clk 2) g req p)) d = (Inr (), d')"
    and got: "get_rental_session env (pi_session ids) d' = Inr s"
    using assms by (auto simp: persist_session_def Let_def split: option.splits prod.splits sum.splits)
  let ?s = "settled (clk 5) p (proof_session ids (clk 2) g req p)"
  obtain tc pf pe where m: "money_col env (total_cost p) = Some tc" "money_col env (platform_fee p) = Some pf"
      "money_col env (provider_earnings p) = Some pe"
    and d': "d' = d\<lparr>db_sessions := update_by rs_id (pi_session ids) (set_session ?s (tc, pf, pe) (time_col env) (clk 6)) (db_sessions d)\<rparr>"
    using up by (auto simp: update_rental_session_def settled_def proof_session_def split: if_splits option.splits)
  obtain row where "select_by rs_id (pi_session ids) (db_sessions d) = Some row" "s = set_session ?s (tc, pf, pe) (time_col env) (clk 6) row"
    using got by (auto simp: get_rental_session_def d' select_after_update set_session_def split: if_splits option.splits)
  then show ?thesis using m select_by_SomeD by (fastforce simp: set_session_def settled_def)
qed

end
