(* ===== verification/Spec2Isabelle.thy ===== *)
theory Spec2Isabelle
  imports BillingHandlers ConsumerDemo Extender RegistryDemo AuthDemo GatewayDemo
    DaemonGpuFacts DaemonDemo ServicesDemo SimpleGateway KratosSession SimpleAuth ProviderClaims
    RentalClientFacts RegistryConfig RentalProof
begin

text \<open>
  Verification library for the Go services of DanteGPU: a marketplace on which users rent GPU time
  from providers and pay in a token on the Solana chain.

  \<^bold>\<open>The program.\<close>  The billing and payment service (services/billing-payment-service) keeps wallets,
  transactions, rental sessions, usage records and billing records in PostgreSQL, quotes prices, locks and
  charges the users' balances, pays out on the chain, and mirrors a rental as an escrow in the Covenant program
  on the chain.  The scheduler (services/scheduler-orchestrator-service) takes jobs from a queue, matches them
  to the providers it reads from the registry (services/provider-registry-service) and opens billing sessions;
  it then publishes a task for the provider's daemon.  The authentication service (services/auth-service) keeps users,
  sessions, second factors and API keys; the API gateway (services/api-gateway) takes the requests of the console,
  checks their tokens and passes them to the services.  The provider daemon (clients/provider-daemon) runs on a provider's
  machine: it detects the GPUs, takes tasks from the queue, runs them as scripts or containers, and meters and ends their
  sessions.  Beside these stand smaller servers in one file each, a provider and a renter's client of their own (cmd).

  \<^bold>\<open>Shared theories.\<close>
  \<^item> Prelude: time in nanoseconds, lists, lookups, results (a sum, the error on the left).
  \<^item> GoText: the texts Go prints (numerals, UUIDs), JSON values, splitting and joining of strings.
  \<^item> Decimal: the decimal numbers of the services as rationals.  Division is a parameter (locale
    decimal_division; the instance rounds to 16 places), a NUMERIC(p, s) column is the locale numeric_column,
    the conversion of a duration to hours the locale duration_hours.
  \<^item> Table: a table as a list of rows with a key and a constraint (locale keyed_table), for the five tables.

  \<^bold>\<open>Billing.\<close>
  \<^item> Pricing: internal/pricing/engine.go.  The order in which Go enumerates the rate map is an argument.
  \<^item> BillingErrors, Wallet, Session: internal/models.
  \<^item> BillingStore, PostgresStore: internal/store/schema.go and postgres.go.  The database is the record
    billing_db, a call reads the clock, fresh identifiers and connection failures from the record sql_env, and
    every write is one step of the relation db_step.
  \<^item> Solana: internal/solana/client.go over a record of answers of the RPC node.  The confirmation loop is a
    partial function in the option monad, proved to return.
  \<^item> Covenant: internal/covenant.  The bytes of the instructions are written out; derived addresses, the
    sending of transactions and the indexer are parameters.
  \<^item> BillingService: internal/service/billing.go, every operation a function from the state (database and the
    transactions sent) to a result and a state.  BillingFacts: its properties.  BillingDemo: a concrete environment,
    the witnesses on it, and the properties that exhibit a run.
  \<^item> BillingHandlers: internal/handlers, from the request to the status and the state.

  \<^bold>\<open>Scheduler.\<close>
  \<^item> Jobs, JobStore: internal/models and internal/store; the Go interface of the store is the locale job_store.
  \<^item> Matching: discovery of the registry with its cached address, the provider list, the match and the GPU billed.
  \<^item> Consumer: the billing client, scheduling and handling of a message, the loop over a fetched batch
    (internal/scheduler/consumer.go).  ConsumerFacts: its properties.  ConsumerDemo: a run of a job.
  \<^item> Extender: internal/k8s/scheduler_extender.go over the cluster's API as a parameter.

  \<^bold>\<open>Registry.\<close>
  \<^item> Registry, Retry: providers, errors, the retry loop with its transient errors and its back-off.
  \<^item> RegistryStore, RegistryHandlers: the memory store and the PostgreSQL store, the handlers over either.
  \<^item> RegistryFacts, RegistryClaims, RegistryDemo: their properties and witnesses.
  \<^item> RegistryConfig: internal/config, the file with its defaults and the loaders of secrets; what a loader promises is
    the locale secret_loader, interpreted on the file, on either loader and on the chain.

  \<^bold>\<open>Authentication.\<close>
  \<^item> AuthBase: the tables with failing statements; AuthTokens: pkg/jwt over the signing library (gw_jwt_ok and its
    counterpart there state what the library promises).
  \<^item> AuthLogin, AuthGuard: login, refresh, logout, sessions, lockout; the guards of internal/middleware.
  \<^item> AuthAccounts, AuthAccountFacts: registration, verification, reset and change of passwords; bcrypt is a parameter
    with a salt per call.
  \<^item> AuthTwoFactor, AuthTwoFactorFacts: set up, verification and disabling of second factors, backup codes.
  \<^item> AuthKeys: API keys.  AuthDemo: concrete tables, clock and library, and the witnesses on them.

  \<^bold>\<open>Gateway.\<close>
  \<^item> Gateway: balancer, reverse proxy, forwarding, tokens and guard, origins, authentication routes; GatewayFacts: the
    fairness of the balancer over full rounds, the paths of the proxy, which tokens the guard takes.
  \<^item> GatewayJobs: submission, and how the scheduler decodes what was published.
  \<^item> GatewayBilling: the billing handlers and their client over any transport; billing_server is the transport that is
    the modelled billing service.  GatewayRoutes: the router.  GatewayClaims: what a request through gateway and
    billing service does; GatewayDemo: requests.
  \<^item> GatewayHub: the websocket hub as the step relation hub_step, in which a panic is an outcome.  A broadcast and each call
    of BroadcastToUser or GetUserClientCount take their clients one by one under the read lock, so they overlap; a
    writer takes a frame, adds what is queued, sends it or loses it.  GatewayHubFacts: the invariant hub_inv, the three
    steps that panic, what a client receives.

  \<^bold>\<open>Provider daemon.\<close>
  \<^item> GoPath: the path functions of Go (cleaning, joining), with the climb out of a directory.
  \<^item> DaemonGpu: internal/gpu, the detection of every vendor from what its command prints, the readings, the health
    monitor.  DaemonGpuFacts: when a provider is offline, a printed line read back, what is metered.
  \<^item> DaemonConfig: internal/config and the commands of cmd/daemon/main.go; what a restart makes of saved settings.
  \<^item> DaemonExec: internal/executor over the file system, processes and the container service as parameters; what was
    done is a list of effects, a nil pointer that is used is no result.
  \<^item> DaemonTasks: internal/tasks, internal/nats, internal/billing and the statuses.  A daemon takes messages and runs
    tasks in the steps of daemon_step; a panic is the step to no state.  DaemonFacts: active jobs, sessions, limits.
  \<^item> DaemonClaims: the daemon between scheduler and billing service; DaemonDemo: a daemon and its witnesses.

  \<^bold>\<open>Small services.\<close>
  \<^item> Redis: a key-value store with expiry and the commands the services use, each of which may fail; the law of its
    reads and writes is the locale expiring_store, interpreted on it.  Times to live are sent as the client library
    documents it: a SET in whole milliseconds (precise_ttl), an EXPIRE in whole seconds (whole_seconds); the server's clock
    and the caller's are two.
  \<^item> SessionStore, SessionFacts: the session store, rate limiter and token blacklist of auth-service/internal/session.  A
    session is stored as the JSON object of its struct tags, its strings made UTF-8.
  \<^item> CacheService, CacheFacts: redis-cache-service.  GpuMonitor: gpu-monitoring-service.
    DevicePlugin: dantegpu-device-plugin.  StorageApi: storage-service over the object store's library as a parameter.
  \<^item> RentalService, RentalFacts: rental-service and gpu-service over their tables; requests that overlap are the parts
    of a request in another order.
  \<^item> SimpleGateway, SimpleAuth: the stand-alone servers api-gateway/main-simple.go, auth-service/main-sqlite.go and
    main.go.  KratosSession: ory-kratos-integration.
  \<^item> ServicesDemo: concrete databases and requests for these services.

  \<^bold>\<open>Command-line programs.\<close>
  \<^item> ProviderWorker: a task of cmd/provider/main.go from its workspace to the end of its session, the
    readings, the detection and the heartbeat; what is done to the world is a list of effects, a panic is an outcome, and a
    status that cannot be published is no effect.
    ProviderFacts: how tasks end.  ProviderClaims: the provider in front of the billing service's routes.
  \<^item> RentalClient: cmd/rental/main.go over any server; its wait for a job is a partial function in the option monad.
    RentalClientFacts: when the wait ends and what it makes of the scheduler's answers, the dialogue, the client at the
    gateway's routes.
  \<^item> RentalProof: billing-payment-service/cmd/rental-proof/main.go over the modelled store: what is read back, and that the
    sealed text of a receipt depends on the receipt alone and tells receipts apart.

  \<^bold>\<open>What is shown.\<close>  Every sequence of store writes keeps the schema's constraints, failures included; sessions
  are never lost and their terms never change; a session is charged at most once, when calls do not overlap, and exactly the
  metered cost; a
  start locks exactly the quoted rate; withdrawals are guarded and debit exactly the wallet named; deposits are
  credited exactly when confirmed; the payout crank settles only deliverable jobs; instruction data decodes to
  the fields it was made of; the confirmation loop returns.  A queue message is answered exactly once and its task is
  for the first suitable provider; the job table refines a map; a job is dispatched by the first delivery that can serve
  it.  The registry's store holds exactly the providers that the answered requests describe, and its list is the
  filtered one; a retried operation runs within its bounds.  Lockout, refresh, tokens and keys behave as they
  should; a withdrawal through the gateway is the billing service's withdrawal; the balancer is fair; a client of the
  hub misses nothing while it is registered and its writer runs.  A daemon's active jobs are running, an executed task ends its session exactly
  once and with the right reason, its health follows the last checks, and its detection reads back what is printed.
  A stored session is read back until it expires, a limiter lets exactly its limit through in
  each window of whole seconds, a GPU has one open rental at
  a time when requests do not overlap, a stop of a rental charges its renter once, a task of the stand-alone provider
  asks once for the end of its session and sends at most one last status, and the client's wait returns the first poll that
  ends it.  Where the code does not do what it means to, the behaviour itself is stated
  and proved: quotes that depend on the map order, the fee charged on both sides, an hour's charge that differs from its
  quote, sessions that end unpaid, deposits credited twice, locks that failed starts leave behind, redelivered jobs that run
  twice, providers listed without their address, mailed links that are dead, a second factor that locks its user out and can be
  removed without a code, access tokens that outlive a logout, jobs that lose their user, a proxy that passes the guard,
  prices that are never answered, a ping or a message that ends the gateway, a wait that never learns of the end, dispatched tasks that no daemon runs, a missing container
  service that ends the daemon, an address under which no session is ended, scripts that are written anywhere, sessions
  that outlive a logout everywhere, limits that slow clients meet and quick ones pass, GPUs that stay available when they are
  gone, rentals of one GPU by two, a bucket no route reaches, one wallet for all users, cached sessions that never end,
  failed scripts that are reported as completed, and two programs that no service of the repository answers.

  \<^bold>\<open>Bounds.\<close>  Integers are words of the width the code gives them where they wrap (atomic units, bonds, the
  lengths of instruction fields, the balancer's counter); decimals are exact.  Loops over lists are recursions over them.
  There is no fuel: the loop that waits for a confirmation is bounded by its deadline, the retry loop by its attempts; the
  client's wait for a job has no bound, and when it ends is proved.

  \<^bold>\<open>Interleaving.\<close>  Operations are modelled as the sequence of their statements; where the code reads a row,
  computes and writes it back, the property about a stale write composes the parts in the other order.  In the hub a
  step is what a goroutine does for one client; sections under the write lock are one step, those under a read lock are not.

  \<^bold>\<open>Limits.\<close>  A commit that fails is taken as rolled back, an error code of PostgreSQL has its five characters, and the
  queue connection of the stand-alone provider, which the program never makes, is a field of its environment.

  \<^bold>\<open>Not modelled.\<close>  Logging, metrics, audit records, the JSON text of bodies (but sessions, jobs and the status of a job, whose
  fields are written out), process entries and the other
  configuration files: they read and write and decide nothing the properties depend on.  Of the provider daemon the connection's
  options, draining at its stop and the overview of the host; the templates and the conversation of the mail sender, which
  is a parameter; the websocket connections of the monitoring service and the socket of the device plugin; of the
  stand-alone provider its creation and its tickers, of the renter's client its menu and its chain wallet, which is only read
  at the start; cmd/real-gpu-test, a demonstration that prints what it does, cmd/setup-nats and the mock servers; the
  console, the SQL migrations and the deployment, which are not Go.

  \<^bold>\<open>State.\<close>  The components of the program that keep state and decide are modelled; what is left is named above.
\<close>

end
